(* ===== verification/Prelude.thy ===== *)
theory Prelude
  imports Complex_Main "HOL-Library.List_Lexorder" "HOL-Library.Char_ord"
begin

text \<open>
  What every component shares: the model of the Python data the sources use
  (insertion-ordered dictionaries, \<^verbatim>\<open>collections.Counter\<close>, list slices, floats), the
  values exceptions become, and the contract of a state machine driven by a list of events,
  with the interface of a keyed store that a file per key provides.

  Conventions. A Python \<^verbatim>\<open>dict\<close> is an association list with distinct keys in insertion
  order; a \<^verbatim>\<open>set\<close> whose order is not observed is a list read through membership or a HOL
  set. A \<^verbatim>\<open>float\<close> (a timestamp, a cost, a score) is an exact rational: rounding is not
  modelled. Reading the clock, drawing a random code and making a uuid are arguments of the
  operation that does it.
\<close>

named_theorems dict_simps
named_theorems inv_intros

type_synonym pyfloat = rat

datatype py_error = TypeError | KeyError | ValueError | IndexError | AttributeError

section \<open>Dictionaries\<close>

type_synonym ('k, 'v) dict = "('k \<times> 'v) list"

fun dget :: "('k, 'v) dict \<Rightarrow> 'k \<Rightarrow> 'v option" where
  "dget [] k = None"
| "dget ((a, v) # m) k = (if a = k then Some v else dget m k)"

fun dset :: "('k, 'v) dict \<Rightarrow> 'k \<Rightarrow> 'v \<Rightarrow> ('k, 'v) dict" where
  "dset [] k v = [(k, v)]"
| "dset ((a, w) # m) k v = (if a = k then (a, v) # m else (a, w) # dset m k v)"

fun ddel :: "('k, 'v) dict \<Rightarrow> 'k \<Rightarrow> ('k, 'v) dict" where
  "ddel [] k = []"
| "ddel ((a, w) # m) k = (if a = k then m else (a, w) # ddel m k)"

definition dkeys :: "('k, 'v) dict \<Rightarrow> 'k list" where
  "dkeys m = map fst m"

definition dwf :: "('k, 'v) dict \<Rightarrow> bool" where
  "dwf m \<longleftrightarrow> distinct (dkeys m)"

definition dget_or :: "('k, 'v) dict \<Rightarrow> 'k \<Rightarrow> 'v \<Rightarrow> 'v" where
  "dget_or m k d = (case dget m k of None \<Rightarrow> d | Some v \<Rightarrow> v)"

definition dupdate :: "('k, 'v) dict \<Rightarrow> ('k, 'v) dict \<Rightarrow> ('k, 'v) dict" where
  "dupdate m n = foldl (\<lambda>acc (k, v). dset acc k v) m n"

lemma dget_map_of: "dget m = map_of m"
proof
  show "dget m k = map_of m k" for k by (induction m) auto
qed

lemma dget_dset [simp]: "dget (dset m k v) k' = (if k' = k then Some v else dget m k')"
  by (induction m) auto

lemma dkeys_simps [simp]: "dkeys [] = []" "dkeys (p # m) = fst p # dkeys m"
  by (simp_all add: dkeys_def)

lemma set_dkeys_dset [simp]: "set (dkeys (dset m k v)) = insert k (set (dkeys m))"
  by (induction m k v rule: dset.induct) (simp_all add: insert_commute)

lemma set_dkeys_ddel: "set (dkeys (ddel m k)) \<subseteq> set (dkeys m)"
  by (induction m k rule: ddel.induct) auto

lemma dget_None_iff: "dget m k = None \<longleftrightarrow> k \<notin> set (dkeys m)"
  by (induction m k rule: dget.induct) auto

lemma dget_Some_key: "dget m k = Some v \<Longrightarrow> k \<in> set (dkeys m)"
  using dget_None_iff [of m k] by auto

lemma dget_Some_in: "dget m k = Some v \<Longrightarrow> (k, v) \<in> set m"
  by (induction m) (auto split: if_splits)

lemma dwf_Nil [simp]: "dwf []"
  by (simp add: dwf_def)

lemma dwf_dset [simp, inv_intros]: "dwf m \<Longrightarrow> dwf (dset m k v)"
  by (induction m k v rule: dset.induct) (auto simp: dwf_def)

lemma dwf_ddel [simp, inv_intros]: "dwf m \<Longrightarrow> dwf (ddel m k)"
proof (induction m k rule: ddel.induct)
  case (2 a w m k)
  then show ?case using set_dkeys_ddel [of m k] by (auto simp: dwf_def)
qed simp

lemma set_dset_sub: "set (dset m k v) \<subseteq> insert (k, v) (set m)"
  by (induction m k v rule: dset.induct) auto

lemma set_ddel_sub: "set (ddel m k) \<subseteq> set m"
  by (induction m k rule: ddel.induct) auto

lemma ddel_dset_sub: "set (ddel (dset m k v) k) \<subseteq> set m"
  by (induction m k v rule: dset.induct) auto

lemma set_dset: "dwf m \<Longrightarrow> set (dset m k v) = insert (k, v) {p \<in> set m. fst p \<noteq> k}"
  by (induction m k v rule: dset.induct) (force simp: dwf_def dkeys_def)+

lemma dget_map_values: "dget (map (\<lambda>(k, v). (k, f v)) m) k = map_option f (dget m k)"
  by (induction m) auto

lemma dget_ddel: "dwf m \<Longrightarrow> dget (ddel m k) k' = (if k' = k then None else dget m k')"
  by (induction m k rule: ddel.induct) (auto simp: dwf_def dget_None_iff)

lemma dget_iff_in: "dwf m \<Longrightarrow> dget m k = Some v \<longleftrightarrow> (k, v) \<in> set m"
  by (auto simp: dget_map_of dwf_def dkeys_def)

lemma dkeys_dset_present: "k \<in> set (dkeys m) \<Longrightarrow> dkeys (dset m k v) = dkeys m"
  by (induction m) auto

lemma dkeys_dset_new: "k \<notin> set (dkeys m) \<Longrightarrow> dkeys (dset m k v) = dkeys m @ [k]"
  by (induction m) auto

lemma length_dset: "length (dset m k v) = (if k \<in> set (dkeys m) then length m else Suc (length m))"
  by (induction m) auto

lemma dset_same: "dget m k = Some v \<Longrightarrow> dset m k v = m"
  by (induction m) (auto split: if_splits)

lemma dget_dupdate:
  "dget (dupdate m n) k = (case map_of (rev n) k of None \<Rightarrow> dget m k | Some v \<Rightarrow> Some v)"
proof (induction n rule: rev_induct)
  case (snoc p n)
  then show ?case by (cases p) (simp add: dupdate_def)
qed (simp add: dupdate_def)

lemma dget_or_dset [simp]: "dget_or (dset m k v) k' d = (if k' = k then v else dget_or m k' d)"
  by (simp add: dget_or_def)

lemmas dict_lookup = dget_dset dget_ddel dget_None_iff dget_or_def

section \<open>Counters, slices and small list operations\<close>

definition counter :: "'a list \<Rightarrow> ('a, nat) dict" where
  "counter xs = foldl (\<lambda>m x. dset m x (dget_or m x 0 + 1)) [] xs"

lemma counter_snoc: "counter (xs @ [x]) = dset (counter xs) x (dget_or (counter xs) x 0 + 1)"
  by (simp add: counter_def)

lemma dget_counter: "dget (counter xs) x = (if x \<in> set xs then Some (count_list xs x) else None)"
proof (induction xs arbitrary: x rule: rev_induct)
  case (snoc y ys)
  then show ?case by (auto simp: counter_snoc dget_or_def)
qed (simp add: counter_def)

lemma dwf_counter [simp]: "dwf (counter xs)"
  by (induction xs rule: rev_induct) (simp_all add: counter_snoc, simp add: counter_def)

lemma set_dkeys_counter: "set (dkeys (counter xs)) = set xs"
proof (rule set_eqI)
  show "x \<in> set (dkeys (counter xs)) \<longleftrightarrow> x \<in> set xs" for x
    using dget_counter [of xs x] dget_None_iff [of "counter xs" x] by (auto split: if_splits)
qed

lemma counter_in_iff: "(x, n) \<in> set (counter xs) \<longleftrightarrow> x \<in> set xs \<and> n = count_list xs x"
  using dget_iff_in [OF dwf_counter [of xs], of x n] by (auto simp: dget_counter split: if_splits)

text \<open>\<^verbatim>\<open>xs[i:]\<close> for any integer \<^verbatim>\<open>i\<close>; the sources use it as \<^verbatim>\<open>xs[-n:]\<close>.\<close>

definition slice_from :: "int \<Rightarrow> 'a list \<Rightarrow> 'a list" where
  "slice_from i xs =
     drop (nat (if i < 0 then max 0 (int (length xs) + i) else i)) xs"

definition slice_to :: "int \<Rightarrow> 'a list \<Rightarrow> 'a list" where
  "slice_to i xs = take (nat (if 0 \<le> i then i else int (length xs) + i)) xs"

lemma slice_from_suffix: "\<exists>ys. xs = ys @ slice_from i xs"
  unfolding slice_from_def by (metis append_take_drop_id)

lemma set_slice_from: "set (slice_from i xs) \<subseteq> set xs"
  unfolding slice_from_def by (rule set_drop_subset)

lemma length_slice_last: "0 < n \<Longrightarrow> length (slice_from (- int n) xs) = min n (length xs)"
  by (auto simp: slice_from_def)

lemma slice_last_short: "length xs \<le> n \<Longrightarrow> slice_from (- int n) xs = xs"
  by (auto simp: slice_from_def)

fun find_first :: "('a \<Rightarrow> bool) \<Rightarrow> 'a list \<Rightarrow> 'a option" where
  "find_first P [] = None"
| "find_first P (x # xs) = (if P x then Some x else find_first P xs)"

lemma find_first_None [simp]: "find_first P xs = None \<longleftrightarrow> (\<forall>x \<in> set xs. \<not> P x)"
  by (induction xs) auto

lemma find_first_Some: "find_first P xs = Some x \<Longrightarrow> x \<in> set xs \<and> P x"
  by (induction xs) (auto split: if_splits)

lemma find_first_split:
  "find_first P xs = Some x \<Longrightarrow> \<exists>us vs. xs = us @ x # vs \<and> P x \<and> (\<forall>u \<in> set us. \<not> P u)"
proof (induction xs)
  case (Cons y ys)
  show ?case
  proof (cases "P y")
    case True
    with Cons.prems have "y # ys = [] @ x # ys \<and> P x" by simp
    then show ?thesis by fastforce
  next
    case False
    with Cons obtain us vs where "ys = us @ x # vs" "P x" "\<forall>u \<in> set us. \<not> P u" by auto
    with False have "y # ys = (y # us) @ x # vs \<and> P x \<and> (\<forall>u \<in> set (y # us). \<not> P u)" by simp
    then show ?thesis by blast
  qed
qed simp

definition unique_keep_first :: "'a list \<Rightarrow> 'a list" where
  "unique_keep_first xs = foldl (\<lambda>acc x. if x \<in> set acc then acc else acc @ [x]) [] xs"

lemma unique_keep_first_aux:
  "set (foldl (\<lambda>acc x. if x \<in> set acc then acc else acc @ [x]) acc xs) = set acc \<union> set xs \<and>
   (distinct acc \<longrightarrow> distinct (foldl (\<lambda>acc x. if x \<in> set acc then acc else acc @ [x]) acc xs))"
  by (induction xs arbitrary: acc) auto

lemma set_unique_keep_first [simp]: "set (unique_keep_first xs) = set xs"
  by (simp add: unique_keep_first_def unique_keep_first_aux)

lemma distinct_unique_keep_first [simp]: "distinct (unique_keep_first xs)"
  using unique_keep_first_aux [of "[]" xs] by (simp add: unique_keep_first_def)

text \<open>\<^verbatim>\<open>x or d\<close> for an optional string: \<^verbatim>\<open>None\<close> and the empty string are falsy.\<close>

definition str_or :: "string option \<Rightarrow> string \<Rightarrow> string" where
  "str_or x d = (case x of None \<Rightarrow> d | Some s \<Rightarrow> if s = [] then d else s)"

section \<open>Machines: a step function, an invariant, runs\<close>

text \<open>
  The shared contract of the stateful components: an invariant that the initial state has and
  every event keeps holds after any run of events, whatever their order.
\<close>

fun run_events :: "('s \<Rightarrow> 'e \<Rightarrow> 's) \<Rightarrow> 's \<Rightarrow> 'e list \<Rightarrow> 's" where
  "run_events f s [] = s"
| "run_events f s (e # es) = run_events f (f s e) es"

lemma run_events_append: "run_events f s (xs @ ys) = run_events f (run_events f s xs) ys"
  by (induction xs arbitrary: s) auto

locale machine =
  fixes step :: "'s \<Rightarrow> 'e \<Rightarrow> 's"
    and start :: "'s \<Rightarrow> bool"
    and inv :: "'s \<Rightarrow> bool"
  assumes start_inv: "start s \<Longrightarrow> inv s"
    and step_inv: "inv s \<Longrightarrow> inv (step s e)"
begin

lemma run_inv: "inv s \<Longrightarrow> inv (run_events step s es)"
  by (induction es arbitrary: s) (auto intro: step_inv)

lemma run_from_start: "start s \<Longrightarrow> inv (run_events step s es)"
  by (intro run_inv start_inv)

lemma run_monotone:
  assumes "\<And>s e. inv s \<Longrightarrow> (m s :: nat) \<le> m (step s e)" and "inv s"
  shows "m s \<le> m (run_events step s es)"
  using assms(2)
proof (induction es arbitrary: s)
  case (Cons e es)
  from Cons.prems have "m s \<le> m (step s e)" by (rule assms(1))
  also from Cons step_inv have "\<dots> \<le> m (run_events step (step s e) es)" by blast
  finally show ?case by simp
qed simp

end

text \<open>
  A store keyed by name, the contract a directory with one JSON file per key gives its
  clients: a load after a save sees the saved value, and no other key is disturbed.
\<close>

locale keyed_store =
  fixes load :: "'st \<Rightarrow> 'k \<Rightarrow> 'v option"
    and save :: "'st \<Rightarrow> 'k \<Rightarrow> 'v \<Rightarrow> 'st"
  assumes load_save_same: "load (save st k v) k = Some v"
    and load_save_other: "k' \<noteq> k \<Longrightarrow> load (save st k v) k' = load st k'"
begin

lemma load_save: "load (save st k v) k' = (if k' = k then Some v else load st k')"
  by (simp add: load_save_same load_save_other)

lemma update_in_place:
  assumes "load st k = Some v"
  shows "load (save st k (f v)) k = Some (f v)" and "{j. load (save st k (f v)) j \<noteq> None} = {j. load st j \<noteq> None}"
  using assms by (auto simp: load_save)

end

interpretation dstore: keyed_store dget dset
  by unfold_locales auto

end
