(* ===== verification/PyStr.thy ===== *)
theory PyStr
  imports Prelude
begin

text \<open>
  The part of Python's \<^verbatim>\<open>str\<close>, \<^verbatim>\<open>shlex\<close> and \<^verbatim>\<open>pathlib\<close> the sources use. A
  \<^verbatim>\<open>str\<close> is a \<open>string\<close>: code points below 256, on which lowering, white space, word
  characters and \<^verbatim>\<open>repr\<close> follow Python's Unicode tables. Substring tests, prefixes,
  splitting, joining, stripping, decimal numerals, POSIX path normalisation and the POSIX
  tokeniser of \<^verbatim>\<open>shlex.split\<close> are functions; the lemmas say what a substring test
  decides and how the tests behave under concatenation.
\<close>

abbreviation ord_of :: "char \<Rightarrow> nat" where
  "ord_of c \<equiv> of_char c"

section \<open>Characters\<close>

definition lower_char :: "char \<Rightarrow> char" where
  "lower_char c =
     (let n = ord_of c in
      if 65 \<le> n \<and> n \<le> 90 \<or> 192 \<le> n \<and> n \<le> 222 \<and> n \<noteq> 215 then char_of (n + 32) else c)"

definition upper_char :: "char \<Rightarrow> char" where
  "upper_char c =
     (let n = ord_of c in
      if 97 \<le> n \<and> n \<le> 122 \<or> 224 \<le> n \<and> n \<le> 254 \<and> n \<noteq> 247 then char_of (n - 32) else c)"

definition is_space :: "char \<Rightarrow> bool" where
  "is_space c =
     (let n = ord_of c in 9 \<le> n \<and> n \<le> 13 \<or> 28 \<le> n \<and> n \<le> 32 \<or> n = 133 \<or> n = 160)"

definition is_word :: "char \<Rightarrow> bool" where
  "is_word c =
     (let n = ord_of c in
      48 \<le> n \<and> n \<le> 57 \<or> 65 \<le> n \<and> n \<le> 90 \<or> n = 95 \<or> 97 \<le> n \<and> n \<le> 122
      \<or> n = 170 \<or> n = 178 \<or> n = 179 \<or> n = 181 \<or> n = 185 \<or> n = 186
      \<or> 188 \<le> n \<and> n \<le> 190 \<or> 192 \<le> n \<and> n \<le> 214 \<or> 216 \<le> n \<and> n \<le> 246 \<or> 248 \<le> n)"

definition is_ascii_alnum :: "char \<Rightarrow> bool" where
  "is_ascii_alnum c =
     (let n = ord_of c in 48 \<le> n \<and> n \<le> 57 \<or> 65 \<le> n \<and> n \<le> 90 \<or> 97 \<le> n \<and> n \<le> 122)"

definition is_printable :: "char \<Rightarrow> bool" where
  "is_printable c =
     (let n = ord_of c in 32 \<le> n \<and> n \<le> 126 \<or> 161 \<le> n \<and> n \<le> 172 \<or> 174 \<le> n)"

text \<open>Evaluation on the bits of a character, so that closed instances evaluate quickly.\<close>

lemma lower_char_bits [code]:
  "lower_char (Char b0 b1 b2 b3 b4 b5 b6 b7) =
     (if b6 \<and> \<not> b5 \<and>
         (if b7 then \<not> (b0 \<and> b1 \<and> b2 \<and> b3 \<and> b4) \<and> \<not> (b0 \<and> b1 \<and> b2 \<and> \<not> b3 \<and> b4)
          else (b0 \<or> b1 \<or> b2 \<or> b3 \<or> b4) \<and> \<not> (b4 \<and> b3 \<and> (b2 \<or> b1 \<and> b0)))
      then Char b0 b1 b2 b3 b4 True b6 b7 else Char b0 b1 b2 b3 b4 b5 b6 b7)"
  by (cases b0; cases b1; cases b2; cases b3; cases b4; cases b5; cases b6; cases b7)
    (simp_all add: lower_char_def char_of_def bit_iff_odd)

lemma upper_char_bits [code]:
  "upper_char (Char b0 b1 b2 b3 b4 b5 b6 b7) =
     (if b6 \<and> b5 \<and>
         (if b7 then \<not> (b0 \<and> b1 \<and> b2 \<and> b3 \<and> b4) \<and> \<not> (b0 \<and> b1 \<and> b2 \<and> \<not> b3 \<and> b4)
          else (b0 \<or> b1 \<or> b2 \<or> b3 \<or> b4) \<and> \<not> (b4 \<and> b3 \<and> (b2 \<or> b1 \<and> b0)))
      then Char b0 b1 b2 b3 b4 False b6 b7 else Char b0 b1 b2 b3 b4 b5 b6 b7)"
  by (cases b0; cases b1; cases b2; cases b3; cases b4; cases b5; cases b6; cases b7)
    (simp_all add: upper_char_def char_of_def bit_iff_odd)

lemma is_space_code [code]:
  "is_space c \<longleftrightarrow> c \<in> set [CHR 0x20, CHR 0x0A, CHR 0x09, CHR 0x0B, CHR 0x0C, CHR 0x0D, CHR 0x1C,
     CHR 0x1D, CHR 0x1E, CHR 0x1F, CHR 0x85, CHR 0xA0]"
proof (cases c)
  case (Char b0 b1 b2 b3 b4 b5 b6 b7)
  then show ?thesis
    by (cases b0; cases b1; cases b2; cases b3; cases b4; cases b5; cases b6; cases b7)
      (simp_all add: is_space_def)
qed
lemma is_word_bits [code]:
  "is_word (Char b0 b1 b2 b3 b4 b5 b6 b7) =
     (if b7 then
        (let n = ord_of (Char b0 b1 b2 b3 b4 b5 b6 b7)
         in n = 170 \<or> n = 178 \<or> n = 179 \<or> n = 181 \<or> n = 185 \<or> n = 186
           \<or> 188 \<le> n \<and> n \<le> 190 \<or> 192 \<le> n \<and> n \<le> 214 \<or> 216 \<le> n \<and> n \<le> 246 \<or> 248 \<le> n)
      else if b6 then
        (b0 \<or> b1 \<or> b2 \<or> b3 \<or> b4) \<and> \<not> (b4 \<and> b3 \<and> (b2 \<or> b1 \<and> b0)) \<or>
        \<not> b5 \<and> b0 \<and> b1 \<and> b2 \<and> b3 \<and> b4
      else b5 \<and> b4 \<and> (b3 \<longrightarrow> \<not> b2 \<and> \<not> b1))"
  by (cases b0; cases b1; cases b2; cases b3; cases b4; cases b5; cases b6; cases b7)
    (simp_all add: is_word_def)

lemma space_not_word: "is_space c \<Longrightarrow> \<not> is_word c"
  by (auto simp: is_space_def is_word_def Let_def)

section \<open>Substrings and prefixes\<close>

fun starts :: "string \<Rightarrow> string \<Rightarrow> bool" where
  "starts s [] = True"
| "starts [] (p # ps) = False"
| "starts (c # s) (p # ps) = (c = p \<and> starts s ps)"

fun contains :: "string \<Rightarrow> string \<Rightarrow> bool" where
  "contains [] p = (p = [])"
| "contains (c # s) p = (starts (c # s) p \<or> contains s p)"

lemma starts_iff: "starts s p \<longleftrightarrow> (\<exists>v. s = p @ v)"
  by (induction s p rule: starts.induct) auto

lemma starts_Nil_iff: "starts [] p \<longleftrightarrow> p = []"
  by (cases p) auto

lemma contains_iff: "contains s p \<longleftrightarrow> (\<exists>u v. s = u @ p @ v)"
proof (induction s)
  case (Cons c s)
  have "(\<exists>u v. c # s = u @ p @ v) \<longleftrightarrow> (\<exists>v. c # s = p @ v) \<or> (\<exists>u v. s = u @ p @ v)"
    by (metis append_Cons append_eq_Cons_conv append_Nil)
  with Cons show ?case by (simp add: starts_iff)
qed simp

lemma contains_appendI1: "contains s p \<Longrightarrow> contains (s @ t) p"
  unfolding contains_iff by (metis append.assoc)

lemma contains_appendI2: "contains t p \<Longrightarrow> contains (s @ t) p"
  unfolding contains_iff by (metis append.assoc)

lemma contains_refl [simp]: "contains s s"
  unfolding contains_iff by (rule exI [of _ "[]"], rule exI [of _ "[]"]) simp

lemma contains_trans: "contains s t \<Longrightarrow> contains t u \<Longrightarrow> contains s u"
  unfolding contains_iff by (metis append.assoc)

lemma contains_single: "contains s [c] \<longleftrightarrow> c \<in> set s"
  unfolding contains_iff by (auto dest: split_list)

lemma contains_set: "contains s p \<Longrightarrow> set p \<subseteq> set s"
  unfolding contains_iff by auto

definition any_in :: "string list \<Rightarrow> string \<Rightarrow> bool" where
  "any_in ws s = list_ex (contains s) ws"

lemma any_in_iff: "any_in ws s \<longleftrightarrow> (\<exists>w \<in> set ws. contains s w)"
  by (simp add: any_in_def list_ex_iff)

section \<open>Case, stripping, splitting, joining\<close>

definition py_lower :: "string \<Rightarrow> string" where
  "py_lower s = map lower_char s"

definition py_upper :: "string \<Rightarrow> string" where
  "py_upper s = map upper_char s"

lemma length_py_lower [simp]: "length (py_lower s) = length s"
  by (simp add: py_lower_def)

lemma py_lower_append: "py_lower (s @ t) = py_lower s @ py_lower t"
  by (simp add: py_lower_def)

lemma py_lower_Nil_iff [simp]: "py_lower s = [] \<longleftrightarrow> s = []"
  by (simp add: py_lower_def)

lemma contains_py_lower: "contains s p \<Longrightarrow> contains (py_lower s) (py_lower p)"
  unfolding contains_iff by (metis py_lower_append)

definition lstrip :: "string \<Rightarrow> string" where
  "lstrip s = dropWhile is_space s"

definition strip :: "string \<Rightarrow> string" where
  "strip s = rev (dropWhile is_space (rev (lstrip s)))"

definition rstrip_chars :: "string \<Rightarrow> string \<Rightarrow> string" where
  "rstrip_chars cs s = rev (dropWhile (\<lambda>c. c \<in> set cs) (rev s))"

lemma strip_sub: "\<exists>u v. s = u @ strip s @ v"
proof -
  obtain u where u: "s = u @ lstrip s" unfolding lstrip_def by (metis takeWhile_dropWhile_id)
  obtain w where "rev (lstrip s) = w @ dropWhile is_space (rev (lstrip s))"
    by (metis takeWhile_dropWhile_id)
  then have "lstrip s = strip s @ rev w" unfolding strip_def by (metis rev_append rev_rev_ident)
  with u show ?thesis by metis
qed

lemma dropWhile_all: "(\<forall>c \<in> set (dropWhile P s). P c) \<longleftrightarrow> (\<forall>c \<in> set s. P c)"
  by (induction s) auto

lemma strip_Nil_iff: "strip s = [] \<longleftrightarrow> (\<forall>c \<in> set s. is_space c)"
  unfolding strip_def lstrip_def rev_is_Nil_conv dropWhile_eq_Nil_conv set_rev
  by (rule dropWhile_all)

lemma ord_of_less: "(ord_of c :: nat) < 256"
  using range_nat_of_char by (metis atLeastLessThan_iff rangeI)

lemma ord_of_lower: "ord_of (lower_char c) =
    (let n = (ord_of c :: nat) in if 65 \<le> n \<and> n \<le> 90 \<or> 192 \<le> n \<and> n \<le> 222 \<and> n \<noteq> 215 then n + 32 else n)"
  using ord_of_less [of c] by (auto simp: lower_char_def Let_def)

lemma is_space_lower [simp]: "is_space (lower_char c) = is_space c"
  unfolding is_space_def ord_of_lower Let_def by auto

lemma lower_char_idem [simp]: "lower_char (lower_char c) = lower_char c"
  using ord_of_lower [of c] unfolding lower_char_def [of "lower_char c"] Let_def by (auto split: if_splits)

lemma py_lower_idem [simp]: "py_lower (py_lower s) = py_lower s"
  by (simp add: py_lower_def)

definition trimmed :: "string \<Rightarrow> bool" where
  "trimmed s \<longleftrightarrow> s = [] \<or> \<not> is_space (hd s) \<and> \<not> is_space (last s)"

lemma dropWhile_hd: "xs = [] \<or> \<not> P (hd xs) \<Longrightarrow> dropWhile P xs = xs"
  by (cases xs) auto

lemma strip_trimmed_id: "trimmed s \<Longrightarrow> strip s = s"
  unfolding trimmed_def strip_def lstrip_def
  using dropWhile_hd [of s is_space] dropWhile_hd [of "rev s" is_space] by (auto simp: hd_rev)

lemma trimmed_strip: "trimmed (strip s)"
proof (cases "strip s = []")
  case False
  let ?l = "dropWhile is_space s"
  have l: "?l \<noteq> []" using False by (simp only: strip_def lstrip_def) fastforce
  have h: "\<not> is_space (hd ?l)" using hd_dropWhile l by blast
  have r: "dropWhile is_space (rev ?l) \<noteq> []" using False by (simp add: strip_def lstrip_def)
  then have "\<not> is_space (hd (dropWhile is_space (rev ?l)))" using hd_dropWhile by blast
  then have la: "\<not> is_space (last (strip s))"
    using r by (simp add: strip_def lstrip_def last_rev)
  obtain w where w: "rev ?l = w @ dropWhile is_space (rev ?l)"
    by (metis takeWhile_dropWhile_id)
  then have "?l = strip s @ rev w" unfolding strip_def lstrip_def by (metis rev_append rev_rev_ident)
  then have "hd (strip s) = hd ?l" using False by (metis hd_append2)
  with h la show ?thesis by (simp add: trimmed_def)
qed (simp add: trimmed_def)

lemma strip_idem [simp]: "strip (strip s) = strip s"
  by (rule strip_trimmed_id [OF trimmed_strip])

lemma strip_lower_strip [simp]: "strip (py_lower (strip s)) = py_lower (strip s)"
proof (rule strip_trimmed_id)
  show "trimmed (py_lower (strip s))"
    using trimmed_strip [of s] by (auto simp: trimmed_def py_lower_def hd_map last_map)
qed

text \<open>\<^verbatim>\<open>s.split()\<close>: the maximal runs of non-white characters.\<close>

fun split_ws_acc :: "string \<Rightarrow> string \<Rightarrow> string list" where
  "split_ws_acc w [] = (if w = [] then [] else [rev w])"
| "split_ws_acc w (c # s) =
     (if is_space c then (if w = [] then split_ws_acc [] s else rev w # split_ws_acc [] s)
      else split_ws_acc (c # w) s)"

definition split_ws :: "string \<Rightarrow> string list" where
  "split_ws s = split_ws_acc [] s"

definition word_like :: "string \<Rightarrow> bool" where
  "word_like t \<longleftrightarrow> t \<noteq> [] \<and> (\<forall>c \<in> set t. \<not> is_space c)"

lemma split_ws_acc_words:
  "\<forall>c \<in> set w. \<not> is_space c \<Longrightarrow> list_all word_like (split_ws_acc w s)"
proof (induction s arbitrary: w)
  case Nil
  then show ?case by (simp add: word_like_def)
next
  case (Cons c s)
  have white: "list_all word_like (split_ws_acc [] s)" by (rule Cons.IH) simp
  show ?case
  proof (cases "is_space c")
    case True
    with white Cons.prems show ?thesis by (cases "w = []") (simp_all add: word_like_def [of "rev w"])
  next
    case False
    with Cons.prems have "list_all word_like (split_ws_acc (c # w) s)" by (intro Cons.IH) simp
    with False show ?thesis by simp
  qed
qed

lemma split_ws_words: "t \<in> set (split_ws s) \<Longrightarrow> word_like t"
  using split_ws_acc_words [of "[]" s] by (simp add: split_ws_def list_all_iff)

fun split_on_acc :: "char \<Rightarrow> string \<Rightarrow> string \<Rightarrow> string list" where
  "split_on_acc d w [] = [rev w]"
| "split_on_acc d w (c # s) =
     (if c = d then rev w # split_on_acc d [] s else split_on_acc d (c # w) s)"

definition split_on :: "char \<Rightarrow> string \<Rightarrow> string list" where
  "split_on d s = split_on_acc d [] s"

fun join :: "string \<Rightarrow> string list \<Rightarrow> string" where
  "join sep [] = []"
| "join sep [x] = x"
| "join sep (x # y # ys) = x @ sep @ join sep (y # ys)"

lemma split_on_acc_nonempty: "split_on_acc d w s \<noteq> []"
  by (induction d w s rule: split_on_acc.induct) auto

lemma join_split_on_acc: "join [d] (split_on_acc d w s) = rev w @ s"
proof (induction d w s rule: split_on_acc.induct)
  case (2 d w c s)
  then show ?case
    using split_on_acc_nonempty [of d "[]" s] by (cases "split_on_acc d [] s") auto
qed simp

lemma join_split_on [simp]: "join [d] (split_on d s) = s"
  by (simp add: split_on_def join_split_on_acc)

section \<open>Numerals and repr\<close>

fun nat_str :: "nat \<Rightarrow> string" where
  "nat_str n = (if n < 10 then [char_of (48 + n)] else nat_str (n div 10) @ [char_of (48 + n mod 10)])"

declare nat_str.simps [simp del]

lemma nat_str_nonempty [simp]: "nat_str n \<noteq> []"
  by (subst nat_str.simps) simp

definition int_str :: "int \<Rightarrow> string" where
  "int_str i = (if i < 0 then CHR ''-'' # nat_str (nat (- i)) else nat_str (nat i))"

definition hex_digit :: "nat \<Rightarrow> char" where
  "hex_digit n = (if n < 10 then char_of (48 + n) else char_of (87 + n))"

definition repr_char :: "char \<Rightarrow> char \<Rightarrow> string" where
  "repr_char q c =
     (if c = q \<or> c = CHR 0x5C then [CHR 0x5C, c]
      else if c = CHR 0x09 then [CHR 0x5C, CHR ''t'']
      else if c = CHR 0x0A then [CHR 0x5C, CHR ''n'']
      else if c = CHR 0x0D then [CHR 0x5C, CHR ''r'']
      else if is_printable c then [c]
      else [CHR 0x5C, CHR ''x'', hex_digit (ord_of c div 16), hex_digit (ord_of c mod 16)])"

definition py_repr :: "string \<Rightarrow> string" where
  "py_repr s =
     (let q = (if CHR 0x27 \<in> set s \<and> CHR 0x22 \<notin> set s then CHR 0x22 else CHR 0x27)
      in q # concat (map (repr_char q) s) @ [q])"

definition list_repr :: "string list \<Rightarrow> string" where
  "list_repr xs = ''['' @ join '', '' (map py_repr xs) @ '']''"

section \<open>Paths\<close>

text \<open>
  \<^verbatim>\<open>str(PurePosixPath(s))\<close>: empty and \<^verbatim>\<open>.\<close> components go, one slash between
  the others, the root kept (two leading slashes are a root of their own, three are one).
\<close>

definition path_root :: "string \<Rightarrow> string" where
  "path_root s =
     (if starts s ''//'' \<and> \<not> starts s ''///'' then ''//'' else if starts s ''/'' then ''/'' else [])"

definition path_parts :: "string \<Rightarrow> string list" where
  "path_parts s = filter (\<lambda>p. p \<noteq> [] \<and> p \<noteq> ''.'') (split_on (CHR ''/'') s)"

definition path_str :: "string \<Rightarrow> string" where
  "path_str s =
     (let t = path_root s @ join ''/'' (path_parts s) in if t = [] then ''.'' else t)"

text \<open>The last component, its suffix (with the dot, unless the dot is first or last), and its stem.\<close>

definition path_name :: "string \<Rightarrow> string" where
  "path_name p = (case rev (path_parts p) of [] \<Rightarrow> [] | n # _ \<Rightarrow> n)"

definition name_suffix :: "string \<Rightarrow> string" where
  "name_suffix n =
     (let ext = takeWhile (\<lambda>c. c \<noteq> CHR ''.'') (rev n); i = length n - length ext - 1
      in if CHR ''.'' \<in> set n \<and> 0 < i \<and> ext \<noteq> [] then drop i n else [])"

definition path_suffix :: "string \<Rightarrow> string" where
  "path_suffix p = name_suffix (path_name p)"

definition path_stem :: "string \<Rightarrow> string" where
  "path_stem p = take (length (path_name p) - length (path_suffix p)) (path_name p)"

lemma split_on_acc_join:
  assumes "d \<notin> set x"
  shows "split_on_acc d w (x @ d # s) = (rev w @ x) # split_on_acc d [] s"
  using assms by (induction x arbitrary: w) auto

lemma split_on_acc_last: "d \<notin> set x \<Longrightarrow> split_on_acc d w x = [rev w @ x]"
  by (induction x arbitrary: w) auto

lemma split_on_join:
  assumes "ps \<noteq> []" "\<forall>p \<in> set ps. d \<notin> set p"
  shows "split_on d (join [d] ps) = ps"
  using assms
proof (induction ps)
  case (Cons p ps)
  show ?case
  proof (cases ps)
    case Nil
    with Cons.prems show ?thesis by (simp add: split_on_def split_on_acc_last)
  next
    case (Cons q qs)
    with Cons.prems Cons.IH show ?thesis by (simp add: split_on_def split_on_acc_join)
  qed
qed simp

lemma split_on_acc_parts: "d \<notin> set w \<Longrightarrow> p \<in> set (split_on_acc d w s) \<Longrightarrow> d \<notin> set p"
  by (induction d w s rule: split_on_acc.induct) (auto split: if_splits)

lemma split_on_parts: "p \<in> set (split_on d s) \<Longrightarrow> d \<notin> set p"
  by (simp add: split_on_def split_on_acc_parts [of d "[]"])

lemma split_on_slash: "split_on d (d # s) = [] # split_on d s"
  by (simp add: split_on_def)

lemma path_parts_idem: "path_parts (path_str s) = path_parts s"
proof -
  have j: "path_parts (join ''/'' (path_parts s)) = path_parts s"
  proof (cases "path_parts s = []")
    case False
    have "\<forall>p \<in> set (path_parts s). CHR ''/'' \<notin> set p"
      by (auto simp: path_parts_def dest: split_on_parts)
    from split_on_join [OF False this]
    have "path_parts (join ''/'' (path_parts s)) = filter (\<lambda>p. p \<noteq> [] \<and> p \<noteq> ''.'') (path_parts s)"
      by (simp add: path_parts_def)
    then show ?thesis by (simp add: path_parts_def)
  qed (simp add: path_parts_def split_on_def)
  have slash: "path_parts (CHR ''/'' # t) = path_parts t" for t
    by (simp add: path_parts_def split_on_slash)
  have r: "path_root s \<in> {[], ''/'', ''//''}" by (simp add: path_root_def)
  with j slash have "path_parts (path_root s @ join ''/'' (path_parts s)) = path_parts s" by auto
  moreover have "path_parts ''.'' = []" "path_parts [] = []" by (simp_all add: path_parts_def split_on_def)
  ultimately show ?thesis by (auto simp: path_str_def Let_def)
qed

lemma path_str_idem [simp]: "path_str (path_str s) = path_str s"
proof -
  let ?t = "path_root s @ join ''/'' (path_parts s)"
  have hd: "\<not> starts (join ''/'' (path_parts s)) ''/''"
  proof (cases "path_parts s")
    case (Cons p ps)
    then have "p \<in> set (path_parts s)" by simp
    then have "p \<noteq> []" "CHR ''/'' \<notin> set p"
      using split_on_parts [of p "CHR ''/''" s] by (auto simp: path_parts_def)
    then show ?thesis using Cons by (cases p; cases ps) auto
  qed simp
  have root: "path_root ?t = path_root s" if "?t \<noteq> []"
  proof -
    have "path_root s = [] \<or> path_root s = ''/'' \<or> path_root s = ''//''" by (simp add: path_root_def)
    then show ?thesis
      using hd by (cases "join ''/'' (path_parts s)") (auto simp: path_root_def)
  qed
  show ?thesis
  proof (cases "?t = []")
    case True
    then have "path_str s = ''.''" by (simp add: path_str_def)
    moreover have "path_str ''.'' = ''.''" by code_simp
    ultimately show ?thesis by simp
  next
    case False
    then have s: "path_str s = ?t" by (simp add: path_str_def Let_def)
    have "path_parts ?t = path_parts s" using path_parts_idem [of s] s by simp
    with root [OF False] False show ?thesis unfolding s by (simp add: path_str_def Let_def)
  qed
qed

section \<open>shlex.split\<close>

text \<open>
  The POSIX tokeniser with \<^verbatim>\<open>whitespace_split\<close> and no comment characters. The state is
  the tokeniser's: between tokens, in a word, in a quote, or after an escape (remembering
  what it returns to). \<open>None\<close> is the \<^verbatim>\<open>ValueError\<close> of an unclosed quote or escape.
\<close>

datatype shstate = SWhite | SWord | SQuote char | SEscape "char option"

definition sh_white :: "char \<Rightarrow> bool" where
  "sh_white c \<longleftrightarrow> c = CHR '' '' \<or> c = CHR 0x09 \<or> c = CHR 0x0D \<or> c = CHR 0x0A"

definition sh_quote :: "char \<Rightarrow> bool" where
  "sh_quote c \<longleftrightarrow> c = CHR 0x27 \<or> c = CHR 0x22"

fun shlex :: "shstate \<Rightarrow> string \<Rightarrow> string \<Rightarrow> string list option" where
  "shlex SWhite tok [] = Some []"
| "shlex SWhite tok (c # s) =
     (if sh_white c then shlex SWhite [] s
      else if c = CHR 0x5C then shlex (SEscape None) [] s
      else if sh_quote c then shlex (SQuote c) [] s
      else shlex SWord [c] s)"
| "shlex SWord tok [] = Some [tok]"
| "shlex SWord tok (c # s) =
     (if sh_white c then map_option ((#) tok) (shlex SWhite [] s)
      else if sh_quote c then shlex (SQuote c) tok s
      else if c = CHR 0x5C then shlex (SEscape None) tok s
      else shlex SWord (tok @ [c]) s)"
| "shlex (SQuote q) tok [] = None"
| "shlex (SQuote q) tok (c # s) =
     (if c = q then shlex SWord tok s
      else if c = CHR 0x5C \<and> q = CHR 0x22 then shlex (SEscape (Some q)) tok s
      else shlex (SQuote q) (tok @ [c]) s)"
| "shlex (SEscape e) tok [] = None"
| "shlex (SEscape e) tok (c # s) =
     (case e of
        None \<Rightarrow> shlex SWord (tok @ [c]) s
      | Some q \<Rightarrow>
          shlex (SQuote q)
            (if c \<noteq> CHR 0x5C \<and> c \<noteq> q then tok @ [CHR 0x5C, c] else tok @ [c]) s)"

definition shlex_split :: "string \<Rightarrow> string list option" where
  "shlex_split s = shlex SWhite [] s"

text \<open>On plain words (no quote, no escape) the tokeniser is the white space split.\<close>

definition sh_plain :: "char \<Rightarrow> bool" where
  "sh_plain c \<longleftrightarrow> \<not> sh_white c \<and> \<not> sh_quote c \<and> c \<noteq> CHR 0x5C"

lemma shlex_word:
  "\<forall>c \<in> set w. sh_plain c \<Longrightarrow> shlex SWord tok (w @ s) = shlex SWord (tok @ w) s"
  by (induction w arbitrary: tok) (auto simp: sh_plain_def)

lemma shlex_first_word:
  assumes "w \<noteq> []" "\<forall>c \<in> set w. sh_plain c"
  shows "shlex_split (w @ CHR '' '' # s) = map_option ((#) w) (shlex_split s)"
proof -
  from assms obtain c w' where w: "w = c # w'" "sh_plain c" "\<forall>c \<in> set w'. sh_plain c"
    by (cases w) auto
  then have "shlex_split (w @ CHR '' '' # s) = shlex SWord [c] (w' @ CHR '' '' # s)"
    by (auto simp: shlex_split_def sh_plain_def)
  also have "\<dots> = shlex SWord w (CHR '' '' # s)"
    using shlex_word [OF w(3), of "[c]" "CHR '' '' # s"] w(1) by simp
  finally show ?thesis by (simp add: sh_white_def shlex_split_def)
qed

lemma shlex_last_word:
  assumes "w \<noteq> []" "\<forall>c \<in> set w. sh_plain c"
  shows "shlex_split w = Some [w]"
proof -
  from assms obtain c w' where w: "w = c # w'" "sh_plain c" "\<forall>c \<in> set w'. sh_plain c"
    by (cases w) auto
  then have "shlex_split w = shlex SWord [c] (w' @ [])"
    by (auto simp: shlex_split_def sh_plain_def)
  also have "\<dots> = Some [w]"
    using shlex_word [OF w(3), of "[c]" "[]"] w(1) by simp
  finally show ?thesis .
qed

end
