(* ===== verification/PyRegex.thy ===== *)
theory PyRegex
  imports PyStr
begin

text \<open>
  Python's \<^verbatim>\<open>re\<close> for the constructs the sources' patterns use: literals, character
  classes, the dot, concatenation, ordered alternation, greedy and lazy repetition, word boundaries,
  start and end anchors of the text and (\<^verbatim>\<open>MULTILINE\<close>) of a line, one-character negative
  look-behind and look-ahead, groups and \<^verbatim>\<open>IGNORECASE\<close>.

  The matcher \<open>mt\<close> returns every way to match from a position, in the backtracking
  engine's order of preference, so its first result is the match \<^verbatim>\<open>re\<close> returns. A
  position is the text before it (reversed) and the text after it. The relation \<open>rxm\<close> is
  the declarative meaning; \<open>mt_sound\<close> and \<open>mt_complete\<close> show the matcher finds exactly
  it, and \<open>re_test_iff\<close> turns a successful \<^verbatim>\<open>search\<close> into a statement about the text.
\<close>

datatype citem = Ch char | Rng char char | WordC | SpaceC | DigitC

datatype rx =
    Eps
  | Lit string
  | Cls "citem list"
  | NCls "citem list"
  | Dot
  | Seq rx rx
  | Alt rx rx
  | Star rx
  | LazyStar rx
  | WB
  | AtStart
  | AtEnd
  | LineStart
  | LineEnd
  | NotBehind "citem list"
  | NotAhead "citem list"
  | Grp nat rx

abbreviation Plus :: "rx \<Rightarrow> rx" where "Plus r \<equiv> Seq r (Star r)"
abbreviation Opt :: "rx \<Rightarrow> rx" where "Opt r \<equiv> Alt r Eps"

fun Seqs :: "rx list \<Rightarrow> rx" where
  "Seqs [] = Eps"
| "Seqs [r] = r"
| "Seqs (r # rs) = Seq r (Seqs rs)"

fun Alts :: "rx list \<Rightarrow> rx" where
  "Alts [] = NCls [Rng (CHR 0x00) (CHR 0xFF)]"
| "Alts [r] = r"
| "Alts (r # rs) = Alt r (Alts rs)"

abbreviation Words :: "string list \<Rightarrow> rx" where "Words ws \<equiv> Alts (map Lit ws)"

primrec Rep :: "nat \<Rightarrow> rx \<Rightarrow> rx" where
  "Rep 0 r = Eps"
| "Rep (Suc n) r = Seq r (Rep n r)"

primrec UpTo :: "nat \<Rightarrow> rx \<Rightarrow> rx" where
  "UpTo 0 r = Eps"
| "UpTo (Suc n) r = Opt (Seq r (UpTo n r))"

definition AtLeast :: "nat \<Rightarrow> rx \<Rightarrow> rx" where
  "AtLeast n r = Seq (Rep n r) (Star r)"

section \<open>Characters\<close>

definition eq_char :: "bool \<Rightarrow> char \<Rightarrow> char \<Rightarrow> bool" where
  "eq_char ic a b \<longleftrightarrow> a = b \<or> ic \<and> lower_char a = lower_char b"

fun in_item :: "char \<Rightarrow> citem \<Rightarrow> bool" where
  "in_item c (Ch a) = (c = a)"
| "in_item c (Rng a b) = (ord_of a \<le> ord_of c \<and> ord_of c \<le> ord_of b)"
| "in_item c WordC = is_word c"
| "in_item c SpaceC = is_space c"
| "in_item c DigitC = (48 \<le> ord_of c \<and> ord_of c \<le> 57)"

definition in_items :: "citem list \<Rightarrow> char \<Rightarrow> bool" where
  "in_items its c = list_ex (in_item c) its"

definition in_cls :: "bool \<Rightarrow> citem list \<Rightarrow> char \<Rightarrow> bool" where
  "in_cls ic its c \<longleftrightarrow>
     in_items its c \<or> ic \<and> (in_items its (lower_char c) \<or> in_items its (upper_char c))"

fun starts_ic :: "bool \<Rightarrow> string \<Rightarrow> string \<Rightarrow> bool" where
  "starts_ic ic s [] = True"
| "starts_ic ic [] (p # ps) = False"
| "starts_ic ic (c # s) (p # ps) = (eq_char ic c p \<and> starts_ic ic s ps)"

definition word_boundary :: "string \<Rightarrow> string \<Rightarrow> bool" where
  "word_boundary b a =
     ((case b of [] \<Rightarrow> False | c # _ \<Rightarrow> is_word c) \<noteq> (case a of [] \<Rightarrow> False | c # _ \<Rightarrow> is_word c))"

section \<open>The matcher\<close>

type_synonym caps = "(nat, string) dict"
type_synonym pos = "string \<times> string \<times> caps"

primrec star_iter :: "nat \<Rightarrow> (pos \<Rightarrow> pos list) \<Rightarrow> pos \<Rightarrow> pos list" where
  "star_iter 0 f p = [p]"
| "star_iter (Suc n) f p =
     concat (map (\<lambda>q. if length (fst (snd q)) < length (fst (snd p)) then star_iter n f q else [])
       (f p)) @ [p]"

primrec lazy_iter :: "nat \<Rightarrow> (pos \<Rightarrow> pos list) \<Rightarrow> pos \<Rightarrow> pos list" where
  "lazy_iter 0 f p = [p]"
| "lazy_iter (Suc n) f p =
     p # concat (map (\<lambda>q. if length (fst (snd q)) < length (fst (snd p)) then lazy_iter n f q else [])
       (f p))"

primrec mt :: "bool \<Rightarrow> rx \<Rightarrow> pos \<Rightarrow> pos list" where
  "mt ic Eps = (\<lambda>p. [p])"
| "mt ic (Lit w) = (\<lambda>(b, a, c).
     if starts_ic ic a w then [(rev (take (length w) a) @ b, drop (length w) a, c)] else [])"
| "mt ic (Cls its) = (\<lambda>(b, a, c).
     case a of [] \<Rightarrow> [] | x # a' \<Rightarrow> if in_cls ic its x then [(x # b, a', c)] else [])"
| "mt ic (NCls its) = (\<lambda>(b, a, c).
     case a of [] \<Rightarrow> [] | x # a' \<Rightarrow> if in_cls ic its x then [] else [(x # b, a', c)])"
| "mt ic Dot = (\<lambda>(b, a, c).
     case a of [] \<Rightarrow> [] | x # a' \<Rightarrow> if x = CHR 0x0A then [] else [(x # b, a', c)])"
| "mt ic (Seq r s) = (\<lambda>p. concat (map (mt ic s) (mt ic r p)))"
| "mt ic (Alt r s) = (\<lambda>p. mt ic r p @ mt ic s p)"
| "mt ic (Star r) = (\<lambda>p. star_iter (length (fst (snd p))) (mt ic r) p)"
| "mt ic (LazyStar r) = (\<lambda>p. lazy_iter (length (fst (snd p))) (mt ic r) p)"
| "mt ic WB = (\<lambda>(b, a, c). if word_boundary b a then [(b, a, c)] else [])"
| "mt ic AtStart = (\<lambda>(b, a, c). if b = [] then [(b, a, c)] else [])"
| "mt ic AtEnd = (\<lambda>(b, a, c). if a = [] \<or> a = [CHR 0x0A] then [(b, a, c)] else [])"
| "mt ic LineStart = (\<lambda>(b, a, c). if b = [] \<or> hd b = CHR 0x0A then [(b, a, c)] else [])"
| "mt ic LineEnd = (\<lambda>(b, a, c). if a = [] \<or> hd a = CHR 0x0A then [(b, a, c)] else [])"
| "mt ic (NotBehind its) = (\<lambda>(b, a, c).
     if (case b of [] \<Rightarrow> False | x # _ \<Rightarrow> in_cls ic its x) then [] else [(b, a, c)])"
| "mt ic (NotAhead its) = (\<lambda>(b, a, c).
     if (case a of [] \<Rightarrow> False | x # _ \<Rightarrow> in_cls ic its x) then [] else [(b, a, c)])"
| "mt ic (Grp i r) = (\<lambda>(b, a, c).
     map (\<lambda>(b', a', c'). (b', a', dset c' i (rev (take (length b' - length b) b'))))
       (mt ic r (b, a, c)))"

text \<open>\<^verbatim>\<open>search\<close>: the leftmost start, and at it the preferred match.\<close>

fun search_from :: "bool \<Rightarrow> rx \<Rightarrow> string \<Rightarrow> string \<Rightarrow> (string \<times> pos) option" where
  "search_from ic r b a =
     (case mt ic r (b, a, []) of
        q # _ \<Rightarrow> Some (b, q)
      | [] \<Rightarrow> (case a of [] \<Rightarrow> None | x # a' \<Rightarrow> search_from ic r (x # b) a'))"

declare search_from.simps [simp del]

definition re_search :: "bool \<Rightarrow> rx \<Rightarrow> string \<Rightarrow> (string \<times> pos) option" where
  "re_search ic r s = search_from ic r [] s"

definition re_test :: "bool \<Rightarrow> rx \<Rightarrow> string \<Rightarrow> bool" where
  "re_test ic r s = (re_search ic r s \<noteq> None)"

definition re_group :: "bool \<Rightarrow> rx \<Rightarrow> nat \<Rightarrow> string \<Rightarrow> string option" where
  "re_group ic r i s =
     (case re_search ic r s of None \<Rightarrow> None | Some (b, (b', a', c)) \<Rightarrow> dget c i)"

definition re_match_text :: "bool \<Rightarrow> rx \<Rightarrow> string \<Rightarrow> string option" where
  "re_match_text ic r s =
     map_option (\<lambda>(b, (b', a', c)). rev (take (length b' - length b) b')) (re_search ic r s)"

text \<open>
  \<^verbatim>\<open>finditer\<close> and \<^verbatim>\<open>sub\<close>: successive matches, each search starting where the last
  match ended. The patterns they are used with never match the empty string; an empty match
  would copy one character and go on.
\<close>

function matches_from :: "bool \<Rightarrow> rx \<Rightarrow> string \<Rightarrow> string \<Rightarrow> (string \<times> string \<times> caps) list" where
  "matches_from ic r b a =
     (case search_from ic r b a of
        None \<Rightarrow> []
      | Some (b0, (b', a', c)) \<Rightarrow>
          (rev (take (length b0 - length b) b0), rev (take (length b' - length b0) b'), c) #
          (if length a' < length a then matches_from ic r b' a' else []))"
  by pat_completeness auto
termination
  by (relation "measure (\<lambda>(ic, r, b, a). length a)") auto

declare matches_from.simps [simp del]

definition re_findall :: "bool \<Rightarrow> rx \<Rightarrow> string \<Rightarrow> string list" where
  "re_findall ic r s = map (\<lambda>(skip, m, c). m) (matches_from ic r [] s)"

text \<open>The text of one group in each match: \<^verbatim>\<open>finditer\<close> with \<^verbatim>\<open>group(i)\<close>.\<close>

definition re_groups :: "bool \<Rightarrow> rx \<Rightarrow> nat \<Rightarrow> string \<Rightarrow> string list" where
  "re_groups ic r i s = map (\<lambda>(skip, m, c). dget_or c i []) (matches_from ic r [] s)"

definition re_sub :: "bool \<Rightarrow> rx \<Rightarrow> (caps \<Rightarrow> string) \<Rightarrow> string \<Rightarrow> string" where
  "re_sub ic r f s =
     (let ms = matches_from ic r [] s;
          done = sum_list (map (\<lambda>(skip, m, c). length skip + length m) ms)
      in concat (map (\<lambda>(skip, m, c). skip @ f c) ms) @ drop done s)"

section \<open>What a pattern means\<close>

text \<open>\<open>rxm ic r b m a\<close>: with \<open>b\<close> (reversed) before and \<open>a\<close> after, \<open>r\<close> matches \<open>m\<close>.\<close>

inductive rxm :: "bool \<Rightarrow> rx \<Rightarrow> string \<Rightarrow> string \<Rightarrow> string \<Rightarrow> bool" where
  rx_eps: "rxm ic Eps b [] a"
| rx_lit: "length m = length w \<Longrightarrow> starts_ic ic m w \<Longrightarrow> rxm ic (Lit w) b m a"
| rx_cls: "in_cls ic its x \<Longrightarrow> rxm ic (Cls its) b [x] a"
| rx_ncls: "\<not> in_cls ic its x \<Longrightarrow> rxm ic (NCls its) b [x] a"
| rx_dot: "x \<noteq> CHR 0x0A \<Longrightarrow> rxm ic Dot b [x] a"
| rx_seq: "rxm ic r b m (n @ a) \<Longrightarrow> rxm ic s (rev m @ b) n a \<Longrightarrow> rxm ic (Seq r s) b (m @ n) a"
| rx_alt1: "rxm ic r b m a \<Longrightarrow> rxm ic (Alt r s) b m a"
| rx_alt2: "rxm ic s b m a \<Longrightarrow> rxm ic (Alt r s) b m a"
| rx_star0: "rxm ic (Star r) b [] a"
| rx_star1: "m \<noteq> [] \<Longrightarrow> rxm ic r b m (n @ a) \<Longrightarrow> rxm ic (Star r) (rev m @ b) n a \<Longrightarrow>
     rxm ic (Star r) b (m @ n) a"
| rx_wb: "word_boundary b a \<Longrightarrow> rxm ic WB b [] a"
| rx_start: "rxm ic AtStart [] [] a"
| rx_end: "a = [] \<or> a = [CHR 0x0A] \<Longrightarrow> rxm ic AtEnd b [] a"
| rx_nb: "\<not> (case b of [] \<Rightarrow> False | x # _ \<Rightarrow> in_cls ic its x) \<Longrightarrow> rxm ic (NotBehind its) b [] a"
| rx_lazy: "rxm ic (Star r) b m a \<Longrightarrow> rxm ic (LazyStar r) b m a"
| rx_lstart: "b = [] \<or> hd b = CHR 0x0A \<Longrightarrow> rxm ic LineStart b [] a"
| rx_lend: "a = [] \<or> hd a = CHR 0x0A \<Longrightarrow> rxm ic LineEnd b [] a"
| rx_na: "\<not> (case a of [] \<Rightarrow> False | x # _ \<Rightarrow> in_cls ic its x) \<Longrightarrow> rxm ic (NotAhead its) b [] a"
| rx_grp: "rxm ic r b m a \<Longrightarrow> rxm ic (Grp i r) b m a"

inductive_simps rxm_Eps: "rxm ic Eps b m a"
inductive_simps rxm_Lit: "rxm ic (Lit w) b m a"
inductive_simps rxm_Cls: "rxm ic (Cls its) b m a"
inductive_simps rxm_NCls: "rxm ic (NCls its) b m a"
inductive_simps rxm_Dot: "rxm ic Dot b m a"
inductive_simps rxm_Seq: "rxm ic (Seq r s) b m a"
inductive_simps rxm_Alt: "rxm ic (Alt r s) b m a"
inductive_simps rxm_WB: "rxm ic WB b m a"
inductive_simps rxm_AtStart: "rxm ic AtStart b m a"
inductive_simps rxm_AtEnd: "rxm ic AtEnd b m a"
inductive_simps rxm_NotBehind: "rxm ic (NotBehind its) b m a"
inductive_simps rxm_Grp: "rxm ic (Grp i r) b m a"
inductive_simps rxm_LazyStar: "rxm ic (LazyStar r) b m a"
inductive_simps rxm_LineStart: "rxm ic LineStart b m a"
inductive_simps rxm_LineEnd: "rxm ic LineEnd b m a"
inductive_simps rxm_NotAhead: "rxm ic (NotAhead its) b m a"

lemmas rxm_simps = rxm_Eps rxm_Lit rxm_Cls rxm_NCls rxm_Dot rxm_Seq rxm_Alt rxm_WB
  rxm_AtStart rxm_AtEnd rxm_LineStart rxm_LineEnd rxm_NotBehind rxm_NotAhead rxm_Grp

inductive_cases rxm_StarE: "rxm ic (Star r) b m a"

lemma starts_ic_length: "starts_ic ic s w \<Longrightarrow> length w \<le> length s"
  by (induction ic s w rule: starts_ic.induct) auto

lemma starts_ic_take: "starts_ic ic s w \<longleftrightarrow> length w \<le> length s \<and> starts_ic ic (take (length w) s) w"
  by (induction ic s w rule: starts_ic.induct) auto

lemma starts_ic_exact: "length m = length w \<Longrightarrow> starts_ic ic (m @ a) w = starts_ic ic m w"
  by (subst starts_ic_take) simp

lemma starts_ic_False: "starts_ic False s w = starts s w"
  by (induction s w rule: starts.induct) (auto simp: eq_char_def)

lemma starts_length_eq: "length m = length w \<Longrightarrow> starts m w \<longleftrightarrow> m = w"
  by (auto simp: starts_iff)

section \<open>The matcher is the meaning\<close>

text \<open>A matcher is sound for a relation when each result is a split of the text it relates.\<close>

definition sound_for :: "(pos \<Rightarrow> pos list) \<Rightarrow> (string \<Rightarrow> string \<Rightarrow> string \<Rightarrow> bool) \<Rightarrow> bool" where
  "sound_for f R \<longleftrightarrow> (\<forall>b a c b' a' c'. (b', a', c') \<in> set (f (b, a, c)) \<longrightarrow>
     (\<exists>m. a = m @ a' \<and> b' = rev m @ b \<and> R b m a'))"

definition complete_for :: "(pos \<Rightarrow> pos list) \<Rightarrow> (string \<Rightarrow> string \<Rightarrow> string \<Rightarrow> bool) \<Rightarrow> bool" where
  "complete_for f R \<longleftrightarrow> (\<forall>b m a c. R b m a \<longrightarrow>
     (\<exists>c'. (rev m @ b, a, c') \<in> set (f (b, m @ a, c))))"

lemma sound_forD:
  "sound_for f R \<Longrightarrow> (b', a', c') \<in> set (f (b, a, c)) \<Longrightarrow>
     \<exists>m. a = m @ a' \<and> b' = rev m @ b \<and> R b m a'"
  unfolding sound_for_def by blast

lemma complete_forD:
  "complete_for f R \<Longrightarrow> R b m a \<Longrightarrow> \<exists>c'. (rev m @ b, a, c') \<in> set (f (b, m @ a, c))"
  unfolding complete_for_def by blast

lemma star_iter_sound:
  assumes "sound_for f (rxm ic r)"
  shows "sound_for (star_iter n f) (rxm ic (Star r))"
proof (induction n)
  case 0
  show ?case by (auto simp: sound_for_def intro: rx_star0)
next
  case (Suc n)
  show ?case unfolding sound_for_def
  proof (intro allI impI)
    fix b a c b' a' c'
    assume "(b', a', c') \<in> set (star_iter (Suc n) f (b, a, c))"
    then consider "(b', a', c') = (b, a, c)"
      | b1 a1 c1 where "(b1, a1, c1) \<in> set (f (b, a, c))" "length a1 < length a"
          "(b', a', c') \<in> set (star_iter n f (b1, a1, c1))"
      by (auto split: if_splits)
    then show "\<exists>m. a = m @ a' \<and> b' = rev m @ b \<and> rxm ic (Star r) b m a'"
    proof cases
      case 1
      then show ?thesis by (auto intro: rx_star0)
    next
      case (2 b1 a1 c1)
      obtain m where m: "a = m @ a1" "b1 = rev m @ b" "rxm ic r b m a1"
        using sound_forD [OF assms 2(1)] by blast
      obtain n' where n': "a1 = n' @ a'" "b' = rev n' @ b1" "rxm ic (Star r) b1 n' a'"
        using sound_forD [OF Suc.IH 2(3)] by blast
      from 2(2) m(1) have "m \<noteq> []" by auto
      with m n' have "rxm ic (Star r) b (m @ n') a'" by (auto intro: rx_star1)
      with m n' show ?thesis by (intro exI [of _ "m @ n'"]) auto
    qed
  qed
qed

lemma star_iter_complete:
  assumes "complete_for f (rxm ic r)" and "rxm ic (Star r) b m a" and "length m \<le> n"
  shows "\<exists>c'. (rev m @ b, a, c') \<in> set (star_iter n f (b, m @ a, c))"
  using assms(3,2)
proof (induction n arbitrary: b m c)
  case 0
  then show ?case by auto
next
  case (Suc n)
  from Suc.prems(2) consider (stop) "m = []"
    | (more) m1 n1 where "m = m1 @ n1" "m1 \<noteq> []" "rxm ic r b m1 (n1 @ a)"
        "rxm ic (Star r) (rev m1 @ b) n1 a"
    by (rule rxm_StarE)
  then show ?case
  proof cases
    case stop
    then show ?thesis by (intro exI [of _ c]) simp
  next
    case (more m1 n1)
    note 2 = more
    obtain c1 where c1: "(rev m1 @ b, n1 @ a, c1) \<in> set (f (b, m1 @ n1 @ a, c))"
      using complete_forD [OF assms(1) 2(3)] by blast
    have "length n1 \<le> n" using Suc.prems(1) 2 by (cases m1) auto
    then obtain c' where c': "(rev n1 @ rev m1 @ b, a, c') \<in> set (star_iter n f (rev m1 @ b, n1 @ a, c1))"
      using Suc.IH 2(4) by blast
    have "length (fst (snd (rev m1 @ b, n1 @ a, c1))) < length (fst (snd (b, m1 @ n1 @ a, c)))"
      using 2(2) by (cases m1) auto
    with c1 c' have "(rev n1 @ rev m1 @ b, a, c') \<in> set (star_iter (Suc n) f (b, m1 @ n1 @ a, c))"
      by (simp only: star_iter.simps set_append set_concat set_map) (auto intro!: bexI [OF _ c1])
    with 2(1) show ?thesis by auto
  qed
qed

lemma set_lazy_iter: "set (lazy_iter n f p) = set (star_iter n f p)"
  by (induction n arbitrary: p) auto

lemma mt_sound: "sound_for (mt ic r) (rxm ic r)"
proof (induction r)
  case (Lit w)
  show ?case unfolding sound_for_def
  proof (intro allI impI)
    fix b a c b' a' c'
    assume "(b', a', c') \<in> set (mt ic (Lit w) (b, a, c))"
    then have s: "starts_ic ic a w" "b' = rev (take (length w) a) @ b" "a' = drop (length w) a"
      by (auto split: if_splits)
    then have "rxm ic (Lit w) b (take (length w) a) a'"
      using starts_ic_take [of ic a w] by (intro rx_lit) auto
    with s show "\<exists>m. a = m @ a' \<and> b' = rev m @ b \<and> rxm ic (Lit w) b m a'"
      by (intro exI [of _ "take (length w) a"]) simp
  qed
next
  case (Seq r s)
  show ?case unfolding sound_for_def
  proof (intro allI impI)
    fix b a c b' a' c'
    assume "(b', a', c') \<in> set (mt ic (Seq r s) (b, a, c))"
    then obtain b1 a1 c1 where q: "(b1, a1, c1) \<in> set (mt ic r (b, a, c))"
      "(b', a', c') \<in> set (mt ic s (b1, a1, c1))" by auto
    obtain m where m: "a = m @ a1" "b1 = rev m @ b" "rxm ic r b m a1"
      using sound_forD [OF Seq.IH(1) q(1)] by blast
    obtain n where n: "a1 = n @ a'" "b' = rev n @ b1" "rxm ic s b1 n a'"
      using sound_forD [OF Seq.IH(2) q(2)] by blast
    from m n have "rxm ic (Seq r s) b (m @ n) a'" by (auto intro: rx_seq)
    with m n show "\<exists>m. a = m @ a' \<and> b' = rev m @ b \<and> rxm ic (Seq r s) b m a'"
      by (intro exI [of _ "m @ n"]) auto
  qed
next
  case (Alt r s)
  then show ?case
    unfolding sound_for_def by (fastforce intro: rx_alt1 rx_alt2)
next
  case (Star r)
  then have "sound_for (star_iter n (mt ic r)) (rxm ic (Star r))" for n
    by (rule star_iter_sound)
  then show ?case by (auto simp: sound_for_def)
next
  case (LazyStar r)
  then have "sound_for (star_iter n (mt ic r)) (rxm ic (Star r))" for n
    by (rule star_iter_sound)
  then show ?case by (auto simp: sound_for_def set_lazy_iter rxm_LazyStar)
next
  case (Grp i r)
  then show ?case
    unfolding sound_for_def by (fastforce intro: rx_grp)
qed (auto simp: sound_for_def rxm_simps split: list.splits if_splits)

lemma mt_complete: "complete_for (mt ic r) (rxm ic r)"
proof (induction r)
  case (Lit w)
  show ?case
    unfolding complete_for_def by (auto simp: rxm_Lit starts_ic_exact)
next
  case (Seq r s)
  show ?case unfolding complete_for_def
  proof (intro allI impI)
    fix b m a c
    assume "rxm ic (Seq r s) b m a"
    then obtain m1 n1 where m: "m = m1 @ n1" "rxm ic r b m1 (n1 @ a)" "rxm ic s (rev m1 @ b) n1 a"
      by (auto simp: rxm_Seq)
    obtain c1 where c1: "(rev m1 @ b, n1 @ a, c1) \<in> set (mt ic r (b, m1 @ n1 @ a, c))"
      using complete_forD [OF Seq.IH(1) m(2)] by blast
    obtain c2 where "(rev n1 @ rev m1 @ b, a, c2) \<in> set (mt ic s (rev m1 @ b, n1 @ a, c1))"
      using complete_forD [OF Seq.IH(2) m(3)] by blast
    with c1 m(1) show "\<exists>c'. (rev m @ b, a, c') \<in> set (mt ic (Seq r s) (b, m @ a, c))"
      by fastforce
  qed
next
  case (Alt r s)
  show ?case unfolding complete_for_def
  proof (intro allI impI)
    fix b m a c
    assume "rxm ic (Alt r s) b m a"
    then consider "rxm ic r b m a" | "rxm ic s b m a" by (auto simp: rxm_Alt)
    then show "\<exists>c'. (rev m @ b, a, c') \<in> set (mt ic (Alt r s) (b, m @ a, c))"
      by cases (use complete_forD [OF Alt.IH(1)] complete_forD [OF Alt.IH(2)] in fastforce)+
  qed
next
  case (Star r)
  show ?case unfolding complete_for_def
  proof (intro allI impI)
    fix b m a c
    assume "rxm ic (Star r) b m a"
    then show "\<exists>c'. (rev m @ b, a, c') \<in> set (mt ic (Star r) (b, m @ a, c))"
      using star_iter_complete [OF Star.IH, of b m a "length (m @ a)" c] by simp
  qed
next
  case (LazyStar r)
  show ?case unfolding complete_for_def
  proof (intro allI impI)
    fix b m a c
    assume "rxm ic (LazyStar r) b m a"
    then have "rxm ic (Star r) b m a" by (simp add: rxm_LazyStar)
    then show "\<exists>c'. (rev m @ b, a, c') \<in> set (mt ic (LazyStar r) (b, m @ a, c))"
      using star_iter_complete [OF LazyStar.IH, of b m a "length (m @ a)" c] by (simp add: set_lazy_iter)
  qed
next
  case (Grp i r)
  show ?case unfolding complete_for_def
  proof (intro allI impI)
    fix b m a c
    assume "rxm ic (Grp i r) b m a"
    then have "rxm ic r b m a" by (simp add: rxm_Grp)
    then obtain c1 where "(rev m @ b, a, c1) \<in> set (mt ic r (b, m @ a, c))"
      using complete_forD [OF Grp.IH] by blast
    then show "\<exists>c'. (rev m @ b, a, c') \<in> set (mt ic (Grp i r) (b, m @ a, c))"
      by force
  qed
next
  case (NCls its)
  show ?case unfolding complete_for_def
  proof (intro allI impI)
    fix b m a c
    assume "rxm ic (NCls its) b m a"
    then obtain x where x: "m = [x]" "\<not> in_cls ic its x" by (auto simp: rxm_NCls)
    show "\<exists>c'. (rev m @ b, a, c') \<in> set (mt ic (NCls its) (b, m @ a, c))"
      by (rule exI [of _ c]) (simp add: x)
  qed
next
  case Dot
  show ?case unfolding complete_for_def
  proof (intro allI impI)
    fix b m a c
    assume "rxm ic Dot b m a"
    then obtain x where x: "m = [x]" "x \<noteq> CHR 0x0A" by (auto simp: rxm_Dot)
    show "\<exists>c'. (rev m @ b, a, c') \<in> set (mt ic Dot (b, m @ a, c))"
      by (rule exI [of _ c]) (simp add: x)
  qed
qed (auto simp: complete_for_def rxm_simps)

section \<open>Search\<close>

lemma search_from_iff:
  "search_from ic r b a = None \<longleftrightarrow> \<not> (\<exists>u m v. a = u @ m @ v \<and> rxm ic r (rev u @ b) m v)"
proof (induction a arbitrary: b)
  case Nil
  have "mt ic r (b, [], []) \<noteq> [] \<longleftrightarrow> rxm ic r b [] []"
    using sound_forD [OF mt_sound [of ic r], of _ _ _ b "[]" "[]"]
      complete_forD [OF mt_complete [of ic r], of b "[]" "[]" "[]"]
    by (cases "mt ic r (b, [], [])") auto
  then show ?case by (auto simp: search_from.simps [of ic r b "[]"] split: list.splits)
next
  case (Cons x a)
  have here: "mt ic r (b, x # a, []) \<noteq> [] \<longleftrightarrow> (\<exists>m v. x # a = m @ v \<and> rxm ic r b m v)"
  proof
    assume "mt ic r (b, x # a, []) \<noteq> []"
    then obtain b' a' c' where "(b', a', c') \<in> set (mt ic r (b, x # a, []))"
      by (cases "mt ic r (b, x # a, [])") auto
    from sound_forD [OF mt_sound this] show "\<exists>m v. x # a = m @ v \<and> rxm ic r b m v" by blast
  next
    assume "\<exists>m v. x # a = m @ v \<and> rxm ic r b m v"
    then obtain m v where "x # a = m @ v" "rxm ic r b m v" by blast
    then show "mt ic r (b, x # a, []) \<noteq> []"
      using complete_forD [OF mt_complete [of ic r], of b m v "[]"] by auto
  qed
  have split: "(\<exists>u m v. x # a = u @ m @ v \<and> rxm ic r (rev u @ b) m v) \<longleftrightarrow>
      (\<exists>m v. x # a = m @ v \<and> rxm ic r b m v) \<or>
      (\<exists>u m v. a = u @ m @ v \<and> rxm ic r (rev u @ x # b) m v)" (is "?l \<longleftrightarrow> ?r1 \<or> ?r2")
  proof
    assume ?l
    then obtain u m v where u: "x # a = u @ m @ v" "rxm ic r (rev u @ b) m v" by blast
    then show "?r1 \<or> ?r2" by (cases u) auto
  next
    assume "?r1 \<or> ?r2"
    then show ?l
    proof
      assume ?r1
      then obtain m v where "x # a = [] @ m @ v \<and> rxm ic r (rev [] @ b) m v" by auto
      then show ?l by blast
    next
      assume ?r2
      then obtain u m v where "x # a = (x # u) @ m @ v \<and> rxm ic r (rev (x # u) @ b) m v" by auto
      then show ?l by blast
    qed
  qed
  show ?case
  proof (cases "mt ic r (b, x # a, []) = []")
    case True
    then have "search_from ic r b (x # a) = search_from ic r (x # b) a"
      by (simp add: search_from.simps [of ic r b "x # a"])
    moreover from True here have "\<not> (\<exists>m v. x # a = m @ v \<and> rxm ic r b m v)" by blast
    ultimately show ?thesis using Cons.IH [of "x # b"] split by (simp only: simp_thms)
  next
    case False
    then have "search_from ic r b (x # a) \<noteq> None"
      by (cases "mt ic r (b, x # a, [])") (auto simp: search_from.simps [of ic r b "x # a"])
    moreover from False here split have "\<exists>u m v. x # a = u @ m @ v \<and> rxm ic r (rev u @ b) m v" by blast
    ultimately show ?thesis by (simp only: simp_thms)
  qed
qed

theorem re_test_iff:
  "re_test ic r s \<longleftrightarrow> (\<exists>u m v. s = u @ m @ v \<and> rxm ic r (rev u) m v)"
  unfolding re_test_def re_search_def search_from_iff by simp

lemma re_test_appendI:
  assumes "s = u @ m @ v" "rxm ic r (rev u) m v"
  shows "re_test ic r s"
  using assms re_test_iff by blast

text \<open>The patterns that only ask for one of some literal texts are substring tests.\<close>

lemma rxm_Alts_Lit:
  "ws \<noteq> [] \<Longrightarrow> rxm False (Words ws) b m a \<longleftrightarrow> m \<in> set ws"
proof (induction ws rule: induct_list012)
  case (2 w)
  then show ?case by (auto simp: rxm_Lit starts_ic_False starts_iff)
next
  case (3 w w' ws)
  then show ?case by (auto simp: rxm_Alt rxm_Lit starts_ic_False starts_iff)
qed simp

lemma re_test_Lit: "re_test False (Lit w) s \<longleftrightarrow> contains s w"
proof -
  have "length m = length w \<and> starts m w \<longleftrightarrow> m = w" for m
    by (metis starts_length_eq)
  then show ?thesis
    unfolding re_test_iff contains_iff rxm_Lit starts_ic_False by auto
qed

lemma re_test_Words: "ws \<noteq> [] \<Longrightarrow> re_test False (Words ws) s \<longleftrightarrow> any_in ws s"
  unfolding re_test_iff any_in_iff contains_iff by (auto simp: rxm_Alts_Lit)

text \<open>\<^verbatim>\<open>\b(w1|w2|...)\b\<close>: one of the words, delimited on both sides.\<close>

definition Whole :: "string list \<Rightarrow> rx" where
  "Whole ws = Seqs [WB, Grp 1 (Words ws), WB]"

lemma re_test_Whole:
  assumes "ws \<noteq> []"
  shows "re_test False (Whole ws) s \<longleftrightarrow>
    (\<exists>u w v. w \<in> set ws \<and> s = u @ w @ v \<and> word_boundary (rev u) (w @ v) \<and>
       word_boundary (rev w @ rev u) v)"
  unfolding re_test_iff Whole_def
  by (auto simp: rxm_Seq rxm_WB rxm_Grp rxm_Alts_Lit [OF assms])

section \<open>Matches that stay on a line\<close>

lemma search_from_leftmost:
  assumes "mt ic r (rev u @ b, w, []) = q # qs"
  shows "\<exists>u0 a0 q0 qs0. search_from ic r b (u @ w) = Some (rev u0 @ b, q0) \<and>
    mt ic r (rev u0 @ b, a0, []) = q0 # qs0 \<and> u @ w = u0 @ a0 \<and> length u0 \<le> length u \<and>
    (length u0 = length u \<longrightarrow> q0 = q)"
  using assms
proof (induction u arbitrary: b)
  case Nil
  then have "search_from ic r b ([] @ w) = Some (rev [] @ b, q) \<and> mt ic r (rev [] @ b, w, []) = q # qs \<and>
      [] @ w = [] @ w \<and> length ([] :: string) \<le> length ([] :: string) \<and> (length ([] :: string) = length ([] :: string) \<longrightarrow> q = q)"
    by (simp add: search_from.simps [of ic r b w])
  then show ?case by blast
next
  case (Cons x u)
  show ?case
  proof (cases "mt ic r (b, x # u @ w, [])")
    case Nil
    then have s: "search_from ic r b ((x # u) @ w) = search_from ic r (x # b) (u @ w)"
      by (simp add: search_from.simps [of ic r b])
    from Cons.prems have "mt ic r (rev u @ x # b, w, []) = q # qs" by simp
    from Cons.IH [OF this] obtain u0 a0 q0 qs0 where
      "search_from ic r (x # b) (u @ w) = Some (rev u0 @ x # b, q0)"
      "mt ic r (rev u0 @ x # b, a0, []) = q0 # qs0" "u @ w = u0 @ a0" "length u0 \<le> length u"
      "length u0 = length u \<longrightarrow> q0 = q" by blast
    with s have "search_from ic r b ((x # u) @ w) = Some (rev (x # u0) @ b, q0) \<and>
        mt ic r (rev (x # u0) @ b, a0, []) = q0 # qs0 \<and> (x # u) @ w = (x # u0) @ a0 \<and>
        length (x # u0) \<le> length (x # u) \<and> (length (x # u0) = length (x # u) \<longrightarrow> q0 = q)"
      by simp
    then show ?thesis by blast
  next
    case (Cons q0 qs0)
    then have "search_from ic r b ((x # u) @ w) = Some (rev [] @ b, q0) \<and>
        mt ic r (rev [] @ b, x # u @ w, []) = q0 # qs0 \<and> (x # u) @ w = [] @ x # u @ w"
      by (simp add: search_from.simps [of ic r b])
    then show ?thesis by fastforce
  qed
qed

text \<open>
  When no match of a pattern is empty or crosses a line, every line at whose start it matches gives
  one of the matches \<^verbatim>\<open>finditer\<close> returns, the one preferred there.
\<close>

lemma matches_from_line:
  assumes line: "\<And>b m a. rxm ic r b m a \<Longrightarrow> m \<noteq> [] \<and> CHR 0x0A \<notin> set m"
    and here: "mt ic r (rev u @ b, w, []) = (b', a', c) # qs"
    and u: "u = [] \<or> last u = CHR 0x0A"
  shows "\<exists>skip m. (skip, m, c) \<in> set (matches_from ic r b (u @ w))"
  using here u
proof (induction "length u" arbitrary: u b rule: less_induct)
  case less
  obtain u0 a0 q0 qs0 where s: "search_from ic r b (u @ w) = Some (rev u0 @ b, q0)"
    and q0: "mt ic r (rev u0 @ b, a0, []) = q0 # qs0" and split: "u @ w = u0 @ a0"
    and le: "length u0 \<le> length u" and same: "length u0 = length u \<longrightarrow> q0 = (b', a', c)"
    using search_from_leftmost [OF less.prems(1)] by blast
  obtain b1 a1 c1 where q: "q0 = (b1, a1, c1)" by (cases q0)
  have "(b1, a1, c1) \<in> set (mt ic r (rev u0 @ b, a0, []))" using q0 q by simp
  from sound_forD [OF mt_sound this] obtain m0 where m0: "a0 = m0 @ a1" "b1 = rev m0 @ rev u0 @ b"
    "rxm ic r (rev u0 @ b) m0 a1" by blast
  from line [OF m0(3)] have ne: "m0 \<noteq> []" "CHR 0x0A \<notin> set m0" by auto
  have step: "matches_from ic r b (u @ w) =
      (rev (take (length (rev u0 @ b) - length b) (rev u0 @ b)),
        rev (take (length b1 - length (rev u0 @ b)) b1), c1) # matches_from ic r b1 a1"
    using s ne m0(1) split by (subst matches_from.simps) (simp add: q)
  show ?case
  proof (cases "length u0 = length u")
    case True
    with same q have "c1 = c" by simp
    then show ?thesis unfolding step by auto
  next
    case False
    with le have lt: "length u0 < length u" by simp
    then obtain u1 where u1: "u = u0 @ u1" "a0 = u1 @ w" "u1 \<noteq> []"
      using split by (auto simp: append_eq_append_conv2)
    have "last u1 = CHR 0x0A" using less.prems(2) u1 by auto
    have "length m0 < length u1"
    proof (rule ccontr)
      assume "\<not> length m0 < length u1"
      then have "u1 = take (length u1) m0" using u1(2) m0(1)
        by (metis append_eq_append_conv_if append_take_drop_id linorder_not_less)
      then have "set u1 \<subseteq> set m0" by (metis set_take_subset)
      moreover have "CHR 0x0A \<in> set u1" using \<open>last u1 = _\<close> u1(3) last_in_set by metis
      ultimately show False using ne(2) by blast
    qed
    then obtain u2 where u2: "u1 = m0 @ u2" "a1 = u2 @ w" "u2 \<noteq> []"
      using u1(2) m0(1) by (auto simp: append_eq_append_conv2)
    have "mt ic r (rev u2 @ b1, w, []) = (b', a', c) # qs"
      using less.prems(1) u1(1) u2(1) m0(2) by simp
    moreover have "last u2 = CHR 0x0A" using \<open>last u1 = _\<close> u2 by simp
    moreover have "length u2 < length u" using u1(1) u2(1) ne(1) by simp
    ultimately obtain skip m where "(skip, m, c) \<in> set (matches_from ic r b1 (u2 @ w))"
      using less.hyps [of u2 b1] by blast
    then show ?thesis unfolding step u2(2) by auto
  qed
qed

lemma re_groups_line:
  assumes "\<And>b m a. rxm ic r b m a \<Longrightarrow> m \<noteq> [] \<and> CHR 0x0A \<notin> set m"
    and "mt ic r (rev u, w, []) = (b', a', c) # qs" and "u = [] \<or> last u = CHR 0x0A"
    and "dget c i = Some g"
  shows "g \<in> set (re_groups ic r i (u @ w))"
proof -
  obtain skip m where "(skip, m, c) \<in> set (matches_from ic r [] (u @ w))"
    using matches_from_line [of ic r u "[]" w b' a' c qs] assms by auto
  then show ?thesis unfolding re_groups_def using assms(4)
    by (auto simp: dget_or_def intro!: rev_image_eqI)
qed

end
