(* ===== verification/RiskParse.thy ===== *)
theory RiskParse
  imports PyRegex
begin

text \<open>
  The first two stages of \<^verbatim>\<open>igris/core/command_risk_engine.py\<close>: the pattern table, the
  parser \<^verbatim>\<open>parse_command\<close> that turns a raw shell command into detected flags, and the
  deterministic classifier \<^verbatim>\<open>classify_command_risk\<close>. The lemmas relate a flag to the text
  of the command, characterise each risk class by the flags, and show that a detected danger
  only ever raises the class.
\<close>

section \<open>Risk levels\<close>

datatype risk = Low | Medium | High | Critical | Unknown

fun risk_str :: "risk \<Rightarrow> string" where
  "risk_str Low = ''low''"
| "risk_str Medium = ''medium''"
| "risk_str High = ''high''"
| "risk_str Critical = ''critical''"
| "risk_str Unknown = ''unknown''"

text \<open>Severity as the classifier's order of tests has it: an unrecognised command ranks
  above a recognised safe one and below every detected danger.\<close>

fun severity :: "risk \<Rightarrow> nat" where
  "severity Low = 0"
| "severity Unknown = 1"
| "severity Medium = 2"
| "severity High = 3"
| "severity Critical = 4"

lemma severity_inj: "severity a = severity b \<Longrightarrow> a = b"
  by (cases a; cases b) auto

instantiation risk :: linorder
begin

definition less_eq_risk :: "risk \<Rightarrow> risk \<Rightarrow> bool" where
  "a \<le> b \<longleftrightarrow> severity a \<le> severity b"

definition less_risk :: "risk \<Rightarrow> risk \<Rightarrow> bool" where
  "a < b \<longleftrightarrow> severity a < severity b"

instance
  by standard (auto simp: less_eq_risk_def less_risk_def intro: severity_inj)

end

lemmas risk_order = less_eq_risk_def less_risk_def

section \<open>The pattern table\<close>

abbreviation "AnyStr \<equiv> Star Dot"
abbreviation "White \<equiv> Cls [SpaceC]"

definition SUDO_RE :: rx where "SUDO_RE = Whole [''sudo'', ''su'']"

definition RM_RE :: rx where
  "RM_RE = Seqs [WB, Lit ''rm'', WB, AnyStr,
     Words [''-r'', ''-f'', ''-rf'', ''--recursive'', ''--force'']]"

definition DELETE_RE :: rx where "DELETE_RE = Whole [''unlink'', ''rmdir'', ''shred'']"

definition CHMOD_RE :: rx where "CHMOD_RE = Whole [''chmod'', ''chown'']"

definition SYSTEMCTL_RE :: rx where
  "SYSTEMCTL_RE = Whole [''systemctl'', ''service'', ''journalctl'']"

definition DOCKER_RE :: rx where
  "DOCKER_RE = Whole [''docker'', ''docker-compose'', ''docker compose'']"

definition NGINX_RE :: rx where
  "NGINX_RE = Seqs [WB,
     Alts [Lit ''nginx'', Seq (Lit ''apache'') (Opt (Lit ''2'')), Lit ''httpd'', Lit ''certbot''], WB]"

definition PKG_RE :: rx where
  "PKG_RE = Whole [''apt'', ''apt-get'', ''dpkg'', ''pip'', ''pip3'', ''npm'', ''pnpm'', ''yarn'', ''cargo'']"

definition GIT_DANGER_RE :: rx where
  "GIT_DANGER_RE = Seqs [WB, Lit ''git'', WB, AnyStr, Whole [''push'', ''reset'', ''clean'', ''force'']]"

definition FORCE_PUSH_RE :: rx where
  "FORCE_PUSH_RE = Seqs [WB, Lit ''git'', WB, AnyStr, WB, Lit ''push'', WB, AnyStr,
     Words [''-f'', ''--force'', ''--force-with-lease'']]"

definition CURL_PIPE_RE :: rx where
  "CURL_PIPE_RE = Seqs [Whole [''curl'', ''wget''], AnyStr, Lit ''|'', Star White,
     Words [''bash'', ''sh'', ''zsh'', ''python'', ''perl'']]"

definition PIPE_RE :: rx where "PIPE_RE = Lit ''|''"

definition REDIRECT_RE :: rx where "REDIRECT_RE = Seq (Lit ''>'') (Opt (Lit ''>''))"

definition SUBSHELL_RE :: rx where "SUBSHELL_RE = Words [''$('', [CHR 0x60]]"

definition CHAIN_RE :: rx where "CHAIN_RE = Words [''&&'', ''||'']"

definition ABS_PATH_RE :: rx where
  "ABS_PATH_RE = Seqs [Alt AtStart White, Lit ''/'',
     Words [''etc'', ''usr'', ''var'', ''root'', ''boot'', ''proc'', ''sys'', ''dev''], Lit ''/'']"

definition WILDCARD_RE :: rx where "WILDCARD_RE = Lit ''*''"

definition NETWORK_RE :: rx where
  "NETWORK_RE = Whole [''curl'', ''wget'', ''nc'', ''ncat'', ''netcat'', ''ssh'', ''scp'', ''rsync'',
     ''telnet'', ''ftp'']"

definition DB_CMD_RE :: rx where
  "DB_CMD_RE = Whole [''mysql'', ''psql'', ''mongo'', ''redis-cli'', ''sqlite3'']"

definition DB_RE :: rx where
  "DB_RE = Seqs [DB_CMD_RE, AnyStr, Whole [''DROP'', ''DELETE'', ''TRUNCATE'', ''ALTER'', ''MIGRATE'']]"

definition FIREWALL_RE :: rx where
  "FIREWALL_RE = Whole [''iptables'', ''ufw'', ''firewalld'', ''firewall-cmd'', ''nftables'']"

definition DNS_RE :: rx where
  "DNS_RE = Seqs [Whole [''dig'', ''nslookup'', ''host'', ''resolvectl''], AnyStr,
     Whole [''update'', ''set'', ''add'', ''delete'']]"

definition ENV_RE :: rx where
  "ENV_RE = Alts [Lit ''.env'', Lit ''.secrets'', Lit ''.pem'', Lit ''.key'', Lit ''id_rsa'',
     Lit ''credentials'', Lit ''token'', Lit ''password'',
     Seqs [Lit ''api'', Cls [Ch (CHR ''.''), Ch (CHR ''_'')], Lit ''key'']]"

definition SECRET_ACCESS_RE :: rx where
  "SECRET_ACCESS_RE = Seqs [Whole [''cat'', ''less'', ''more'', ''head'', ''tail'', ''grep'', ''awk'', ''sed''],
     AnyStr, Lit ''.'', Words [''env'', ''secret'', ''pem'', ''key'']]"

definition INLINE_EXEC_RE :: rx where
  "INLINE_EXEC_RE =
     (let az = Star (Cls [Rng (CHR ''a'') (CHR ''z'')]) in
      Seqs [WB,
        Alts [Lit ''bash'', Lit ''sh'', Lit ''zsh'', Lit ''fish'', Lit ''dash'',
          Seq (Lit ''python'') (Opt (Cls [Ch (CHR ''2''), Ch (CHR ''3'')])), Lit ''py''],
        Plus White, Lit ''-'', az, Lit ''c'', az, WB])"

definition XARGS_RM_RE :: rx where
  "XARGS_RM_RE = Alt (Seqs [WB, Lit ''xargs'', WB, AnyStr, WB, Lit ''rm'', WB])
     (Seqs [WB, Lit ''rm'', WB, AnyStr, WB, Lit ''xargs'', WB])"

definition FIND_DELETE_RE :: rx where
  "FIND_DELETE_RE = Seqs [WB, Lit ''find'', WB, AnyStr,
     Alts [Lit ''-delete'', Seqs [Lit ''-exec'', Plus White, Lit ''rm''],
       Seqs [Lit ''-exec'', Plus White, Lit ''unlink'']]]"

definition unsafe_param_chars :: string where
  "unsafe_param_chars = '';&|$<>(){}[]!#~'' @ [CHR 0x60, CHR 0x5C, CHR 0x0A, CHR 0x0D]"

definition UNSAFE_PARAM_CHARS_RE :: rx where
  "UNSAFE_PARAM_CHARS_RE = Cls (map Ch unsafe_param_chars)"

definition DESTRUCTIVE_PATTERNS :: rx where
  "DESTRUCTIVE_PATTERNS = Seqs [WB,
     Alts [Seqs [Lit ''rm'', WB, AnyStr, Words [''-r'', ''-f'', ''-rf'']],
       Seqs [Lit ''DROP'', Plus White, Lit ''TABLE''],
       Seqs [Lit ''TRUNCATE'', Plus White, Lit ''TABLE''],
       Seqs [Lit ''git'', Plus White, Lit ''clean''],
       Seqs [Lit ''git'', Plus White, Lit ''reset'', Plus White, Lit ''--hard''],
       Lit ''mkfs'', Seqs [Lit ''dd'', Plus White, Lit ''if=''], Lit ''shred'', Lit ''wipefs''],
     WB]"

section \<open>The parsed command\<close>

record parsed_command =
  cmd_raw :: string
  cmd_executable :: string
  cmd_args :: "string list"
  has_sudo :: bool
  has_rm :: bool
  has_delete :: bool
  has_chmod :: bool
  has_systemctl :: bool
  has_docker :: bool
  has_nginx :: bool
  has_package_manager :: bool
  has_git_danger :: bool
  has_force_push :: bool
  has_curl_pipe :: bool
  has_pipe :: bool
  has_redirect :: bool
  has_subshell :: bool
  has_chain :: bool
  has_abs_path :: bool
  has_wildcard :: bool
  has_network :: bool
  has_db :: bool
  has_db_destructive :: bool
  has_firewall :: bool
  has_dns_modify :: bool
  has_env_access :: bool
  has_secret_access :: bool
  has_inline_exec :: bool
  has_xargs_rm :: bool
  has_find_delete :: bool
  cmd_flags :: "string list"

definition empty_command :: "string \<Rightarrow> parsed_command" where
  "empty_command raw = \<lparr>cmd_raw = raw, cmd_executable = [], cmd_args = [],
     has_sudo = False, has_rm = False, has_delete = False, has_chmod = False,
     has_systemctl = False, has_docker = False, has_nginx = False, has_package_manager = False,
     has_git_danger = False, has_force_push = False, has_curl_pipe = False, has_pipe = False,
     has_redirect = False, has_subshell = False, has_chain = False, has_abs_path = False,
     has_wildcard = False, has_network = False, has_db = False, has_db_destructive = False,
     has_firewall = False, has_dns_modify = False, has_env_access = False,
     has_secret_access = False, has_inline_exec = False, has_xargs_rm = False,
     has_find_delete = False, cmd_flags = []\<rparr>"

text \<open>\<^verbatim>\<open>flags_list\<close> walks the attributes in alphabetical order.\<close>

definition flag_table :: "parsed_command \<Rightarrow> (string \<times> bool) list" where
  "flag_table p =
     [(''abs_path'', has_abs_path p), (''chain'', has_chain p), (''chmod'', has_chmod p),
      (''curl_pipe'', has_curl_pipe p), (''db'', has_db p),
      (''db_destructive'', has_db_destructive p), (''delete'', has_delete p),
      (''dns_modify'', has_dns_modify p), (''docker'', has_docker p),
      (''env_access'', has_env_access p), (''find_delete'', has_find_delete p),
      (''firewall'', has_firewall p), (''force_push'', has_force_push p),
      (''git_danger'', has_git_danger p), (''inline_exec'', has_inline_exec p),
      (''network'', has_network p), (''nginx'', has_nginx p),
      (''package_manager'', has_package_manager p), (''pipe'', has_pipe p),
      (''redirect'', has_redirect p), (''rm'', has_rm p),
      (''secret_access'', has_secret_access p), (''subshell'', has_subshell p),
      (''sudo'', has_sudo p), (''systemctl'', has_systemctl p), (''wildcard'', has_wildcard p),
      (''xargs_rm'', has_xargs_rm p)]"

definition flags_list :: "parsed_command \<Rightarrow> string list" where
  "flags_list p = map fst (filter snd (flag_table p))"

definition detect_flags :: "string \<Rightarrow> parsed_command \<Rightarrow> parsed_command" where
  "detect_flags raw p = p\<lparr>
     has_sudo := re_test False SUDO_RE raw,
     has_rm := re_test False RM_RE raw,
     has_delete := re_test False DELETE_RE raw,
     has_chmod := re_test False CHMOD_RE raw,
     has_systemctl := re_test False SYSTEMCTL_RE raw,
     has_docker := re_test False DOCKER_RE raw,
     has_nginx := re_test False NGINX_RE raw,
     has_package_manager := re_test False PKG_RE raw,
     has_git_danger := re_test False GIT_DANGER_RE raw,
     has_force_push := re_test False FORCE_PUSH_RE raw,
     has_curl_pipe := re_test False CURL_PIPE_RE raw,
     has_pipe := re_test False PIPE_RE raw,
     has_redirect := re_test False REDIRECT_RE raw,
     has_subshell := re_test False SUBSHELL_RE raw,
     has_chain := re_test False CHAIN_RE raw,
     has_abs_path := re_test False ABS_PATH_RE raw,
     has_wildcard := re_test False WILDCARD_RE raw,
     has_network := re_test False NETWORK_RE raw,
     has_db := re_test False DB_CMD_RE raw,
     has_db_destructive := re_test True DB_RE raw,
     has_firewall := re_test False FIREWALL_RE raw,
     has_dns_modify := re_test True DNS_RE raw,
     has_env_access := re_test True ENV_RE raw,
     has_secret_access := re_test True SECRET_ACCESS_RE raw,
     has_inline_exec := re_test False INLINE_EXEC_RE raw,
     has_xargs_rm := re_test False XARGS_RM_RE raw,
     has_find_delete := re_test False FIND_DELETE_RE raw\<rparr>"

definition command_words :: "string \<Rightarrow> string list" where
  "command_words raw =
     (case shlex_split raw of Some parts \<Rightarrow> parts | None \<Rightarrow> split_ws (strip raw))"

definition split_command :: "string \<Rightarrow> parsed_command" where
  "split_command raw =
     (empty_command raw)\<lparr>
       cmd_executable := (case command_words raw of [] \<Rightarrow> [] | w # _ \<Rightarrow> w),
       cmd_args := (case command_words raw of [] \<Rightarrow> [] | _ # ws \<Rightarrow> ws)\<rparr>"

definition parse_command :: "string \<Rightarrow> parsed_command" where
  "parse_command raw =
     (if raw = [] \<or> strip raw = [] then empty_command raw
      else
        let p = detect_flags raw (split_command raw)
        in p\<lparr>cmd_flags := flags_list p\<rparr>)"

section \<open>The classifier\<close>

definition safe_executables :: "string list" where
  "safe_executables =
     [''ls'', ''cat'', ''head'', ''tail'', ''wc'', ''echo'', ''pwd'', ''whoami'',
      ''date'', ''uname'', ''hostname'', ''env'', ''printenv'',
      ''grep'', ''rg'', ''find'', ''which'', ''type'', ''file'',
      ''git'', ''python'', ''python3'', ''node'', ''ruby'',
      ''pytest'', ''jest'', ''mocha'', ''cargo'']"

definition classify_command_risk :: "parsed_command \<Rightarrow> risk" where
  "classify_command_risk p =
     (if has_force_push p then Critical
      else if has_curl_pipe p then Critical
      else if has_rm p \<and> has_sudo p then Critical
      else if has_rm p \<and> has_wildcard p then Critical
      else if has_db_destructive p then Critical
      else if has_firewall p then Critical
      else if has_dns_modify p then Critical
      else if has_secret_access p then Critical
      else if has_inline_exec p then Critical
      else if has_xargs_rm p \<and> (has_wildcard p \<or> has_sudo p) then Critical
      else if has_find_delete p \<and> (has_sudo p \<or> has_abs_path p) then Critical
      else if has_sudo p then High
      else if has_rm p then High
      else if has_delete p then High
      else if has_xargs_rm p then High
      else if has_find_delete p then High
      else if has_systemctl p then High
      else if has_docker p then High
      else if has_nginx p then High
      else if has_git_danger p then High
      else if has_abs_path p then High
      else if has_env_access p then High
      else if has_package_manager p then Medium
      else if has_network p then Medium
      else if has_redirect p then Medium
      else if has_subshell p then Medium
      else if has_chmod p then Medium
      else if has_db p then Medium
      else if has_chain p \<and> has_pipe p then Medium
      else if cmd_executable p \<in> set safe_executables \<and> \<not> has_pipe p \<and> \<not> has_redirect p then Low
      else Unknown)"


section \<open>What the flags say of the text\<close>

text \<open>A word that stands alone in the text: the specification of \<^verbatim>\<open>\b(...)\b\<close>.\<close>

definition whole_word :: "string \<Rightarrow> string \<Rightarrow> bool" where
  "whole_word w s \<longleftrightarrow>
     (\<exists>u v. s = u @ w @ v \<and> (u = [] \<or> \<not> is_word (last u)) \<and> (v = [] \<or> \<not> is_word (hd v)))"

definition wordy :: "string \<Rightarrow> bool" where
  "wordy w \<longleftrightarrow> w \<noteq> [] \<and> is_word (hd w) \<and> is_word (last w)"

lemma whole_word_iff:
  assumes "wordy w"
  shows "whole_word w s \<longleftrightarrow>
    (\<exists>u v. s = u @ w @ v \<and> word_boundary (rev u) (w @ v) \<and> word_boundary (rev w @ rev u) v)"
proof -
  have "word_boundary (rev u) (w @ v) \<longleftrightarrow> (u = [] \<or> \<not> is_word (last u))" for u v
    using assms by (cases u rule: rev_cases; cases w) (auto simp: word_boundary_def wordy_def)
  moreover have "word_boundary (rev w @ rev u) v \<longleftrightarrow> (v = [] \<or> \<not> is_word (hd v))" for u v
    using assms by (cases v; cases w rule: rev_cases) (auto simp: word_boundary_def wordy_def)
  ultimately show ?thesis by (simp add: whole_word_def)
qed

lemma re_test_Whole_word:
  assumes "ws \<noteq> []" "\<forall>w \<in> set ws. wordy w"
  shows "re_test False (Whole ws) s \<longleftrightarrow> (\<exists>w \<in> set ws. whole_word w s)"
  unfolding re_test_Whole [OF assms(1)] using whole_word_iff assms(2) by blast

lemma sudo_flag: "re_test False SUDO_RE s \<longleftrightarrow> whole_word ''sudo'' s \<or> whole_word ''su'' s"
  unfolding SUDO_RE_def by (subst re_test_Whole_word) (auto simp: wordy_def is_word_def is_ascii_alnum_def)

lemma subshell_flag: "re_test False SUBSHELL_RE s \<longleftrightarrow> contains s ''$('' \<or> CHR 0x60 \<in> set s"
  unfolding SUBSHELL_RE_def by (subst re_test_Words) (auto simp: any_in_iff contains_single)

lemma chain_flag: "re_test False CHAIN_RE s \<longleftrightarrow> contains s ''&&'' \<or> contains s ''||''"
  unfolding CHAIN_RE_def by (subst re_test_Words) (auto simp: any_in_iff)

lemma pipe_flag: "re_test False PIPE_RE s \<longleftrightarrow> CHR ''|'' \<in> set s"
  unfolding PIPE_RE_def by (simp add: re_test_Lit contains_single)

lemma wildcard_flag: "re_test False WILDCARD_RE s \<longleftrightarrow> CHR ''*'' \<in> set s"
  unfolding WILDCARD_RE_def by (simp add: re_test_Lit contains_single)

lemma redirect_flag: "re_test False REDIRECT_RE s \<longleftrightarrow> CHR ''>'' \<in> set s"
proof
  assume "re_test False REDIRECT_RE s"
  then obtain u m v where "s = u @ m @ v" "rxm False REDIRECT_RE (rev u) m v"
    unfolding re_test_iff by blast
  then show "CHR ''>'' \<in> set s"
    by (auto simp: REDIRECT_RE_def rxm_simps starts_ic_False starts_iff)
next
  assume "CHR ''>'' \<in> set s"
  then obtain u v where s: "s = u @ ''>'' @ v" using split_list by fastforce
  have "rxm False (Lit ''>'') (rev u) ''>'' v"
    by (simp add: rxm_Lit eq_char_def)
  moreover have "rxm False (Opt (Lit ''>'')) (rev ''>'' @ rev u) [] v"
    by (simp add: rxm_Alt rxm_Eps)
  ultimately have "rxm False REDIRECT_RE (rev u) (''>'' @ []) v"
    unfolding REDIRECT_RE_def by (intro rx_seq) simp_all
  then have "rxm False REDIRECT_RE (rev u) ''>'' v" by simp
  then show "re_test False REDIRECT_RE s" by (rule re_test_appendI [OF s])
qed

lemma in_items_Ch: "in_items (map Ch cs) c \<longleftrightarrow> c \<in> set cs"
  by (induction cs) (auto simp: in_items_def)

lemma unsafe_param_flag:
  "re_test False UNSAFE_PARAM_CHARS_RE v \<longleftrightarrow> (\<exists>c \<in> set v. c \<in> set unsafe_param_chars)"
proof
  assume "re_test False UNSAFE_PARAM_CHARS_RE v"
  then obtain u m w where m: "v = u @ m @ w" "rxm False UNSAFE_PARAM_CHARS_RE (rev u) m w"
    unfolding re_test_iff by blast
  then obtain c where "m = [c]" "c \<in> set unsafe_param_chars"
    by (auto simp: UNSAFE_PARAM_CHARS_RE_def rxm_simps in_cls_def in_items_Ch)
  with m show "\<exists>c \<in> set v. c \<in> set unsafe_param_chars" by auto
next
  assume "\<exists>c \<in> set v. c \<in> set unsafe_param_chars"
  then obtain c u w where c: "c \<in> set unsafe_param_chars" "v = u @ [c] @ w"
    using split_list by fastforce
  then have "rxm False UNSAFE_PARAM_CHARS_RE (rev u) [c] w"
    by (auto simp: UNSAFE_PARAM_CHARS_RE_def rxm_simps in_cls_def in_items_Ch)
  with c(2) show "re_test False UNSAFE_PARAM_CHARS_RE v" by (rule re_test_appendI)
qed

section \<open>The classes by their flags\<close>

definition critical_danger :: "parsed_command \<Rightarrow> bool" where
  "critical_danger p \<longleftrightarrow> has_force_push p \<or> has_curl_pipe p \<or> has_rm p \<and> (has_sudo p \<or> has_wildcard p) \<or>
     has_db_destructive p \<or> has_firewall p \<or> has_dns_modify p \<or> has_secret_access p \<or>
     has_inline_exec p \<or> has_xargs_rm p \<and> (has_wildcard p \<or> has_sudo p) \<or>
     has_find_delete p \<and> (has_sudo p \<or> has_abs_path p)"

definition high_danger :: "parsed_command \<Rightarrow> bool" where
  "high_danger p \<longleftrightarrow> has_sudo p \<or> has_rm p \<or> has_delete p \<or> has_xargs_rm p \<or> has_find_delete p \<or>
     has_systemctl p \<or> has_docker p \<or> has_nginx p \<or> has_git_danger p \<or> has_abs_path p \<or> has_env_access p"

definition medium_danger :: "parsed_command \<Rightarrow> bool" where
  "medium_danger p \<longleftrightarrow> has_package_manager p \<or> has_network p \<or> has_redirect p \<or> has_subshell p \<or>
     has_chmod p \<or> has_db p \<or> has_chain p \<and> has_pipe p"

lemma if_merge: "(if a then x else if b then x else y) = (if a \<or> b then x else y)"
  by simp

lemma classify_by_danger:
  "classify_command_risk p =
     (if critical_danger p then Critical
      else if high_danger p then High
      else if medium_danger p then Medium
      else if cmd_executable p \<in> set safe_executables \<and> \<not> has_pipe p then Low
      else Unknown)"
  unfolding classify_command_risk_def if_merge
  by (intro if_cong refl) (auto simp: critical_danger_def high_danger_def medium_danger_def)


section \<open>A detected danger only raises the class\<close>

definition no_more_danger :: "parsed_command \<Rightarrow> parsed_command \<Rightarrow> bool" where
  "no_more_danger p q \<longleftrightarrow> cmd_executable p = cmd_executable q \<and>
     list_all2 (\<lambda>(f, a) (g, b). f = g \<and> (a \<longrightarrow> b)) (flag_table p) (flag_table q)"

lemma no_more_danger_flags:
  assumes "no_more_danger p q"
  shows "has_abs_path p \<Longrightarrow> has_abs_path q"
    and "has_chain p \<Longrightarrow> has_chain q"
    and "has_chmod p \<Longrightarrow> has_chmod q"
    and "has_curl_pipe p \<Longrightarrow> has_curl_pipe q"
    and "has_db p \<Longrightarrow> has_db q"
    and "has_db_destructive p \<Longrightarrow> has_db_destructive q"
    and "has_delete p \<Longrightarrow> has_delete q"
    and "has_dns_modify p \<Longrightarrow> has_dns_modify q"
    and "has_docker p \<Longrightarrow> has_docker q"
    and "has_env_access p \<Longrightarrow> has_env_access q"
    and "has_find_delete p \<Longrightarrow> has_find_delete q"
    and "has_firewall p \<Longrightarrow> has_firewall q"
    and "has_force_push p \<Longrightarrow> has_force_push q"
    and "has_git_danger p \<Longrightarrow> has_git_danger q"
    and "has_inline_exec p \<Longrightarrow> has_inline_exec q"
    and "has_network p \<Longrightarrow> has_network q"
    and "has_nginx p \<Longrightarrow> has_nginx q"
    and "has_package_manager p \<Longrightarrow> has_package_manager q"
    and "has_pipe p \<Longrightarrow> has_pipe q"
    and "has_redirect p \<Longrightarrow> has_redirect q"
    and "has_rm p \<Longrightarrow> has_rm q"
    and "has_secret_access p \<Longrightarrow> has_secret_access q"
    and "has_subshell p \<Longrightarrow> has_subshell q"
    and "has_sudo p \<Longrightarrow> has_sudo q"
    and "has_systemctl p \<Longrightarrow> has_systemctl q"
    and "has_wildcard p \<Longrightarrow> has_wildcard q"
    and "has_xargs_rm p \<Longrightarrow> has_xargs_rm q"
  using assms unfolding no_more_danger_def flag_table_def list_all2_Cons prod.case by simp_all

lemma no_more_danger_mono:
  assumes "no_more_danger p q"
  shows "critical_danger p \<Longrightarrow> critical_danger q" and "high_danger p \<Longrightarrow> high_danger q"
    and "medium_danger p \<Longrightarrow> medium_danger q" and "has_pipe p \<Longrightarrow> has_pipe q"
    and "cmd_executable p = cmd_executable q"
proof -
  note fl = no_more_danger_flags [OF assms]
  show "critical_danger p \<Longrightarrow> critical_danger q" unfolding critical_danger_def using fl by meson
  show "high_danger p \<Longrightarrow> high_danger q" unfolding high_danger_def using fl by meson
  show "medium_danger p \<Longrightarrow> medium_danger q" unfolding medium_danger_def using fl by meson
  show "has_pipe p \<Longrightarrow> has_pipe q" by (rule fl)
  show "cmd_executable p = cmd_executable q" using assms by (simp add: no_more_danger_def)
qed

lemma flags_list_iff: "f \<in> set (flags_list p) \<longleftrightarrow> (f, True) \<in> set (flag_table p)"
  unfolding flags_list_def set_map set_filter by force

lemma classify_mono:
  assumes "no_more_danger p q"
  shows "classify_command_risk p \<le> classify_command_risk q"
  using no_more_danger_mono [OF assms] unfolding classify_by_danger
  by (auto simp: less_eq_risk_def)

lemma classify_low_iff:
  "classify_command_risk p = Low \<longleftrightarrow>
     \<not> critical_danger p \<and> \<not> high_danger p \<and> \<not> medium_danger p \<and> \<not> has_pipe p \<and>
     cmd_executable p \<in> set safe_executables"
  unfolding classify_by_danger by auto

lemma empty_command_unknown: "classify_command_risk (empty_command raw) = Unknown"
  unfolding classify_by_danger
  by (simp add: empty_command_def critical_danger_def high_danger_def medium_danger_def safe_executables_def)

lemma parse_command_nonblank:
  assumes "strip raw \<noteq> []"
  shows "parse_command raw = (detect_flags raw (split_command raw))
    \<lparr>cmd_flags := flags_list (detect_flags raw (split_command raw))\<rparr>"
proof -
  from assms have "raw \<noteq> []" by (auto simp: strip_Nil_iff)
  with assms show ?thesis by (simp add: parse_command_def Let_def)
qed

lemma cmd_raw_parse [simp]: "cmd_raw (parse_command raw) = raw"
  by (simp add: parse_command_def Let_def empty_command_def split_command_def detect_flags_def)

lemma classify_flags_irrelevant [simp]:
  "classify_command_risk (p\<lparr>cmd_flags := fs\<rparr>) = classify_command_risk p"
  by (simp add: classify_command_risk_def)


section \<open>Properties\<close>

definition privileged_words :: "string list" where
  "privileged_words =
     [''sudo'', ''su'', ''unlink'', ''rmdir'', ''shred'', ''chmod'', ''chown'', ''systemctl'', ''service'',
      ''journalctl'', ''docker'', ''docker-compose'', ''apt'', ''apt-get'', ''dpkg'', ''pip'', ''pip3'',
      ''npm'', ''pnpm'', ''yarn'', ''curl'', ''wget'', ''nc'', ''ncat'', ''netcat'', ''ssh'', ''scp'', ''rsync'',
      ''telnet'', ''ftp'', ''mysql'', ''psql'', ''mongo'', ''redis-cli'', ''sqlite3'', ''iptables'', ''ufw'',
      ''firewalld'', ''firewall-cmd'', ''nftables'']"

lemma whole_word_flags:
  "re_test False SUDO_RE s \<longleftrightarrow> (\<exists>w \<in> set [''sudo'', ''su'']. whole_word w s)"
  "re_test False DELETE_RE s \<longleftrightarrow> (\<exists>w \<in> set [''unlink'', ''rmdir'', ''shred'']. whole_word w s)"
  "re_test False CHMOD_RE s \<longleftrightarrow> (\<exists>w \<in> set [''chmod'', ''chown'']. whole_word w s)"
  "re_test False SYSTEMCTL_RE s \<longleftrightarrow>
     (\<exists>w \<in> set [''systemctl'', ''service'', ''journalctl'']. whole_word w s)"
  "re_test False DOCKER_RE s \<longleftrightarrow>
     (\<exists>w \<in> set [''docker'', ''docker-compose'', ''docker compose'']. whole_word w s)"
  "re_test False PKG_RE s \<longleftrightarrow>
     (\<exists>w \<in> set [''apt'', ''apt-get'', ''dpkg'', ''pip'', ''pip3'', ''npm'', ''pnpm'', ''yarn'', ''cargo''].
        whole_word w s)"
  "re_test False NETWORK_RE s \<longleftrightarrow>
     (\<exists>w \<in> set [''curl'', ''wget'', ''nc'', ''ncat'', ''netcat'', ''ssh'', ''scp'', ''rsync'', ''telnet'', ''ftp''].
        whole_word w s)"
  "re_test False DB_CMD_RE s \<longleftrightarrow>
     (\<exists>w \<in> set [''mysql'', ''psql'', ''mongo'', ''redis-cli'', ''sqlite3'']. whole_word w s)"
  "re_test False FIREWALL_RE s \<longleftrightarrow>
     (\<exists>w \<in> set [''iptables'', ''ufw'', ''firewalld'', ''firewall-cmd'', ''nftables'']. whole_word w s)"
  unfolding SUDO_RE_def DELETE_RE_def CHMOD_RE_def SYSTEMCTL_RE_def DOCKER_RE_def PKG_RE_def
    NETWORK_RE_def DB_CMD_RE_def FIREWALL_RE_def
  by (rule re_test_Whole_word; simp add: wordy_def is_word_def is_ascii_alnum_def)+

text \<open>A command the deterministic classifier calls low risk starts with one of the safe
  executables and its text holds no pipe, no redirection, no command substitution, and none of
  the privileged words standing alone, wherever they are in the text.\<close>

theorem low_risk_text:
  assumes "classify_command_risk (parse_command raw) = Low"
  shows "(\<exists>w ws. command_words raw = w # ws \<and> w \<in> set safe_executables) \<and>
    CHR ''|'' \<notin> set raw \<and> CHR ''>'' \<notin> set raw \<and> CHR 0x60 \<notin> set raw \<and> \<not> contains raw ''$('' \<and>
    list_all (\<lambda>w. \<not> whole_word w raw) privileged_words"
proof -
  have "strip raw \<noteq> []"
    using assms by (auto simp: parse_command_def empty_command_unknown)
  note p = parse_command_nonblank [OF this]
  let ?q = "detect_flags raw (split_command raw)"
  have low: "\<not> critical_danger ?q" "\<not> high_danger ?q" "\<not> medium_danger ?q" "\<not> has_pipe ?q"
    "cmd_executable ?q \<in> set safe_executables"
    using assms unfolding p classify_flags_irrelevant classify_low_iff by blast+
  have flags: "\<not> re_test False SUDO_RE raw" "\<not> re_test False DELETE_RE raw" "\<not> re_test False CHMOD_RE raw"
    "\<not> re_test False SYSTEMCTL_RE raw" "\<not> re_test False DOCKER_RE raw" "\<not> re_test False PKG_RE raw"
    "\<not> re_test False NETWORK_RE raw" "\<not> re_test False DB_CMD_RE raw" "\<not> re_test False FIREWALL_RE raw"
    "\<not> re_test False PIPE_RE raw" "\<not> re_test False REDIRECT_RE raw" "\<not> re_test False SUBSHELL_RE raw"
    using low(1-4) by (simp_all add: critical_danger_def high_danger_def medium_danger_def detect_flags_def)
  have "list_all (\<lambda>w. \<not> whole_word w raw) privileged_words"
    using flags(1-9) unfolding whole_word_flags by (simp add: privileged_words_def)
  moreover have "\<exists>w ws. command_words raw = w # ws \<and> w \<in> set safe_executables"
    using low(5)
    by (cases "command_words raw") (auto simp: detect_flags_def split_command_def safe_executables_def)
  ultimately show ?thesis
    using flags(10-12) by (simp add: pipe_flag redirect_flag subshell_flag)
qed

theorem low_risk_text_witness:
  "(\<exists>w ws. command_words ''ls -la docs'' = w # ws \<and> w \<in> set safe_executables) \<and>
    CHR ''|'' \<notin> set ''ls -la docs'' \<and> CHR ''>'' \<notin> set ''ls -la docs'' \<and>
    CHR 0x60 \<notin> set ''ls -la docs'' \<and> \<not> contains ''ls -la docs'' ''$('' \<and>
    list_all (\<lambda>w. \<not> whole_word w ''ls -la docs'') privileged_words"
  by (rule low_risk_text) code_simp

text \<open>Detecting more dangers in a command with the same executable never lowers its class,
  in the order low, unknown, medium, high, critical.\<close>

theorem more_danger_never_lowers_class:
  assumes "no_more_danger p q"
  shows "classify_command_risk p \<le> classify_command_risk q"
  by (rule classify_mono [OF assms])

theorem more_danger_never_lowers_class_witness:
  "classify_command_risk (parse_command ''cat notes'') \<le>
   classify_command_risk ((parse_command ''cat notes'')\<lparr>has_pipe := True, has_network := True\<rparr>)"
  by (rule more_danger_never_lowers_class) (simp add: no_more_danger_def flag_table_def)

text \<open>The classifier takes no notice of a command list: \<^verbatim>\<open>&&\<close> raises the class only
  together with a pipe, and \<^verbatim>\<open>;\<close> is not looked for, so whatever follows a safe first command
  is low risk unless it matches a pattern of its own.\<close>

theorem command_list_is_low_risk:
  "classify_command_risk (parse_command ''ls && halt'') = Low \<and>
   classify_command_risk (parse_command ''echo a;halt'') = Low \<and>
   classify_command_risk (parse_command ''halt'') = Unknown"
  by (intro conjI; code_simp)

end
