(* ===== verification/PyVal.thy ===== *)
theory PyVal
  imports PyStr
begin

text \<open>
  Values of type \<^verbatim>\<open>Any\<close>: what \<^verbatim>\<open>json.loads\<close> returns and what planner states and
  host metadata hold. Truth value, equality (numbers compare across \<^verbatim>\<open>bool\<close>,
  \<^verbatim>\<open>int\<close> and \<^verbatim>\<open>float\<close>, dictionaries regardless of order), iteration and
  \<^verbatim>\<open>str.join\<close> follow Python, with the exceptions as values. A float is a rational number;
  the three that are none, which \<^verbatim>\<open>json.loads\<close> reads from \<^verbatim>\<open>NaN\<close> and
  \<^verbatim>\<open>Infinity\<close>, are values of their own.
\<close>

datatype nonfinite = NotANumber | Infinite bool

datatype pyval =
    PNone
  | PBool bool
  | PInt int
  | PFloat pyfloat
  | PNonFinite nonfinite
  | PStr string
  | PList "pyval list"
  | PDict "(string \<times> pyval) list"

fun truthy :: "pyval \<Rightarrow> bool" where
  "truthy PNone = False"
| "truthy (PBool b) = b"
| "truthy (PInt i) = (i \<noteq> 0)"
| "truthy (PFloat r) = (r \<noteq> 0)"
| "truthy (PNonFinite x) = True"
| "truthy (PStr s) = (s \<noteq> [])"
| "truthy (PList xs) = (xs \<noteq> [])"
| "truthy (PDict m) = (m \<noteq> [])"

text \<open>The number a value is, where it is one and finite.\<close>

fun py_number :: "pyval \<Rightarrow> pyfloat option" where
  "py_number (PBool b) = Some (if b then 1 else 0)"
| "py_number (PInt i) = Some (of_int i)"
| "py_number (PFloat r) = Some r"
| "py_number _ = None"

text \<open>\<open>py_eq\<close> is \<^verbatim>\<open>==\<close>: it is not HOL equality, \<^verbatim>\<open>True == 1\<close> holds.\<close>

function (sequential) py_eq :: "pyval \<Rightarrow> pyval \<Rightarrow> bool" where
  "py_eq (PStr s) (PStr t) = (s = t)"
| "py_eq PNone PNone = True"
| "py_eq (PNonFinite x) (PNonFinite y) = (x = y \<and> x \<noteq> NotANumber)"
| "py_eq (PList xs) (PList ys) =
     (length xs = length ys \<and> (\<forall>(x, y) \<in> set (zip xs ys). py_eq x y))"
| "py_eq (PDict m) (PDict n) =
     (length m = length n \<and>
      (\<forall>(k, v) \<in> set m. \<exists>(k', v') \<in> set n. k = k' \<and> py_eq v v'))"
| "py_eq a b =
     (case py_number a of
        None \<Rightarrow> False
      | Some r \<Rightarrow> (case py_number b of None \<Rightarrow> False | Some q \<Rightarrow> r = q))"
  by pat_completeness auto
termination
proof (relation "measure (\<lambda>(a, b). size a)", goal_cases)
  case (2 xs ys z x y)
  then have "x \<in> set xs" by (auto dest: set_zip_leftD)
  then have "size x < size_list size xs + 1" using size_list_estimation' [of x xs "size x" size] by simp
  then show ?case by simp
next
  case (3 m n x k v x' k' v')
  then have "(k, v) \<in> set m" by auto
  then have "size_prod (\<lambda>_. 0) size (k, v) \<le> size_list (size_prod (\<lambda>_. 0) size) m"
    by (rule size_list_estimation') simp
  then show ?case by simp
qed simp

lemma py_eq_number: "py_number a = Some r \<Longrightarrow> py_number b = Some q \<Longrightarrow> py_eq a b \<longleftrightarrow> r = q"
  by (cases a; cases b) auto

text \<open>\<^verbatim>\<open>==\<close> between dictionaries is defined on distinct keys; \<open>pyval_wf\<close> says every
  dictionary inside the value has them, which Python guarantees.\<close>

function pyval_wf :: "pyval \<Rightarrow> bool" where
  "pyval_wf (PList xs) = (\<forall>x \<in> set xs. pyval_wf x)"
| "pyval_wf (PDict m) = (dwf m \<and> (\<forall>(k, v) \<in> set m. pyval_wf v))"
| "pyval_wf PNone = True"
| "pyval_wf (PBool b) = True"
| "pyval_wf (PInt i) = True"
| "pyval_wf (PFloat r) = True"
| "pyval_wf (PNonFinite x) = True"
| "pyval_wf (PStr s) = True"
  by pat_completeness auto
termination
proof (relation "measure size", goal_cases)
  case (2 xs x)
  then show ?case using size_list_estimation' [of x xs "size x" size] by simp
next
  case (3 m x k v)
  then have "(k, v) \<in> set m" by auto
  then have "size_prod (\<lambda>_. 0) size (k, v) \<le> size_list (size_prod (\<lambda>_. 0) size) m"
    by (rule size_list_estimation') simp
  then show ?case by simp
qed simp

section \<open>Iteration and joining\<close>

fun py_iter :: "pyval \<Rightarrow> py_error + pyval list" where
  "py_iter (PList xs) = Inr xs"
| "py_iter (PStr s) = Inr (map (\<lambda>c. PStr [c]) s)"
| "py_iter (PDict m) = Inr (map (\<lambda>(k, _). PStr k) m)"
| "py_iter _ = Inl TypeError"

fun as_strings :: "pyval list \<Rightarrow> string list option" where
  "as_strings [] = Some []"
| "as_strings (PStr s # xs) = map_option ((#) s) (as_strings xs)"
| "as_strings (_ # xs) = None"

text \<open>\<^verbatim>\<open>', '.join(v)\<close> raises \<^verbatim>\<open>TypeError\<close> unless \<^verbatim>\<open>v\<close> iterates over strings.\<close>

definition py_join :: "pyval \<Rightarrow> py_error + string" where
  "py_join v =
     (case py_iter v of
        Inl e \<Rightarrow> Inl e
      | Inr xs \<Rightarrow> (case as_strings xs of None \<Rightarrow> Inl TypeError | Some ss \<Rightarrow> Inr (join '', '' ss)))"

definition py_or :: "pyval \<Rightarrow> pyval \<Rightarrow> pyval" where
  "py_or a b = (if truthy a then a else b)"

lemma as_strings_map_PStr [simp]: "as_strings (map PStr ss) = Some ss"
  by (induction ss) auto

lemma py_join_strings: "py_join (PList (map PStr ss)) = Inr (join '', '' ss)"
  by (simp add: py_join_def)

lemma py_join_error: "py_join v = Inl e \<Longrightarrow> e = TypeError"
  by (cases v) (auto simp: py_join_def split: option.splits)

end
