(* ===== verification/RiskPolicy.thy ===== *)
theory RiskPolicy
  imports RiskParse PyVal
begin

text \<open>
  The policies of \<^verbatim>\<open>igris/core/command_risk_engine.py\<close> that look at a parsed command
  and at the host it would run on: host metadata, the structured-tool registry and its
  recommendation, the host policy, the environment inferred from a host name, rollback plans
  and the destructive-command test. Messages write the source's em dash as a hyphen.
\<close>

section \<open>Host metadata\<close>

text \<open>
  \<open>raw_host\<close> is the mapping a caller passes: a key is absent or
  holds a value of its declared type. \<open>host_info\<close> is the normalised form; the empty
  mapping stays empty, as \<open>None\<close>.
\<close>

record raw_host =
  rh_hostname :: "string option"
  rh_host :: "string option"
  rh_alias :: "string option"
  rh_policy :: "string option"
  rh_allowed_paths :: "string list option"
  rh_allowed_services :: "string list option"
  rh_requires_backup :: "bool option"
  rh_approval_mode :: "string option"
  rh_authorized_hosts :: "string list option"
  rh_structured_tool_available :: "bool option"

record host_info =
  hi_hostname :: string
  hi_alias :: string
  hi_policy :: string
  hi_allowed_paths :: "string list"
  hi_allowed_services :: "string list"
  hi_requires_backup :: bool
  hi_approval_mode :: string
  hi_authorized_hosts :: "string list"
  hi_structured_tool_available :: bool

definition raw_host_empty :: "raw_host \<Rightarrow> bool" where
  "raw_host_empty r \<longleftrightarrow>
     rh_hostname r = None \<and> rh_host r = None \<and> rh_alias r = None \<and> rh_policy r = None \<and>
     rh_allowed_paths r = None \<and> rh_allowed_services r = None \<and> rh_requires_backup r = None \<and>
     rh_approval_mode r = None \<and> rh_authorized_hosts r = None \<and>
     rh_structured_tool_available r = None"

definition list_or_nil :: "'a list option \<Rightarrow> 'a list" where
  "list_or_nil x = (case x of None \<Rightarrow> [] | Some xs \<Rightarrow> xs)"

definition strip_all :: "string list \<Rightarrow> string list" where
  "strip_all xs = map strip (filter (\<lambda>s. strip s \<noteq> []) xs)"

definition normalize_host_context :: "raw_host option \<Rightarrow> host_info option" where
  "normalize_host_context ctx =
     (case ctx of
        None \<Rightarrow> None
      | Some r \<Rightarrow>
          if raw_host_empty r then None
          else Some \<lparr>
            hi_hostname = strip (str_or (rh_hostname r) (str_or (rh_host r) [])),
            hi_alias = strip (str_or (rh_alias r) []),
            hi_policy =
              (let p = py_lower (strip (str_or (rh_policy r) ''safe''))
               in if p = [] then ''safe'' else p),
            hi_allowed_paths = strip_all (list_or_nil (rh_allowed_paths r)),
            hi_allowed_services = map py_lower (strip_all (list_or_nil (rh_allowed_services r))),
            hi_requires_backup = (case rh_requires_backup r of None \<Rightarrow> True | Some b \<Rightarrow> b),
            hi_approval_mode = py_lower (strip (str_or (rh_approval_mode r) [])),
            hi_authorized_hosts = strip_all (list_or_nil (rh_authorized_hosts r)),
            hi_structured_tool_available =
              (case rh_structured_tool_available r of None \<Rightarrow> False | Some b \<Rightarrow> b)\<rparr>)"

text \<open>The normalised mapping, passed where a raw one is expected.\<close>

definition as_raw_host :: "host_info \<Rightarrow> raw_host" where
  "as_raw_host h = \<lparr>rh_hostname = Some (hi_hostname h), rh_host = None,
     rh_alias = Some (hi_alias h), rh_policy = Some (hi_policy h),
     rh_allowed_paths = Some (hi_allowed_paths h),
     rh_allowed_services = Some (hi_allowed_services h),
     rh_requires_backup = Some (hi_requires_backup h),
     rh_approval_mode = Some (hi_approval_mode h),
     rh_authorized_hosts = Some (hi_authorized_hosts h),
     rh_structured_tool_available = Some (hi_structured_tool_available h)\<rparr>"

section \<open>Services and paths of a command\<close>

definition not_arg_end :: rx where
  "not_arg_end = NCls [SpaceC, Ch (CHR 0x27), Ch (CHR 0x22), Ch (CHR 0x60)]"

definition JOURNAL_UNIT_RE :: rx where
  "JOURNAL_UNIT_RE =
     Seqs [Lit ''journalctl'', Plus White, Lit ''-u'', Plus White, Grp 1 (Plus not_arg_end)]"

definition SERVICE_VERB_RE :: rx where
  "SERVICE_VERB_RE =
     Seqs [Words [''systemctl'', ''service''], Plus White,
       Words [''restart'', ''start'', ''stop'', ''reload'', ''status''], Plus White,
       Grp 1 (Plus not_arg_end)]"

definition service_skip :: "string list" where
  "service_skip =
     [''restart'', ''start'', ''stop'', ''status'', ''reload'', ''enable'', ''disable'',
      ''is-active'', ''daemon-reload'', ''--user'', ''--now'', ''-q'', ''--no-pager'']"

definition extract_host_service :: "parsed_command \<Rightarrow> string" where
  "extract_host_service p =
     (let raw = cmd_raw p;
          inline =
            (if has_inline_exec p then
               if contains raw ''journalctl'' then
                 (case re_group False JOURNAL_UNIT_RE 1 raw of
                    Some u \<Rightarrow> Some u | None \<Rightarrow> Some ''journalctl'')
               else if contains raw ''systemctl'' \<or> contains raw ''service '' then
                 (case re_group False SERVICE_VERB_RE 1 raw of
                    Some u \<Rightarrow> Some u | None \<Rightarrow> Some ''service'')
               else if contains raw ''docker compose'' \<or> contains raw ''docker-compose''
                       \<or> contains raw '' docker '' then Some ''docker''
               else None
             else None)
      in case inline of
           Some s \<Rightarrow> s
         | None \<Rightarrow>
             (case (if has_systemctl p
                    then find_first (\<lambda>a. \<not> (starts a ''-'' \<or> a \<in> set service_skip)) (cmd_args p)
                    else None) of
                Some a \<Rightarrow> a
              | None \<Rightarrow>
                  if has_nginx p then ''nginx'' else if has_docker p then ''docker'' else []))"

definition ABS_TOKEN_RE :: rx where
  "ABS_TOKEN_RE =
     Seqs [NotBehind [WordC, Ch (CHR ''.''), Ch (CHR ''-'')], Lit ''/'',
       Plus (NCls ([SpaceC] @ map Ch ([CHR 0x27, CHR 0x22, CHR 0x60] @ ''|&;<>$'')))]"

definition extract_absolute_paths :: "string \<Rightarrow> string list" where
  "extract_absolute_paths command =
     filter (\<lambda>p. p \<noteq> []) (map (rstrip_chars '').,'') (re_findall False ABS_TOKEN_RE command))"

definition path_allowed :: "string \<Rightarrow> string list \<Rightarrow> bool" where
  "path_allowed target allowed_paths =
     list_ex (\<lambda>a. starts (path_str target) (path_str a)) allowed_paths"

section \<open>Structured tools\<close>

record tool_entry =
  te_tool :: string
  te_operation :: string
  te_fallback :: string

definition STRUCTURED_TOOL_REGISTRY :: "(string, tool_entry) dict" where
  "STRUCTURED_TOOL_REGISTRY =
     [(''service_control'', \<lparr>te_tool = ''structured_service_control'',
         te_operation = ''service_restart'',
         te_fallback = ''structured service control exists, so raw shell is blocked''\<rparr>),
      (''service_observability'', \<lparr>te_tool = ''structured_service_observability'',
         te_operation = ''service_logs'',
         te_fallback = ''structured service observability exists, so raw shell is blocked''\<rparr>),
      (''container_control'', \<lparr>te_tool = ''structured_container_control'',
         te_operation = ''container_management'',
         te_fallback = ''structured container control exists, so raw shell is blocked''\<rparr>),
      (''webserver_control'', \<lparr>te_tool = ''structured_webserver_control'',
         te_operation = ''webserver_management'',
         te_fallback = ''structured webserver control exists, so raw shell is blocked''\<rparr>),
      (''filesystem_ops'', \<lparr>te_tool = ''structured_filesystem_ops'',
         te_operation = ''filesystem_inspection'',
         te_fallback = ''structured filesystem ops exist, so raw shell is blocked''\<rparr>),
      (''network_ops'', \<lparr>te_tool = ''structured_network_ops'',
         te_operation = ''network_diagnostics'',
         te_fallback = ''structured network ops exist, so raw shell is blocked''\<rparr>),
      (''git_ops'', \<lparr>te_tool = ''structured_git_ops'',
         te_operation = ''git_inspection'',
         te_fallback = ''structured git ops exist, so raw shell is blocked''\<rparr>),
      (''database_ops'', \<lparr>te_tool = ''structured_database_ops'',
         te_operation = ''database_maintenance'',
         te_fallback = ''structured database ops exist, so raw shell is blocked''\<rparr>)]"

definition structured_tool_family :: "parsed_command \<Rightarrow> string option" where
  "structured_tool_family p =
     (let executable = py_lower (cmd_executable p);
          raw = py_lower (cmd_raw p);
          inline =
            (if \<not> has_inline_exec p then None
             else if contains raw ''journalctl'' then Some ''service_observability''
             else if contains raw ''systemctl'' \<or> contains raw ''service '' then Some ''service_control''
             else if contains raw ''docker compose'' \<or> contains raw ''docker-compose''
                     \<or> contains raw '' docker '' then Some ''container_control''
             else if contains raw ''nginx'' then Some ''webserver_control''
             else None)
      in case inline of
           Some f \<Rightarrow> Some f
         | None \<Rightarrow>
             if executable \<in> set [''cat'', ''ls'', ''find'', ''grep'', ''head'', ''tail'', ''awk'', ''sed'']
             then Some ''filesystem_ops''
             else if executable \<in> set [''curl'', ''wget'', ''nc'', ''ncat'', ''netcat'', ''ssh'', ''scp'',
                 ''rsync'', ''telnet'', ''ftp''] then Some ''network_ops''
             else if executable = ''git'' \<or> has_git_danger p then Some ''git_ops''
             else if executable \<in> set [''mysql'', ''psql'', ''mongo'', ''redis-cli'', ''sqlite3''] \<or> has_db p
             then Some ''database_ops''
             else if executable \<in> set [''systemctl'', ''service''] then Some ''service_control''
             else if executable = ''journalctl'' then Some ''service_observability''
             else if executable \<in> set [''docker'', ''docker-compose''] \<or> contains raw ''docker compose''
             then Some ''container_control''
             else if executable = ''nginx'' \<or> contains raw ''nginx ''
                     \<or> starts raw (''nginx'' @ [CHR 0x09]) then Some ''webserver_control''
             else None)"

record tool_recommendation =
  tr_tool :: string
  tr_operation :: string
  tr_target :: string
  tr_reason :: string
  tr_fallback_rationale :: string

definition or_str :: "string \<Rightarrow> string \<Rightarrow> string" where
  "or_str a b = (if a = [] then b else a)"

definition recommendation_target :: "string \<Rightarrow> parsed_command \<Rightarrow> string" where
  "recommendation_target family p =
     (if family = ''service_control'' then or_str (extract_host_service p) ''service''
      else if family = ''service_observability'' then or_str (cmd_executable p) ''journalctl''
      else if family = ''container_control'' then ''docker''
      else if family = ''webserver_control'' then ''nginx''
      else if family = ''filesystem_ops'' then
        or_str (case cmd_args p of [] \<Rightarrow> cmd_executable p | a # _ \<Rightarrow> a) ''filesystem''
      else if family = ''network_ops'' then or_str (cmd_executable p) ''network''
      else if family = ''git_ops'' then or_str (cmd_executable p) ''git''
      else if family = ''database_ops'' then or_str (cmd_executable p) ''database''
      else or_str (cmd_executable p) family)"

definition structured_tool_recommendation ::
    "parsed_command \<Rightarrow> host_info option \<Rightarrow> tool_recommendation option" where
  "structured_tool_recommendation p host =
     (case host of
        None \<Rightarrow> None
      | Some h \<Rightarrow>
          if \<not> hi_structured_tool_available h then None
          else
            (case structured_tool_family p of
               None \<Rightarrow> None
             | Some family \<Rightarrow>
                 (case dget STRUCTURED_TOOL_REGISTRY family of
                    None \<Rightarrow> None
                  | Some entry \<Rightarrow>
                      Some \<lparr>tr_tool = te_tool entry, tr_operation = te_operation entry,
                        tr_target = recommendation_target family p,
                        tr_reason = ''use structured '' @ te_tool entry @ '' instead of raw shelling'',
                        tr_fallback_rationale = te_fallback entry\<rparr>)))"

section \<open>Host policy\<close>

definition host_policy_reason ::
    "string \<Rightarrow> parsed_command \<Rightarrow> host_info option \<Rightarrow> string option" where
  "host_policy_reason command p host =
     (case host of
        None \<Rightarrow> None
      | Some h \<Rightarrow>
          let hostname = or_str (hi_hostname h) ''unknown-host'';
              policy = or_str (hi_policy h) ''safe'';
              service = extract_host_service p;
              bad_service =
                (has_systemctl p \<or> has_nginx p \<or> has_docker p) \<and> hi_allowed_services h \<noteq> []
                \<and> service \<noteq> [] \<and> service \<notin> set (hi_allowed_services h);
              bad_path =
                (if hi_allowed_paths h = [] then None
                 else find_first (\<lambda>a. \<not> path_allowed a (hi_allowed_paths h))
                   (extract_absolute_paths command))
          in if bad_service then
               Some (''host policy blocks service '' @ py_repr service @ '' on '' @ py_repr hostname
                 @ '' (allowed: '' @ list_repr (hi_allowed_services h) @ '')'')
             else
               (case bad_path of
                  Some a \<Rightarrow>
                    Some (''host policy blocks path '' @ py_repr a @ '' on '' @ py_repr hostname
                      @ '' (allowed paths: '' @ list_repr (hi_allowed_paths h) @ '')'')
                | None \<Rightarrow>
                    if policy = ''production'' \<and> has_systemctl p then
                      Some (''host policy blocks systemctl command on production host ''
                        @ py_repr hostname)
                    else None))"

section \<open>Environment from the host name\<close>

definition PRODUCTION_PATTERNS :: "rx list" where
  "PRODUCTION_PATTERNS =
     map Lit [''prod'', ''production'', ''live'', ''prd'', ''-prd-'', ''.prod.'']"

definition STAGING_PATTERNS :: "rx list" where
  "STAGING_PATTERNS = map Lit [''stag'', ''staging'', ''stage'', ''stg'', ''-stg-'']"

definition infer_environment :: "string option \<Rightarrow> string \<Rightarrow> string" where
  "infer_environment hostname own_hostname =
     (let h = py_lower (str_or hostname own_hostname) in
      if list_ex (\<lambda>r. re_test False r h) PRODUCTION_PATTERNS then ''production''
      else if list_ex (\<lambda>r. re_test False r h) STAGING_PATTERNS then ''staging''
      else ''dev'')"

section \<open>Rollback plans\<close>

record rollback_plan =
  rb_command :: string
  rb_risk_level :: risk
  rb_backup_cmd :: string
  rb_restore_cmd :: string
  rb_steps :: "string list"
  rb_automated :: bool
  rb_notes :: string

definition PY_INLINE_RE :: rx where
  "PY_INLINE_RE =
     Seqs [WB, Lit ''python'', Opt (Cls [Ch (CHR ''2''), Ch (CHR ''3'')]), Plus White, Lit ''-c'', WB]"

definition build_rollback_plan :: "string \<Rightarrow> risk \<Rightarrow> rollback_plan" where
  "build_rollback_plan command final_risk =
     (let c = py_lower command;
          plan = \<lparr>rb_command = command, rb_risk_level = final_risk, rb_backup_cmd = [],
            rb_restore_cmd = [], rb_steps = [], rb_automated = False, rb_notes = []\<rparr>;
          bq = [CHR 0x60]
      in
      if contains c ''bash -c'' \<or> contains c ''sh -c'' \<or> re_test False PY_INLINE_RE c then
        plan\<lparr>rb_backup_cmd := ''git stash && git add -A && git stash'',
          rb_restore_cmd := ''git checkout -- .'',
          rb_steps := [''Inline code execution: snapshot all changed files before running.'',
            ''Restore any modified files from git: '' @ bq @ ''git checkout -- .'' @ bq],
          rb_automated := False,
          rb_notes := ''Inline exec arbitrary code - manual review required before execution.''\<rparr>
      else if contains c ''rm '' \<or> contains c ''rmdir'' \<or> contains c ''xargs'' then
        plan\<lparr>rb_backup_cmd := ''git stash && git add -A && git stash'',
          rb_restore_cmd := ''git checkout -- .'',
          rb_steps := [''Before running: commit or stash any staged changes.'',
            ''Restore deleted files: '' @ bq @ ''git checkout -- .'' @ bq,
            ''If not tracked by git: restore from the last filesystem backup.''],
          rb_automated := True,
          rb_notes := ''Deleted files can be recovered from git history if previously tracked.''\<rparr>
      else if contains c ''drop table'' \<or> contains c ''truncate table'' then
        plan\<lparr>rb_backup_cmd := ''pg_dump $DATABASE_URL > backup_$(date +%s).sql'',
          rb_restore_cmd := ''psql $DATABASE_URL < backup_<timestamp>.sql'',
          rb_steps := [''Before running: create a full DB dump with pg_dump.'',
            ''Restore: psql $DATABASE_URL < backup_<timestamp>.sql''],
          rb_automated := False,
          rb_notes := ''Database destructive operation - manual snapshot required.''\<rparr>
      else if contains c ''git reset --hard'' then
        plan\<lparr>rb_backup_cmd := ''git log --oneline -5  # note the current SHA'',
          rb_restore_cmd := ''git reset --hard <pre-reset-SHA>'',
          rb_steps := [''Note current HEAD SHA: '' @ bq @ ''git rev-parse HEAD'' @ bq,
            ''After reset: use '' @ bq @ ''git reflog'' @ bq @ '' to find the pre-reset SHA.'',
            ''Restore: '' @ bq @ ''git reset --hard <pre-reset-SHA>'' @ bq],
          rb_automated := True,
          rb_notes := ''Git reflog retains commits for 90 days by default.''\<rparr>
      else if contains c ''git clean'' then
        plan\<lparr>rb_backup_cmd := ''git stash -u  # stash untracked files'',
          rb_restore_cmd := ''git stash pop'',
          rb_steps := [''Before running: '' @ bq @ ''git stash -u'' @ bq @ '' to save untracked files.'',
            ''Restore: '' @ bq @ ''git stash pop'' @ bq,
            ''Permanently deleted untracked files cannot be recovered without a backup.''],
          rb_automated := False,
          rb_notes := ''Untracked files cannot be recovered after git clean -f without stash.''\<rparr>
      else if contains c ''dd if='' \<or> contains c ''mkfs'' \<or> contains c ''wipefs'' then
        plan\<lparr>rb_backup_cmd := ''dd if=<device> of=<backup_file> bs=4M'',
          rb_restore_cmd := ''dd if=<backup_file> of=<device> bs=4M'',
          rb_steps := [''Before running: create a full disk image backup with '' @ bq @ ''dd'' @ bq @ ''.'',
            ''Restore: '' @ bq @ ''dd if=<backup_file> of=<device> bs=4M'' @ bq,
            ''This operation is IRREVERSIBLE without a prior disk image.''],
          rb_automated := False,
          rb_notes := ''Disk write is irreversible without a full disk image backup.''\<rparr>
      else if final_risk = Critical \<or> final_risk = High then
        plan\<lparr>rb_backup_cmd := ''git add -A && git stash'',
          rb_restore_cmd := ''git stash pop'',
          rb_steps := [''Command classified as '' @ risk_str final_risk @ '' - take a snapshot before running.'',
            ''Restore from the most recent backup of affected resources.''],
          rb_automated := False,
          rb_notes := ''Risk level '' @ risk_str final_risk @ '' - manual rollback required.''\<rparr>
      else plan)"

definition get_rollback_suggestion :: "string \<Rightarrow> risk \<Rightarrow> string" where
  "get_rollback_suggestion command final_risk =
     (let plan = build_rollback_plan command final_risk
      in if rb_steps plan \<noteq> [] then join '' | '' (rb_steps plan) else rb_notes plan)"

definition is_destructive :: "string \<Rightarrow> bool" where
  "is_destructive command = re_test True DESTRUCTIVE_PATTERNS command"

section \<open>Properties\<close>

lemma strip_const: "strip [] = []" "strip ''safe'' = ''safe''" "py_lower ''safe'' = ''safe''" "py_lower [] = []"
  by code_simp+

lemma strip_all_strip_all: "strip_all (strip_all xs) = strip_all xs"
  by (simp add: strip_all_def comp_def filter_map)

lemma strip_all_lower: "strip_all (map py_lower (strip_all xs)) = map py_lower (strip_all xs)"
  by (simp add: strip_all_def comp_def filter_map)

text \<open>Normalising host metadata twice is normalising it once: the explanation builder, which
  normalises the already normalised metadata again, reports exactly the metadata the policies saw.\<close>

theorem normalize_host_context_idempotent:
  "normalize_host_context (map_option as_raw_host (normalize_host_context ctx)) = normalize_host_context ctx"
proof (cases ctx)
  case (Some r)
  show ?thesis
  proof (cases "raw_host_empty r")
    case False
    then show ?thesis
      by (simp add: Some normalize_host_context_def as_raw_host_def raw_host_empty_def str_or_def
        list_or_nil_def strip_all_strip_all strip_all_lower Let_def strip_const)
  qed (simp add: Some normalize_host_context_def)
qed (simp add: normalize_host_context_def)

definition jailed_host :: host_info where
  "jailed_host = \<lparr>hi_hostname = ''web1'', hi_alias = [], hi_policy = ''safe'',
     hi_allowed_paths = [''/srv/app''], hi_allowed_services = [], hi_requires_backup = True,
     hi_approval_mode = [], hi_authorized_hosts = [], hi_structured_tool_available = False\<rparr>"

lemma jailed_paths:
  "extract_absolute_paths ''ls /srv/app2'' = [''/srv/app2'']"
  "extract_absolute_paths ''ls /srv/app/../x'' = [''/srv/app/../x'']"
  "extract_absolute_paths ''ls /srv/web'' = [''/srv/web'']"
  "path_allowed ''/srv/app2'' [''/srv/app'']" "path_allowed ''/srv/app/../x'' [''/srv/app'']"
  "\<not> path_allowed ''/srv/web'' [''/srv/app'']"
  by code_simp+

text \<open>The allowed paths of a host bound a command by a plain string prefix: a sibling directory
  whose name extends an allowed one passes, and so does a path that climbs out with
  \<^verbatim>\<open>..\<close>, which is not resolved.\<close>

theorem host_paths_are_string_prefixes:
  "host_policy_reason ''ls /srv/app2'' p (Some jailed_host) = None \<and>
   host_policy_reason ''ls /srv/app/../x'' p (Some jailed_host) = None \<and>
   host_policy_reason ''ls /srv/web'' p (Some jailed_host) \<noteq> None"
  by (simp add: host_policy_reason_def jailed_host_def or_str_def jailed_paths)

end
