(* ===== verification/Redaction.thy ===== *)
theory Redaction
  imports PyRegex PyVal
begin

text \<open>
  \<^verbatim>\<open>igris/core/redaction.py\<close> and the redaction entry points of
  \<^verbatim>\<open>igris/core/safety.py\<close>: the two secret patterns, \<^verbatim>\<open>redact\<close> (assignments first,
  then token prefixes), its lifting to nested values, the e-mail and phone forms, and the
  detector. The lemmas show that text without a secret is returned unchanged, that a
  \<^verbatim>\<open>password=\<close> assignment never keeps its value, and that nested redaction keeps the
  shape of a value.
\<close>

abbreviation "Alnum \<equiv> [Rng (CHR ''A'') (CHR ''Z''), Rng (CHR ''a'') (CHR ''z''), Rng (CHR ''0'') (CHR ''9'')]"
abbreviation "NonSpace \<equiv> NCls [SpaceC]"
abbreviation "UnderOrSpace \<equiv> Cls [Ch (CHR ''_''), SpaceC]"

definition secret_word :: rx where
  "secret_word = Alts [Lit ''token'', Lit ''passphrase'', Lit ''password'', Lit ''pass'', Lit ''secret'',
     Seqs [Lit ''api'', Opt UnderOrSpace, Lit ''key''],
     Seqs [Lit ''private'', Opt UnderOrSpace, Lit ''key''],
     Lit ''bearer'', Seq (Lit ''auth'') (Opt (Seq (Opt UnderOrSpace) (Lit ''key''))),
     Lit ''credential'', Lit ''cred'', Lit ''key'']"

definition SECRET_RE :: rx where
  "SECRET_RE = Seqs [Grp 1 secret_word, Star (Cls [SpaceC]), Cls [Ch (CHR ''=''), Ch (CHR '':'')],
     Star (Cls [SpaceC]), Plus NonSpace]"

definition PREFIX_RE :: rx where
  "PREFIX_RE = Alts
     [Seqs [Lit ''Bearer'', Plus (Cls [SpaceC]),
        AtLeast 20 (Cls (Alnum @ map Ch ''-._~+/''))],
      Seqs [Lit ''sk-'', AtLeast 3 (Cls (Alnum @ map Ch ''_-'')), AtLeast 10 (Cls Alnum)],
      Seqs [Lit ''gh'', Cls (map Ch ''pos''), Lit ''_'', AtLeast 10 (Cls Alnum)],
      Seqs [Lit ''github_pat_'', AtLeast 20 (Cls (Alnum @ [Ch (CHR ''_'')]))],
      Seqs [Lit ''AKIA'', Rep 16 (Cls [Rng (CHR ''A'') (CHR ''Z''), Rng (CHR ''0'') (CHR ''9'')])],
      Seqs [Words [''VAST'', ''VASTAI''], AtLeast 8 (Cls (Alnum @ [Ch (CHR ''_'')]))],
      Seqs [Lit ''FAKE_SECRET_'', Plus (Cls (Alnum @ [Ch (CHR ''_'')]))],
      Seqs [Lit ''FAKE_TOKEN_'', Plus (Cls (Alnum @ [Ch (CHR ''_'')]))]]"

definition redact :: "string \<Rightarrow> string" where
  "redact text =
     (if text = [] then text
      else
        let result = re_sub True SECRET_RE (\<lambda>c. dget_or c 1 [] @ ''=<REDACTED>'') text
        in re_sub True PREFIX_RE (\<lambda>_. ''<REDACTED>'') result)"

text \<open>\<^verbatim>\<open>safety.redact_secrets\<close> takes an optional text.\<close>

definition redact_secrets :: "string \<Rightarrow> string" where
  "redact_secrets text = (if text = [] then [] else redact text)"

definition detect_secret_like_content :: "string \<Rightarrow> bool" where
  "detect_secret_like_content text \<longleftrightarrow> re_test True SECRET_RE text \<or> re_test True PREFIX_RE text"

function redact_nested :: "pyval \<Rightarrow> pyval" where
  "redact_nested (PStr s) = PStr (redact s)"
| "redact_nested (PDict m) = PDict (map (\<lambda>(k, v). (k, redact_nested v)) m)"
| "redact_nested (PList xs) = PList (map redact_nested xs)"
| "redact_nested PNone = PNone"
| "redact_nested (PBool b) = PBool b"
| "redact_nested (PInt i) = PInt i"
| "redact_nested (PFloat r) = PFloat r"
| "redact_nested (PNonFinite x) = PNonFinite x"
  by pat_completeness auto
termination
proof (relation "measure size", goal_cases)
  case (2 m x k v)
  then have "(k, v) \<in> set m" by auto
  then have "size_prod (\<lambda>_. 0) size (k, v) \<le> size_list (size_prod (\<lambda>_. 0) size) m"
    by (rule size_list_estimation') simp
  then show ?case by simp
next
  case (3 xs x)
  then show ?case using size_list_estimation' [of x xs "size x" size] by simp
qed simp

definition redact_email :: "string \<Rightarrow> string" where
  "redact_email email =
     (if email = [] \<or> CHR ''@'' \<notin> set email then ''<REDACTED>''
      else
        let l = takeWhile (\<lambda>c. c \<noteq> CHR ''@'') email;
            domain = tl (dropWhile (\<lambda>c. c \<noteq> CHR ''@'') email)
        in (if length l \<le> 1 then l @ ''***@'' @ domain else [l ! 0] @ ''***@'' @ domain))"

definition redact_phone :: "string \<Rightarrow> string" where
  "redact_phone phone =
     (let digits = filter (\<lambda>c. in_item c DigitC) phone
      in if length digits < 4 then ''***'' else ''*** *** '' @ slice_from (- 4) digits)"

section \<open>Text without a secret\<close>

lemma matches_from_no_match: "\<not> re_test ic r s \<Longrightarrow> matches_from ic r [] s = []"
  by (cases "search_from ic r [] s")
    (simp_all add: re_test_def re_search_def matches_from.simps [of ic r "[]" s])

lemma re_sub_no_match: "\<not> re_test ic r s \<Longrightarrow> re_sub ic r f s = s"
  by (simp add: re_sub_def matches_from_no_match)

lemma redact_clean: "\<not> detect_secret_like_content s \<Longrightarrow> redact s = s"
  by (simp add: redact_def detect_secret_like_content_def re_sub_no_match Let_def)

lemma redact_secrets_Nil [simp]: "redact_secrets [] = []"
  by (simp add: redact_secrets_def)

lemma redact_secrets_clean: "\<not> detect_secret_like_content s \<Longrightarrow> redact_secrets s = s"
  by (simp add: redact_secrets_def redact_clean)

lemma search_from_here: "mt ic r (b, a, []) = q # qs \<Longrightarrow> search_from ic r b a = Some (b, q)"
  by (subst search_from.simps) simp

section \<open>An assignment loses its value\<close>

text \<open>A greedy run over non-white text takes all of it first.\<close>

lemma star_iter_hd_all:
  assumes "\<And>b x a c. \<not> is_space x \<Longrightarrow> f (b, x # a, c) = [(x # b, a, c)]"
    and "\<forall>x \<in> set v. \<not> is_space x" and "length v \<le> n"
    and "\<And>b c. f (b, [], c) = []"
  shows "\<exists>qs. star_iter n f (b, v, c) = (rev v @ b, [], c) # qs"
  using assms(2,3)
proof (induction v arbitrary: b n)
  case Nil
  then show ?case using assms(4) by (cases n) auto
next
  case (Cons x v)
  then obtain n' where n: "n = Suc n'" "length v \<le> n'" by (cases n) auto
  from Cons obtain qs where "star_iter n' f (x # b, v, c) = (rev v @ x # b, [], c) # qs"
    using n(2) by (metis list.set_intros(2))
  with n assms(1) Cons.prems show ?case by simp
qed

lemma mt_NonSpace_run:
  assumes "v \<noteq> []" "\<forall>x \<in> set v. \<not> is_space x"
  shows "\<exists>qs. mt True (Plus NonSpace) (b, v, c) = (rev v @ b, [], c) # qs"
proof -
  from assms obtain x w where v: "v = x # w" "\<not> is_space x" "\<forall>x \<in> set w. \<not> is_space x"
    by (cases v) auto
  have cls: "in_cls True [SpaceC] y = is_space y" if "\<not> is_space y" for y
    using that by (auto simp: in_cls_def in_items_def is_space_def lower_char_def upper_char_def Let_def)
  have "\<exists>qs. star_iter (length w) (mt True NonSpace) (x # b, w, c) = (rev w @ x # b, [], c) # qs"
    by (rule star_iter_hd_all) (use v cls in auto)
  with v cls show ?thesis by auto
qed

text \<open>What follows the keyword in the assignment pattern, on \<^verbatim>\<open>=\<close> and a value.\<close>

definition assign_tail :: rx where
  "assign_tail = Seqs [Star (Cls [SpaceC]), Cls [Ch (CHR ''=''), Ch (CHR '':'')],
     Star (Cls [SpaceC]), Plus NonSpace]"

lemma SECRET_RE_split: "SECRET_RE = Seq (Grp 1 secret_word) assign_tail"
  by (simp add: SECRET_RE_def assign_tail_def)

lemma not_space_cls: "\<not> is_space x \<Longrightarrow> in_cls True [SpaceC] x = False"
  by (auto simp: in_cls_def in_items_def is_space_def lower_char_def upper_char_def Let_def)

lemma white_run_stops:
  "v \<noteq> [] \<Longrightarrow> \<not> is_space (hd v) \<Longrightarrow> star_iter n (mt True (Cls [SpaceC])) (b, v, c) = [(b, v, c)]"
  by (cases n; cases v) (auto simp: not_space_cls)

lemma assign_tail_match:
  assumes "v \<noteq> []" "\<forall>x \<in> set v. \<not> is_space x"
  shows "\<exists>qs. mt True assign_tail (b, CHR ''='' # v, c) = (rev v @ CHR ''='' # b, [], c) # qs"
proof -
  have "\<not> is_space (hd v)" using assms by simp
  have "\<not> is_space (CHR ''='')" by (simp add: is_space_def)
  then have w1: "mt True (Star (Cls [SpaceC])) (b, CHR ''='' # v, c) = [(b, CHR ''='' # v, c)]"
    using white_run_stops [of "CHR ''='' # v"] by simp
  have w2: "mt True (Cls [Ch (CHR ''=''), Ch (CHR '':'')]) (b, CHR ''='' # v, c) = [(CHR ''='' # b, v, c)]"
    by (simp add: in_cls_def in_items_def)
  have w3: "mt True (Star (Cls [SpaceC])) (CHR ''='' # b, v, c) = [(CHR ''='' # b, v, c)]"
    using white_run_stops [OF assms(1) \<open>\<not> is_space (hd v)\<close>] by simp
  obtain qs where "mt True (Plus NonSpace) (CHR ''='' # b, v, c) = (rev v @ CHR ''='' # b, [], c) # qs"
    using mt_NonSpace_run [OF assms] by blast
  then show ?thesis
    unfolding assign_tail_def Seqs.simps mt.simps(6) [of True _ "Seq _ _"] w1 w2 w3
    by (simp add: w2 w3 del: mt.simps)
qed

lemma secret_word_password:
  "mt True (Grp 1 secret_word) ([], ''password='' @ v, []) =
     [(rev ''password'', CHR ''='' # v, [(1, ''password'')]),
      (rev ''pass'', ''word='' @ v, [(1, ''pass'')])]"
  by (simp add: secret_word_def eq_char_def lower_char_def)

lemma password_assignment_match:
  assumes "v \<noteq> []" "\<forall>x \<in> set v. \<not> is_space x"
  shows "\<exists>qs. mt True SECRET_RE ([], ''password='' @ v, []) =
     (rev (''password='' @ v), [], [(1, ''password'')]) # qs"
proof -
  obtain qs where "mt True assign_tail (rev ''password'', CHR ''='' # v, [(1, ''password'')]) =
      (rev v @ CHR ''='' # rev ''password'', [], [(1, ''password'')]) # qs"
    using assign_tail_match [OF assms] by blast
  then show ?thesis
    unfolding SECRET_RE_split mt.simps(6) secret_word_password by simp
qed

lemma redact_password_clean: "\<not> re_test True PREFIX_RE ''password=<REDACTED>''"
  by code_simp

text \<open>Whatever the value, nothing of it is left.\<close>

theorem redact_password_value:
  assumes "v \<noteq> []" "\<forall>x \<in> set v. \<not> is_space x"
  shows "redact (''password='' @ v) = ''password=<REDACTED>''"
proof -
  let ?s = "''password='' @ v"
  obtain qs where m: "mt True SECRET_RE ([], ?s, []) = (rev ?s, [], [(1, ''password'')]) # qs"
    using password_assignment_match [OF assms] by blast
  then have "search_from True SECRET_RE [] ?s = Some ([], (rev ?s, [], [(1, ''password'')]))"
    by (rule search_from_here)
  moreover have "search_from True SECRET_RE b [] = None" for b
    by (simp add: search_from.simps SECRET_RE_split secret_word_def starts_Nil_iff)
  ultimately have "matches_from True SECRET_RE [] ?s = [([], ?s, [(1, ''password'')])]"
    by (simp add: matches_from.simps)
  then have "re_sub True SECRET_RE (\<lambda>c. dget_or c 1 [] @ ''=<REDACTED>'') ?s = ''password=<REDACTED>''"
    by (simp add: re_sub_def dget_or_def)
  with redact_password_clean show ?thesis by (simp add: redact_def re_sub_no_match)
qed

section \<open>Nested values\<close>

text \<open>Redaction changes strings only: keys, lengths and the other values stay.\<close>

function same_shape :: "pyval \<Rightarrow> pyval \<Rightarrow> bool" where
  "same_shape (PStr s) w = (\<exists>t. w = PStr t)"
| "same_shape (PList xs) w =
     (case w of PList ys \<Rightarrow> length xs = length ys \<and> (\<forall>(x, y) \<in> set (zip xs ys). same_shape x y)
      | _ \<Rightarrow> False)"
| "same_shape (PDict m) w =
     (case w of PDict n \<Rightarrow> map fst m = map fst n \<and>
        (\<forall>((k, v), (k', v')) \<in> set (zip m n). same_shape v v')
      | _ \<Rightarrow> False)"
| "same_shape PNone w = (w = PNone)"
| "same_shape (PBool b) w = (w = PBool b)"
| "same_shape (PInt i) w = (w = PInt i)"
| "same_shape (PFloat r) w = (w = PFloat r)"
| "same_shape (PNonFinite x) w = (w = PNonFinite x)"
  by pat_completeness auto
termination
proof (relation "measure (\<lambda>(a, b). size a)", goal_cases)
  case (2 xs w ys z x y)
  then have "x \<in> set xs" by (auto dest: set_zip_leftD)
  then show ?case using size_list_estimation' [of x xs "size x" size] by simp
next
  case (3 m w n z p q k v k' v')
  then have "(k, v) \<in> set m" by (auto dest: set_zip_leftD)
  then have "size_prod (\<lambda>_. 0) size (k, v) \<le> size_list (size_prod (\<lambda>_. 0) size) m"
    by (rule size_list_estimation') simp
  then show ?case by simp
qed simp

lemma redact_nested_shape: "same_shape v (redact_nested v)"
proof (induction v)
  case (PList xs)
  have "same_shape x y" if "(x, y) \<in> set (zip xs (map redact_nested xs))" for x y
  proof -
    from that have "y = redact_nested x" "x \<in> set xs" by (auto simp: in_set_zip)
    with PList show ?thesis by simp
  qed
  then show ?case by auto
next
  case (PDict m)
  have "same_shape v v'"
    if "((k, v), (k', v')) \<in> set (zip m (map (\<lambda>(k, v). (k, redact_nested v)) m))" for k v k' v'
  proof -
    from that have "v' = redact_nested v" "(k, v) \<in> set m"
      by (auto simp: in_set_zip) (metis nth_mem)
    with PDict show ?thesis by fastforce
  qed
  then show ?case by (auto simp: case_prod_beta)
qed auto

end
