(* ===== verification/RiskEngine.thy ===== *)
theory RiskEngine
  imports RiskPolicy Redaction
begin

text \<open>
  \<^verbatim>\<open>CommandRiskEngine\<close> of \<^verbatim>\<open>igris/core/command_risk_engine.py\<close>: the evaluation of
  a raw shell command through hooks, dry run, working directory, classification, host policy,
  structured tools, the production block, the advisory review by a language model, the policy
  decision and the event log; and the evaluation of a parametrised template.

  The model's answer, \<^verbatim>\<open>json.loads\<close>, \<^verbatim>\<open>os.path.realpath\<close> and the replacement
  fields of \<^verbatim>\<open>str.format\<close> beyond plain names are the parameters of \<open>env\<close>; hooks are
  functions whose result says what they returned or raised. A result \<open>Inl e\<close> is an exception
  that leaves the evaluation.
\<close>

section \<open>Reviews, events, the engine\<close>

record review =
  rv_risk_assessment :: pyval
  rv_reasons :: pyval
  rv_affected_paths :: pyval
  rv_affected_services :: pyval
  rv_requires_rollback :: pyval
  rv_recommended_prechecks :: pyval
  rv_recommended_postchecks :: pyval
  rv_safer_alternative :: pyval
  rv_should_execute :: pyval

definition default_review :: review where
  "default_review = \<lparr>rv_risk_assessment = PStr ''unknown'', rv_reasons = PList [],
     rv_affected_paths = PList [], rv_affected_services = PList [],
     rv_requires_rollback = PBool False, rv_recommended_prechecks = PList [],
     rv_recommended_postchecks = PList [], rv_safer_alternative = PNone,
     rv_should_execute = PBool False\<rparr>"

datatype decision = Allowed | Blocked | NeedsApproval | DryRun

record explanation =
  ex_decision :: decision
  ex_final_risk :: risk
  ex_deterministic_risk :: risk
  ex_llm_review_used :: bool
  ex_deterministic_reasons :: "string list"
  ex_contextual_reasons :: "string list"
  ex_required_prechecks :: "pyval list"
  ex_required_postchecks :: "pyval list"
  ex_rollback_plan :: "rollback_plan option"
  ex_safer_alternative :: pyval
  ex_structured_tool_available :: bool
  ex_tool_first_recommended :: bool
  ex_structured_tool_recommendation :: "tool_recommendation option"
  ex_structured_tool_registry :: "string list"
  ex_fallback_rationale :: string
  ex_host_context :: "(string, pyval) dict"

record safety_event =
  ev_event_id :: string
  ev_timestamp :: pyfloat
  ev_command :: string
  ev_parsed_flags :: "string list"
  ev_deterministic_risk :: risk
  ev_llm_risk :: pyval
  ev_final_risk :: risk
  ev_decision :: decision
  ev_reason :: string
  ev_review_result :: "review option"
  ev_explanation :: "explanation option"
  ev_mission_id :: string
  ev_trace_id :: string

datatype hook_result = HookNone | HookReason string | HookCaught | HookCrash py_error

record engine =
  eng_project_root :: string
  eng_use_llm_reviewer :: bool
  eng_environment :: string
  eng_dry_run :: bool
  eng_event_log :: "safety_event list"
  eng_prechecks :: "(string \<Rightarrow> hook_result) list"
  eng_postchecks :: "(string \<Rightarrow> safety_event \<Rightarrow> hook_result) list"

datatype llm_answer = LlmUnavailable | LlmText string

record env =
  env_event_id :: string
  env_now :: pyfloat
  env_realpath :: "string \<Rightarrow> string"
  env_llm :: "string \<Rightarrow> risk \<Rightarrow> string list \<Rightarrow> string \<Rightarrow> llm_answer"
  env_json_loads :: "string \<Rightarrow> pyval option"
  env_format_field :: "string \<Rightarrow> (string, string) dict \<Rightarrow> py_error + string"

section \<open>Hooks\<close>

fun run_prechecks :: "(string \<Rightarrow> hook_result) list \<Rightarrow> string \<Rightarrow> py_error + string option" where
  "run_prechecks [] command = Inr None"
| "run_prechecks (h # hs) command =
     (case h command of
        HookReason r \<Rightarrow> Inr (Some r)
      | HookCrash e \<Rightarrow> Inl e
      | _ \<Rightarrow> run_prechecks hs command)"

fun run_postchecks ::
    "(string \<Rightarrow> safety_event \<Rightarrow> hook_result) list \<Rightarrow> string \<Rightarrow> safety_event \<Rightarrow> py_error + string option"
where
  "run_postchecks [] command ev = Inr None"
| "run_postchecks (h # hs) command ev =
     (case h command ev of
        HookReason r \<Rightarrow> Inr (Some r)
      | HookCrash e \<Rightarrow> Inl e
      | _ \<Rightarrow> run_postchecks hs command ev)"

definition register_precheck :: "(string \<Rightarrow> hook_result) \<Rightarrow> engine \<Rightarrow> engine" where
  "register_precheck f eng = eng\<lparr>eng_prechecks := eng_prechecks eng @ [f]\<rparr>"

definition register_postcheck :: "(string \<Rightarrow> safety_event \<Rightarrow> hook_result) \<Rightarrow> engine \<Rightarrow> engine" where
  "register_postcheck f eng = eng\<lparr>eng_postchecks := eng_postchecks eng @ [f]\<rparr>"

section \<open>The language model's review\<close>

definition get_key :: "(string \<times> pyval) list \<Rightarrow> string \<Rightarrow> pyval \<Rightarrow> pyval" where
  "get_key m k d = dget_or m k d"

text \<open>\<open>None\<close> is the \<^verbatim>\<open>AttributeError\<close> of a reply that is JSON but not an object.\<close>

definition parse_review_response :: "env \<Rightarrow> string \<Rightarrow> review option" where
  "parse_review_response en text =
     (case env_json_loads en text of
        None \<Rightarrow> Some (default_review\<lparr>
          rv_reasons := PList [PStr ''Failed to parse LLM review response'']\<rparr>)
      | Some (PDict d) \<Rightarrow> Some \<lparr>
          rv_risk_assessment = get_key d ''risk_assessment'' (PStr ''unknown''),
          rv_reasons = get_key d ''reasons'' (PList []),
          rv_affected_paths = get_key d ''affected_paths'' (PList []),
          rv_affected_services = get_key d ''affected_services'' (PList []),
          rv_requires_rollback = get_key d ''requires_rollback'' (PBool False),
          rv_recommended_prechecks = get_key d ''recommended_prechecks'' (PList []),
          rv_recommended_postchecks = get_key d ''recommended_postchecks'' (PList []),
          rv_safer_alternative = get_key d ''safer_alternative'' PNone,
          rv_should_execute = get_key d ''should_execute'' (PBool False)\<rparr>
      | Some _ \<Rightarrow> None)"

definition fallback_review :: "risk \<Rightarrow> review" where
  "fallback_review det_risk = default_review\<lparr>
     rv_risk_assessment := PStr (risk_str det_risk),
     rv_reasons := PList [PStr (''LLM review unavailable, using deterministic: '' @ risk_str det_risk)],
     rv_requires_rollback := PBool (det_risk = High \<or> det_risk = Critical),
     rv_should_execute := PBool (det_risk = Low)\<rparr>"

definition llm_review :: "env \<Rightarrow> string \<Rightarrow> parsed_command \<Rightarrow> string \<Rightarrow> risk \<Rightarrow> review" where
  "llm_review en command p context det_risk =
     (case env_llm en (redact_secrets command) det_risk (flags_list p) context of
        LlmUnavailable \<Rightarrow> fallback_review det_risk
      | LlmText text \<Rightarrow>
          if text = [] then fallback_review det_risk
          else (case parse_review_response en text of
                  None \<Rightarrow> fallback_review det_risk
                | Some rv \<Rightarrow> rv))"

section \<open>Final risk and policy\<close>

fun risk_order :: "risk \<Rightarrow> int" where
  "risk_order Low = 0"
| "risk_order Medium = 1"
| "risk_order High = 2"
| "risk_order Critical = 3"
| "risk_order Unknown = 2"

definition risk_of_str :: "string \<Rightarrow> risk option" where
  "risk_of_str s = find_first (\<lambda>r. risk_str r = s) [Low, Medium, High, Critical, Unknown]"

definition resolve_final_risk :: "risk \<Rightarrow> pyval \<Rightarrow> py_error + risk" where
  "resolve_final_risk deterministic llm =
     (if \<not> truthy llm then Inr deterministic
      else case llm of
        PList _ \<Rightarrow> Inl TypeError
      | PDict _ \<Rightarrow> Inl TypeError
      | PStr s \<Rightarrow>
          (case risk_of_str s of
             Some l \<Rightarrow> if risk_order l > risk_order deterministic then Inr l else Inr deterministic
           | None \<Rightarrow> Inr deterministic)
      | _ \<Rightarrow> Inr deterministic)"

definition reasons_or :: "review \<Rightarrow> string \<Rightarrow> py_error + string" where
  "reasons_or rv d = (case py_join (rv_reasons rv) of Inl e \<Rightarrow> Inl e | Inr s \<Rightarrow> Inr (or_str s d))"

definition with_reason :: "decision \<Rightarrow> string \<Rightarrow> py_error + string \<Rightarrow> py_error + decision \<times> string" where
  "with_reason d pre r = (case r of Inl e \<Rightarrow> Inl e | Inr s \<Rightarrow> Inr (d, pre @ s))"

definition apply_policy :: "risk \<Rightarrow> review \<Rightarrow> py_error + decision \<times> string" where
  "apply_policy risk rv =
     (case risk of
        Critical \<Rightarrow> with_reason Blocked ''Critical risk: '' (reasons_or rv ''deterministic block'')
      | High \<Rightarrow>
          if truthy (rv_requires_rollback rv) then
            with_reason NeedsApproval ''High risk, requires rollback: '' (reasons_or rv ''high risk'')
          else with_reason NeedsApproval ''High risk: '' (reasons_or rv ''high risk command'')
      | Medium \<Rightarrow> with_reason Allowed ''Medium risk, logged: '' (reasons_or rv ''standard medium'')
      | Low \<Rightarrow> Inr (Allowed, ''Low risk: safe command'')
      | Unknown \<Rightarrow> with_reason NeedsApproval ''Unknown risk: '' (reasons_or rv ''unrecognized command''))"

section \<open>Explanations\<close>

text \<open>The host keys an explanation reports, those with a true value.\<close>

definition host_summary :: "host_info option \<Rightarrow> (string, pyval) dict" where
  "host_summary h =
     (case h of
        None \<Rightarrow> []
      | Some i \<Rightarrow> filter (\<lambda>(k, v). truthy v)
          [(''hostname'', PStr (hi_hostname i)), (''policy'', PStr (hi_policy i)),
           (''allowed_paths'', PList (map PStr (hi_allowed_paths i))),
           (''allowed_services'', PList (map PStr (hi_allowed_services i)))])"

text \<open>\<^verbatim>\<open>list(v or [])\<close>.\<close>

definition list_of_or_nil :: "pyval \<Rightarrow> py_error + pyval list" where
  "list_of_or_nil v = (if truthy v then py_iter v else Inr [])"

definition build_decision_explanation ::
    "safety_event \<Rightarrow> review \<Rightarrow> host_info option \<Rightarrow> string list \<Rightarrow> rollback_plan option \<Rightarrow>
     tool_recommendation option \<Rightarrow> py_error + explanation"
where
  "build_decision_explanation ev rv host ctx rollback rec =
     (let h = normalize_host_context (map_option as_raw_host host);
          avail = (case h of None \<Rightarrow> False | Some i \<Rightarrow> hi_structured_tool_available i);
          rationale =
            (case rec of
               Some t \<Rightarrow> tr_fallback_rationale t
             | None \<Rightarrow>
                 if avail then ''structured tool available; raw shell should remain an exception''
                 else ''structured tool unavailable; raw shell policy applies'')
      in case list_of_or_nil (rv_recommended_prechecks rv) of
           Inl e \<Rightarrow> Inl e
         | Inr pre \<Rightarrow>
             (case list_of_or_nil (rv_recommended_postchecks rv) of
                Inl e \<Rightarrow> Inl e
              | Inr post \<Rightarrow> Inr \<lparr>
                  ex_decision = ev_decision ev, ex_final_risk = ev_final_risk ev,
                  ex_deterministic_risk = ev_deterministic_risk ev,
                  ex_llm_review_used = truthy (ev_llm_risk ev),
                  ex_deterministic_reasons = (if ev_reason ev = [] then [] else [ev_reason ev]),
                  ex_contextual_reasons = ctx,
                  ex_required_prechecks = pre, ex_required_postchecks = post,
                  ex_rollback_plan = rollback, ex_safer_alternative = rv_safer_alternative rv,
                  ex_structured_tool_available = avail,
                  ex_tool_first_recommended = (rec \<noteq> None),
                  ex_structured_tool_recommendation = rec,
                  ex_structured_tool_registry = dkeys STRUCTURED_TOOL_REGISTRY,
                  ex_fallback_rationale = rationale,
                  ex_host_context = host_summary h\<rparr>))"

section \<open>Evaluating a command\<close>

type_synonym outcome = "py_error + engine \<times> safety_event \<times> review"

definition new_event :: "env \<Rightarrow> string \<Rightarrow> string \<Rightarrow> string \<Rightarrow> safety_event" where
  "new_event en command mission trace = \<lparr>ev_event_id = env_event_id en,
     ev_timestamp = env_now en, ev_command = command, ev_parsed_flags = [],
     ev_deterministic_risk = Unknown, ev_llm_risk = PStr [], ev_final_risk = Unknown,
     ev_decision = Blocked, ev_reason = [], ev_review_result = None, ev_explanation = None,
     ev_mission_id = mission, ev_trace_id = trace\<rparr>"

text \<open>Every path ends the same way: the explanation is attached, the event logged.\<close>

definition conclude ::
    "engine \<Rightarrow> safety_event \<Rightarrow> review \<Rightarrow> host_info option \<Rightarrow> string list \<Rightarrow>
     rollback_plan option \<Rightarrow> tool_recommendation option \<Rightarrow> outcome"
where
  "conclude eng ev rv host ctx rollback rec =
     (case build_decision_explanation ev rv host ctx rollback rec of
        Inl e \<Rightarrow> Inl e
      | Inr x \<Rightarrow>
          let ev' = ev\<lparr>ev_explanation := Some x\<rparr>
          in Inr (eng\<lparr>eng_event_log := eng_event_log eng @ [ev']\<rparr>, ev', rv))"

definition rollback_if_risky :: "string \<Rightarrow> risk \<Rightarrow> rollback_plan option" where
  "rollback_if_risky command r =
     (if r = High \<or> r = Critical then Some (build_rollback_plan command r) else None)"

definition system_dirs :: "string list" where
  "system_dirs = [''/etc'', ''/usr'', ''/var'', ''/bin'', ''/sbin'', ''/lib'', ''/boot'', ''/sys'', ''/proc'']"

text \<open>The postchecks that follow the policy decision; a reason blocks.\<close>

definition finish_reviewed ::
    "engine \<Rightarrow> string \<Rightarrow> host_info option \<Rightarrow> rollback_plan option \<Rightarrow> review \<Rightarrow> safety_event \<Rightarrow> outcome"
where
  "finish_reviewed eng command host rollback rv ev3 =
     (case (if ev_decision ev3 = Allowed \<or> ev_decision ev3 = NeedsApproval
            then run_postchecks (eng_postchecks eng) command ev3 else Inr None) of
        Inl e \<Rightarrow> Inl e
      | Inr blk \<Rightarrow>
          let ev4 = (case blk of
                       Some (c # cs) \<Rightarrow> ev3\<lparr>ev_decision := Blocked,
                         ev_reason := ''postcheck: '' @ c # cs\<rparr>
                     | _ \<Rightarrow> ev3)
          in conclude eng ev4 rv host
               (if ev_reason ev4 = [] then [] else [ev_reason ev4]) rollback None)"

text \<open>Steps 3 to 6: review, final risk, production block, policy, postchecks.\<close>

definition evaluate_reviewed ::
    "env \<Rightarrow> engine \<Rightarrow> string \<Rightarrow> string \<Rightarrow> host_info option \<Rightarrow> parsed_command \<Rightarrow> risk \<Rightarrow> safety_event \<Rightarrow> outcome"
where
  "evaluate_reviewed en eng command context host p det_risk ev =
     (let reviewed = det_risk \<in> set [Medium, High, Unknown] \<and> eng_use_llm_reviewer eng;
          rv = (if reviewed then llm_review en command p context det_risk else default_review);
          ev1 = (if reviewed then ev\<lparr>ev_llm_risk := rv_risk_assessment rv\<rparr> else ev)
      in case resolve_final_risk det_risk (ev_llm_risk ev1) of
           Inl e \<Rightarrow> Inl e
         | Inr final \<Rightarrow>
             let ev2 = ev1\<lparr>ev_final_risk := final\<rparr>;
                 rollback = rollback_if_risky command final
             in if eng_environment eng = ''production'' \<and> (final = High \<or> final = Critical) then
                  (case reasons_or rv ''policy'' of
                     Inl e \<Rightarrow> Inl e
                   | Inr why \<Rightarrow>
                       conclude eng (ev2\<lparr>ev_decision := Blocked,
                           ev_reason := ''Blocked in production environment (risk='' @ risk_str final
                             @ ''): '' @ why\<rparr>)
                         rv host [''production risk block''] rollback None)
                else
                  (case apply_policy final rv of
                     Inl e \<Rightarrow> Inl e
                   | Inr (d, why) \<Rightarrow>
                       finish_reviewed eng command host rollback rv
                         (ev2\<lparr>ev_decision := d, ev_reason := why, ev_review_result := Some rv\<rparr>)))"

text \<open>Steps 1 and 2 with the host policy, the structured tools and the destructive test.\<close>

definition evaluate_parsed ::
    "env \<Rightarrow> engine \<Rightarrow> string \<Rightarrow> string \<Rightarrow> host_info option \<Rightarrow> safety_event \<Rightarrow> outcome"
where
  "evaluate_parsed en eng command context host ev =
     (let p = parse_command command;
          det_risk = classify_command_risk p;
          ev1 = ev\<lparr>ev_parsed_flags := flags_list p, ev_deterministic_risk := det_risk\<rparr>
      in case host_policy_reason command p host of
           Some why \<Rightarrow>
             conclude eng (ev1\<lparr>ev_decision := Blocked, ev_reason := ''host policy: '' @ why,
                 ev_deterministic_risk := High, ev_final_risk := High\<rparr>)
               default_review host [why] None None
         | None \<Rightarrow>
             (case structured_tool_recommendation p host of
                Some t \<Rightarrow>
                  let r = (if det_risk = Unknown then High else det_risk)
                  in conclude eng (ev1\<lparr>ev_decision := Blocked,
                         ev_reason := ''tool-first policy: '' @ tr_reason t,
                         ev_final_risk := r, ev_deterministic_risk := r\<rparr>)
                       default_review host [tr_reason t] (rollback_if_risky command r) (Some t)
              | None \<Rightarrow>
                  if is_destructive command \<and> eng_environment eng = ''production'' then
                    conclude eng (ev1\<lparr>ev_deterministic_risk := Critical,
                        ev_reason := ''Destructive command blocked in production environment: ''
                          @ take 100 command,
                        ev_decision := Blocked, ev_final_risk := Critical\<rparr>)
                      default_review host [''production destructive block''] None None
                  else if is_destructive command \<and> eng_environment eng = ''staging''
                          \<and> det_risk \<noteq> High \<and> det_risk \<noteq> Critical then
                    evaluate_reviewed en eng command context host p High
                      (ev1\<lparr>ev_deterministic_risk := High\<rparr>)
                  else evaluate_reviewed en eng command context host p det_risk ev1))"

definition evaluate_command ::
    "env \<Rightarrow> engine \<Rightarrow> string \<Rightarrow> string \<Rightarrow> string \<Rightarrow> string \<Rightarrow> string option \<Rightarrow> raw_host option \<Rightarrow> outcome"
where
  "evaluate_command en eng command context mission trace cwd host_context =
     (let ev = new_event en command mission trace;
          host = normalize_host_context host_context
      in case run_prechecks (eng_prechecks eng) command of
           Inl e \<Rightarrow> Inl e
         | Inr (Some (c # cs)) \<Rightarrow>
             conclude eng (ev\<lparr>ev_decision := Blocked, ev_reason := ''precheck: '' @ c # cs,
                 ev_final_risk := High, ev_deterministic_risk := High\<rparr>)
               default_review host [''precheck:'' @ c # cs] None None
         | Inr _ \<Rightarrow>
             if eng_dry_run eng then
               let p = parse_command command; det_risk = classify_command_risk p
               in conclude eng (ev\<lparr>ev_parsed_flags := flags_list p, ev_deterministic_risk := det_risk,
                      ev_final_risk := det_risk, ev_decision := DryRun,
                      ev_reason := ''dry_run mode: would classify as '' @ risk_str det_risk\<rparr>)
                    default_review host [''dry_run mode''] None None
             else
               (case cwd of
                  Some (d # ds) \<Rightarrow>
                    let resolved = env_realpath en (d # ds);
                        proj = env_realpath en (eng_project_root eng)
                    in if list_ex (starts resolved) system_dirs then
                         conclude eng (ev\<lparr>ev_reason := ''Command cwd is a system directory (''
                               @ py_repr resolved @ ''); escalating risk.'',
                             ev_decision := Blocked, ev_deterministic_risk := High,
                             ev_final_risk := High\<rparr>)
                           default_review host [''cwd:'' @ resolved] None None
                       else evaluate_parsed en eng command
                         (if starts resolved proj then context
                          else context @ '' [cwd='' @ py_repr resolved @ '' is outside project root]'')
                         host ev
                | _ \<Rightarrow> evaluate_parsed en eng command context host ev))"

section \<open>Templates\<close>

definition templates :: "(string, string) dict" where
  "templates =
     [(''pip_install'', ''pip install {package}''), (''npm_install'', ''npm install {package}''),
      (''pytest_run'', ''python -m pytest {path} -v''), (''git_status'', ''git status''),
      (''git_diff'', ''git diff {path}''), (''cat_file'', ''cat {path}''),
      (''ls_dir'', ''ls -la {path}''), (''docker_ps'', ''docker ps''),
      (''systemctl_status'', ''systemctl status {service}'')]"

text \<open>
  \<^verbatim>\<open>template.format(**parameters)\<close>, left to right: doubled braces are literal, a plain
  field name is looked up (an empty or numeric one is positional, and there are no positional
  arguments), anything else in a field goes to \<open>env_format_field\<close>.
\<close>

definition plain_field :: "string \<Rightarrow> bool" where
  "plain_field name \<longleftrightarrow> (\<forall>c \<in> set name. c \<notin> set ''.[!:'')"

definition format_field :: "env \<Rightarrow> string \<Rightarrow> (string, string) dict \<Rightarrow> py_error + string" where
  "format_field en name params =
     (if CHR ''{'' \<in> set name then Inl ValueError
      else if \<not> plain_field name then env_format_field en name params
      else if \<forall>c \<in> set name. in_item c DigitC then Inl IndexError
      else (case dget params name of None \<Rightarrow> Inl KeyError | Some v \<Rightarrow> Inr v))"

fun py_format :: "env \<Rightarrow> (string, string) dict \<Rightarrow> string option \<Rightarrow> string \<Rightarrow> py_error + string" where
  "py_format en params None [] = Inr []"
| "py_format en params None [c] =
     (if c = CHR ''{'' \<or> c = CHR ''}'' then Inl ValueError else Inr [c])"
| "py_format en params None (c # d # s) =
     (if c = CHR ''{'' \<and> d = CHR ''{'' \<or> c = CHR ''}'' \<and> d = CHR ''}'' then
        map_sum id ((#) c) (py_format en params None s)
      else if c = CHR ''}'' then Inl ValueError
      else if c = CHR ''{'' then py_format en params (Some []) (d # s)
      else map_sum id ((#) c) (py_format en params None (d # s)))"
| "py_format en params (Some name) [] = Inl ValueError"
| "py_format en params (Some name) (c # s) =
     (if c = CHR ''}'' then
        (case format_field en name params of
           Inl e \<Rightarrow> Inl e
         | Inr v \<Rightarrow> map_sum id ((@) v) (py_format en params None s))
      else py_format en params (Some (name @ [c])) s)"

definition render_template :: "env \<Rightarrow> string \<Rightarrow> (string, string) dict \<Rightarrow> py_error + string" where
  "render_template en template_id params =
     (let template = dget_or templates template_id template_id
      in case py_format en params None template of
           Inl KeyError \<Rightarrow> Inr template
         | Inl IndexError \<Rightarrow> Inr template
         | r \<Rightarrow> r)"

definition validate_template_params :: "(string, string) dict \<Rightarrow> string option" where
  "validate_template_params params =
     (case find_first (\<lambda>(k, v). re_test False UNSAFE_PARAM_CHARS_RE v) params of
        None \<Rightarrow> None
      | Some (k, v) \<Rightarrow>
          let c = (case find_first (\<lambda>c. c \<in> set unsafe_param_chars) v of Some c \<Rightarrow> [c] | None \<Rightarrow> ''?'')
          in Some (''param '' @ py_repr k @ '' contains unsafe shell character '' @ py_repr c
               @ '' in value '' @ py_repr (take 40 v)))"

text \<open>
  The event that \<^verbatim>\<open>evaluate_command\<close> logged is the object the template evaluation goes on
  to change, so the entry already in the log changes with it; the same object is then appended
  a second time.
\<close>

definition evaluate_template ::
    "env \<Rightarrow> engine \<Rightarrow> string \<Rightarrow> (string, string) dict \<Rightarrow> string \<Rightarrow> string \<Rightarrow> raw_host option \<Rightarrow> outcome"
where
  "evaluate_template en eng template_id params mission trace host_context =
     (case validate_template_params params of
        Some err \<Rightarrow>
          let ev = (new_event en (''template:'' @ template_id) mission trace)\<lparr>
                ev_decision := Blocked, ev_reason := ''template param injection: '' @ err,
                ev_final_risk := Critical, ev_deterministic_risk := Critical\<rparr>
          in Inr (eng\<lparr>eng_event_log := eng_event_log eng @ [ev]\<rparr>, ev,
               default_review\<lparr>rv_risk_assessment := PStr ''critical'', rv_reasons := PList [PStr err],
                 rv_should_execute := PBool False\<rparr>)
      | None \<Rightarrow>
          (case render_template en template_id params of
             Inl e \<Rightarrow> Inl e
           | Inr rendered \<Rightarrow>
               (case evaluate_command en eng rendered (''Template: '' @ template_id) mission trace None
                       host_context of
                  Inl e \<Rightarrow> Inl e
                | Inr (eng1, ev, rv) \<Rightarrow>
                    let ev1 = (if ev_final_risk ev = High then
                                 ev\<lparr>ev_final_risk := Medium,
                                   ev_reason := ''Template risk reduced: '' @ ev_reason ev\<rparr>
                               else if ev_final_risk ev = Medium then
                                 ev\<lparr>ev_final_risk := Low,
                                   ev_reason := ''Template risk reduced: '' @ ev_reason ev\<rparr>
                               else ev)
                    in (case apply_policy (ev_final_risk ev1) rv of
                          Inl e \<Rightarrow> Inl e
                        | Inr (d, why) \<Rightarrow>
                            let ev2 = ev1\<lparr>ev_decision := d\<rparr>;
                                ev3 = (if contains (ev_reason ev2) ''Template'' then ev2
                                       else ev2\<lparr>ev_reason := ''Template risk reduced: '' @ why\<rparr>)
                            in Inr (eng1\<lparr>eng_event_log := butlast (eng_event_log eng1) @ [ev3, ev3]\<rparr>,
                                 ev3, rv)))))"

definition get_recent_events :: "engine \<Rightarrow> int \<Rightarrow> safety_event list" where
  "get_recent_events eng limit =
     map (\<lambda>e. e\<lparr>ev_command := redact_secrets (ev_command e), ev_reason := redact_secrets (ev_reason e)\<rparr>)
       (slice_from (- limit) (eng_event_log eng))"

section \<open>What every evaluation gives\<close>

lemma concludeE:
  assumes "conclude eng ev rv host ctx rb rec = Inr (eng', ev', rv')"
  shows "\<exists>x. ev' = ev\<lparr>ev_explanation := Some x\<rparr> \<and> ex_decision x = ev_decision ev \<and>
      ex_final_risk x = ev_final_risk ev \<and> ex_deterministic_risk x = ev_deterministic_risk ev \<and>
      eng' = eng\<lparr>eng_event_log := eng_event_log eng @ [ev']\<rparr> \<and> rv' = rv"
  using assms unfolding conclude_def build_decision_explanation_def
  by (auto simp: Let_def split: sum.splits)

lemma apply_policy_decision:
  "apply_policy r rv = Inr (d, why) \<Longrightarrow>
     d = (case r of Critical \<Rightarrow> Blocked | High \<Rightarrow> NeedsApproval | Medium \<Rightarrow> Allowed
          | Low \<Rightarrow> Allowed | Unknown \<Rightarrow> NeedsApproval)"
  by (cases r) (auto simp: apply_policy_def with_reason_def split: sum.splits if_splits)

lemma apply_policy_Allowed:
  "apply_policy r rv = Inr (Allowed, why) \<Longrightarrow> r = Low \<or> r = Medium"
  by (drule apply_policy_decision) (cases r; simp)

lemma resolve_final_risk_ge:
  "resolve_final_risk det v = Inr f \<Longrightarrow> risk_order det \<le> risk_order f"
  by (auto simp: resolve_final_risk_def split: if_splits pyval.splits option.splits)

text \<open>The event and the explanation a finished evaluation leaves, and the log it extends.\<close>

definition logged :: "engine \<Rightarrow> string \<Rightarrow> engine \<Rightarrow> safety_event \<Rightarrow> bool" where
  "logged eng command eng' ev \<longleftrightarrow>
     eng' = eng\<lparr>eng_event_log := eng_event_log eng @ [ev]\<rparr> \<and> ev_command ev = command \<and>
     (\<exists>x. ev_explanation ev = Some x \<and> ex_decision x = ev_decision ev \<and>
        ex_final_risk x = ev_final_risk ev \<and> ex_deterministic_risk x = ev_deterministic_risk ev)"

lemma conclude_logged:
  assumes "conclude eng ev rv host ctx rb rec = Inr (eng', ev', rv')"
  shows "logged eng (ev_command ev) eng' ev'" and "ev_decision ev' = ev_decision ev"
    and "ev_final_risk ev' = ev_final_risk ev"
  using concludeE [OF assms] by (auto simp: logged_def)

lemma finish_reviewed_shape:
  assumes "finish_reviewed eng command host rb rv ev3 = Inr out"
  shows "\<exists>e ctx. conclude eng e rv host ctx rb None = Inr out \<and>
      (e = ev3 \<or> (\<exists>r. e = ev3\<lparr>ev_decision := Blocked, ev_reason := r\<rparr>))"
  using assms unfolding finish_reviewed_def Let_def
  by (auto split: sum.splits option.splits list.splits if_splits)

text \<open>The shape of steps 3 to 6: the final risk, then an event built on it is concluded.\<close>

lemma evaluate_reviewed_shape:
  assumes "evaluate_reviewed en eng command context host p det ev = Inr (eng', ev', rv')"
  shows "\<exists>e rv ctx rb. conclude eng e rv host ctx rb None = Inr (eng', ev', rv') \<and>
      ev_command e = ev_command ev \<and> risk_order det \<le> risk_order (ev_final_risk e) \<and>
      (ev_decision e = Allowed \<longrightarrow> ev_final_risk e = Low \<or> ev_final_risk e = Medium) \<and>
      (eng_environment eng = ''production'' \<and> (ev_final_risk e = High \<or> ev_final_risk e = Critical) \<longrightarrow>
         ev_decision e = Blocked)"
proof -
  define reviewed where "reviewed \<longleftrightarrow> det \<in> set [Medium, High, Unknown] \<and> eng_use_llm_reviewer eng"
  define rv where "rv = (if reviewed then llm_review en command p context det else default_review)"
  define ev1 where "ev1 = (if reviewed then ev\<lparr>ev_llm_risk := rv_risk_assessment rv\<rparr> else ev)"
  have cmd: "ev_command ev1 = ev_command ev" by (simp add: ev1_def)
  note eq = assms [unfolded evaluate_reviewed_def Let_def, folded reviewed_def, folded rv_def, folded ev1_def]
  obtain final where final: "resolve_final_risk det (ev_llm_risk ev1) = Inr final"
    using eq by (cases "resolve_final_risk det (ev_llm_risk ev1)") simp_all
  note ge = resolve_final_risk_ge [OF final]
  show ?thesis
  proof (cases "eng_environment eng = ''production'' \<and> (final = High \<or> final = Critical)")
    case True
    with eq final obtain why where why: "reasons_or rv ''policy'' = Inr why"
      by (cases "reasons_or rv ''policy''") simp_all
    define e where "e = ev1\<lparr>ev_final_risk := final, ev_decision := Blocked,
      ev_reason := ''Blocked in production environment (risk='' @ risk_str final @ ''): '' @ why\<rparr>"
    have c: "conclude eng e rv host [''production risk block''] (rollback_if_risky command final) None
        = Inr (eng', ev', rv')"
      using eq final True why by (simp add: e_def)
    show ?thesis
      by (intro exI conjI, rule c) (use ge in \<open>auto simp: e_def cmd\<close>)
  next
    case False
    with eq final obtain d why where d: "apply_policy final rv = Inr (d, why)"
      by (cases "apply_policy final rv") auto
    have allowed: "d = Allowed \<longrightarrow> final = Low \<or> final = Medium"
      using apply_policy_Allowed d by blast
    define ev3 where "ev3 = ev1\<lparr>ev_final_risk := final, ev_decision := d, ev_reason := why,
      ev_review_result := Some rv\<rparr>"
    have "finish_reviewed eng command host (rollback_if_risky command final) rv ev3 = Inr (eng', ev', rv')"
      using eq final False d by (simp add: ev3_def)
    then obtain e ctx where c: "conclude eng e rv host ctx (rollback_if_risky command final) None
        = Inr (eng', ev', rv')" and e: "e = ev3 \<or> (\<exists>r. e = ev3\<lparr>ev_decision := Blocked, ev_reason := r\<rparr>)"
      using finish_reviewed_shape by blast
    show ?thesis
      by (intro exI conjI, rule c) (use ge False allowed e in \<open>auto simp: ev3_def cmd\<close>)
  qed
qed

lemma evaluate_reviewed_result:
  assumes "evaluate_reviewed en eng command context host p det ev = Inr (eng', ev', rv')"
  shows "logged eng (ev_command ev) eng' ev'"
    and "risk_order det \<le> risk_order (ev_final_risk ev')"
    and "ev_decision ev' = Allowed \<Longrightarrow> ev_final_risk ev' = Low \<or> ev_final_risk ev' = Medium"
    and "eng_environment eng = ''production'' \<Longrightarrow> ev_final_risk ev' = High \<or> ev_final_risk ev' = Critical \<Longrightarrow>
      ev_decision ev' = Blocked"
proof -
  obtain e rv ctx rb where c: "conclude eng e rv host ctx rb None = Inr (eng', ev', rv')" and
    e: "ev_command e = ev_command ev" "risk_order det \<le> risk_order (ev_final_risk e)"
      "ev_decision e = Allowed \<longrightarrow> ev_final_risk e = Low \<or> ev_final_risk e = Medium"
      "eng_environment eng = ''production'' \<and> (ev_final_risk e = High \<or> ev_final_risk e = Critical) \<longrightarrow>
         ev_decision e = Blocked"
    using evaluate_reviewed_shape [OF assms] by blast
  note l = conclude_logged [OF c]
  show "logged eng (ev_command ev) eng' ev'" using l(1) e(1) by simp
  show "risk_order det \<le> risk_order (ev_final_risk ev')" using l(3) e(2) by simp
  show "ev_decision ev' = Allowed \<Longrightarrow> ev_final_risk ev' = Low \<or> ev_final_risk ev' = Medium"
    using l(2,3) e(3) by simp
  show "eng_environment eng = ''production'' \<Longrightarrow>
    ev_final_risk ev' = High \<or> ev_final_risk ev' = Critical \<Longrightarrow> ev_decision ev' = Blocked"
    using l(2,3) e(4) by simp
qed

definition reach_policy :: "engine \<Rightarrow> string \<Rightarrow> host_info option \<Rightarrow> bool" where
  "reach_policy eng command host \<longleftrightarrow>
     host_policy_reason command (parse_command command) host = None \<and>
     structured_tool_recommendation (parse_command command) host = None \<and>
     (is_destructive command \<longrightarrow> eng_environment eng \<noteq> ''production'')"

text \<open>Either the evaluation stops at one of the early blocks, or it goes through the policy
  decision with at least the classified risk.\<close>

lemma evaluate_parsed_shape:
  assumes "evaluate_parsed en eng command context host ev = Inr (eng', ev', rv')"
  shows "(\<exists>e rv ctx rb rec. conclude eng e rv host ctx rb rec = Inr (eng', ev', rv') \<and>
            ev_command e = ev_command ev \<and> ev_decision e = Blocked) \<or>
         (\<exists>det e. evaluate_reviewed en eng command context host (parse_command command) det e
              = Inr (eng', ev', rv') \<and>
            ev_command e = ev_command ev \<and>
            risk_order (classify_command_risk (parse_command command)) \<le> risk_order det \<and>
            (is_destructive command \<and> eng_environment eng = ''staging'' \<longrightarrow> risk_order High \<le> risk_order det) \<and>
            reach_policy eng command host)"
proof -
  define p where "p = parse_command command"
  define det where "det = classify_command_risk p"
  define ev1 where "ev1 = ev\<lparr>ev_parsed_flags := flags_list p, ev_deterministic_risk := det\<rparr>"
  have cmd: "ev_command ev1 = ev_command ev" by (simp add: ev1_def)
  note eq = assms [unfolded evaluate_parsed_def Let_def, folded p_def, folded det_def, folded ev1_def]
  show ?thesis
  proof (cases "host_policy_reason command p host")
    case (Some why)
    with eq show ?thesis
      by (intro disjI1) (simp, intro exI conjI, assumption, simp_all add: cmd)
  next
    case host: None
    show ?thesis
    proof (cases "structured_tool_recommendation p host")
      case (Some t)
      with eq host show ?thesis
        by (intro disjI1) (simp, intro exI conjI, assumption, simp_all add: cmd)
    next
      case None
      note eq' = eq [unfolded host None option.case]
      show ?thesis
      proof (cases "is_destructive command \<and> eng_environment eng = ''production''")
        case True
        with eq' show ?thesis
          by (intro disjI1) (simp, intro exI conjI, assumption, simp_all add: cmd)
      next
        case False
        with host None have reach: "reach_policy eng command host"
          by (auto simp: reach_policy_def p_def)
        show ?thesis
        proof (cases "is_destructive command \<and> eng_environment eng = ''staging'' \<and> det \<noteq> High \<and> det \<noteq> Critical")
          case True
          have "risk_order det \<le> risk_order High" using True by (cases det) auto
          moreover have "evaluate_reviewed en eng command context host p High
              (ev1\<lparr>ev_deterministic_risk := High\<rparr>) = Inr (eng', ev', rv')"
            using eq' False True by simp
          ultimately show ?thesis using reach cmd by (fastforce simp: p_def det_def)
        next
          case stay: False
          have "is_destructive command \<and> eng_environment eng = ''staging'' \<longrightarrow> risk_order High \<le> risk_order det"
            using stay by (cases det) auto
          moreover have "evaluate_reviewed en eng command context host p det ev1 = Inr (eng', ev', rv')"
            using eq' False stay by simp
          ultimately show ?thesis using reach cmd by (fastforce simp: p_def det_def)
        qed
      qed
    qed
  qed
qed

lemma risk_order_policy:
  "r = Low \<or> r = Medium \<longleftrightarrow> risk_order r \<le> 1"
  by (cases r) auto

lemma evaluate_parsed_result:
  assumes "evaluate_parsed en eng command context host ev = Inr (eng', ev', rv')"
  shows "logged eng (ev_command ev) eng' ev'"
    and "ev_decision ev' \<noteq> Blocked \<Longrightarrow>
      risk_order (classify_command_risk (parse_command command)) \<le> risk_order (ev_final_risk ev') \<and>
      reach_policy eng command host \<and>
      (is_destructive command \<and> eng_environment eng = ''staging'' \<longrightarrow> risk_order High \<le> risk_order (ev_final_risk ev'))"
    and "ev_decision ev' = Allowed \<Longrightarrow> ev_final_risk ev' = Low \<or> ev_final_risk ev' = Medium"
    and "eng_environment eng = ''production'' \<Longrightarrow> ev_final_risk ev' = High \<or> ev_final_risk ev' = Critical \<Longrightarrow>
      ev_decision ev' = Blocked"
proof -
  consider (early) e rv ctx rb rec where "conclude eng e rv host ctx rb rec = Inr (eng', ev', rv')"
      "ev_command e = ev_command ev" "ev_decision e = Blocked"
    | (late) det e where "evaluate_reviewed en eng command context host (parse_command command) det e
          = Inr (eng', ev', rv')" "ev_command e = ev_command ev"
        "risk_order (classify_command_risk (parse_command command)) \<le> risk_order det"
        "is_destructive command \<and> eng_environment eng = ''staging'' \<longrightarrow> risk_order High \<le> risk_order det"
        "reach_policy eng command host"
    using evaluate_parsed_shape [OF assms] by blast
  then have "logged eng (ev_command ev) eng' ev' \<and>
    (ev_decision ev' \<noteq> Blocked \<longrightarrow>
      risk_order (classify_command_risk (parse_command command)) \<le> risk_order (ev_final_risk ev') \<and>
      reach_policy eng command host \<and>
      (is_destructive command \<and> eng_environment eng = ''staging'' \<longrightarrow> risk_order High \<le> risk_order (ev_final_risk ev'))) \<and>
    (ev_decision ev' = Allowed \<longrightarrow> ev_final_risk ev' = Low \<or> ev_final_risk ev' = Medium) \<and>
    (eng_environment eng = ''production'' \<and> (ev_final_risk ev' = High \<or> ev_final_risk ev' = Critical) \<longrightarrow>
      ev_decision ev' = Blocked)"
  proof cases
    case early
    with conclude_logged [OF early(1)] show ?thesis by simp
  next
    case late
    note r = evaluate_reviewed_result [OF late(1)]
    from r(1) late(2) have "logged eng (ev_command ev) eng' ev'" by simp
    moreover from r(2) late(3) have "risk_order (classify_command_risk (parse_command command)) \<le> risk_order (ev_final_risk ev')"
      by linarith
    moreover from r(2) late(4) have "is_destructive command \<and> eng_environment eng = ''staging'' \<longrightarrow>
        risk_order High \<le> risk_order (ev_final_risk ev')" by linarith
    ultimately show ?thesis using r(3,4) late(5) by blast
  qed
  then show "logged eng (ev_command ev) eng' ev'"
    "ev_decision ev' \<noteq> Blocked \<Longrightarrow>
      risk_order (classify_command_risk (parse_command command)) \<le> risk_order (ev_final_risk ev') \<and>
      reach_policy eng command host \<and>
      (is_destructive command \<and> eng_environment eng = ''staging'' \<longrightarrow> risk_order High \<le> risk_order (ev_final_risk ev'))"
    "ev_decision ev' = Allowed \<Longrightarrow> ev_final_risk ev' = Low \<or> ev_final_risk ev' = Medium"
    "eng_environment eng = ''production'' \<Longrightarrow> ev_final_risk ev' = High \<or> ev_final_risk ev' = Critical \<Longrightarrow>
      ev_decision ev' = Blocked"
    by blast+
qed

section \<open>Evaluating a whole command\<close>

definition no_precheck_reason :: "engine \<Rightarrow> string \<Rightarrow> bool" where
  "no_precheck_reason eng command \<longleftrightarrow>
     run_prechecks (eng_prechecks eng) command = Inr None \<or>
     run_prechecks (eng_prechecks eng) command = Inr (Some [])"

definition cwd_ok :: "env \<Rightarrow> string option \<Rightarrow> bool" where
  "cwd_ok en cwd \<longleftrightarrow>
     (case cwd of
        Some (d # ds) \<Rightarrow> \<not> list_ex (starts (env_realpath en (d # ds))) system_dirs
      | _ \<Rightarrow> True)"

lemma new_event_command [simp]: "ev_command (new_event en command mission trace) = command"
  by (simp add: new_event_def)

text \<open>Either an early block, or a dry run, or the evaluation of the parsed command.\<close>

lemma evaluate_command_shape:
  assumes "evaluate_command en eng command context mission trace cwd hc = Inr (eng', ev', rv')"
  shows "(\<exists>e rv ctx. conclude eng e rv (normalize_host_context hc) ctx None None = Inr (eng', ev', rv') \<and>
            ev_command e = command \<and> (ev_decision e = Blocked \<or> ev_decision e = DryRun)) \<or>
         (\<exists>ctx. evaluate_parsed en eng command ctx (normalize_host_context hc)
              (new_event en command mission trace) = Inr (eng', ev', rv') \<and>
            no_precheck_reason eng command \<and> \<not> eng_dry_run eng \<and> cwd_ok en cwd)"
proof -
  obtain pre where pre: "run_prechecks (eng_prechecks eng) command = Inr pre"
    using assms by (cases "run_prechecks (eng_prechecks eng) command") (simp_all add: evaluate_command_def Let_def)
  note eq = assms [unfolded evaluate_command_def Let_def pre sum.case]
  show ?thesis
  proof (cases "\<exists>c cs. pre = Some (c # cs)")
    case True
    then obtain c cs where "pre = Some (c # cs)" by blast
    with eq show ?thesis
      by (intro disjI1) (simp, intro exI conjI, assumption, simp_all)
  next
    case False
    then have none: "pre = None \<or> pre = Some []" by (cases pre) (simp, metis list.exhaust)
    then have ok: "no_precheck_reason eng command" using pre by (auto simp: no_precheck_reason_def)
    show ?thesis
    proof (cases "eng_dry_run eng")
      case True
      have "\<exists>e. conclude eng e default_review (normalize_host_context hc) [''dry_run mode''] None None
          = Inr (eng', ev', rv') \<and> ev_command e = command \<and> ev_decision e = DryRun"
        by (rule disjE [OF none]; (use eq True in simp); intro exI conjI, assumption, simp_all)
      then show ?thesis by blast
    next
      case wet: False
      show ?thesis
      proof (cases cwd)
        case None
        with eq none wet ok show ?thesis by (auto simp: cwd_ok_def)
      next
        case (Some d)
        show ?thesis
        proof (cases d)
          case Nil
          with Some eq none wet ok show ?thesis by (auto simp: cwd_ok_def)
        next
          case (Cons c cs)
          show ?thesis
          proof (cases "list_ex (starts (env_realpath en (c # cs))) system_dirs")
            case True
            have "\<exists>e ctx. conclude eng e default_review (normalize_host_context hc) ctx None None
                = Inr (eng', ev', rv') \<and> ev_command e = command \<and> ev_decision e = Blocked"
              by (rule disjE [OF none]; (use eq True wet Some Cons in simp); intro exI conjI, assumption, simp_all)
            then show ?thesis by blast
          next
            case False
            with Some Cons eq none wet ok show ?thesis by (auto simp: cwd_ok_def)
          qed
        qed
      qed
    qed
  qed
qed

definition cleared :: "env \<Rightarrow> engine \<Rightarrow> string \<Rightarrow> string option \<Rightarrow> raw_host option \<Rightarrow> bool" where
  "cleared en eng command cwd hc \<longleftrightarrow>
     no_precheck_reason eng command \<and> \<not> eng_dry_run eng \<and> cwd_ok en cwd \<and>
     reach_policy eng command (normalize_host_context hc)"

lemma evaluate_command_result:
  assumes "evaluate_command en eng command context mission trace cwd hc = Inr (eng', ev', rv')"
  shows "logged eng command eng' ev'"
    and "ev_decision ev' = Allowed \<or> ev_decision ev' = NeedsApproval \<Longrightarrow>
      cleared en eng command cwd hc \<and>
      risk_order (classify_command_risk (parse_command command)) \<le> risk_order (ev_final_risk ev') \<and>
      (is_destructive command \<and> eng_environment eng = ''staging'' \<longrightarrow> risk_order High \<le> risk_order (ev_final_risk ev'))"
    and "ev_decision ev' = Allowed \<Longrightarrow> ev_final_risk ev' = Low \<or> ev_final_risk ev' = Medium"
    and "eng_environment eng = ''production'' \<Longrightarrow> ev_decision ev' = Allowed \<or> ev_decision ev' = NeedsApproval \<Longrightarrow>
      ev_final_risk ev' \<noteq> High \<and> ev_final_risk ev' \<noteq> Critical"
proof -
  consider (early) e rv ctx where
      "conclude eng e rv (normalize_host_context hc) ctx None None = Inr (eng', ev', rv')"
      "ev_command e = command" "ev_decision e = Blocked \<or> ev_decision e = DryRun"
    | (late) ctx where "evaluate_parsed en eng command ctx (normalize_host_context hc)
          (new_event en command mission trace) = Inr (eng', ev', rv')"
        "no_precheck_reason eng command" "\<not> eng_dry_run eng" "cwd_ok en cwd"
    using evaluate_command_shape [OF assms] by blast
  then have "logged eng command eng' ev' \<and>
    (ev_decision ev' = Allowed \<or> ev_decision ev' = NeedsApproval \<longrightarrow>
      cleared en eng command cwd hc \<and>
      risk_order (classify_command_risk (parse_command command)) \<le> risk_order (ev_final_risk ev') \<and>
      (is_destructive command \<and> eng_environment eng = ''staging'' \<longrightarrow> risk_order High \<le> risk_order (ev_final_risk ev'))) \<and>
    (ev_decision ev' = Allowed \<longrightarrow> ev_final_risk ev' = Low \<or> ev_final_risk ev' = Medium) \<and>
    (eng_environment eng = ''production'' \<and> (ev_decision ev' = Allowed \<or> ev_decision ev' = NeedsApproval) \<longrightarrow>
      ev_final_risk ev' \<noteq> High \<and> ev_final_risk ev' \<noteq> Critical)"
  proof cases
    case early
    with conclude_logged [OF early(1)] show ?thesis by auto
  next
    case late
    note r = evaluate_parsed_result [OF late(1)]
    show ?thesis using r late(2-4) unfolding cleared_def new_event_command
      by (metis decision.distinct(1) decision.distinct(7) decision.distinct(2))
  qed
  then show "logged eng command eng' ev'"
    "ev_decision ev' = Allowed \<or> ev_decision ev' = NeedsApproval \<Longrightarrow>
      cleared en eng command cwd hc \<and>
      risk_order (classify_command_risk (parse_command command)) \<le> risk_order (ev_final_risk ev') \<and>
      (is_destructive command \<and> eng_environment eng = ''staging'' \<longrightarrow> risk_order High \<le> risk_order (ev_final_risk ev'))"
    "ev_decision ev' = Allowed \<Longrightarrow> ev_final_risk ev' = Low \<or> ev_final_risk ev' = Medium"
    "eng_environment eng = ''production'' \<Longrightarrow> ev_decision ev' = Allowed \<or> ev_decision ev' = NeedsApproval \<Longrightarrow>
      ev_final_risk ev' \<noteq> High \<and> ev_final_risk ev' \<noteq> Critical"
    by blast+
qed

end
