(* ===== verification/RiskTheorems.thy ===== *)
theory RiskTheorems
  imports RiskEngine
begin

text \<open>
  The properties of the command risk engine: what an allowed command has passed, the advisory
  role of the language model, the production block, totality, the event log, the templates and
  the two ways a template evaluation widens what the command evaluation decided. The engine is
  an instance of \<open>machine\<close>.
\<close>

section \<open>Properties of an evaluation\<close>

definition plain_env :: env where
  "plain_env = \<lparr>env_event_id = ''0123456789ab'', env_now = 0, env_realpath = (\<lambda>s. s),
     env_llm = (\<lambda>_ _ _ _. LlmUnavailable), env_json_loads = (\<lambda>_. None),
     env_format_field = (\<lambda>_ _. Inl ValueError)\<rparr>"

definition plain_engine :: "string \<Rightarrow> engine" where
  "plain_engine environment = \<lparr>eng_project_root = ''/srv/app'', eng_use_llm_reviewer = False,
     eng_environment = environment, eng_dry_run = False, eng_event_log = [], eng_prechecks = [],
     eng_postchecks = []\<rparr>"

lemma plain_ls:
  "\<exists>eng' ev rv. evaluate_command plain_env (plain_engine ''dev'') ''ls'' [] [] [] None None = Inr (eng', ev, rv) \<and>
     ev_decision ev = Allowed"
proof -
  have "case evaluate_command plain_env (plain_engine ''dev'') ''ls'' [] [] [] None None of
      Inl e \<Rightarrow> False | Inr (eng', ev, rv) \<Rightarrow> ev_decision ev = Allowed"
    by code_simp
  then show ?thesis
    by (auto split: sum.splits)
qed

text \<open>C1. A command is only ever allowed at low or medium final risk, when the classifier
  itself put it at low or medium, no precheck objected, the engine is not in dry-run mode, the
  working directory is outside the system directories, the host policy and the structured
  tools do not object, and it is not destructive in staging or production. The hypotheses leave
  the model's answers, the hooks and the host metadata arbitrary.\<close>

theorem allowed_command_is_cleared:
  assumes "evaluate_command en eng command context mission trace cwd hc = Inr (eng', ev, rv)"
    and "ev_decision ev = Allowed"
  shows "ev_final_risk ev \<in> {Low, Medium} \<and>
    classify_command_risk (parse_command command) \<in> {Low, Medium} \<and>
    cleared en eng command cwd hc \<and>
    (is_destructive command \<longrightarrow> eng_environment eng \<noteq> ''production'' \<and> eng_environment eng \<noteq> ''staging'')"
proof -
  note r = evaluate_command_result [OF assms(1)]
  have final: "ev_final_risk ev = Low \<or> ev_final_risk ev = Medium"
    using r(3) assms(2) by blast
  then have le: "risk_order (ev_final_risk ev) \<le> 1" by (simp add: risk_order_policy)
  from r(2) assms(2) have c: "cleared en eng command cwd hc"
    and ge: "risk_order (classify_command_risk (parse_command command)) \<le> risk_order (ev_final_risk ev)"
    and st: "is_destructive command \<and> eng_environment eng = ''staging'' \<longrightarrow> risk_order High \<le> risk_order (ev_final_risk ev)"
    by blast+
  have "classify_command_risk (parse_command command) = Low \<or> classify_command_risk (parse_command command) = Medium"
    unfolding risk_order_policy using ge le by linarith
  moreover have "is_destructive command \<longrightarrow> eng_environment eng \<noteq> ''production''"
    using c by (simp add: cleared_def reach_policy_def)
  moreover have "\<not> (is_destructive command \<and> eng_environment eng = ''staging'')"
    using st le by auto
  ultimately show ?thesis using final c by blast
qed

theorem allowed_command_is_cleared_witness:
  "\<exists>ev :: safety_event. ev_decision ev = Allowed \<and> ev_final_risk ev \<in> {Low, Medium} \<and>
    cleared plain_env (plain_engine ''dev'') ''ls'' None None"
proof -
  obtain eng' ev rv where r: "evaluate_command plain_env (plain_engine ''dev'') ''ls'' [] [] [] None None
      = Inr (eng', ev, rv)" "ev_decision ev = Allowed"
    using plain_ls by blast
  show ?thesis
    using allowed_command_is_cleared [OF r] r(2) by (intro exI [of _ ev]) blast
qed

text \<open>C8. The review by a language model is advisory: whatever it answers, the final risk of
  a command that is not blocked is at least the deterministic risk, in the order the engine
  compares risks by.\<close>

theorem llm_review_never_lowers_risk:
  assumes "evaluate_command en eng command context mission trace cwd hc = Inr (eng', ev, rv)"
    and "ev_decision ev = Allowed \<or> ev_decision ev = NeedsApproval"
  shows "risk_order (classify_command_risk (parse_command command)) \<le> risk_order (ev_final_risk ev)"
  using evaluate_command_result(2) [OF assms] by blast

definition soothing_env :: env where
  "soothing_env = plain_env\<lparr>env_llm := (\<lambda>_ _ _ _. LlmText ''all good''),
     env_json_loads := (\<lambda>_. Some (PDict [(''risk_assessment'', PStr ''low''), (''should_execute'', PBool True)]))\<rparr>"

lemma soothing_run:
  "\<exists>eng' ev rv. evaluate_command soothing_env ((plain_engine ''dev'')\<lparr>eng_use_llm_reviewer := True\<rparr>)
       ''docker ps'' [] [] [] None None = Inr (eng', ev, rv) \<and> ev_decision ev = NeedsApproval"
proof -
  have "case evaluate_command soothing_env ((plain_engine ''dev'')\<lparr>eng_use_llm_reviewer := True\<rparr>)
      ''docker ps'' [] [] [] None None of
      Inl e \<Rightarrow> False | Inr (eng', ev, rv) \<Rightarrow> ev_decision ev = NeedsApproval"
    by code_simp
  then show ?thesis
    by (auto split: sum.splits)
qed

theorem llm_review_never_lowers_risk_witness:
  "\<exists>ev :: safety_event. risk_order (classify_command_risk (parse_command ''docker ps'')) \<le> risk_order (ev_final_risk ev)"
proof -
  obtain eng' ev rv where r: "evaluate_command soothing_env ((plain_engine ''dev'')\<lparr>eng_use_llm_reviewer := True\<rparr>)
       ''docker ps'' [] [] [] None None = Inr (eng', ev, rv)" "ev_decision ev = NeedsApproval"
    using soothing_run by blast
  have "ev_decision ev = Allowed \<or> ev_decision ev = NeedsApproval" using r(2) by simp
  from llm_review_never_lowers_risk [OF r(1) this] show ?thesis by (rule exI [of _ ev])
qed

text \<open>In the production environment a command of high or critical final risk is never
  allowed and never offered for approval, and a destructive one neither.\<close>

theorem production_stops_risky_commands:
  assumes "evaluate_command en eng command context mission trace cwd hc = Inr (eng', ev, rv)"
    and "eng_environment eng = ''production''"
    and "ev_final_risk ev \<in> {High, Critical} \<or> is_destructive command"
  shows "ev_decision ev = Blocked \<or> ev_decision ev = DryRun"
proof (rule ccontr)
  assume "\<not> (ev_decision ev = Blocked \<or> ev_decision ev = DryRun)"
  then have d: "ev_decision ev = Allowed \<or> ev_decision ev = NeedsApproval"
    by (cases "ev_decision ev") auto
  note r = evaluate_command_result [OF assms(1)]
  from r(2) [OF d] assms(2) have "\<not> is_destructive command"
    by (auto simp: cleared_def reach_policy_def)
  with r(4) [OF assms(2) d] assms(3) show False by blast
qed

lemma production_run:
  "\<exists>eng' ev rv. evaluate_command plain_env (plain_engine ''production'') ''sudo ls'' [] [] [] None None
     = Inr (eng', ev, rv) \<and> ev_final_risk ev = High"
proof -
  have "case evaluate_command plain_env (plain_engine ''production'') ''sudo ls'' [] [] [] None None of
      Inl e \<Rightarrow> False | Inr (eng', ev, rv) \<Rightarrow> ev_final_risk ev = High"
    by code_simp
  then show ?thesis
    by (auto split: sum.splits)
qed

theorem production_stops_risky_commands_witness:
  "\<exists>eng' ev rv. evaluate_command plain_env (plain_engine ''production'') ''sudo ls'' [] [] [] None None
     = Inr (eng', ev, rv) \<and> (ev_decision ev = Blocked \<or> ev_decision ev = DryRun)"
proof -
  obtain eng' ev rv where r: "evaluate_command plain_env (plain_engine ''production'') ''sudo ls'' [] [] [] None None
     = Inr (eng', ev, rv)" "ev_final_risk ev = High"
    using production_run by blast
  have "ev_decision ev = Blocked \<or> ev_decision ev = DryRun"
    by (rule production_stops_risky_commands [OF r(1)]) (simp_all add: plain_engine_def r(2))
  with r(1) show ?thesis by blast
qed

text \<open>An evaluation that returns adds exactly one event to the log, the event it returns,
  for the command it was given, with an explanation that agrees with the event's decision and
  risks, and changes nothing else in the engine.\<close>

theorem evaluation_logs_its_event:
  assumes "evaluate_command en eng command context mission trace cwd hc = Inr (eng', ev, rv)"
  shows "eng' = eng\<lparr>eng_event_log := eng_event_log eng @ [ev]\<rparr> \<and> ev_command ev = command \<and>
    (\<exists>x. ev_explanation ev = Some x \<and> ex_decision x = ev_decision ev \<and>
       ex_final_risk x = ev_final_risk ev \<and> ex_deterministic_risk x = ev_deterministic_risk ev)"
  using evaluate_command_result(1) [OF assms] unfolding logged_def .

theorem evaluation_logs_its_event_witness:
  "\<exists>eng' ev rv. evaluate_command plain_env (plain_engine ''dev'') ''ls'' [] [] [] None None = Inr (eng', ev, rv) \<and>
     eng_event_log eng' = [ev] \<and> ev_command ev = ''ls''"
proof -
  obtain eng' ev rv where r: "evaluate_command plain_env (plain_engine ''dev'') ''ls'' [] [] [] None None = Inr (eng', ev, rv)"
    using plain_ls by blast
  from evaluation_logs_its_event [OF r] r show ?thesis
    by (auto simp: plain_engine_def)
qed

lemma run_prechecks_total:
  "(\<forall>h \<in> set hs. \<forall>e. h command \<noteq> HookCrash e) \<Longrightarrow> \<exists>r. run_prechecks hs command = Inr r"
  by (induction hs) (auto split: hook_result.splits)

lemma run_postchecks_total:
  "(\<forall>h \<in> set hs. \<forall>e. h command ev \<noteq> HookCrash e) \<Longrightarrow> \<exists>r. run_postchecks hs command ev = Inr r"
  by (induction hs) (auto split: hook_result.splits)

lemma conclude_default_total: "\<exists>out. conclude eng ev default_review host ctx rb rec = Inr out"
  by (simp add: conclude_def build_decision_explanation_def default_review_def list_of_or_nil_def Let_def)

lemma reasons_default: "reasons_or default_review d = Inr d"
  by (simp add: reasons_or_def default_review_def py_join_def or_str_def)

lemma apply_policy_default_total: "\<exists>r. apply_policy risk default_review = Inr r"
  by (cases risk) (simp_all add: apply_policy_def with_reason_def reasons_default)

lemma evaluate_reviewed_total:
  assumes "\<not> eng_use_llm_reviewer eng" "ev_llm_risk ev = PStr []"
    and "\<And>h ev e. h \<in> set (eng_postchecks eng) \<Longrightarrow> h command ev \<noteq> HookCrash e"
  shows "\<exists>out. evaluate_reviewed en eng command context host p det ev = Inr out"
proof -
  have f: "resolve_final_risk det (ev_llm_risk ev) = Inr det"
    using assms(2) by (simp add: resolve_final_risk_def)
  obtain d why where d: "apply_policy det default_review = Inr (d, why)"
    using apply_policy_default_total [of det] by auto
  have fin: "\<exists>out. finish_reviewed eng command host rb default_review e = Inr out" for rb e
    using run_postchecks_total [of "eng_postchecks eng" command e] assms(3) conclude_default_total
    by (auto simp: finish_reviewed_def Let_def)
  show ?thesis
    using assms(1) f d fin conclude_default_total
    by (auto simp: evaluate_reviewed_def Let_def reasons_default)
qed

text \<open>Without the language model's review, and when no hook raises an exception that
  escapes it, the evaluation of any command returns a result.\<close>

theorem evaluation_returns_without_llm:
  assumes "\<not> eng_use_llm_reviewer eng"
    and pre: "\<And>h e. h \<in> set (eng_prechecks eng) \<Longrightarrow> h command \<noteq> HookCrash e"
    and post: "\<And>h ev e. h \<in> set (eng_postchecks eng) \<Longrightarrow> h command ev \<noteq> HookCrash e"
  shows "\<exists>out. evaluate_command en eng command context mission trace cwd hc = Inr out"
proof -
  obtain r where r: "run_prechecks (eng_prechecks eng) command = Inr r"
    using run_prechecks_total [of "eng_prechecks eng" command] pre by blast
  have rev: "\<exists>out. evaluate_reviewed en eng command ctx host p det
      (ev\<lparr>ev_parsed_flags := fl, ev_deterministic_risk := dr\<rparr>) = Inr out"
    if "ev_llm_risk ev = PStr []" for ctx host p det ev fl dr
    by (rule evaluate_reviewed_total) (use assms(1) post that in auto)
  have rev': "\<exists>out. evaluate_reviewed en eng command ctx host p det
      (ev\<lparr>ev_parsed_flags := fl, ev_deterministic_risk := dr, ev_deterministic_risk := dr'\<rparr>) = Inr out"
    if "ev_llm_risk ev = PStr []" for ctx host p det ev fl dr dr'
    by (rule evaluate_reviewed_total) (use assms(1) post that in auto)
  have par: "\<exists>out. evaluate_parsed en eng command ctx host (new_event en command mission trace) = Inr out"
    for ctx host
    using rev [of "new_event en command mission trace"] rev' [of "new_event en command mission trace"]
      conclude_default_total
    by (auto simp: evaluate_parsed_def Let_def new_event_def split: option.splits)
  show ?thesis
    using r par conclude_default_total
    by (auto simp: evaluate_command_def Let_def split: option.splits list.splits)
qed

theorem evaluation_returns_without_llm_witness:
  "\<exists>out. evaluate_command plain_env ((plain_engine ''dev'')\<lparr>eng_prechecks := [\<lambda>_. HookCaught],
      eng_postchecks := [\<lambda>_ _. HookReason ''no'']\<rparr>) ''rm -rf /'' [] [] [] (Some ''/etc'') None = Inr out"
  by (rule evaluation_returns_without_llm) (auto simp: plain_engine_def)

section \<open>Properties of templates\<close>

lemma validate_template_params_None:
  "validate_template_params params = None \<longleftrightarrow>
     (\<forall>(k, v) \<in> set params. \<forall>c \<in> set v. c \<notin> set unsafe_param_chars)"
proof -
  have "validate_template_params params = None \<longleftrightarrow>
      find_first (\<lambda>(k, v). re_test False UNSAFE_PARAM_CHARS_RE v) params = None"
    by (cases "find_first (\<lambda>(k, v). re_test False UNSAFE_PARAM_CHARS_RE v) params")
       (simp_all del: find_first_None add: validate_template_params_def Let_def split: prod.splits)
  then show ?thesis by (auto simp: unsafe_param_flag)
qed

text \<open>A template with a shell metacharacter in any parameter is blocked as critical before
  it is rendered, and the refusal is logged.\<close>

theorem template_injection_blocked:
  assumes "(k, v) \<in> set params" and "c \<in> set v" and "c \<in> set unsafe_param_chars"
  shows "\<exists>ev rv. evaluate_template en eng template_id params mission trace hc =
      Inr (eng\<lparr>eng_event_log := eng_event_log eng @ [ev]\<rparr>, ev, rv) \<and>
    ev_decision ev = Blocked \<and> ev_final_risk ev = Critical \<and> ev_command ev = ''template:'' @ template_id"
proof -
  from assms have "validate_template_params params \<noteq> None"
    unfolding validate_template_params_None by blast
  then obtain err where "validate_template_params params = Some err" by blast
  then show ?thesis by (simp add: evaluate_template_def Let_def new_event_def)
qed

theorem template_injection_blocked_witness:
  "\<exists>ev rv. evaluate_template plain_env (plain_engine ''dev'') ''cat_file'' [(''path'', ''notes; halt'')] [] [] None =
      Inr ((plain_engine ''dev'')\<lparr>eng_event_log := eng_event_log (plain_engine ''dev'') @ [ev]\<rparr>, ev, rv) \<and>
    ev_decision ev = Blocked \<and> ev_final_risk ev = Critical \<and> ev_command ev = ''template:'' @ ''cat_file''"
  by (rule template_injection_blocked [where k = "''path''" and v = "''notes; halt''" and c = "CHR '';''"])
     (simp_all add: unsafe_param_chars_def)

definition shell_clean :: "string \<Rightarrow> bool" where
  "shell_clean s \<longleftrightarrow> list_all (\<lambda>c. c \<notin> set unsafe_param_chars) s"

lemma shell_clean_simps [simp]:
  "shell_clean []" "shell_clean (c # s) \<longleftrightarrow> c \<notin> set unsafe_param_chars \<and> shell_clean s"
  by (simp_all add: shell_clean_def)

text \<open>Rendering one of the nine templates with parameters that pass the validation gives
  either the template's text unchanged, when a parameter is missing, or a command without any
  shell metacharacter.\<close>

theorem rendered_template_is_clean:
  assumes "template_id \<in> set (dkeys templates)"
    and "validate_template_params params = None"
    and "render_template en template_id params = Inr s"
  shows "s = dget_or templates template_id template_id \<or> shell_clean s"
proof -
  have known: "template_id \<in> set [''pip_install'', ''npm_install'', ''pytest_run'', ''git_status'', ''git_diff'',
      ''cat_file'', ''ls_dir'', ''docker_ps'', ''systemctl_status'']"
    using assms(1) by (simp add: templates_def)
  have clean: "shell_clean v" if "dget params k = Some v" for k v
    using assms(2) dget_Some_in [OF that] unfolding validate_template_params_None
    by (auto simp: shell_clean_def list_all_iff)
  have plain: "shell_clean '' -v''" "shell_clean ''pip install ''" "shell_clean ''npm install ''"
    "shell_clean ''python -m pytest ''" "shell_clean ''git status''" "shell_clean ''git diff ''" "shell_clean ''cat ''"
    "shell_clean ''ls -la ''" "shell_clean ''docker ps''" "shell_clean ''systemctl status ''"
    by (simp_all add: unsafe_param_chars_def)
  have app: "shell_clean (x @ y) \<longleftrightarrow> shell_clean x \<and> shell_clean y" for x y
    by (simp add: shell_clean_def)
  show ?thesis
    using known assms(3)
    by (simp, elim disjE)
       (auto simp: render_template_def templates_def dget_or_def format_field_def plain_field_def app
         unsafe_param_chars_def dest!: clean split: option.splits)
qed

theorem rendered_template_is_clean_witness:
  "shell_clean ''cat notes/today.txt''"
proof -
  have "''cat notes/today.txt'' = dget_or templates ''cat_file'' ''cat_file'' \<or> shell_clean ''cat notes/today.txt''"
    by (rule rendered_template_is_clean [where params = "[(''path'', ''notes/today.txt'')]" and en = plain_env]) code_simp+
  then show ?thesis by (simp add: templates_def dget_or_def)
qed

text \<open>The policy decision that a template evaluation takes after its risk reduction replaces
  the decision of the command evaluation: a rendered command that was blocked with high final
  risk, by a precheck, the host policy, the production block or a postcheck, comes out allowed.\<close>

theorem template_reduction_overrides_block:
  assumes "validate_template_params params = None"
    and "render_template en template_id params = Inr rendered"
    and "evaluate_command en eng rendered (''Template: '' @ template_id) mission trace None hc = Inr (eng1, ev, rv)"
    and "ev_final_risk ev = High" and "py_join (rv_reasons rv) = Inr why"
  shows "\<exists>eng' ev'. evaluate_template en eng template_id params mission trace hc = Inr (eng', ev', rv) \<and>
    ev_decision ev' = Allowed \<and> ev_final_risk ev' = Medium \<and>
    eng_event_log eng' = eng_event_log eng @ [ev', ev'] \<and> ev_explanation ev' = ev_explanation ev"
proof -
  have log: "eng_event_log eng1 = eng_event_log eng @ [ev]"
    using evaluate_command_result(1) [OF assms(3)] by (simp add: logged_def)
  have t: "contains (''Template risk reduced: '' @ r) ''Template''" for r
    by (simp add: contains_appendI1)
  have pol: "apply_policy Medium rv = Inr (Allowed, ''Medium risk, logged: '' @ or_str why ''standard medium'')"
    by (simp add: apply_policy_def with_reason_def reasons_or_def assms(5))
  show ?thesis
    using assms(1-4) pol by (simp add: evaluate_template_def Let_def log)
qed

definition vetoing_engine :: engine where
  "vetoing_engine = register_precheck (\<lambda>_. HookReason ''frozen host'') (plain_engine ''production'')"

theorem template_reduction_overrides_block_witness:
  "(\<exists>eng' ev rv. evaluate_command plain_env vetoing_engine ''docker ps'' (''Template: '' @ ''docker_ps'') [] [] None None
      = Inr (eng', ev, rv) \<and> ev_decision ev = Blocked) \<and>
   (\<exists>eng' ev rv. evaluate_template plain_env vetoing_engine ''docker_ps'' [] [] [] None = Inr (eng', ev, rv) \<and>
      ev_decision ev = Allowed)"
proof -
  have "\<exists>eng' ev. evaluate_command plain_env vetoing_engine ''docker ps'' (''Template: '' @ ''docker_ps'') [] [] None None
      = Inr (eng', ev, default_review) \<and> ev_decision ev = Blocked \<and> ev_final_risk ev = High"
    by (simp add: evaluate_command_def vetoing_engine_def register_precheck_def plain_engine_def Let_def
      conclude_def build_decision_explanation_def default_review_def list_of_or_nil_def)
  then obtain eng' ev where r: "evaluate_command plain_env vetoing_engine ''docker ps''
      (''Template: '' @ ''docker_ps'') [] [] None None = Inr (eng', ev, default_review)"
    "ev_decision ev = Blocked" "ev_final_risk ev = High" by blast
  have v: "validate_template_params [] = None" by (simp add: validate_template_params_def)
  have t: "render_template plain_env ''docker_ps'' [] = Inr ''docker ps''"
    by (simp add: render_template_def templates_def dget_or_def)
  have j: "py_join (rv_reasons default_review) = Inr []"
    by (simp add: default_review_def py_join_def)
  from template_reduction_overrides_block [OF v t r(1) r(3) j] r show ?thesis by blast
qed

text \<open>A template id that is not in the table is used as the command itself: here
  \<^verbatim>\<open>sudo ls\<close>, which as a command needs approval, is allowed as a template.\<close>

theorem unknown_template_runs_its_id:
  "(case evaluate_command plain_env (plain_engine ''dev'') ''sudo ls'' (''Template: '' @ ''sudo ls'') [] [] None None of
      Inr (_, ev, _) \<Rightarrow> ev_decision ev = NeedsApproval | Inl _ \<Rightarrow> False) \<and>
   (case evaluate_template plain_env (plain_engine ''dev'') ''sudo ls'' [] [] [] None of
      Inr (_, ev, _) \<Rightarrow> ev_decision ev = Allowed | Inl _ \<Rightarrow> False)"
  by (intro conjI; code_simp)

section \<open>The engine as a machine\<close>

datatype engine_event =
    EvaluateCommand env string string string string "string option" "raw_host option"
  | EvaluateTemplate env string "(string, string) dict" string string "raw_host option"
  | RegisterPrecheck "string \<Rightarrow> hook_result"
  | RegisterPostcheck "string \<Rightarrow> safety_event \<Rightarrow> hook_result"

definition engine_after :: "engine \<Rightarrow> outcome \<Rightarrow> engine" where
  "engine_after eng r = (case r of Inl _ \<Rightarrow> eng | Inr (eng', _, _) \<Rightarrow> eng')"

fun engine_step :: "engine \<Rightarrow> engine_event \<Rightarrow> engine" where
  "engine_step eng (EvaluateCommand en c ctx m t cwd hc) =
     engine_after eng (evaluate_command en eng c ctx m t cwd hc)"
| "engine_step eng (EvaluateTemplate en i params m t hc) =
     engine_after eng (evaluate_template en eng i params m t hc)"
| "engine_step eng (RegisterPrecheck f) = register_precheck f eng"
| "engine_step eng (RegisterPostcheck f) = register_postcheck f eng"

definition risky :: "risk \<Rightarrow> bool" where
  "risky r \<longleftrightarrow> r \<noteq> Low \<and> r \<noteq> Medium"

definition log_sound :: "engine \<Rightarrow> bool" where
  "log_sound eng \<longleftrightarrow> list_all (\<lambda>e. ev_decision e = Allowed \<longrightarrow> \<not> risky (ev_final_risk e)) (eng_event_log eng)"

lemma evaluate_template_log:
  assumes "evaluate_template en eng i params m t hc = Inr (eng', ev, rv)"
  shows "\<exists>evs. eng' = eng\<lparr>eng_event_log := eng_event_log eng @ evs\<rparr> \<and> set evs = {ev} \<and>
    (ev_decision ev = Allowed \<longrightarrow> \<not> risky (ev_final_risk ev))"
proof (cases "validate_template_params params")
  case (Some err)
  with assms show ?thesis
    by (intro exI [of _ "[ev]"]) (auto simp: evaluate_template_def Let_def)
next
  case None
  note eq = assms [unfolded evaluate_template_def None option.case]
  obtain rendered where r: "render_template en i params = Inr rendered"
    using eq by (cases "render_template en i params") simp_all
  obtain eng1 ev0 rv0 where c: "evaluate_command en eng rendered (''Template: '' @ i) m t None hc = Inr (eng1, ev0, rv0)"
    using eq r by (cases "evaluate_command en eng rendered (''Template: '' @ i) m t None hc") auto
  have log: "eng1 = eng\<lparr>eng_event_log := eng_event_log eng @ [ev0]\<rparr>"
    using evaluate_command_result(1) [OF c] by (simp add: logged_def)
  define ev1 where "ev1 = (if ev_final_risk ev0 = High then
      ev0\<lparr>ev_final_risk := Medium, ev_reason := ''Template risk reduced: '' @ ev_reason ev0\<rparr>
    else if ev_final_risk ev0 = Medium then
      ev0\<lparr>ev_final_risk := Low, ev_reason := ''Template risk reduced: '' @ ev_reason ev0\<rparr>
    else ev0)"
  note eq1 = eq [unfolded r c sum.case prod.case Let_def, folded ev1_def]
  obtain d why where d: "apply_policy (ev_final_risk ev1) rv0 = Inr (d, why)"
    using eq1 by (cases "apply_policy (ev_final_risk ev1) rv0") auto
  have ok: "d = Allowed \<longrightarrow> \<not> risky (ev_final_risk ev1)"
    using apply_policy_Allowed d by (auto simp: risky_def)
  from eq1 [unfolded d sum.case prod.case]
  have out: "eng' = eng\<lparr>eng_event_log := eng_event_log eng @ [ev, ev]\<rparr>" "ev_decision ev = d"
    "ev_final_risk ev = ev_final_risk ev1"
    by (auto simp: log split: if_splits)
  show ?thesis
    by (intro exI [of _ "[ev, ev]"]) (use out ok in auto)
qed

lemma engine_step_log:
  "\<exists>evs. eng_event_log (engine_step eng e) = eng_event_log eng @ evs \<and>
     list_all (\<lambda>e. ev_decision e = Allowed \<longrightarrow> \<not> risky (ev_final_risk e)) evs"
proof (cases e)
  case (EvaluateCommand en c ctx m t cwd hc)
  show ?thesis
  proof (cases "evaluate_command en eng c ctx m t cwd hc")
    case (Inr out)
    then obtain eng' ev rv where r: "evaluate_command en eng c ctx m t cwd hc = Inr (eng', ev, rv)"
      by (cases out) auto
    from evaluate_command_result(1,3) [OF r] show ?thesis
      by (intro exI [of _ "[ev]"]) (auto simp: EvaluateCommand engine_after_def r logged_def risky_def)
  qed (auto simp: EvaluateCommand engine_after_def)
next
  case (EvaluateTemplate en i params m t hc)
  show ?thesis
  proof (cases "evaluate_template en eng i params m t hc")
    case (Inr out)
    then obtain eng' ev rv where r: "evaluate_template en eng i params m t hc = Inr (eng', ev, rv)"
      by (cases out) auto
    from evaluate_template_log [OF r] show ?thesis
      by (auto simp: EvaluateTemplate engine_after_def r list_all_iff)
  qed (auto simp: EvaluateTemplate engine_after_def)
qed (simp_all add: register_precheck_def register_postcheck_def)

interpretation engine: machine engine_step "\<lambda>s. eng_event_log s = []" log_sound
proof
  show "log_sound s" if "eng_event_log s = []" for s
    using that by (simp add: log_sound_def)
  show "log_sound (engine_step s e)" if "log_sound s" for s e
    using that engine_step_log [of s e] by (auto simp: log_sound_def)
qed

lemma engine_log_grows:
  "\<exists>evs. eng_event_log (run_events engine_step eng es) = eng_event_log eng @ evs"
proof (induction es arbitrary: eng)
  case (Cons e es)
  obtain a where a: "eng_event_log (engine_step eng e) = eng_event_log eng @ a"
    using engine_step_log by blast
  obtain b where "eng_event_log (run_events engine_step (engine_step eng e) es) = eng_event_log (engine_step eng e) @ b"
    using Cons by blast
  with a show ?case by simp
qed simp

text \<open>C40. Whatever sequence of evaluations, template evaluations and hook registrations an
  engine goes through, its event log is only appended to, and no event it adds is both
  allowed and of high, critical or unknown final risk.\<close>

theorem engine_log_append_only_and_sound:
  "\<exists>evs. eng_event_log (run_events engine_step eng es) = eng_event_log eng @ evs \<and>
     (log_sound eng \<longrightarrow> log_sound (run_events engine_step eng es))"
  using engine_log_grows [of eng es] engine.run_inv [of eng es] by blast

theorem engine_log_append_only_and_sound_witness:
  "log_sound (run_events engine_step (plain_engine ''dev'')
     [EvaluateCommand plain_env ''docker ps'' [] [] [] None None,
      EvaluateTemplate plain_env ''docker_ps'' [] [] [] None])"
  using engine_log_append_only_and_sound [of "plain_engine ''dev''"
      "[EvaluateCommand plain_env ''docker ps'' [] [] [] None None,
        EvaluateTemplate plain_env ''docker_ps'' [] [] [] None]"]
  by (auto simp: log_sound_def plain_engine_def)

end
