(* ===== verification/Breaker.thy ===== *)
theory Breaker
  imports Prelude
begin

text \<open>
  \<^verbatim>\<open>igris/core/memory_circuit_breaker.py\<close>: the breaker that disables memory writes
  after repeated failures, with its registry of named breakers. The lock makes each operation
  one step; \<open>now\<close> is what \<^verbatim>\<open>time.monotonic()\<close> returns in it.
\<close>

section \<open>State and operations\<close>

datatype breaker_state = Closed | Open | HalfOpen

record breaker =
  br_name :: string
  br_open_threshold :: int
  br_recovery_window_seconds :: pyfloat
  br_state :: breaker_state
  br_failure_count :: int
  br_last_failure_ts :: pyfloat

definition new_breaker :: "string \<Rightarrow> int \<Rightarrow> pyfloat \<Rightarrow> breaker" where
  "new_breaker name threshold window = \<lparr>br_name = name, br_open_threshold = threshold,
     br_recovery_window_seconds = window, br_state = Closed, br_failure_count = 0,
     br_last_failure_ts = 0\<rparr>"

definition maybe_recover :: "pyfloat \<Rightarrow> breaker \<Rightarrow> breaker" where
  "maybe_recover now b =
     (if br_state b = Open \<and> now - br_last_failure_ts b \<ge> br_recovery_window_seconds b
      then b\<lparr>br_state := HalfOpen\<rparr> else b)"

definition breaker_current :: "pyfloat \<Rightarrow> breaker \<Rightarrow> breaker \<times> breaker_state" where
  "breaker_current now b = (let b' = maybe_recover now b in (b', br_state b'))"

definition allow :: "pyfloat \<Rightarrow> breaker \<Rightarrow> breaker \<times> bool" where
  "allow now b =
     (let b' = maybe_recover now b
      in (b', if br_state b' = Closed then True else if br_state b' = HalfOpen then True else False))"

definition record_success :: "breaker \<Rightarrow> breaker" where
  "record_success b =
     (case br_state b of
        HalfOpen \<Rightarrow> b\<lparr>br_state := Closed, br_failure_count := 0\<rparr>
      | Closed \<Rightarrow> b\<lparr>br_failure_count := max 0 (br_failure_count b - 1)\<rparr>
      | Open \<Rightarrow> b)"

definition record_failure :: "pyfloat \<Rightarrow> breaker \<Rightarrow> breaker" where
  "record_failure now b =
     (let b1 = b\<lparr>br_failure_count := br_failure_count b + 1, br_last_failure_ts := now\<rparr>
      in case br_state b1 of
           HalfOpen \<Rightarrow> b1\<lparr>br_state := Open\<rparr>
         | Closed \<Rightarrow>
             if br_failure_count b1 \<ge> br_open_threshold b1 then b1\<lparr>br_state := Open\<rparr> else b1
         | Open \<Rightarrow> b1)"

definition is_open :: "pyfloat \<Rightarrow> breaker \<Rightarrow> breaker \<times> bool" where
  "is_open now b = (let (b', s) = breaker_current now b in (b', s = Open))"

definition is_closed :: "pyfloat \<Rightarrow> breaker \<Rightarrow> breaker \<times> bool" where
  "is_closed now b = (let (b', s) = breaker_current now b in (b', s = Closed))"

record breaker_status =
  bs_name :: string
  bs_state :: breaker_state
  bs_failure_count :: int
  bs_open_threshold :: int
  bs_recovery_window_seconds :: pyfloat
  bs_last_failure_ts :: "pyfloat option"
  bs_healthy :: bool

definition status_dict :: "pyfloat \<Rightarrow> breaker \<Rightarrow> breaker \<times> breaker_status" where
  "status_dict now b =
     (let (b', s) = breaker_current now b
      in (b', \<lparr>bs_name = br_name b', bs_state = s, bs_failure_count = br_failure_count b',
           bs_open_threshold = br_open_threshold b',
           bs_recovery_window_seconds = br_recovery_window_seconds b',
           bs_last_failure_ts =
             (if br_last_failure_ts b' = 0 then None else Some (br_last_failure_ts b')),
           bs_healthy = (s = Closed)\<rparr>))"

text \<open>The registry: one breaker per name, the first call fixes its configuration.\<close>

definition get_breaker ::
    "(string, breaker) dict \<Rightarrow> string \<Rightarrow> int \<Rightarrow> pyfloat \<Rightarrow> (string, breaker) dict \<times> breaker" where
  "get_breaker reg name threshold window =
     (case dget reg name of
        Some b \<Rightarrow> (reg, b)
      | None \<Rightarrow> let b = new_breaker name threshold window in (dset reg name b, b))"

definition reset_all :: "(string, breaker) dict \<Rightarrow> (string, breaker) dict" where
  "reset_all reg = []"

section \<open>Runs\<close>

datatype breaker_event = Ask pyfloat | Success | Failure pyfloat

fun breaker_step :: "breaker \<Rightarrow> breaker_event \<Rightarrow> breaker" where
  "breaker_step b (Ask t) = fst (allow t b)"
| "breaker_step b Success = record_success b"
| "breaker_step b (Failure t) = record_failure t b"

text \<open>The breaker is closed exactly while fewer failures are counted than the threshold.\<close>

definition breaker_inv :: "breaker \<Rightarrow> bool" where
  "breaker_inv b \<longleftrightarrow> 1 \<le> br_open_threshold b \<and> 0 \<le> br_failure_count b \<and>
     (br_state b = Closed \<longleftrightarrow> br_failure_count b < br_open_threshold b)"

lemma maybe_recover_inv [inv_intros]: "breaker_inv b \<Longrightarrow> breaker_inv (maybe_recover t b)"
  by (auto simp: breaker_inv_def maybe_recover_def)

lemma record_success_inv [inv_intros]: "breaker_inv b \<Longrightarrow> breaker_inv (record_success b)"
  by (auto simp: breaker_inv_def record_success_def split: breaker_state.splits)

lemma record_failure_inv [inv_intros]: "breaker_inv b \<Longrightarrow> breaker_inv (record_failure t b)"
  by (auto simp: breaker_inv_def record_failure_def Let_def split: breaker_state.splits)

lemma breaker_step_inv: "breaker_inv b \<Longrightarrow> breaker_inv (breaker_step b e)"
  by (cases e) (simp_all add: allow_def Let_def inv_intros)

definition fresh_breaker :: "breaker \<Rightarrow> bool" where
  "fresh_breaker b \<longleftrightarrow> 1 \<le> br_open_threshold b \<and> br_state b = Closed \<and> br_failure_count b = 0"

lemma fresh_breaker_inv: "fresh_breaker b \<Longrightarrow> breaker_inv b"
  by (simp add: fresh_breaker_def breaker_inv_def)

interpretation breaker: machine breaker_step fresh_breaker breaker_inv
  by unfold_locales (simp_all add: fresh_breaker_inv breaker_step_inv)

lemma breaker_step_config:
  "br_open_threshold (breaker_step b e) = br_open_threshold b \<and>
   br_recovery_window_seconds (breaker_step b e) = br_recovery_window_seconds b \<and>
   br_name (breaker_step b e) = br_name b"
  by (cases e)
     (auto simp: allow_def maybe_recover_def record_success_def record_failure_def Let_def
       split: breaker_state.splits)

lemma breaker_run_config:
  "br_open_threshold (run_events breaker_step b es) = br_open_threshold b \<and>
   br_recovery_window_seconds (run_events breaker_step b es) = br_recovery_window_seconds b"
  by (induction es arbitrary: b) (simp_all add: breaker_step_config)

text \<open>After any sequence of requests, successes and failures, in any order and at any times, a
  breaker with a positive threshold is closed exactly when its failure count is below the
  threshold, and its threshold is the one it was created with.\<close>

theorem breaker_closed_iff_below_threshold:
  assumes "1 \<le> threshold"
  shows "(br_state (run_events breaker_step (new_breaker name threshold window) es) = Closed \<longleftrightarrow>
      br_failure_count (run_events breaker_step (new_breaker name threshold window) es) < threshold) \<and>
    br_open_threshold (run_events breaker_step (new_breaker name threshold window) es) = threshold"
proof -
  have "fresh_breaker (new_breaker name threshold window)"
    using assms by (simp add: fresh_breaker_def new_breaker_def)
  from breaker.run_from_start [OF this, of es] breaker_run_config [of "new_breaker name threshold window" es]
  show ?thesis by (simp add: breaker_inv_def) (simp add: new_breaker_def)
qed

theorem breaker_closed_iff_below_threshold_witness:
  "br_state (run_events breaker_step (new_breaker ''long_term'' 3 120)
     [Failure 1, Failure 2, Ask 3, Failure 4]) = Open"
  using breaker_closed_iff_below_threshold [of 3 "''long_term''" 120 "[Failure 1, Failure 2, Ask 3, Failure 4]"]
  by (simp add: new_breaker_def record_failure_def allow_def maybe_recover_def Let_def)

section \<open>Opening and recovering\<close>

definition early :: "pyfloat \<Rightarrow> breaker_event \<Rightarrow> bool" where
  "early deadline e = (case e of Ask t \<Rightarrow> t < deadline | Success \<Rightarrow> True | Failure t \<Rightarrow> False)"

lemma open_stays:
  assumes "br_state b = Open" "list_all (early (br_last_failure_ts b + br_recovery_window_seconds b)) es"
  shows "run_events breaker_step b es = b"
  using assms
proof (induction es)
  case (Cons e es)
  then have "breaker_step b e = b"
    by (cases e) (auto simp: early_def allow_def maybe_recover_def record_success_def Let_def)
  with Cons show ?case by simp
qed simp

text \<open>An open breaker refuses every write until the recovery window since its last failure has
  passed, whatever successes are reported meanwhile; once it has passed, the next request is
  allowed and the outcome of the trial decides: a success closes the breaker with a clean count, a
  failure opens it again.\<close>

theorem open_breaker_blocks_then_tries:
  assumes "br_state b = Open"
    and "list_all (early (br_last_failure_ts b + br_recovery_window_seconds b)) es"
    and "t < br_last_failure_ts b + br_recovery_window_seconds b"
    and "br_last_failure_ts b + br_recovery_window_seconds b \<le> u"
  shows "snd (allow t (run_events breaker_step b es)) = False \<and>
    snd (allow u (run_events breaker_step b es)) = True \<and>
    br_state (record_success (fst (allow u (run_events breaker_step b es)))) = Closed \<and>
    br_failure_count (record_success (fst (allow u (run_events breaker_step b es)))) = 0 \<and>
    br_state (record_failure v (fst (allow u (run_events breaker_step b es)))) = Open"
  unfolding open_stays [OF assms(1,2)]
  using assms(1,3,4)
  by (auto simp: allow_def maybe_recover_def record_success_def record_failure_def Let_def)

definition tripped :: breaker where
  "tripped = run_events breaker_step (new_breaker ''long_term'' 3 120) [Failure 1, Failure 2, Failure 4]"

theorem open_breaker_blocks_then_tries_witness:
  "snd (allow 100 (run_events breaker_step tripped [Success, Ask 50])) = False \<and>
   snd (allow 124 (run_events breaker_step tripped [Success, Ask 50])) = True"
proof -
  have t: "br_state tripped = Open" "br_last_failure_ts tripped = 4" "br_recovery_window_seconds tripped = 120"
    by (simp_all add: tripped_def new_breaker_def record_failure_def Let_def)
  have e: "list_all (early (br_last_failure_ts tripped + br_recovery_window_seconds tripped)) [Success, Ask 50]"
    by (simp add: t early_def)
  show ?thesis
    using open_breaker_blocks_then_tries [OF t(1) e, of 100 124] by (simp add: t)
qed

lemma failures_open:
  "breaker_inv b \<Longrightarrow> br_open_threshold b \<le> br_failure_count b + int (length ts) \<Longrightarrow>
   br_state (run_events breaker_step b (map Failure ts)) \<noteq> Closed"
proof (induction ts arbitrary: b)
  case (Cons t ts)
  have "br_failure_count (record_failure t b) = br_failure_count b + 1"
    by (simp add: record_failure_def Let_def split: breaker_state.splits)
  with Cons show ?case
    using record_failure_inv [OF Cons.prems(1), of t] breaker_step_config [of b "Failure t"] by auto
qed (simp add: breaker_inv_def)

text \<open>Threshold many failures in a row leave the breaker not closed, from whatever state it was
  in; but the failures need not be consecutive: a success while closed only takes one off the
  count, so two failures, a success and two failures open a breaker of threshold three.\<close>

theorem failures_open_the_breaker:
  assumes "breaker_inv b" and "br_open_threshold b \<le> int (length ts)"
  shows "br_state (run_events breaker_step b (map Failure ts)) \<noteq> Closed"
  by (rule failures_open [OF assms(1)]) (use assms in \<open>simp add: breaker_inv_def\<close>)

theorem failures_open_the_breaker_witness:
  "br_state (run_events breaker_step (new_breaker ''graph'' 3 120) (map Failure [1, 2, 3])) \<noteq> Closed \<and>
   br_state (run_events breaker_step (new_breaker ''graph'' 3 120)
     [Failure 1, Failure 2, Success, Failure 3, Failure 4]) = Open"
  using failures_open_the_breaker [of "new_breaker ''graph'' 3 120" "[1, 2, 3]"]
  by (simp add: new_breaker_def breaker_inv_def record_failure_def record_success_def Let_def)

lemma half_open_allows_repeatedly:
  "br_state b = HalfOpen \<Longrightarrow> allow t b = (b, True)"
  by (simp add: allow_def maybe_recover_def Let_def)

section \<open>The registry\<close>

lemma get_breaker_singleton:
  assumes "get_breaker reg name threshold window = (reg', b)"
  shows "get_breaker reg' name threshold' window' = (reg', b)"
    and "name' \<noteq> name \<Longrightarrow> dget reg' name' = dget reg name'"
  using assms by (auto simp: get_breaker_def Let_def split: option.splits)

end
