(* ===== verification/Window.thy ===== *)
theory Window
  imports PyStr
begin

text \<open>
  Sliding windows over time stamps, shared by the per-user rate limiter and the safe command
  policy: a log that keeps at least the stamps of the last window answers every question a full
  history would (\<open>tracks\<close>), and a grant under the cap keeps any \<open>n + 1\<close> consecutive grants a
  window apart (\<open>spaced\<close>).
\<close>

definition spaced :: "pyfloat \<Rightarrow> nat \<Rightarrow> pyfloat list \<Rightarrow> bool" where
  "spaced window n ts \<longleftrightarrow> (\<forall>i. i + n < length ts \<longrightarrow> window \<le> ts ! (i + n) - ts ! i)"



definition tracks :: "pyfloat \<Rightarrow> pyfloat \<Rightarrow> pyfloat list \<Rightarrow> pyfloat list \<Rightarrow> bool" where
  "tracks window now past reqs \<longleftrightarrow>
     (\<exists>old. past = old @ reqs \<and> (\<forall>t \<in> set old. window \<le> now - t)) \<and>
     sorted past \<and> (\<forall>t \<in> set past. t \<le> now)"

lemma filter_recent_suffix:
  fixes ts :: "pyfloat list"
  assumes "sorted ts"
  shows "\<exists>old. ts = old @ filter (\<lambda>t. now - t < window) ts \<and> (\<forall>t \<in> set old. window \<le> now - t)"
  using assms
proof (induction ts)
  case (Cons t ts)
  show ?case
  proof (cases "now - t < window")
    case True
    with Cons.prems have "\<forall>u \<in> set ts. now - u < window" by auto
    with True have "filter (\<lambda>t. now - t < window) (t # ts) = t # ts" by (simp add: filter_id_conv)
    then show ?thesis by (intro exI [of _ "[]"]) simp
  next
    case False
    from Cons obtain old where "ts = old @ filter (\<lambda>t. now - t < window) ts"
      "\<forall>t \<in> set old. window \<le> now - t" by auto
    with False show ?thesis by (intro exI [of _ "t # old"]) auto
  qed
qed simp

lemma tracks_later:
  assumes "tracks window now past reqs" "now \<le> now'"
  shows "tracks window now' past (filter (\<lambda>t. now' - t < window) reqs)"
proof -
  obtain old where old: "past = old @ reqs" "\<forall>t \<in> set old. window \<le> now - t"
    and s: "sorted past" "\<forall>t \<in> set past. t \<le> now"
    using assms(1) by (auto simp: tracks_def)
  from s(1) old(1) have "sorted reqs" by (simp add: sorted_append)
  then obtain old' where "reqs = old' @ filter (\<lambda>t. now' - t < window) reqs"
    "\<forall>t \<in> set old'. window \<le> now' - t"
    using filter_recent_suffix by blast
  moreover have "\<forall>t \<in> set old. window \<le> now' - t" using old(2) assms(2) by fastforce
  ultimately show ?thesis
    unfolding tracks_def using old(1) s assms(2)
    by (intro conjI exI [of _ "old @ old'"]) (auto intro: order_trans)
qed

lemma tracks_grant:
  assumes "tracks window now past reqs" "0 < window"
  shows "tracks window now (past @ [now]) (reqs @ [now])"
  using assms unfolding tracks_def by (auto simp: sorted_append)

lemma spaced_grant:
  assumes "spaced window n past" "tracks window now past reqs" "length reqs < n"
  shows "spaced window n (past @ [now])"
  unfolding spaced_def
proof (intro allI impI)
  fix i
  assume i: "i + n < length (past @ [now])"
  show "window \<le> (past @ [now]) ! (i + n) - (past @ [now]) ! i"
  proof (cases "i + n < length past")
    case True
    with assms(1) show ?thesis by (simp add: spaced_def nth_append)
  next
    case False
    with i have e: "i + n = length past" by simp
    obtain old where old: "past = old @ reqs" "\<forall>t \<in> set old. window \<le> now - t"
      using assms(2) by (auto simp: tracks_def)
    from e old(1) assms(3) have "i < length old" by simp
    with old e show ?thesis by (simp add: nth_append)
  qed
qed

text \<open>Dropping stamps older than a longer horizon than the window loses nothing either.\<close>

lemma tracks_prune:
  assumes "tracks window now past reqs" "now \<le> now'" "window \<le> horizon"
  shows "tracks window now' past (filter (\<lambda>t. now' - t < horizon) reqs)"
proof -
  obtain old where old: "past = old @ reqs" "\<forall>t \<in> set old. window \<le> now - t"
    and s: "sorted past" "\<forall>t \<in> set past. t \<le> now"
    using assms(1) by (auto simp: tracks_def)
  from s(1) old(1) have "sorted reqs" by (simp add: sorted_append)
  then obtain old' where "reqs = old' @ filter (\<lambda>t. now' - t < horizon) reqs"
    "\<forall>t \<in> set old'. horizon \<le> now' - t"
    using filter_recent_suffix by blast
  moreover have "\<forall>t \<in> set old. window \<le> now' - t" using old(2) assms(2) by fastforce
  ultimately show ?thesis
    unfolding tracks_def using old(1) s assms(2,3)
    by (intro conjI exI [of _ "old @ old'"]) (auto intro: order_trans)
qed

lemma tracks_wait:
  assumes "tracks window now past reqs" "now \<le> now'"
  shows "tracks window now' past reqs"
  using assms unfolding tracks_def by (fastforce intro: order_trans)

text \<open>A tracking log counts in a window what the whole history counts.\<close>

lemma tracks_recent_eq:
  assumes "tracks window now past reqs" "now \<le> now'"
  shows "filter (\<lambda>t. now' - t < window) reqs = filter (\<lambda>t. now' - t < window) past"
proof -
  obtain old where old: "past = old @ reqs" "\<forall>t \<in> set old. window \<le> now - t"
    using assms(1) by (auto simp: tracks_def)
  then have "\<forall>t \<in> set old. \<not> now' - t < window" using assms(2) by fastforce
  with old(1) show ?thesis by simp
qed

lemma tracks_start [simp]: "tracks window now [] []"
  by (simp add: tracks_def)

end
