(* ===== verification/RateLimit.thy ===== *)
theory RateLimit
  imports Window
begin

text \<open>
  \<^verbatim>\<open>igris/core/user_rate_limiter.py\<close>: the per-user sliding window. A limiter holds one
  bucket per profile; \<open>now\<close> is what \<^verbatim>\<open>time.time()\<close> returns in an operation. The
  main result is the guarantee a sliding window is for: with a clock that does not run
  backwards, no window of time ever holds more granted requests of a profile than its limit.
\<close>

section \<open>State and operations\<close>

record rate_bucket =
  rb_profile_id :: string
  rb_trust_level :: string
  rb_requests :: "pyfloat list"
  rb_limit :: int
  rb_last_exceeded :: pyfloat

record limiter =
  rl_standard_limit :: int
  rl_admin_limit :: int
  rl_viewer_limit :: int
  rl_untrusted_limit :: int
  rl_window_seconds :: pyfloat
  rl_buckets :: "(string, rate_bucket) dict"

definition limit_for_trust :: "limiter \<Rightarrow> string \<Rightarrow> int" where
  "limit_for_trust l trust_level =
     (let lvl = py_lower trust_level in
      if lvl = ''admin'' \<or> lvl = ''owner'' then rl_admin_limit l
      else if lvl = ''limited'' \<or> lvl = ''viewer'' then rl_viewer_limit l
      else if lvl = ''untrusted'' then rl_untrusted_limit l
      else rl_standard_limit l)"

definition profile_key :: "string \<Rightarrow> string" where
  "profile_key profile_id = (if profile_id = [] then ''anonymous'' else profile_id)"

definition prune :: "pyfloat \<Rightarrow> pyfloat \<Rightarrow> rate_bucket \<Rightarrow> rate_bucket" where
  "prune now window b = b\<lparr>rb_requests := filter (\<lambda>t. now - t < window) (rb_requests b)\<rparr>"

definition find_bucket :: "limiter \<Rightarrow> string \<Rightarrow> string \<Rightarrow> int \<Rightarrow> rate_bucket" where
  "find_bucket l p trust_level limit =
     (case dget (rl_buckets l) p of
        None \<Rightarrow> \<lparr>rb_profile_id = p, rb_trust_level = trust_level, rb_requests = [],
          rb_limit = limit, rb_last_exceeded = 0\<rparr>
      | Some b \<Rightarrow>
          if rb_trust_level b \<noteq> trust_level
          then b\<lparr>rb_trust_level := trust_level, rb_limit := limit\<rparr> else b)"

definition check_rate ::
    "pyfloat \<Rightarrow> limiter \<Rightarrow> string \<Rightarrow> string \<Rightarrow> limiter \<times> bool \<times> nat \<times> int" where
  "check_rate now l profile_id trust_level =
     (let p = profile_key profile_id;
          limit = limit_for_trust l trust_level;
          b = prune now (rl_window_seconds l) (find_bucket l p trust_level limit)
      in if int (length (rb_requests b)) \<ge> limit then
           (l\<lparr>rl_buckets := dset (rl_buckets l) p (b\<lparr>rb_last_exceeded := now\<rparr>)\<rparr>,
            False, length (rb_requests b), limit)
         else
           (let b' = b\<lparr>rb_requests := rb_requests b @ [now]\<rparr>
            in (l\<lparr>rl_buckets := dset (rl_buckets l) p b'\<rparr>,
                True, length (rb_requests b'), limit)))"

record rate_status =
  rs_profile_id :: string
  rs_current :: nat
  rs_limit :: int
  rs_remaining :: int
  rs_trust_level :: string
  rs_window_seconds :: pyfloat

definition rate_status_of :: "pyfloat \<Rightarrow> limiter \<Rightarrow> string \<Rightarrow> limiter \<times> rate_status" where
  "rate_status_of now l profile_id =
     (let p = profile_key profile_id in
      case dget (rl_buckets l) p of
        None \<Rightarrow> (l, \<lparr>rs_profile_id = p, rs_current = 0, rs_limit = rl_standard_limit l,
          rs_remaining = rl_standard_limit l, rs_trust_level = ''untrusted'',
          rs_window_seconds = rl_window_seconds l\<rparr>)
      | Some b0 \<Rightarrow>
          let b = prune now (rl_window_seconds l) b0; current = length (rb_requests b)
          in (l\<lparr>rl_buckets := dset (rl_buckets l) p b\<rparr>,
              \<lparr>rs_profile_id = p, rs_current = current, rs_limit = rb_limit b,
                rs_remaining = max 0 (rb_limit b - int current), rs_trust_level = rb_trust_level b,
                rs_window_seconds = rl_window_seconds l\<rparr>))"

definition reset_rate :: "limiter \<Rightarrow> string option \<Rightarrow> limiter" where
  "reset_rate l profile =
     (case profile of
        None \<Rightarrow> l\<lparr>rl_buckets := []\<rparr>
      | Some p \<Rightarrow> l\<lparr>rl_buckets := ddel (rl_buckets l) p\<rparr>)"

fun statuses :: "pyfloat \<Rightarrow> limiter \<Rightarrow> string list \<Rightarrow> limiter \<times> rate_status list" where
  "statuses now l [] = (l, [])"
| "statuses now l (p # ps) =
     (let (l1, s) = rate_status_of now l p; (l2, ss) = statuses now l1 ps in (l2, s # ss))"

definition list_users :: "pyfloat \<Rightarrow> limiter \<Rightarrow> limiter \<times> rate_status list" where
  "list_users now l = statuses now l (sort (dkeys (rl_buckets l)))"

section \<open>One check\<close>

lemma check_rate_config:
  "check_rate now l p lvl = (l', ok, n, cap) \<Longrightarrow>
     rl_window_seconds l' = rl_window_seconds l \<and> limit_for_trust l' = limit_for_trust l"
  by (auto simp: check_rate_def Let_def limit_for_trust_def split: if_splits)

definition requests_of :: "limiter \<Rightarrow> string \<Rightarrow> pyfloat list" where
  "requests_of l p = (case dget (rl_buckets l) p of None \<Rightarrow> [] | Some b \<Rightarrow> rb_requests b)"

lemma find_bucket_requests [simp]: "rb_requests (find_bucket l p lvl cap) = requests_of l p"
  by (auto simp: find_bucket_def requests_of_def split: option.splits)

lemma check_rate_requests:
  fixes now l pid lvl
  defines "recent \<equiv> filter (\<lambda>t. now - t < rl_window_seconds l) (requests_of l (profile_key pid))"
  assumes "check_rate now l pid lvl = (l', ok, n, cap)"
  shows "cap = limit_for_trust l lvl"
    and "ok \<longleftrightarrow> int (length recent) < cap"
    and "requests_of l' (profile_key pid) = (if ok then recent @ [now] else recent)"
    and "n = length (requests_of l' (profile_key pid))"
    and "p \<noteq> profile_key pid \<Longrightarrow> requests_of l' p = requests_of l p"
  using assms(2) unfolding check_rate_def Let_def
  by (auto simp: requests_of_def prune_def recent_def split: if_splits)

section \<open>The window guarantee\<close>

text \<open>A run of checks, with the times at which the requests of one profile were granted.\<close>

fun grants :: "limiter \<Rightarrow> string \<Rightarrow> (string \<times> string \<times> pyfloat) list \<Rightarrow> pyfloat list" where
  "grants l p [] = []"
| "grants l p ((pid, lvl, now) # es) =
     (case check_rate now l pid lvl of
        (l', ok, _, _) \<Rightarrow> (if ok \<and> profile_key pid = p then [now] else []) @ grants l' p es)"

lemma grants_spaced:
  assumes "tracks window now past (requests_of l p)" "spaced window n past"
    and "sorted (map (\<lambda>(_, _, t). t) es)" "\<forall>(_, _, t) \<in> set es. now \<le> t"
    and "rl_window_seconds l = window" "0 < window"
    and "\<forall>(pid, lvl, _) \<in> set es. profile_key pid = p \<longrightarrow> limit_for_trust l lvl \<le> int n"
  shows "spaced window n (past @ grants l p es)"
  using assms
proof (induction es arbitrary: l now past)
  case (Cons e es)
  obtain pid lvl t where e: "e = (pid, lvl, t)" by (cases e)
  obtain l' ok c cap where ch: "check_rate t l pid lvl = (l', ok, c, cap)"
    by (cases "check_rate t l pid lvl") auto
  note r = check_rate_requests [OF ch] and cfg = check_rate_config [OF ch]
  have le: "now \<le> t" and later: "\<forall>(_, _, u) \<in> set es. t \<le> u"
    using Cons.prems(3,4) by (auto simp: e)
  have rest: "sorted (map (\<lambda>(_, _, t). t) es)"
    "\<forall>(pid, lvl, _) \<in> set es. profile_key pid = p \<longrightarrow> limit_for_trust l' lvl \<le> int n"
    "rl_window_seconds l' = window"
    using Cons.prems(3,5,7) cfg by (auto simp: e)
  let ?recent = "filter (\<lambda>u. t - u < window) (requests_of l p)"
  have tr: "tracks window t past ?recent"
    by (rule tracks_later [OF Cons.prems(1) le])
  show ?case
  proof (cases "profile_key pid = p")
    case other: False
    have "requests_of l' p = requests_of l p" using r(5) other by metis
    moreover have "tracks window t past (requests_of l p)"
      using Cons.prems(1) le unfolding tracks_def by (fastforce intro: order_trans)
    ultimately have "spaced window n (past @ grants l' p es)"
      using Cons.IH [of t past l'] Cons.prems(2,6) rest later by simp
    with other show ?thesis by (simp add: e ch)
  next
    case mine: True
    show ?thesis
    proof (cases ok)
      case True
      have "int (length ?recent) < cap" "cap \<le> int n"
        using r(1,2) True mine Cons.prems(5,7) by (auto simp: e)
      then have sp: "spaced window n (past @ [t])"
        by (intro spaced_grant [OF Cons.prems(2) tr]) linarith
      have "requests_of l' p = ?recent @ [t]" using r(3) True mine Cons.prems(5) by simp
      with tracks_grant [OF tr Cons.prems(6)]
      have "tracks window t (past @ [t]) (requests_of l' p)" by simp
      with sp have "spaced window n ((past @ [t]) @ grants l' p es)"
        using Cons.IH [of t "past @ [t]" l'] Cons.prems(6) rest later by simp
      with True mine show ?thesis by (simp add: e ch)
    next
      case False
      have "requests_of l' p = ?recent" using r(3) False mine Cons.prems(5) by simp
      with tr have "spaced window n (past @ grants l' p es)"
        using Cons.IH [of t past l'] Cons.prems(2,6) rest later by simp
      with False show ?thesis by (simp add: e ch)
    qed
  qed
qed simp

text \<open>With a clock that does not run backwards, the rate limiter never grants a profile more
  requests in a window than the limit of its trust level: of any \<open>n + 1\<close> consecutive grants
  the last is at least one window after the first, whatever other profiles do meanwhile.\<close>

theorem rate_limit_window_guarantee:
  assumes "rl_buckets l = []" and "0 < rl_window_seconds l"
    and "sorted (map (\<lambda>(_, _, t). t) es)" and "\<forall>(_, _, t) \<in> set es. 0 \<le> t"
    and "\<forall>(pid, lvl, _) \<in> set es. profile_key pid = p \<longrightarrow> limit_for_trust l lvl \<le> int n"
    and "i + n < length (grants l p es)"
  shows "rl_window_seconds l \<le> grants l p es ! (i + n) - grants l p es ! i"
proof -
  have "tracks (rl_window_seconds l) 0 [] (requests_of l p)"
    using assms(1) by (simp add: tracks_def requests_of_def)
  moreover have "spaced (rl_window_seconds l) n []" by (simp add: spaced_def)
  ultimately have "spaced (rl_window_seconds l) n ([] @ grants l p es)"
    by (rule grants_spaced) (use assms in auto)
  with assms(6) show ?thesis by (simp add: spaced_def)
qed

definition small_limiter :: limiter where
  "small_limiter = \<lparr>rl_standard_limit = 60, rl_admin_limit = 120, rl_viewer_limit = 2,
     rl_untrusted_limit = 1, rl_window_seconds = 60, rl_buckets = []\<rparr>"

definition small_run :: "(string \<times> string \<times> pyfloat) list" where
  "small_run = [(''ann'', ''viewer'', 1), (''bob'', ''untrusted'', 1), (''ann'', ''viewer'', 5),
     (''ann'', ''viewer'', 9), (''ann'', ''Viewer'', 61)]"

lemma small_grants: "grants small_limiter ''ann'' small_run = [1, 5, 61]"
  by (simp add: small_limiter_def small_run_def check_rate_def Let_def profile_key_def prune_def
      find_bucket_def limit_for_trust_def py_lower_def lower_char_def)

theorem rate_limit_window_guarantee_witness:
  "(60 :: pyfloat) \<le> grants small_limiter ''ann'' small_run ! 2 - grants small_limiter ''ann'' small_run ! 0"
proof -
  have "rl_window_seconds small_limiter \<le>
      grants small_limiter ''ann'' small_run ! (0 + 2) - grants small_limiter ''ann'' small_run ! 0"
  proof (rule rate_limit_window_guarantee)
    show "rl_buckets small_limiter = []" "0 < rl_window_seconds small_limiter"
      by (simp_all add: small_limiter_def)
    show "sorted (map (\<lambda>(_, _, t). t) small_run)" "\<forall>(_, _, t) \<in> set small_run. 0 \<le> t"
      by (simp_all add: small_run_def)
    have "limit_for_trust small_limiter ''viewer'' = 2" "limit_for_trust small_limiter ''Viewer'' = 2"
      by code_simp+
    then show "\<forall>(pid, lvl, _) \<in> set small_run.
        profile_key pid = ''ann'' \<longrightarrow> limit_for_trust small_limiter lvl \<le> int 2"
      by (simp add: small_run_def profile_key_def)
    show "0 + 2 < length (grants small_limiter ''ann'' small_run)" by (simp add: small_grants)
  qed
  moreover have "rl_window_seconds small_limiter = 60" by (simp add: small_limiter_def)
  ultimately show ?thesis by (simp only: add_0)
qed

section \<open>The limiter against a full history\<close>

text \<open>The abstract limiter keeps every grant for ever and counts those of the last window. The
  buckets of the code keep only what they must: they are a simulation of it.\<close>

datatype rate_event =
    CheckRate string string pyfloat
  | RateStatus string pyfloat
  | ListUsers pyfloat
  | ResetRate "string option"

fun rate_time :: "rate_event \<Rightarrow> pyfloat option" where
  "rate_time (CheckRate p lvl t) = Some t"
| "rate_time (RateStatus p t) = Some t"
| "rate_time (ListUsers t) = Some t"
| "rate_time (ResetRate p) = None"

fun rate_step :: "limiter \<Rightarrow> rate_event \<Rightarrow> limiter \<times> bool option" where
  "rate_step l (CheckRate pid lvl now) =
     (case check_rate now l pid lvl of (l', ok, _) \<Rightarrow> (l', Some ok))"
| "rate_step l (RateStatus pid now) = (fst (rate_status_of now l pid), None)"
| "rate_step l (ListUsers now) = (fst (list_users now l), None)"
| "rate_step l (ResetRate p) = (reset_rate l p, None)"

fun rate_answers :: "limiter \<Rightarrow> rate_event list \<Rightarrow> bool option list" where
  "rate_answers l [] = []"
| "rate_answers l (e # es) = (case rate_step l e of (l', a) \<Rightarrow> a # rate_answers l' es)"

type_synonym grant_history = "(string \<times> pyfloat) list"

definition granted_to :: "grant_history \<Rightarrow> string \<Rightarrow> pyfloat list" where
  "granted_to h p = map snd (filter (\<lambda>(q, t). q = p) h)"

fun history_step ::
    "(string \<Rightarrow> int) \<Rightarrow> pyfloat \<Rightarrow> grant_history \<Rightarrow> rate_event \<Rightarrow> grant_history \<times> bool option"
where
  "history_step limit window h (CheckRate pid lvl now) =
     (let p = profile_key pid;
          ok = int (length (filter (\<lambda>t. now - t < window) (granted_to h p))) < limit lvl
      in (if ok then h @ [(p, now)] else h, Some ok))"
| "history_step limit window h (RateStatus pid now) = (h, None)"
| "history_step limit window h (ListUsers now) = (h, None)"
| "history_step limit window h (ResetRate None) = ([], None)"
| "history_step limit window h (ResetRate (Some p)) = (filter (\<lambda>(q, t). q \<noteq> p) h, None)"

fun history_answers ::
    "(string \<Rightarrow> int) \<Rightarrow> pyfloat \<Rightarrow> grant_history \<Rightarrow> rate_event list \<Rightarrow> bool option list"
where
  "history_answers limit window h [] = []"
| "history_answers limit window h (e # es) =
     (case history_step limit window h e of (h', a) \<Rightarrow> a # history_answers limit window h' es)"

text \<open>The clock of a run does not go back.\<close>

fun clock_ok :: "pyfloat \<Rightarrow> rate_event list \<Rightarrow> bool" where
  "clock_ok now [] = True"
| "clock_ok now (e # es) =
     (case rate_time e of None \<Rightarrow> clock_ok now es | Some t \<Rightarrow> now \<le> t \<and> clock_ok t es)"

definition simulates :: "pyfloat \<Rightarrow> limiter \<Rightarrow> grant_history \<Rightarrow> bool" where
  "simulates now l h \<longleftrightarrow>
     dwf (rl_buckets l) \<and> (\<forall>p. tracks (rl_window_seconds l) now (granted_to h p) (requests_of l p))"

lemma granted_to_simps [simp]:
  "granted_to [] p = []"
  "granted_to (h @ [(q, t)]) p = granted_to h p @ (if q = p then [t] else [])"
  "granted_to (filter (\<lambda>(q, t). q \<noteq> r) h) p = (if p = r then [] else granted_to h p)"
  by (auto simp: granted_to_def filter_empty_conv intro!: arg_cong [where f = "map snd"] filter_cong)

lemma simulates_wait: "simulates now l h \<Longrightarrow> now \<le> t \<Longrightarrow> simulates t l h"
  by (auto simp: simulates_def intro: tracks_wait)

lemma status_simulates:
  assumes "simulates now l h" "now \<le> t"
  shows "simulates t (fst (rate_status_of t l pid)) h"
    and "rl_window_seconds (fst (rate_status_of t l pid)) = rl_window_seconds l"
    and "limit_for_trust (fst (rate_status_of t l pid)) = limit_for_trust l"
proof -
  have "requests_of (fst (rate_status_of t l pid)) p =
      (if p = profile_key pid then filter (\<lambda>u. t - u < rl_window_seconds l) (requests_of l p)
       else requests_of l p)" for p
    by (auto simp: rate_status_of_def requests_of_def prune_def Let_def split: option.splits)
  moreover have "dwf (rl_buckets (fst (rate_status_of t l pid)))"
    using assms(1) by (auto simp: rate_status_of_def simulates_def Let_def split: option.splits)
  moreover show w: "rl_window_seconds (fst (rate_status_of t l pid)) = rl_window_seconds l"
    "limit_for_trust (fst (rate_status_of t l pid)) = limit_for_trust l"
    by (auto simp: rate_status_of_def limit_for_trust_def Let_def split: option.splits)
  ultimately show "simulates t (fst (rate_status_of t l pid)) h"
    using assms by (auto simp: simulates_def intro: tracks_later tracks_wait)
qed

lemma statuses_simulates:
  assumes "simulates now l h" "now \<le> t"
  shows "simulates t (fst (statuses t l ps)) h \<and>
    rl_window_seconds (fst (statuses t l ps)) = rl_window_seconds l \<and>
    limit_for_trust (fst (statuses t l ps)) = limit_for_trust l"
  using simulates_wait [OF assms]
proof (induction ps arbitrary: l)
  case (Cons p ps)
  note st = status_simulates [OF Cons.prems order_refl, of p]
  from Cons.IH [OF st(1)] st(2,3) show ?case by (simp add: case_prod_unfold Let_def)
qed simp

lemma check_simulates:
  assumes "simulates now l h" "now \<le> t" "0 < rl_window_seconds l"
    and ch: "check_rate t l pid lvl = (l', ok, n, cap)"
    and hs: "history_step (limit_for_trust l) (rl_window_seconds l) h (CheckRate pid lvl t) = (h', a)"
  shows "a = Some ok" and "simulates t l' h'"
proof -
  note r = check_rate_requests [OF ch] and cfg = check_rate_config [OF ch]
  let ?w = "rl_window_seconds l" and ?p = "profile_key pid"
  have tr: "tracks ?w now (granted_to h p) (requests_of l p)" for p
    using assms(1) by (simp add: simulates_def)
  have same: "ok \<longleftrightarrow> int (length (filter (\<lambda>u. t - u < ?w) (granted_to h ?p))) < limit_for_trust l lvl"
    using r(1,2) tracks_recent_eq [OF tr assms(2)] by simp
  with hs show "a = Some ok" by (simp add: Let_def)
  have h': "h' = (if ok then h @ [(?p, t)] else h)" using hs same by (auto simp: Let_def)
  have "tracks ?w t (granted_to h' p) (requests_of l' p)" for p
  proof (cases "p = ?p")
    case True
    with tracks_later [OF tr assms(2), of ?p] tracks_grant [OF tracks_later [OF tr assms(2), of ?p] assms(3)]
    show ?thesis using r(3) h' by simp
  next
    case False
    with r(5) h' tracks_wait [OF tr assms(2), of p] show ?thesis by simp
  qed
  moreover have "dwf (rl_buckets l')"
    using ch assms(1) by (auto simp: check_rate_def simulates_def Let_def split: if_splits)
  ultimately show "simulates t l' h'" using cfg by (simp add: simulates_def)
qed

lemma reset_simulates:
  assumes "simulates now l h" and "history_step limit w h (ResetRate q) = (h', a)"
  shows "simulates now (reset_rate l q) h'" and "a = None"
proof -
  show "a = None" using assms(2) by (cases q) auto
  show "simulates now (reset_rate l q) h'"
  proof (cases q)
    case None
    with assms show ?thesis by (auto simp: simulates_def reset_rate_def requests_of_def)
  next
    case (Some r)
    have "requests_of (reset_rate l q) p = (if p = r then [] else requests_of l p)" for p
      using Some assms(1)
      by (auto simp: reset_rate_def requests_of_def simulates_def dget_ddel)
    with Some assms show ?thesis by (auto simp: simulates_def reset_rate_def)
  qed
qed

lemma reset_config [simp]:
  "rl_window_seconds (reset_rate l q) = rl_window_seconds l"
  "limit_for_trust (reset_rate l q) = limit_for_trust l"
  by (auto simp: reset_rate_def limit_for_trust_def fun_eq_iff Let_def split: option.splits)

lemma simulation_step:
  assumes "simulates now l h" "0 < rl_window_seconds l"
    and "case rate_time e of None \<Rightarrow> t = now | Some u \<Rightarrow> t = u \<and> now \<le> u"
    and "rate_step l e = (l', a)"
    and "history_step (limit_for_trust l) (rl_window_seconds l) h e = (h', b)"
  shows "a = b \<and> simulates t l' h' \<and> rl_window_seconds l' = rl_window_seconds l \<and>
    limit_for_trust l' = limit_for_trust l"
proof (cases e)
  case (CheckRate pid lvl u)
  obtain ok n cap where ch: "check_rate u l pid lvl = (l', ok, n, cap)" "a = Some ok"
    using assms(4) CheckRate by (auto split: prod.splits)
  with CheckRate assms check_simulates [OF assms(1) _ assms(2) ch(1)] check_rate_config [OF ch(1)]
  show ?thesis by auto
next
  case (RateStatus pid u)
  with assms status_simulates [OF assms(1), of u pid] show ?thesis by auto
next
  case (ListUsers u)
  with assms statuses_simulates [OF assms(1), of u] show ?thesis by (auto simp: list_users_def)
next
  case (ResetRate q)
  with assms reset_simulates [OF assms(1), of "limit_for_trust l" "rl_window_seconds l" q h' b]
  show ?thesis by auto
qed

lemma simulation_run:
  assumes "simulates now l h" "0 < rl_window_seconds l" "clock_ok now es"
  shows "rate_answers l es = history_answers (limit_for_trust l) (rl_window_seconds l) h es"
  using assms
proof (induction es arbitrary: now l h)
  case (Cons e es)
  obtain l' a where s: "rate_step l e = (l', a)" by (cases "rate_step l e")
  obtain h' b where s': "history_step (limit_for_trust l) (rl_window_seconds l) h e = (h', b)"
    by (cases "history_step (limit_for_trust l) (rl_window_seconds l) h e")
  define t where "t = (case rate_time e of None \<Rightarrow> now | Some u \<Rightarrow> u)"
  have "case rate_time e of None \<Rightarrow> t = now | Some u \<Rightarrow> t = u \<and> now \<le> u" "clock_ok t es"
    using Cons.prems(3) by (auto simp: t_def split: option.splits)
  note step = simulation_step [OF Cons.prems(1,2) this(1) s s'] and clock = this(2)
  have "rate_answers l' es = history_answers (limit_for_trust l') (rl_window_seconds l') h' es"
    by (rule Cons.IH [of t]) (use step clock Cons.prems(2) in auto)
  with step s s' show ?case by simp
qed simp

text \<open>C7. The limiter refines the full history: a fresh limiter gives, in any run of checks, status
  queries, listings and resets under a clock that does not go back, exactly the answers of the
  specification that remembers every grant for ever. What pruning drops is never missed.\<close>

theorem rate_limiter_refines_history:
  assumes "rl_buckets l = []" and "0 < rl_window_seconds l" and "clock_ok t0 es"
  shows "rate_answers l es = history_answers (limit_for_trust l) (rl_window_seconds l) [] es"
proof (rule simulation_run)
  show "simulates t0 l []" using assms(1) by (simp add: simulates_def requests_of_def)
qed (fact assms)+

theorem rate_limiter_refines_history_witness:
  "rate_answers small_limiter [CheckRate ''ann'' ''viewer'' 1, CheckRate ''ann'' ''viewer'' 5,
      ListUsers 6, CheckRate ''ann'' ''viewer'' 9, ResetRate (Some ''ann''),
      CheckRate ''ann'' ''viewer'' 9] =
    history_answers (limit_for_trust small_limiter) (rl_window_seconds small_limiter) []
      [CheckRate ''ann'' ''viewer'' 1, CheckRate ''ann'' ''viewer'' 5,
      ListUsers 6, CheckRate ''ann'' ''viewer'' 9, ResetRate (Some ''ann''),
      CheckRate ''ann'' ''viewer'' 9]"
  by (rule rate_limiter_refines_history [of _ 0]) (simp_all add: small_limiter_def)

end
