(* ===== verification/Delegation.thy ===== *)
theory Delegation
  imports PyStr
begin

text \<open>
  \<^verbatim>\<open>igris/core/delegation_keys.py\<close>: delegation keys with scope inheritance, expiry,
  bearer and single use, kept in one JSON file. A missing or unreadable file reads as no keys.
  The hash functions of \<^verbatim>\<open>hashlib\<close> are the parameters of \<open>crypto\<close>; the random key
  id and salt and the clock are arguments. The lemmas say what an accepted key implies, that a
  rejection changes nothing, and that a single-use key is accepted at most once.
\<close>

section \<open>Keys and their file\<close>

record crypto =
  pbkdf2_hex :: "string \<Rightarrow> string \<Rightarrow> string"
  sha256_hex :: "string \<Rightarrow> string"

definition hash_passphrase :: "crypto \<Rightarrow> string \<Rightarrow> string \<Rightarrow> string \<times> string" where
  "hash_passphrase c raw salt = (pbkdf2_hex c raw salt, salt)"

definition verify_passphrase :: "crypto \<Rightarrow> string \<Rightarrow> string \<Rightarrow> string option \<Rightarrow> bool" where
  "verify_passphrase c raw stored_hash salt =
     (case salt of
        Some (x # xs) \<Rightarrow> fst (hash_passphrase c raw (x # xs)) = stored_hash
      | _ \<Rightarrow> sha256_hex c raw = stored_hash)"

record delegation_key =
  dk_key_id :: string
  dk_passphrase_hash :: string
  dk_granted_by :: string
  dk_granted_to :: "string option"
  dk_authorized_scopes :: "string list"
  dk_expires_at :: "pyfloat option"
  dk_created_at :: pyfloat
  dk_single_use :: bool
  dk_used :: bool
  dk_salt :: "string option"

definition is_expired :: "pyfloat \<Rightarrow> delegation_key \<Rightarrow> bool" where
  "is_expired now k = (case dk_expires_at k of None \<Rightarrow> False | Some e \<Rightarrow> now > e)"

definition is_valid :: "pyfloat \<Rightarrow> delegation_key \<Rightarrow> bool" where
  "is_valid now k =
     (if is_expired now k then False else if dk_single_use k \<and> dk_used k then False else True)"

datatype keys_file = Missing | Unreadable | Keys "(string, delegation_key) dict"

fun load_keys :: "keys_file \<Rightarrow> (string, delegation_key) dict" where
  "load_keys Missing = []"
| "load_keys Unreadable = []"
| "load_keys (Keys m) = m"

definition save_keys :: "(string, delegation_key) dict \<Rightarrow> keys_file" where
  "save_keys m = Keys m"

section \<open>Operations\<close>

definition create_key ::
    "crypto \<Rightarrow> pyfloat \<Rightarrow> string \<Rightarrow> string \<Rightarrow> keys_file \<Rightarrow> string \<Rightarrow> string list \<Rightarrow> string list \<Rightarrow> string \<Rightarrow>
     string option \<Rightarrow> pyfloat option \<Rightarrow> bool \<Rightarrow> py_error + keys_file \<times> delegation_key"
where
  "create_key c now key_id salt st granted_by grantor_scopes authorized_scopes raw granted_to
       expires_in_seconds single_use =
     (let invalid_scopes =
            (if ''*'' \<notin> set grantor_scopes
             then filter (\<lambda>s. s \<notin> set grantor_scopes) authorized_scopes else [])
      in if invalid_scopes \<noteq> [] then Inl ValueError
         else
           let expires_at = (case expires_in_seconds of
                 None \<Rightarrow> None | Some s \<Rightarrow> if s = 0 then None else Some (now + s));
               (h, slt) = hash_passphrase c raw salt;
               key = \<lparr>dk_key_id = key_id, dk_passphrase_hash = h, dk_granted_by = granted_by,
                 dk_granted_to = granted_to, dk_authorized_scopes = authorized_scopes,
                 dk_expires_at = expires_at, dk_created_at = now, dk_single_use = single_use,
                 dk_used = False, dk_salt = Some slt\<rparr>
           in Inr (save_keys (dset (load_keys st) key_id key), key))"

datatype verdict =
    Ok
  | KeyNotFound
  | PassphraseMismatch
  | KeyExpired
  | KeyConsumed
  | BearerMismatch
  | ScopeNotCovered "string list"

definition verify_key ::
    "crypto \<Rightarrow> pyfloat \<Rightarrow> keys_file \<Rightarrow> string \<Rightarrow> string \<Rightarrow> string list \<Rightarrow> string option \<Rightarrow>
     keys_file \<times> verdict"
where
  "verify_key c now st key_id raw requested_scopes bearer =
     (case dget (load_keys st) key_id of
        None \<Rightarrow> (st, KeyNotFound)
      | Some key \<Rightarrow>
          if \<not> verify_passphrase c raw (dk_passphrase_hash key) (dk_salt key) then
            (st, PassphraseMismatch)
          else if \<not> is_valid now key then
            (st, if is_expired now key then KeyExpired else KeyConsumed)
          else if dk_granted_to key \<noteq> None \<and> bearer \<noteq> None \<and> dk_granted_to key \<noteq> bearer then
            (st, BearerMismatch)
          else
            let missing = filter (\<lambda>s. s \<notin> set (dk_authorized_scopes key)) requested_scopes
            in if missing \<noteq> [] then (st, ScopeNotCovered missing)
               else if dk_single_use key then
                 (save_keys (dset (load_keys st) key_id (key\<lparr>dk_used := True\<rparr>)), Ok)
               else (st, Ok))"

definition revoke_key :: "keys_file \<Rightarrow> string \<Rightarrow> keys_file \<times> bool" where
  "revoke_key st key_id =
     (let keys = load_keys st in
      if key_id \<notin> set (dkeys keys) then (st, False)
      else (save_keys (ddel keys key_id), True))"

definition list_keys :: "keys_file \<Rightarrow> string option \<Rightarrow> delegation_key list" where
  "list_keys st granted_by =
     (let result = map snd (load_keys st) in
      case granted_by of None \<Rightarrow> result | Some g \<Rightarrow> filter (\<lambda>k. dk_granted_by k = g) result)"

text \<open>\<^verbatim>\<open>DelegationKeyStore\<close>: the defaults of the object interface.\<close>

definition store_create_key ::
    "crypto \<Rightarrow> pyfloat \<Rightarrow> string \<Rightarrow> string \<Rightarrow> keys_file \<Rightarrow> string \<Rightarrow> string option \<Rightarrow> string list option \<Rightarrow>
     string \<Rightarrow> pyfloat option \<Rightarrow> bool \<Rightarrow> string list option \<Rightarrow> py_error + keys_file \<times> delegation_key"
where
  "store_create_key c now key_id salt st granted_by granted_to authorized_scopes passphrase
       expires_in_hours single_use grantor_scopes =
     create_key c now key_id salt st granted_by
       (case grantor_scopes of Some (g # gs) \<Rightarrow> g # gs | _ \<Rightarrow> [''*''])
       (case authorized_scopes of Some ss \<Rightarrow> ss | None \<Rightarrow> [])
       passphrase granted_to (map_option (\<lambda>h. h * 3600) expires_in_hours) single_use"

record verify_result =
  vr_valid :: bool
  vr_reason :: verdict
  vr_authorized_scopes :: "string list"

definition store_verify ::
    "crypto \<Rightarrow> pyfloat \<Rightarrow> keys_file \<Rightarrow> string \<Rightarrow> string \<Rightarrow> string option \<Rightarrow> string list option \<Rightarrow>
     keys_file \<times> verify_result"
where
  "store_verify c now st key_id passphrase bearer requested_scopes =
     (let scopes = (case requested_scopes of Some (r # rs) \<Rightarrow> r # rs | _ \<Rightarrow> [''*'']);
          key = dget (load_keys st) key_id;
          (st', v) = verify_key c now st key_id passphrase scopes bearer
      in (st', \<lparr>vr_valid = (v = Ok), vr_reason = v,
           vr_authorized_scopes =
             (case key of Some k \<Rightarrow> if v = Ok then dk_authorized_scopes k else [] | None \<Rightarrow> [])\<rparr>))"

record public_key =
  pk_key_id :: string
  pk_granted_by :: string
  pk_granted_to :: "string option"
  pk_authorized_scopes :: "string list"
  pk_expires_at :: "pyfloat option"
  pk_created_at :: pyfloat
  pk_single_use :: bool
  pk_used :: bool
  pk_is_expired :: bool
  pk_is_valid :: bool

definition to_public_dict :: "pyfloat \<Rightarrow> delegation_key \<Rightarrow> public_key" where
  "to_public_dict now k = \<lparr>pk_key_id = dk_key_id k, pk_granted_by = dk_granted_by k,
     pk_granted_to = dk_granted_to k, pk_authorized_scopes = dk_authorized_scopes k,
     pk_expires_at = dk_expires_at k, pk_created_at = dk_created_at k,
     pk_single_use = dk_single_use k, pk_used = dk_used k,
     pk_is_expired = is_expired now k, pk_is_valid = is_valid now k\<rparr>"

section \<open>What a verdict means\<close>

definition acceptable ::
    "crypto \<Rightarrow> pyfloat \<Rightarrow> delegation_key \<Rightarrow> string \<Rightarrow> string list \<Rightarrow> string option \<Rightarrow> bool" where
  "acceptable c now k raw scopes bearer \<longleftrightarrow>
     verify_passphrase c raw (dk_passphrase_hash k) (dk_salt k) \<and>
     \<not> is_expired now k \<and> \<not> (dk_single_use k \<and> dk_used k) \<and>
     (dk_granted_to k = None \<or> bearer = None \<or> dk_granted_to k = bearer) \<and>
     set scopes \<subseteq> set (dk_authorized_scopes k)"

lemma filter_not_in_Nil: "filter (\<lambda>s. s \<notin> A) xs = [] \<longleftrightarrow> set xs \<subseteq> A"
  by (auto simp: filter_empty_conv)

lemma verify_key_Ok_iff:
  "snd (verify_key c now st key_id raw scopes bearer) = Ok \<longleftrightarrow>
     (\<exists>k. dget (load_keys st) key_id = Some k \<and> acceptable c now k raw scopes bearer)"
  unfolding verify_key_def acceptable_def is_valid_def Let_def filter_not_in_Nil
  by (cases "dget (load_keys st) key_id") auto

lemma verify_key_rejected: 
  "verify_key c now st key_id raw scopes bearer = (st', v) \<Longrightarrow> v \<noteq> Ok \<Longrightarrow> st' = st"
  unfolding verify_key_def Let_def by (auto split: option.splits if_splits)

lemma verify_key_file:
  assumes "verify_key c now st key_id raw scopes bearer = (st', v)"
  shows "st' = st \<or> (\<exists>k. v = Ok \<and> dget (load_keys st) key_id = Some k \<and> dk_single_use k \<and>
    \<not> dk_used k \<and> st' = Keys (dset (load_keys st) key_id (k\<lparr>dk_used := True\<rparr>)))"
  using assms unfolding verify_key_def Let_def save_keys_def is_valid_def
  by (auto split: option.splits if_splits)

text \<open>A delegation key is accepted exactly when it exists, its passphrase verifies, it has not
  expired, it is not a consumed single-use key, its bearer is not known to be someone else, and it
  covers every requested scope; any rejection leaves the key file as it was.\<close>

theorem delegation_key_accepted_iff:
  "snd (verify_key c now st key_id raw scopes bearer) = Ok \<longleftrightarrow>
     (\<exists>k. dget (load_keys st) key_id = Some k \<and>
        verify_passphrase c raw (dk_passphrase_hash k) (dk_salt k) \<and>
        (case dk_expires_at k of None \<Rightarrow> True | Some e \<Rightarrow> now \<le> e) \<and>
        \<not> (dk_single_use k \<and> dk_used k) \<and>
        (dk_granted_to k = None \<or> bearer = None \<or> dk_granted_to k = bearer) \<and>
        set scopes \<subseteq> set (dk_authorized_scopes k))"
  unfolding verify_key_Ok_iff acceptable_def is_expired_def
  by (intro ex_cong1 conj_cong refl) (auto split: option.splits)

section \<open>Single use\<close>

datatype key_event =
    Create pyfloat string string string "string list" "string list" string "string option" "pyfloat option" bool
  | Verify pyfloat string string "string list" "string option"
  | Revoke string

fun key_step :: "crypto \<Rightarrow> keys_file \<Rightarrow> key_event \<Rightarrow> keys_file \<times> bool" where
  "key_step c st (Create now i salt gb gs ss raw gt ex su) =
     (case create_key c now i salt st gb gs ss raw gt ex su of
        Inl _ \<Rightarrow> (st, False) | Inr (st', _) \<Rightarrow> (st', False))"
| "key_step c st (Verify now i raw ss b) =
     (case verify_key c now st i raw ss b of (st', v) \<Rightarrow> (st', v = Ok))"
| "key_step c st (Revoke i) = (fst (revoke_key st i), False)"

fun acceptances :: "crypto \<Rightarrow> string \<Rightarrow> keys_file \<Rightarrow> key_event list \<Rightarrow> nat" where
  "acceptances c i st [] = 0"
| "acceptances c i st (e # es) =
     (case key_step c st e of
        (st', ok) \<Rightarrow>
          (if ok \<and> (case e of Verify _ j _ _ _ \<Rightarrow> j = i | _ \<Rightarrow> False) then 1 else 0)
          + acceptances c i st' es)"

definition creates :: "string \<Rightarrow> key_event \<Rightarrow> bool" where
  "creates i e = (case e of Create _ j _ _ _ _ _ _ _ _ \<Rightarrow> j = i | _ \<Rightarrow> False)"

definition spent :: "string \<Rightarrow> keys_file \<Rightarrow> bool" where
  "spent i st \<longleftrightarrow> (case dget (load_keys st) i of None \<Rightarrow> True | Some k \<Rightarrow> dk_single_use k \<and> dk_used k)"

definition one_shot :: "string \<Rightarrow> keys_file \<Rightarrow> bool" where
  "one_shot i st \<longleftrightarrow> (case dget (load_keys st) i of None \<Rightarrow> True | Some k \<Rightarrow> dk_single_use k)"

definition file_ok :: "keys_file \<Rightarrow> bool" where
  "file_ok st \<longleftrightarrow> dwf (load_keys st)"

lemma key_step_file_ok: "file_ok st \<Longrightarrow> file_ok (fst (key_step c st e))"
proof (cases e)
  case (Verify now i raw ss b)
  assume ok: "file_ok st"
  obtain st' v where v: "verify_key c now st i raw ss b = (st', v)" by fastforce
  from verify_key_file [OF v] ok show ?thesis by (auto simp: Verify v file_ok_def)
qed (auto simp: file_ok_def create_key_def revoke_key_def save_keys_def Let_def split: if_splits prod.splits)

text \<open>What every event leaves of the key \<open>i\<close>: itself, itself marked as used, or nothing.\<close>

lemma key_step_other:
  assumes "file_ok st" "\<not> creates i e" "key_step c st e = (st', ok)"
  shows "dget (load_keys st') i = None \<or> dget (load_keys st') i = dget (load_keys st) i \<or>
    (\<exists>k. dget (load_keys st) i = Some k \<and> dk_single_use k \<and>
       dget (load_keys st') i = Some (k\<lparr>dk_used := True\<rparr>))"
proof (cases e)
  case (Create now j salt gb gs ss raw gt ex su)
  then have "j \<noteq> i" using assms(2) by (simp add: creates_def)
  with assms(3) show ?thesis
    by (auto simp: Create create_key_def save_keys_def Let_def split: if_splits prod.splits)
next
  case (Verify now j raw ss b)
  then have v: "verify_key c now st j raw ss b = (st', if ok then Ok else snd (verify_key c now st j raw ss b))"
    using assms(3) by (auto split: prod.splits)
  from verify_key_file [OF v] show ?thesis by (cases "i = j") auto
next
  case (Revoke j)
  with assms(1,3) show ?thesis
    by (cases "j \<in> set (dkeys (load_keys st))"; cases "i = j")
       (auto simp: revoke_key_def save_keys_def file_ok_def Let_def dget_ddel)
qed

lemma key_step_accept:
  assumes "key_step c st (Verify now i raw ss b) = (st', True)"
  shows "\<not> spent i st" and "one_shot i st \<Longrightarrow> spent i st'"
proof -
  have v: "verify_key c now st i raw ss b = (st', Ok)"
    using assms by (auto split: prod.splits)
  then obtain k where k: "dget (load_keys st) i = Some k" "acceptable c now k raw ss b"
    using verify_key_Ok_iff [of c now st i raw ss b] by auto
  show "\<not> spent i st" using k by (simp add: spent_def acceptable_def)
  assume "one_shot i st"
  with k have "dk_single_use k" by (simp add: one_shot_def)
  with v k show "spent i st'"
    by (auto simp: verify_key_def spent_def save_keys_def Let_def split: if_splits)
qed

lemma acceptances_spent:
  assumes "file_ok st" "spent i st" "list_all (\<lambda>e. \<not> creates i e) es"
  shows "acceptances c i st es = 0"
  using assms
proof (induction es arbitrary: st)
  case (Cons e es)
  obtain st' ok where s: "key_step c st e = (st', ok)" by fastforce
  have "\<not> creates i e" using Cons.prems(3) by simp
  from key_step_other [OF Cons.prems(1) this s] have "spent i st'"
    using Cons.prems(2) by (auto simp: spent_def)
  moreover have "file_ok st'" using key_step_file_ok [OF Cons.prems(1), of c e] s by simp
  ultimately have "acceptances c i st' es = 0" using Cons by simp
  moreover have "\<not> (ok \<and> (case e of Verify _ j _ _ _ \<Rightarrow> j = i | _ \<Rightarrow> False))"
    using key_step_accept(1) Cons.prems(2) s by (auto split: key_event.splits)
  ultimately show ?case by (simp add: s)
qed simp

lemma acceptances_one_shot:
  assumes "file_ok st" "one_shot i st" "list_all (\<lambda>e. \<not> creates i e) es"
  shows "acceptances c i st es \<le> 1"
  using assms
proof (induction es arbitrary: st)
  case (Cons e es)
  obtain st' ok where s: "key_step c st e = (st', ok)" by fastforce
  have ok': "file_ok st'" using key_step_file_ok [OF Cons.prems(1), of c e] s by simp
  show ?case
  proof (cases "ok \<and> (case e of Verify _ j _ _ _ \<Rightarrow> j = i | _ \<Rightarrow> False)")
    case True
    then obtain now raw ss b where "e = Verify now i raw ss b" by (auto split: key_event.splits)
    with s True have "key_step c st (Verify now i raw ss b) = (st', True)" by simp
    from key_step_accept(2) [OF this Cons.prems(2)] have "spent i st'" .
    with ok' Cons.prems(3) have "acceptances c i st' es = 0" by (simp add: acceptances_spent)
    then show ?thesis by (simp add: s)
  next
    case False
    have "\<not> creates i e" using Cons.prems(3) by simp
    from key_step_other [OF Cons.prems(1) this s] have "one_shot i st'"
      using Cons.prems(2) by (auto simp: one_shot_def)
    with ok' Cons have "acceptances c i st' es \<le> 1" by simp
    with False show ?thesis by (auto simp: s)
  qed
qed simp

text \<open>C20. A single-use delegation key is accepted at most once, whatever sequence of creations of
  other keys, verifications and revocations follows, by whomever and at whatever times.\<close>

theorem single_use_key_accepted_once:
  assumes "dwf (load_keys st)" and "dget (load_keys st) i = Some k" and "dk_single_use k"
    and "list_all (\<lambda>e. \<not> creates i e) es"
  shows "acceptances c i st es \<le> 1"
  by (rule acceptances_one_shot) (use assms in \<open>auto simp: file_ok_def one_shot_def\<close>)

definition toy_crypto :: crypto where
  "toy_crypto = \<lparr>pbkdf2_hex = (\<lambda>raw salt. raw @ salt), sha256_hex = rev\<rparr>"

definition toy_key :: delegation_key where
  "toy_key = \<lparr>dk_key_id = ''k1'', dk_passphrase_hash = ''openS'', dk_granted_by = ''ada'',
     dk_granted_to = Some ''bob'', dk_authorized_scopes = [''deploy''], dk_expires_at = Some 100,
     dk_created_at = 0, dk_single_use = True, dk_used = False, dk_salt = Some ''S''\<rparr>"

theorem single_use_key_accepted_once_witness:
  "acceptances toy_crypto ''k1'' (Keys [(''k1'', toy_key)])
     [Verify 1 ''k1'' ''open'' [''deploy''] (Some ''bob''), Verify 2 ''k1'' ''open'' [''deploy''] None] = 1"
proof -
  have "acceptances toy_crypto ''k1'' (Keys [(''k1'', toy_key)])
     [Verify 1 ''k1'' ''open'' [''deploy''] (Some ''bob''), Verify 2 ''k1'' ''open'' [''deploy''] None] \<le> 1"
    by (rule single_use_key_accepted_once [where k = toy_key]) (simp_all add: toy_key_def creates_def dwf_def)
  moreover have "fst (key_step toy_crypto (Keys [(''k1'', toy_key)]) (Verify 1 ''k1'' ''open'' [''deploy''] (Some ''bob''))) 
      = Keys [(''k1'', toy_key\<lparr>dk_used := True\<rparr>)] \<and>
    snd (key_step toy_crypto (Keys [(''k1'', toy_key)]) (Verify 1 ''k1'' ''open'' [''deploy''] (Some ''bob'')))"
    by (simp add: verify_key_def toy_key_def toy_crypto_def verify_passphrase_def hash_passphrase_def
        is_valid_def is_expired_def save_keys_def)
  ultimately show ?thesis by (auto split: prod.splits)
qed

section \<open>Creation\<close>

text \<open>A key never carries a scope its grantor lacks: creation succeeds exactly when the grantor
  is unrestricted or has every scope of the key, and then a lookup of the new id finds the new
  key and every other key is as before; otherwise it raises \<^verbatim>\<open>ValueError\<close>.\<close>

theorem create_key_respects_scopes:
  "create_key c now i salt st gb gs ss raw gt ex su =
     (if ''*'' \<in> set gs \<or> set ss \<subseteq> set gs
      then (let k = \<lparr>dk_key_id = i, dk_passphrase_hash = pbkdf2_hex c raw salt, dk_granted_by = gb,
              dk_granted_to = gt, dk_authorized_scopes = ss,
              dk_expires_at = (case ex of None \<Rightarrow> None | Some s \<Rightarrow> if s = 0 then None else Some (now + s)),
              dk_created_at = now, dk_single_use = su, dk_used = False, dk_salt = Some salt\<rparr>
            in Inr (Keys (dset (load_keys st) i k), k))
      else Inl ValueError)"
  by (auto simp: create_key_def hash_passphrase_def save_keys_def Let_def filter_empty_conv)

text \<open>A lifetime of zero seconds, which asks for a key that has expired at once, makes one that
  never expires: zero is falsy, as no lifetime is.\<close>

theorem zero_lifetime_never_expires:
  assumes "''*'' \<in> set gs"
  shows "\<exists>st' k. create_key c now i salt st gb gs ss raw gt (Some 0) su = Inr (st', k) \<and>
    dk_expires_at k = None \<and> \<not> is_expired later k"
  using assms by (simp add: create_key_def Let_def hash_passphrase_def is_expired_def)

theorem zero_lifetime_never_expires_witness:
  "\<exists>st' k. create_key toy_crypto 5 ''k2'' ''S'' Missing ''ada'' [''*''] [''deploy''] ''pw'' None (Some 0) False
     = Inr (st', k) \<and> dk_expires_at k = None \<and> \<not> is_expired 1000000 k"
  by (rule zero_lifetime_never_expires) simp

end
