(* ===== verification/AuthGate.thy ===== *)
theory AuthGate
  imports Delegation
begin

text \<open>
  \<^verbatim>\<open>igris/core/authorization_gate.py\<close>: the deny-by-default authorization of an
  action on a resource. The gate relies on the key verifier through the locale
  \<open>key_verifier\<close> (an accepted request names a grant that covers the scopes, a rejected one
  leaves the store alone), which \<open>verify_key\<close> of the delegation keys satisfies. Messages
  for people are not part of the result; the destructive warning and the scopes are.
\<close>

section \<open>The verifier's contract\<close>

locale key_verifier =
  fixes verify :: "'st \<Rightarrow> string \<Rightarrow> string \<Rightarrow> string list \<Rightarrow> string option \<Rightarrow> 'st \<times> verdict"
    and grant :: "'st \<Rightarrow> string \<Rightarrow> string option \<Rightarrow> string list option"
  assumes accepted_covered:
      "verify st i raw ss b = (st', Ok) \<Longrightarrow> \<exists>g. grant st i b = Some g \<and> set ss \<subseteq> set g"
    and rejected_unchanged: "verify st i raw ss b = (st', v) \<Longrightarrow> v \<noteq> Ok \<Longrightarrow> st' = st"
begin

lemma accepted_single: "verify st i raw [s] b = (st', Ok) \<Longrightarrow> \<exists>g. grant st i b = Some g \<and> s \<in> set g"
  using accepted_covered by fastforce

lemma changed_only_if_accepted: "verify st i raw ss b = (st', v) \<Longrightarrow> st' \<noteq> st \<Longrightarrow> v = Ok"
  using rejected_unchanged by blast

end

text \<open>The scopes a key of the file gives its bearer at a time: none unless it is live.\<close>

definition live_scopes :: "pyfloat \<Rightarrow> keys_file \<Rightarrow> string \<Rightarrow> string option \<Rightarrow> string list option" where
  "live_scopes now st i bearer =
     (case dget (load_keys st) i of
        None \<Rightarrow> None
      | Some k \<Rightarrow>
          if is_valid now k \<and> (dk_granted_to k = None \<or> bearer = None \<or> dk_granted_to k = bearer)
          then Some (dk_authorized_scopes k) else None)"

lemma verify_key_covered:
  assumes "verify_key c now st i raw ss b = (st', Ok)"
  shows "\<exists>g. live_scopes now st i b = Some g \<and> set ss \<subseteq> set g"
proof -
  have "snd (verify_key c now st i raw ss b) = Ok" by (simp add: assms)
  then show ?thesis
    unfolding verify_key_Ok_iff by (auto simp: acceptable_def live_scopes_def is_valid_def)
qed

interpretation dkeys: key_verifier "verify_key c now" "live_scopes now" for c now
  by unfold_locales (auto dest: verify_key_covered verify_key_rejected)

section \<open>The gate\<close>

record interlocutor =
  ip_profile_id :: string
  ip_display_name :: string
  ip_trust_level :: string
  ip_authorized_scopes :: "string list"

datatype auth_reason =
    AdminBypass | ScopeMatch | ScopeDenied | DelegationKeyAccepted | DelegationKeyRejected verdict

record auth_result =
  ar_allowed :: bool
  ar_reason :: auth_reason
  ar_warn_destructive :: bool
  ar_requires_delegation_key :: bool
  ar_authorized_scopes :: "string list"

definition DESTRUCTIVE_ACTIONS :: "string list" where
  "DESTRUCTIVE_ACTIONS =
     [''delete_branch'', ''force_push'', ''drop_database'', ''wipe_storage'',
      ''terminate_process'', ''remove_file'', ''reset_hard'', ''revert_migration'']"

definition denied :: "auth_reason \<Rightarrow> auth_result" where
  "denied r = \<lparr>ar_allowed = False, ar_reason = r, ar_warn_destructive = False,
     ar_requires_delegation_key = False, ar_authorized_scopes = []\<rparr>"

definition check_delegation_key ::
    "crypto \<Rightarrow> pyfloat \<Rightarrow> keys_file \<Rightarrow> interlocutor \<Rightarrow> string \<Rightarrow> string \<Rightarrow> string \<Rightarrow> bool \<Rightarrow>
     keys_file \<times> auth_result"
where
  "check_delegation_key c now st profile target_resource key_id passphrase destructive =
     (case verify_key c now st key_id passphrase [target_resource] (Some (ip_profile_id profile)) of
        (st', v) \<Rightarrow>
          (st',
           if v = Ok then
             \<lparr>ar_allowed = True, ar_reason = DelegationKeyAccepted, ar_warn_destructive = destructive,
               ar_requires_delegation_key = False, ar_authorized_scopes = [target_resource]\<rparr>
           else denied (DelegationKeyRejected v)))"

definition scope_ok :: "interlocutor \<Rightarrow> string \<Rightarrow> string \<Rightarrow> bool" where
  "scope_ok profile action_type target_resource \<longleftrightarrow>
     target_resource \<in> set (ip_authorized_scopes profile) \<or>
     action_type \<in> set (ip_authorized_scopes profile) \<or> ''*'' \<in> set (ip_authorized_scopes profile)"

definition check_auth ::
    "crypto \<Rightarrow> pyfloat \<Rightarrow> keys_file \<Rightarrow> interlocutor \<Rightarrow> string \<Rightarrow> string \<Rightarrow> string option \<Rightarrow>
     string option \<Rightarrow> keys_file \<times> auth_result"
where
  "check_auth c now st profile action_type target_resource key_id passphrase =
     (let destructive = action_type \<in> set DESTRUCTIVE_ACTIONS
      in if ip_trust_level profile = ''admin'' then
           (st, \<lparr>ar_allowed = True, ar_reason = AdminBypass, ar_warn_destructive = destructive,
              ar_requires_delegation_key = False, ar_authorized_scopes = ip_authorized_scopes profile\<rparr>)
         else if scope_ok profile action_type target_resource then
           (st, \<lparr>ar_allowed = True, ar_reason = ScopeMatch, ar_warn_destructive = destructive,
              ar_requires_delegation_key = False, ar_authorized_scopes = ip_authorized_scopes profile\<rparr>)
         else
           (case (key_id, passphrase) of
              (Some (k # ks), Some (p # ps)) \<Rightarrow>
                check_delegation_key c now st profile target_resource (k # ks) (p # ps) destructive
            | _ \<Rightarrow> (st, (denied ScopeDenied)\<lparr>ar_requires_delegation_key := True\<rparr>)))"

definition check_multiple_scopes ::
    "crypto \<Rightarrow> pyfloat \<Rightarrow> keys_file \<Rightarrow> interlocutor \<Rightarrow> string list \<Rightarrow> (string, bool) dict" where
  "check_multiple_scopes c now st profile scopes =
     foldl (\<lambda>acc scope. dset acc scope
         (ar_allowed (snd (check_auth c now st profile ''access'' scope None None)))) [] scopes"

section \<open>Deny by default\<close>

definition holds_grant :: "pyfloat \<Rightarrow> keys_file \<Rightarrow> interlocutor \<Rightarrow> string \<Rightarrow> string \<Rightarrow> bool" where
  "holds_grant now st profile key_id resource \<longleftrightarrow>
     (case live_scopes now st key_id (Some (ip_profile_id profile)) of
        None \<Rightarrow> False | Some g \<Rightarrow> resource \<in> set g)"

lemma check_delegation_key_sound:
  assumes "check_delegation_key c now st profile resource i raw d = (st', r)"
  shows "ar_allowed r \<Longrightarrow> holds_grant now st profile i resource"
    and "\<not> ar_allowed r \<Longrightarrow> st' = st"
proof -
  obtain v where v: "verify_key c now st i raw [resource] (Some (ip_profile_id profile)) = (st', v)"
    and r: "ar_allowed r \<longleftrightarrow> v = Ok"
    using assms by (auto simp: check_delegation_key_def denied_def split: prod.splits)
  show "ar_allowed r \<Longrightarrow> holds_grant now st profile i resource"
    using dkeys.accepted_single v r by (fastforce simp: holds_grant_def)
  show "\<not> ar_allowed r \<Longrightarrow> st' = st"
    using dkeys.rejected_unchanged v r by blast
qed

text \<open>C29. The gate denies by default: an action is allowed only for an admin, for a profile with the
  resource, the action or everything in its scopes, or with a live delegation key for that bearer
  whose scopes hold the resource; and a denial never changes the key file.\<close>

theorem gate_denies_by_default:
  assumes "check_auth c now st profile action resource key_id pass = (st', r)"
  shows "(ar_allowed r \<longrightarrow> ip_trust_level profile = ''admin'' \<or> scope_ok profile action resource \<or>
      (\<exists>i. key_id = Some i \<and> holds_grant now st profile i resource)) \<and>
    (\<not> ar_allowed r \<longrightarrow> st' = st)"
proof (cases "ip_trust_level profile = ''admin'' \<or> scope_ok profile action resource")
  case True
  with assms show ?thesis by (auto simp: check_auth_def Let_def split: if_splits)
next
  case False
  show ?thesis
  proof (cases "(\<exists>k ks p ps. key_id = Some (k # ks) \<and> pass = Some (p # ps))")
    case True
    then obtain k ks p ps where kp: "key_id = Some (k # ks)" "pass = Some (p # ps)" by blast
    with assms False have "check_delegation_key c now st profile resource (k # ks) (p # ps)
        (action \<in> set DESTRUCTIVE_ACTIONS) = (st', r)"
      by (simp add: check_auth_def Let_def)
    from check_delegation_key_sound [OF this] kp show ?thesis by blast
  next
    case none: False
    then have "check_auth c now st profile action resource key_id pass
        = (st, (denied ScopeDenied)\<lparr>ar_requires_delegation_key := True\<rparr>)"
      using False by (auto simp: check_auth_def Let_def split: option.splits list.splits)
    with assms show ?thesis by (auto simp: denied_def)
  qed
qed

definition guest :: interlocutor where
  "guest = \<lparr>ip_profile_id = ''bob'', ip_display_name = ''Bob'', ip_trust_level = ''limited'',
     ip_authorized_scopes = [''read'']\<rparr>"

theorem gate_denies_by_default_witness:
  "ar_allowed (snd (check_auth toy_crypto 1 (Keys [(''k1'', toy_key)]) guest ''force_push'' ''deploy''
     (Some ''k1'') (Some ''open''))) \<and>
   (\<exists>i. Some ''k1'' = Some i \<and> holds_grant 1 (Keys [(''k1'', toy_key)]) guest i ''deploy'')"
proof -
  obtain st' r where r: "check_auth toy_crypto 1 (Keys [(''k1'', toy_key)]) guest ''force_push'' ''deploy''
      (Some ''k1'') (Some ''open'') = (st', r)" by fastforce
  have a: "ar_allowed (snd (check_auth toy_crypto 1 (Keys [(''k1'', toy_key)]) guest ''force_push'' ''deploy''
      (Some ''k1'') (Some ''open'')))" by code_simp
  moreover have "\<not> (ip_trust_level guest = ''admin'' \<or> scope_ok guest ''force_push'' ''deploy'')"
    by (simp add: guest_def scope_ok_def)
  ultimately show ?thesis using gate_denies_by_default [OF r] r by auto
qed

lemma check_multiple_scopes_snoc:
  "check_multiple_scopes c now st profile (scopes @ [s]) =
     dset (check_multiple_scopes c now st profile scopes) s
       (ar_allowed (snd (check_auth c now st profile ''access'' s None None)))"
  by (simp add: check_multiple_scopes_def)

text \<open>The batch check answers each scope as the single check does.\<close>

lemma check_multiple_scopes_lookup:
  "dget (check_multiple_scopes c now st profile scopes) s =
     (if s \<in> set scopes
      then Some (ip_trust_level profile = ''admin'' \<or> scope_ok profile ''access'' s) else None)"
proof (induction scopes rule: rev_induct)
  case (snoc x xs)
  have "ar_allowed (snd (check_auth c now st profile ''access'' x None None)) \<longleftrightarrow>
      ip_trust_level profile = ''admin'' \<or> scope_ok profile ''access'' x"
    by (simp add: check_auth_def denied_def Let_def)
  with snoc show ?case by (auto simp: check_multiple_scopes_snoc)
qed (simp add: check_multiple_scopes_def)

end
