(* ===== verification/Override.thy ===== *)
theory Override
  imports Prelude
begin

text \<open>
  \<^verbatim>\<open>igris/core/gate_override.py\<close>: one-time codes that override a gate after a physical
  approval, with their audit trail. The records form a dictionary by code; \<open>now\<close> is what the
  clock returns in an operation, the code of a new record is an argument. A revocation time is
  \<^verbatim>\<open>0.0\<close>, false, while a record is not revoked.
\<close>

section \<open>Records and the audit trail\<close>

record otp_record =
  otp_code :: string
  otp_user :: string
  otp_scope :: string
  otp_mission_id :: string
  otp_reason :: string
  otp_created_at :: pyfloat
  otp_ttl :: pyfloat
  otp_used :: bool
  otp_physically_approved :: bool
  otp_approved_by :: string
  otp_revoked_at :: pyfloat
  otp_revoked_reason :: string

definition otp_expired :: "pyfloat \<Rightarrow> otp_record \<Rightarrow> bool" where
  "otp_expired now r \<longleftrightarrow> now - otp_created_at r > otp_ttl r"

definition otp_revoked :: "otp_record \<Rightarrow> bool" where
  "otp_revoked r \<longleftrightarrow> otp_revoked_at r \<noteq> 0"

datatype audit_action = Generate | Revoked string | ApprovalRequested | Approved string | Confirmed string

record audit_entry =
  ae_action :: audit_action
  ae_ts :: pyfloat
  ae_code :: string
  ae_scope :: string
  ae_mission_id :: string

record override =
  ov_records :: "(string, otp_record) dict"
  ov_audit :: "audit_entry list"

definition audit_event :: "pyfloat \<Rightarrow> audit_action \<Rightarrow> otp_record \<Rightarrow> override \<Rightarrow> override" where
  "audit_event now act r ov = ov\<lparr>ov_audit := ov_audit ov @ [\<lparr>ae_action = act, ae_ts = now,
     ae_code = otp_code r, ae_scope = otp_scope r, ae_mission_id = otp_mission_id r\<rparr>]\<rparr>"

definition put_record :: "string \<Rightarrow> otp_record \<Rightarrow> override \<Rightarrow> override" where
  "put_record code r ov = ov\<lparr>ov_records := dset (ov_records ov) code r\<rparr>"

definition reset_override :: "override \<Rightarrow> override" where
  "reset_override ov = ov\<lparr>ov_records := [], ov_audit := []\<rparr>"

section \<open>Operations\<close>

definition revoke_record :: "pyfloat \<Rightarrow> string \<Rightarrow> string \<Rightarrow> override \<Rightarrow> override \<times> bool" where
  "revoke_record now code why ov =
     (case dget (ov_records ov) code of
        None \<Rightarrow> (ov, False)
      | Some r \<Rightarrow>
          if otp_revoked r then (ov, False)
          else
            (let r' = r\<lparr>otp_revoked_at := now, otp_revoked_reason := why\<rparr>
             in (audit_event now (Revoked why) r' (put_record code r' ov), True)))"

fun revoke_expired_in :: "pyfloat \<Rightarrow> (string \<times> otp_record) list \<Rightarrow> override \<Rightarrow> override \<times> string list" where
  "revoke_expired_in now [] ov = (ov, [])"
| "revoke_expired_in now ((code, r) # rs) ov =
     (if otp_revoked r \<or> otp_used r \<or> \<not> otp_expired now r then revoke_expired_in now rs ov
      else
        (let (ov1, ok) = revoke_record now code ''expired'' ov;
             (ov2, codes) = revoke_expired_in now rs ov1
         in (ov2, if ok then code # codes else codes)))"

definition revoke_expired :: "pyfloat \<Rightarrow> override \<Rightarrow> override \<times> string list" where
  "revoke_expired now ov = revoke_expired_in now (ov_records ov) ov"

definition MAX_TTL_SECONDS :: pyfloat where "MAX_TTL_SECONDS = 15 * 60"

definition generate_otp ::
    "pyfloat \<Rightarrow> string \<Rightarrow> string \<Rightarrow> pyfloat \<Rightarrow> string \<Rightarrow> string \<Rightarrow> string \<Rightarrow> override \<Rightarrow> override" where
  "generate_otp now code user ttl scope mission why ov =
     (let r = \<lparr>otp_code = code, otp_user = user,
            otp_scope = (if scope = [] then ''global'' else scope), otp_mission_id = mission,
            otp_reason = why, otp_created_at = now, otp_ttl = max 0 (min ttl MAX_TTL_SECONDS),
            otp_used = False, otp_physically_approved = False, otp_approved_by = [],
            otp_revoked_at = 0, otp_revoked_reason = []\<rparr>
      in audit_event now Generate r (put_record code r ov))"

definition validate_otp :: "pyfloat \<Rightarrow> string \<Rightarrow> string option \<Rightarrow> override \<Rightarrow> override \<times> bool" where
  "validate_otp now code scope ov =
     (let ov1 = fst (revoke_expired now ov)
      in (ov1, case dget (ov_records ov1) code of
                 None \<Rightarrow> False
               | Some r \<Rightarrow>
                   if otp_revoked r \<or> otp_used r \<or> otp_expired now r then False
                   else if scope \<noteq> None \<and> scope \<noteq> Some (otp_scope r) then False
                   else True))"

definition request_physical_approval ::
    "pyfloat \<Rightarrow> string \<Rightarrow> override \<Rightarrow> override \<times> otp_record option" where
  "request_physical_approval now code ov =
     (let ov1 = fst (revoke_expired now ov)
      in case dget (ov_records ov1) code of
           None \<Rightarrow> (ov1, None)
         | Some r \<Rightarrow> (audit_event now ApprovalRequested r ov1, Some r))"

definition approve_physically :: "pyfloat \<Rightarrow> string \<Rightarrow> string \<Rightarrow> override \<Rightarrow> override" where
  "approve_physically now code approver ov =
     (let ov1 = fst (revoke_expired now ov)
      in case dget (ov_records ov1) code of
           None \<Rightarrow> ov1
         | Some r \<Rightarrow>
             let r' = r\<lparr>otp_physically_approved := True, otp_approved_by := approver\<rparr>
             in audit_event now (Approved approver) r' (put_record code r' ov1))"

definition confirm_override ::
    "pyfloat \<Rightarrow> string \<Rightarrow> string \<Rightarrow> string \<Rightarrow> string \<Rightarrow> override \<Rightarrow> override \<times> bool" where
  "confirm_override now code approver scope mission ov =
     (let ov1 = fst (revoke_expired now ov)
      in case dget (ov_records ov1) code of
           None \<Rightarrow> (ov1, False)
         | Some r \<Rightarrow>
             if scope \<noteq> [] \<and> otp_scope r \<noteq> scope then (ov1, False)
             else if mission \<noteq> [] \<and> otp_mission_id r \<noteq> [] \<and> otp_mission_id r \<noteq> mission then (ov1, False)
             else if \<not> otp_physically_approved r then (ov1, False)
             else if otp_used r \<or> otp_revoked r \<or> otp_expired now r then (ov1, False)
             else
               (let r' = r\<lparr>otp_used := True, otp_approved_by := approver\<rparr>;
                    ov2 = fst (revoke_record now code ''consumed'' (put_record code r' ov1))
                in (audit_event now (Confirmed approver) r' ov2, True)))"

definition revoke_override :: "pyfloat \<Rightarrow> string \<Rightarrow> string \<Rightarrow> override \<Rightarrow> override \<times> bool" where
  "revoke_override now code why ov = revoke_record now code why (fst (revoke_expired now ov))"

definition is_physically_approved :: "pyfloat \<Rightarrow> string \<Rightarrow> override \<Rightarrow> override \<times> bool" where
  "is_physically_approved now code ov =
     (let ov1 = fst (revoke_expired now ov)
      in (ov1, case dget (ov_records ov1) code of
                 None \<Rightarrow> False
               | Some r \<Rightarrow> otp_physically_approved r \<and> \<not> otp_revoked r \<and> \<not> otp_used r))"

definition active_overrides :: "pyfloat \<Rightarrow> override \<Rightarrow> override \<times> otp_record list" where
  "active_overrides now ov =
     (let ov1 = fst (revoke_expired now ov)
      in (ov1, filter (\<lambda>r. \<not> (otp_revoked r \<or> otp_used r \<or> otp_expired now r)) (map snd (ov_records ov1))))"

section \<open>One record at a time\<close>

text \<open>What the operations do to the record of a code, seen from outside.\<close>

definition rec_of :: "override \<Rightarrow> string \<Rightarrow> otp_record option" where
  "rec_of ov code = dget (ov_records ov) code"

lemma rec_of_audit [simp]: "rec_of (audit_event now a r ov) c = rec_of ov c"
  by (simp add: rec_of_def audit_event_def)

lemma rec_of_put [simp]: "rec_of (put_record code r ov) c = (if c = code then Some r else rec_of ov c)"
  by (simp add: rec_of_def put_record_def)

lemma rec_of_revoke:
  "rec_of (fst (revoke_record now code why ov)) c =
     (if c = code then map_option (\<lambda>r. if otp_revoked r then r
        else r\<lparr>otp_revoked_at := now, otp_revoked_reason := why\<rparr>) (rec_of ov c)
      else rec_of ov c)"
  by (auto simp: revoke_record_def rec_of_def Let_def audit_event_def put_record_def split: option.splits)

text \<open>A record after an operation that is not the generation of its code, seen from before.\<close>

definition aged :: "otp_record \<Rightarrow> otp_record \<Rightarrow> bool" where
  "aged r r' \<longleftrightarrow> otp_used r' = otp_used r \<and> otp_physically_approved r' = otp_physically_approved r \<and>
     otp_scope r' = otp_scope r \<and> otp_ttl r' = otp_ttl r \<and> otp_created_at r' = otp_created_at r \<and>
     otp_mission_id r' = otp_mission_id r \<and> (otp_revoked r \<longrightarrow> otp_revoked r')"

lemma aged_refl [simp]: "aged r r"
  by (simp add: aged_def)

lemma aged_trans: "aged a b \<Longrightarrow> aged b c \<Longrightarrow> aged a c"
  by (simp add: aged_def)

lemma aged_fields:
  assumes "aged r r'"
  shows "otp_used r' = otp_used r" "otp_physically_approved r' = otp_physically_approved r"
    "otp_scope r' = otp_scope r" "otp_ttl r' = otp_ttl r" "otp_created_at r' = otp_created_at r"
    "otp_mission_id r' = otp_mission_id r" "otp_revoked r \<Longrightarrow> otp_revoked r'"
  using assms by (simp_all add: aged_def)

lemma revoke_record_aged:
  "rel_option aged (rec_of ov c) (rec_of (fst (revoke_record now code why ov)) c)"
  unfolding rec_of_revoke
  by (cases "rec_of ov c") (auto simp: aged_def otp_revoked_def)

lemma rel_aged_refl [simp]: "rel_option aged x x"
  by (cases x) simp_all

lemma rel_aged_trans: "rel_option aged a b \<Longrightarrow> rel_option aged b c \<Longrightarrow> rel_option aged a c"
  by (cases a; cases b; cases c) (auto intro: aged_trans)

lemma revoke_expired_in_aged: "rel_option aged (rec_of ov c) (rec_of (fst (revoke_expired_in now rs ov)) c)"
proof (induction now rs ov rule: revoke_expired_in.induct)
  case (2 now code r rs ov)
  show ?case
  proof (cases "otp_revoked r \<or> otp_used r \<or> \<not> otp_expired now r")
    case True
    with 2(1) show ?thesis by simp
  next
    case False
    obtain ov1 ok where ov1: "revoke_record now code ''expired'' ov = (ov1, ok)" by fastforce
    have "rel_option aged (rec_of ov c) (rec_of ov1 c)"
      using revoke_record_aged [of ov c now code "''expired''"] ov1 by simp
    moreover have "rel_option aged (rec_of ov1 c) (rec_of (fst (revoke_expired_in now rs ov1)) c)"
      using 2(2) [OF False ov1 [symmetric] refl] by simp
    ultimately show ?thesis
      using False ov1 rel_aged_trans by (auto simp: Let_def split: prod.splits)
  qed
qed simp

lemma revoke_expired_aged: "rel_option aged (rec_of ov c) (rec_of (fst (revoke_expired now ov)) c)"
  unfolding revoke_expired_def by (rule revoke_expired_in_aged)

section \<open>Runs\<close>

datatype override_event =
    EvGenerate pyfloat string string pyfloat string string string
  | EvValidate pyfloat string "string option"
  | EvRequest pyfloat string
  | EvApprove pyfloat string string
  | EvConfirm pyfloat string string string string
  | EvRevoke pyfloat string string
  | EvIsApproved pyfloat string
  | EvActive pyfloat
  | EvSweep pyfloat

fun override_step :: "override \<Rightarrow> override_event \<Rightarrow> override" where
  "override_step ov (EvGenerate t code user ttl scope mission why) = generate_otp t code user ttl scope mission why ov"
| "override_step ov (EvValidate t code scope) = fst (validate_otp t code scope ov)"
| "override_step ov (EvRequest t code) = fst (request_physical_approval t code ov)"
| "override_step ov (EvApprove t code approver) = approve_physically t code approver ov"
| "override_step ov (EvConfirm t code approver scope mission) = fst (confirm_override t code approver scope mission ov)"
| "override_step ov (EvRevoke t code why) = fst (revoke_override t code why ov)"
| "override_step ov (EvIsApproved t code) = fst (is_physically_approved t code ov)"
| "override_step ov (EvActive t) = fst (active_overrides t ov)"
| "override_step ov (EvSweep t) = fst (revoke_expired t ov)"

definition confirms :: "override \<Rightarrow> override_event \<Rightarrow> string \<Rightarrow> bool" where
  "confirms ov e code \<longleftrightarrow>
     (case e of EvConfirm t c approver scope mission \<Rightarrow>
        c = code \<and> snd (confirm_override t c approver scope mission ov) | _ \<Rightarrow> False)"

fun confirmations :: "override \<Rightarrow> override_event list \<Rightarrow> string \<Rightarrow> nat" where
  "confirmations ov [] code = 0"
| "confirmations ov (e # es) code =
     (if confirms ov e code then 1 else 0) + confirmations (override_step ov e) es code"

definition generates :: "string \<Rightarrow> override_event \<Rightarrow> bool" where
  "generates code e = (case e of EvGenerate _ c _ _ _ _ _ \<Rightarrow> c = code | _ \<Rightarrow> False)"

definition approves :: "string \<Rightarrow> override_event \<Rightarrow> bool" where
  "approves code e = (case e of EvApprove _ c _ \<Rightarrow> c = code | _ \<Rightarrow> False)"

text \<open>The record of a code between two generations of it: its use and its approval only move
  forward, and only by a confirmation and an approval of that code.\<close>

lemma confirm_override_cases:
  assumes "confirm_override t c a s m ov = (ov', ok)"
  shows "ok \<Longrightarrow> \<exists>r. rec_of ov c = Some r \<and> otp_physically_approved r \<and> \<not> otp_used r \<and> \<not> otp_expired t r \<and>
           \<not> otp_revoked r \<and> (s = [] \<or> otp_scope r = s) \<and> (\<exists>r'. rec_of ov' c = Some r' \<and> otp_used r')"
    and "\<not> ok \<Longrightarrow> ov' = fst (revoke_expired t ov)"
    and "d \<noteq> c \<Longrightarrow> rel_option aged (rec_of ov d) (rec_of ov' d)"
proof -
  let ?ov1 = "fst (revoke_expired t ov)"
  note aged = revoke_expired_aged [of ov _ t]
  show "ov' = ?ov1" if "\<not> ok"
    using assms that unfolding confirm_override_def Let_def by (auto split: option.splits if_splits)
  show "\<exists>r. rec_of ov c = Some r \<and> otp_physically_approved r \<and> \<not> otp_used r \<and> \<not> otp_expired t r \<and>
      \<not> otp_revoked r \<and> (s = [] \<or> otp_scope r = s) \<and> (\<exists>r'. rec_of ov' c = Some r' \<and> otp_used r')" if ok: "ok"
  proof -
    obtain r1 where r1: "rec_of ?ov1 c = Some r1" "otp_physically_approved r1"
      "\<not> otp_used r1" "\<not> otp_revoked r1" "\<not> otp_expired t r1" "s = [] \<or> otp_scope r1 = s"
      and ov': "ov' = audit_event t (Confirmed a) (r1\<lparr>otp_used := True, otp_approved_by := a\<rparr>)
        (fst (revoke_record t c ''consumed'' (put_record c (r1\<lparr>otp_used := True, otp_approved_by := a\<rparr>) ?ov1)))"
      using assms ok unfolding confirm_override_def Let_def rec_of_def
      by (auto split: option.splits if_splits)
    obtain r where r: "rec_of ov c = Some r" "aged r r1"
      using aged [of c] r1(1) by (cases "rec_of ov c") auto
    have "\<exists>r'. rec_of ov' c = Some r' \<and> otp_used r'"
      unfolding ov' by (simp add: rec_of_revoke)
    with r r1 aged_fields [OF r(2)] show ?thesis by (auto simp: otp_expired_def)
  qed
  show "rel_option aged (rec_of ov d) (rec_of ov' d)" if "d \<noteq> c"
  proof -
    have "rec_of ov' d = rec_of ?ov1 d"
      using assms that unfolding confirm_override_def Let_def
      by (auto simp: rec_of_revoke split: option.splits if_splits)
    with aged [of d] show ?thesis by simp
  qed
qed

definition kept :: "bool \<Rightarrow> otp_record \<Rightarrow> otp_record \<Rightarrow> bool" where
  "kept appr r r' \<longleftrightarrow> (otp_used r \<longrightarrow> otp_used r') \<and>
     (otp_physically_approved r' \<longrightarrow> otp_physically_approved r \<or> appr)"

lemma kept_aged: "aged r r' \<Longrightarrow> kept appr r r'"
  by (simp add: kept_def aged_fields)

lemma rel_kept_aged: "rel_option aged x y \<Longrightarrow> rel_option (kept appr) x y"
  by (cases x; cases y) (simp_all add: kept_aged)

lemma confirm_keeps:
  assumes "confirm_override t c a s m ov = (ov', ok)"
  shows "rel_option (kept False) (rec_of ov d) (rec_of ov' d)"
proof (cases "ok \<and> d = c")
  case True
  then obtain r r' where "rec_of ov d = Some r" "otp_physically_approved r" "rec_of ov' d = Some r'" "otp_used r'"
    using confirm_override_cases(1) [OF assms] by blast
  then show ?thesis by (simp add: kept_def)
next
  case False
  then have "rel_option aged (rec_of ov d) (rec_of ov' d)"
    using confirm_override_cases(2,3) [OF assms] revoke_expired_aged by metis
  then show ?thesis by (rule rel_kept_aged)
qed

lemma override_step_keeps:
  assumes "\<not> generates c e"
  shows "rel_option (kept (approves c e)) (rec_of ov c) (rec_of (override_step ov e) c)"
proof (cases e)
  case (EvGenerate t code user ttl scope mission why)
  with assms show ?thesis
    by (simp add: generates_def generate_otp_def Let_def rel_kept_aged)
next
  case (EvValidate t code scope)
  then show ?thesis by (simp add: validate_otp_def Let_def rel_kept_aged revoke_expired_aged)
next
  case (EvRequest t code)
  have "rec_of (override_step ov e) c = rec_of (fst (revoke_expired t ov)) c"
    by (simp add: EvRequest request_physical_approval_def Let_def split: option.splits)
  then show ?thesis by (simp add: rel_kept_aged revoke_expired_aged)
next
  case (EvApprove t code approver)
  have ag: "rel_option aged (rec_of ov c) (rec_of (fst (revoke_expired t ov)) c)" by (rule revoke_expired_aged)
  show ?thesis
  proof (cases "code = c \<and> rec_of (fst (revoke_expired t ov)) c \<noteq> None")
    case True
    then obtain r1 where r1: "rec_of (fst (revoke_expired t ov)) c = Some r1" by blast
    with ag obtain r where r: "rec_of ov c = Some r" "aged r r1" by (cases "rec_of ov c") auto
    have "rec_of (override_step ov e) c = Some (r1\<lparr>otp_physically_approved := True, otp_approved_by := approver\<rparr>)"
      using True r1 by (simp add: EvApprove approve_physically_def Let_def rec_of_def [symmetric])
    with r True aged_fields(1) [OF r(2)] show ?thesis by (simp add: kept_def approves_def EvApprove)
  next
    case False
    then have "rec_of (override_step ov e) c = rec_of (fst (revoke_expired t ov)) c"
      by (auto simp: EvApprove approve_physically_def Let_def rec_of_def [symmetric] split: option.splits)
    with ag show ?thesis by (simp add: rel_kept_aged)
  qed
next
  case (EvConfirm t code a s m)
  obtain ov' ok where "confirm_override t code a s m ov = (ov', ok)" by fastforce
  with confirm_keeps [OF this, of c] show ?thesis by (simp add: EvConfirm approves_def)
next
  case (EvRevoke t code why)
  have "rel_option aged (rec_of ov c) (rec_of (fst (revoke_override t code why ov)) c)"
    unfolding revoke_override_def using rel_aged_trans revoke_expired_aged revoke_record_aged by blast
  then show ?thesis by (simp add: EvRevoke rel_kept_aged)
qed (simp_all add: is_physically_approved_def active_overrides_def Let_def rel_kept_aged revoke_expired_aged)

definition used_up :: "string \<Rightarrow> override \<Rightarrow> bool" where
  "used_up c ov \<longleftrightarrow> (case rec_of ov c of None \<Rightarrow> True | Some r \<Rightarrow> otp_used r)"

definition unapproved :: "string \<Rightarrow> override \<Rightarrow> bool" where
  "unapproved c ov \<longleftrightarrow> (case rec_of ov c of None \<Rightarrow> True | Some r \<Rightarrow> \<not> otp_physically_approved r)"

lemma used_up_step: "used_up c ov \<Longrightarrow> \<not> generates c e \<Longrightarrow> used_up c (override_step ov e)"
  using override_step_keeps [of c e ov]
  by (cases "rec_of ov c"; cases "rec_of (override_step ov e) c") (auto simp: used_up_def kept_def)

lemma unapproved_step:
  "unapproved c ov \<Longrightarrow> \<not> generates c e \<Longrightarrow> \<not> approves c e \<Longrightarrow> unapproved c (override_step ov e)"
  using override_step_keeps [of c e ov]
  by (cases "rec_of ov c"; cases "rec_of (override_step ov e) c") (auto simp: unapproved_def kept_def)

lemma confirms_needs:
  assumes "confirms ov e c"
  shows "\<not> used_up c ov" "\<not> unapproved c ov" "used_up c (override_step ov e)"
proof -
  obtain t a s m where e: "e = EvConfirm t c a s m" and ok: "snd (confirm_override t c a s m ov)"
    using assms by (auto simp: confirms_def split: override_event.splits)
  obtain ov' where "confirm_override t c a s m ov = (ov', True)" using ok by (metis prod.collapse)
  with confirm_override_cases(1) [OF this] show "\<not> used_up c ov" "\<not> unapproved c ov"
    "used_up c (override_step ov e)"
    by (auto simp: used_up_def unapproved_def e)
qed

lemma confirmations_used_up:
  "used_up c ov \<Longrightarrow> list_all (\<lambda>e. \<not> generates c e) es \<Longrightarrow> confirmations ov es c = 0"
  by (induction es arbitrary: ov) (auto simp: used_up_step dest: confirms_needs(1))

lemma confirmations_at_most_one:
  "list_all (\<lambda>e. \<not> generates c e) es \<Longrightarrow> confirmations ov es c \<le> 1"
proof (induction es arbitrary: ov)
  case (Cons e es)
  show ?case
  proof (cases "confirms ov e c")
    case True
    then have "confirmations (override_step ov e) es c = 0"
      using Cons.prems by (simp add: confirmations_used_up confirms_needs(3))
    then show ?thesis by simp
  qed (use Cons in simp)
qed simp

lemma confirmations_unapproved:
  "unapproved c ov \<Longrightarrow> list_all (\<lambda>e. \<not> generates c e \<and> \<not> approves c e) es \<Longrightarrow> confirmations ov es c = 0"
  by (induction es arbitrary: ov) (auto simp: unapproved_step dest: confirms_needs(2))

text \<open>C19. A generated override code is confirmed at most once, and not at all unless it is physically
  approved, whatever validations, approvals, confirmations, revocations and operations on other
  codes follow its generation and at whatever times.\<close>

theorem otp_confirmed_once_after_approval:
  assumes "list_all (\<lambda>e. \<not> generates code e) es"
  shows "confirmations (generate_otp t code user ttl scope mission why ov) es code \<le> 1 \<and>
    (list_all (\<lambda>e. \<not> approves code e) es \<longrightarrow>
       confirmations (generate_otp t code user ttl scope mission why ov) es code = 0)"
proof -
  have "unapproved code (generate_otp t code user ttl scope mission why ov)"
    by (simp add: unapproved_def generate_otp_def Let_def)
  from confirmations_unapproved [OF this, of es] confirmations_at_most_one [OF assms] assms
  show ?thesis by (simp add: list_all_iff)
qed

definition no_overrides :: override where
  "no_overrides = \<lparr>ov_records = [], ov_audit = []\<rparr>"

theorem otp_confirmed_once_after_approval_witness:
  "confirmations (generate_otp 10 ''123456'' ''ann'' 300 ''deploy'' [] [] no_overrides)
     [EvApprove 20 ''123456'' ''op'', EvConfirm 30 ''123456'' ''op'' ''deploy'' [],
      EvConfirm 40 ''123456'' ''op'' ''deploy'' []] ''123456'' = 1"
proof -
  let ?es = "[EvApprove 20 ''123456'' ''op'', EvConfirm 30 ''123456'' ''op'' ''deploy'' [],
      EvConfirm 40 ''123456'' ''op'' ''deploy'' []]"
  have "confirmations (generate_otp 10 ''123456'' ''ann'' 300 ''deploy'' [] [] no_overrides) ?es ''123456'' \<le> 1"
    using otp_confirmed_once_after_approval [of "''123456''" ?es 10 "''ann''" 300 "''deploy''" "[]" "[]" no_overrides]
    by (simp add: generates_def)
  moreover have "0 < confirmations (generate_otp 10 ''123456'' ''ann'' 300 ''deploy'' [] [] no_overrides) ?es ''123456''"
    by code_simp
  ultimately show ?thesis by linarith
qed

section \<open>Lifetime\<close>

definition override_inv :: "override \<Rightarrow> bool" where
  "override_inv ov \<longleftrightarrow> (\<forall>c r. rec_of ov c = Some r \<longrightarrow> 0 \<le> otp_ttl r \<and> otp_ttl r \<le> MAX_TTL_SECONDS)"

definition same_ttl :: "otp_record option \<Rightarrow> otp_record option \<Rightarrow> bool" where
  "same_ttl = rel_option (\<lambda>r r'. otp_ttl r = otp_ttl r')"

lemma same_ttl_aged: "rel_option aged x y \<Longrightarrow> same_ttl x y"
  unfolding same_ttl_def by (cases x; cases y) (simp_all add: aged_fields)

lemma same_ttl_refl [simp]: "same_ttl x x"
  by (cases x) (simp_all add: same_ttl_def)

lemma same_ttl_sym: "same_ttl x y \<Longrightarrow> y = Some r \<Longrightarrow> \<exists>r0. x = Some r0 \<and> otp_ttl r0 = otp_ttl r"
  by (cases x) (auto simp: same_ttl_def)

lemma override_step_ttl:
  assumes "\<not> generates c e"
  shows "same_ttl (rec_of ov c) (rec_of (override_step ov e) c)"
proof (cases e)
  case (EvApprove t code approver)
  have "same_ttl (rec_of (fst (revoke_expired t ov)) c) (rec_of (override_step ov e) c)"
    by (auto simp: EvApprove approve_physically_def Let_def rec_of_def [symmetric] same_ttl_def
        option.rel_refl split: option.splits)
  moreover have "same_ttl (rec_of ov c) (rec_of (fst (revoke_expired t ov)) c)"
    by (rule same_ttl_aged [OF revoke_expired_aged])
  ultimately show ?thesis
    by (cases "rec_of ov c"; cases "rec_of (fst (revoke_expired t ov)) c"; cases "rec_of (override_step ov e) c")
       (auto simp: same_ttl_def)
next
  case (EvConfirm t code a s m)
  let ?ov1 = "fst (revoke_expired t ov)"
  have "same_ttl (rec_of ?ov1 c) (rec_of (override_step ov e) c)"
    by (auto simp: EvConfirm confirm_override_def Let_def rec_of_def [symmetric] rec_of_revoke same_ttl_def
        option.rel_refl split: option.splits)
  moreover have "same_ttl (rec_of ov c) (rec_of ?ov1 c)"
    by (rule same_ttl_aged [OF revoke_expired_aged])
  ultimately show ?thesis
    by (cases "rec_of ov c"; cases "rec_of ?ov1 c"; cases "rec_of (override_step ov e) c")
       (auto simp: same_ttl_def)
next
  case (EvRevoke t code why)
  have "rel_option aged (rec_of ov c) (rec_of (fst (revoke_override t code why ov)) c)"
    unfolding revoke_override_def using rel_aged_trans revoke_expired_aged revoke_record_aged by blast
  then show ?thesis by (simp add: EvRevoke same_ttl_aged)
next
  case (EvRequest t code)
  have "rec_of (override_step ov e) c = rec_of (fst (revoke_expired t ov)) c"
    by (simp add: EvRequest request_physical_approval_def Let_def split: option.splits)
  then show ?thesis by (simp add: same_ttl_aged revoke_expired_aged)
qed (use assms in \<open>simp_all add: generates_def generate_otp_def validate_otp_def is_physically_approved_def
      active_overrides_def Let_def same_ttl_aged revoke_expired_aged\<close>)

lemma override_step_inv: "override_inv ov \<Longrightarrow> override_inv (override_step ov e)"
proof -
  assume inv: "override_inv ov"
  have "0 \<le> otp_ttl r \<and> otp_ttl r \<le> MAX_TTL_SECONDS" if r: "rec_of (override_step ov e) c = Some r" for c r
  proof (cases "generates c e")
    case True
    then obtain t u l s m w where "e = EvGenerate t c u l s m w"
      by (auto simp: generates_def split: override_event.splits)
    with r show ?thesis by (auto simp: generate_otp_def Let_def MAX_TTL_SECONDS_def)
  next
    case False
    with same_ttl_sym [OF override_step_ttl r] inv show ?thesis by (metis override_inv_def)
  qed
  then show ?thesis by (simp add: override_inv_def)
qed

interpretation override: machine override_step "\<lambda>ov. ov_records ov = []" override_inv
  by unfold_locales (simp_all add: override_step_inv, simp add: override_inv_def rec_of_def)

text \<open>Whatever time to live is asked for, no override record ever has a negative one or one above
  fifteen minutes, and a record that is older cannot be confirmed.\<close>

theorem otp_lifetime_bounded:
  assumes "rec_of (run_events override_step no_overrides es) code = Some r"
    and "now - otp_created_at r > MAX_TTL_SECONDS"
  shows "0 \<le> otp_ttl r \<and> otp_ttl r \<le> MAX_TTL_SECONDS \<and>
    \<not> snd (confirm_override now code approver scope mission (run_events override_step no_overrides es))"
proof -
  let ?ov = "run_events override_step no_overrides es"
  have "override_inv ?ov" by (rule override.run_from_start) (simp add: no_overrides_def)
  with assms(1) have b: "0 \<le> otp_ttl r" "otp_ttl r \<le> MAX_TTL_SECONDS" by (auto simp: override_inv_def)
  have "\<not> snd (confirm_override now code approver scope mission ?ov)"
  proof
    assume "snd (confirm_override now code approver scope mission ?ov)"
    then obtain ov' where "confirm_override now code approver scope mission ?ov = (ov', True)"
      by (metis prod.collapse)
    from confirm_override_cases(1) [OF this] assms b show False by (auto simp: otp_expired_def)
  qed
  with b show ?thesis by blast
qed

theorem otp_lifetime_bounded_witness:
  "\<not> snd (confirm_override 5000 ''123456'' ''op'' [] [] (run_events override_step no_overrides
      [EvGenerate 10 ''123456'' ''ann'' 86400 [] [] [], EvApprove 20 ''123456'' ''op'']))"
proof -
  let ?es = "[EvGenerate 10 ''123456'' ''ann'' 86400 [] [] [], EvApprove 20 ''123456'' ''op'']"
  have "\<exists>r. rec_of (run_events override_step no_overrides ?es) ''123456'' = Some r \<and> otp_created_at r = 10"
    by (simp add: generate_otp_def approve_physically_def no_overrides_def Let_def put_record_def
        audit_event_def rec_of_def revoke_expired_def otp_expired_def otp_revoked_def MAX_TTL_SECONDS_def)
  then obtain r where "rec_of (run_events override_step no_overrides ?es) ''123456'' = Some r" "otp_created_at r = 10"
    by blast
  then show ?thesis
    using otp_lifetime_bounded [of ?es "''123456''" r 5000 "''op''" "[]" "[]"]
    by (simp add: MAX_TTL_SECONDS_def)
qed

end
