(* ===== verification/A2A.thy ===== *)
theory A2A
  imports Redaction "HOL-Library.Sublist"
begin

text \<open>
  \<^verbatim>\<open>igris/a2a/task_store.py\<close>: agent-to-agent tasks, one JSON file per id, with their
  status, artifacts and events. The directory is a dictionary from id to task, an instance of
  \<open>keyed_store\<close>. \<open>now\<close> is the clock in an operation, new ids are arguments.
\<close>

section \<open>Tasks\<close>

record artifact =
  art_id :: string
  art_name :: string
  art_content :: string
  art_mime_type :: string
  art_created_at :: pyfloat

datatype a2a_event_kind = StatusChange string | ArtifactAdded string

record a2a_event =
  ae_kind :: a2a_event_kind
  ae_timestamp :: pyfloat
  ae_detail :: string

record a2a_task =
  at_id :: string
  at_title :: string
  at_description :: string
  at_status :: string
  at_created_at :: pyfloat
  at_updated_at :: pyfloat
  at_artifacts :: "artifact list"
  at_events :: "a2a_event list"

type_synonym a2a_store = "(string, a2a_task) dict"

definition MAX_ARTIFACT_SIZE :: nat where "MAX_ARTIFACT_SIZE = 100000"

definition VALID_STATUSES :: "string list" where
  "VALID_STATUSES = [''submitted'', ''working'', ''input_required'', ''completed'', ''failed'', ''canceled'']"

definition TERMINAL_STATUSES :: "string list" where
  "TERMINAL_STATUSES = [''completed'', ''failed'', ''canceled'']"

definition redact_artifact :: "artifact \<Rightarrow> artifact" where
  "redact_artifact a = a\<lparr>art_name := redact_secrets (art_name a), art_content := redact_secrets (art_content a)\<rparr>"

definition redact_event :: "a2a_event \<Rightarrow> a2a_event" where
  "redact_event e = e\<lparr>ae_detail := redact_secrets (ae_detail e)\<rparr>"

definition redact_task :: "a2a_task \<Rightarrow> a2a_task" where
  "redact_task t = t\<lparr>at_title := redact_secrets (at_title t),
     at_description := redact_secrets (at_description t),
     at_artifacts := map redact_artifact (at_artifacts t),
     at_events := map redact_event (at_events t)\<rparr>"

section \<open>Operations\<close>

definition load_task :: "a2a_store \<Rightarrow> string \<Rightarrow> a2a_task option" where
  "load_task st task_id = dget st task_id"

definition save_task :: "a2a_store \<Rightarrow> a2a_task \<Rightarrow> a2a_store" where
  "save_task st t = dset st (at_id t) t"

definition create_a2a_task :: "pyfloat \<Rightarrow> string \<Rightarrow> string \<Rightarrow> string \<Rightarrow> a2a_store \<Rightarrow> a2a_store \<times> a2a_task" where
  "create_a2a_task now new_id title description st =
     (let t = \<lparr>at_id = new_id, at_title = redact_secrets title,
            at_description = redact_secrets description, at_status = ''submitted'',
            at_created_at = now, at_updated_at = now, at_artifacts = [],
            at_events = [\<lparr>ae_kind = StatusChange ''submitted'', ae_timestamp = now,
              ae_detail = ''Task created''\<rparr>]\<rparr>
      in (save_task st t, redact_task t))"

definition get_a2a_task :: "a2a_store \<Rightarrow> string \<Rightarrow> a2a_task option" where
  "get_a2a_task st task_id = map_option redact_task (load_task st task_id)"

definition list_a2a_tasks :: "a2a_store \<Rightarrow> a2a_task list" where
  "list_a2a_tasks st =
     map redact_task (List.map_filter (load_task st) (sort (remdups (dkeys st))))"

definition update_a2a_task_status ::
    "pyfloat \<Rightarrow> string \<Rightarrow> string \<Rightarrow> string \<Rightarrow> a2a_store \<Rightarrow> a2a_store \<times> a2a_task option" where
  "update_a2a_task_status now task_id status detail st =
     (case load_task st task_id of
        None \<Rightarrow> (st, None)
      | Some t \<Rightarrow>
          if status \<notin> set VALID_STATUSES then (st, None)
          else if at_status t \<in> set TERMINAL_STATUSES then (st, None)
          else
            (let t' = t\<lparr>at_status := status, at_updated_at := now,
                   at_events := at_events t @ [\<lparr>ae_kind = StatusChange status, ae_timestamp = now,
                     ae_detail = redact_secrets detail\<rparr>]\<rparr>
             in (save_task st t', Some (redact_task t'))))"

definition cancel_a2a_task ::
    "pyfloat \<Rightarrow> string \<Rightarrow> string \<Rightarrow> a2a_store \<Rightarrow> a2a_store \<times> a2a_task option" where
  "cancel_a2a_task now task_id reason st =
     update_a2a_task_status now task_id ''canceled'' (if reason = [] then ''Canceled by user'' else reason) st"

datatype artifact_result = NoTask | TooLarge nat | Added artifact

definition add_artifact ::
    "pyfloat \<Rightarrow> string \<Rightarrow> string \<Rightarrow> string \<Rightarrow> string \<Rightarrow> string \<Rightarrow> a2a_store \<Rightarrow> a2a_store \<times> artifact_result" where
  "add_artifact now art_new_id task_id name content mime st =
     (case load_task st task_id of
        None \<Rightarrow> (st, NoTask)
      | Some t \<Rightarrow>
          if length content > MAX_ARTIFACT_SIZE then (st, TooLarge (length content))
          else
            (let a = \<lparr>art_id = art_new_id, art_name = redact_secrets name,
                   art_content = redact_secrets content, art_mime_type = mime, art_created_at = now\<rparr>;
                 t' = t\<lparr>at_artifacts := at_artifacts t @ [a], at_updated_at := now,
                   at_events := at_events t @ [\<lparr>ae_kind = ArtifactAdded art_new_id, ae_timestamp = now,
                     ae_detail = ''Artifact added: '' @ redact_secrets name\<rparr>]\<rparr>
             in (save_task st t', Added a)))"

definition get_artifacts :: "a2a_store \<Rightarrow> string \<Rightarrow> artifact list option" where
  "get_artifacts st task_id =
     map_option (\<lambda>t. map (\<lambda>a. a\<lparr>art_content := redact_secrets (art_content a)\<rparr>) (at_artifacts t))
       (load_task st task_id)"

definition get_events :: "a2a_store \<Rightarrow> string \<Rightarrow> a2a_event list option" where
  "get_events st task_id = map_option (\<lambda>t. map redact_event (at_events t)) (load_task st task_id)"


section \<open>Every event on one task\<close>

definition store_ok :: "a2a_store \<Rightarrow> bool" where
  "store_ok st \<longleftrightarrow> (\<forall>i t. load_task st i = Some t \<longrightarrow> at_id t = i \<and> at_status t \<in> set VALID_STATUSES \<and>
     (\<exists>e \<in> set (at_events t). ae_kind e = StatusChange (at_status t)))"

interpretation a2a_files: keyed_store load_task "\<lambda>st i t. dset st i t"
  by unfold_locales (simp_all add: load_task_def)

lemma load_save_task: "load_task (save_task st t) i = (if i = at_id t then Some t else load_task st i)"
  using a2a_files.load_save by (simp add: save_task_def)

datatype a2a_request =
    ReqCreate pyfloat string string string
  | ReqUpdate pyfloat string string string
  | ReqCancel pyfloat string string
  | ReqArtifact pyfloat string string string string string

fun a2a_step :: "a2a_store \<Rightarrow> a2a_request \<Rightarrow> a2a_store" where
  "a2a_step st (ReqCreate now i title descr) = fst (create_a2a_task now i title descr st)"
| "a2a_step st (ReqUpdate now i status detail) = fst (update_a2a_task_status now i status detail st)"
| "a2a_step st (ReqCancel now i why) = fst (cancel_a2a_task now i why st)"
| "a2a_step st (ReqArtifact now a i name content mime) = fst (add_artifact now a i name content mime st)"

definition creates_task :: "string \<Rightarrow> a2a_request \<Rightarrow> bool" where
  "creates_task i e = (case e of ReqCreate _ j _ _ \<Rightarrow> j = i | _ \<Rightarrow> False)"

text \<open>A task later: its history extended, a terminal status kept.\<close>

definition grown :: "a2a_task \<Rightarrow> a2a_task \<Rightarrow> bool" where
  "grown t t' \<longleftrightarrow> at_id t' = at_id t \<and> at_title t' = at_title t \<and> at_description t' = at_description t \<and>
     at_created_at t' = at_created_at t \<and> prefix (at_events t) (at_events t') \<and>
     prefix (at_artifacts t) (at_artifacts t') \<and>
     (at_status t \<in> set TERMINAL_STATUSES \<longrightarrow> at_status t' = at_status t)"

lemma grown_refl [simp]: "grown t t"
  by (simp add: grown_def)

lemma grown_trans: "grown a b \<Longrightarrow> grown b c \<Longrightarrow> grown a c"
  unfolding grown_def by (auto intro: prefix_order.trans)

lemma update_grown:
  assumes "store_ok st" "load_task st i = Some t"
  shows "\<exists>t'. load_task (fst (update_a2a_task_status now j status detail st)) i = Some t' \<and> grown t t'"
proof (cases "load_task st j")
  case None
  with assms show ?thesis by (simp add: update_a2a_task_status_def)
next
  case (Some u)
  with assms(1) have "at_id u = j" by (simp add: store_ok_def)
  with assms(2) Some show ?thesis
    by (cases "i = j") (auto simp: update_a2a_task_status_def load_save_task grown_def Let_def)
qed

lemma a2a_step_grown:
  assumes "store_ok st" "load_task st i = Some t" "\<not> creates_task i e"
  shows "\<exists>t'. load_task (a2a_step st e) i = Some t' \<and> grown t t'"
proof (cases e)
  case (ReqCreate now j title descr)
  with assms show ?thesis by (simp add: create_a2a_task_def load_save_task creates_task_def Let_def)
next
  case (ReqArtifact now a j name content mime)
  show ?thesis
  proof (cases "load_task st j")
    case None
    with assms ReqArtifact show ?thesis by (simp add: add_artifact_def)
  next
    case (Some u)
    with assms(1) have "at_id u = j" by (simp add: store_ok_def)
    with assms(2) Some ReqArtifact show ?thesis
      by (cases "i = j") (auto simp: add_artifact_def load_save_task grown_def Let_def)
  qed
qed (use update_grown [OF assms(1,2)] in \<open>simp_all add: cancel_a2a_task_def\<close>)

lemma a2a_update_ok: "store_ok st \<Longrightarrow> store_ok (fst (update_a2a_task_status now i status detail st))"
  by (auto simp: store_ok_def update_a2a_task_status_def load_save_task Let_def split: option.splits)

lemma a2a_step_ok: "store_ok st \<Longrightarrow> store_ok (a2a_step st e)"
proof (cases e)
  case (ReqCreate now i title descr)
  moreover assume "store_ok st"
  ultimately show ?thesis
    by (auto simp: store_ok_def create_a2a_task_def load_save_task VALID_STATUSES_def Let_def)
next
  case (ReqArtifact now a j name content mime)
  moreover assume "store_ok st"
  ultimately show ?thesis
    by (auto simp: store_ok_def add_artifact_def load_save_task Let_def split: option.splits)
qed (simp_all add: a2a_update_ok cancel_a2a_task_def)

interpretation a2a: machine a2a_step "\<lambda>st. st = []" store_ok
  by unfold_locales (simp_all add: a2a_step_ok, simp add: store_ok_def load_task_def)

lemma a2a_run_grown:
  assumes "store_ok st" "load_task st i = Some t" "list_all (\<lambda>e. \<not> creates_task i e) es"
  shows "\<exists>t'. load_task (run_events a2a_step st es) i = Some t' \<and> grown t t'"
  using assms
proof (induction es arbitrary: st t)
  case (Cons e es)
  then obtain t1 where t1: "load_task (a2a_step st e) i = Some t1" "grown t t1"
    using a2a_step_grown [of st i t e] by auto
  have "store_ok (a2a_step st e)" using Cons.prems(1) by (rule a2a_step_ok)
  with Cons.IH [of "a2a_step st e" t1] t1(1) Cons.prems(3)
  obtain t' where "load_task (run_events a2a_step (a2a_step st e) es) i = Some t'" "grown t1 t'" by auto
  with t1 grown_trans show ?case by auto
qed simp

text \<open>Once an agent-to-agent task is completed, failed or canceled, no sequence of updates,
  cancellations, artifact additions and creations of other tasks changes its status; its title and
  description never change, and its events and artifacts are only appended to.\<close>

theorem a2a_terminal_status_absorbing:
  assumes "load_task (run_events a2a_step [] es) i = Some t"
    and "list_all (\<lambda>e. \<not> creates_task i e) es'"
  shows "\<exists>t'. load_task (run_events a2a_step [] (es @ es')) i = Some t' \<and>
    (at_status t \<in> set TERMINAL_STATUSES \<longrightarrow> at_status t' = at_status t) \<and>
    at_title t' = at_title t \<and> at_description t' = at_description t \<and>
    prefix (at_events t) (at_events t') \<and> prefix (at_artifacts t) (at_artifacts t')"
proof -
  have "store_ok (run_events a2a_step [] es)" by (rule a2a.run_from_start) simp
  from a2a_run_grown [OF this assms] show ?thesis
    unfolding run_events_append grown_def by blast
qed

theorem a2a_terminal_status_absorbing_witness:
  "\<exists>t'. load_task (run_events a2a_step [] [ReqCreate 1 ''t1'' ''x'' ''y'', ReqCancel 2 ''t1'' ''stop'',
      ReqUpdate 3 ''t1'' ''working'' ''again'']) ''t1'' = Some t' \<and> at_status t' = ''canceled''"
proof -
  let ?es = "[ReqCreate 1 ''t1'' ''x'' ''y'', ReqCancel 2 ''t1'' ''stop'']"
  have "\<exists>t. load_task (run_events a2a_step [] ?es) ''t1'' = Some t \<and> at_status t = ''canceled''"
    by (simp add: create_a2a_task_def cancel_a2a_task_def update_a2a_task_status_def load_task_def
        save_task_def VALID_STATUSES_def TERMINAL_STATUSES_def Let_def)
  then obtain t where "load_task (run_events a2a_step [] ?es) ''t1'' = Some t" "at_status t = ''canceled''" by blast
  then show ?thesis
    using a2a_terminal_status_absorbing [of ?es "''t1''" t "[ReqUpdate 3 ''t1'' ''working'' ''again'']"]
    by (auto simp: creates_task_def TERMINAL_STATUSES_def)
qed

text \<open>Whatever requests the store receives, every task in it is filed under its own id, has one of
  the six valid statuses, and its events record the change to the status it has.\<close>

theorem a2a_store_wellformed:
  assumes "load_task (run_events a2a_step [] es) i = Some t"
  shows "at_id t = i \<and> at_status t \<in> set VALID_STATUSES \<and>
    (\<exists>e \<in> set (at_events t). ae_kind e = StatusChange (at_status t))"
proof -
  have "store_ok (run_events a2a_step [] es)" by (rule a2a.run_from_start) simp
  with assms show ?thesis by (simp add: store_ok_def)
qed

theorem a2a_store_wellformed_witness:
  "\<exists>t. load_task (run_events a2a_step [] [ReqCreate 1 ''t1'' ''x'' ''y'', ReqUpdate 2 ''t1'' ''done'' ''z'']) ''t1''
     = Some t \<and> at_status t \<in> set VALID_STATUSES"
proof -
  let ?es = "[ReqCreate 1 ''t1'' ''x'' ''y'', ReqUpdate 2 ''t1'' ''done'' ''z'']"
  have "\<exists>t. load_task (run_events a2a_step [] ?es) ''t1'' = Some t"
    by (simp add: create_a2a_task_def update_a2a_task_status_def load_task_def save_task_def
        VALID_STATUSES_def Let_def)
  then obtain t where "load_task (run_events a2a_step [] ?es) ''t1'' = Some t" by blast
  with a2a_store_wellformed [OF this] show ?thesis by blast
qed

end
