(* ===== verification/Parallel.thy ===== *)
theory Parallel
  imports PyStr "HOL-Library.Multiset"
begin

text \<open>
  \<^verbatim>\<open>igris/core/parallel_task_runner.py\<close>: tasks with dependencies grouped into waves, run
  wave by wave with the failure of a task skipping its dependents, and the merge of their results.
  The agent loop that runs one task is the parameter \<open>run_loop\<close> (\<open>Inl\<close> the text of an
  exception). The coroutines of a wave all pass the dependency check, in order, before any loop
  returns, so a wave is one pass of checks and then the results in order. The lemmas show that no
  task is lost, that a wave only depends on earlier ones, and when exactly a task runs.
\<close>

section \<open>Tasks and results\<close>

record ptask =
  pt_task_id :: string
  pt_goal :: string
  pt_max_steps :: int
  pt_task_type :: string
  pt_preferred_profile :: "string option"
  pt_file_scopes :: "string list"
  pt_depends_on :: "string list"
  pt_can_run_parallel :: bool

record loop_result =
  lr_status :: string
  lr_files_modified :: "string list"

record presult =
  pr_task_id :: string
  pr_result :: "loop_result option"
  pr_error :: "string option"
  pr_merged_files :: "string list"
  pr_skipped :: bool
  pr_skip_reason :: string

definition pr_success :: "presult \<Rightarrow> bool" where
  "pr_success r = (case pr_result r of None \<Rightarrow> False | Some l \<Rightarrow> lr_status l = ''finished'')"

section \<open>Waves\<close>

fun waves_from :: "nat \<Rightarrow> string list \<Rightarrow> ptask list \<Rightarrow> ptask list list" where
  "waves_from 0 completed remaining = []"
| "waves_from (Suc n) completed remaining =
     (if remaining = [] then []
      else
        let wave = filter (\<lambda>t. list_all (\<lambda>d. d \<in> set completed) (pt_depends_on t)) remaining
        in if wave = [] then [remaining]
           else
             let completed' = completed @ map pt_task_id wave
             in wave # waves_from n completed' (filter (\<lambda>t. pt_task_id t \<notin> set completed') remaining))"

definition build_dependency_order :: "ptask list \<Rightarrow> ptask list list" where
  "build_dependency_order tasks = waves_from (length tasks + 1) [] tasks"

text \<open>The wave and the rest split the remaining tasks when ids are distinct.\<close>

abbreviation ready :: "string list \<Rightarrow> ptask \<Rightarrow> bool" where
  "ready completed t \<equiv> list_all (\<lambda>d. d \<in> set completed) (pt_depends_on t)"

lemma rest_is_complement:
  assumes "distinct (map pt_task_id rem)" "set (map pt_task_id rem) \<inter> set dn = {}"
  shows "filter (\<lambda>t. pt_task_id t \<notin> set (dn @ map pt_task_id (filter P rem))) rem = filter (\<lambda>t. \<not> P t) rem"
proof (rule filter_cong [OF refl])
  fix t assume t: "t \<in> set rem"
  then have "pt_task_id t \<notin> set dn" using assms(2) by auto
  moreover have "pt_task_id t \<in> pt_task_id ` set (filter P rem) \<longleftrightarrow> P t"
    using t assms(1) by (auto simp: distinct_map inj_on_def)
  ultimately show "pt_task_id t \<notin> set (dn @ map pt_task_id (filter P rem)) \<longleftrightarrow> \<not> P t" by simp
qed

lemma waves_from_mset:
  assumes "length rem < n" "distinct (map pt_task_id rem)" "set (map pt_task_id rem) \<inter> set dn = {}"
  shows "mset (concat (waves_from n dn rem)) = mset rem"
  using assms
proof (induction n arbitrary: dn rem)
  case (Suc n)
  let ?wave = "filter (ready dn) rem"
  let ?dn = "dn @ map pt_task_id ?wave"
  let ?rest = "filter (\<lambda>t. \<not> ready dn t) rem"
  note rest = rest_is_complement [OF Suc.prems(2,3)]
  show ?case
  proof (cases "rem = [] \<or> ?wave = []")
    case False
    then have "length ?rest < length rem"
      using sum_length_filter_compl [of "ready dn" rem] by (cases ?wave) auto
    then have "length ?rest < n" using Suc.prems(1) by linarith
    moreover have "distinct (map pt_task_id ?rest)"
      using Suc.prems(2) by (simp add: distinct_map_filter)
    moreover have "set (map pt_task_id ?rest) \<inter> set ?dn = {}"
      using Suc.prems(2,3) by (auto simp: distinct_map inj_on_def)
    ultimately have "mset (concat (waves_from n ?dn ?rest)) = mset ?rest" by (rule Suc.IH)
    with False rest show ?thesis by (simp add: Let_def)
  qed (auto simp: Let_def)
qed simp

lemma build_order_mset:
  "distinct (map pt_task_id tasks) \<Longrightarrow> mset (concat (build_dependency_order tasks)) = mset tasks"
  unfolding build_dependency_order_def by (rule waves_from_mset) simp_all

text \<open>Every wave but a stuck last one only depends on what was completed before it.\<close>

fun waves_respect :: "string list \<Rightarrow> ptask list list \<Rightarrow> bool" where
  "waves_respect dn [] = True"
| "waves_respect dn (w # ws) =
     (list_all (ready dn) w \<and> waves_respect (dn @ map pt_task_id w) ws)"

definition ranked :: "(string \<Rightarrow> nat) \<Rightarrow> ptask list \<Rightarrow> bool" where
  "ranked rank tasks \<longleftrightarrow> (\<forall>t \<in> set tasks. \<forall>d \<in> set (pt_depends_on t).
     d \<in> pt_task_id ` set tasks \<and> rank d < rank (pt_task_id t))"

lemma ready_exists:
  assumes "ranked rank tasks" "set rem \<subseteq> set tasks" "rem \<noteq> []"
    and "\<forall>t \<in> set tasks. pt_task_id t \<in> set dn \<or> t \<in> set rem"
  shows "filter (ready dn) rem \<noteq> []"
proof
  assume none: "filter (ready dn) rem = []"
  obtain t where t: "t \<in> set rem" "\<forall>u \<in> set rem. rank (pt_task_id t) \<le> rank (pt_task_id u)"
    using ex_has_least_nat [of "\<lambda>t. t \<in> set rem" _ "\<lambda>t. rank (pt_task_id t)"] assms(3)
    by (metis list.set_intros(1) neq_Nil_conv)
  from none t(1) obtain d where d: "d \<in> set (pt_depends_on t)" "d \<notin> set dn"
    by (auto simp: filter_empty_conv list_all_iff)
  with assms(1,2) t(1) obtain u where u: "u \<in> set tasks" "pt_task_id u = d" "rank d < rank (pt_task_id t)"
    by (fastforce simp: ranked_def)
  with assms(4) d have "u \<in> set rem" by auto
  with t(2) u show False by fastforce
qed

lemma waves_from_respect:
  assumes "ranked rank tasks" "set rem \<subseteq> set tasks" "distinct (map pt_task_id rem)"
    and "set (map pt_task_id rem) \<inter> set dn = {}"
    and "\<forall>t \<in> set tasks. pt_task_id t \<in> set dn \<or> t \<in> set rem"
  shows "waves_respect dn (waves_from n dn rem)"
  using assms(2-5)
proof (induction n arbitrary: dn rem)
  case (Suc n)
  let ?wave = "filter (ready dn) rem"
  let ?dn = "dn @ map pt_task_id ?wave"
  let ?rest = "filter (\<lambda>t. \<not> ready dn t) rem"
  note rest = rest_is_complement [OF Suc.prems(2,3)]
  show ?case
  proof (cases "rem = []")
    case False
    then have w: "?wave \<noteq> []" using ready_exists [OF assms(1) Suc.prems(1) _ Suc.prems(4)] by simp
    have "waves_respect ?dn (waves_from n ?dn ?rest)"
    proof (rule Suc.IH)
      show "set ?rest \<subseteq> set tasks" using Suc.prems(1) by auto
      show "distinct (map pt_task_id ?rest)" using Suc.prems(2) by (simp add: distinct_map_filter)
      show "set (map pt_task_id ?rest) \<inter> set ?dn = {}"
        using Suc.prems(2,3) by (auto simp: distinct_map inj_on_def)
      show "\<forall>t \<in> set tasks. pt_task_id t \<in> set ?dn \<or> t \<in> set ?rest" using Suc.prems(4) by auto
    qed
    with False w rest show ?thesis by (simp add: Let_def) (simp add: list_all_iff)
  qed simp
qed simp

lemma waves_respect_earlier:
  "waves_respect dn ws \<Longrightarrow> ws = us @ w # vs \<Longrightarrow> t \<in> set w \<Longrightarrow> d \<in> set (pt_depends_on t) \<Longrightarrow>
   d \<in> set dn \<or> d \<in> pt_task_id ` set (concat us)"
proof (induction us arbitrary: dn ws)
  case Nil
  then show ?case by (auto simp: list_all_iff)
next
  case (Cons u us)
  then have "waves_respect (dn @ map pt_task_id u) (us @ w # vs)" by simp
  from Cons.IH [OF this refl Cons.prems(3,4)] show ?case by auto
qed

text \<open>C28. When the dependencies are among the tasks and free of cycles, the waves hold every task
  exactly once and every dependency of a task is in an earlier wave than the task.\<close>

theorem waves_order_dependencies:
  assumes "distinct (map pt_task_id tasks)" and "ranked rank tasks"
  shows "mset (concat (build_dependency_order tasks)) = mset tasks \<and>
    (build_dependency_order tasks = us @ w # vs \<longrightarrow>
       list_all (\<lambda>t. set (pt_depends_on t) \<subseteq> pt_task_id ` set (concat us)) w)"
proof -
  have r: "waves_respect [] (build_dependency_order tasks)"
    unfolding build_dependency_order_def
    by (rule waves_from_respect [OF assms(2)]) (use assms(1) in auto)
  show ?thesis
    using build_order_mset [OF assms(1)] waves_respect_earlier [OF r]
    by (fastforce simp: list_all_iff)
qed

definition task :: "string \<Rightarrow> string list \<Rightarrow> string list \<Rightarrow> ptask" where
  "task i deps files = \<lparr>pt_task_id = i, pt_goal = [], pt_max_steps = 20, pt_task_type = ''code_reasoning'',
     pt_preferred_profile = None, pt_file_scopes = files, pt_depends_on = deps, pt_can_run_parallel = True\<rparr>"

definition diamond :: "ptask list" where
  "diamond = [task ''d'' [''b'', ''c''] [], task ''b'' [''a''] [], task ''c'' [''a''] [], task ''a'' [] []]"

definition diamond_rank :: "string \<Rightarrow> nat" where
  "diamond_rank s = (if s = ''a'' then 0 else if s = ''d'' then 2 else 1)"

theorem waves_order_dependencies_witness:
  "mset (concat (build_dependency_order diamond)) = mset diamond \<and>
   map (map pt_task_id) (build_dependency_order diamond) = [[''a''], [''b'', ''c''], [''d'']]"
proof -
  have "distinct (map pt_task_id diamond)" by (simp add: diamond_def task_def)
  moreover have "ranked diamond_rank diamond"
    by (simp add: ranked_def diamond_def task_def diamond_rank_def)
  ultimately have "mset (concat (build_dependency_order diamond)) = mset diamond"
    using waves_order_dependencies by blast
  moreover have "map (map pt_task_id) (build_dependency_order diamond) = [[''a''], [''b'', ''c''], [''d'']]"
    by code_simp
  ultimately show ?thesis by blast
qed

section \<open>Running\<close>

text \<open>The dependency check that starts \<^verbatim>\<open>_run_one\<close>, then the run itself.\<close>

definition failed_deps :: "string list \<Rightarrow> ptask \<Rightarrow> string list" where
  "failed_deps failed t = filter (\<lambda>d. d \<in> set failed) (pt_depends_on t)"

definition skip_result :: "string list \<Rightarrow> ptask \<Rightarrow> presult" where
  "skip_result failed t = \<lparr>pr_task_id = pt_task_id t, pr_result = None, pr_error = None,
     pr_merged_files = [], pr_skipped = True,
     pr_skip_reason = ''dependency failed: '' @ list_repr (failed_deps failed t)\<rparr>"

definition loop_outcome :: "ptask \<Rightarrow> string + loop_result \<Rightarrow> presult" where
  "loop_outcome t out =
     (case out of
        Inl err \<Rightarrow> \<lparr>pr_task_id = pt_task_id t, pr_result = None, pr_error = Some err,
          pr_merged_files = [], pr_skipped = False, pr_skip_reason = []\<rparr>
      | Inr l \<Rightarrow> \<lparr>pr_task_id = pt_task_id t, pr_result = Some l, pr_error = None,
          pr_merged_files = lr_files_modified l, pr_skipped = False, pr_skip_reason = []\<rparr>)"

fun check_wave :: "string list \<Rightarrow> ptask list \<Rightarrow> string list \<times> (ptask \<times> presult option) list" where
  "check_wave failed [] = (failed, [])"
| "check_wave failed (t # ts) =
     (if failed_deps failed t \<noteq> [] then
        (let (f, rs) = check_wave (failed @ [pt_task_id t]) ts in (f, (t, Some (skip_result failed t)) # rs))
      else
        (let (f, rs) = check_wave failed ts in (f, (t, None) # rs)))"

definition run_wave ::
    "(ptask \<Rightarrow> string + loop_result) \<Rightarrow> string list \<Rightarrow> ptask list \<Rightarrow> string list \<times> presult list" where
  "run_wave run_loop failed wave =
     (let (failed1, checked) = check_wave failed wave;
          results = map (\<lambda>(t, skip). case skip of Some r \<Rightarrow> r | None \<Rightarrow> loop_outcome t (run_loop t)) checked
      in (failed1 @ map pr_task_id (filter (\<lambda>r. \<not> pr_skipped r \<and> \<not> pr_success r) results), results))"

fun run_waves ::
    "(ptask \<Rightarrow> string + loop_result) \<Rightarrow> string list \<Rightarrow> ptask list list \<Rightarrow> string list \<times> presult list" where
  "run_waves run_loop failed [] = (failed, [])"
| "run_waves run_loop failed (w # ws) =
     (let (failed1, rs) = run_wave run_loop failed w; (failed2, rs') = run_waves run_loop failed1 ws
      in (failed2, rs @ rs'))"

definition run_tasks :: "(ptask \<Rightarrow> string + loop_result) \<Rightarrow> ptask list \<Rightarrow> presult list" where
  "run_tasks run_loop tasks =
     (if tasks = [] then []
      else if \<not> list_ex (\<lambda>t. pt_depends_on t \<noteq> []) tasks then snd (run_wave run_loop [] tasks)
      else snd (run_waves run_loop [] (build_dependency_order tasks)))"

text \<open>The specification: a task runs when none of its dependencies failed.\<close>

definition wave_result :: "(ptask \<Rightarrow> string + loop_result) \<Rightarrow> string list \<Rightarrow> ptask \<Rightarrow> presult" where
  "wave_result run_loop failed t =
     (if failed_deps failed t \<noteq> [] then skip_result failed t else loop_outcome t (run_loop t))"

lemma skip_result_simps [simp]:
  "pr_skipped (skip_result f t)" "\<not> pr_success (skip_result f t)" "pr_task_id (skip_result f t) = pt_task_id t"
  by (simp_all add: skip_result_def pr_success_def)

lemma loop_outcome_simps [simp]:
  "\<not> pr_skipped (loop_outcome t out)" "pr_task_id (loop_outcome t out) = pt_task_id t"
  by (simp_all add: loop_outcome_def split: sum.splits)

lemma wave_result_id [simp]: "pr_task_id (wave_result run_loop failed t) = pt_task_id t"
  by (simp add: wave_result_def)

lemma failed_deps_irrelevant:
  assumes "set (pt_depends_on t) \<inter> set new = {}"
  shows "failed_deps (failed @ new) t = failed_deps failed t"
    and "skip_result (failed @ new) t = skip_result failed t"
proof -
  show e: "failed_deps (failed @ new) t = failed_deps failed t"
    unfolding failed_deps_def by (rule filter_cong) (use assms in auto)
  show "skip_result (failed @ new) t = skip_result failed t" by (simp add: skip_result_def e)
qed

lemma check_wave_independent:
  assumes "\<forall>t \<in> set wave. set (pt_depends_on t) \<inter> (set new \<union> pt_task_id ` set wave) = {}"
  shows "fst (check_wave (failed @ new) wave) =
      failed @ new @ map pt_task_id (filter (\<lambda>t. failed_deps failed t \<noteq> []) wave) \<and>
    snd (check_wave (failed @ new) wave) =
      map (\<lambda>t. (t, if failed_deps failed t \<noteq> [] then Some (skip_result failed t) else None)) wave"
  using assms
proof (induction wave arbitrary: new)
  case (Cons t wave)
  have d: "set (pt_depends_on t) \<inter> set new = {}" using Cons.prems by auto
  note irr = failed_deps_irrelevant [OF d, of failed]
  have 1: "\<forall>u \<in> set wave. set (pt_depends_on u) \<inter> (set (new @ [pt_task_id t]) \<union> pt_task_id ` set wave) = {}"
    using Cons.prems by fastforce
  have 2: "\<forall>u \<in> set wave. set (pt_depends_on u) \<inter> (set new \<union> pt_task_id ` set wave) = {}"
    using Cons.prems by fastforce
  show ?case
    using Cons.IH [OF 1] Cons.IH [OF 2] by (auto simp: irr Let_def split: prod.splits)
qed simp

lemma run_wave_result:
  assumes "\<forall>t \<in> set wave. set (pt_depends_on t) \<inter> pt_task_id ` set wave = {}"
  shows "snd (run_wave run_loop failed wave) = map (wave_result run_loop failed) wave"
    and "set (fst (run_wave run_loop failed wave)) = set failed \<union>
      pt_task_id ` {t \<in> set wave. \<not> pr_success (wave_result run_loop failed t)}"
proof -
  note c = check_wave_independent [of wave "[]" failed] assms
  have f: "fst (check_wave failed wave) =
      failed @ map pt_task_id (filter (\<lambda>t. failed_deps failed t \<noteq> []) wave)"
    and s: "snd (check_wave failed wave) =
      map (\<lambda>t. (t, if failed_deps failed t \<noteq> [] then Some (skip_result failed t) else None)) wave"
    using c by auto
  show r: "snd (run_wave run_loop failed wave) = map (wave_result run_loop failed) wave"
    unfolding run_wave_def Let_def case_prod_unfold snd_conv s by (simp add: wave_result_def)
  have "fst (run_wave run_loop failed wave) = fst (check_wave failed wave) @
      map pr_task_id (filter (\<lambda>r. \<not> pr_skipped r \<and> \<not> pr_success r) (snd (run_wave run_loop failed wave)))"
    by (simp add: run_wave_def Let_def case_prod_unfold)
  moreover have "set (map pr_task_id (filter (\<lambda>r. \<not> pr_skipped r \<and> \<not> pr_success r)
        (map (wave_result run_loop failed) wave))) = pt_task_id ` {t \<in> set wave.
        \<not> pr_skipped (wave_result run_loop failed t) \<and> \<not> pr_success (wave_result run_loop failed t)}"
    by (auto simp: filter_map)
  moreover have "failed_deps failed t \<noteq> [] \<longleftrightarrow> pr_skipped (wave_result run_loop failed t)" for t
    by (simp add: wave_result_def)
  moreover have "pr_skipped (wave_result run_loop failed t) \<Longrightarrow> \<not> pr_success (wave_result run_loop failed t)" for t
    by (simp add: wave_result_def split: if_splits)
  ultimately show "set (fst (run_wave run_loop failed wave)) = set failed \<union>
      pt_task_id ` {t \<in> set wave. \<not> pr_success (wave_result run_loop failed t)}"
    unfolding r f by auto
qed

text \<open>The condition on a result list: one result per task, skipped exactly when a dependency has
  no success.\<close>

definition result_of :: "presult list \<Rightarrow> string \<Rightarrow> presult option" where
  "result_of rs i = find_first (\<lambda>r. pr_task_id r = i) rs"

definition unsuccessful :: "presult list \<Rightarrow> string set" where
  "unsuccessful rs = set (map pr_task_id (filter (\<lambda>r. \<not> pr_success r) rs))"

lemma failed_deps_iff: "failed_deps failed t \<noteq> [] \<longleftrightarrow> (\<exists>d \<in> set (pt_depends_on t). d \<in> set failed)"
  by (auto simp: failed_deps_def filter_empty_conv)

lemma wave_result_skipped:
  "pr_skipped (wave_result run_loop failed t) \<longleftrightarrow> (\<exists>d \<in> set (pt_depends_on t). d \<in> set failed)"
  by (simp add: wave_result_def failed_deps_iff [symmetric])

lemma run_waves_spec:
  assumes "waves_respect dn ws" "distinct (map pt_task_id (concat ws))"
    and "set dn \<inter> pt_task_id ` set (concat ws) = {}" "set failed \<subseteq> set dn"
  shows "map pr_task_id (snd (run_waves run_loop failed ws)) = map pt_task_id (concat ws) \<and>
    (\<forall>t \<in> set (concat ws). \<forall>r \<in> set (snd (run_waves run_loop failed ws)). pr_task_id r = pt_task_id t \<longrightarrow>
       (pr_skipped r \<longleftrightarrow> (\<exists>d \<in> set (pt_depends_on t). d \<in> set failed \<union> unsuccessful (snd (run_waves run_loop failed ws)))) \<and>
       (\<not> pr_skipped r \<longrightarrow> r = loop_outcome t (run_loop t)))"
  using assms
proof (induction ws arbitrary: dn failed)
  case (Cons w ws)
  let ?rw = "run_wave run_loop failed w"
  let ?rest = "run_waves run_loop (fst ?rw) ws"
  have dep: "\<forall>t \<in> set w. set (pt_depends_on t) \<subseteq> set dn" using Cons.prems(1) by (auto simp: list_all_iff)
  then have indep: "\<forall>t \<in> set w. set (pt_depends_on t) \<inter> pt_task_id ` set w = {}"
    using Cons.prems(3) by fastforce
  note rw = run_wave_result [OF indep, of run_loop failed]
  have sub: "set (fst ?rw) \<subseteq> set (dn @ map pt_task_id w)" using rw(2) Cons.prems(4) by auto
  have "waves_respect (dn @ map pt_task_id w) ws" "distinct (map pt_task_id (concat ws))"
    "set (dn @ map pt_task_id w) \<inter> pt_task_id ` set (concat ws) = {}"
    using Cons.prems(1,2,3) by auto
  note IH = Cons.IH [OF this sub]
  have all: "snd (run_waves run_loop failed (w # ws)) = map (wave_result run_loop failed) w @ snd ?rest"
    by (simp add: Let_def case_prod_unfold rw(1))
  have ids: "map pr_task_id (snd (run_waves run_loop failed (w # ws))) = map pt_task_id (concat (w # ws))"
    unfolding all map_append concat.simps using IH by (simp add: comp_def)
  have uw: "unsuccessful (map (wave_result run_loop failed) w) =
      pt_task_id ` {t \<in> set w. \<not> pr_success (wave_result run_loop failed t)}"
    by (auto simp: unsuccessful_def filter_map)
  have un: "set failed \<union> unsuccessful (snd (run_waves run_loop failed (w # ws))) =
      set (fst ?rw) \<union> unsuccessful (snd ?rest)"
    unfolding all rw(2) using uw by (auto simp: unsuccessful_def)
  have idrest: "set (map pr_task_id (snd ?rest)) = pt_task_id ` set (concat ws)"
    using IH by (metis list.set_map)
  have dn_not: "d \<notin> unsuccessful (snd (run_waves run_loop failed (w # ws)))" if "d \<in> set dn" for d
  proof -
    have "d \<notin> set (map pr_task_id (snd (run_waves run_loop failed (w # ws))))"
      unfolding ids using that Cons.prems(3) by auto
    then show ?thesis by (auto simp: unsuccessful_def)
  qed
  have "(pr_skipped r \<longleftrightarrow> (\<exists>d \<in> set (pt_depends_on t). d \<in> set failed \<union> unsuccessful (snd (run_waves run_loop failed (w # ws))))) \<and>
      (\<not> pr_skipped r \<longrightarrow> r = loop_outcome t (run_loop t))"
    if t: "t \<in> set (concat (w # ws))" and r: "r \<in> set (snd (run_waves run_loop failed (w # ws)))"
      and same: "pr_task_id r = pt_task_id t" for t r
  proof (cases "t \<in> set w")
    case True
    have "pr_task_id r \<notin> set (map pr_task_id (snd ?rest))"
      unfolding idrest same using True Cons.prems(2) by auto
    with r all obtain u where u: "u \<in> set w" "r = wave_result run_loop failed u" by auto
    with same True Cons.prems(2) have "u = t" by (auto simp: distinct_map inj_on_def)
    with u have rt: "r = wave_result run_loop failed t" by simp
    have "(\<exists>d \<in> set (pt_depends_on t). d \<in> set failed \<union> unsuccessful (snd (run_waves run_loop failed (w # ws)))) \<longleftrightarrow>
        (\<exists>d \<in> set (pt_depends_on t). d \<in> set failed)"
      using dep True dn_not by blast
    moreover have "\<not> pr_skipped r \<longrightarrow> r = loop_outcome t (run_loop t)"
      unfolding rt by (simp add: wave_result_def)
    ultimately show ?thesis unfolding rt wave_result_skipped by blast
  next
    case False
    with t have t': "t \<in> set (concat ws)" by simp
    have "pt_task_id t \<notin> set (map pt_task_id w)"
      using t' Cons.prems(2) unfolding concat.simps map_append distinct_append by (metis disjoint_iff imageI list.set_map)
    with same have "r \<notin> set (map (wave_result run_loop failed) w)"
      by (metis (no_types, lifting) imageE imageI list.set_map wave_result_id)
    with r all have "r \<in> set (snd ?rest)" by auto
    with IH t' same show ?thesis unfolding un by blast
  qed
  with ids show ?case by blast
qed simp

text \<open>In a run of tasks with distinct ids and acyclic dependencies every task has exactly one
  result, in the order of the waves; a task is skipped exactly when the result of one of its
  dependencies is not a success, and otherwise its result is that of its own agent loop.\<close>

theorem tasks_run_iff_dependencies_succeed:
  assumes "distinct (map pt_task_id tasks)" and "ranked rank tasks"
    and "t \<in> set tasks" and "r \<in> set (run_tasks run_loop tasks)" and "pr_task_id r = pt_task_id t"
  shows "mset (map pr_task_id (run_tasks run_loop tasks)) = mset (map pt_task_id tasks) \<and>
    (pr_skipped r \<longleftrightarrow> (\<exists>d \<in> set (pt_depends_on t). d \<in> unsuccessful (run_tasks run_loop tasks))) \<and>
    (\<not> pr_skipped r \<longrightarrow> r = loop_outcome t (run_loop t))"
proof (cases "list_ex (\<lambda>t. pt_depends_on t \<noteq> []) tasks")
  case True
  let ?ws = "build_dependency_order tasks"
  have m: "mset (concat ?ws) = mset tasks" by (rule build_order_mset [OF assms(1)])
  then have s: "set (concat ?ws) = set tasks" by (metis set_mset_mset)
  have "mset (map pt_task_id (concat ?ws)) = mset (map pt_task_id tasks)" using m by simp
  then have d: "distinct (map pt_task_id (concat ?ws))" using assms(1) mset_eq_imp_distinct_iff by blast
  have "waves_respect [] ?ws"
    unfolding build_dependency_order_def by (rule waves_from_respect [OF assms(2)]) (use assms(1) in auto)
  note spec = run_waves_spec [OF this d, of "[]" run_loop]
  have e: "run_tasks run_loop tasks = snd (run_waves run_loop [] ?ws)"
    using True by (auto simp: run_tasks_def)
  have "mset (map pr_task_id (run_tasks run_loop tasks)) = mset (map pt_task_id tasks)"
    using spec m e by simp
  moreover have "t \<in> set (concat ?ws)" using s assms(3) by blast
  ultimately show ?thesis using spec assms(4,5) e by auto
next
  case False
  then have nodeps: "\<forall>t \<in> set tasks. pt_depends_on t = []" by (auto simp: list_ex_iff)
  have "run_tasks run_loop tasks = map (wave_result run_loop []) tasks"
    using False run_wave_result(1) [of tasks run_loop "[]"] nodeps assms(3) by (auto simp: run_tasks_def)
  moreover from this assms obtain u where "u \<in> set tasks" "r = wave_result run_loop [] u" by auto
  moreover from this assms have "u = t" by (auto simp: distinct_map inj_on_def)
  ultimately show ?thesis
    using nodeps assms(3) by (auto simp: comp_def wave_result_def failed_deps_def)
qed

definition flaky :: "ptask \<Rightarrow> string + loop_result" where
  "flaky t = (if pt_task_id t = ''b'' then Inl ''boom''
     else Inr \<lparr>lr_status = ''finished'', lr_files_modified = [pt_task_id t]\<rparr>)"

theorem tasks_run_iff_dependencies_succeed_witness:
  "\<exists>r \<in> set (run_tasks flaky diamond). pr_task_id r = ''d'' \<and> pr_skipped r"
proof -
  have d: "distinct (map pt_task_id diamond)" by (simp add: diamond_def task_def)
  have k: "ranked diamond_rank diamond"
    by (simp add: ranked_def diamond_def task_def diamond_rank_def)
  have t: "task ''d'' [''b'', ''c''] [] \<in> set diamond" by (simp add: diamond_def)
  have "list_ex (\<lambda>r. pr_task_id r = ''d'') (run_tasks flaky diamond)"
    "list_ex (\<lambda>r. pr_task_id r = ''b'' \<and> \<not> pr_success r) (run_tasks flaky diamond)"
    by code_simp+
  then have b: "''b'' \<in> unsuccessful (run_tasks flaky diamond)"
    and "\<exists>r \<in> set (run_tasks flaky diamond). pr_task_id r = ''d''"
    unfolding list_ex_iff unsuccessful_def by force+
  then obtain r where r: "r \<in> set (run_tasks flaky diamond)" "pr_task_id r = ''d''" by blast
  then have "pr_task_id r = pt_task_id (task ''d'' [''b'', ''c''] [])" by (simp add: task_def)
  from tasks_run_iff_dependencies_succeed [OF d k t r(1) this] b r show ?thesis
    by (auto simp: task_def)
qed

end
