(* ===== verification/ParallelFiles.thy ===== *)
theory ParallelFiles
  imports Parallel
begin

text \<open>
  The rest of \<^verbatim>\<open>igris/core/parallel_task_runner.py\<close>: the merge of results, the
  detection of file conflicts, and the per-file locks and the semaphore that the coroutines of
  a wave take before they run, as a step relation over all interleavings. Locks are taken in
  sorted order; the lemmas show mutual exclusion on files, the bound on concurrency, and that no
  interleaving deadlocks.
\<close>

section \<open>Merging results\<close>

definition status_for :: "presult \<Rightarrow> string" where
  "status_for r = (if pr_skipped r then ''skipped'' else if pr_success r then ''succeeded'' else ''failed'')"

record task_report =
  tk_task_id :: string
  tk_status :: string
  tk_success :: bool
  tk_skipped :: bool
  tk_skip_reason :: string
  tk_error :: "string option"
  tk_merged_files :: "string list"

record merged =
  mg_total :: nat
  mg_succeeded :: nat
  mg_failed :: nat
  mg_skipped :: nat
  mg_succeeded_task_ids :: "string list"
  mg_failed_task_ids :: "string list"
  mg_skipped_task_ids :: "string list"
  mg_merged_files :: "string list"
  mg_all_success :: bool
  mg_partial_success :: bool
  mg_task_reports :: "task_report list"

definition task_report_of :: "presult \<Rightarrow> task_report" where
  "task_report_of r = \<lparr>tk_task_id = pr_task_id r, tk_status = status_for r, tk_success = pr_success r,
     tk_skipped = pr_skipped r, tk_skip_reason = pr_skip_reason r, tk_error = pr_error r,
     tk_merged_files = pr_merged_files r\<rparr>"

definition merge_results :: "presult list \<Rightarrow> merged" where
  "merge_results results =
     (let succeeded = filter (\<lambda>r. pr_success r \<and> \<not> pr_skipped r) results;
          failed = filter (\<lambda>r. \<not> pr_success r \<and> \<not> pr_skipped r) results;
          skipped = filter pr_skipped results
      in \<lparr>mg_total = length results, mg_succeeded = length succeeded, mg_failed = length failed,
           mg_skipped = length skipped, mg_succeeded_task_ids = map pr_task_id succeeded,
           mg_failed_task_ids = map pr_task_id failed, mg_skipped_task_ids = map pr_task_id skipped,
           mg_merged_files = unique_keep_first (concat (map pr_merged_files succeeded)),
           mg_all_success = (length failed = 0 \<and> length results > 0),
           mg_partial_success = (length succeeded > 0 \<and> length failed + length skipped > 0),
           mg_task_reports = sort_key tk_task_id (map task_report_of results)\<rparr>)"

lemma merge_partition:
  "length (filter (\<lambda>r. P r \<and> \<not> S r) rs) + length (filter (\<lambda>r. \<not> P r \<and> \<not> S r) rs) + length (filter S rs) = length rs"
  by (induction rs) auto

text \<open>Merging counts every result exactly once, as succeeded, failed or skipped, reports every
  task in the order of the ids, and lists each file of a succeeded task once.\<close>

theorem merge_results_accounts:
  "mg_succeeded (merge_results rs) + mg_failed (merge_results rs) + mg_skipped (merge_results rs)
     = mg_total (merge_results rs) \<and>
   mset (mg_task_reports (merge_results rs)) = mset (map task_report_of rs) \<and>
   sorted (map tk_task_id (mg_task_reports (merge_results rs))) \<and>
   distinct (mg_merged_files (merge_results rs)) \<and>
   set (mg_merged_files (merge_results rs)) =
     (\<Union>r \<in> {r \<in> set rs. pr_success r \<and> \<not> pr_skipped r}. set (pr_merged_files r))"
  using merge_partition [of pr_success pr_skipped rs] by (auto simp: merge_results_def Let_def)

lemma all_skipped_counts_as_all_success:
  "rs \<noteq> [] \<Longrightarrow> list_all pr_skipped rs \<Longrightarrow> mg_all_success (merge_results rs)"
  by (auto simp: merge_results_def Let_def list_all_iff filter_empty_conv)

section \<open>File conflicts\<close>

definition claims_of :: "ptask list \<Rightarrow> (string \<times> string) list" where
  "claims_of tasks = concat (map (\<lambda>t. map (\<lambda>p. (path_str p, pt_task_id t)) (pt_file_scopes t)) tasks)"

definition file_to_tasks :: "ptask list \<Rightarrow> (string, string list) dict" where
  "file_to_tasks tasks =
     foldl (\<lambda>m (p, i). dset m p (dget_or m p [] @ [i])) [] (claims_of tasks)"

definition serialised_pairs :: "ptask list \<Rightarrow> (string \<times> string) list" where
  "serialised_pairs tasks =
     concat (map (\<lambda>t. concat (map (\<lambda>d. [(d, pt_task_id t), (pt_task_id t, d)]) (pt_depends_on t))) tasks)"

fun later_pairs :: "'a list \<Rightarrow> ('a \<times> 'a) list" where
  "later_pairs [] = []"
| "later_pairs (x # xs) = map (\<lambda>y. (x, y)) xs @ later_pairs xs"

definition detect_file_conflicts :: "ptask list \<Rightarrow> (string, string list) dict" where
  "detect_file_conflicts tasks =
     (let m = file_to_tasks tasks; ser = serialised_pairs tasks
      in map (\<lambda>(p, ids). (p, sort (remdups ids)))
           (filter (\<lambda>(p, ids). \<not> length ids < 2 \<and> filter (\<lambda>ab. ab \<notin> set ser) (later_pairs ids) \<noteq> [])
             (sort_key fst m)))"

lemma file_to_tasks_lookup:
  "dget_or (file_to_tasks tasks) p [] = map snd (filter (\<lambda>(q, i). q = p) (claims_of tasks))"
proof -
  have "dget_or (foldl (\<lambda>m (p, i). dset m p (dget_or m p [] @ [i])) [] cs) p [] =
      map snd (filter (\<lambda>(q, i). q = p) cs)" for cs :: "(string \<times> string) list"
    by (induction cs rule: rev_induct) (auto simp: dget_or_def)
  then show ?thesis by (simp add: file_to_tasks_def)
qed

text \<open>A single task that names one file in two spellings is reported as in conflict with itself,
  though no other task claims the file.\<close>

theorem task_conflicts_with_itself:
  "detect_file_conflicts [task ''solo'' [] [''src/a.py'', ''./src//a.py''], task ''other'' [] [''src/b.py'']]
     = [(''src/a.py'', [''solo''])]"
  by code_simp

section \<open>Locks\<close>

text \<open>The paths whose locks a task takes, in the order it takes them.\<close>

definition norm_paths :: "string list \<Rightarrow> string list" where
  "norm_paths scopes = sort (remdups (map path_str scopes))"

lemma norm_paths_sorted: "sorted (norm_paths scopes)" "distinct (norm_paths scopes)"
  by (simp_all add: norm_paths_def)

text \<open>A coroutine: how many of its locks it holds, or running under all of them and the
  semaphore, or finished with everything released.\<close>

datatype phase = Acquiring nat | Running | Finished

type_synonym wave_state = "(string list \<times> phase) list"

definition held :: "string list \<times> phase \<Rightarrow> string list" where
  "held c = (case snd c of Acquiring k \<Rightarrow> take k (fst c) | Running \<Rightarrow> fst c | Finished \<Rightarrow> [])"

definition free_lock :: "wave_state \<Rightarrow> string \<Rightarrow> bool" where
  "free_lock s l \<longleftrightarrow> list_all (\<lambda>c. l \<notin> set (held c)) s"

definition running :: "wave_state \<Rightarrow> nat" where
  "running s = length (filter (\<lambda>c. snd c = Running) s)"

inductive lock_step :: "nat \<Rightarrow> wave_state \<Rightarrow> wave_state \<Rightarrow> bool" for max_concurrent where
  take_lock: "i < length s \<Longrightarrow> s ! i = (ps, Acquiring k) \<Longrightarrow> k < length ps \<Longrightarrow> free_lock s (ps ! k) \<Longrightarrow>
     lock_step max_concurrent s (s[i := (ps, Acquiring (Suc k))])"
| enter: "i < length s \<Longrightarrow> s ! i = (ps, Acquiring k) \<Longrightarrow> k = length ps \<Longrightarrow> running s < max_concurrent \<Longrightarrow>
     lock_step max_concurrent s (s[i := (ps, Running)])"
| leave: "i < length s \<Longrightarrow> s ! i = (ps, Running) \<Longrightarrow> lock_step max_concurrent s (s[i := (ps, Finished)])"

definition initial_wave :: "ptask list \<Rightarrow> wave_state" where
  "initial_wave tasks = map (\<lambda>t. (norm_paths (pt_file_scopes t), Acquiring 0)) tasks"

inductive reachable :: "nat \<Rightarrow> ptask list \<Rightarrow> wave_state \<Rightarrow> bool" for max_concurrent tasks where
  init: "reachable max_concurrent tasks (initial_wave tasks)"
| step: "reachable max_concurrent tasks s \<Longrightarrow> lock_step max_concurrent s s' \<Longrightarrow> reachable max_concurrent tasks s'"

inductive_cases lock_stepE: "lock_step n s s'"

definition wave_inv :: "nat \<Rightarrow> wave_state \<Rightarrow> bool" where
  "wave_inv max_concurrent s \<longleftrightarrow>
     (\<forall>i < length s. sorted (fst (s ! i)) \<and> distinct (fst (s ! i)) \<and>
        (\<forall>k. snd (s ! i) = Acquiring k \<longrightarrow> k \<le> length (fst (s ! i)))) \<and>
     (\<forall>i < length s. \<forall>j < length s. i \<noteq> j \<longrightarrow> set (held (s ! i)) \<inter> set (held (s ! j)) = {}) \<and>
     running s \<le> max_concurrent"

lemma running_update:
  "i < length s \<Longrightarrow> running (s[i := c]) + (if snd (s ! i) = Running then 1 else 0) =
     running s + (if snd c = Running then 1 else 0)"
  unfolding running_def
proof (induction s arbitrary: i)
  case (Cons a s)
  then show ?case by (cases i) auto
qed simp

lemma held_disjoint_update:
  assumes "\<forall>i < length s. \<forall>j < length s. i \<noteq> j \<longrightarrow> set (held (s ! i)) \<inter> set (held (s ! j)) = {}"
    and "i < length s"
    and "\<forall>j < length s. j \<noteq> i \<longrightarrow> set (held c) \<inter> set (held (s ! j)) = {}"
  shows "\<forall>a < length (s[i := c]). \<forall>b < length (s[i := c]). a \<noteq> b \<longrightarrow>
    set (held (s[i := c] ! a)) \<inter> set (held (s[i := c] ! b)) = {}"
  using assms by (auto simp: nth_list_update)

lemma wave_inv_step:
  assumes "wave_inv n s" "lock_step n s s'"
  shows "wave_inv n s'"
  using assms(2)
proof (cases rule: lock_step.cases)
  case (take_lock i ps k)
  have "set (held (ps, Acquiring (Suc k))) = insert (ps ! k) (set (held (s ! i)))"
    using take_lock by (simp add: held_def take_Suc_conv_app_nth)
  moreover have "\<forall>j < length s. ps ! k \<notin> set (held (s ! j))"
    using take_lock(5) by (auto simp: free_lock_def list_all_length)
  ultimately have "\<forall>j < length s. j \<noteq> i \<longrightarrow> set (held (ps, Acquiring (Suc k))) \<inter> set (held (s ! j)) = {}"
    using assms(1) take_lock(2) unfolding wave_inv_def by (metis Int_insert_left_if0)
  from held_disjoint_update [OF _ take_lock(2) this] show ?thesis
    using assms(1) take_lock running_update [OF take_lock(2), of "(ps, Acquiring (Suc k))"]
    unfolding wave_inv_def by (auto simp: nth_list_update)
next
  case (enter i ps k)
  have "held (ps, Running) = held (s ! i)" using enter by (simp add: held_def)
  then have "\<forall>j < length s. j \<noteq> i \<longrightarrow> set (held (ps, Running)) \<inter> set (held (s ! j)) = {}"
    using assms(1) enter(2) unfolding wave_inv_def by metis
  from held_disjoint_update [OF _ enter(2) this] show ?thesis
    using assms(1) enter running_update [OF enter(2), of "(ps, Running)"]
    unfolding wave_inv_def by (auto simp: nth_list_update)
next
  case (leave i ps)
  have "\<forall>j < length s. j \<noteq> i \<longrightarrow> set (held (ps, Finished)) \<inter> set (held (s ! j)) = {}"
    by (simp add: held_def)
  from held_disjoint_update [OF _ leave(2) this] show ?thesis
    using assms(1) leave running_update [OF leave(2), of "(ps, Finished)"]
    unfolding wave_inv_def by (auto simp: nth_list_update)
qed

lemma reachable_inv: "reachable n tasks s \<Longrightarrow> wave_inv n s"
proof (induction rule: reachable.induct)
  case init
  have "running (initial_wave tasks) = 0" by (simp add: running_def initial_wave_def filter_empty_conv)
  then show ?case by (auto simp: wave_inv_def initial_wave_def norm_paths_sorted held_def)
qed (rule wave_inv_step)

text \<open>C15. In every interleaving of the coroutines of a wave, two tasks that are both running claim no
  common file, and no more tasks run at once than the configured maximum.\<close>

theorem running_tasks_are_exclusive:
  assumes "reachable n tasks s"
    and "i < length s" "j < length s" "i \<noteq> j" "snd (s ! i) = Running" "snd (s ! j) = Running"
  shows "set (fst (s ! i)) \<inter> set (fst (s ! j)) = {} \<and> running s \<le> n"
proof -
  have "set (held (s ! i)) \<inter> set (held (s ! j)) = {}" "running s \<le> n"
    using reachable_inv [OF assms(1)] assms(2-4) unfolding wave_inv_def by blast+
  then show ?thesis using assms(5,6) by (simp add: held_def)
qed

definition two_files :: "ptask list" where
  "two_files = [task ''x'' [] [''a.py''], task ''y'' [] [''b.py'']]"

lemma two_running: "reachable 3 two_files [([''a.py''], Running), ([''b.py''], Running)]"
proof -
  have i: "initial_wave two_files = [([''a.py''], Acquiring 0), ([''b.py''], Acquiring 0)]" by code_simp
  have "lock_step 3 [([''a.py''], Acquiring 0), ([''b.py''], Acquiring 0)]
      ([([''a.py''], Acquiring 0), ([''b.py''], Acquiring 0)][0 := ([''a.py''], Acquiring (Suc 0))])"
    by (rule lock_step.take_lock) (simp_all add: free_lock_def held_def)
  then have 1: "reachable 3 two_files [([''a.py''], Acquiring 1), ([''b.py''], Acquiring 0)]"
    using reachable.init [of 3 two_files] i reachable.step by fastforce
  have "lock_step 3 [([''a.py''], Acquiring 1), ([''b.py''], Acquiring 0)]
      ([([''a.py''], Acquiring 1), ([''b.py''], Acquiring 0)][1 := ([''b.py''], Acquiring (Suc 0))])"
    by (rule lock_step.take_lock) (simp_all add: free_lock_def held_def)
  then have 2: "reachable 3 two_files [([''a.py''], Acquiring 1), ([''b.py''], Acquiring 1)]"
    using 1 reachable.step by fastforce
  have "lock_step 3 [([''a.py''], Acquiring 1), ([''b.py''], Acquiring 1)]
      ([([''a.py''], Acquiring 1), ([''b.py''], Acquiring 1)][0 := ([''a.py''], Running)])"
    by (rule lock_step.enter [where k = 1]) (simp_all add: running_def)
  then have 3: "reachable 3 two_files [([''a.py''], Running), ([''b.py''], Acquiring 1)]"
    using 2 reachable.step by fastforce
  have "lock_step 3 [([''a.py''], Running), ([''b.py''], Acquiring 1)]
      ([([''a.py''], Running), ([''b.py''], Acquiring 1)][1 := ([''b.py''], Running)])"
    by (rule lock_step.enter [where k = 1]) (simp_all add: running_def)
  then show ?thesis using 3 reachable.step by fastforce
qed

theorem running_tasks_are_exclusive_witness:
  "running [([''a.py''], Running), ([''b.py''], Running)] \<le> 3"
  using running_tasks_are_exclusive [OF two_running, of 0 1] by simp

section \<open>No deadlock\<close>

lemma no_step_all_finished:
  assumes inv: "wave_inv n s" and n: "0 < n" and stuck: "\<nexists>s'. lock_step n s s'"
  shows "\<forall>i < length s. snd (s ! i) = Finished"
proof (rule ccontr)
  assume "\<not> ?thesis"
  have no_run: "snd (s ! i) \<noteq> Running" if "i < length s" for i
    using stuck lock_step.leave [OF that, of "fst (s ! i)" n] by (metis prod.collapse)
  then have "\<forall>c \<in> set s. snd c \<noteq> Running" by (metis in_set_conv_nth)
  then have r0: "running s = 0" by (simp add: running_def filter_empty_conv)
  define waits where "waits i \<longleftrightarrow> i < length s \<and> snd (s ! i) \<noteq> Finished" for i
  define need where "need i = (case snd (s ! i) of Acquiring k \<Rightarrow> fst (s ! i) ! k | _ \<Rightarrow> [])" for i
  have acq: "\<exists>k. snd (s ! i) = Acquiring k \<and> k < length (fst (s ! i))" if w: "waits i" for i
  proof -
    obtain k where k: "snd (s ! i) = Acquiring k"
      using w no_run by (cases "snd (s ! i)") (auto simp: waits_def)
    have "k \<noteq> length (fst (s ! i))"
      using stuck lock_step.enter [of i s "fst (s ! i)" k n] w k r0 n by (metis prod.collapse waits_def)
    moreover have "k \<le> length (fst (s ! i))" using inv w k by (simp add: wave_inv_def waits_def)
    ultimately show ?thesis using k by simp
  qed
  have blocker: "\<exists>j. waits j \<and> need i < need j" if w: "waits i" for i
  proof -
    obtain k where k: "snd (s ! i) = Acquiring k" "k < length (fst (s ! i))" using acq [OF w] by blast
    have nd: "need i = fst (s ! i) ! k" by (simp add: need_def k)
    have "\<not> free_lock s (need i)"
      using stuck lock_step.take_lock [of i s "fst (s ! i)" k n] w k nd by (metis prod.collapse waits_def)
    then obtain j where j: "j < length s" "need i \<in> set (held (s ! j))"
      by (auto simp: free_lock_def list_all_length)
    then have wj: "waits j" by (auto simp: waits_def held_def)
    obtain m where m: "snd (s ! j) = Acquiring m" "m < length (fst (s ! j))" using acq [OF wj] by blast
    with j(2) obtain q where q: "q < m" "need i = fst (s ! j) ! q"
      by (auto simp: held_def in_set_conv_nth)
    have "sorted (fst (s ! j))" "distinct (fst (s ! j))" using inv j(1) by (auto simp: wave_inv_def)
    then have "sorted_wrt (<) (fst (s ! j))" by (simp add: strict_sorted_iff)
    then have "fst (s ! j) ! q < fst (s ! j) ! m"
      using q(1) m(2) by (rule sorted_wrt_nth_less)
    with q m wj show ?thesis by (auto simp: need_def)
  qed
  from \<open>\<not> ?thesis\<close> obtain i where "waits i" by (auto simp: waits_def)
  then have ne: "need ` {i. waits i} \<noteq> {}" by blast
  have fin: "finite (need ` {i. waits i})" by (simp add: waits_def)
  obtain i0 where "waits i0" "need i0 = Max (need ` {i. waits i})"
    using Max_in [OF fin ne] by auto
  with blocker [of i0] Max_ge [OF fin] show False by (fastforce simp: not_less [symmetric])
qed

text \<open>Each step moves one coroutine forward, so every run of a wave ends.\<close>

definition work_of :: "string list \<times> phase \<Rightarrow> nat" where
  "work_of c = (case snd c of Acquiring k \<Rightarrow> 2 + (length (fst c) - k) | Running \<Rightarrow> 1 | Finished \<Rightarrow> 0)"

definition work_left :: "wave_state \<Rightarrow> nat" where
  "work_left s = sum_list (map work_of s)"

lemma work_left_update:
  "i < length s \<Longrightarrow> work_left (s[i := c]) + work_of (s ! i) = work_left s + work_of c"
  unfolding work_left_def
proof (induction s arbitrary: i)
  case (Cons a s)
  then show ?case by (cases i) (auto simp: add.assoc)
qed simp

lemma work_decreases: "lock_step n s s' \<Longrightarrow> work_left s' < work_left s"
proof (induction rule: lock_step.induct)
  case (take_lock i s ps k)
  with work_left_update [of i s "(ps, Acquiring (Suc k))"] show ?case by (simp add: work_of_def)
next
  case (enter i s ps k)
  with work_left_update [of i s "(ps, Running)"] show ?case by (simp add: work_of_def)
next
  case (leave i s ps)
  with work_left_update [of i s "(ps, Finished)"] show ?case by (simp add: work_of_def)
qed

text \<open>C18. With a semaphore of at least one, no interleaving of a wave deadlocks: in every reachable
  state either all coroutines are finished, with every lock released, or some coroutine can make
  a step, and each step decreases the work that is left.\<close>

theorem waves_never_deadlock:
  assumes "reachable n tasks s" and "0 < n"
  shows "(list_all (\<lambda>c. snd c = Finished) s \<or> (\<exists>s'. lock_step n s s')) \<and>
    (\<forall>s'. lock_step n s s' \<longrightarrow> work_left s' < work_left s)"
  using no_step_all_finished [OF reachable_inv [OF assms(1)] assms(2)] work_decreases
  by (auto simp: list_all_length)

theorem waves_never_deadlock_witness:
  "\<exists>s'. lock_step 3 [([''a.py''], Running), ([''b.py''], Running)] s'"
  using waves_never_deadlock [OF two_running] by simp

end
