(* ===== verification/Goap.thy ===== *)
theory Goap
  imports PyVal
begin

text \<open>
  \<^verbatim>\<open>igris/core/goap_planner.py\<close>: the goal-oriented planner. World states are
  dictionaries of arbitrary values, compared with Python's equality; a missing key reads as
  \<^verbatim>\<open>None\<close>. The planner keeps its action library (whose costs the history of an action
  family may raise), the blocked actions and the saturated families. The history of the memory
  graph is the parameter \<open>hist\<close>: the number of recorded failures of a family for a goal type,
  or \<open>None\<close> when reading it raises. Plans hold their own copies of the actions.
\<close>

section \<open>World state\<close>

type_synonym props = "(string, pyval) dict"

definition state_get :: "props \<Rightarrow> string \<Rightarrow> pyval" where
  "state_get s k = dget_or s k PNone"

definition satisfies :: "props \<Rightarrow> props \<Rightarrow> bool" where
  "satisfies s conditions = list_all (\<lambda>(k, v). py_eq (state_get s k) v) conditions"

definition apply_effects :: "props \<Rightarrow> props \<Rightarrow> props" where
  "apply_effects s effects = dupdate s effects"

definition unknown :: pyval where "unknown = PStr ''unknown''"

definition default_state :: props where
  "default_state = [(''repo_clean'', unknown), (''tests_pass'', unknown), (''service_running'', unknown),
     (''docker_available'', unknown), (''nginx_available'', unknown), (''domain_resolves'', unknown),
     (''ssl_present'', unknown), (''provider_available'', unknown), (''budget_ok'', PBool True)]"

text \<open>\<^verbatim>\<open>git status --porcelain\<close> is the argument: its output, or \<open>None\<close> when it fails.\<close>

definition get_current_state :: "string option \<Rightarrow> props" where
  "get_current_state git_status =
     dset default_state ''repo_clean''
       (case git_status of None \<Rightarrow> unknown | Some out \<Rightarrow> PBool (strip out = []))"

section \<open>Actions, plans, the planner\<close>

definition ACTION_FAMILIES :: "string list" where
  "ACTION_FAMILIES =
     [''observation'', ''synthesis'', ''repo_diff_discovery'', ''patch_strategy'', ''branch_pr_plan'',
      ''review_gate'', ''candidate_materialization'', ''mastery_cycle'', ''mastery_gate'', ''school_report'',
      ''grading_diagnosis'', ''stabilization_audit'', ''devops_deploy'', ''server_diagnosis'',
      ''test_repair'', ''code_patch'', ''documentation'', ''security_audit'', ''other'']"

record goap_action =
  ga_id :: string
  ga_title :: string
  ga_family :: string
  ga_preconditions :: props
  ga_effects :: props
  ga_risk :: string
  ga_cost :: pyfloat
  ga_required_tools :: "string list"
  ga_requires_rollback :: bool
  ga_success_criteria :: "string list"
  ga_cooldown_family :: string
  ga_blocked :: bool

record goap_plan =
  gp_mission_id :: string
  gp_goal :: props
  gp_actions :: "goap_action list"
  gp_initial_state :: props
  gp_status :: string
  gp_total_cost :: pyfloat
  gp_replan_count :: nat

record planner =
  pl_actions :: "goap_action list"
  pl_saturated :: "(string, nat) dict"
  pl_blocked :: "string list"
  pl_recent :: "string list"

definition std_action ::
    "string \<Rightarrow> string \<Rightarrow> string \<Rightarrow> pyfloat \<Rightarrow> string \<Rightarrow> string list \<Rightarrow> string \<Rightarrow> string list \<Rightarrow> string list \<Rightarrow>
     bool \<Rightarrow> goap_action"
where
  "std_action i title family cost risk pre eff crit tools rollback =
     \<lparr>ga_id = i, ga_title = title, ga_family = family, ga_preconditions = map (\<lambda>k. (k, PBool True)) pre,
       ga_effects = [(eff, PBool True)], ga_risk = risk, ga_cost = cost, ga_required_tools = tools,
       ga_requires_rollback = rollback, ga_success_criteria = crit, ga_cooldown_family = [],
       ga_blocked = False\<rparr>"

definition standard_actions :: "goap_action list" where
  "standard_actions =
     [std_action ''analyze-repo'' ''Analyze repository state'' ''observation'' 1 ''low'' [] ''repo_analyzed''
        [''Git status checked'', ''File structure known''] [''git'', ''filesystem''] False,
      std_action ''run-tests'' ''Run test suite'' ''observation'' 2 ''low'' [''repo_analyzed''] ''tests_pass''
        [''pytest returns 0''] [''test''] False,
      std_action ''identify-target'' ''Identify target files'' ''synthesis'' 1 ''low'' [''repo_analyzed'']
        ''target_identified'' [''Target files listed''] [''filesystem''] False,
      std_action ''generate-patch'' ''Generate patch proposal'' ''code_patch'' 3 ''medium''
        [''target_identified''] ''patch_ready'' [''Patch generated'', ''Diff preview available'']
        [''filesystem''] False,
      std_action ''validate-patch'' ''Validate patch proposal'' ''review_gate'' 1 ''low'' [''patch_ready'']
        ''patch_validated'' [''No secrets in patch'', ''No binary files''] [''filesystem''] False,
      std_action ''apply-patch'' ''Apply validated patch'' ''code_patch'' 2 ''medium'' [''patch_validated'']
        ''patch_applied'' [''Files modified successfully''] [''filesystem''] True,
      std_action ''run-tests-after'' ''Run tests after changes'' ''test_repair'' 2 ''low'' [''patch_applied'']
        ''tests_pass_after'' [''All tests pass''] [''test''] False,
      std_action ''update-docs'' ''Update documentation'' ''documentation'' 1 ''low'' [''patch_applied'']
        ''docs_updated'' [''Docs reflect changes''] [''filesystem''] False,
      std_action ''prepare-commit'' ''Prepare git commit'' ''branch_pr_plan'' 1 ''medium'' [''tests_pass_after'']
        ''commit_ready'' [''Commit message clear'', ''No secret files staged''] [''git''] False,
      std_action ''generate-report'' ''Generate decision report'' ''school_report'' 1 ''low'' [''commit_ready'']
        ''report_generated'' [''Report contains steps, outcomes, decisions''] [] False]"

definition new_planner :: "goap_action list \<Rightarrow> planner" where
  "new_planner library =
     \<lparr>pl_actions = (if library = [] then standard_actions else library), pl_saturated = [],
       pl_blocked = [], pl_recent = []\<rparr>"

section \<open>Eligibility and scores\<close>

definition family_of :: "goap_action \<Rightarrow> string" where
  "family_of a = (if ga_cooldown_family a = [] then ga_family a else ga_cooldown_family a)"

definition is_eligible :: "planner \<Rightarrow> props \<Rightarrow> goap_action \<Rightarrow> bool" where
  "is_eligible p s a \<longleftrightarrow>
     \<not> ga_blocked a \<and> ga_id a \<notin> set (pl_blocked p) \<and> satisfies s (ga_preconditions a) \<and>
     \<not> dget_or (pl_saturated p) (family_of a) 0 \<ge> 3"

definition get_eligible_actions :: "planner \<Rightarrow> props \<Rightarrow> goap_action list" where
  "get_eligible_actions p s = filter (is_eligible p s) (pl_actions p)"

definition risk_penalty :: "string \<Rightarrow> pyfloat" where
  "risk_penalty r = dget_or [(''low'', 0), (''medium'', 1), (''high'', 3), (''critical'', 10)] r 5"

definition score_action :: "planner \<Rightarrow> goap_action \<Rightarrow> props \<Rightarrow> pyfloat" where
  "score_action p a goal =
     (10 * of_nat (length (filter (\<lambda>(k, v). case dget goal k of None \<Rightarrow> False | Some g \<Rightarrow> py_eq g v)
        (ga_effects a)))
      - ga_cost a - of_nat (count_list (pl_recent p) (family_of a)) * 2) - risk_penalty (ga_risk a)"

text \<open>The indices of the library that are eligible and not used: the objects whose costs the
  history may raise. Reading the history stops at the first exception.\<close>

definition candidates :: "planner \<Rightarrow> props \<Rightarrow> string list \<Rightarrow> nat list" where
  "candidates p s used =
     filter (\<lambda>i. is_eligible p s (pl_actions p ! i) \<and> ga_id (pl_actions p ! i) \<notin> set used)
       [0..<length (pl_actions p)]"

fun raise_costs ::
    "(pyval \<Rightarrow> string \<Rightarrow> nat option) \<Rightarrow> pyval \<Rightarrow> nat list \<Rightarrow> goap_action list \<Rightarrow> goap_action list" where
  "raise_costs hist gt [] lib = lib"
| "raise_costs hist gt (i # is) lib =
     (case hist gt (ga_family (lib ! i)) of
        None \<Rightarrow> lib
      | Some failed \<Rightarrow>
          raise_costs hist gt is
            (if failed \<ge> 2 then lib[i := (lib ! i)\<lparr>ga_cost := ga_cost (lib ! i) * (3 / 2)\<rparr>] else lib))"

text \<open>The first element of the highest score, as the stable sort in reverse order puts it.\<close>

fun best_by :: "('a \<Rightarrow> pyfloat) \<Rightarrow> 'a \<Rightarrow> 'a list \<Rightarrow> 'a" where
  "best_by f b [] = b"
| "best_by f b (x # xs) = best_by f (if f x > f b then x else b) xs"

section \<open>Plan generation\<close>

record search =
  se_planner :: planner
  se_state :: props
  se_used :: "string list"
  se_actions :: "goap_action list"
  se_cost :: pyfloat

fun forward_chain :: "(pyval \<Rightarrow> string \<Rightarrow> nat option) \<Rightarrow> nat \<Rightarrow> props \<Rightarrow> search \<Rightarrow> search" where
  "forward_chain hist 0 goal se = se"
| "forward_chain hist (Suc n) goal se =
     (if satisfies (se_state se) goal then se
      else
        (case candidates (se_planner se) (se_state se) (se_used se) of
           [] \<Rightarrow> se
         | i # is \<Rightarrow>
             (let lib = raise_costs hist (dget_or goal ''type'' (PStr [])) (i # is) (pl_actions (se_planner se));
                  p = (se_planner se)\<lparr>pl_actions := lib\<rparr>;
                  best = lib ! best_by (\<lambda>j. score_action p (lib ! j) goal) i is
              in forward_chain hist n goal
                   \<lparr>se_planner = p, se_state = apply_effects (se_state se) (ga_effects best),
                     se_used = ga_id best # se_used se, se_actions = se_actions se @ [best],
                     se_cost = se_cost se + ga_cost best\<rparr>)))"

fun fallback_from :: "string list \<Rightarrow> props \<Rightarrow> props \<Rightarrow> goap_action list \<Rightarrow> goap_action list" where
  "fallback_from blocked goal s [] = []"
| "fallback_from blocked goal s (a # as) =
     (if ga_blocked a \<or> ga_id a \<in> set blocked then fallback_from blocked goal s as
      else if satisfies s (ga_preconditions a) then
        (let s' = apply_effects s (ga_effects a)
         in a # (if satisfies s' goal then [] else fallback_from blocked goal s' as))
      else fallback_from blocked goal s as)"

definition fallback_plan :: "planner \<Rightarrow> props \<Rightarrow> props \<Rightarrow> goap_action list" where
  "fallback_plan p goal s = fallback_from (pl_blocked p) goal s (pl_actions p)"

definition generate_plan ::
    "(pyval \<Rightarrow> string \<Rightarrow> nat option) \<Rightarrow> planner \<Rightarrow> props \<Rightarrow> props \<Rightarrow> string \<Rightarrow> int \<Rightarrow> planner \<times> goap_plan" where
  "generate_plan hist p goal s mission max_steps =
     (let se = forward_chain hist (nat max_steps) goal
            \<lparr>se_planner = p, se_state = s, se_used = [], se_actions = [], se_cost = 0\<rparr>;
          p' = se_planner se;
          acts = (if se_actions se = [] then fallback_plan p' goal s else se_actions se);
          cost = (if se_actions se = [] then sum_list (map ga_cost acts) else se_cost se)
      in (p', \<lparr>gp_mission_id = mission, gp_goal = goal, gp_actions = acts, gp_initial_state = s,
           gp_status = ''created'', gp_total_cost = cost, gp_replan_count = 0\<rparr>))"

definition replan_after_failure ::
    "(pyval \<Rightarrow> string \<Rightarrow> nat option) \<Rightarrow> planner \<Rightarrow> goap_plan \<Rightarrow> string \<Rightarrow> props \<Rightarrow> planner \<times> goap_plan" where
  "replan_after_failure hist p plan failed_id s =
     (let p1 = p\<lparr>pl_blocked := failed_id # pl_blocked p\<rparr>;
          p2 = (case find_first (\<lambda>a. ga_id a = failed_id) (gp_actions plan) of
                  None \<Rightarrow> p1
                | Some a \<Rightarrow> p1\<lparr>pl_saturated := dset (pl_saturated p1) (family_of a)
                                (dget_or (pl_saturated p1) (family_of a) 0 + 1),
                              pl_recent := pl_recent p1 @ [family_of a]\<rparr>);
          (p3, new) = generate_plan hist p2 (gp_goal plan) s (gp_mission_id plan) 20
      in (p3, new\<lparr>gp_replan_count := gp_replan_count plan + 1, gp_status := ''created''\<rparr>))"

section \<open>What a plan guarantees\<close>

text \<open>The actions can be carried out in order: each one's preconditions hold when its turn comes.\<close>

fun executable_from :: "props \<Rightarrow> goap_action list \<Rightarrow> bool" where
  "executable_from s [] = True"
| "executable_from s (a # as) \<longleftrightarrow>
     satisfies s (ga_preconditions a) \<and> executable_from (apply_effects s (ga_effects a)) as"

definition state_after :: "props \<Rightarrow> goap_action list \<Rightarrow> props" where
  "state_after s as = foldl (\<lambda>s a. apply_effects s (ga_effects a)) s as"

lemma executable_snoc:
  "executable_from s (as @ [a]) \<longleftrightarrow> executable_from s as \<and> satisfies (state_after s as) (ga_preconditions a)"
  by (induction as arbitrary: s) (auto simp: state_after_def)

lemma state_after_snoc [simp]: "state_after s (as @ [a]) = apply_effects (state_after s as) (ga_effects a)"
  by (simp add: state_after_def)

lemma state_after_Nil [simp]: "state_after s [] = s"
  by (simp add: state_after_def)

text \<open>Costs may change, nothing else of a library does.\<close>

definition same_but_cost :: "goap_action \<Rightarrow> goap_action \<Rightarrow> bool" where
  "same_but_cost a b \<longleftrightarrow> a\<lparr>ga_cost := 0\<rparr> = b\<lparr>ga_cost := 0\<rparr>"

lemma same_but_cost_refl [simp]: "same_but_cost a a"
  by (simp add: same_but_cost_def)

lemma same_but_cost_trans: "same_but_cost a b \<Longrightarrow> same_but_cost b c \<Longrightarrow> same_but_cost a c"
  by (simp add: same_but_cost_def)

lemma same_but_cost_fields:
  assumes "same_but_cost a b"
  shows "ga_id a = ga_id b" "ga_blocked a = ga_blocked b" "ga_preconditions a = ga_preconditions b"
    "ga_effects a = ga_effects b" "family_of a = family_of b"
  using assms by (cases a; cases b; simp add: same_but_cost_def family_of_def)+

abbreviation same_library :: "goap_action list \<Rightarrow> goap_action list \<Rightarrow> bool" where
  "same_library \<equiv> list_all2 same_but_cost"

lemma same_library_refl [simp]: "same_library xs xs"
  by (simp add: list.rel_refl)

lemma same_library_trans: "same_library a b \<Longrightarrow> same_library b c \<Longrightarrow> same_library a c"
  by (rule list_all2_trans [OF same_but_cost_trans])

lemma same_but_cost_cost: "same_but_cost a (a\<lparr>ga_cost := c\<rparr>)"
  by (simp add: same_but_cost_def)

lemma same_library_update:
  "same_library lib (if b then lib[i := (lib ! i)\<lparr>ga_cost := c\<rparr>] else lib)"
proof -
  have "same_but_cost (lib ! k) (lib[i := (lib ! i)\<lparr>ga_cost := c\<rparr>] ! k)" if "k < length lib" for k
    using that by (cases "k = i") (simp_all add: same_but_cost_cost)
  then show ?thesis by (simp add: list_all2_conv_all_nth)
qed

lemma raise_costs_same: "same_library lib (raise_costs hist gt is lib)"
proof (induction hist gt "is" lib rule: raise_costs.induct)
  case (2 hist gt i "is" lib)
  show ?case
  proof (cases "hist gt (ga_family (lib ! i))")
    case (Some failed)
    let ?lib = "if failed \<ge> 2 then lib[i := (lib ! i)\<lparr>ga_cost := ga_cost (lib ! i) * (3 / 2)\<rparr>] else lib"
    have "same_library lib ?lib"
      by (rule same_library_update)
    from same_library_trans [OF this 2 [OF Some]] Some show ?thesis by simp
  qed simp
qed simp

lemma best_by_in: "best_by f b xs \<in> set (b # xs)"
  by (induction f b xs rule: best_by.induct) auto

lemma best_by_max: "x \<in> set (b # xs) \<Longrightarrow> f x \<le> f (best_by f b xs)"
proof (induction f b xs arbitrary: x rule: best_by.induct)
  case (2 f b y ys)
  let ?m = "if f y > f b then y else b"
  have "f ?m \<le> f (best_by f ?m ys)" using 2(1) [of ?m] by simp
  moreover have "z \<in> set ys \<Longrightarrow> f z \<le> f (best_by f ?m ys)" for z using 2(1) [of z] by simp
  ultimately show ?case using 2(2) by (auto split: if_splits)
qed simp

text \<open>The invariant of the search.\<close>

definition planned_ok :: "planner \<Rightarrow> props \<Rightarrow> search \<Rightarrow> bool" where
  "planned_ok p0 s0 se \<longleftrightarrow>
     same_library (pl_actions p0) (pl_actions (se_planner se)) \<and>
     pl_blocked (se_planner se) = pl_blocked p0 \<and> pl_saturated (se_planner se) = pl_saturated p0 \<and>
     pl_recent (se_planner se) = pl_recent p0 \<and>
     se_state se = state_after s0 (se_actions se) \<and> executable_from s0 (se_actions se) \<and>
     se_used se = rev (map ga_id (se_actions se)) \<and> distinct (map ga_id (se_actions se)) \<and>
     list_all (\<lambda>a. ga_id a \<notin> set (pl_blocked p0) \<and> \<not> ga_blocked a \<and>
       dget_or (pl_saturated p0) (family_of a) 0 < 3 \<and>
       list_ex (same_but_cost a) (pl_actions p0)) (se_actions se)"

lemma forward_chain_ok:
  "planned_ok p0 s0 se \<Longrightarrow> planned_ok p0 s0 (forward_chain hist n goal se)"
proof (induction n arbitrary: se)
  case (Suc n)
  show ?case
  proof (cases "satisfies (se_state se) goal \<or> candidates (se_planner se) (se_state se) (se_used se) = []")
    case True
    with Suc.prems show ?thesis by (auto split: list.splits)
  next
    case False
    then obtain i "is" where c: "candidates (se_planner se) (se_state se) (se_used se) = i # is"
      by (cases "candidates (se_planner se) (se_state se) (se_used se)") auto
    define lib0 where "lib0 = pl_actions (se_planner se)"
    define lib where "lib = raise_costs hist (dget_or goal ''type'' (PStr [])) (i # is) lib0"
    define p where "p = (se_planner se)\<lparr>pl_actions := lib\<rparr>"
    define j where "j = best_by (\<lambda>j. score_action p (lib ! j) goal) i is"
    define best where "best = lib ! j"
    have "j \<in> set (candidates (se_planner se) (se_state se) (se_used se))"
      unfolding c j_def by (rule best_by_in)
    then have j: "j < length lib0" "is_eligible (se_planner se) (se_state se) (lib0 ! j)"
      "ga_id (lib0 ! j) \<notin> set (se_used se)"
      by (auto simp: candidates_def lib0_def)
    have sl: "same_library lib0 lib" unfolding lib_def by (rule raise_costs_same)
    then have sb: "same_but_cost (lib0 ! j) best" using j(1) by (simp add: best_def list_all2_conv_all_nth)
    note fs = same_but_cost_fields [OF sb]
    have lib_p0: "same_library (pl_actions p0) lib"
    proof -
      have "same_library (pl_actions p0) lib0" using Suc.prems by (simp add: planned_ok_def lib0_def)
      from same_library_trans [OF this sl] show ?thesis .
    qed
    have "\<exists>a \<in> set (pl_actions p0). same_but_cost best a"
    proof -
      have "j < length lib" using sl j(1) by (simp add: list_all2_lengthD)
      with lib_p0 have "same_but_cost (pl_actions p0 ! j) best" "j < length (pl_actions p0)"
        by (auto simp: best_def list_all2_conv_all_nth)
      then show ?thesis by (intro bexI [of _ "pl_actions p0 ! j"]) (simp_all add: same_but_cost_def)
    qed
    then have ex: "list_ex (same_but_cost best) (pl_actions p0)" by (auto simp: list_ex_iff)
    have el: "\<not> ga_blocked best" "ga_id best \<notin> set (pl_blocked p0)"
      "satisfies (se_state se) (ga_preconditions best)" "dget_or (pl_saturated p0) (family_of best) 0 < 3"
      using j(2) fs Suc.prems by (simp_all add: is_eligible_def planned_ok_def)
    have new: "ga_id best \<notin> set (map ga_id (se_actions se))"
      using j(3) fs(1) Suc.prems by (simp add: planned_ok_def)
    have "planned_ok p0 s0 \<lparr>se_planner = p, se_state = apply_effects (se_state se) (ga_effects best),
        se_used = ga_id best # se_used se, se_actions = se_actions se @ [best],
        se_cost = se_cost se + ga_cost best\<rparr>"
      using Suc.prems el new ex lib_p0 by (simp add: planned_ok_def p_def executable_snoc)
    from Suc.IH [OF this] show ?thesis
      using False c by (simp add: Let_def lib0_def lib_def p_def j_def best_def)
  qed
qed simp

lemma forward_chain_length:
  "length (se_actions (forward_chain hist n goal se)) \<le> length (se_actions se) + n"
proof (induction n arbitrary: se)
  case (Suc n)
  show ?case
    using Suc.IH by (auto simp: Let_def split: list.splits intro: order_trans [OF Suc.IH])
qed simp

lemma fallback_executable: "executable_from s (fallback_from blocked goal s as)"
  by (induction blocked goal s as rule: fallback_from.induct) (simp_all add: Let_def)

lemma fallback_unblocked:
  "a \<in> set (fallback_from blocked goal s as) \<Longrightarrow> a \<in> set as \<and> \<not> ga_blocked a \<and> ga_id a \<notin> set blocked"
proof (induction blocked goal s as rule: fallback_from.induct)
  case (2 blocked goal s b as)
  then show ?case by (auto simp: Let_def split: if_splits)
qed simp

lemma generate_plan_planner:
  assumes "generate_plan hist p goal s mission n = (p', plan)"
  shows "same_library (pl_actions p) (pl_actions p')" "pl_blocked p' = pl_blocked p"
    "pl_saturated p' = pl_saturated p" "pl_recent p' = pl_recent p"
proof -
  let ?se = "\<lparr>se_planner = p, se_state = s, se_used = [], se_actions = [], se_cost = 0\<rparr>"
  have "planned_ok p s ?se" by (simp add: planned_ok_def)
  from forward_chain_ok [OF this, of hist "nat n" goal] assms
  show "same_library (pl_actions p) (pl_actions p')" "pl_blocked p' = pl_blocked p"
    "pl_saturated p' = pl_saturated p" "pl_recent p' = pl_recent p"
    by (auto simp: generate_plan_def Let_def planned_ok_def)
qed

lemma generated_plan_library:
  assumes "generate_plan hist p goal s mission n = (p', plan)"
  shows "executable_from s (gp_actions plan) \<and>
    list_all (\<lambda>a. \<not> ga_blocked a \<and> ga_id a \<notin> set (pl_blocked p) \<and>
      list_ex (same_but_cost a) (pl_actions p)) (gp_actions plan)"
proof -
  let ?se = "\<lparr>se_planner = p, se_state = s, se_used = [], se_actions = [], se_cost = 0\<rparr>"
  let ?r = "forward_chain hist (nat n) goal ?se"
  have "planned_ok p s ?se" by (simp add: planned_ok_def)
  then have ok: "planned_ok p s ?r" by (rule forward_chain_ok)
  show ?thesis
  proof (cases "se_actions ?r = []")
    case False
    with assms ok show ?thesis by (auto simp: generate_plan_def Let_def planned_ok_def list_all_iff)
  next
    case True
    then have g: "gp_actions plan = fallback_from (pl_blocked p) goal s (pl_actions (se_planner ?r))"
      using assms ok by (auto simp: generate_plan_def fallback_plan_def Let_def planned_ok_def)
    have "list_ex (same_but_cost a) (pl_actions p)" if a: "a \<in> set (pl_actions (se_planner ?r))" for a
    proof -
      from a obtain k where "k < length (pl_actions (se_planner ?r))" "a = pl_actions (se_planner ?r) ! k"
        by (metis in_set_conv_nth)
      with ok have "same_but_cost (pl_actions p ! k) a" "k < length (pl_actions p)"
        by (auto simp: planned_ok_def list_all2_conv_all_nth)
      then show ?thesis unfolding list_ex_iff
        by (intro bexI [of _ "pl_actions p ! k"]) (simp_all add: same_but_cost_def)
    qed
    then show ?thesis
      unfolding g list_all_iff
      using fallback_executable fallback_unblocked [of _ "pl_blocked p" goal s "pl_actions (se_planner ?r)"]
      by blast
  qed
qed

text \<open>C30. Every plan the planner generates can be carried out: the preconditions of each action hold in
  the state that the effects of the actions before it leave, no action of it is blocked, and every
  action is one of the library up to its cost. This holds of the greedy search and of the fallback.\<close>

theorem generated_plan_is_executable:
  assumes "generate_plan hist p goal s mission n = (p', plan)"
  shows "executable_from s (gp_actions plan) \<and>
    list_all (\<lambda>a. \<not> ga_blocked a \<and> ga_id a \<notin> set (pl_blocked p) \<and>
      list_ex (same_but_cost a) (pl_actions p)) (gp_actions plan)"
  by (rule generated_plan_library [OF assms])

definition no_history :: "pyval \<Rightarrow> string \<Rightarrow> nat option" where
  "no_history gt family = Some 0"

definition commit_goal :: props where "commit_goal = [(''patch_ready'', PBool True)]"

lemma commit_run:
  "map ga_id (gp_actions (snd (generate_plan no_history (new_planner []) commit_goal default_state [] 20)))
     = [''analyze-repo'', ''identify-target'', ''generate-patch'']"
  by code_simp

theorem generated_plan_is_executable_witness:
  "executable_from default_state
     (gp_actions (snd (generate_plan no_history (new_planner []) commit_goal default_state [] 20)))"
proof -
  obtain p' plan where r: "generate_plan no_history (new_planner []) commit_goal default_state [] 20 = (p', plan)"
    by fastforce
  from generated_plan_is_executable [OF r] r show ?thesis by simp
qed

lemma forward_chain_stops:
  "length (se_actions (forward_chain hist n goal se)) < length (se_actions se) + n \<Longrightarrow>
   (let r = forward_chain hist n goal se in
     satisfies (se_state r) goal \<or> candidates (se_planner r) (se_state r) (se_used r) = [])"
proof (induction n arbitrary: se)
  case (Suc n)
  show ?case
  proof (cases "satisfies (se_state se) goal \<or> candidates (se_planner se) (se_state se) (se_used se) = []")
    case True
    then show ?thesis by (auto simp: Let_def split: list.splits)
  next
    case False
    then show ?thesis
      using Suc by (auto simp: Let_def split: list.splits)
  qed
qed simp

text \<open>The greedy search never uses an action id twice nor a family saturated by three failures,
  and takes at most the allowed number of steps; it stops before that only when the goal is
  satisfied or no eligible action is left.\<close>

theorem greedy_search_bounds:
  assumes "se_actions (forward_chain hist n goal \<lparr>se_planner = p, se_state = s, se_used = [],
      se_actions = [], se_cost = 0\<rparr>) = acts"
  shows "length acts \<le> n \<and> distinct (map ga_id acts) \<and>
    list_all (\<lambda>a. dget_or (pl_saturated p) (family_of a) 0 < 3) acts \<and>
    (length acts < n \<longrightarrow>
      (let r = forward_chain hist n goal \<lparr>se_planner = p, se_state = s, se_used = [], se_actions = [], se_cost = 0\<rparr>
       in satisfies (state_after s acts) goal \<or> candidates (se_planner r) (state_after s acts) (se_used r) = []))"
proof -
  let ?se = "\<lparr>se_planner = p, se_state = s, se_used = [], se_actions = [], se_cost = 0\<rparr>"
  have "planned_ok p s ?se" by (simp add: planned_ok_def)
  then have ok: "planned_ok p s (forward_chain hist n goal ?se)" by (rule forward_chain_ok)
  have st: "se_state (forward_chain hist n goal ?se) = state_after s acts"
    using ok assms by (simp add: planned_ok_def)
  have stop: "length acts < n \<longrightarrow> (let r = forward_chain hist n goal ?se in
      satisfies (se_state r) goal \<or> candidates (se_planner r) (se_state r) (se_used r) = [])"
    using forward_chain_stops [of hist n goal ?se] assms by simp
  have "length acts \<le> n" using forward_chain_length [of hist n goal ?se] assms by simp
  moreover have "distinct (map ga_id acts)" "list_all (\<lambda>a. dget_or (pl_saturated p) (family_of a) 0 < 3) acts"
    using ok assms by (auto simp: planned_ok_def list_all_iff)
  ultimately show ?thesis using stop unfolding Let_def st by blast
qed

theorem greedy_search_bounds_witness:
  "length (se_actions (forward_chain no_history 2 commit_goal \<lparr>se_planner = new_planner [],
     se_state = default_state, se_used = [], se_actions = [], se_cost = 0\<rparr>)) \<le> 2"
  using greedy_search_bounds [OF refl, of no_history 2 commit_goal "new_planner []" default_state] by blast

section \<open>Replanning\<close>

lemma replan_blocked:
  assumes "replan_after_failure hist p plan failed_id s = (p', plan')"
  shows "set (pl_blocked p') = insert failed_id (set (pl_blocked p))"
    and "list_all (\<lambda>a. ga_id a \<notin> insert failed_id (set (pl_blocked p))) (gp_actions plan')"
    and "gp_replan_count plan' = gp_replan_count plan + 1"
proof -
  obtain p2 new where g: "generate_plan hist p2 (gp_goal plan) s (gp_mission_id plan) 20 = (p', new)"
    and p2: "pl_blocked p2 = failed_id # pl_blocked p"
    and new: "gp_actions plan' = gp_actions new" "gp_replan_count plan' = gp_replan_count plan + 1"
    using assms unfolding replan_after_failure_def Let_def by (auto split: prod.splits option.splits)
  show "set (pl_blocked p') = insert failed_id (set (pl_blocked p))"
    using generate_plan_planner(2) [OF g] p2 by simp
  show "list_all (\<lambda>a. ga_id a \<notin> insert failed_id (set (pl_blocked p))) (gp_actions plan')"
    using generated_plan_library [OF g] p2 new(1) by (simp add: list_all_iff)
  show "gp_replan_count plan' = gp_replan_count plan + 1" by (rule new(2))
qed

text \<open>A run of failures: each replans the current plan.\<close>

fun replans ::
    "(pyval \<Rightarrow> string \<Rightarrow> nat option) \<Rightarrow> planner \<times> goap_plan \<Rightarrow> (string \<times> props) list \<Rightarrow> planner \<times> goap_plan" where
  "replans hist (p, plan) [] = (p, plan)"
| "replans hist (p, plan) ((i, s) # fs) = replans hist (replan_after_failure hist p plan i s) fs"

lemma replans_blocked:
  assumes "list_all (\<lambda>a. ga_id a \<notin> set (pl_blocked p)) (gp_actions plan)"
    and "replans hist (p, plan) fs = (p', plan')"
  shows "set (pl_blocked p') = set (pl_blocked p) \<union> fst ` set fs \<and>
    list_all (\<lambda>a. ga_id a \<notin> set (pl_blocked p')) (gp_actions plan') \<and>
    gp_replan_count plan' = gp_replan_count plan + length fs"
  using assms
proof (induction fs arbitrary: p plan)
  case (Cons f fs)
  obtain i s where f: "f = (i, s)" by fastforce
  obtain p1 plan1 where r: "replan_after_failure hist p plan i s = (p1, plan1)" by fastforce
  note b = replan_blocked [OF r]
  have "list_all (\<lambda>a. ga_id a \<notin> set (pl_blocked p1)) (gp_actions plan1)" using b(1,2) by simp
  moreover have "replans hist (p1, plan1) fs = (p', plan')" using Cons.prems(2) by (simp add: f r)
  ultimately have "set (pl_blocked p') = set (pl_blocked p1) \<union> fst ` set fs \<and>
      list_all (\<lambda>a. ga_id a \<notin> set (pl_blocked p')) (gp_actions plan') \<and>
      gp_replan_count plan' = gp_replan_count plan1 + length fs" by (rule Cons.IH)
  with b(1,3) show ?case by (auto simp: f)
qed simp

text \<open>Replanning learns: after any sequence of failures, the current plan holds none of the
  actions that failed, and its replan count is the number of failures.\<close>

theorem failed_actions_never_return:
  assumes "replans hist (p, plan) fs = (p', plan')" and "fs \<noteq> []"
  shows "list_all (\<lambda>a. ga_id a \<notin> fst ` set fs) (gp_actions plan') \<and>
    gp_replan_count plan' = gp_replan_count plan + length fs"
proof -
  obtain i s fs' where fs: "fs = (i, s) # fs'" using assms(2) by (cases fs) auto
  obtain p1 plan1 where r: "replan_after_failure hist p plan i s = (p1, plan1)" by fastforce
  note b = replan_blocked [OF r]
  have "list_all (\<lambda>a. ga_id a \<notin> set (pl_blocked p1)) (gp_actions plan1)" using b(1,2) by simp
  moreover have "replans hist (p1, plan1) fs' = (p', plan')" using assms(1) by (simp add: fs r)
  ultimately show ?thesis using replans_blocked [of p1 plan1 hist fs' p' plan'] b
    by (auto simp: fs list_all_iff)
qed

theorem failed_actions_never_return_witness:
  "list_all (\<lambda>a. ga_id a \<noteq> ''generate-patch'') (gp_actions (snd (replans no_history
     (generate_plan no_history (new_planner []) commit_goal default_state [] 20)
     [(''generate-patch'', default_state), (''run-tests'', default_state)])))"
proof -
  obtain p plan where g: "generate_plan no_history (new_planner []) commit_goal default_state [] 20 = (p, plan)"
    by fastforce
  obtain p' plan' where r: "replans no_history (p, plan)
      [(''generate-patch'', default_state), (''run-tests'', default_state)] = (p', plan')"
    by fastforce
  from failed_actions_never_return [OF r] show ?thesis
    unfolding g r by (auto simp: list_all_iff)
qed

text \<open>Asked for a goal that already holds, the planner does not return an empty plan: the search
  stops at once, the fallback takes an empty search for a failed one, and its first possible action
  is planned before the goal is looked at.\<close>

theorem satisfied_goal_still_plans:
  assumes "satisfies s goal" and "pl_actions p = a # as"
    and "\<not> ga_blocked a" "ga_id a \<notin> set (pl_blocked p)" "satisfies s (ga_preconditions a)"
  shows "\<exists>rest. gp_actions (snd (generate_plan hist p goal s mission n)) = a # rest"
proof -
  have "forward_chain hist (nat n) goal
      \<lparr>se_planner = p, se_state = s, se_used = [], se_actions = [], se_cost = 0\<rparr> =
      \<lparr>se_planner = p, se_state = s, se_used = [], se_actions = [], se_cost = 0\<rparr>"
    using assms(1) by (cases "nat n") simp_all
  then show ?thesis using assms by (simp add: generate_plan_def fallback_plan_def Let_def)
qed

theorem satisfied_goal_still_plans_witness:
  "\<exists>a rest. gp_actions (snd (generate_plan no_history (new_planner []) [(''budget_ok'', PBool True)] default_state [] 20))
     = a # rest"
proof -
  have "satisfies default_state [(''budget_ok'', PBool True)]"
    "\<not> ga_blocked (hd standard_actions)" "satisfies default_state (ga_preconditions (hd standard_actions))"
    by code_simp+
  moreover have "pl_actions (new_planner []) = hd standard_actions # tl standard_actions"
    "ga_id (hd standard_actions) \<notin> set (pl_blocked (new_planner []))"
    by (simp_all add: new_planner_def standard_actions_def)
  ultimately show ?thesis using satisfied_goal_still_plans by blast
qed

section \<open>Plans proposed by a language model\<close>

text \<open>The actions of a proposal, every field still an arbitrary value.\<close>

record raw_action =
  ra_fields :: props
  ra_family :: pyval
  ra_risk :: pyval

definition known_family :: "pyval \<Rightarrow> bool" where
  "known_family v = (case v of PStr f \<Rightarrow> f \<in> set ACTION_FAMILIES | _ \<Rightarrow> False)"

definition known_risk :: "pyval \<Rightarrow> bool" where
  "known_risk v = (case v of PStr r \<Rightarrow> r \<in> set [''low'', ''medium'', ''high'', ''critical''] | _ \<Rightarrow> False)"

text \<open>\<open>Some None\<close> is never returned; \<open>None\<close> rejects the whole proposal.\<close>

fun parse_actions :: "pyval list \<Rightarrow> raw_action list option" where
  "parse_actions [] = Some []"
| "parse_actions (PDict a # as) =
     (if \<not> truthy (dget_or a ''title'' PNone) then None
      else if \<not> truthy (dget_or a ''success_criteria'' PNone) then None
      else
        (let risk = dget_or a ''risk'' (PStr ''low'');
             family = dget_or a ''family'' (PStr ''other'')
         in if \<not> known_risk risk then None
            else map_option ((#) \<lparr>ra_fields = a,
                ra_family = (if known_family family then family else PStr ''other''), ra_risk = risk\<rparr>)
              (parse_actions as)))"
| "parse_actions (_ # as) = None"

text \<open>A sum that is not finite has no value.\<close>

fun sum_costs :: "raw_action list \<Rightarrow> py_error + pyfloat option" where
  "sum_costs [] = Inr (Some 0)"
| "sum_costs (a # as) =
     (case dget_or (ra_fields a) ''cost'' (PFloat 1) of
        PNonFinite x \<Rightarrow> map_sum id (\<lambda>_. None) (sum_costs as)
      | cost \<Rightarrow>
          (case py_number cost of
             None \<Rightarrow> Inl TypeError
           | Some c \<Rightarrow> map_sum id (map_option (\<lambda>t. c + t)) (sum_costs as)))"

record llm_plan =
  lp_goal :: pyval
  lp_actions :: "raw_action list"
  lp_total_cost :: "pyfloat option"

text \<open>\<^verbatim>\<open>'actions' not in raw_plan\<close> on whatever \<^verbatim>\<open>json.loads\<close> returned, then the
  attribute access: a list or a text that contains the word passes the test and has no
  \<^verbatim>\<open>get\<close>, a true number has no membership test at all.\<close>

definition validate_dict :: "props \<Rightarrow> py_error + llm_plan option" where
  "validate_dict m =
     (if m = [] \<or> dget m ''actions'' = None then Inr None
      else
        (case dget_or m ''actions'' (PList []) of
           PList as \<Rightarrow>
             if as = [] then Inr None
             else
               (case parse_actions as of
                  None \<Rightarrow> Inr None
                | Some acts \<Rightarrow>
                    (case sum_costs acts of
                       Inl e \<Rightarrow> Inl e
                     | Inr c \<Rightarrow> Inr (Some \<lparr>lp_goal = dget_or m ''goal'' (PDict []), lp_actions = acts,
                         lp_total_cost = c\<rparr>)))
         | _ \<Rightarrow> Inr None))"

definition validate_llm_plan :: "(string \<Rightarrow> pyval option) \<Rightarrow> pyval \<Rightarrow> py_error + llm_plan option" where
  "validate_llm_plan json_loads raw =
     (case (case raw of PDict m \<Rightarrow> Some raw | PStr s \<Rightarrow> json_loads s | _ \<Rightarrow> Some PNone) of
        None \<Rightarrow> Inr None
      | Some v \<Rightarrow>
          if \<not> truthy v then Inr None
          else
            (case v of
               PDict m \<Rightarrow> validate_dict m
             | PList xs \<Rightarrow> if list_ex (\<lambda>x. py_eq x (PStr ''actions'')) xs then Inl AttributeError else Inr None
             | PStr s \<Rightarrow> if contains s ''actions'' then Inl AttributeError else Inr None
             | _ \<Rightarrow> Inl TypeError))"

lemma parse_actions_fields:
  "parse_actions as = Some acts \<Longrightarrow>
   list_all (\<lambda>a. truthy (dget_or (ra_fields a) ''title'' PNone) \<and>
     truthy (dget_or (ra_fields a) ''success_criteria'' PNone) \<and>
     known_risk (ra_risk a) \<and> known_family (ra_family a)) acts \<and> length acts = length as"
proof (induction "as" arbitrary: acts rule: parse_actions.induct)
  case (2 a "as")
  then show ?case
    by (auto simp: Let_def known_family_def ACTION_FAMILIES_def split: if_splits)
qed simp_all

lemma validate_dict_actions:
  assumes "validate_dict m = Inr (Some plan)"
  shows "\<exists>as. as \<noteq> [] \<and> parse_actions as = Some (lp_actions plan)"
proof -
  have "\<not> (m = [] \<or> dget m ''actions'' = None)"
    using assms by (simp add: validate_dict_def split: if_splits)
  note eq = assms [unfolded validate_dict_def if_not_P [OF this]]
  obtain "as" where l: "dget_or m ''actions'' (PList []) = PList as"
    using eq by (cases "dget_or m ''actions'' (PList [])") simp_all
  have ne: "as \<noteq> []" using eq unfolding l by (cases "as") simp_all
  obtain acts where p: "parse_actions as = Some acts"
    using eq ne unfolding l by (cases "parse_actions as") simp_all
  have "lp_actions plan = acts"
    using eq ne p unfolding l by (cases "sum_costs acts") auto
  with ne p show ?thesis by blast
qed

text \<open>A language model's plan that is accepted has at least one action, and every action has a
  title, success criteria, one of the four risks and a known family.\<close>

theorem accepted_llm_plan_is_complete:
  assumes "validate_llm_plan json_loads raw = Inr (Some plan)"
  shows "lp_actions plan \<noteq> [] \<and>
    list_all (\<lambda>a. truthy (dget_or (ra_fields a) ''title'' PNone) \<and>
      truthy (dget_or (ra_fields a) ''success_criteria'' PNone) \<and>
      known_risk (ra_risk a) \<and> known_family (ra_family a)) (lp_actions plan)"
proof -
  define x where "x = (case raw of PDict m \<Rightarrow> Some raw | PStr s \<Rightarrow> json_loads s | _ \<Rightarrow> Some PNone)"
  note eq = assms [unfolded validate_llm_plan_def, folded x_def]
  obtain v where x: "x = Some v" using eq by (cases x) simp_all
  have "truthy v" using eq unfolding x by (cases "truthy v") simp_all
  with eq [unfolded x option.case]
  obtain m where "validate_dict m = Inr (Some plan)"
    by (cases v) (simp_all split: if_splits)
  from validate_dict_actions [OF this] obtain "as" where
    "as \<noteq> []" "parse_actions as = Some (lp_actions plan)" by blast
  with parse_actions_fields [of "as" "lp_actions plan"] show ?thesis by (cases "lp_actions plan") simp_all
qed

theorem accepted_llm_plan_is_complete_witness:
  "\<exists>plan. validate_llm_plan (\<lambda>_. None) (PDict [(''actions'', PList [PDict [(''title'', PStr ''Fix it''),
      (''success_criteria'', PList [PStr ''tests pass'']), (''family'', PStr ''magic'')]])]) = Inr (Some plan) \<and>
    lp_actions plan \<noteq> []"
proof -
  have "\<exists>plan. validate_llm_plan (\<lambda>_. None) (PDict [(''actions'', PList [PDict [(''title'', PStr ''Fix it''),
      (''success_criteria'', PList [PStr ''tests pass'']), (''family'', PStr ''magic'')]])]) = Inr (Some plan)"
    by (simp add: validate_llm_plan_def validate_dict_def dget_or_def known_risk_def Let_def)
  then obtain plan where "validate_llm_plan (\<lambda>_. None) (PDict [(''actions'', PList [PDict [(''title'', PStr ''Fix it''),
      (''success_criteria'', PList [PStr ''tests pass'']), (''family'', PStr ''magic'')]])]) = Inr (Some plan)" ..
  with accepted_llm_plan_is_complete [OF this] show ?thesis by blast
qed

text \<open>A proposal that is JSON but not an object is not always rejected with \<^verbatim>\<open>None\<close>: a
  list that holds the text \<^verbatim>\<open>actions\<close> and any true number make the validation raise.\<close>

theorem llm_plan_validation_can_raise:
  "validate_llm_plan (\<lambda>_. Some (PList [PStr ''actions''])) (PStr s) = Inl AttributeError \<and>
   validate_llm_plan (\<lambda>_. Some (PInt 5)) (PStr s) = Inl TypeError"
  by (simp add: validate_llm_plan_def)

end
