(* ===== verification/Dedup.thy ===== *)
theory Dedup
  imports PyStr
begin

text \<open>
  \<^verbatim>\<open>igris/core/anti_loop.py\<close> and \<^verbatim>\<open>igris/core/semantic_dedup.py\<close>: the
  classification of task descriptions into families, the saturation of a family among the
  recent tasks, and the token signature that decides when two descriptions are the same task.
  A \<^verbatim>\<open>set\<close> of tokens is a HOL set, a \<^verbatim>\<open>Counter\<close> the dictionary
  \<open>counter\<close> of the prelude, the similarity an exact rational.
\<close>

section \<open>Anti-loop: task families\<close>

definition classify_task_family :: "string \<Rightarrow> string" where
  "classify_task_family txt =
     (let lowered = py_lower txt in
      if any_in [''test'', ''pytest'', ''unittest''] lowered then ''testing''
      else if any_in [''fix'', ''edit'', ''modify'', ''refactor''] lowered then ''editing''
      else if any_in [''search'', ''find'', ''grep''] lowered then ''search''
      else if any_in [''write'', ''create'', ''generate''] lowered then ''writing''
      else ''other'')"

definition lastn :: "nat \<Rightarrow> 'a list \<Rightarrow> 'a list" where
  "lastn n xs = drop (length xs - n) xs"

definition compute_family_counts :: "string list \<Rightarrow> (string, nat) dict" where
  "compute_family_counts tasks = counter (map classify_task_family (lastn 20 tasks))"

definition saturated_families :: "(string, nat) dict \<Rightarrow> nat \<Rightarrow> string list" where
  "saturated_families counts threshold = map fst (filter (\<lambda>(family, n). threshold \<le> n) counts)"

definition should_force_strategy_shift :: "string list \<Rightarrow> nat \<Rightarrow> bool" where
  "should_force_strategy_shift tasks threshold \<longleftrightarrow>
     saturated_families (compute_family_counts tasks) threshold \<noteq> []"

definition is_observation_like :: "string \<Rightarrow> bool" where
  "is_observation_like task =
     any_in [''check'', ''inspect'', ''view'', ''read'', ''list'', ''show'', ''report''] (py_lower task)"

definition explain_saturation :: "string list \<Rightarrow> nat \<Rightarrow> string" where
  "explain_saturation tasks threshold =
     (let counts = compute_family_counts tasks;
          saturated = map fst (filter (\<lambda>(f, n). threshold \<le> n) counts)
      in if saturated = [] then []
         else ''Saturated families: '' @
           join '', '' (map (\<lambda>fam. fam @ '' ('' @ nat_str (dget_or counts fam 0) @ '')'') saturated))"

definition can_select_family :: "string \<Rightarrow> string list \<Rightarrow> string option \<Rightarrow> nat \<Rightarrow> bool" where
  "can_select_family family history differentiator threshold =
     (let saturated = saturated_families (compute_family_counts history) threshold in
      if family \<notin> set saturated then True
      else (case differentiator of None \<Rightarrow> False | Some d \<Rightarrow> d \<noteq> []))"

definition required_strategy_shift_family :: "string \<Rightarrow> string list \<Rightarrow> nat \<Rightarrow> string option" where
  "required_strategy_shift_family current history threshold =
     (let counts = compute_family_counts history;
          saturated = saturated_families counts threshold in
      if current \<notin> set saturated then None
      else
        (let alternatives = filter (\<lambda>(fam, cnt). fam \<noteq> current) counts in
         if alternatives = [] then None
         else Some (fst (hd (sort_key snd alternatives)))))"

section \<open>Semantic signatures\<close>

definition STOPWORDS :: "string list" where
  "STOPWORDS =
     [''the'', ''a'', ''an'', ''and'', ''or'', ''di'', ''il'', ''la'', ''le'', ''lo'', ''gli'', ''dei'',
      ''delle'', ''del'', ''della'', ''un'', ''una'', ''uno'', ''che'', ''to'', ''da'', ''per'']"

definition CANONICAL_KEYWORDS :: "(string list \<times> string) list" where
  "CANONICAL_KEYWORDS =
     [([''test'', ''testing'', ''pytest'', ''unittest''], ''test''),
      ([''fix'', ''edit'', ''modify'', ''refactor''], ''edit''),
      ([''search'', ''find'', ''grep'', ''ricerca''], ''search''),
      ([''write'', ''create'', ''generate'', ''scrivi'', ''scrivere''], ''write''),
      ([''plan'', ''design'', ''project''], ''plan'')]"

text \<open>\<open>sub_runs P s\<close> is \<^verbatim>\<open>re.sub("[P]+", " ", s)\<close>: each maximal run becomes one space.\<close>

fun sub_runs :: "(char \<Rightarrow> bool) \<Rightarrow> bool \<Rightarrow> string \<Rightarrow> string" where
  "sub_runs P run [] = []"
| "sub_runs P run (c # s) =
     (if P c then (if run then sub_runs P True s else CHR '' '' # sub_runs P True s)
      else c # sub_runs P False s)"

definition normalize_text :: "string \<Rightarrow> string" where
  "normalize_text txt =
     (let lowered = py_lower txt;
          cleaned = sub_runs (\<lambda>c. \<not> is_ascii_alnum c) False lowered
      in strip (sub_runs is_space False cleaned))"

definition canonicalise_token :: "string \<Rightarrow> string" where
  "canonicalise_token token =
     (case find_first (\<lambda>(synonyms, canon). token \<in> set synonyms) CANONICAL_KEYWORDS of
        None \<Rightarrow> token
      | Some (synonyms, canon) \<Rightarrow> canon)"

definition extract_task_signature :: "string \<Rightarrow> string set" where
  "extract_task_signature txt =
     set (map canonicalise_token
       (filter (\<lambda>token. token \<notin> set STOPWORDS) (split_ws (normalize_text txt))))"

definition semantic_fingerprint :: "string \<Rightarrow> string \<Rightarrow> string" where
  "semantic_fingerprint txt family =
     (let parts = sorted_list_of_set (extract_task_signature txt) in
      if family \<noteq> [] then family @ '':'' @ join ''-'' parts else join ''-'' parts)"

definition jaccard :: "string set \<Rightarrow> string set \<Rightarrow> rat" where
  "jaccard a b = of_nat (card (a \<inter> b)) / of_nat (card (a \<union> b))"

definition is_semantic_duplicate :: "string \<Rightarrow> string list \<Rightarrow> bool" where
  "is_semantic_duplicate task recent =
     (let sig_a = extract_task_signature task in
      if sig_a = {} then False
      else list_ex (\<lambda>other. let sig_b = extract_task_signature other in
             sig_b \<noteq> {} \<and> 7 / 10 \<le> jaccard sig_a sig_b) recent)"

text \<open>The sentence of \<^verbatim>\<open>explain_duplicate\<close> is the task, the match and the similarity
  it prints; \<open>None\<close> is the pair \<^verbatim>\<open>(False, "")\<close>.\<close>

fun best_match :: "string set \<Rightarrow> string list \<Rightarrow> rat \<times> string \<Rightarrow> rat \<times> string" where
  "best_match sig_a [] b = b"
| "best_match sig_a (other # rest) b =
     (let sig_b = extract_task_signature other in
      if sig_b = {} then best_match sig_a rest b
      else if jaccard sig_a sig_b > fst b then best_match sig_a rest (jaccard sig_a sig_b, other)
      else best_match sig_a rest b)"

definition explain_duplicate :: "string \<Rightarrow> string list \<Rightarrow> (string \<times> string \<times> rat) option" where
  "explain_duplicate task recent =
     (let (best, match) = best_match (extract_task_signature task) recent (0, []) in
      if 7 / 10 \<le> best \<and> match \<noteq> [] then Some (task, match, best) else None)"

section \<open>Families: what saturation decides\<close>

definition recent_families :: "string list \<Rightarrow> string list" where
  "recent_families tasks = map classify_task_family (lastn 20 tasks)"

lemma saturated_iff:
  "family \<in> set (saturated_families (compute_family_counts tasks) n) \<longleftrightarrow>
     family \<in> set (recent_families tasks) \<and> n \<le> count_list (recent_families tasks) family"
  unfolding saturated_families_def compute_family_counts_def recent_families_def [symmetric]
  by (force simp: counter_in_iff image_iff)

lemma can_select_iff:
  "0 < n \<Longrightarrow> can_select_family family history d n \<longleftrightarrow>
     count_list (recent_families history) family < n \<or> (d \<noteq> None \<and> d \<noteq> Some [])"
  using count_list_0_iff [of "recent_families history" family]
  by (auto simp: can_select_family_def saturated_iff Let_def split: option.splits)

lemma shift_least:
  assumes "required_strategy_shift_family current history n = Some f"
  shows "f \<noteq> current \<and> f \<in> set (recent_families history) \<and>
    current \<in> set (recent_families history) \<and> n \<le> count_list (recent_families history) current \<and>
    (\<forall>g \<in> set (recent_families history). g \<noteq> current \<longrightarrow>
       count_list (recent_families history) f \<le> count_list (recent_families history) g)"
proof -
  let ?r = "recent_families history"
  let ?alts = "filter (\<lambda>(fam, cnt). fam \<noteq> current) (counter ?r)"
  have c: "compute_family_counts history = counter ?r"
    by (simp add: compute_family_counts_def recent_families_def)
  from assms have sat: "current \<in> set (saturated_families (counter ?r) n)" and ne: "?alts \<noteq> []"
    and f: "f = fst (hd (sort_key snd ?alts))"
    by (auto simp: required_strategy_shift_family_def c Let_def split: if_splits)
  obtain p ps where srt: "sort_key snd ?alts = p # ps"
    using ne by (metis list.exhaust length_0_conv length_sort)
  have "p \<in> set ?alts" using srt by (metis list.set_intros(1) set_sort)
  then have p: "fst p \<noteq> current" "fst p \<in> set ?r" "snd p = count_list ?r (fst p)"
    by (auto simp: counter_in_iff)
  have "sorted (map snd (sort_key snd ?alts))" by (rule sorted_sort_key)
  then have least: "\<forall>q \<in> set ?alts. snd p \<le> snd q"
    using srt set_sort [of snd ?alts] by (metis list.simps(9) set_ConsD sorted_simps(2) order_refl image_eqI set_map)
  have "\<forall>g \<in> set ?r. g \<noteq> current \<longrightarrow> snd p \<le> count_list ?r g"
  proof (intro ballI impI)
    fix g assume "g \<in> set ?r" "g \<noteq> current"
    then have "(g, count_list ?r g) \<in> set ?alts" by (simp add: counter_in_iff)
    with least show "snd p \<le> count_list ?r g" by force
  qed
  then show ?thesis using p f srt sat saturated_iff [of current history n] by (simp add: c)
qed

text \<open>The family the anti-loop guard tells the agent to switch to differs from the saturated one,
  occurs among the twenty most recent tasks, and no other family there is rarer.\<close>

theorem strategy_shift_is_least_frequent:
  assumes "required_strategy_shift_family current history n = Some f"
  shows "f \<noteq> current \<and> f \<in> set (recent_families history) \<and>
    current \<in> set (recent_families history) \<and> n \<le> count_list (recent_families history) current \<and>
    (\<forall>g \<in> set (recent_families history). g \<noteq> current \<longrightarrow>
       count_list (recent_families history) f \<le> count_list (recent_families history) g)"
  using shift_least [OF assms] .

theorem strategy_shift_is_least_frequent_witness:
  "''editing'' \<in> set (recent_families [''run test'', ''fix it'', ''test b'', ''test c''])"
proof -
  have "required_strategy_shift_family ''testing'' [''run test'', ''fix it'', ''test b'', ''test c''] 3 = Some ''editing''"
    by code_simp
  from strategy_shift_is_least_frequent [OF this] show ?thesis by simp
qed

text \<open>The guard may send the agent to a family that is itself saturated.\<close>

lemma shift_to_saturated:
  "required_strategy_shift_family ''testing'' [''test'', ''fix'', ''test'', ''fix''] 2 = Some ''editing'' \<and>
   ''editing'' \<in> set (saturated_families (compute_family_counts [''test'', ''fix'', ''test'', ''fix'']) 2)"
  by code_simp

section \<open>Signatures: tokens and similarity\<close>

lemma sub_runs_chars: "c \<in> set (sub_runs P run s) \<Longrightarrow> c = CHR '' '' \<or> \<not> P c"
  by (induction P run s rule: sub_runs.induct) (auto split: if_splits)

lemma sub_runs_subset: "set (sub_runs P run s) \<subseteq> insert (CHR '' '') (set s)"
  by (induction P run s rule: sub_runs.induct) auto

lemma strip_subset: "set (strip s) \<subseteq> set s"
  using strip_sub [of s] by (metis Un_upper1 Un_upper2 order_trans set_append)

lemma split_ws_acc_subset:
  "t \<in> set (split_ws_acc w s) \<Longrightarrow> set t \<subseteq> set w \<union> set s"
  by (induction w s arbitrary: t rule: split_ws_acc.induct) (auto split: if_splits)

lemma split_ws_subset: "t \<in> set (split_ws s) \<Longrightarrow> set t \<subseteq> set s"
  using split_ws_acc_subset [of t "[]" s] by (simp add: split_ws_def)

definition token_ok :: "string \<Rightarrow> bool" where
  "token_ok t \<longleftrightarrow> t \<noteq> [] \<and> (\<forall>c \<in> set t. is_ascii_alnum c)"

lemma normalize_chars: "c \<in> set (normalize_text s) \<Longrightarrow> c = CHR '' '' \<or> is_ascii_alnum c"
  using strip_subset sub_runs_subset sub_runs_chars unfolding normalize_text_def Let_def by blast

lemma normalized_token: "t \<in> set (split_ws (normalize_text s)) \<Longrightarrow> token_ok t"
proof -
  assume t: "t \<in> set (split_ws (normalize_text s))"
  then have w: "word_like t" by (rule split_ws_words)
  have "is_space (CHR '' '')" by code_simp
  then show "token_ok t"
    using w split_ws_subset [OF t] normalize_chars by (auto simp: word_like_def token_ok_def)
qed

lemma canonical_token: "token_ok t \<Longrightarrow> token_ok (canonicalise_token t)"
proof -
  assume t: "token_ok t"
  have "\<forall>(syn, canon) \<in> set CANONICAL_KEYWORDS. token_ok canon"
    by (simp add: CANONICAL_KEYWORDS_def token_ok_def is_ascii_alnum_def)
  then show "token_ok (canonicalise_token t)"
    using t by (auto simp: canonicalise_token_def split: option.splits dest!: find_first_Some)
qed

lemma signature_token: "t \<in> extract_task_signature s \<Longrightarrow> token_ok t"
  using normalized_token canonical_token by (auto simp: extract_task_signature_def)

lemma finite_signature [simp]: "finite (extract_task_signature s)"
  by (simp add: extract_task_signature_def)

lemma join_Nil_iff: "\<forall>x \<in> set xs. x \<noteq> [] \<Longrightarrow> join sep xs = [] \<longleftrightarrow> xs = []"
  by (induction sep xs rule: join.induct) auto

lemma join_inj:
  assumes "\<forall>x \<in> set xs. x \<noteq> [] \<and> d \<notin> set x" "\<forall>y \<in> set ys. y \<noteq> [] \<and> d \<notin> set y"
    and "join [d] xs = join [d] ys"
  shows "xs = ys"
proof (cases "xs = [] \<or> ys = []")
  case True
  with assms show ?thesis by (metis join.simps(1) join_Nil_iff)
next
  case False
  with assms split_on_join show ?thesis by metis
qed

text \<open>C37. The fingerprint stored with a task is exact: two descriptions have the same fingerprint under a
  family exactly when they have the same set of canonical tokens, so joining the sorted tokens
  with hyphens loses nothing.\<close>

theorem fingerprint_identifies_signature:
  "semantic_fingerprint s family = semantic_fingerprint t family \<longleftrightarrow>
     extract_task_signature s = extract_task_signature t"
proof
  assume "semantic_fingerprint s family = semantic_fingerprint t family"
  then have eq: "join ''-'' (sorted_list_of_set (extract_task_signature s)) =
      join ''-'' (sorted_list_of_set (extract_task_signature t))"
    by (auto simp: semantic_fingerprint_def Let_def split: if_splits)
  have "\<not> is_ascii_alnum (CHR ''-'')" by code_simp
  then have ok: "\<forall>x \<in> set (sorted_list_of_set (extract_task_signature u)). x \<noteq> [] \<and> CHR ''-'' \<notin> set x" for u
    using signature_token by (auto simp: token_ok_def)
  from join_inj [OF ok ok eq] show "extract_task_signature s = extract_task_signature t"
    by (metis finite_signature set_sorted_list_of_set)
qed (simp add: semantic_fingerprint_def)

lemma jaccard_sym: "jaccard a b = jaccard b a"
  by (simp add: jaccard_def Int_commute Un_commute)

lemma jaccard_same: "finite a \<Longrightarrow> a \<noteq> {} \<Longrightarrow> jaccard a a = 1"
  by (simp add: jaccard_def)

lemma duplicate_iff:
  "is_semantic_duplicate task recent \<longleftrightarrow>
     extract_task_signature task \<noteq> {} \<and>
     (\<exists>other \<in> set recent. extract_task_signature other \<noteq> {} \<and>
        7 / 10 \<le> jaccard (extract_task_signature task) (extract_task_signature other))"
  by (auto simp: is_semantic_duplicate_def Let_def list_ex_iff)

lemma duplicate_of_itself:
  "extract_task_signature task \<noteq> {} \<Longrightarrow> task \<in> set recent \<Longrightarrow> is_semantic_duplicate task recent"
  unfolding duplicate_iff using jaccard_same [of "extract_task_signature task"] by force

lemma duplicate_mono: "set xs \<subseteq> set ys \<Longrightarrow> is_semantic_duplicate t xs \<Longrightarrow> is_semantic_duplicate t ys"
  unfolding duplicate_iff by blast

text \<open>Being a duplicate of one other task is symmetric, and a description is a duplicate of itself
  exactly when at least one token is left of it after normalisation.\<close>

theorem duplicate_symmetric_and_reflexive:
  "is_semantic_duplicate s [t] = is_semantic_duplicate t [s] \<and>
   (is_semantic_duplicate s [s] \<longleftrightarrow> extract_task_signature s \<noteq> {})"
proof
  show "is_semantic_duplicate s [t] = is_semantic_duplicate t [s]"
    by (auto simp: duplicate_iff jaccard_sym)
  show "is_semantic_duplicate s [s] \<longleftrightarrow> extract_task_signature s \<noteq> {}"
    using duplicate_of_itself [of s "[s]"] by (auto simp: duplicate_iff)
qed

lemma best_match_ge:
  "q \<le> fst (best_match a ts b) \<longleftrightarrow> q \<le> fst b \<or>
     (\<exists>t \<in> set ts. extract_task_signature t \<noteq> {} \<and> q \<le> jaccard a (extract_task_signature t))"
proof (induction ts arbitrary: b)
  case (Cons t ts)
  show ?case
  proof (cases "extract_task_signature t \<noteq> {} \<and> fst b < jaccard a (extract_task_signature t)")
    case True
    then have "best_match a (t # ts) b = best_match a ts (jaccard a (extract_task_signature t), t)" by simp
    with True Cons show ?thesis by auto
  next
    case False
    then have "best_match a (t # ts) b = best_match a ts b" by (auto simp: Let_def)
    with False Cons show ?thesis by auto
  qed
qed simp

lemma signature_Nil [simp]: "extract_task_signature [] = {}"
  by code_simp

lemma best_match_nonempty:
  "0 < fst b \<longrightarrow> snd b \<noteq> [] \<Longrightarrow> 0 \<le> fst b \<Longrightarrow>
     0 < fst (best_match a ts b) \<longrightarrow> snd (best_match a ts b) \<noteq> []"
proof (induction ts arbitrary: b)
  case (Cons t ts)
  show ?case
  proof (cases "extract_task_signature t \<noteq> {} \<and> fst b < jaccard a (extract_task_signature t)")
    case True
    then have "t \<noteq> []" by auto
    with True Cons.prems Cons.IH [of "(jaccard a (extract_task_signature t), t)"] show ?thesis by simp
  next
    case False
    then have "best_match a (t # ts) b = best_match a ts b" by (auto simp: Let_def)
    with Cons show ?thesis by metis
  qed
qed simp

text \<open>The explanation is given exactly when the test says duplicate.\<close>

lemma explain_duplicate_iff: "explain_duplicate task recent \<noteq> None \<longleftrightarrow> is_semantic_duplicate task recent"
proof -
  let ?a = "extract_task_signature task"
  let ?b = "best_match ?a recent (0, [])"
  have "jaccard {} b = 0" for b by (simp add: jaccard_def)
  then have "7 / 10 \<le> fst ?b \<longleftrightarrow> is_semantic_duplicate task recent"
    unfolding best_match_ge duplicate_iff by (cases "?a = {}") auto
  moreover have "7 / 10 \<le> fst ?b \<Longrightarrow> snd ?b \<noteq> []"
    using best_match_nonempty [of "(0, [])" ?a recent] by auto
  ultimately show ?thesis by (auto simp: explain_duplicate_def split: prod.splits)
qed

end
