(* ===== verification/TaskEngine.thy ===== *)
theory TaskEngine
  imports Dedup PyVal "HOL-Library.Monad_Syntax"
begin

text \<open>
  \<^verbatim>\<open>igris/models/task.py\<close> and \<^verbatim>\<open>igris/core/task_engine.py\<close>: the persistent
  engine_task list. The engine's state is the list in memory, the next id, the directory of task files
  (from file name to the JSON object in it, which is what \<^verbatim>\<open>to_dict\<close> wrote) and the timeline, one
  event per numbered file. The clock and new uuids are arguments, and the files can be written. The lemmas show that memory
  and disk agree after every run of operations, what a restart restores, and what the
  deterministic worker does to the queue.
\<close>

section \<open>Tasks\<close>

datatype task_status = Pending | Running | Completed | Blocked | Failed | ApprovalRequired

fun status_value :: "task_status \<Rightarrow> string" where
  "status_value Pending = ''pending''"
| "status_value Running = ''running''"
| "status_value Completed = ''completed''"
| "status_value Blocked = ''blocked''"
| "status_value Failed = ''failed''"
| "status_value ApprovalRequired = ''approval_required''"

record engine_task =
  tk_id :: int
  tk_description :: string
  tk_status :: task_status
  tk_result :: "string option"
  tk_title :: "string option"
  tk_family :: string
  tk_priority :: int
  tk_risk :: string
  tk_source :: string
  tk_success_criteria :: "string list"
  tk_created_at :: string
  tk_updated_at :: string
  tk_blocked_reason :: "string option"
  tk_fingerprint :: "string option"
  tk_uuid :: string
  tk_attempts :: int
  tk_last_error :: "string option"

text \<open>The dictionary that is written, and a task read from one. The class does not check the types of the other
  fields; an object whose fields have other types than the written ones have, which the engine never writes, is
  taken for a \<^verbatim>\<open>TypeError\<close>.\<close>

definition opt_text :: "string option \<Rightarrow> pyval" where
  "opt_text x = (case x of None \<Rightarrow> PNone | Some s \<Rightarrow> PStr s)"

definition to_dict :: "engine_task \<Rightarrow> (string, pyval) dict" where
  "to_dict t =
     [(''id'', PInt (tk_id t)), (''uuid'', PStr (tk_uuid t)),
      (''title'', PStr (str_or (tk_title t) (take 80 (tk_description t)))),
      (''description'', PStr (tk_description t)), (''family'', PStr (tk_family t)),
      (''status'', PStr (status_value (tk_status t))), (''priority'', PInt (tk_priority t)),
      (''risk'', PStr (tk_risk t)), (''source'', PStr (tk_source t)),
      (''success_criteria'', PList (map PStr (tk_success_criteria t))), (''created_at'', PStr (tk_created_at t)),
      (''updated_at'', PStr (tk_updated_at t)), (''result'', opt_text (tk_result t)),
      (''blocked_reason'', opt_text (tk_blocked_reason t)),
      (''semantic_fingerprint'', opt_text (tk_fingerprint t)), (''attempts'', PInt (tk_attempts t)),
      (''last_error'', opt_text (tk_last_error t))]"

definition status_of :: "string \<Rightarrow> task_status option" where
  "status_of v = find_first (\<lambda>s. status_value s = v) [Pending, Running, Completed, Blocked, Failed, ApprovalRequired]"

definition as_text :: "pyval \<Rightarrow> string option" where
  "as_text v = (case v of PStr s \<Rightarrow> Some s | _ \<Rightarrow> None)"

definition as_int :: "pyval \<Rightarrow> int option" where
  "as_int v = (case v of PInt i \<Rightarrow> Some i | _ \<Rightarrow> None)"

definition as_opt_text :: "pyval \<Rightarrow> string option option" where
  "as_opt_text v = (case v of PNone \<Rightarrow> Some None | PStr s \<Rightarrow> Some (Some s) | _ \<Rightarrow> None)"

definition as_texts :: "pyval \<Rightarrow> string list option" where
  "as_texts v = (case v of PList xs \<Rightarrow> as_strings xs | _ \<Rightarrow> None)"

definition task_of_fields :: "string \<Rightarrow> (string, pyval) dict \<Rightarrow> pyval \<Rightarrow> task_status \<Rightarrow> engine_task option" where
  "task_of_fields new_uuid data id_val status = do {
     i \<leftarrow> as_int id_val;
     description \<leftarrow> as_text (dget_or data ''description'' (PStr []));
     result \<leftarrow> as_opt_text (dget_or data ''result'' PNone);
     title \<leftarrow> as_opt_text (dget_or data ''title'' PNone);
     family \<leftarrow> as_text (dget_or data ''family'' (PStr ''other''));
     priority \<leftarrow> as_int (dget_or data ''priority'' (PInt 0));
     risk \<leftarrow> as_text (dget_or data ''risk'' (PStr ''low''));
     source \<leftarrow> as_text (dget_or data ''source'' (PStr ''user''));
     criteria \<leftarrow> as_texts (dget_or data ''success_criteria'' (PList []));
     created \<leftarrow> as_text (dget_or data ''created_at'' (PStr []));
     updated \<leftarrow> as_text (dget_or data ''updated_at'' (PStr []));
     reason \<leftarrow> as_opt_text (dget_or data ''blocked_reason'' PNone);
     fingerprint \<leftarrow> as_opt_text (dget_or data ''semantic_fingerprint'' PNone);
     uid \<leftarrow> as_text (dget_or data ''uuid'' (PStr new_uuid));
     attempts \<leftarrow> as_int (dget_or data ''attempts'' (PInt 0));
     last_error \<leftarrow> as_opt_text (dget_or data ''last_error'' PNone);
     Some \<lparr>tk_id = i, tk_description = description, tk_status = status, tk_result = result, tk_title = title,
       tk_family = family, tk_priority = priority, tk_risk = risk, tk_source = source,
       tk_success_criteria = criteria, tk_created_at = created, tk_updated_at = updated,
       tk_blocked_reason = reason, tk_fingerprint = fingerprint, tk_uuid = uid, tk_attempts = attempts,
       tk_last_error = last_error\<rparr> }"

definition task_from_dict :: "string \<Rightarrow> (string, pyval) dict \<Rightarrow> py_error + engine_task" where
  "task_from_dict new_uuid data =
     (case dget_or data ''status'' (PStr ''pending'') of
        PStr v \<Rightarrow>
          (case status_of v of
             None \<Rightarrow> Inl ValueError
           | Some status \<Rightarrow>
               (case dget data ''id'' of
                  None \<Rightarrow> Inl KeyError
                | Some i \<Rightarrow>
                    (case task_of_fields new_uuid data i status of None \<Rightarrow> Inl TypeError | Some t \<Rightarrow> Inr t)))
      | _ \<Rightarrow> Inl TypeError)"

datatype tl_kind =
    EvCreated int string string
  | EvStatus task_status int "string option" "string option"
  | EvFailed int "string option"
  | EvRunning int int
  | EvApproval int string
  | EvCompleted int "string option"

record timeline_event =
  tl_kind :: tl_kind
  tl_timestamp :: string

record task_engine =
  te_tasks :: "engine_task list"
  te_next_id :: int
  te_disk :: "(string, (string, pyval) dict) dict"
  te_timeline :: "timeline_event list"

section \<open>Operations\<close>

definition task_file :: "int \<Rightarrow> string" where
  "task_file i = int_str i @ ''.json''"

text \<open>Reading the files in the order of their names; one that is no task is passed over. \<open>uuids\<close> are
  the new ones for tasks that have none.\<close>

definition read_task :: "(string \<Rightarrow> string) \<Rightarrow> task_engine \<Rightarrow> string \<Rightarrow> engine_task option" where
  "read_task uuids e name =
     (case dget (te_disk e) name of
        None \<Rightarrow> None
      | Some data \<Rightarrow> (case task_from_dict (uuids name) data of Inl err \<Rightarrow> None | Inr t \<Rightarrow> Some t))"

definition load_engine_tasks :: "(string \<Rightarrow> string) \<Rightarrow> task_engine \<Rightarrow> task_engine" where
  "load_engine_tasks uuids e =
     (let ts = List.map_filter (read_task uuids e) (sort (dkeys (te_disk e)));
          max_id = foldl (\<lambda>m t. if tk_id t \<ge> m then tk_id t else m) 0 ts
      in e\<lparr>te_tasks := ts, te_next_id := max_id + 1\<rparr>)"

definition save_engine_task :: "engine_task \<Rightarrow> task_engine \<Rightarrow> task_engine" where
  "save_engine_task t e = e\<lparr>te_disk := dset (te_disk e) (task_file (tk_id t)) (to_dict t)\<rparr>"

definition append_timeline_event :: "string \<Rightarrow> tl_kind \<Rightarrow> task_engine \<Rightarrow> task_engine" where
  "append_timeline_event now k e =
     e\<lparr>te_timeline := te_timeline e @ [\<lparr>tl_kind = k, tl_timestamp = now\<rparr>]\<rparr>"

definition recent_timeline_events :: "int \<Rightarrow> task_engine \<Rightarrow> timeline_event list" where
  "recent_timeline_events lim_n e = slice_from (- lim_n) (te_timeline e)"

definition create_task ::
    "string \<Rightarrow> string \<Rightarrow> string \<Rightarrow> string option \<Rightarrow> string option \<Rightarrow> int \<Rightarrow> string \<Rightarrow> string \<Rightarrow>
     string list option \<Rightarrow> task_engine \<Rightarrow> task_engine \<times> engine_task" where
  "create_task now uid description title family priority source risk success_criteria e =
     (let fam = str_or family (classify_task_family description);
          fp = semantic_fingerprint description fam;
          t = \<lparr>tk_id = te_next_id e, tk_description = description, tk_status = Pending,
               tk_result = None, tk_title = title, tk_family = fam, tk_priority = priority,
               tk_risk = risk, tk_source = source,
               tk_success_criteria = (case success_criteria of None \<Rightarrow> [] | Some xs \<Rightarrow> xs),
               tk_created_at = now, tk_updated_at = now, tk_blocked_reason = None,
               tk_fingerprint = Some fp, tk_uuid = uid, tk_attempts = 0, tk_last_error = None\<rparr>;
          e1 = e\<lparr>te_next_id := te_next_id e + 1, te_tasks := te_tasks e @ [t]\<rparr>;
          e2 = save_engine_task t e1;
          e3 = append_timeline_event now (EvCreated (tk_id t) description source) e2
      in (e3, t))"

definition add_task :: "string \<Rightarrow> string \<Rightarrow> string \<Rightarrow> string \<Rightarrow> task_engine \<Rightarrow> task_engine \<times> engine_task" where
  "add_task now uid description source e =
     create_task now uid description None None 0 source ''low'' None e"

definition get_task :: "int \<Rightarrow> task_engine \<Rightarrow> engine_task option" where
  "get_task i e = find_first (\<lambda>t. tk_id t = i) (te_tasks e)"

definition list_tasks :: "string option \<Rightarrow> task_engine \<Rightarrow> engine_task list" where
  "list_tasks status e =
     (case status of
        None \<Rightarrow> te_tasks e
      | Some s \<Rightarrow> filter (\<lambda>t. status_value (tk_status t) = s) (te_tasks e))"

text \<open>
  \<^verbatim>\<open>get_task\<close> returns the object in the list, so assigning its attributes changes the
  list: \<open>assign t e\<close> puts \<open>t\<close> in the place of the first task with its id.
\<close>

fun replace_first :: "('a \<Rightarrow> bool) \<Rightarrow> 'a \<Rightarrow> 'a list \<Rightarrow> 'a list" where
  "replace_first P y [] = []"
| "replace_first P y (x # xs) = (if P x then y # xs else x # replace_first P y xs)"

definition assign :: "engine_task \<Rightarrow> task_engine \<Rightarrow> task_engine" where
  "assign t e = e\<lparr>te_tasks := replace_first (\<lambda>u. tk_id u = tk_id t) t (te_tasks e)\<rparr>"

definition update_task_status ::
    "string \<Rightarrow> int \<Rightarrow> task_status \<Rightarrow> string option \<Rightarrow> string option \<Rightarrow> task_engine \<Rightarrow>
     task_engine \<times> engine_task option" where
  "update_task_status now i status result reason e =
     (case get_task i e of
        None \<Rightarrow> (e, None)
      | Some t \<Rightarrow>
          (let t1 = t\<lparr>tk_status := status, tk_updated_at := now\<rparr>;
               t2 = (if result \<noteq> None then t1\<lparr>tk_result := result\<rparr> else t1);
               t3 = (if reason \<noteq> None then t2\<lparr>tk_blocked_reason := reason\<rparr> else t2);
               e1 = append_timeline_event now (EvStatus status i result reason) (save_engine_task t3 (assign t3 e))
           in (e1, Some t3)))"

definition complete_task :: "string \<Rightarrow> int \<Rightarrow> string option \<Rightarrow> task_engine \<Rightarrow> task_engine \<times> engine_task option" where
  "complete_task now i result e = update_task_status now i Completed result None e"

definition block_task :: "string \<Rightarrow> int \<Rightarrow> string option \<Rightarrow> task_engine \<Rightarrow> task_engine \<times> engine_task option" where
  "block_task now i reason e = update_task_status now i Blocked None reason e"

definition fail_task :: "string \<Rightarrow> int \<Rightarrow> string option \<Rightarrow> task_engine \<Rightarrow> task_engine \<times> engine_task option" where
  "fail_task now i err e =
     (case get_task i e of
        None \<Rightarrow> (e, None)
      | Some t \<Rightarrow>
          (let t1 = t\<lparr>tk_status := Failed, tk_last_error := err, tk_updated_at := now\<rparr>
           in (append_timeline_event now (EvFailed i err) (save_engine_task t1 (assign t1 e)), Some t1)))"

definition mark_running :: "string \<Rightarrow> int \<Rightarrow> task_engine \<Rightarrow> task_engine \<times> engine_task option" where
  "mark_running now i e =
     (case get_task i e of
        None \<Rightarrow> (e, None)
      | Some t \<Rightarrow>
          (let t1 = t\<lparr>tk_status := Running, tk_attempts := tk_attempts t + 1, tk_updated_at := now\<rparr>
           in (append_timeline_event now (EvRunning i (tk_attempts t1)) (save_engine_task t1 (assign t1 e)), Some t1)))"

text \<open>\<^verbatim>\<open>next_task\<close> scans the pending tasks and falls back to the first of them.\<close>

definition selectable :: "string list \<Rightarrow> engine_task \<Rightarrow> bool" where
  "selectable descriptions t \<longleftrightarrow>
     classify_task_family (tk_description t)
       \<notin> set (saturated_families (compute_family_counts descriptions) 3) \<and>
     \<not> is_semantic_duplicate (tk_description t) (butlast descriptions)"

definition next_task :: "task_engine \<Rightarrow> engine_task option" where
  "next_task e =
     (case filter (\<lambda>t. tk_status t = Pending) (te_tasks e) of
        [] \<Rightarrow> None
      | p # ps \<Rightarrow>
          (case find_first (selectable (map tk_description (te_tasks e))) (p # ps) of
             Some t \<Rightarrow> Some t
           | None \<Rightarrow> Some p))"

definition process_one_pending_task :: "string \<Rightarrow> task_engine \<Rightarrow> task_engine \<times> engine_task option" where
  "process_one_pending_task now e =
     (case next_task e of
        None \<Rightarrow> (e, None)
      | Some t \<Rightarrow>
          if tk_risk t \<in> {''high'', ''critical'', ''destructive''} then
            (let t1 = t\<lparr>tk_status := ApprovalRequired, tk_updated_at := now\<rparr>
             in (append_timeline_event now (EvApproval (tk_id t1) (tk_risk t1)) (save_engine_task t1 (assign t1 e)), Some t1))
          else
            (let e1 = fst (mark_running now (tk_id t) e) in
             case get_task (tk_id t) e1 of
               None \<Rightarrow> (e1, None)
             | Some u \<Rightarrow>
                 (let u1 = u\<lparr>tk_status := Completed, tk_result := Some ''processed_by_worker_step'',
                        tk_updated_at := now\<rparr>
                  in (append_timeline_event now (EvCompleted (tk_id u1) (tk_result u1))
                        (save_engine_task u1 (assign u1 e1)), Some u1))))"

datatype task_request =
    ReqAdd string string string "string option" "string option" int string string "string list option"
  | ReqStatus string int task_status "string option" "string option"
  | ReqFail string int "string option"
  | ReqRun string int
  | ReqWorker string
  | ReqRestart "string \<Rightarrow> string"

fun task_step :: "task_engine \<Rightarrow> task_request \<Rightarrow> task_engine" where
  "task_step e (ReqAdd now uid d title fam prio src risk crit) =
     fst (create_task now uid d title fam prio src risk crit e)"
| "task_step e (ReqStatus now i status result reason) = fst (update_task_status now i status result reason e)"
| "task_step e (ReqFail now i err) = fst (fail_task now i err e)"
| "task_step e (ReqRun now i) = fst (mark_running now i e)"
| "task_step e (ReqWorker now) = fst (process_one_pending_task now e)"
| "task_step e (ReqRestart uuids) = load_engine_tasks uuids e"

definition fresh_engine :: task_engine where
  "fresh_engine = \<lparr>te_tasks = [], te_next_id = 1, te_disk = [], te_timeline = []\<rparr>"

section \<open>Memory and disk agree\<close>

definition disk_entry :: "engine_task \<Rightarrow> string \<times> (string, pyval) dict" where
  "disk_entry t = (task_file (tk_id t), to_dict t)"

definition engine_ok :: "task_engine \<Rightarrow> bool" where
  "engine_ok e \<longleftrightarrow>
     distinct (map tk_id (te_tasks e)) \<and>
     (\<forall>t \<in> set (te_tasks e). 1 \<le> tk_id t \<and> tk_id t < te_next_id e) \<and>
     (if te_tasks e = [] then te_next_id e = 1 else \<exists>t \<in> set (te_tasks e). tk_id t = te_next_id e - 1) \<and>
     dwf (te_disk e) \<and> set (te_disk e) = disk_entry ` set (te_tasks e)"

lemma digit_inj: "m < 10 \<Longrightarrow> n < 10 \<Longrightarrow> (char_of (48 + m) :: char) = char_of (48 + n) \<Longrightarrow> m = (n :: nat)"
proof -
  assume "m < 10" "n < 10" and eq: "(char_of (48 + m) :: char) = char_of (48 + n)"
  have "(48 + m) mod 256 = (48 + n) mod 256" using arg_cong [OF eq, of "of_char :: char \<Rightarrow> nat"] by simp
  with \<open>m < 10\<close> \<open>n < 10\<close> show "m = n" by simp
qed

lemma nat_str_small: "n < 10 \<Longrightarrow> nat_str n = [char_of (48 + n)]"
  by (subst nat_str.simps) simp

lemma nat_str_big: "\<not> n < 10 \<Longrightarrow> nat_str n = nat_str (n div 10) @ [char_of (48 + n mod 10)]"
  by (subst nat_str.simps) simp

lemma nat_str_inj: "nat_str m = nat_str n \<Longrightarrow> m = n"
proof (induction m arbitrary: n rule: nat_str.induct)
  case (1 m)
  have one: "length (nat_str k) = 1 \<longleftrightarrow> k < 10" for k
  proof (cases "k < 10")
    case False
    then show ?thesis unfolding nat_str_big [OF False] by simp
  qed (simp add: nat_str_small)
  show ?case
  proof (cases "m < 10")
    case True
    with 1(2) one have "n < 10" by metis
    with True 1(2) show ?thesis using digit_inj [OF True] by (simp add: nat_str_small)
  next
    case False
    with 1(2) one have n: "\<not> n < 10" by metis
    have "nat_str (m div 10) = nat_str (n div 10)"
      and "(char_of (48 + m mod 10) :: char) = char_of (48 + n mod 10)"
      using 1(2) unfolding nat_str_big [OF False] nat_str_big [OF n] by blast+
    then have "m div 10 = n div 10" "m mod 10 = n mod 10"
      using 1(1) [OF False] digit_inj [of "m mod 10" "n mod 10"] by simp_all
    then show ?thesis by (metis div_mult_mod_eq)
  qed
qed

lemma task_file_inj: "0 \<le> i \<Longrightarrow> 0 \<le> j \<Longrightarrow> task_file i = task_file j \<Longrightarrow> i = j"
  using nat_str_inj [of "nat i" "nat j"] by (simp add: task_file_def int_str_def)

text \<open>A task that was written and read again is the same task, but for a missing or empty title: it has become the
  first 80 characters of the description.\<close>

definition with_title :: "engine_task \<Rightarrow> engine_task" where
  "with_title t = (if tk_title t = None \<or> tk_title t = Some [] then t\<lparr>tk_title := Some (take 80 (tk_description t))\<rparr> else t)"

lemma with_title_id [simp]: "tk_id (with_title t) = tk_id t"
  by (simp add: with_title_def)

lemma field_texts [simp]:
  "as_text (PStr s) = Some s" "as_int (PInt i) = Some i" "as_opt_text (PStr s) = Some (Some s)"
  "as_opt_text (opt_text x) = Some x" "as_texts (PList (map PStr ss)) = Some ss"
  by (simp_all add: as_text_def as_int_def as_opt_text_def opt_text_def as_texts_def split: option.split)

lemma status_of_value [simp]: "status_of (status_value s) = Some s"
  by (cases s) (simp_all add: status_of_def)

lemma str_or_title: "str_or (tk_title t) (take 80 (tk_description t)) = the (tk_title (with_title t))"
  by (cases "tk_title t") (auto simp: str_or_def with_title_def)

lemma with_title_some: "tk_title (with_title t) = Some (the (tk_title (with_title t)))"
  by (cases "tk_title t") (auto simp: with_title_def)

lemma with_title_fields:
  "with_title t = t\<lparr>tk_title := tk_title (with_title t)\<rparr>"
  by (simp add: with_title_def)

lemma written_task_read: "task_from_dict u (to_dict t) = Inr (with_title t)"
proof -
  have "task_of_fields u (to_dict t) (PInt (tk_id t)) (tk_status t) =
      Some (t\<lparr>tk_title := Some (str_or (tk_title t) (take 80 (tk_description t)))\<rparr>)"
    by (simp add: task_of_fields_def to_dict_def dget_or_def)
  also have "t\<lparr>tk_title := Some (str_or (tk_title t) (take 80 (tk_description t)))\<rparr> = with_title t"
    using with_title_some [of t] with_title_fields [of t] by (simp add: str_or_title)
  finally have f: "task_of_fields u (to_dict t) (PInt (tk_id t)) (tk_status t) = Some (with_title t)" .
  have "dget_or (to_dict t) ''status'' (PStr ''pending'') = PStr (status_value (tk_status t))"
    "dget (to_dict t) ''id'' = Some (PInt (tk_id t))"
    by (simp_all add: to_dict_def dget_or_def)
  then show ?thesis by (simp add: task_from_dict_def f)
qed

lemma to_dict_with_title: "to_dict (with_title t) = to_dict t"
  by (auto simp: to_dict_def with_title_def str_or_def split: option.split)

lemma disk_entry_with_title: "disk_entry (with_title t) = disk_entry t"
  by (simp add: disk_entry_def to_dict_with_title)

lemma set_replace_first:
  "distinct (map f xs) \<Longrightarrow> x \<in> set xs \<Longrightarrow> f x = f y \<Longrightarrow>
     set (replace_first (\<lambda>u. f u = f y) y xs) = insert y {u \<in> set xs. f u \<noteq> f y}"
proof (induction xs)
  case (Cons a as)
  show ?case
  proof (cases "f a = f y")
    case True
    with Cons.prems(1) have "f y \<notin> f ` set as" by simp
    then have "\<And>u. u \<in> set as \<Longrightarrow> f u \<noteq> f y" by (metis imageI)
    with True show ?thesis by auto
  next
    case False
    with Cons have "set (replace_first (\<lambda>u. f u = f y) y as) = insert y {u \<in> set as. f u \<noteq> f y}" by auto
    with False show ?thesis by auto
  qed
qed simp

lemma map_replace_first: "map f (replace_first (\<lambda>u. f u = f y) y xs) = map f xs"
  by (induction xs) auto

lemma replace_first_Nil_iff [simp]: "replace_first P y xs = [] \<longleftrightarrow> xs = []"
  by (cases xs) auto

lemma get_task_Some: "get_task i e = Some t \<Longrightarrow> t \<in> set (te_tasks e) \<and> tk_id t = i"
  using find_first_Some [of "\<lambda>t. tk_id t = i"] by (auto simp: get_task_def)

lemma get_task_iff: "distinct (map tk_id (te_tasks e)) \<Longrightarrow>
    get_task i e = Some t \<longleftrightarrow> t \<in> set (te_tasks e) \<and> tk_id t = i"
proof -
  assume d: "distinct (map tk_id (te_tasks e))"
  have "t \<in> set (te_tasks e) \<Longrightarrow> get_task (tk_id t) e \<noteq> None" by (auto simp: get_task_def)
  with d get_task_Some show ?thesis by (fastforce simp: distinct_map inj_on_def)
qed

lemmas engine_effects = save_engine_task_def assign_def append_timeline_event_def

lemma write_back_ok:
  assumes "engine_ok e" "u \<in> set (te_tasks e)" "tk_id t = tk_id u"
  shows "engine_ok (save_engine_task t (assign t e))"
proof -
  let ?ts = "replace_first (\<lambda>u. tk_id u = tk_id t) t (te_tasks e)"
  have d: "distinct (map tk_id (te_tasks e))" using assms(1) by (simp add: engine_ok_def)
  have ts: "set ?ts = insert t {v \<in> set (te_tasks e). tk_id v \<noteq> tk_id t}"
    by (rule set_replace_first [OF d assms(2)]) (simp add: assms(3))
  have ids: "map tk_id ?ts = map tk_id (te_tasks e)" by (rule map_replace_first)
  then have "tk_id ` set ?ts = tk_id ` set (te_tasks e)" by (metis set_map)
  then have rng: "\<forall>v \<in> set ?ts. 1 \<le> tk_id v \<and> tk_id v < te_next_id e"
    and top: "te_tasks e \<noteq> [] \<Longrightarrow> \<exists>v \<in> set ?ts. tk_id v = te_next_id e - 1"
    using assms(1) unfolding engine_ok_def by (metis (no_types, lifting) image_iff)+
  have pos: "0 \<le> tk_id t \<and> (\<forall>v \<in> set (te_tasks e). 0 \<le> tk_id v)"
    using assms by (fastforce simp: engine_ok_def)
  have "set (dset (te_disk e) (task_file (tk_id t)) (to_dict t)) = disk_entry ` set ?ts"
    using assms(1) pos task_file_inj unfolding ts engine_ok_def
    by (auto simp: set_dset disk_entry_def)
  moreover have "dwf (te_disk e)" using assms(1) by (simp add: engine_ok_def)
  ultimately show ?thesis
    using assms(1) ids rng top d by (simp add: engine_ok_def engine_effects)
qed

lemma write_back_got:
  "engine_ok e \<Longrightarrow> get_task i e = Some u \<Longrightarrow> tk_id t = tk_id u \<Longrightarrow>
     engine_ok (save_engine_task t (assign t e))"
  using write_back_ok get_task_Some by blast

lemma event_ok [simp]: "engine_ok (append_timeline_event now k e) = engine_ok e"
  by (simp add: engine_ok_def append_timeline_event_def)

lemma create_ok:
  assumes "engine_ok e"
  shows "engine_ok (fst (create_task now uid d title fam prio src risk crit e))"
proof -
  let ?r = "create_task now uid d title fam prio src risk crit e"
  let ?t = "snd ?r"
  have r: "te_tasks (fst ?r) = te_tasks e @ [?t]" "te_next_id (fst ?r) = te_next_id e + 1"
    "te_disk (fst ?r) = dset (te_disk e) (task_file (tk_id ?t)) (to_dict ?t)" "tk_id ?t = te_next_id e"
    by (simp_all add: create_task_def Let_def engine_effects)
  have new: "\<forall>t \<in> set (te_tasks e). tk_id t \<noteq> te_next_id e" and n: "1 \<le> te_next_id e"
    using assms by (fastforce simp: engine_ok_def split: if_splits)+
  have "\<forall>t \<in> set (te_tasks e). task_file (tk_id t) \<noteq> task_file (te_next_id e)"
    using assms new n task_file_inj by (fastforce simp: engine_ok_def)
  then have "set (te_disk (fst ?r)) = disk_entry ` set (te_tasks (fst ?r))"
    using assms unfolding r engine_ok_def by (auto simp: set_dset disk_entry_def r)
  moreover have "dwf (te_disk (fst ?r))" using assms by (simp add: r engine_ok_def)
  ultimately show ?thesis using assms new n unfolding engine_ok_def by (fastforce simp: r)
qed

lemma update_ok: "engine_ok e \<Longrightarrow> engine_ok (fst (update_task_status now i st result reason e))"
  by (auto simp: update_task_status_def Let_def split: option.splits intro: write_back_got)

lemma fail_ok: "engine_ok e \<Longrightarrow> engine_ok (fst (fail_task now i err e))"
  by (auto simp: fail_task_def Let_def split: option.splits intro: write_back_got)

lemma run_ok: "engine_ok e \<Longrightarrow> engine_ok (fst (mark_running now i e))"
  by (auto simp: mark_running_def Let_def split: option.splits intro: write_back_got)

lemma next_task_pending: "next_task e = Some t \<Longrightarrow> t \<in> set (te_tasks e) \<and> tk_status t = Pending"
proof -
  assume n: "next_task e = Some t"
  let ?p = "filter (\<lambda>t. tk_status t = Pending) (te_tasks e)"
  have "t \<in> set ?p"
  proof (cases ?p)
    case (Cons p ps)
    with n have "t \<in> set (p # ps)"
      by (auto simp: next_task_def split: option.splits if_splits dest!: find_first_Some)
    with Cons show ?thesis by metis
  qed (use n in \<open>simp add: next_task_def\<close>)
  then show ?thesis by simp
qed

lemma worker_ok: "engine_ok e \<Longrightarrow> engine_ok (fst (process_one_pending_task now e))"
proof (cases "next_task e")
  case (Some t)
  assume e: "engine_ok e"
  show ?thesis
  proof (cases "tk_risk t \<in> {''high'', ''critical'', ''destructive''}")
    case True
    then show ?thesis using Some e next_task_pending [OF Some]
      by (auto simp: process_one_pending_task_def Let_def intro!: write_back_ok [where u = t])
  next
    case False
    let ?e1 = "fst (mark_running now (tk_id t) e)"
    have "engine_ok ?e1" using e by (rule run_ok)
    with False Some show ?thesis
      by (auto simp: process_one_pending_task_def Let_def split: option.splits intro: write_back_got)
  qed
qed (simp add: process_one_pending_task_def)

definition max_id :: "engine_task list \<Rightarrow> int" where
  "max_id ts = foldl (\<lambda>m t. if tk_id t \<ge> m then tk_id t else m) 0 ts"

lemma max_id_snoc: "max_id (ts @ [t]) = max (max_id ts) (tk_id t)"
  by (simp add: max_id_def)

lemma max_id_ge: "t \<in> set ts \<Longrightarrow> tk_id t \<le> max_id ts"
  by (induction ts rule: rev_induct) (auto simp: max_id_snoc)

lemma max_id_in: "\<forall>t \<in> set ts. 1 \<le> tk_id t \<Longrightarrow> ts \<noteq> [] \<Longrightarrow> \<exists>t \<in> set ts. tk_id t = max_id ts"
proof (induction ts rule: rev_induct)
  case (snoc t ts)
  show ?case
  proof (cases "ts = []")
    case True
    with snoc.prems show ?thesis by (simp add: max_id_def)
  next
    case False
    with snoc obtain u where "u \<in> set ts" "tk_id u = max_id ts" by auto
    then show ?thesis by (auto simp: max_id_snoc max_def)
  qed
qed simp

lemma set_map_filter_iff: "t \<in> set (List.map_filter f xs) \<longleftrightarrow> (\<exists>x \<in> set xs. f x = Some t)"
  by (induction xs) (auto simp: List.map_filter_def split: option.splits)

lemma load_shape:
  assumes "engine_ok e"
  shows "set (te_tasks (load_engine_tasks uuids e)) = with_title ` set (te_tasks e)"
    and "distinct (map tk_id (te_tasks (load_engine_tasks uuids e)))"
    and "te_next_id (load_engine_tasks uuids e) = max_id (te_tasks (load_engine_tasks uuids e)) + 1"
    and "te_disk (load_engine_tasks uuids e) = te_disk e"
proof -
  let ?d = "te_disk e" and ?k = "sort (dkeys (te_disk e))" and ?f = "read_task uuids e"
  have w: "dwf ?d" and ents: "set ?d = disk_entry ` set (te_tasks e)" using assms by (auto simp: engine_ok_def)
  have dom: "\<exists>t \<in> set (te_tasks e). k = task_file (tk_id t) \<and> ?f k = Some (with_title t)" if k: "k \<in> set ?k" for k
  proof -
    from k obtain data where t: "dget ?d k = Some data" using dget_None_iff [of ?d k] by auto
    then have "(k, data) \<in> disk_entry ` set (te_tasks e)" using dget_Some_in ents by metis
    with t show ?thesis by (auto simp: disk_entry_def read_task_def written_task_read)
  qed
  then have files: "map (\<lambda>t. task_file (tk_id t)) (List.map_filter ?f ks) = ks" if "set ks \<subseteq> set ?k" for ks
    using that by (induction ks) (use dom in \<open>force simp: List.map_filter_def\<close>)+
  have ts: "te_tasks (load_engine_tasks uuids e) = List.map_filter ?f ?k"
    by (simp add: load_engine_tasks_def Let_def)
  have "distinct ?k" using w by (simp add: dwf_def)
  then have "distinct (map task_file (map tk_id (te_tasks (load_engine_tasks uuids e))))"
    using files [of ?k] by (simp add: ts comp_def)
  then show "distinct (map tk_id (te_tasks (load_engine_tasks uuids e)))" by (rule distinct_map [THEN iffD1, THEN conjunct1])
  have "set ?k = (\<lambda>t. task_file (tk_id t)) ` set (te_tasks e)"
    unfolding set_sort dkeys_def set_map ents by (simp add: image_image disk_entry_def)
  moreover have "?f (task_file (tk_id t)) = Some (with_title t)" if "t \<in> set (te_tasks e)" for t
  proof -
    have "(task_file (tk_id t), to_dict t) \<in> set ?d" using that unfolding ents by (auto simp: disk_entry_def)
    then have "dget ?d (task_file (tk_id t)) = Some (to_dict t)" using dget_iff_in [OF w] by blast
    then show ?thesis by (simp add: read_task_def written_task_read)
  qed
  ultimately show "set (te_tasks (load_engine_tasks uuids e)) = with_title ` set (te_tasks e)"
    unfolding ts using set_map_filter_iff [of _ ?f ?k] dom by (auto simp: image_iff)
qed (simp_all add: load_engine_tasks_def max_id_def Let_def)

lemma max_id_range:
  assumes "engine_ok e" "set ts = with_title ` set (te_tasks e)"
  shows "max_id ts = te_next_id e - 1"
proof (cases "te_tasks e = []")
  case True
  with assms show ?thesis by (simp add: engine_ok_def max_id_def)
next
  case False
  then have ne: "ts \<noteq> []" using assms(2) by auto
  have "\<forall>t \<in> set ts. 1 \<le> tk_id t \<and> tk_id t \<le> te_next_id e - 1"
    using assms by (auto simp: engine_ok_def)
  moreover obtain t where "t \<in> set ts" "tk_id t = te_next_id e - 1"
    using assms False by (fastforce simp: engine_ok_def)
  ultimately show ?thesis using max_id_ge max_id_in ne by (metis order_antisym_conv)
qed

lemma load_ok: "engine_ok e \<Longrightarrow> engine_ok (load_engine_tasks uuids e)"
proof -
  assume e: "engine_ok e"
  note l = load_shape [OF e]
  have m: "max_id (te_tasks (load_engine_tasks uuids e)) = te_next_id e - 1" by (rule max_id_range [OF e l(1)])
  have "disk_entry ` with_title ` set (te_tasks e) = disk_entry ` set (te_tasks e)"
    by (simp add: image_image disk_entry_with_title)
  moreover have "te_tasks (load_engine_tasks uuids e) = [] \<longleftrightarrow> te_tasks e = []"
    using l(1) by (metis image_is_empty set_empty)
  ultimately show ?thesis using e l(2) unfolding engine_ok_def l(1) l(3) l(4) m
    by auto
qed

interpretation tasks: machine task_step "\<lambda>e. e = fresh_engine" engine_ok
proof
  show "engine_ok s" if "s = fresh_engine" for s
    using that by (simp add: engine_ok_def fresh_engine_def)
  show "engine_ok (task_step s r)" if "engine_ok s" for s r
    using that by (cases r) (simp_all add: create_ok update_ok fail_ok run_ok worker_ok load_ok)
qed

lemma run_ok_from_fresh: "engine_ok (run_events task_step fresh_engine rs)"
  by (rule tasks.run_from_start) simp

section \<open>What the operations promise\<close>

text \<open>C31. After any run of operations a restart loses no task: reading the task files back gives each task
  of memory once, with all its seventeen fields (a missing or empty title becomes the first 80 characters of the
  description), the same next id, and the timeline as it was.\<close>

theorem restart_keeps_tasks:
  "set (te_tasks (load_engine_tasks uuids (run_events task_step fresh_engine rs))) =
     with_title ` set (te_tasks (run_events task_step fresh_engine rs)) \<and>
   length (te_tasks (load_engine_tasks uuids (run_events task_step fresh_engine rs))) =
     length (te_tasks (run_events task_step fresh_engine rs)) \<and>
   te_next_id (load_engine_tasks uuids (run_events task_step fresh_engine rs)) =
     te_next_id (run_events task_step fresh_engine rs) \<and>
   te_timeline (load_engine_tasks uuids (run_events task_step fresh_engine rs)) =
     te_timeline (run_events task_step fresh_engine rs)"
proof -
  let ?e = "run_events task_step fresh_engine rs"
  have e: "engine_ok ?e" by (rule run_ok_from_fresh)
  note l = load_shape [OF e, of uuids]
  have "te_next_id (load_engine_tasks uuids ?e) = te_next_id ?e"
    using l(3) max_id_range [OF e l(1)] by simp
  moreover have "tk_id ` set (te_tasks (load_engine_tasks uuids ?e)) = tk_id ` set (te_tasks ?e)"
    unfolding l(1) by (simp add: image_image)
  then have "length (te_tasks (load_engine_tasks uuids ?e)) = length (te_tasks ?e)"
    using l(2) e distinct_card unfolding engine_ok_def by (metis length_map set_map)
  ultimately show ?thesis using l(1) by (simp add: load_engine_tasks_def Let_def)
qed

text \<open>A restart does not keep the order: files are read in the order of their names as texts.\<close>

lemma restart_orders_by_name:
  "sort [task_file 2, task_file 10] = [task_file 10, task_file 2]"
  by code_simp

lemma replace_first_twice:
  "f y = f z \<Longrightarrow> replace_first (\<lambda>u. f u = f z) z (replace_first (\<lambda>u. f u = f y) y xs) =
     replace_first (\<lambda>u. f u = f z) z xs"
  by (induction xs) auto

definition risky :: "engine_task \<Rightarrow> bool" where
  "risky t \<longleftrightarrow> tk_risk t \<in> {''high'', ''critical'', ''destructive''}"

text \<open>What the worker makes of the task it picked.\<close>

definition worked :: "string \<Rightarrow> engine_task \<Rightarrow> engine_task" where
  "worked now t =
     (if risky t then t\<lparr>tk_status := ApprovalRequired, tk_updated_at := now\<rparr>
      else t\<lparr>tk_status := Completed, tk_attempts := tk_attempts t + 1,
             tk_result := Some ''processed_by_worker_step'', tk_updated_at := now\<rparr>)"

lemma worked_id [simp]: "tk_id (worked now t) = tk_id t"
  by (simp add: worked_def)

lemma get_task_assign:
  "distinct (map tk_id (te_tasks e)) \<Longrightarrow> u \<in> set (te_tasks e) \<Longrightarrow> tk_id t = tk_id u \<Longrightarrow>
     get_task j (assign t e) = (if j = tk_id t then Some t else get_task j e)"
proof -
  assume d: "distinct (map tk_id (te_tasks e))" and u: "u \<in> set (te_tasks e)" "tk_id t = tk_id u"
  have d': "distinct (map tk_id (te_tasks (assign t e)))"
    using d by (simp add: assign_def map_replace_first)
  have s: "set (te_tasks (assign t e)) = insert t {v \<in> set (te_tasks e). tk_id v \<noteq> tk_id t}"
    unfolding assign_def using set_replace_first [OF d u(1), of t] u(2) by simp
  have "get_task j (assign t e) = Some v \<longleftrightarrow> (if j = tk_id t then Some t else get_task j e) = Some v" for v
    unfolding get_task_iff [OF d'] s using get_task_iff [OF d, of j v] by auto
  then show ?thesis by (metis option.exhaust)
qed

lemma get_task_effects [simp]:
  "get_task i (save_engine_task t e) = get_task i e" "get_task i (append_timeline_event now k e) = get_task i e"
  by (simp_all add: get_task_def engine_effects)

lemma worker_shape:
  assumes "engine_ok e" "next_task e = Some t"
  shows "snd (process_one_pending_task now e) = Some (worked now t)"
    and "te_tasks (fst (process_one_pending_task now e)) =
      replace_first (\<lambda>u. tk_id u = tk_id t) (worked now t) (te_tasks e)"
proof -
  have d: "distinct (map tk_id (te_tasks e))" using assms(1) by (simp add: engine_ok_def)
  have t: "t \<in> set (te_tasks e)" using next_task_pending [OF assms(2)] by simp
  then have g: "get_task (tk_id t) e = Some t" using get_task_iff [OF d] by simp
  let ?r = "t\<lparr>tk_status := Running, tk_attempts := tk_attempts t + 1, tk_updated_at := now\<rparr>"
  have gr: "get_task (tk_id t) (assign ?r e) = Some ?r" using get_task_assign [OF d t, of ?r] by simp
  have "snd (process_one_pending_task now e) = Some (worked now t) \<and>
    te_tasks (fst (process_one_pending_task now e)) =
      replace_first (\<lambda>u. tk_id u = tk_id t) (worked now t) (te_tasks e)"
  proof (cases "risky t")
    case True
    then show ?thesis using assms(2)
      by (simp add: process_one_pending_task_def risky_def worked_def engine_effects Let_def)
  next
    case False
    have "replace_first (\<lambda>u. tk_id u = tk_id t) (worked now t) (replace_first (\<lambda>u. tk_id u = tk_id t) ?r (te_tasks e))
       = replace_first (\<lambda>u. tk_id u = tk_id t) (worked now t) (te_tasks e)"
      using replace_first_twice [of tk_id ?r "worked now t" "te_tasks e"] by simp
    moreover have "worked now t = ?r\<lparr>tk_status := Completed, tk_result := Some ''processed_by_worker_step'',
        tk_updated_at := now\<rparr>" using False by (simp add: worked_def)
    moreover have "\<not> tk_risk t \<in> {''high'', ''critical'', ''destructive''}" using False by (simp add: risky_def)
    moreover have "get_task (tk_id t) (fst (mark_running now (tk_id t) e)) = Some ?r"
      using g gr by (simp add: mark_running_def Let_def)
    moreover have "te_tasks (fst (mark_running now (tk_id t) e)) =
        replace_first (\<lambda>u. tk_id u = tk_id t) ?r (te_tasks e)"
      using g by (simp add: mark_running_def engine_effects Let_def)
    ultimately show ?thesis using assms(2)
      by (simp add: process_one_pending_task_def assign_def append_timeline_event_def save_engine_task_def Let_def)
  qed
  then show "snd (process_one_pending_task now e) = Some (worked now t)"
    and "te_tasks (fst (process_one_pending_task now e)) =
      replace_first (\<lambda>u. tk_id u = tk_id t) (worked now t) (te_tasks e)" by simp_all
qed

text \<open>C34. The deterministic worker never runs a risky task: in any engine reached from an empty one, a
  worker step that finds a task takes a pending one; a task of high, critical or destructive risk
  becomes approval-required with its attempts and result untouched, any other is completed with one
  more attempt; no other task changes.\<close>

theorem worker_holds_risky_tasks:
  assumes "next_task (run_events task_step fresh_engine rs) = Some t"
  shows "tk_status t = Pending \<and>
    (\<exists>u. snd (process_one_pending_task now (run_events task_step fresh_engine rs)) = Some u \<and> tk_id u = tk_id t \<and>
      get_task (tk_id t) (fst (process_one_pending_task now (run_events task_step fresh_engine rs))) = Some u \<and>
      (if tk_risk t \<in> {''high'', ''critical'', ''destructive''}
       then tk_status u = ApprovalRequired \<and> tk_attempts u = tk_attempts t \<and> tk_result u = tk_result t
       else tk_status u = Completed \<and> tk_attempts u = tk_attempts t + 1)) \<and>
    (\<forall>j. j = tk_id t \<or> get_task j (fst (process_one_pending_task now (run_events task_step fresh_engine rs))) =
       get_task j (run_events task_step fresh_engine rs))"
proof -
  let ?e = "run_events task_step fresh_engine rs"
  have e: "engine_ok ?e" by (rule run_ok_from_fresh)
  note w = worker_shape [OF e assms, of now] and p = next_task_pending [OF assms]
  have "get_task j (fst (process_one_pending_task now ?e)) = get_task j (assign (worked now t) ?e)" for j
    unfolding get_task_def w(2) by (simp add: assign_def)
  also have "get_task j (assign (worked now t) ?e) = (if j = tk_id t then Some (worked now t) else get_task j ?e)" for j
    using get_task_assign [of ?e t "worked now t" j] e p by (simp add: engine_ok_def)
  finally show ?thesis using p w(1) by (auto simp: worked_def risky_def)
qed

abbreviation sample_request :: task_request where
  "sample_request \<equiv> ReqAdd ''t0'' ''u1'' ''wipe'' None (Some ''ops'') 0 ''user'' ''high'' None"

lemma sample_next:
  "\<exists>t. next_task (run_events task_step fresh_engine [sample_request]) = Some t \<and> tk_risk t = ''high'' \<and> tk_id t = 1"
  by (simp add: next_task_def create_task_def fresh_engine_def engine_effects Let_def)

theorem worker_holds_risky_tasks_witness:
  "\<exists>u. snd (process_one_pending_task ''t1'' (run_events task_step fresh_engine [sample_request])) = Some u \<and>
     tk_status u = ApprovalRequired"
proof -
  obtain t where "next_task (run_events task_step fresh_engine [sample_request]) = Some t" "tk_risk t = ''high''"
    using sample_next by blast
  with worker_holds_risky_tasks [OF this(1), of "''t1''"] show ?thesis by auto
qed

definition pending_tasks :: "task_engine \<Rightarrow> engine_task list" where
  "pending_tasks e = filter (\<lambda>t. tk_status t = Pending) (te_tasks e)"

lemma next_task_None: "next_task e = None \<longleftrightarrow> pending_tasks e = []"
  unfolding next_task_def pending_tasks_def
  by (cases "filter (\<lambda>t. tk_status t = Pending) (te_tasks e)") (auto split: option.splits)

lemma replace_first_filter:
  "distinct (map f xs) \<Longrightarrow> x \<in> set xs \<Longrightarrow> f x = f y \<Longrightarrow> P x \<Longrightarrow> \<not> P y \<Longrightarrow>
     Suc (length (filter P (replace_first (\<lambda>u. f u = f y) y xs))) = length (filter P xs)"
proof (induction xs)
  case (Cons a as)
  show ?case
  proof (cases "f a = f y")
    case True
    with Cons.prems have "x = a" by (metis distinct_map inj_onD list.set_intros(1))
    with True Cons.prems show ?thesis by simp
  next
    case False
    with Cons.prems have "x \<in> set as" "distinct (map f as)" by auto
    with Cons False show ?thesis by auto
  qed
qed simp

lemma worker_pending:
  assumes "engine_ok e"
  shows "length (pending_tasks (fst (process_one_pending_task now e))) = length (pending_tasks e) - 1"
proof (cases "next_task e")
  case None
  then show ?thesis using next_task_None [of e] by (simp add: process_one_pending_task_def)
next
  case (Some t)
  have "distinct (map tk_id (te_tasks e))" using assms by (simp add: engine_ok_def)
  moreover have "tk_status (worked now t) \<noteq> Pending" by (simp add: worked_def)
  ultimately have "Suc (length (filter (\<lambda>t. tk_status t = Pending)
      (replace_first (\<lambda>u. tk_id u = tk_id (worked now t)) (worked now t) (te_tasks e)))) = length (pending_tasks e)"
    unfolding pending_tasks_def using next_task_pending [OF Some] by (intro replace_first_filter) auto
  then show ?thesis unfolding pending_tasks_def worker_shape(2) [OF assms Some] by simp
qed

text \<open>The worker empties the queue: \<open>n\<close> worker steps in a row, on any engine reached from an empty one,
  leave exactly \<open>n\<close> fewer pending tasks, none once \<open>n\<close> is at least their number.\<close>

theorem worker_drains_queue:
  "length (pending_tasks (run_events task_step fresh_engine (rs @ replicate n (ReqWorker now)))) =
     length (pending_tasks (run_events task_step fresh_engine rs)) - n"
proof -
  have "length (pending_tasks (run_events task_step e (replicate n (ReqWorker now)))) = length (pending_tasks e) - n"
    if "engine_ok e" for e
    using that
  proof (induction n arbitrary: e)
    case (Suc n)
    have "engine_ok (fst (process_one_pending_task now e))" using Suc.prems by (rule worker_ok)
    with Suc worker_pending [of e now] show ?case by simp
  qed simp
  from this [OF run_ok_from_fresh] show ?thesis by (simp add: run_events_append)
qed

text \<open>The saturation and duplicate filters only ever apply to the newest task: since the history a
  candidate is compared with holds the candidate itself unless it is the last of the list, every
  older pending task with a token in its description is its own duplicate. The next task is the
  newest one when it is pending and passes both filters, and otherwise the oldest pending one,
  saturated or duplicate as it may be.\<close>

theorem next_task_filters_only_newest:
  assumes "pending_tasks e \<noteq> []" and "\<forall>t \<in> set (pending_tasks e). extract_task_signature (tk_description t) \<noteq> {}"
  shows "next_task e = Some
    (if tk_status (last (te_tasks e)) = Pending \<and> selectable (map tk_description (te_tasks e)) (last (te_tasks e))
     then last (te_tasks e) else hd (pending_tasks e))"
proof -
  let ?d = "map tk_description (te_tasks e)" and ?l = "last (te_tasks e)"
  have ne: "te_tasks e \<noteq> []" using assms(1) by (auto simp: pending_tasks_def)
  have only: "t = ?l" if "t \<in> set (pending_tasks e)" "selectable ?d t" for t
  proof (rule ccontr)
    assume "t \<noteq> ?l"
    moreover have "t \<in> set (butlast (te_tasks e) @ [?l])" using that(1) ne by (simp add: pending_tasks_def)
    ultimately have "tk_description t \<in> set (butlast ?d)" by (auto simp: map_butlast [symmetric])
    with assms(2) that show False by (simp add: selectable_def duplicate_of_itself)
  qed
  obtain p ps where p: "pending_tasks e = p # ps" using assms(1) by (cases "pending_tasks e") auto
  have nt: "next_task e = (case find_first (selectable ?d) (pending_tasks e) of Some t \<Rightarrow> Some t | None \<Rightarrow> Some p)"
    using p unfolding next_task_def pending_tasks_def by simp
  show ?thesis
  proof (cases "tk_status ?l = Pending \<and> selectable ?d ?l")
    case True
    then have "?l \<in> set (pending_tasks e)" using ne by (simp add: pending_tasks_def)
    with True obtain t where f: "find_first (selectable ?d) (pending_tasks e) = Some t"
      by (metis find_first_None option.exhaust)
    have "t = ?l" using only find_first_Some [OF f] by blast
    then show ?thesis unfolding nt f using True by simp
  next
    case False
    have "find_first (selectable ?d) (pending_tasks e) = None"
      unfolding find_first_None using only False by (auto simp: pending_tasks_def)
    then show ?thesis unfolding nt using False p by auto
  qed
qed

abbreviation two_tasks :: task_engine where
  "two_tasks \<equiv> run_events task_step fresh_engine
     [ReqAdd ''t'' ''u1'' ''ship'' None (Some ''x'') 0 ''user'' ''low'' None,
      ReqAdd ''t'' ''u2'' ''pack'' None (Some ''x'') 0 ''user'' ''low'' None]"

lemma two_tasks_list:
  "map (\<lambda>t. (tk_id t, tk_description t, tk_status t)) (te_tasks two_tasks) = [(1, ''ship'', Pending), (2, ''pack'', Pending)]"
  by (simp add: create_task_def fresh_engine_def engine_effects Let_def)

lemma newest_selectable: "selectable [''ship'', ''pack''] t" if "tk_description t = ''pack''"
  unfolding selectable_def that by code_simp

theorem next_task_filters_only_newest_witness:
  "\<exists>t. next_task two_tasks = Some t \<and> tk_id t = 2"
proof -
  have sig: "extract_task_signature ''ship'' \<noteq> {}" "extract_task_signature ''pack'' \<noteq> {}" by code_simp+
  obtain a b where t: "te_tasks two_tasks = [a, b]" and a: "tk_status a = Pending" "tk_description a = ''ship''"
    and b: "tk_id b = 2" "tk_status b = Pending" "tk_description b = ''pack''"
    using two_tasks_list by (auto simp: map_eq_Cons_conv)
  have pnd: "pending_tasks two_tasks = [a, b]" using t a b by (simp add: pending_tasks_def del: run_events.simps)
  have "next_task two_tasks = Some b"
    using next_task_filters_only_newest [of two_tasks] sig newest_selectable [OF b(3)]
    unfolding pnd t using a b by simp
  with b(1) show ?thesis by blast
qed

end
