(* ===== verification/MissionPlanner.thy ===== *)
theory MissionPlanner
  imports TaskEngine
begin

text \<open>
  \<^verbatim>\<open>igris/core/mission_planner.py\<close>: a mission's description becomes a list of steps
  with dependencies (one per numbered line or dash, else analyse, implement, test), the steps
  become tasks of the engine, and the plan is served as a graph. A mission file is an entry of a
  dictionary from id to mission. New step ids are drawn from a supply \<open>fresh :: nat \<Rightarrow> string\<close>,
  the n-th step of a plan taking the n-th; the clock and the uuids of new tasks are arguments.
\<close>

section \<open>Plans and missions\<close>

record plan_step =
  ps_id :: string
  ps_mission_id :: string
  ps_title :: string
  ps_description :: string
  ps_family :: string
  ps_dependencies :: "string list"
  ps_success_criteria :: "string list"
  ps_status :: string
  ps_safe_capabilities :: "string list"
  ps_risk :: string
  ps_order :: int

record mission =
  mi_id :: string
  mi_title :: string
  mi_description :: string
  mi_status :: string
  mi_created_at :: string
  mi_updated_at :: string
  mi_current_task_id :: "int option"
  mi_plan_summary :: string
  mi_steps :: "plan_step list"
  mi_task_ids :: "int list"

type_synonym mission_dir = "(string, mission) dict"

definition save_mission :: "mission \<Rightarrow> mission_dir \<Rightarrow> mission_dir" where
  "save_mission m d = dset d (mi_id m) m"

definition load_mission :: "string \<Rightarrow> mission_dir \<Rightarrow> mission option" where
  "load_mission i d = dget d i"

definition list_missions :: "mission_dir \<Rightarrow> mission list" where
  "list_missions d = List.map_filter (dget d) (sort (dkeys d))"

section \<open>The deterministic planner\<close>

definition FAMILY_MAP :: "(string \<times> string list) list" where
  "FAMILY_MAP =
     [(''analyze'', [''analyze'', ''read'', ''understand'', ''check'', ''review'', ''examine'', ''inspect'', ''study'', ''explore'']),
      (''test'', [''test'', ''verify'', ''validate'', ''assert'', ''check test'', ''run test'']),
      (''code'', [''implement'', ''create'', ''write code'', ''add feature'', ''build'', ''develop'', ''coding'']),
      (''fix'', [''fix'', ''repair'', ''resolve'', ''patch'', ''debug'', ''correct'']),
      (''refactor'', [''refactor'', ''restructure'', ''reorganize'', ''simplify'', ''clean'']),
      (''docs'', [''document'', ''write docs'', ''update readme'', ''add docs'']),
      (''config'', [''configure'', ''setup'', ''install'', ''deploy'']),
      (''git'', [''commit'', ''branch'', ''merge'', ''push'', ''pull request'', ''pr''])]"

definition classify_family :: "string \<Rightarrow> string" where
  "classify_family txt =
     (case find_first (\<lambda>(family, kws). any_in kws (py_lower txt)) FAMILY_MAP of
        None \<Rightarrow> ''other''
      | Some (family, kws) \<Rightarrow> family)"

definition quoted :: "string \<Rightarrow> string" where
  "quoted s = [CHR 0x27] @ s @ [CHR 0x27]"

definition generate_success_criteria :: "string \<Rightarrow> string \<Rightarrow> string list" where
  "generate_success_criteria step_title family =
     (if family = ''analyze'' then [''Analysis of '' @ quoted step_title @ '' complete with findings documented'']
      else if family = ''test'' then [''All tests pass (python -m pytest -q)'', ''No regressions introduced'']
      else if family = ''code'' then
        [''Implementation of '' @ quoted step_title @ '' complete'', ''Code compiles/runs without errors'']
      else if family = ''fix'' then
        [''Bug fix for '' @ quoted step_title @ '' verified'', ''Original issue no longer reproducible'']
      else if family = ''docs'' then [''Documentation for '' @ quoted step_title @ '' updated'']
      else if family = ''git'' then [''Git operation completed successfully'']
      else if family = ''config'' then [''Configuration applied and verified'']
      else [''Step '' @ quoted step_title @ '' completed successfully''])"

text \<open>\<^verbatim>\<open>str.isdigit\<close> of one character below 256 (the superscripts count).\<close>

definition is_digit_char :: "char \<Rightarrow> bool" where
  "is_digit_char c = (let n = ord_of c in 48 \<le> n \<and> n \<le> 57 \<or> n = 178 \<or> n = 179 \<or> n = 185)"

definition numbered_line :: "string \<Rightarrow> bool" where
  "numbered_line line \<longleftrightarrow> line \<noteq> [] \<and> (is_digit_char (hd line) \<or> starts line ''- '')"

definition clean_line :: "string \<Rightarrow> string" where
  "clean_line line = strip (dropWhile (\<lambda>c. c \<in> set ''0123456789.-) '') line)"

definition plan_lines :: "string \<Rightarrow> string list" where
  "plan_lines desc =
     filter numbered_line (filter (\<lambda>l. l \<noteq> []) (map strip (split_on (CHR 0x0A) desc)))"

text \<open>The loop over the numbered lines: \<open>i\<close> is the index of the line, \<open>steps\<close> what is planned.\<close>

fun numbered_steps :: "(nat \<Rightarrow> string) \<Rightarrow> string \<Rightarrow> nat \<Rightarrow> plan_step list \<Rightarrow> string list \<Rightarrow> plan_step list" where
  "numbered_steps fresh mid i steps [] = steps"
| "numbered_steps fresh mid i steps (line # rest) =
     (let clean = clean_line line in
      if clean = [] then numbered_steps fresh mid (i + 1) steps rest
      else
        (let family = classify_family clean;
             step = \<lparr>ps_id = fresh (length steps), ps_mission_id = mid, ps_title = take 120 clean,
               ps_description = clean, ps_family = family,
               ps_dependencies = (if steps = [] then [] else [ps_id (last steps)]),
               ps_success_criteria = generate_success_criteria (take 80 clean) family,
               ps_status = ''pending'', ps_safe_capabilities = [], ps_risk = ''low'', ps_order = int i\<rparr>
         in numbered_steps fresh mid (i + 1) (steps @ [step]) rest))"

definition default_steps :: "(nat \<Rightarrow> string) \<Rightarrow> string \<Rightarrow> string \<Rightarrow> string \<Rightarrow> plan_step list" where
  "default_steps fresh mid title desc =
     (let family = classify_family desc;
          step_analyze = \<lparr>ps_id = fresh 0, ps_mission_id = mid, ps_title = take 120 (''Analyze: '' @ title),
            ps_description = ''Understand requirements for: '' @ take 200 desc, ps_family = ''analyze'',
            ps_dependencies = [], ps_success_criteria = [''Requirements understood'', ''Approach documented''],
            ps_status = ''pending'', ps_safe_capabilities = [], ps_risk = ''low'', ps_order = 0\<rparr>;
          step_impl = \<lparr>ps_id = fresh 1, ps_mission_id = mid, ps_title = take 120 (''Implement: '' @ title),
            ps_description = ''Implement the changes for: '' @ take 200 desc,
            ps_family = (if family \<noteq> ''analyze'' then family else ''code''),
            ps_dependencies = [ps_id step_analyze],
            ps_success_criteria = generate_success_criteria title family,
            ps_status = ''pending'', ps_safe_capabilities = [''read'', ''write'', ''patch_propose''],
            ps_risk = ''low'', ps_order = 1\<rparr>;
          step_test = \<lparr>ps_id = fresh 2, ps_mission_id = mid, ps_title = take 120 (''Test: '' @ title),
            ps_description = ''Verify implementation with tests'', ps_family = ''test'',
            ps_dependencies = [ps_id step_impl], ps_success_criteria = [''All tests pass'', ''No regressions''],
            ps_status = ''pending'', ps_safe_capabilities = [], ps_risk = ''low'', ps_order = 2\<rparr>
      in [step_analyze, step_impl, step_test])"

text \<open>\<^verbatim>\<open>generate_plan\<close>, of a mission's id, title and description.\<close>

definition generate_mission_plan :: "(nat \<Rightarrow> string) \<Rightarrow> string \<Rightarrow> string \<Rightarrow> string \<Rightarrow> plan_step list" where
  "generate_mission_plan fresh mid title description =
     (let desc = strip description;
          numbered = plan_lines desc
      in if numbered \<noteq> [] then numbered_steps fresh mid 0 [] numbered
         else default_steps fresh mid title desc)"

definition plan_mission ::
    "string \<Rightarrow> (nat \<Rightarrow> string) \<Rightarrow> string \<Rightarrow> mission_dir \<Rightarrow> mission_dir \<times> mission option" where
  "plan_mission now fresh mid d =
     (case load_mission mid d of
        None \<Rightarrow> (d, None)
      | Some m \<Rightarrow>
          (let steps = generate_mission_plan fresh (mi_id m) (mi_title m) (mi_description m);
               m' = m\<lparr>mi_steps := steps, mi_status := ''planned'',
                 mi_plan_summary := nat_str (length steps) @ '' steps planned'', mi_updated_at := now\<rparr>
           in (save_mission m' d, Some m')))"

section \<open>Materialising tasks\<close>

definition task_name :: "engine_task \<Rightarrow> string" where
  "task_name t = str_or (tk_title t) (tk_description t)"

text \<open>The loop over the steps: \<open>existing\<close> is the set of titles before it starts.\<close>

fun materialize_steps ::
    "string \<Rightarrow> (nat \<Rightarrow> string) \<Rightarrow> string list \<Rightarrow> nat \<Rightarrow> plan_step list \<Rightarrow> task_engine \<times> int list \<Rightarrow> task_engine \<times> int list" where
  "materialize_steps now uids existing n_steps [] (e, ids) = (e, ids)"
| "materialize_steps now uids existing n_steps (s # rest) (e, ids) =
     (if ps_title s \<in> set existing then materialize_steps now uids existing n_steps rest (e, ids)
      else
        (let (e', t) = create_task now (uids (length ids)) (ps_description s) (Some (ps_title s))
               (Some (ps_family s)) (int n_steps - ps_order s) ''mission'' (ps_risk s)
               (Some (ps_success_criteria s)) e
         in materialize_steps now uids existing n_steps rest (e', ids @ [tk_id t])))"

definition materialize_tasks ::
    "string \<Rightarrow> (nat \<Rightarrow> string) \<Rightarrow> string \<Rightarrow> mission_dir \<times> task_engine \<Rightarrow> (mission_dir \<times> task_engine) \<times> mission option" where
  "materialize_tasks now uids mid = (\<lambda>(d, e).
     (case load_mission mid d of
        None \<Rightarrow> ((d, e), None)
      | Some m \<Rightarrow>
          if mi_steps m = [] then ((d, e), None)
          else
            (let existing = map task_name (te_tasks e);
                 (e', ids) = materialize_steps now uids existing (length (mi_steps m)) (mi_steps m) (e, []);
                 m1 = m\<lparr>mi_task_ids := mi_task_ids m @ ids, mi_status := ''active'', mi_updated_at := now\<rparr>;
                 m2 = (if ids \<noteq> [] then m1\<lparr>mi_current_task_id := Some (hd ids)\<rparr> else m1)
             in ((save_mission m2 d, e'), Some m2))))"

section \<open>The plan as a graph\<close>

record graph_node =
  gn_id :: string
  gn_title :: string
  gn_family :: string
  gn_status :: string
  gn_order :: int
  gn_risk :: string

record mission_graph =
  mg_mission_id :: string
  mg_title :: string
  mg_status :: string
  mg_nodes :: "graph_node list"
  mg_edges :: "(string \<times> string) list"

definition get_mission_graph :: "string \<Rightarrow> mission_dir \<Rightarrow> mission_graph option" where
  "get_mission_graph mid d =
     map_option (\<lambda>m. \<lparr>mg_mission_id = mi_id m, mg_title = mi_title m, mg_status = mi_status m,
        mg_nodes = map (\<lambda>s. \<lparr>gn_id = ps_id s, gn_title = ps_title s, gn_family = ps_family s,
          gn_status = ps_status s, gn_order = ps_order s, gn_risk = ps_risk s\<rparr>) (mi_steps m),
        mg_edges = concat (map (\<lambda>s. map (\<lambda>dep. (dep, ps_id s)) (ps_dependencies s)) (mi_steps m))\<rparr>)
       (load_mission mid d)"

section \<open>The plan is a chain\<close>

definition chain_step :: "(nat \<Rightarrow> string) \<Rightarrow> string \<Rightarrow> plan_step list \<Rightarrow> nat \<Rightarrow> bool" where
  "chain_step fresh mid steps i \<longleftrightarrow>
     ps_id (steps ! i) = fresh i \<and> ps_mission_id (steps ! i) = mid \<and>
     ps_dependencies (steps ! i) = (if i = 0 then [] else [ps_id (steps ! (i - 1))]) \<and>
     ps_title (steps ! i) \<noteq> [] \<and> length (ps_title (steps ! i)) \<le> 120 \<and>
     ps_status (steps ! i) = ''pending'' \<and> ps_success_criteria (steps ! i) \<noteq> []"

definition chained :: "(nat \<Rightarrow> string) \<Rightarrow> string \<Rightarrow> plan_step list \<Rightarrow> bool" where
  "chained fresh mid steps \<longleftrightarrow>
     (\<forall>i < length steps. chain_step fresh mid steps i) \<and> sorted_wrt (<) (map ps_order steps)"

lemma criteria_nonempty [simp]: "generate_success_criteria t f \<noteq> []"
  by (simp add: generate_success_criteria_def)

lemma chained_snoc:
  assumes "chained fresh mid steps" "chain_step fresh mid (steps @ [s]) (length steps)"
    and "\<forall>t \<in> set steps. ps_order t < ps_order s"
  shows "chained fresh mid (steps @ [s])"
proof -
  have "chain_step fresh mid (steps @ [s]) i" if "i < length steps" for i
    using assms(1) that by (auto simp: chained_def chain_step_def nth_append)
  then have "\<forall>i < length (steps @ [s]). chain_step fresh mid (steps @ [s]) i"
    using assms(2) by (auto simp: less_Suc_eq)
  with assms(1,3) show ?thesis by (simp add: chained_def sorted_wrt_append)
qed

lemma numbered_chained:
  "chained fresh mid steps \<Longrightarrow> \<forall>t \<in> set steps. ps_order t < int i \<Longrightarrow>
     chained fresh mid (numbered_steps fresh mid i steps ls)"
proof (induction ls arbitrary: i steps)
  case (Cons l ls)
  have mono: "\<forall>t \<in> set steps. ps_order t < int (i + 1)" using Cons.prems(2) by fastforce
  show ?case
  proof (cases "clean_line l = []")
    case True
    with Cons.IH [OF Cons.prems(1) mono] show ?thesis by simp
  next
    case False
    let ?s = "\<lparr>ps_id = fresh (length steps), ps_mission_id = mid, ps_title = take 120 (clean_line l),
      ps_description = clean_line l, ps_family = classify_family (clean_line l),
      ps_dependencies = (if steps = [] then [] else [ps_id (last steps)]),
      ps_success_criteria = generate_success_criteria (take 80 (clean_line l)) (classify_family (clean_line l)),
      ps_status = ''pending'', ps_safe_capabilities = [], ps_risk = ''low'', ps_order = int i\<rparr>"
    have "chain_step fresh mid (steps @ [?s]) (length steps)"
      using False by (auto simp: chain_step_def nth_append last_conv_nth)
    then have "chained fresh mid (steps @ [?s])"
      using Cons.prems by (intro chained_snoc) simp_all
    moreover have "\<forall>t \<in> set (steps @ [?s]). ps_order t < int (i + 1)" using mono by simp
    ultimately show ?thesis using False Cons.IH [of "steps @ [?s]" "i + 1"] by (simp add: Let_def)
  qed
qed simp

lemma default_chained: "chained fresh mid (default_steps fresh mid title desc)"
  by (simp add: chained_def chain_step_def default_steps_def Let_def All_less_Suc numeral_2_eq_2)

lemma mission_plan_chained: "chained fresh mid (generate_mission_plan fresh mid title descr)"
  using numbered_chained [of fresh mid "[]" 0] default_chained
  by (simp add: generate_mission_plan_def Let_def chained_def)

text \<open>Every plan is one chain in order: the first step depends on nothing, each later one on exactly the
  step before it; every step is pending, belongs to the mission, takes a fresh id, has a non-empty
  title of at most 120 characters and at least one success criterion, and the order numbers increase.\<close>

theorem plan_is_a_chain:
  assumes "i < length (generate_mission_plan fresh mid title descr)"
  shows "ps_dependencies (generate_mission_plan fresh mid title descr ! i) =
      (if i = 0 then [] else [ps_id (generate_mission_plan fresh mid title descr ! (i - 1))]) \<and>
    ps_id (generate_mission_plan fresh mid title descr ! i) = fresh i \<and>
    ps_mission_id (generate_mission_plan fresh mid title descr ! i) = mid \<and>
    ps_status (generate_mission_plan fresh mid title descr ! i) = ''pending'' \<and>
    ps_title (generate_mission_plan fresh mid title descr ! i) \<noteq> [] \<and>
    length (ps_title (generate_mission_plan fresh mid title descr ! i)) \<le> 120 \<and>
    ps_success_criteria (generate_mission_plan fresh mid title descr ! i) \<noteq> [] \<and>
    sorted_wrt (<) (map ps_order (generate_mission_plan fresh mid title descr))"
  using mission_plan_chained [of fresh mid title descr] assms by (simp add: chained_def chain_step_def)

theorem plan_is_a_chain_witness:
  "ps_dependencies (generate_mission_plan nat_str ''m'' ''t'' ''go'' ! 1) = [''0'']"
proof -
  have p: "plan_lines (strip ''go'') = []" by code_simp
  then have l: "length (generate_mission_plan nat_str ''m'' ''t'' ''go'') = 3"
    by (simp add: generate_mission_plan_def default_steps_def Let_def)
  have "nat_str 0 = ''0''" by code_simp
  with plan_is_a_chain [of 0 nat_str "''m''" "''t''" "''go''"] plan_is_a_chain [of 1 nat_str "''m''" "''t''" "''go''"] l
  show ?thesis by simp
qed

lemma numbered_steps_Nil:
  "numbered_steps fresh mid i steps ls = [] \<longleftrightarrow> steps = [] \<and> (\<forall>l \<in> set ls. clean_line l = [])"
  by (induction ls arbitrary: i steps) (auto simp: Let_def)

text \<open>A plan can be empty: exactly when the description has numbered or dashed lines and none of them
  says anything after its number. Such a mission is planned with zero steps instead of the default
  three.\<close>

theorem plan_empty_iff:
  "generate_mission_plan fresh mid title descr = [] \<longleftrightarrow>
     plan_lines (strip descr) \<noteq> [] \<and> (\<forall>l \<in> set (plan_lines (strip descr)). clean_line l = [])"
  by (auto simp: generate_mission_plan_def Let_def numbered_steps_Nil default_steps_def)

lemma empty_plan_example: "generate_mission_plan nat_str ''m'' ''t'' ''1.'' = []"
  unfolding plan_empty_iff by code_simp

section \<open>Plans on disk, graphs and tasks\<close>

interpretation missions: keyed_store "\<lambda>d i. load_mission i d" "\<lambda>d i m. dset d i m"
  by unfold_locales (simp_all add: load_mission_def)

definition missions_ok :: "mission_dir \<Rightarrow> bool" where
  "missions_ok d \<longleftrightarrow> (\<forall>i m. load_mission i d = Some m \<longrightarrow> mi_id m = i)"

lemma load_save_mission: "load_mission i (save_mission m d) = (if i = mi_id m then Some m else load_mission i d)"
  using missions.load_save by (simp add: save_mission_def)

text \<open>The pairs of neighbours of a list.\<close>

fun consecutive :: "'a list \<Rightarrow> ('a \<times> 'a) list" where
  "consecutive (x # y # ys) = (x, y) # consecutive (y # ys)"
| "consecutive _ = []"

lemma consecutive_snoc: "consecutive (xs @ [u, x]) = consecutive (xs @ [u]) @ [(u, x)]"
  by (induction xs rule: consecutive.induct) simp_all

lemma chain_edges:
  "(\<forall>i < length steps. ps_dependencies (steps ! i) = (if i = 0 then [] else [ps_id (steps ! (i - 1))])) \<Longrightarrow>
     concat (map (\<lambda>s. map (\<lambda>dep. (dep, ps_id s)) (ps_dependencies s)) steps) =
     consecutive (map ps_id steps)"
proof (induction steps rule: rev_induct)
  case (snoc s steps)
  have prem: "\<forall>i < length steps. ps_dependencies (steps ! i) = (if i = 0 then [] else [ps_id (steps ! (i - 1))])"
  proof (intro allI impI)
    fix i assume "i < length steps"
    with snoc.prems [rule_format, of i] show "ps_dependencies (steps ! i) = (if i = 0 then [] else [ps_id (steps ! (i - 1))])"
      by (auto simp: nth_append split: if_splits)
  qed
  have s: "ps_dependencies s = (if steps = [] then [] else [ps_id (last steps)])"
    using snoc.prems [rule_format, of "length steps"] by (auto simp: nth_append last_conv_nth)
  show ?case
  proof (cases steps rule: rev_cases)
    case Nil
    with s show ?thesis by simp
  next
    case (snoc us u)
    with s snoc.IH [OF prem] show ?thesis by (simp add: consecutive_snoc)
  qed
qed simp

text \<open>Planning a stored mission succeeds, stores it as planned under its id with its other missions
  untouched, and the graph served for it has one node per step and exactly one edge from each step
  to the next.\<close>

theorem planned_mission_graph:
  assumes "load_mission mid d = Some m" and "missions_ok d"
  shows "\<exists>m' g. plan_mission now fresh mid d = (save_mission m' d, Some m') \<and>
    mi_id m' = mid \<and> mi_status m' = ''planned'' \<and>
    mi_steps m' = generate_mission_plan fresh mid (mi_title m) (mi_description m) \<and>
    get_mission_graph mid (fst (plan_mission now fresh mid d)) = Some g \<and>
    map gn_id (mg_nodes g) = map ps_id (mi_steps m') \<and> mg_edges g = consecutive (map gn_id (mg_nodes g)) \<and>
    (\<forall>j. j = mid \<or> load_mission j (fst (plan_mission now fresh mid d)) = load_mission j d)"
proof -
  have i: "mi_id m = mid" using assms by (auto simp: missions_ok_def)
  let ?steps = "generate_mission_plan fresh mid (mi_title m) (mi_description m)"
  let ?m = "m\<lparr>mi_steps := ?steps, mi_status := ''planned'',
    mi_plan_summary := nat_str (length ?steps) @ '' steps planned'', mi_updated_at := now\<rparr>"
  have p: "plan_mission now fresh mid d = (save_mission ?m d, Some ?m)"
    using assms(1) i by (simp add: plan_mission_def Let_def)
  have "concat (map (\<lambda>s. map (\<lambda>dep. (dep, ps_id s)) (ps_dependencies s)) ?steps) = consecutive (map ps_id ?steps)"
    using mission_plan_chained [of fresh mid "mi_title m" "mi_description m"]
    by (intro chain_edges) (simp add: chained_def chain_step_def)
  then show ?thesis
    unfolding p using i by (auto simp: get_mission_graph_def load_save_mission comp_def)
qed

theorem planned_mission_graph_witness:
  "\<exists>m' g. plan_mission ''t1'' nat_str ''m1'' [(''m1'', \<lparr>mi_id = ''m1'', mi_title = ''x'', mi_description = ''go'',
      mi_status = ''created'', mi_created_at = ''t0'', mi_updated_at = ''t0'', mi_current_task_id = None,
      mi_plan_summary = [], mi_steps = [], mi_task_ids = []\<rparr>)] = (m', g) \<and> g \<noteq> None"
proof -
  let ?m = "\<lparr>mi_id = ''m1'', mi_title = ''x'', mi_description = ''go'',
      mi_status = ''created'', mi_created_at = ''t0'', mi_updated_at = ''t0'', mi_current_task_id = None,
      mi_plan_summary = [], mi_steps = [], mi_task_ids = []\<rparr> :: mission"
  have "load_mission ''m1'' [(''m1'', ?m)] = Some ?m" "missions_ok [(''m1'', ?m)]"
    by (auto simp: load_mission_def missions_ok_def split: if_splits)
  from planned_mission_graph [OF this, of "''t1''" nat_str] show ?thesis by auto
qed

lemma create_task_shape:
  "te_tasks (fst (create_task now uid descr title fam prio src risk crit e)) =
     te_tasks e @ [snd (create_task now uid descr title fam prio src risk crit e)]"
  "tk_id (snd (create_task now uid descr title fam prio src risk crit e)) = te_next_id e"
  "tk_title (snd (create_task now uid descr title fam prio src risk crit e)) = title"
  "te_next_id (fst (create_task now uid descr title fam prio src risk crit e)) = te_next_id e + 1"
  by (simp_all add: create_task_def engine_effects Let_def)

lemma materialize_steps_shape:
  "\<exists>new. te_tasks (fst (materialize_steps now uids ex n steps (e, ids))) = te_tasks e @ new \<and>
     snd (materialize_steps now uids ex n steps (e, ids)) = ids @ map tk_id new \<and>
     map tk_title new = map (\<lambda>s. Some (ps_title s)) (filter (\<lambda>s. ps_title s \<notin> set ex) steps)"
proof (induction steps arbitrary: e ids)
  case (Cons s steps)
  show ?case
  proof (cases "ps_title s \<in> set ex")
    case True
    with Cons show ?thesis by simp
  next
    case False
    let ?c = "create_task now (uids (length ids)) (ps_description s) (Some (ps_title s))
               (Some (ps_family s)) (int n - ps_order s) ''mission'' (ps_risk s) (Some (ps_success_criteria s)) e"
    have step: "materialize_steps now uids ex n (s # steps) (e, ids) =
        materialize_steps now uids ex n steps (fst ?c, ids @ [tk_id (snd ?c)])"
      using False by (simp add: case_prod_beta)
    obtain new where new: "te_tasks (fst (materialize_steps now uids ex n (s # steps) (e, ids))) = te_tasks (fst ?c) @ new"
      "snd (materialize_steps now uids ex n (s # steps) (e, ids)) = (ids @ [tk_id (snd ?c)]) @ map tk_id new"
      "map tk_title new = map (\<lambda>s. Some (ps_title s)) (filter (\<lambda>s. ps_title s \<notin> set ex) steps)"
      using Cons.IH [of "fst ?c" "ids @ [tk_id (snd ?c)]"] unfolding step by blast
    have "te_tasks (fst (materialize_steps now uids ex n (s # steps) (e, ids))) = te_tasks e @ (snd ?c # new)"
      unfolding new(1) create_task_shape(1) by simp
    then show ?thesis using new(2,3) False create_task_shape(3)
      by (intro exI [of _ "snd ?c # new"]) simp
  qed
qed simp

lemma materialize_steps_known:
  "\<forall>s \<in> set steps. ps_title s \<in> set ex \<Longrightarrow> materialize_steps now uids ex n steps (e, ids) = (e, ids)"
  by (induction steps) auto

text \<open>Materialising a plan is idempotent: the first call appends one task for every step whose title no
  task has, in plan order, and records their ids; a second call, whatever the clock says, creates
  nothing and leaves the engine and the mission's task ids as they are.\<close>

theorem materialize_is_idempotent:
  assumes "load_mission mid d = Some m" "mi_id m = mid" "mi_steps m \<noteq> []"
    and "\<forall>s \<in> set (mi_steps m). ps_title s \<noteq> []"
  shows "\<exists>d' e' m' new. materialize_tasks now uids mid (d, e) = ((d', e'), Some m') \<and>
    te_tasks e' = te_tasks e @ new \<and> mi_task_ids m' = mi_task_ids m @ map tk_id new \<and> mi_status m' = ''active'' \<and>
    map tk_title new = map (\<lambda>s. Some (ps_title s))
      (filter (\<lambda>s. ps_title s \<notin> set (map task_name (te_tasks e))) (mi_steps m)) \<and>
    (\<exists>d'' m''. materialize_tasks now' uids' mid (d', e') = ((d'', e'), Some m'') \<and> mi_task_ids m'' = mi_task_ids m')"
proof -
  let ?ex = "map task_name (te_tasks e)" and ?n = "length (mi_steps m)"
  let ?r = "materialize_steps now uids ?ex ?n (mi_steps m) (e, [])"
  obtain new where new: "te_tasks (fst ?r) = te_tasks e @ new" "snd ?r = map tk_id new"
    "map tk_title new = map (\<lambda>s. Some (ps_title s)) (filter (\<lambda>s. ps_title s \<notin> set ?ex) (mi_steps m))"
    using materialize_steps_shape [of now uids ?ex ?n "mi_steps m" e "[]"] by auto
  obtain m' where m': "materialize_tasks now uids mid (d, e) = ((save_mission m' d, fst ?r), Some m')"
    "mi_task_ids m' = mi_task_ids m @ map tk_id new" "mi_status m' = ''active''" "mi_id m' = mid"
    "mi_steps m' = mi_steps m"
    using assms(1,2,3) new(2) by (auto simp: materialize_tasks_def Let_def case_prod_beta)
  have "ps_title s \<in> set (map task_name (te_tasks (fst ?r)))" if s: "s \<in> set (mi_steps m)" for s
  proof (cases "ps_title s \<in> set ?ex")
    case False
    with s have "Some (ps_title s) \<in> set (map tk_title new)" unfolding new(3) by auto
    then obtain t where "t \<in> set new" "tk_title t = Some (ps_title s)" by auto
    moreover have "ps_title s \<noteq> []" using assms(4) s by blast
    ultimately show ?thesis unfolding new(1) by (force simp: task_name_def str_or_def)
  qed (simp add: new(1))
  then have known: "materialize_steps now' uids' (map task_name (te_tasks (fst ?r))) ?n (mi_steps m) (fst ?r, []) = (fst ?r, [])"
    by (intro materialize_steps_known) blast
  have "load_mission mid (save_mission m' d) = Some m'" using m'(4) by (simp add: load_save_mission)
  then have "\<exists>d'' m''. materialize_tasks now' uids' mid (save_mission m' d, fst ?r) = ((d'', fst ?r), Some m'') \<and>
      mi_task_ids m'' = mi_task_ids m'"
    using m'(5) assms(3) known by (simp add: materialize_tasks_def Let_def)
  then show ?thesis using m' new(1,3) by blast
qed

abbreviation tiny_step :: plan_step where
  "tiny_step \<equiv> \<lparr>ps_id = ''s1'', ps_mission_id = ''m1'', ps_title = ''go'', ps_description = ''go'',
     ps_family = ''other'', ps_dependencies = [], ps_success_criteria = [''ok''], ps_status = ''pending'',
     ps_safe_capabilities = [], ps_risk = ''low'', ps_order = 0\<rparr>"

abbreviation tiny_mission :: mission where
  "tiny_mission \<equiv> \<lparr>mi_id = ''m1'', mi_title = ''x'', mi_description = ''1. go'',
      mi_status = ''planned'', mi_created_at = ''t0'', mi_updated_at = ''t0'', mi_current_task_id = None,
      mi_plan_summary = [], mi_steps = [tiny_step], mi_task_ids = []\<rparr>"

theorem materialize_is_idempotent_witness:
  "\<exists>d' e' m'. materialize_tasks ''t1'' nat_str ''m1'' ([(''m1'', tiny_mission)], fresh_engine) = ((d', e'), Some m') \<and>
     length (te_tasks e') = 1 \<and>
     (\<exists>d'' m''. materialize_tasks ''t2'' nat_str ''m1'' (d', e') = ((d'', e'), Some m''))"
proof -
  have l: "load_mission ''m1'' [(''m1'', tiny_mission)] = Some tiny_mission" by (simp add: load_mission_def)
  from materialize_is_idempotent [OF l, of "''t1''" nat_str fresh_engine "''t2''" nat_str]
  obtain d' e' m' new where r: "materialize_tasks ''t1'' nat_str ''m1'' ([(''m1'', tiny_mission)], fresh_engine) = ((d', e'), Some m')"
    "te_tasks e' = te_tasks fresh_engine @ new"
    "map tk_title new = map (\<lambda>s. Some (ps_title s))
       (filter (\<lambda>s. ps_title s \<notin> set (map task_name (te_tasks fresh_engine))) (mi_steps tiny_mission))"
    "\<exists>d'' m''. materialize_tasks ''t2'' nat_str ''m1'' (d', e') = ((d'', e'), Some m'') \<and> mi_task_ids m'' = mi_task_ids m'"
    by auto
  have "length new = 1" using arg_cong [OF r(3), of length] by (simp add: fresh_engine_def)
  with r show ?thesis by (auto simp: fresh_engine_def)
qed

end
