(* ===== verification/MissionControl.thy ===== *)
theory MissionControl
  imports MissionPlanner Redaction
begin

text \<open>
  \<^verbatim>\<open>igris/core/mission_controller.py\<close>: the lifecycle of a controlled mission (create,
  plan, execute the next step, report its outcome, pause, resume, block, unblock, verify, report).
  Every operation loads the mission's file, works on the copy and saves it, so the state is the
  directory: a dictionary from mission id to the record \<^verbatim>\<open>to_dict\<close> writes, which keeps
  the last 50 log entries and redacts artifact paths. The plan is the one of
  \<open>MissionPlanner\<close>. The clock and new ids are arguments; success rates are exact, and
  their rounding to two digits for display is left out.
\<close>

section \<open>Missions\<close>

record log_entry =
  le_timestamp :: string
  le_event :: string
  le_detail :: string
  le_step :: nat
  le_status :: string

record mission_task =
  mt_id :: string
  mt_title :: string
  mt_description :: string
  mt_family :: string
  mt_status :: string
  mt_dependencies :: "string list"
  mt_success_criteria :: "string list"
  mt_risk :: string
  mt_order :: int
  mt_started_at :: "string option"
  mt_completed_at :: "string option"
  mt_outcome_detail :: "string option"

record mission_artifact =
  ma_id :: string
  ma_type :: string
  ma_path :: string
  ma_description :: string
  ma_created_at :: string

record summary_line =
  su_title :: string
  su_status :: string
  su_family :: string
  su_outcome_detail :: string

record delivery_report =
  dr_work_session_id :: string
  dr_goal :: string
  dr_files_modified :: "string list"
  dr_rollback_available :: bool
  dr_run_id :: string

record mission_report =
  mr_mission_id :: string
  mr_title :: string
  mr_goal :: string
  mr_status :: string
  mr_trace_id :: string
  mr_created_at :: string
  mr_completed_at :: string
  mr_total_tasks :: nat
  mr_completed_tasks :: nat
  mr_failed_tasks :: nat
  mr_skipped_tasks :: nat
  mr_success_rate :: rat
  mr_artifacts :: "mission_artifact list"
  mr_execution_summary :: "summary_line list"
  mr_risk_level :: string
  mr_rollback_plan :: "string option"
  mr_constraints_respected :: "string list"
  mr_delivery_report :: delivery_report

record cmission =
  cm_id :: string
  cm_title :: string
  cm_goal :: string
  cm_description :: string
  cm_status :: string
  cm_workspace :: string
  cm_target_hosts :: "string list"
  cm_constraints :: "string list"
  cm_success_criteria :: "string list"
  cm_risk_level :: string
  cm_plan :: "plan_step list"
  cm_tasks :: "mission_task list"
  cm_artifacts :: "mission_artifact list"
  cm_rollback_plan :: "string option"
  cm_current_step :: nat
  cm_total_steps :: nat
  cm_final_report :: "mission_report option"
  cm_created_at :: string
  cm_updated_at :: string
  cm_trace_id :: string
  cm_paused_at :: "string option"
  cm_blocked_reason :: "string option"
  cm_execution_log :: "log_entry list"
  cm_work_session_id :: "string option"

definition MISSION_STATUSES :: "string list" where
  "MISSION_STATUSES = [''created'', ''planning'', ''planned'', ''executing'', ''blocked'', ''verifying'',
     ''paused'', ''done'', ''failed'']"

definition artifact_to_dict :: "mission_artifact \<Rightarrow> mission_artifact" where
  "artifact_to_dict a = a\<lparr>ma_path := redact_secrets (ma_path a)\<rparr>"

definition cmission_to_dict :: "cmission \<Rightarrow> cmission" where
  "cmission_to_dict m = m\<lparr>cm_artifacts := map artifact_to_dict (cm_artifacts m),
     cm_execution_log := slice_from (-50) (cm_execution_log m)\<rparr>"

definition touch :: "string \<Rightarrow> cmission \<Rightarrow> cmission" where
  "touch now m = m\<lparr>cm_updated_at := now\<rparr>"

definition log_event :: "string \<Rightarrow> string \<Rightarrow> string \<Rightarrow> cmission \<Rightarrow> cmission" where
  "log_event now event detail m = m\<lparr>cm_execution_log := cm_execution_log m @
     [\<lparr>le_timestamp = now, le_event = event, le_detail = redact_secrets detail,
       le_step = cm_current_step m, le_status = cm_status m\<rparr>]\<rparr>"

type_synonym cdir = "(string, cmission) dict"

definition save_controlled_mission :: "cmission \<Rightarrow> cdir \<Rightarrow> cdir" where
  "save_controlled_mission m d = dset d (cm_id m) (cmission_to_dict m)"

definition load_controlled_mission :: "string \<Rightarrow> cdir \<Rightarrow> cmission option" where
  "load_controlled_mission i d = dget d i"

definition delete_controlled_mission :: "string \<Rightarrow> cdir \<Rightarrow> cdir \<times> bool" where
  "delete_controlled_mission i d = (if dget d i \<noteq> None then (ddel d i, True) else (d, False))"

section \<open>Explaining the state\<close>

definition with_status :: "string list \<Rightarrow> cmission \<Rightarrow> mission_task list" where
  "with_status ss m = filter (\<lambda>t. mt_status t \<in> set ss) (cm_tasks m)"

text \<open>The sentences of \<^verbatim>\<open>_explain_next_action\<close>, by the data they print.\<close>

datatype next_action =
    ActCompleted | ActFailed | ActPaused | ActBlocked string | ActVerifying | ActNeedsPlan
  | ActNoTasks | ActReadyToVerify | ActStep nat nat string

definition explain_next_action :: "cmission \<Rightarrow> next_action" where
  "explain_next_action m =
     (if cm_status m = ''done'' then ActCompleted
      else if cm_status m = ''failed'' then ActFailed
      else if cm_status m = ''paused'' then ActPaused
      else if cm_status m = ''blocked'' then ActBlocked (str_or (cm_blocked_reason m) ''unknown reason'')
      else if cm_status m = ''verifying'' then ActVerifying
      else if cm_status m = ''created'' \<or> cm_status m = ''planning'' then ActNeedsPlan
      else if cm_tasks m = [] then ActNoTasks
      else if length (cm_tasks m) \<le> cm_current_step m then ActReadyToVerify
      else ActStep (cm_current_step m + 1) (cm_total_steps m) (mt_title (cm_tasks m ! cm_current_step m)))"

record state_explanation =
  se_mission_id :: string
  se_status :: string
  se_progress :: string
  se_current_step :: nat
  se_current_task :: "mission_task option"
  se_completed :: nat
  se_failed :: nat
  se_pending :: nat
  se_blocked_reason :: "string option"
  se_next_action :: next_action

definition explain_state :: "cmission \<Rightarrow> state_explanation" where
  "explain_state m =
     (let completed = length (with_status [''done''] m) in
      \<lparr>se_mission_id = cm_id m, se_status = cm_status m,
       se_progress = nat_str completed @ ''/'' @ nat_str (cm_total_steps m) @ '' steps completed'',
       se_current_step = cm_current_step m,
       se_current_task = (if cm_current_step m < length (cm_tasks m)
                          then Some (cm_tasks m ! cm_current_step m) else None),
       se_completed = completed, se_failed = length (with_status [''failed''] m),
       se_pending = length (with_status [''pending'', ''created''] m),
       se_blocked_reason = cm_blocked_reason m, se_next_action = explain_next_action m\<rparr>)"

section \<open>Create and plan\<close>

definition create_mission ::
    "string \<Rightarrow> string \<Rightarrow> string \<Rightarrow> string \<Rightarrow> string \<Rightarrow> string \<Rightarrow> string \<Rightarrow> string list \<Rightarrow> string list \<Rightarrow>
     string list \<Rightarrow> string \<Rightarrow> string option \<Rightarrow> cdir \<Rightarrow> cdir \<times> cmission" where
  "create_mission now new_id trace title goal description workspace hosts constraints criteria risk rollback d =
     (let m = \<lparr>cm_id = new_id, cm_title = title, cm_goal = goal,
            cm_description = (if description = [] then goal else description), cm_status = ''created'',
            cm_workspace = workspace, cm_target_hosts = hosts, cm_constraints = constraints,
            cm_success_criteria = criteria, cm_risk_level = risk, cm_plan = [], cm_tasks = [],
            cm_artifacts = [], cm_rollback_plan = rollback, cm_current_step = 0, cm_total_steps = 0,
            cm_final_report = None, cm_created_at = now, cm_updated_at = now, cm_trace_id = trace,
            cm_paused_at = None, cm_blocked_reason = None, cm_execution_log = [], cm_work_session_id = None\<rparr>;
          m1 = log_event now ''created'' (''Mission '' @ quoted title @ '' created'') m
      in (save_controlled_mission m1 d, m1))"

definition task_of_step :: "plan_step \<Rightarrow> mission_task" where
  "task_of_step s =
     \<lparr>mt_id = ps_id s, mt_title = ps_title s, mt_description = ps_description s, mt_family = ps_family s,
      mt_status = ''pending'', mt_dependencies = ps_dependencies s,
      mt_success_criteria = ps_success_criteria s, mt_risk = ps_risk s, mt_order = ps_order s,
      mt_started_at = None, mt_completed_at = None, mt_outcome_detail = None\<rparr>"

definition plan_cmission ::
    "string \<Rightarrow> (nat \<Rightarrow> string) \<Rightarrow> string \<Rightarrow> cdir \<Rightarrow> cdir \<times> cmission option" where
  "plan_cmission now fresh mid d =
     (case load_controlled_mission mid d of
        None \<Rightarrow> (d, None)
      | Some m \<Rightarrow>
          if cm_status m \<notin> {''created'', ''planned'', ''failed''} then (d, Some m)
          else
            (let m1 = log_event now ''planning_started'' [] (touch now (m\<lparr>cm_status := ''planning''\<rparr>));
                 steps = generate_mission_plan fresh (cm_id m1) (cm_title m1) (cm_description m1);
                 m2 = touch now (m1\<lparr>cm_plan := steps, cm_tasks := map task_of_step steps,
                        cm_total_steps := length steps, cm_current_step := 0, cm_status := ''planned''\<rparr>);
                 m3 = log_event now ''planned'' (nat_str (length steps) @ '' steps generated'') m2
             in (save_controlled_mission m3 d, Some m3)))"

section \<open>Execute and report\<close>

text \<open>The loop of \<^verbatim>\<open>execute_next_step\<close>: from \<open>cur\<close> on, the first task that is
  executing or waiting, or the end of the list.\<close>

function next_open :: "mission_task list \<Rightarrow> nat \<Rightarrow> nat" where
  "next_open tasks cur =
     (if cur < length tasks \<and> mt_status (tasks ! cur) \<notin> {''executing'', ''pending'', ''created''}
      then next_open tasks (cur + 1) else cur)"
  by pat_completeness auto
termination by (relation "measure (\<lambda>(tasks, cur). length tasks - cur)") auto

declare next_open.simps [simp del]

datatype exec_result =
    ExecError string
  | AlreadyExecuting nat mission_task
  | NowVerifying
  | Executing nat nat mission_task string

definition set_task :: "nat \<Rightarrow> mission_task \<Rightarrow> cmission \<Rightarrow> cmission" where
  "set_task i t m = m\<lparr>cm_tasks := (cm_tasks m)[i := t]\<rparr>"

definition py_opt :: "string option \<Rightarrow> string" where
  "py_opt o1 = (case o1 of None \<Rightarrow> ''None'' | Some s \<Rightarrow> s)"

definition execute_next_step :: "string \<Rightarrow> string \<Rightarrow> cdir \<Rightarrow> cdir \<times> exec_result option" where
  "execute_next_step now mid d =
     (case load_controlled_mission mid d of
        None \<Rightarrow> (d, None)
      | Some m \<Rightarrow>
          if cm_status m = ''paused'' then (d, Some (ExecError ''Mission is paused. Resume first.''))
          else if cm_status m \<in> {''done'', ''failed''} then
            (d, Some (ExecError (''Mission is '' @ cm_status m @ ''.'')))
          else if cm_status m = ''blocked'' then
            (d, Some (ExecError (''Mission is blocked: '' @ py_opt (cm_blocked_reason m))))
          else if cm_tasks m = [] then (d, Some (ExecError ''No tasks. Plan mission first.''))
          else
            (let cur = next_open (cm_tasks m) (cm_current_step m);
                 m1 = m\<lparr>cm_current_step := cur\<rparr> in
             if length (cm_tasks m) \<le> cur then
               (let m2 = log_event now ''all_steps_completed'' ''Moving to verification''
                      (touch now (m1\<lparr>cm_status := ''verifying''\<rparr>))
                in (save_controlled_mission m2 d, Some NowVerifying))
             else if mt_status (cm_tasks m ! cur) = ''executing'' then
               (d, Some (AlreadyExecuting cur (cm_tasks m ! cur)))
             else
               (let t = (cm_tasks m ! cur)\<lparr>mt_status := ''executing'', mt_started_at := Some now\<rparr>;
                    m2 = touch now ((set_task cur t m1)\<lparr>cm_status := ''executing''\<rparr>);
                    m3 = log_event now ''step_started'' (''Step '' @ nat_str cur @ '': '' @ mt_title t) m2
                in (save_controlled_mission m3 d,
                    Some (Executing cur (cm_total_steps m3) t (cm_trace_id m3))))))"

definition outcome_status :: "string \<Rightarrow> string" where
  "outcome_status outcome =
     (if outcome = ''success'' then ''done'' else if outcome = ''failure'' then ''failed'' else ''skipped'')"

definition consecutive_failures :: "mission_task list \<Rightarrow> nat \<Rightarrow> nat" where
  "consecutive_failures tasks i =
     length (takeWhile (\<lambda>t. mt_status t = ''failed'') (rev (take (i + 1) tasks)))"

definition report_step_outcome ::
    "string \<Rightarrow> string \<Rightarrow> int \<Rightarrow> string \<Rightarrow> string \<Rightarrow> cdir \<Rightarrow> cdir \<times> cmission option" where
  "report_step_outcome now mid step_index outcome detail d =
     (case load_controlled_mission mid d of
        None \<Rightarrow> (d, None)
      | Some m \<Rightarrow>
          if step_index < 0 \<or> step_index \<ge> int (length (cm_tasks m)) then (d, Some m)
          else
            (let i = nat step_index;
                 t = (cm_tasks m ! i)\<lparr>mt_status := outcome_status outcome,
                       mt_completed_at := Some now, mt_outcome_detail := Some (redact_secrets detail)\<rparr>;
                 m1 = log_event now (''step_'' @ outcome) (''Step '' @ nat_str i @ '': '' @ take 200 detail)
                        (set_task i t m);
                 m2 = (if outcome = ''failure'' then
                         (if consecutive_failures (cm_tasks m1) i \<ge> 3 then
                            (let reason = ''3 consecutive failures at step '' @ nat_str i in
                             log_event now ''blocked'' reason
                               (m1\<lparr>cm_status := ''blocked'', cm_blocked_reason := Some reason\<rparr>))
                          else m1\<lparr>cm_current_step := i + 1\<rparr>)
                       else m1\<lparr>cm_current_step := i + 1\<rparr>);
                 m3 = (if cm_current_step m2 \<ge> length (cm_tasks m2) \<and> cm_status m2 \<noteq> ''blocked''
                       then log_event now ''all_steps_completed'' [] (m2\<lparr>cm_status := ''verifying''\<rparr>) else m2);
                 m4 = touch now m3
             in (save_controlled_mission m4 d, Some m4)))"

section \<open>Pause, resume, block, unblock\<close>

definition pause_mission :: "string \<Rightarrow> string \<Rightarrow> string \<Rightarrow> cdir \<Rightarrow> cdir \<times> cmission option" where
  "pause_mission now mid reason d =
     (case load_controlled_mission mid d of
        None \<Rightarrow> (d, None)
      | Some m \<Rightarrow>
          if cm_status m \<in> {''done'', ''failed''} then (d, Some m)
          else (let m1 = log_event now ''paused'' reason
                       (touch now (m\<lparr>cm_status := ''paused'', cm_paused_at := Some now\<rparr>))
                in (save_controlled_mission m1 d, Some m1)))"

definition resume_mission :: "string \<Rightarrow> string \<Rightarrow> cdir \<Rightarrow> cdir \<times> cmission option" where
  "resume_mission now mid d =
     (case load_controlled_mission mid d of
        None \<Rightarrow> (d, None)
      | Some m \<Rightarrow>
          if cm_status m \<noteq> ''paused'' then (d, Some m)
          else (let previous = (if cm_tasks m \<noteq> [] then ''executing'' else ''planned'');
                    m1 = log_event now ''resumed'' []
                       (touch now (m\<lparr>cm_status := previous, cm_paused_at := None\<rparr>))
                in (save_controlled_mission m1 d, Some m1)))"

definition block_mission :: "string \<Rightarrow> string \<Rightarrow> string \<Rightarrow> cdir \<Rightarrow> cdir \<times> cmission option" where
  "block_mission now mid reason d =
     (case load_controlled_mission mid d of
        None \<Rightarrow> (d, None)
      | Some m \<Rightarrow>
          (let m1 = log_event now ''blocked'' reason
                 (touch now (m\<lparr>cm_status := ''blocked'', cm_blocked_reason := Some reason\<rparr>))
           in (save_controlled_mission m1 d, Some m1)))"

definition unblock_mission :: "string \<Rightarrow> string \<Rightarrow> cdir \<Rightarrow> cdir \<times> cmission option" where
  "unblock_mission now mid d =
     (case load_controlled_mission mid d of
        None \<Rightarrow> (d, None)
      | Some m \<Rightarrow>
          if cm_status m \<noteq> ''blocked'' then (d, Some m)
          else (let m1 = log_event now ''unblocked'' []
                       (touch now (m\<lparr>cm_status := ''executing'', cm_blocked_reason := None\<rparr>))
                in (save_controlled_mission m1 d, Some m1)))"

section \<open>Verify and report\<close>

record verification =
  vr_total_tasks :: nat
  vr_completed :: nat
  vr_failed :: nat
  vr_success_rate :: rat
  vr_criteria_met :: bool
  vr_all_tasks_done :: bool
  vr_success_criteria :: "string list"
  vr_final_status :: string

text \<open>\<^verbatim>\<open>f"{x:.0%}"\<close> of a rate: the nearest whole per cent, ties to even.\<close>

definition percent :: "rat \<Rightarrow> string" where
  "percent r =
     (let x = 100 * r; f = \<lfloor>x\<rfloor>; rest = x - of_int f in
      int_str (if rest < 1 / 2 \<or> rest = 1 / 2 \<and> even f then f else f + 1) @ ''%'')"

definition verify_mission :: "string \<Rightarrow> string \<Rightarrow> cdir \<Rightarrow> cdir \<times> verification option" where
  "verify_mission now mid d =
     (case load_controlled_mission mid d of
        None \<Rightarrow> (d, None)
      | Some m \<Rightarrow>
          (let completed = length (with_status [''done''] m);
               failed = length (with_status [''failed''] m);
               n = length (cm_tasks m);
               all_done = (completed + failed = n);
               success_rate = (if n > 0 then of_nat completed / of_nat n else 0 :: rat);
               criteria_met = (success_rate \<ge> 8 / 10 \<and> failed = 0);
               m1 = (if criteria_met \<and> all_done then
                       log_event now ''verified_success'' (''Success rate: '' @ percent success_rate)
                         (m\<lparr>cm_status := ''done''\<rparr>)
                     else if all_done \<and> \<not> criteria_met then
                       log_event now ''verified_failure'' (nat_str failed @ '' tasks failed'')
                         (m\<lparr>cm_status := ''failed''\<rparr>)
                     else m);
               m2 = touch now m1
           in (save_controlled_mission m2 d,
               Some \<lparr>vr_total_tasks = n, vr_completed = completed, vr_failed = failed,
                 vr_success_rate = success_rate, vr_criteria_met = criteria_met,
                 vr_all_tasks_done = all_done, vr_success_criteria = cm_success_criteria m,
                 vr_final_status = cm_status m2\<rparr>)))"

text \<open>The fields of the delivery report that are not listed are constants of the code.\<close>

definition generate_final_report :: "string \<Rightarrow> string \<Rightarrow> cdir \<Rightarrow> cdir \<times> mission_report option" where
  "generate_final_report now mid d =
     (case load_controlled_mission mid d of
        None \<Rightarrow> (d, None)
      | Some m \<Rightarrow>
          (let completed = length (with_status [''done''] m);
               file_artifacts = map ma_path (filter (\<lambda>a. ma_type a = ''file'' \<and> ma_path a \<noteq> []) (cm_artifacts m));
               r = \<lparr>mr_mission_id = cm_id m, mr_title = cm_title m, mr_goal = cm_goal m,
                    mr_status = cm_status m, mr_trace_id = cm_trace_id m, mr_created_at = cm_created_at m,
                    mr_completed_at = cm_updated_at m, mr_total_tasks = length (cm_tasks m),
                    mr_completed_tasks = completed, mr_failed_tasks = length (with_status [''failed''] m),
                    mr_skipped_tasks = length (with_status [''skipped''] m),
                    mr_success_rate = (if cm_tasks m \<noteq> [] then of_nat completed / of_nat (length (cm_tasks m)) else 0),
                    mr_artifacts = map artifact_to_dict (cm_artifacts m),
                    mr_execution_summary = map (\<lambda>t. \<lparr>su_title = mt_title t, su_status = mt_status t,
                      su_family = mt_family t,
                      su_outcome_detail = redact_secrets (str_or (mt_outcome_detail t) [])\<rparr>) (cm_tasks m),
                    mr_risk_level = cm_risk_level m, mr_rollback_plan = cm_rollback_plan m,
                    mr_constraints_respected = cm_constraints m,
                    mr_delivery_report = \<lparr>dr_work_session_id = str_or (cm_work_session_id m) [],
                      dr_goal = cm_goal m, dr_files_modified = file_artifacts,
                      dr_rollback_available = (str_or (cm_rollback_plan m) [] \<noteq> []),
                      dr_run_id = cm_trace_id m\<rparr>\<rparr>;
               m1 = log_event now ''report_generated'' [] (touch now (m\<lparr>cm_final_report := Some r\<rparr>))
           in (save_controlled_mission m1 d, Some r)))"

definition add_mission_artifact ::
    "string \<Rightarrow> string \<Rightarrow> string \<Rightarrow> string \<Rightarrow> string \<Rightarrow> string \<Rightarrow> cdir \<Rightarrow> cdir \<times> cmission option" where
  "add_mission_artifact now art_new_id mid artifact_type path description d =
     (case load_controlled_mission mid d of
        None \<Rightarrow> (d, None)
      | Some m \<Rightarrow>
          (let a = \<lparr>ma_id = art_new_id, ma_type = artifact_type, ma_path = path,
                    ma_description = description, ma_created_at = now\<rparr>;
               m1 = log_event now ''artifact_added'' (artifact_type @ '': '' @ take 100 description)
                      (touch now (m\<lparr>cm_artifacts := cm_artifacts m @ [a]\<rparr>))
           in (save_controlled_mission m1 d, Some m1)))"

record mission_context =
  mc_mission_id :: string
  mc_status :: string
  mc_interrupted :: bool
  mc_current_step :: nat
  mc_total_steps :: nat
  mc_pending_tasks :: nat
  mc_executing_tasks :: "string list"
  mc_recent_log :: "log_entry list"
  mc_trace_id :: string
  mc_state_explanation :: state_explanation
  mc_can_resume :: bool
  mc_needs_replan :: bool

definition reconstruct_context :: "string \<Rightarrow> cdir \<Rightarrow> mission_context option" where
  "reconstruct_context mid d =
     map_option (\<lambda>m.
       (let executing = with_status [''executing''] m;
            interrupted = (executing \<noteq> []) in
        \<lparr>mc_mission_id = cm_id m, mc_status = cm_status m, mc_interrupted = interrupted,
         mc_current_step = cm_current_step m, mc_total_steps = cm_total_steps m,
         mc_pending_tasks = length (with_status [''pending'', ''created''] m),
         mc_executing_tasks = map mt_title executing,
         mc_recent_log = slice_from (-10) (cm_execution_log m), mc_trace_id = cm_trace_id m,
         mc_state_explanation = explain_state m,
         mc_can_resume = (cm_status m \<in> {''paused'', ''planned'', ''executing'', ''blocked''}),
         mc_needs_replan = interrupted\<rparr>)) (load_controlled_mission mid d)"

section \<open>Every request on a directory of missions\<close>

interpretation cmissions: keyed_store "\<lambda>d i. load_controlled_mission i d" "\<lambda>d i m. dset d i m"
  by unfold_locales (simp_all add: load_controlled_mission_def)

lemma load_save_cmission:
  "load_controlled_mission i (save_controlled_mission m d) =
     (if i = cm_id m then Some (cmission_to_dict m) else load_controlled_mission i d)"
  using cmissions.load_save by (simp add: save_controlled_mission_def)

lemma cmission_to_dict_fields [simp]:
  "cm_id (cmission_to_dict m) = cm_id m" "cm_status (cmission_to_dict m) = cm_status m"
  "cm_tasks (cmission_to_dict m) = cm_tasks m" "cm_current_step (cmission_to_dict m) = cm_current_step m"
  "cm_total_steps (cmission_to_dict m) = cm_total_steps m" "cm_plan (cmission_to_dict m) = cm_plan m"
  "cm_blocked_reason (cmission_to_dict m) = cm_blocked_reason m" "cm_goal (cmission_to_dict m) = cm_goal m"
  by (simp_all add: cmission_to_dict_def)

lemma touch_log_fields [simp]:
  "cm_id (touch now m) = cm_id m" "cm_status (touch now m) = cm_status m" "cm_tasks (touch now m) = cm_tasks m"
  "cm_current_step (touch now m) = cm_current_step m" "cm_total_steps (touch now m) = cm_total_steps m"
  "cm_plan (touch now m) = cm_plan m" "cm_blocked_reason (touch now m) = cm_blocked_reason m"
  "cm_id (log_event now e det m) = cm_id m" "cm_status (log_event now e det m) = cm_status m"
  "cm_tasks (log_event now e det m) = cm_tasks m" "cm_current_step (log_event now e det m) = cm_current_step m"
  "cm_total_steps (log_event now e det m) = cm_total_steps m" "cm_plan (log_event now e det m) = cm_plan m"
  "cm_blocked_reason (log_event now e det m) = cm_blocked_reason m"
  by (simp_all add: touch_def log_event_def)

lemma set_task_fields [simp]:
  "cm_id (set_task i t m) = cm_id m" "cm_status (set_task i t m) = cm_status m"
  "cm_tasks (set_task i t m) = (cm_tasks m)[i := t]" "cm_current_step (set_task i t m) = cm_current_step m"
  "cm_total_steps (set_task i t m) = cm_total_steps m" "cm_plan (set_task i t m) = cm_plan m"
  by (simp_all add: set_task_def)

datatype mission_request =
    MCreate string string string string string string string "string list" "string list" "string list" string "string option"
  | MPlan string "nat \<Rightarrow> string" string
  | MExecute string string
  | MReport string string int string string
  | MPause string string string
  | MResume string string
  | MBlock string string string
  | MUnblock string string
  | MVerify string string
  | MFinalReport string string
  | MArtifact string string string string string string
  | MDelete string

fun mission_step :: "cdir \<Rightarrow> mission_request \<Rightarrow> cdir" where
  "mission_step d (MCreate now i tr title goal descr ws hosts cons crit risk rb) =
     fst (create_mission now i tr title goal descr ws hosts cons crit risk rb d)"
| "mission_step d (MPlan now fresh i) = fst (plan_cmission now fresh i d)"
| "mission_step d (MExecute now i) = fst (execute_next_step now i d)"
| "mission_step d (MReport now i k outcome detail) = fst (report_step_outcome now i k outcome detail d)"
| "mission_step d (MPause now i why) = fst (pause_mission now i why d)"
| "mission_step d (MResume now i) = fst (resume_mission now i d)"
| "mission_step d (MBlock now i why) = fst (block_mission now i why d)"
| "mission_step d (MUnblock now i) = fst (unblock_mission now i d)"
| "mission_step d (MVerify now i) = fst (verify_mission now i d)"
| "mission_step d (MFinalReport now i) = fst (generate_final_report now i d)"
| "mission_step d (MArtifact now a i ty path descr) = fst (add_mission_artifact now a i ty path descr d)"
| "mission_step d (MDelete i) = fst (delete_controlled_mission i d)"

definition TASK_STATUSES :: "string list" where
  "TASK_STATUSES = [''pending'', ''executing'', ''done'', ''failed'', ''skipped'']"

definition cm_ok :: "cmission \<Rightarrow> bool" where
  "cm_ok m \<longleftrightarrow> cm_status m \<in> set MISSION_STATUSES \<and> cm_current_step m \<le> length (cm_tasks m) \<and>
     cm_total_steps m = length (cm_tasks m) \<and> (\<forall>t \<in> set (cm_tasks m). mt_status t \<in> set TASK_STATUSES)"

definition cdir_ok :: "cdir \<Rightarrow> bool" where
  "cdir_ok d \<longleftrightarrow> dwf d \<and> (\<forall>i m. load_controlled_mission i d = Some m \<longrightarrow>
     cm_id m = i \<and> cm_ok m \<and> length (cm_execution_log m) \<le> 50)"

lemma length_slice_50: "length (slice_from (-50) xs) \<le> 50"
  using length_slice_last [of 50 xs] by simp

lemma save_cdir_ok: "cdir_ok d \<Longrightarrow> cm_ok m \<Longrightarrow> cdir_ok (save_controlled_mission m d)"
  unfolding cdir_ok_def load_save_cmission
  by (auto simp: cm_ok_def save_controlled_mission_def cmission_to_dict_def length_slice_50)

lemma loaded_ok: "cdir_ok d \<Longrightarrow> load_controlled_mission i d = Some m \<Longrightarrow> cm_ok m \<and> cm_id m = i"
  by (simp add: cdir_ok_def)

lemma next_open_props:
  "cur \<le> next_open tasks cur \<and> (cur \<le> length tasks \<longrightarrow> next_open tasks cur \<le> length tasks) \<and>
   (next_open tasks cur < length tasks \<longrightarrow>
      mt_status (tasks ! next_open tasks cur) \<in> {''executing'', ''pending'', ''created''}) \<and>
   (\<forall>j. cur \<le> j \<longrightarrow> j < next_open tasks cur \<longrightarrow> mt_status (tasks ! j) \<notin> {''executing'', ''pending'', ''created''})"
proof (induction tasks cur rule: next_open.induct)
  case (1 tasks cur)
  show ?case
  proof (cases "cur < length tasks \<and> mt_status (tasks ! cur) \<notin> {''executing'', ''pending'', ''created''}")
    case True
    then have n: "next_open tasks cur = next_open tasks (cur + 1)" by (subst next_open.simps) simp
    from 1 [OF True] True show ?thesis unfolding n
      by (metis Suc_eq_plus1 Suc_leD Suc_leI le_neq_implies_less)
  next
    case False
    then have "next_open tasks cur = cur" by (subst next_open.simps) auto
    with False show ?thesis by auto
  qed
qed

lemma next_open_here:
  "cur < length tasks \<Longrightarrow> mt_status (tasks ! cur) \<in> {''executing'', ''pending'', ''created''} \<Longrightarrow> next_open tasks cur = cur"
  by (subst next_open.simps) auto

lemma execute_ok: "cdir_ok d \<Longrightarrow> cdir_ok (fst (execute_next_step now i d))"
proof (cases "load_controlled_mission i d")
  case (Some m)
  assume d: "cdir_ok d"
  have m: "cm_ok m" using loaded_ok [OF d Some] by blast
  let ?c = "next_open (cm_tasks m) (cm_current_step m)"
  have le: "?c \<le> length (cm_tasks m)" using next_open_props [of "cm_current_step m" "cm_tasks m"] m by (simp add: cm_ok_def)
  have upd: "\<forall>t \<in> set ((cm_tasks m)[?c := u]). mt_status t \<in> set TASK_STATUSES" if "mt_status u \<in> set TASK_STATUSES" for u
    using m that by (auto simp: cm_ok_def dest!: set_update_subset_insert [THEN subsetD])
  show ?thesis
    using d m le upd [of "(cm_tasks m ! ?c)\<lparr>mt_status := ''executing'', mt_started_at := Some now\<rparr>"]
    by (auto simp: execute_next_step_def Some Let_def cm_ok_def MISSION_STATUSES_def TASK_STATUSES_def intro!: save_cdir_ok)
qed (simp add: execute_next_step_def)

definition third_failure :: "string \<Rightarrow> mission_task list \<Rightarrow> nat \<Rightarrow> bool" where
  "third_failure outcome tasks i \<longleftrightarrow> outcome = ''failure'' \<and> 3 \<le> consecutive_failures tasks i"

lemma report_shape:
  assumes l: "load_controlled_mission mid d = Some m" and k: "0 \<le> k" "nat k < length (cm_tasks m)"
  shows "\<exists>t m'. report_step_outcome now mid k outcome detail d = (save_controlled_mission m' d, Some m') \<and>
    mt_status t = outcome_status outcome \<and> cm_id m' = cm_id m \<and>
    cm_tasks m' = (cm_tasks m)[nat k := t] \<and> cm_total_steps m' = cm_total_steps m \<and>
    cm_status m' = (if third_failure outcome (cm_tasks m') (nat k) \<or> cm_status m = ''blocked'' then ''blocked''
      else if length (cm_tasks m) \<le> nat k + 1 then ''verifying'' else cm_status m) \<and>
    cm_current_step m' = (if third_failure outcome (cm_tasks m') (nat k) then cm_current_step m else nat k + 1)"
proof -
  let ?t = "(cm_tasks m ! nat k)\<lparr>mt_status := outcome_status outcome, mt_completed_at := Some now,
    mt_outcome_detail := Some (redact_secrets detail)\<rparr>"
  let ?ts = "(cm_tasks m)[nat k := ?t]"
  let ?m1 = "log_event now (''step_'' @ outcome) (''Step '' @ nat_str (nat k) @ '': '' @ take 200 detail) (set_task (nat k) ?t m)"
  let ?reason = "''3 consecutive failures at step '' @ nat_str (nat k)"
  let ?blk = "log_event now ''blocked'' ?reason (?m1\<lparr>cm_status := ''blocked'', cm_blocked_reason := Some ?reason\<rparr>)"
  let ?adv = "?m1\<lparr>cm_current_step := nat k + 1\<rparr>"
  let ?m2 = "if third_failure outcome ?ts (nat k) then ?blk else ?adv"
  let ?m3 = "if cm_current_step ?m2 \<ge> length (cm_tasks ?m2) \<and> cm_status ?m2 \<noteq> ''blocked''
    then log_event now ''all_steps_completed'' [] (?m2\<lparr>cm_status := ''verifying''\<rparr>) else ?m2"
  have m2: "?m2 = (if outcome = ''failure'' then
      (if consecutive_failures (cm_tasks ?m1) (nat k) \<ge> 3 then ?blk else ?adv) else ?adv)"
    by (simp add: third_failure_def)
  have "\<not> (k < 0 \<or> int (length (cm_tasks m)) \<le> k)" using k by linarith
  then have r: "report_step_outcome now mid k outcome detail d =
      (save_controlled_mission (touch now ?m3) d, Some (touch now ?m3))"
    unfolding report_step_outcome_def l m2 Let_def by simp
  have "cm_id ?m3 = cm_id m" "cm_tasks ?m3 = ?ts" "cm_total_steps ?m3 = cm_total_steps m"
    "cm_status ?m3 = (if third_failure outcome ?ts (nat k) \<or> cm_status m = ''blocked'' then ''blocked''
      else if length (cm_tasks m) \<le> nat k + 1 then ''verifying'' else cm_status m)"
    "cm_current_step ?m3 = (if third_failure outcome ?ts (nat k) then cm_current_step m else nat k + 1)"
    by (cases "third_failure outcome ?ts (nat k)"; simp)+
  with r obtain m3 where "report_step_outcome now mid k outcome detail d =
      (save_controlled_mission (touch now m3) d, Some (touch now m3))"
    "cm_id m3 = cm_id m" "cm_tasks m3 = ?ts" "cm_total_steps m3 = cm_total_steps m"
    "cm_status m3 = (if third_failure outcome ?ts (nat k) \<or> cm_status m = ''blocked'' then ''blocked''
      else if length (cm_tasks m) \<le> nat k + 1 then ''verifying'' else cm_status m)"
    "cm_current_step m3 = (if third_failure outcome ?ts (nat k) then cm_current_step m else nat k + 1)" by blast
  then show ?thesis by (intro exI [of _ ?t] exI [of _ "touch now m3"]) simp
qed

lemma report_out_of_range:
  "load_controlled_mission mid d = Some m \<Longrightarrow> k < 0 \<or> length (cm_tasks m) \<le> nat k \<Longrightarrow>
     report_step_outcome now mid k outcome detail d = (d, Some m)"
  by (auto simp: report_step_outcome_def)

lemma outcome_status_ok [simp]: "outcome_status outcome \<in> set TASK_STATUSES"
  by (simp add: outcome_status_def TASK_STATUSES_def)

lemma report_ok: "cdir_ok d \<Longrightarrow> cdir_ok (fst (report_step_outcome now i k outcome detail d))"
proof (cases "load_controlled_mission i d")
  case (Some m)
  assume d: "cdir_ok d"
  have m: "cm_ok m" using loaded_ok [OF d Some] by blast
  show ?thesis
  proof (cases "k < 0 \<or> length (cm_tasks m) \<le> nat k")
    case True
    with d show ?thesis by (simp add: report_out_of_range [OF Some True])
  next
    case False
    then have k: "0 \<le> k" "nat k < length (cm_tasks m)" by auto
    from report_shape [OF Some k, of now outcome detail] obtain t m' where
      r: "report_step_outcome now i k outcome detail d = (save_controlled_mission m' d, Some m')" and
      t: "mt_status t = outcome_status outcome" and ts: "cm_tasks m' = (cm_tasks m)[nat k := t]"
         "cm_total_steps m' = cm_total_steps m" and
      st: "cm_status m' \<in> {''blocked'', ''verifying'', cm_status m}" "cm_current_step m' \<in> {cm_current_step m, nat k + 1}"
      by (auto split: if_splits)
    have "mt_status u \<in> set TASK_STATUSES" if "u \<in> set (cm_tasks m')" for u
    proof -
      have "u \<in> insert t (set (cm_tasks m))" using that ts(1) set_update_subset_insert by fastforce
      then show ?thesis using m t by (auto simp: cm_ok_def)
    qed
    then have "cm_ok m'" using m ts st k(2) by (auto simp: cm_ok_def MISSION_STATUSES_def)
    then show ?thesis using d unfolding r by (simp add: save_cdir_ok)
  qed
qed (simp add: report_step_outcome_def)

lemma plan_cmission_ok: "cdir_ok d \<Longrightarrow> cdir_ok (fst (plan_cmission now fresh i d))"
  by (auto simp: plan_cmission_def Let_def cm_ok_def MISSION_STATUSES_def TASK_STATUSES_def task_of_step_def
      split: option.splits intro!: save_cdir_ok)

lemma simple_ok:
  assumes "cdir_ok d"
  shows "cdir_ok (fst (pause_mission now i why d))" "cdir_ok (fst (resume_mission now i d))"
    "cdir_ok (fst (block_mission now i why d))" "cdir_ok (fst (unblock_mission now i d))"
    "cdir_ok (fst (verify_mission now i d))" "cdir_ok (fst (generate_final_report now i d))"
    "cdir_ok (fst (add_mission_artifact now a i ty path descr d))"
proof -
  note l = loaded_ok [OF assms]
  note defs = cm_ok_def MISSION_STATUSES_def Let_def
  show "cdir_ok (fst (pause_mission now i why d))"
    using assms by (auto simp: pause_mission_def defs split: option.splits intro!: save_cdir_ok dest: l)
  show "cdir_ok (fst (resume_mission now i d))"
    using assms by (auto simp: resume_mission_def defs split: option.splits intro!: save_cdir_ok dest: l)
  show "cdir_ok (fst (block_mission now i why d))"
    using assms by (auto simp: block_mission_def defs split: option.splits intro!: save_cdir_ok dest: l)
  show "cdir_ok (fst (unblock_mission now i d))"
    using assms by (auto simp: unblock_mission_def defs split: option.splits intro!: save_cdir_ok dest: l)
  show "cdir_ok (fst (verify_mission now i d))"
    using assms by (auto simp: verify_mission_def defs split: option.splits intro!: save_cdir_ok dest: l)
  show "cdir_ok (fst (generate_final_report now i d))"
    using assms by (auto simp: generate_final_report_def defs split: option.splits intro!: save_cdir_ok dest: l)
  show "cdir_ok (fst (add_mission_artifact now a i ty path descr d))"
    using assms by (auto simp: add_mission_artifact_def defs split: option.splits intro!: save_cdir_ok dest: l)
qed

lemma create_mission_ok: "cdir_ok d \<Longrightarrow> cdir_ok (fst (create_mission now i tr title goal descr ws hosts cons crit risk rb d))"
  by (auto simp: create_mission_def Let_def cm_ok_def MISSION_STATUSES_def intro!: save_cdir_ok)

lemma delete_ok: "cdir_ok d \<Longrightarrow> cdir_ok (fst (delete_controlled_mission i d))"
  by (auto simp: cdir_ok_def delete_controlled_mission_def load_controlled_mission_def dget_ddel)

interpretation mission_control: machine mission_step "\<lambda>d. d = []" cdir_ok
proof
  show "cdir_ok s" if "s = []" for s
    using that by (simp add: cdir_ok_def load_controlled_mission_def)
  show "cdir_ok (mission_step s r)" if "cdir_ok s" for s r
    using that by (cases r) (simp_all add: create_mission_ok plan_cmission_ok execute_ok report_ok simple_ok delete_ok)
qed

lemma run_cdir_ok: "cdir_ok (run_events mission_step [] es)"
  by (rule mission_control.run_from_start) simp

text \<open>C36. Whatever requests the controller serves, in whatever order, every stored mission is filed under
  its id, has one of the nine statuses, its step counter never passes the end of its tasks, its
  total is the number of its tasks, every task has a known status and the stored log has at most 50
  entries.\<close>

theorem mission_store_wellformed:
  assumes "load_controlled_mission mid (run_events mission_step [] es) = Some m"
  shows "cm_id m = mid \<and> cm_status m \<in> set MISSION_STATUSES \<and> cm_current_step m \<le> length (cm_tasks m) \<and>
    cm_total_steps m = length (cm_tasks m) \<and> (\<forall>t \<in> set (cm_tasks m). mt_status t \<in> set TASK_STATUSES) \<and>
    length (cm_execution_log m) \<le> 50"
  using run_cdir_ok [of es] assms by (simp add: cdir_ok_def cm_ok_def)

abbreviation sample_create :: mission_request where
  "sample_create \<equiv> MCreate ''t0'' ''m1'' ''tr'' ''x'' ''go'' [] [] [] [] [] ''low'' None"

lemma sample_created:
  "\<exists>m. load_controlled_mission ''m1'' (run_events mission_step [] [sample_create]) = Some m \<and>
     cm_status m = ''created'' \<and> cm_title m = ''x'' \<and> cm_description m = ''go''"
  by (simp add: create_mission_def load_save_cmission Let_def)
     (simp add: cmission_to_dict_def log_event_def)

theorem mission_store_wellformed_witness:
  "\<exists>m. load_controlled_mission ''m1'' (run_events mission_step [] [sample_create]) = Some m \<and>
     cm_current_step m \<le> length (cm_tasks m)"
proof -
  obtain m where "load_controlled_mission ''m1'' (run_events mission_step [] [sample_create]) = Some m"
    using sample_created by blast
  with mission_store_wellformed [OF this] show ?thesis by blast
qed

end
