(* ===== verification/MissionTheorems.thy ===== *)
theory MissionTheorems
  imports MissionControl
begin

text \<open>
  What the mission controller promises: a step is handed out once, the outcome of a verification,
  a mission whose steps succeed ends, three failures in a row block, and what the controller lets
  through. The lemmas describe one execute request and the frame of every request; the machine
  interpretation of \<open>MissionControl\<close> carries the invariant along.
\<close>

section \<open>Executing: one step at a time\<close>

lemma exec_started:
  assumes "execute_next_step now mid d = (d', Some (Executing k n t tr))"
  shows "\<exists>m m'. load_controlled_mission mid d = Some m \<and> d' = save_controlled_mission m' d \<and>
    cm_status m \<notin> {''paused'', ''done'', ''failed'', ''blocked''} \<and> cm_id m' = cm_id m \<and>
    k = next_open (cm_tasks m) (cm_current_step m) \<and> k < length (cm_tasks m) \<and>
    mt_status (cm_tasks m ! k) \<in> {''pending'', ''created''} \<and> mt_status t = ''executing'' \<and>
    cm_status m' = ''executing'' \<and> cm_current_step m' = k \<and> cm_tasks m' = (cm_tasks m)[k := t]"
proof (cases "load_controlled_mission mid d")
  case (Some m)
  have "mt_status (cm_tasks m ! next_open (cm_tasks m) (cm_current_step m)) \<in> {''executing'', ''pending'', ''created''}"
    if "next_open (cm_tasks m) (cm_current_step m) < length (cm_tasks m)"
    using next_open_props that by blast
  with assms Some show ?thesis
    by (auto simp: execute_next_step_def Let_def split: if_splits)
qed (use assms in \<open>simp add: execute_next_step_def\<close>)

lemma exec_starts:
  assumes "load_controlled_mission mid d = Some m" "cm_status m \<notin> {''paused'', ''done'', ''failed'', ''blocked''}"
    and "cm_current_step m < length (cm_tasks m)" "mt_status (cm_tasks m ! cm_current_step m) = ''pending''"
  shows "\<exists>t m'. execute_next_step now mid d = (save_controlled_mission m' d,
      Some (Executing (cm_current_step m) (cm_total_steps m) t (cm_trace_id m'))) \<and>
    cm_id m' = cm_id m \<and> mt_status t = ''executing'' \<and> cm_status m' = ''executing'' \<and>
    cm_current_step m' = cm_current_step m \<and> cm_tasks m' = (cm_tasks m)[cm_current_step m := t] \<and>
    cm_total_steps m' = cm_total_steps m"
proof -
  have "next_open (cm_tasks m) (cm_current_step m) = cm_current_step m"
    using assms(3,4) by (intro next_open_here) simp_all
  moreover have "cm_tasks m \<noteq> []" using assms(3) by auto
  ultimately show ?thesis using assms by (auto simp: execute_next_step_def Let_def)
qed

fun target :: "mission_request \<Rightarrow> string" where
  "target (MCreate now i tr title goal descr ws hosts cons crit risk rb) = i"
| "target (MPlan now fresh i) = i"
| "target (MExecute now i) = i"
| "target (MReport now i k outcome detail) = i"
| "target (MPause now i why) = i"
| "target (MResume now i) = i"
| "target (MBlock now i why) = i"
| "target (MUnblock now i) = i"
| "target (MVerify now i) = i"
| "target (MFinalReport now i) = i"
| "target (MArtifact now a i ty path descr) = i"
| "target (MDelete i) = i"

text \<open>Every request leaves the directory alone or saves one mission under the id it names.\<close>

definition saves :: "string \<Rightarrow> cdir \<Rightarrow> cdir \<Rightarrow> bool" where
  "saves i d d' \<longleftrightarrow> d' = d \<or> (\<exists>m. cm_id m = i \<and> d' = save_controlled_mission m d)"

lemma saves_none [simp]: "saves i d d"
  by (simp add: saves_def)

lemma saves_one [intro]: "cm_id m = i \<Longrightarrow> saves i d (save_controlled_mission m d)"
  by (auto simp: saves_def)

lemma report_saves:
  assumes "cdir_ok d"
  shows "saves i d (fst (report_step_outcome now i k outcome detail d))"
proof (cases "load_controlled_mission i d")
  case (Some m)
  show ?thesis
  proof (cases "k < 0 \<or> length (cm_tasks m) \<le> nat k")
    case True
    then show ?thesis by (simp add: report_out_of_range [OF Some True])
  next
    case False
    then have "0 \<le> k" "nat k < length (cm_tasks m)" by auto
    from report_shape [OF Some this, of now outcome detail] loaded_ok [OF assms Some] show ?thesis by auto
  qed
qed (simp add: report_step_outcome_def)

lemma execute_saves:
  assumes "cdir_ok d"
  shows "saves i d (fst (execute_next_step now i d))"
  using loaded_ok [OF assms, of i]
  by (auto simp: execute_next_step_def Let_def split: option.splits)

lemma simple_saves:
  assumes "cdir_ok d"
  shows "saves i d (fst (plan_cmission now fresh i d))" "saves i d (fst (pause_mission now i why d))"
    "saves i d (fst (resume_mission now i d))" "saves i d (fst (block_mission now i why d))"
    "saves i d (fst (unblock_mission now i d))" "saves i d (fst (verify_mission now i d))"
    "saves i d (fst (generate_final_report now i d))" "saves i d (fst (add_mission_artifact now a i ty path descr d))"
  using loaded_ok [OF assms, of i]
  by (auto simp: plan_cmission_def pause_mission_def resume_mission_def block_mission_def unblock_mission_def
      verify_mission_def generate_final_report_def add_mission_artifact_def Let_def split: option.splits)

lemma other_mission_untouched:
  assumes "cdir_ok d" "target r \<noteq> i"
  shows "load_controlled_mission i (mission_step d r) = load_controlled_mission i d"
proof -
  have sv: "load_controlled_mission i d' = load_controlled_mission i d" if "saves (target r) d d'" for d'
    using that assms(2) by (auto simp: load_save_cmission saves_def)
  have w: "dwf d" using assms(1) by (simp add: cdir_ok_def)
  show ?thesis
  proof (cases r)
    case (MDelete j)
    then show ?thesis using assms(2) w
      by (simp add: delete_controlled_mission_def load_controlled_mission_def dget_ddel)
  next
    case (MCreate now j tr title goal descr ws hosts cons crit risk rb)
    then show ?thesis using assms(2) by (simp add: create_mission_def load_save_cmission Let_def)
  qed (rule sv, simp add: report_saves [OF assms(1)] execute_saves [OF assms(1)] simple_saves [OF assms(1)])+
qed

definition busy :: "string \<Rightarrow> nat \<Rightarrow> cdir \<Rightarrow> bool" where
  "busy mid k d \<longleftrightarrow> (\<exists>m. load_controlled_mission mid d = Some m \<and>
     cm_status m \<in> {''executing'', ''paused'', ''blocked''} \<and> cm_current_step m = k \<and>
     k < length (cm_tasks m) \<and> mt_status (cm_tasks m ! k) = ''executing'')"

text \<open>Reporting an outcome, deleting the mission and creating one under its id end a step.\<close>

definition ends_step :: "string \<Rightarrow> mission_request \<Rightarrow> bool" where
  "ends_step mid r \<longleftrightarrow> target r = mid \<and>
     (case r of MReport _ _ _ _ _ \<Rightarrow> True | MCreate _ _ _ _ _ _ _ _ _ _ _ _ \<Rightarrow> True | MDelete _ \<Rightarrow> True | _ \<Rightarrow> False)"

lemma busy_execute:
  assumes "busy mid k d"
  shows "fst (execute_next_step now mid d) = d" and
    "\<exists>r. snd (execute_next_step now mid d) = Some r \<and> ((\<exists>t. r = AlreadyExecuting k t) \<or> (\<exists>e. r = ExecError e))"
proof -
  from assms obtain m where m: "load_controlled_mission mid d = Some m"
    "cm_status m \<in> {''executing'', ''paused'', ''blocked''}" "cm_current_step m = k"
    "k < length (cm_tasks m)" "mt_status (cm_tasks m ! k) = ''executing''" by (auto simp: busy_def)
  have n: "next_open (cm_tasks m) k = k" using m(4,5) by (intro next_open_here) simp_all
  have ne: "cm_tasks m \<noteq> []" using m(4) by auto
  show "fst (execute_next_step now mid d) = d"
    and "\<exists>r. snd (execute_next_step now mid d) = Some r \<and> ((\<exists>t. r = AlreadyExecuting k t) \<or> (\<exists>e. r = ExecError e))"
    using m n ne by (auto simp: execute_next_step_def Let_def)
qed

lemma settled_count:
  "length (filter (\<lambda>t. mt_status t = ''done'') ts) + length (filter (\<lambda>t. mt_status t = ''failed'') ts) =
     length (filter (\<lambda>t. mt_status t = ''done'' \<or> mt_status t = ''failed'') ts)"
  by (induction ts) auto

lemma busy_verify:
  assumes "busy mid k d" "cdir_ok d"
  shows "busy mid k (fst (verify_mission now mid d))"
proof -
  from assms(1) obtain m where m: "load_controlled_mission mid d = Some m"
    "cm_status m \<in> {''executing'', ''paused'', ''blocked''}" "cm_current_step m = k"
    "k < length (cm_tasks m)" "mt_status (cm_tasks m ! k) = ''executing''" by (auto simp: busy_def)
  have "length (with_status [''done''] m) + length (with_status [''failed''] m) =
      length (filter (\<lambda>t. mt_status t \<in> {''done'', ''failed''}) (cm_tasks m))"
    unfolding with_status_def by (simp add: settled_count)
  also have "\<dots> < length (cm_tasks m)"
    using m(4,5) by (intro length_filter_less [of "cm_tasks m ! k"]) simp_all
  finally have "length (with_status [''done''] m) + length (with_status [''failed''] m) \<noteq> length (cm_tasks m)" by simp
  with m loaded_ok [OF assms(2) m(1)] show ?thesis
    by (simp add: verify_mission_def Let_def busy_def load_save_cmission)
qed

lemma busy_step:
  assumes "busy mid k d" "cdir_ok d" "\<not> ends_step mid r"
  shows "busy mid k (mission_step d r)"
proof (cases "target r = mid")
  case False
  then show ?thesis using other_mission_untouched [OF assms(2) False] assms(1) by (simp add: busy_def)
next
  case True
  from assms(1) obtain m where m: "load_controlled_mission mid d = Some m"
    "cm_status m \<in> {''executing'', ''paused'', ''blocked''}" "cm_current_step m = k"
    "k < length (cm_tasks m)" "mt_status (cm_tasks m ! k) = ''executing''" by (auto simp: busy_def)
  have id: "cm_id m = mid" using loaded_ok [OF assms(2) m(1)] by simp
  have ne: "cm_tasks m \<noteq> []" using m(4) by auto
  show ?thesis
  proof (cases r)
    case (MExecute now i)
    with True busy_execute(1) [OF assms(1)] assms(1) show ?thesis by simp
  next
    case (MVerify now i)
    with True busy_verify [OF assms(1,2)] show ?thesis by simp
  qed (use True assms(1,3) m id ne in \<open>auto simp: ends_step_def busy_def plan_cmission_def pause_mission_def
      resume_mission_def block_mission_def unblock_mission_def generate_final_report_def
      add_mission_artifact_def load_save_cmission Let_def\<close>)
qed

lemma busy_run: "busy mid k d \<Longrightarrow> cdir_ok d \<Longrightarrow> list_all (\<lambda>r. \<not> ends_step mid r) rs \<Longrightarrow>
    busy mid k (run_events mission_step d rs)"
  by (induction rs arbitrary: d) (auto intro: busy_step mission_control.step_inv)

text \<open>C3. No step is executed twice: once \<open>execute_next_step\<close> has handed out a step, then whatever is
  asked of the controller short of reporting an outcome, deleting or recreating the mission
  (pausing, resuming, blocking, unblocking, replanning, verifying, other missions' requests),
  asking again hands out nothing: the answer is that the step is already executing, or an error.\<close>

theorem no_duplicate_execution:
  assumes "execute_next_step now mid (run_events mission_step [] es) = (d, Some (Executing k n t tr))"
    and "list_all (\<lambda>r. \<not> ends_step mid r) rs"
  shows "\<exists>r. snd (execute_next_step now' mid (run_events mission_step d rs)) = Some r \<and>
    ((\<exists>u. r = AlreadyExecuting k u) \<or> (\<exists>e. r = ExecError e))"
proof -
  let ?d0 = "run_events mission_step [] es"
  have ok: "cdir_ok ?d0" by (rule run_cdir_ok)
  from exec_started [OF assms(1)] obtain m m' where m: "load_controlled_mission mid ?d0 = Some m"
    "d = save_controlled_mission m' ?d0" "cm_id m' = cm_id m" "k < length (cm_tasks m)"
    "mt_status t = ''executing''" "cm_status m' = ''executing''" "cm_current_step m' = k"
    "cm_tasks m' = (cm_tasks m)[k := t]" by blast
  have "cm_id m = mid" using loaded_ok [OF ok m(1)] by simp
  with m have "busy mid k d" by (auto simp: busy_def load_save_cmission)
  moreover have "cdir_ok d" using execute_ok [OF ok, of now mid] assms(1) by simp
  ultimately have "busy mid k (run_events mission_step d rs)" using assms(2) by (intro busy_run)
  then show ?thesis by (rule busy_execute(2))
qed

lemma touch_log_text [simp]:
  "cm_title (touch now m) = cm_title m" "cm_description (touch now m) = cm_description m"
  "cm_title (log_event now e det m) = cm_title m" "cm_description (log_event now e det m) = cm_description m"
  by (simp_all add: touch_def log_event_def)

theorem no_duplicate_execution_witness:
  "\<exists>r. snd (execute_next_step ''t9'' ''m1'' (run_events mission_step
      (fst (execute_next_step ''t2'' ''m1'' (run_events mission_step [] [sample_create, MPlan ''t1'' nat_str ''m1''])))
      [MPause ''t3'' ''m1'' ''why'', MResume ''t4'' ''m1''])) = Some r \<and> (\<forall>k n t tr. r \<noteq> Executing k n t tr)"
proof -
  obtain m0 where m0: "load_controlled_mission ''m1'' (run_events mission_step [] [sample_create]) = Some m0"
    "cm_status m0 = ''created''" "cm_description m0 = ''go''" "cm_id m0 = ''m1''"
    using sample_created loaded_ok [OF run_cdir_ok] by blast
  let ?d = "run_events mission_step [] [sample_create, MPlan ''t1'' nat_str ''m1'']"
  have "plan_lines (strip ''go'') = []" by code_simp
  then have len: "length (generate_mission_plan nat_str ''m1'' (cm_title m0) (cm_description m0)) = 3"
    using m0(3) by (simp add: generate_mission_plan_def default_steps_def Let_def)
  let ?p = "generate_mission_plan nat_str ''m1'' (cm_title m0) (cm_description m0)"
  have "?d = fst (plan_cmission ''t1'' nat_str ''m1'' (run_events mission_step [] [sample_create]))" by simp
  with m0 obtain m where m: "load_controlled_mission ''m1'' ?d = Some m" "cm_status m = ''planned''"
    "cm_tasks m = map task_of_step ?p" "cm_current_step m = 0"
    by (auto simp: plan_cmission_def load_save_cmission Let_def simp del: run_events.simps)
  have "cm_current_step m < length (cm_tasks m)" "mt_status (cm_tasks m ! cm_current_step m) = ''pending''"
    using m(3,4) len by (simp_all add: task_of_step_def)
  from exec_starts [OF m(1) _ this, of "''t2''"] m(2)
  obtain t m' n where "execute_next_step ''t2'' ''m1'' ?d = (save_controlled_mission m' ?d, Some (Executing 0 n t (cm_trace_id m')))"
    using m(4) by auto
  from no_duplicate_execution [OF this, of "[MPause ''t3'' ''m1'' ''why'', MResume ''t4'' ''m1'']" "''t9''"]
  show ?thesis unfolding \<open>execute_next_step _ _ _ = _\<close> fst_conv by (auto simp: ends_step_def)
qed

section \<open>Verification and liveness\<close>

lemma verify_rate:
  fixes c f n :: nat
  assumes "c + f \<le> n"
  shows "(if n > 0 then of_nat c / of_nat n else 0 :: rat) \<ge> 8 / 10 \<and> f = 0 \<and> c + f = n \<longleftrightarrow> 0 < n \<and> c = n"
  using assms by (cases "0 < n") auto

lemma all_status_iff: "length (filter P xs) = length xs \<longleftrightarrow> (\<forall>x \<in> set xs. P x)"
  by (induction xs) (auto dest: order_trans [OF eq_imp_le [OF sym] length_filter_le])

text \<open>Verification in full: the mission becomes done exactly when it has tasks and every one is done (the
  80 per cent threshold of the code never decides), failed when every task is done or failed
  and some task failed or there is none at all, and keeps its status otherwise; in particular a mission
  with a skipped task can never be verified. The tasks are untouched and the answer agrees with the
  stored status.\<close>

theorem verification_outcome:
  assumes "load_controlled_mission mid (run_events mission_step [] es) = Some m"
  shows "\<exists>v m'. verify_mission now mid (run_events mission_step [] es) =
      (save_controlled_mission m' (run_events mission_step [] es), Some v) \<and>
    cm_id m' = mid \<and> cm_tasks m' = cm_tasks m \<and> vr_final_status v = cm_status m' \<and>
    cm_status m' =
      (if \<forall>t \<in> set (cm_tasks m). mt_status t = ''done'' then (if cm_tasks m = [] then ''failed'' else ''done'')
       else if \<forall>t \<in> set (cm_tasks m). mt_status t \<in> {''done'', ''failed''} then ''failed'' else cm_status m)"
proof -
  let ?d = "run_events mission_step [] es" and ?ts = "cm_tasks m"
  let ?c = "length (with_status [''done''] m)" and ?f = "length (with_status [''failed''] m)" and ?n = "length (cm_tasks m)"
  have id: "cm_id m = mid" using loaded_ok [OF run_cdir_ok assms] by simp
  have sum: "?c + ?f = length (filter (\<lambda>t. mt_status t = ''done'' \<or> mt_status t = ''failed'') ?ts)"
    by (simp add: with_status_def settled_count)
  then have le: "?c + ?f \<le> ?n" by simp
  have all: "?c + ?f = ?n \<longleftrightarrow> (\<forall>t \<in> set ?ts. mt_status t \<in> {''done'', ''failed''})"
    unfolding sum all_status_iff by simp
  have dn: "?c = ?n \<longleftrightarrow> (\<forall>t \<in> set ?ts. mt_status t = ''done'')"
    by (simp add: with_status_def all_status_iff)
  note rate = verify_rate [OF le]
  obtain m' v where v: "verify_mission now mid ?d = (save_controlled_mission m' ?d, Some v)"
    "cm_id m' = mid" "cm_tasks m' = ?ts" "vr_final_status v = cm_status m'"
    "cm_status m' = (if 0 < ?n \<and> ?c = ?n then ''done'' else if ?c + ?f = ?n then ''failed'' else cm_status m)"
    using assms id rate by (auto simp: verify_mission_def Let_def split: if_splits)
  have "cm_status m' =
      (if \<forall>t \<in> set ?ts. mt_status t = ''done'' then (if ?ts = [] then ''failed'' else ''done'')
       else if \<forall>t \<in> set ?ts. mt_status t \<in> {''done'', ''failed''} then ''failed'' else cm_status m)"
    unfolding v(5) all dn by (cases "?ts = []") auto
  with v(1-4) show ?thesis by blast
qed

theorem verification_outcome_witness:
  "\<exists>v m'. verify_mission ''t1'' ''m1'' (run_events mission_step [] [sample_create]) =
     (save_controlled_mission m' (run_events mission_step [] [sample_create]), Some v) \<and> vr_final_status v = cm_status m'"
proof -
  obtain m where "load_controlled_mission ''m1'' (run_events mission_step [] [sample_create]) = Some m"
    using sample_created by blast
  from verification_outcome [OF this, of "''t1''"] show ?thesis by blast
qed

text \<open>One round of the driving loop: take step \<open>i\<close>, report that it succeeded.\<close>

definition success_round :: "string \<Rightarrow> string \<Rightarrow> nat \<Rightarrow> mission_request list" where
  "success_round now mid i = [MExecute now mid, MReport now mid (int i) ''success'' []]"

definition advanced :: "nat \<Rightarrow> nat \<Rightarrow> cmission \<Rightarrow> bool" where
  "advanced n i m \<longleftrightarrow> length (cm_tasks m) = n \<and> cm_current_step m = i \<and>
     cm_status m \<in> (if i < n then {''planned'', ''executing''} else {''verifying''}) \<and>
     (\<forall>j < n. mt_status (cm_tasks m ! j) = (if j < i then ''done'' else ''pending''))"

lemma round_advances:
  assumes "cdir_ok d" "load_controlled_mission mid d = Some m" "advanced n i m" "i < n"
  shows "\<exists>m'. load_controlled_mission mid (run_events mission_step d (success_round now mid i)) = Some m' \<and> advanced n (i + 1) m'"
proof -
  have id: "cm_id m = mid" using loaded_ok [OF assms(1,2)] by simp
  have ready: "cm_status m \<notin> {''paused'', ''done'', ''failed'', ''blocked''}"
    "cm_current_step m < length (cm_tasks m)" "mt_status (cm_tasks m ! cm_current_step m) = ''pending''"
    using assms(3,4) by (auto simp: advanced_def)
  from exec_starts [OF assms(2) ready, of now] obtain t m1 where
    e: "fst (execute_next_step now mid d) = save_controlled_mission m1 d" and
    m1: "cm_id m1 = mid" "cm_status m1 = ''executing''" "cm_current_step m1 = i" "cm_tasks m1 = (cm_tasks m)[i := t]"
    using id assms(3) by (auto simp: advanced_def)
  let ?d1 = "save_controlled_mission m1 d"
  have l1: "load_controlled_mission mid ?d1 = Some (cmission_to_dict m1)" using m1(1) by (simp add: load_save_cmission)
  have len: "length (cm_tasks m1) = n" using m1(4) assms(3) by (simp add: advanced_def)
  have k: "0 \<le> int i" "nat (int i) < length (cm_tasks (cmission_to_dict m1))" using len assms(4) by simp_all
  from report_shape [OF l1 k, of now "''success''" "[]"] obtain u m2 where
    r: "report_step_outcome now mid (int i) ''success'' [] ?d1 = (save_controlled_mission m2 ?d1, Some m2)" and
    u: "mt_status u = ''done''" and m2: "cm_id m2 = mid" "cm_tasks m2 = (cm_tasks m1)[i := u]"
      "cm_status m2 = (if n \<le> i + 1 then ''verifying'' else ''executing'')" "cm_current_step m2 = i + 1"
    using m1 len by (auto simp: third_failure_def outcome_status_def)
  have "run_events mission_step d (success_round now mid i) = save_controlled_mission m2 ?d1"
    by (simp add: success_round_def e r)
  moreover have "advanced n (i + 1) (cmission_to_dict m2)"
    using m1(4) m2 u assms(3,4) by (auto simp: advanced_def nth_list_update less_Suc_eq)
  ultimately show ?thesis using m2(1) by (simp add: load_save_cmission)
qed

definition success_rounds :: "string \<Rightarrow> string \<Rightarrow> nat \<Rightarrow> mission_request list" where
  "success_rounds now mid n = concat (map (success_round now mid) [0..<n])"

lemma rounds_advance:
  assumes "cdir_ok d" "load_controlled_mission mid d = Some m" "advanced n 0 m" "i \<le> n"
  shows "\<exists>m'. load_controlled_mission mid (run_events mission_step d (success_rounds now mid i)) = Some m' \<and> advanced n i m'"
  using assms(4)
proof (induction i)
  case 0
  then show ?case using assms(2,3) by (simp add: success_rounds_def)
next
  case (Suc i)
  let ?d = "run_events mission_step d (success_rounds now mid i)"
  have ok: "cdir_ok ?d" by (rule mission_control.run_inv [OF assms(1)])
  from Suc obtain m' where "load_controlled_mission mid ?d = Some m'" "advanced n i m'" by auto
  from round_advances [OF ok this] Suc.prems show ?case
    by (simp add: success_rounds_def run_events_append)
qed

lemma plan_advanced:
  assumes "cdir_ok d" "load_controlled_mission mid d = Some m" "cm_status m \<in> {''created'', ''planned'', ''failed''}"
    and "generate_mission_plan fresh mid (cm_title m) (cm_description m) \<noteq> []"
  shows "\<exists>m'. load_controlled_mission mid (fst (plan_cmission now fresh mid d)) = Some m' \<and>
    advanced (length (generate_mission_plan fresh mid (cm_title m) (cm_description m))) 0 m'"
proof -
  have id: "cm_id m = mid" using loaded_ok [OF assms(1,2)] by simp
  show ?thesis using assms(2-4) id
    by (auto simp: plan_cmission_def load_save_cmission advanced_def task_of_step_def Let_def)
qed

text \<open>C17. A mission whose steps all succeed ends: for any mission that can be planned and whose plan has
  \<open>n\<close> steps, planning it, executing and reporting success \<open>n\<close> times and verifying it makes it done,
  with all its \<open>n\<close> tasks done.\<close>

theorem successful_mission_completes:
  assumes "load_controlled_mission mid (run_events mission_step [] es) = Some m"
    and "cm_status m \<in> {''created'', ''planned'', ''failed''}"
    and "generate_mission_plan fresh mid (cm_title m) (cm_description m) \<noteq> []"
  shows "\<exists>m'. load_controlled_mission mid (run_events mission_step [] (es @ [MPlan now fresh mid] @
      success_rounds now mid (length (generate_mission_plan fresh mid (cm_title m) (cm_description m))) @ [MVerify now mid])) = Some m' \<and>
    cm_status m' = ''done'' \<and>
    length (cm_tasks m') = length (generate_mission_plan fresh mid (cm_title m) (cm_description m)) \<and>
    (\<forall>t \<in> set (cm_tasks m'). mt_status t = ''done'')"
proof -
  let ?n = "length (generate_mission_plan fresh mid (cm_title m) (cm_description m))"
  let ?es = "es @ [MPlan now fresh mid]"
  obtain m1 where m1: "load_controlled_mission mid (run_events mission_step [] ?es) = Some m1" "advanced ?n 0 m1"
    using plan_advanced [OF run_cdir_ok assms, of now] by (auto simp: run_events_append)
  from rounds_advance [OF run_cdir_ok m1, of ?n now] obtain m2 where
    m2: "load_controlled_mission mid (run_events mission_step [] (?es @ success_rounds now mid ?n)) = Some m2" "advanced ?n ?n m2"
    by (auto simp: run_events_append)
  have done_all: "\<forall>t \<in> set (cm_tasks m2). mt_status t = ''done''" and len: "length (cm_tasks m2) = ?n"
    using m2(2) by (auto simp: advanced_def in_set_conv_nth)
  then have ne: "cm_tasks m2 \<noteq> []" using assms(3) by (metis length_0_conv)
  obtain v m3 where "verify_mission now mid (run_events mission_step [] (?es @ success_rounds now mid ?n)) =
      (save_controlled_mission m3 (run_events mission_step [] (?es @ success_rounds now mid ?n)), Some v)"
    "cm_id m3 = mid" "cm_tasks m3 = cm_tasks m2" "cm_status m3 = ''done''"
    using verification_outcome [OF m2(1), of now] done_all ne by auto
  then show ?thesis using done_all len by (auto simp: run_events_append load_save_cmission)
qed

theorem successful_mission_completes_witness:
  "\<exists>m'. load_controlled_mission ''m1'' (run_events mission_step [] ([sample_create] @ [MPlan ''t1'' nat_str ''m1''] @
      success_rounds ''t1'' ''m1'' 3 @ [MVerify ''t1'' ''m1''])) = Some m' \<and> cm_status m' = ''done''"
proof -
  obtain m where m: "load_controlled_mission ''m1'' (run_events mission_step [] [sample_create]) = Some m"
    "cm_status m = ''created''" "cm_description m = ''go''"
    using sample_created by blast
  have "plan_lines (strip ''go'') = []" by code_simp
  then have len: "length (generate_mission_plan nat_str ''m1'' (cm_title m) (cm_description m)) = 3"
    using m(3) by (simp add: generate_mission_plan_def default_steps_def Let_def)
  then have ne: "generate_mission_plan nat_str ''m1'' (cm_title m) (cm_description m) \<noteq> []" by auto
  have st: "cm_status m \<in> {''created'', ''planned'', ''failed''}" using m(2) by simp
  from successful_mission_completes [OF m(1) st ne, of "''t1''"] len show ?thesis by auto
qed

section \<open>Failures and what the controller lets through\<close>

lemma three_last: "2 \<le> k \<Longrightarrow> k < length xs \<Longrightarrow> rev (take (k + 1) xs) = xs ! k # xs ! (k - 1) # xs ! (k - 2) # rev (take (k - 2) xs)"
proof -
  assume "2 \<le> k" "k < length xs"
  moreover obtain j where "k = j + 2" using \<open>2 \<le> k\<close> by (metis le_iff_add add.commute)
  ultimately show ?thesis by (simp add: take_Suc_conv_app_nth numeral_2_eq_2)
qed

text \<open>C35. Three failures in a row stop a mission: reporting a failure right after two failed steps, on a
  mission in any state, leaves it blocked with its step counter unmoved, and from then on asking for
  the next step answers with an error and changes nothing.\<close>

theorem third_failure_blocks_mission:
  assumes "load_controlled_mission mid (run_events mission_step [] es) = Some m"
    and "2 \<le> k" "k < length (cm_tasks m)"
    and "mt_status (cm_tasks m ! (k - 1)) = ''failed''" "mt_status (cm_tasks m ! (k - 2)) = ''failed''"
  shows "\<exists>m' err. load_controlled_mission mid
      (run_events mission_step [] (es @ [MReport now mid (int k) ''failure'' detail])) = Some m' \<and>
    cm_status m' = ''blocked'' \<and> cm_current_step m' = cm_current_step m \<and>
    execute_next_step now' mid (run_events mission_step [] (es @ [MReport now mid (int k) ''failure'' detail])) =
      (run_events mission_step [] (es @ [MReport now mid (int k) ''failure'' detail]), Some (ExecError err))"
proof -
  let ?d = "run_events mission_step [] es"
  have id: "cm_id m = mid" using loaded_ok [OF run_cdir_ok assms(1)] by simp
  have k: "0 \<le> int k" "nat (int k) < length (cm_tasks m)" using assms(3) by simp_all
  from report_shape [OF assms(1) k, of now "''failure''" detail] obtain t m' where
    r: "report_step_outcome now mid (int k) ''failure'' detail ?d = (save_controlled_mission m' ?d, Some m')" and
    t: "mt_status t = ''failed''" and m': "cm_id m' = mid" "cm_tasks m' = (cm_tasks m)[k := t]"
      "third_failure ''failure'' (cm_tasks m') k \<Longrightarrow> cm_status m' = ''blocked'' \<and> cm_current_step m' = cm_current_step m"
    using id by (auto simp: outcome_status_def)
  have "rev (take (k + 1) (cm_tasks m')) = t # cm_tasks m ! (k - 1) # cm_tasks m ! (k - 2) # rev (take (k - 2) (cm_tasks m'))"
    using three_last [of k "cm_tasks m'"] assms(2,3) m'(2) by simp
  then have "third_failure ''failure'' (cm_tasks m') k"
    using t assms(4,5) by (simp add: third_failure_def consecutive_failures_def)
  with m'(3) have st: "cm_status m' = ''blocked''" "cm_current_step m' = cm_current_step m" by simp_all
  have d: "run_events mission_step [] (es @ [MReport now mid (int k) ''failure'' detail]) = save_controlled_mission m' ?d"
    by (simp add: run_events_append r)
  show ?thesis unfolding d using m'(1) st
    by (simp add: load_save_cmission execute_next_step_def)
qed

abbreviation two_failures :: "mission_request list" where
  "two_failures \<equiv> [sample_create, MPlan ''t1'' nat_str ''m1'', MReport ''t2'' ''m1'' 0 ''failure'' [],
     MReport ''t3'' ''m1'' 1 ''failure'' []]"

lemma planned_sample:
  "\<exists>m. load_controlled_mission ''m1'' (run_events mission_step [] [sample_create, MPlan ''t1'' nat_str ''m1'']) = Some m \<and>
     advanced 3 0 m"
proof -
  obtain m0 where m0: "load_controlled_mission ''m1'' (run_events mission_step [] [sample_create]) = Some m0"
    "cm_status m0 = ''created''" "cm_description m0 = ''go''" using sample_created by blast
  have "plan_lines (strip ''go'') = []" by code_simp
  then have len: "length (generate_mission_plan nat_str ''m1'' (cm_title m0) (cm_description m0)) = 3"
    using m0(3) by (simp add: generate_mission_plan_def default_steps_def Let_def)
  then have "generate_mission_plan nat_str ''m1'' (cm_title m0) (cm_description m0) \<noteq> []" by auto
  from plan_advanced [OF run_cdir_ok m0(1) _ this, of "''t1''"] m0(2) len show ?thesis by simp
qed

lemma report_failure_step:
  assumes "load_controlled_mission mid (run_events mission_step [] es) = Some m" "k < length (cm_tasks m)"
  shows "\<exists>t m'. load_controlled_mission mid (run_events mission_step [] (es @ [MReport now mid (int k) ''failure'' detail])) = Some m' \<and>
    cm_tasks m' = (cm_tasks m)[k := t] \<and> mt_status t = ''failed''"
proof -
  have id: "cm_id m = mid" using loaded_ok [OF run_cdir_ok assms(1)] by simp
  have k: "0 \<le> int k" "nat (int k) < length (cm_tasks m)" using assms(2) by simp_all
  from report_shape [OF assms(1) k, of now "''failure''" detail] id show ?thesis
    by (auto simp: run_events_append load_save_cmission outcome_status_def)
qed

theorem third_failure_blocks_mission_witness:
  "\<exists>m'. load_controlled_mission ''m1'' (run_events mission_step [] (two_failures @ [MReport ''t4'' ''m1'' 2 ''failure'' []])) = Some m' \<and>
     cm_status m' = ''blocked''"
proof -
  let ?e0 = "[sample_create, MPlan ''t1'' nat_str ''m1'']"
  let ?e1 = "?e0 @ [MReport ''t2'' ''m1'' (int 0) ''failure'' []]"
  let ?e2 = "?e1 @ [MReport ''t3'' ''m1'' (int 1) ''failure'' []]"
  obtain m0 where m0: "load_controlled_mission ''m1'' (run_events mission_step [] ?e0) = Some m0" "advanced 3 0 m0"
    using planned_sample by blast
  then have l0: "length (cm_tasks m0) = 3" by (simp add: advanced_def)
  obtain t1 m1 where m1: "load_controlled_mission ''m1'' (run_events mission_step [] ?e1) = Some m1"
    "cm_tasks m1 = (cm_tasks m0)[0 := t1]" "mt_status t1 = ''failed''"
    using report_failure_step [OF m0(1), of 0 "''t2''" "[]"] l0 by auto
  obtain t2 m2 where m2: "load_controlled_mission ''m1'' (run_events mission_step [] ?e2) = Some m2"
    "cm_tasks m2 = (cm_tasks m1)[1 := t2]" "mt_status t2 = ''failed''"
    using report_failure_step [OF m1(1), of 1 "''t3''" "[]"] m1(2) l0 by auto
  have ts: "cm_tasks m2 = (cm_tasks m0)[0 := t1, 1 := t2]" using m1(2) m2(2) by simp
  have "2 < length (cm_tasks m2)" "mt_status (cm_tasks m2 ! (2 - 1)) = ''failed''" "mt_status (cm_tasks m2 ! (2 - 2)) = ''failed''"
    using l0 m1(3) m2(3) unfolding ts by simp_all
  from third_failure_blocks_mission [OF m2(1) _ this, of "''t4''" "[]"] show ?thesis by auto
qed

text \<open>A mission that is done is not final: a failure reported for its first step is accepted, and the
  mission stays done with a failed task (the outcome is recorded without looking at the mission's
  status).\<close>

theorem done_mission_accepts_failure:
  assumes "load_controlled_mission mid (run_events mission_step [] es) = Some m"
    and "cm_status m = ''done''" "2 \<le> length (cm_tasks m)"
  shows "\<exists>m'. load_controlled_mission mid (run_events mission_step [] (es @ [MReport now mid 0 ''failure'' detail])) = Some m' \<and>
    cm_status m' = ''done'' \<and> mt_status (cm_tasks m' ! 0) = ''failed''"
proof -
  let ?d = "run_events mission_step [] es"
  have id: "cm_id m = mid" using loaded_ok [OF run_cdir_ok assms(1)] by simp
  have pos: "0 < length (cm_tasks m)" using assms(3) by linarith
  then have "0 \<le> (0 :: int)" "nat 0 < length (cm_tasks m)" by simp_all
  from report_shape [OF assms(1) this, of now "''failure''" detail] obtain t m' where
    r: "report_step_outcome now mid 0 ''failure'' detail ?d = (save_controlled_mission m' ?d, Some m')"
       "mt_status t = ''failed''" "cm_id m' = mid" "cm_tasks m' = (cm_tasks m)[0 := t]"
       "\<not> third_failure ''failure'' (cm_tasks m') 0 \<Longrightarrow> cm_status m' = ''done''"
    using id assms(2,3) by (auto simp: outcome_status_def)
  have "length (rev (take (0 + 1) (cm_tasks m'))) \<le> 1" by simp
  then have "\<not> third_failure ''failure'' (cm_tasks m') 0"
    using length_takeWhile_le [of "\<lambda>t. mt_status t = ''failed''" "rev (take (0 + 1) (cm_tasks m'))"]
    unfolding third_failure_def consecutive_failures_def by linarith
  then show ?thesis using r pos by (simp add: run_events_append load_save_cmission)
qed

theorem done_mission_accepts_failure_witness:
  "\<exists>m'. load_controlled_mission ''m1'' (run_events mission_step [] ([sample_create] @ [MPlan ''t1'' nat_str ''m1''] @
      success_rounds ''t1'' ''m1'' 3 @ [MVerify ''t1'' ''m1''] @ [MReport ''t2'' ''m1'' 0 ''failure'' []])) = Some m' \<and>
    cm_status m' = ''done'' \<and> mt_status (cm_tasks m' ! 0) = ''failed''"
proof -
  let ?e0 = "[sample_create, MPlan ''t1'' nat_str ''m1'']"
  let ?e1 = "?e0 @ success_rounds ''t1'' ''m1'' 3"
  obtain m0 where m0: "load_controlled_mission ''m1'' (run_events mission_step [] ?e0) = Some m0" "advanced 3 0 m0"
    using planned_sample by blast
  from rounds_advance [OF run_cdir_ok m0, of 3 "''t1''"] obtain m1 where
    m1: "load_controlled_mission ''m1'' (run_events mission_step [] ?e1) = Some m1" "advanced 3 3 m1"
    by (auto simp only: run_events_append)
  have ts: "length (cm_tasks m1) = 3" "\<forall>t \<in> set (cm_tasks m1). mt_status t = ''done''"
    using m1(2) by (auto simp: advanced_def in_set_conv_nth)
  have id: "cm_id m1 = ''m1''" using loaded_ok [OF run_cdir_ok m1(1)] by simp
  have "cm_tasks m1 \<noteq> []" using ts(1) by auto
  then have "\<exists>m2. load_controlled_mission ''m1'' (run_events mission_step [] (?e1 @ [MVerify ''t1'' ''m1''])) = Some m2 \<and>
      cm_status m2 = ''done'' \<and> cm_tasks m2 = cm_tasks m1"
    using m1(1) id ts by (simp add: run_events_append verify_mission_def with_status_def load_save_cmission Let_def)
  then obtain m2 where m2: "load_controlled_mission ''m1'' (run_events mission_step [] (?e1 @ [MVerify ''t1'' ''m1''])) = Some m2"
    "cm_status m2 = ''done''" "cm_tasks m2 = cm_tasks m1" by blast
  have "2 \<le> length (cm_tasks m2)" using m2(3) ts(1) by simp
  from done_mission_accepts_failure [OF m2(1,2) this, of "''t2''" "[]"] show ?thesis by simp
qed

text \<open>Pausing and resuming lifts a block: a blocked mission with tasks that is paused and resumed is
  executing again, without \<open>unblock_mission\<close> and with its blocked reason still set.\<close>

theorem pause_resume_lifts_block:
  assumes "load_controlled_mission mid (run_events mission_step [] es) = Some m"
    and "cm_status m = ''blocked''" "cm_tasks m \<noteq> []"
  shows "\<exists>m'. load_controlled_mission mid
      (run_events mission_step [] (es @ [MPause now mid why, MResume now' mid])) = Some m' \<and>
    cm_status m' = ''executing'' \<and> cm_blocked_reason m' = cm_blocked_reason m"
proof -
  have id: "cm_id m = mid" using loaded_ok [OF run_cdir_ok assms(1)] by simp
  show ?thesis using assms id
    by (simp add: run_events_append pause_mission_def resume_mission_def load_save_cmission Let_def)
qed

theorem pause_resume_lifts_block_witness:
  "\<exists>m'. load_controlled_mission ''m1'' (run_events mission_step []
      ([sample_create, MPlan ''t1'' nat_str ''m1'', MBlock ''t2'' ''m1'' ''unsafe''] @ [MPause ''t3'' ''m1'' [], MResume ''t4'' ''m1''])) = Some m' \<and>
    cm_status m' = ''executing''"
proof -
  let ?e0 = "[sample_create, MPlan ''t1'' nat_str ''m1'']"
  obtain m0 where m0: "load_controlled_mission ''m1'' (run_events mission_step [] ?e0) = Some m0" "advanced 3 0 m0"
    using planned_sample by blast
  have id: "cm_id m0 = ''m1''" using loaded_ok [OF run_cdir_ok m0(1)] by simp
  have "\<exists>m1. load_controlled_mission ''m1'' (run_events mission_step [] (?e0 @ [MBlock ''t2'' ''m1'' ''unsafe''])) = Some m1 \<and>
      cm_status m1 = ''blocked'' \<and> cm_tasks m1 = cm_tasks m0"
    using m0(1) id by (simp only: run_events_append) (simp add: block_mission_def load_save_cmission Let_def)
  then obtain m1 where m1: "load_controlled_mission ''m1'' (run_events mission_step [] (?e0 @ [MBlock ''t2'' ''m1'' ''unsafe''])) = Some m1"
    "cm_status m1 = ''blocked''" "cm_tasks m1 = cm_tasks m0" by blast
  have "cm_tasks m1 \<noteq> []" using m0(2) m1(3) by (auto simp: advanced_def)
  from pause_resume_lifts_block [OF m1(1,2) this, of "''t3''" "[]" "''t4''"] show ?thesis by auto
qed

end
