(* ===== verification/Governor.thy ===== *)
theory Governor
  imports Dedup PyVal
begin

text \<open>
  \<^verbatim>\<open>igris/core/teacher_governor.py\<close> and \<^verbatim>\<open>igris/core/outcome_router.py\<close>: the
  governor decides whether a proposed task may run (duplicates, saturated families, forced strategy
  shifts, escalation) and the router decides what follows a result. The state of the governor is a
  record; the state file is what \<^verbatim>\<open>save_state\<close> writes. The hash of a fingerprint is a parameter.
  The sentences of the reasons are represented by the data they print. A set of families is a list
  without repetitions, read through membership.
\<close>

section \<open>Families and fingerprints\<close>

definition TASK_FAMILIES :: "string list" where
  "TASK_FAMILIES =
     [''observation'', ''synthesis'', ''repo_diff_discovery'', ''patch_strategy'',
      ''branch_pr_plan'', ''review_gate'', ''candidate_materialization'',
      ''mastery_cycle'', ''mastery_gate'', ''school_report'', ''grading_diagnosis'',
      ''stabilization_audit'', ''devops_deploy'', ''server_diagnosis'',
      ''test_repair'', ''code_patch'', ''documentation'', ''security_audit'', ''other'']"

definition STRATEGY_SHIFTS :: "(string, string list) dict" where
  "STRATEGY_SHIFTS =
     [(''observation'', [''synthesis'', ''code_patch'']),
      (''synthesis'', [''code_patch'', ''documentation'']),
      (''code_patch'', [''test_repair'', ''review_gate'']),
      (''test_repair'', [''stabilization_audit'', ''grading_diagnosis'']),
      (''patch_strategy'', [''review_gate'', ''branch_pr_plan'']),
      (''branch_pr_plan'', [''review_gate'', ''documentation'']),
      (''review_gate'', [''code_patch'', ''stabilization_audit'']),
      (''documentation'', [''code_patch'', ''observation'']),
      (''devops_deploy'', [''server_diagnosis'', ''stabilization_audit'']),
      (''server_diagnosis'', [''devops_deploy'', ''security_audit'']),
      (''stabilization_audit'', [''test_repair'', ''grading_diagnosis'']),
      (''grading_diagnosis'', [''code_patch'', ''stabilization_audit'']),
      (''security_audit'', [''code_patch'', ''documentation'']),
      (''mastery_cycle'', [''mastery_gate'', ''school_report'']),
      (''mastery_gate'', [''code_patch'', ''documentation'']),
      (''school_report'', [''grading_diagnosis'', ''code_patch'']),
      (''candidate_materialization'', [''review_gate'', ''patch_strategy'']),
      (''repo_diff_discovery'', [''synthesis'', ''patch_strategy'']),
      (''other'', [''observation'', ''code_patch''])]"

record task_fingerprint =
  fp_family :: string
  fp_intent :: string
  fp_file_target :: string
  fp_expected_effect :: string
  fp_block_cause :: string
  fp_success_criteria :: string

definition compute_hash :: "(string \<Rightarrow> string) \<Rightarrow> task_fingerprint \<Rightarrow> string" where
  "compute_hash sha fp =
     take 16 (sha (join ''|'' (map (\<lambda>s. strip (py_lower s))
       [fp_family fp, fp_intent fp, fp_file_target fp, fp_expected_effect fp, fp_block_cause fp,
        fp_success_criteria fp])))"

section \<open>The governor\<close>

datatype governor_action = Approve | Reject | Shift | Escalate | Materialize

datatype governor_reason =
    FamilyBlocked string
  | SemanticDuplicate
  | FingerprintMatches string
  | ValidDifferentiator string
  | Shifting string nat string
  | AlternativesExhausted string
  | CriteriaRequired
  | PassesAll
  | BlockedFor string string
  | Materialized string string

record alternative_task =
  alt_title :: string
  alt_family :: string
  alt_description :: string
  alt_success_criteria :: "string list"
  alt_risk :: string
  alt_mission_id :: string
  alt_trace_id :: string

record governor_decision =
  gd_action :: governor_action
  gd_family :: string
  gd_reason :: governor_reason
  gd_differentiator :: string
  gd_alternative_family :: string
  gd_alternative_task :: "alternative_task option"
  gd_saturation_info :: "(string, nat) dict"
  gd_blocked_families :: "string list"
  gd_escalation :: bool
  gd_trace_id :: string

record escalation_entry =
  es_timestamp :: string
  es_family :: string
  es_reason :: governor_reason
  es_trace_id :: string

record governor =
  gv_threshold :: int
  gv_history :: "string list"
  gv_family_history :: "string list"
  gv_fingerprints :: "(string, task_fingerprint) dict"
  gv_escalation_log :: "escalation_entry list"
  gv_blocked_families :: "string list"
  gv_forced_shifts :: nat

definition new_governor :: "int \<Rightarrow> governor" where
  "new_governor threshold =
     \<lparr>gv_threshold = threshold, gv_history = [], gv_family_history = [], gv_fingerprints = [],
      gv_escalation_log = [], gv_blocked_families = [], gv_forced_shifts = 0\<rparr>"

definition family_or_classified :: "string \<Rightarrow> string \<Rightarrow> string" where
  "family_or_classified family description =
     (if family = [] then classify_task_family description else family)"

definition record_task :: "string \<Rightarrow> string \<Rightarrow> governor \<Rightarrow> governor" where
  "record_task description family g =
     g\<lparr>gv_history := gv_history g @ [description],
       gv_family_history := gv_family_history g @ [family_or_classified family description]\<rparr>"

definition get_family_counts :: "governor \<Rightarrow> (string, nat) dict" where
  "get_family_counts g = counter (lastn 20 (gv_family_history g))"

definition get_saturated_families :: "governor \<Rightarrow> string list" where
  "get_saturated_families g =
     map fst (filter (\<lambda>(fam, n). int n \<ge> gv_threshold g) (get_family_counts g))"

definition is_family_saturated :: "string \<Rightarrow> governor \<Rightarrow> bool" where
  "is_family_saturated family g \<longleftrightarrow> family \<in> set (get_saturated_families g)"

definition register_fingerprint :: "string \<Rightarrow> task_fingerprint \<Rightarrow> governor \<Rightarrow> governor" where
  "register_fingerprint task_id fp g = g\<lparr>gv_fingerprints := dset (gv_fingerprints g) task_id fp\<rparr>"

definition history_duplicate :: "string \<Rightarrow> governor \<Rightarrow> bool" where
  "history_duplicate description g = is_semantic_duplicate description (gv_history g)"

definition check_fingerprint_duplicate ::
    "(string \<Rightarrow> string) \<Rightarrow> task_fingerprint \<Rightarrow> governor \<Rightarrow> string option" where
  "check_fingerprint_duplicate sha fp g =
     map_option fst (find_first (\<lambda>(task_id, existing). compute_hash sha existing = compute_hash sha fp)
       (gv_fingerprints g))"

text \<open>The fingerprint check of \<^verbatim>\<open>evaluate_task\<close>: the id found must be true, i.e. not empty.\<close>

definition duplicate_id :: "(string \<Rightarrow> string) \<Rightarrow> task_fingerprint option \<Rightarrow> governor \<Rightarrow> string" where
  "duplicate_id sha fingerprint g =
     (case fingerprint of
        None \<Rightarrow> []
      | Some fp \<Rightarrow> str_or (check_fingerprint_duplicate sha fp g) [])"

definition available_from :: "string list \<Rightarrow> governor \<Rightarrow> string list" where
  "available_from families g =
     filter (\<lambda>f. f \<notin> set (get_saturated_families g) \<and> f \<notin> set (gv_blocked_families g)) families"

definition evaluate_task ::
    "(string \<Rightarrow> string) \<Rightarrow> string \<Rightarrow> string \<Rightarrow> string \<Rightarrow> string \<Rightarrow> string list \<Rightarrow> task_fingerprint option \<Rightarrow>
     string \<Rightarrow> governor \<Rightarrow> governor \<times> governor_decision" where
  "evaluate_task sha now description family0 differentiator success_criteria fingerprint trace_id g =
     (let family = family_or_classified family0 description;
          counts = get_family_counts g;
          saturated = get_saturated_families g;
          d = \<lparr>gd_action = Approve, gd_family = family, gd_reason = PassesAll, gd_differentiator = [],
               gd_alternative_family = [], gd_alternative_task = None, gd_saturation_info = counts,
               gd_blocked_families = gv_blocked_families g, gd_escalation = False, gd_trace_id = trace_id\<rparr>
      in
      if family \<in> set (gv_blocked_families g) then
        (g, d\<lparr>gd_action := Reject, gd_reason := FamilyBlocked family\<rparr>)
      else if history_duplicate description g then
        (g, d\<lparr>gd_action := Reject, gd_reason := SemanticDuplicate\<rparr>)
      else if duplicate_id sha fingerprint g \<noteq> [] then
        (g, d\<lparr>gd_action := Reject, gd_reason := FingerprintMatches (duplicate_id sha fingerprint g)\<rparr>)
      else if family \<in> set saturated then
        (if differentiator \<noteq> [] \<and> 10 \<le> length (strip differentiator) then
           (g, d\<lparr>gd_action := Approve, gd_reason := ValidDifferentiator family,
                 gd_differentiator := differentiator\<rparr>)
         else
           (case available_from (dget_or STRATEGY_SHIFTS family []) g of
              alt # alts \<Rightarrow>
                (g\<lparr>gv_forced_shifts := gv_forced_shifts g + 1\<rparr>,
                 d\<lparr>gd_action := Shift, gd_alternative_family := alt,
                   gd_reason := Shifting family (dget_or counts family 0) alt\<rparr>)
            | [] \<Rightarrow>
                (g\<lparr>gv_escalation_log := gv_escalation_log g @
                    [\<lparr>es_timestamp = now, es_family = family, es_reason = AlternativesExhausted family,
                      es_trace_id = trace_id\<rparr>]\<rparr>,
                 d\<lparr>gd_action := Escalate, gd_escalation := True, gd_reason := AlternativesExhausted family\<rparr>)))
      else if success_criteria = [] then
        (g, d\<lparr>gd_action := Reject, gd_reason := CriteriaRequired\<rparr>)
      else (g, d\<lparr>gd_action := Approve, gd_reason := PassesAll\<rparr>))"

definition set_add :: "'a \<Rightarrow> 'a list \<Rightarrow> 'a list" where
  "set_add x xs = (if x \<in> set xs then xs else xs @ [x])"

definition block_family :: "string \<Rightarrow> string \<Rightarrow> governor \<Rightarrow> governor \<times> governor_decision" where
  "block_family family reason g =
     (let blocked = set_add family (gv_blocked_families g) in
      (g\<lparr>gv_blocked_families := blocked\<rparr>,
       \<lparr>gd_action = Reject, gd_family = family, gd_reason = BlockedFor family reason,
        gd_differentiator = [], gd_alternative_family = [], gd_alternative_task = None,
        gd_saturation_info = [], gd_blocked_families = blocked, gd_escalation = False, gd_trace_id = []\<rparr>))"

definition unblock_family :: "string \<Rightarrow> governor \<Rightarrow> governor" where
  "unblock_family family g =
     g\<lparr>gv_blocked_families := filter (\<lambda>f. f \<noteq> family) (gv_blocked_families g)\<rparr>"

definition shift_target :: "string \<Rightarrow> governor \<Rightarrow> string" where
  "shift_target original g =
     (let alternatives = dget_or STRATEGY_SHIFTS original [''observation'', ''documentation''];
          available = available_from alternatives g;
          available' = (if available = [] then available_from TASK_FAMILIES g else available)
      in if available' \<noteq> [] then hd available' else ''other'')"

definition materialize_alternative :: "string \<Rightarrow> string \<Rightarrow> string \<Rightarrow> governor \<Rightarrow> governor_decision" where
  "materialize_alternative original mission_id trace_id g =
     (let target = shift_target original g;
          t = \<lparr>alt_title = ''Alternative: shift from '' @ original @ '' to '' @ target, alt_family = target,
               alt_description = ''Governor forced strategy shift from '' @ [CHR 0x27] @ original @ [CHR 0x27] @
                 '' (saturated) to '' @ [CHR 0x27] @ target @ [CHR 0x27],
               alt_success_criteria = [''Complete a '' @ target @ '' task successfully''],
               alt_risk = ''low'', alt_mission_id = mission_id, alt_trace_id = trace_id\<rparr>
      in \<lparr>gd_action = Materialize, gd_family = target, gd_reason = Materialized original target,
          gd_differentiator = [], gd_alternative_family = target, gd_alternative_task = Some t,
          gd_saturation_info = [], gd_blocked_families = [], gd_escalation = False, gd_trace_id = trace_id\<rparr>)"

datatype recommendation = ProceedNormally | SwitchTo string | HumanIntervention

definition recommend_action :: "governor \<Rightarrow> recommendation" where
  "recommend_action g =
     (if get_saturated_families g = [] then ProceedNormally
      else (case available_from TASK_FAMILIES g of f # fs \<Rightarrow> SwitchTo f | [] \<Rightarrow> HumanIntervention))"

record escalation_report =
  er_report_id :: string
  er_timestamp :: string
  er_family_counts :: "(string, nat) dict"
  er_saturated_families :: "string list"
  er_blocked_families :: "string list"
  er_forced_shifts :: nat
  er_escalation_count :: nat
  er_escalation_log :: "escalation_entry list"
  er_recent_history :: "string list"
  er_fingerprint_count :: nat
  er_trace_id :: string
  er_recommendation :: recommendation

definition generate_escalation_report :: "string \<Rightarrow> string \<Rightarrow> string \<Rightarrow> governor \<Rightarrow> escalation_report" where
  "generate_escalation_report new_id now trace_id g =
     \<lparr>er_report_id = new_id, er_timestamp = now, er_family_counts = get_family_counts g,
      er_saturated_families = get_saturated_families g, er_blocked_families = gv_blocked_families g,
      er_forced_shifts = gv_forced_shifts g, er_escalation_count = length (gv_escalation_log g),
      er_escalation_log = slice_from (-10) (gv_escalation_log g),
      er_recent_history = slice_from (-10) (gv_history g),
      er_fingerprint_count = length (gv_fingerprints g), er_trace_id = trace_id,
      er_recommendation = recommend_action g\<rparr>"

record governor_summary =
  gs_family_counts :: "(string, nat) dict"
  gs_saturated_families :: "string list"
  gs_blocked_families :: "string list"
  gs_forced_shifts :: nat
  gs_escalation_count :: nat
  gs_history_length :: nat
  gs_fingerprint_count :: nat
  gs_threshold :: int

definition get_governor_summary :: "governor \<Rightarrow> governor_summary" where
  "get_governor_summary g =
     \<lparr>gs_family_counts = get_family_counts g, gs_saturated_families = get_saturated_families g,
      gs_blocked_families = gv_blocked_families g, gs_forced_shifts = gv_forced_shifts g,
      gs_escalation_count = length (gv_escalation_log g), gs_history_length = length (gv_history g),
      gs_fingerprint_count = length (gv_fingerprints g), gs_threshold = gv_threshold g\<rparr>"

section \<open>The state file\<close>

record governor_file =
  gf_history :: "string list"
  gf_family_history :: "string list"
  gf_blocked_families :: "string list"
  gf_forced_shifts :: nat
  gf_escalation_log :: "escalation_entry list"
  gf_threshold :: int

definition save_governor_state :: "governor \<Rightarrow> governor_file" where
  "save_governor_state g =
     \<lparr>gf_history = gv_history g, gf_family_history = gv_family_history g,
      gf_blocked_families = gv_blocked_families g, gf_forced_shifts = gv_forced_shifts g,
      gf_escalation_log = gv_escalation_log g, gf_threshold = gv_threshold g\<rparr>"

text \<open>\<open>None\<close> is a missing or unreadable file.\<close>

definition load_governor_state :: "governor_file option \<Rightarrow> governor \<Rightarrow> governor \<times> bool" where
  "load_governor_state f g =
     (case f of
        None \<Rightarrow> (g, False)
      | Some d \<Rightarrow>
          (g\<lparr>gv_history := gf_history d, gv_family_history := gf_family_history d,
             gv_blocked_families := gf_blocked_families d, gv_forced_shifts := gf_forced_shifts d,
             gv_escalation_log := gf_escalation_log d, gv_threshold := gf_threshold d\<rparr>, True))"

section \<open>Approval and its alternatives\<close>

lemma counts_iff: "(f, n) \<in> set (get_family_counts g) \<longleftrightarrow>
    f \<in> set (lastn 20 (gv_family_history g)) \<and> n = count_list (lastn 20 (gv_family_history g)) f"
  by (simp add: get_family_counts_def counter_in_iff)

lemma saturated_families_iff: "f \<in> set (get_saturated_families g) \<longleftrightarrow>
    f \<in> set (lastn 20 (gv_family_history g)) \<and>
    gv_threshold g \<le> int (count_list (lastn 20 (gv_family_history g)) f)"
  unfolding get_saturated_families_def by (force simp: counts_iff)

lemma available_iff: "f \<in> set (available_from fs g) \<longleftrightarrow>
    f \<in> set fs \<and> f \<notin> set (get_saturated_families g) \<and> f \<notin> set (gv_blocked_families g)"
  by (auto simp: available_from_def)

lemma duplicate_id_sound:
  assumes "duplicate_id sha fp g \<noteq> []" and "dwf (gv_fingerprints g)"
  shows "\<exists>f old. fp = Some f \<and> dget (gv_fingerprints g) (duplicate_id sha fp g) = Some old \<and>
    compute_hash sha old = compute_hash sha f"
proof -
  from assms(1) obtain f i where f: "fp = Some f" "check_fingerprint_duplicate sha f g = Some i" "duplicate_id sha fp g = i"
    by (auto simp: duplicate_id_def str_or_def split: option.splits if_splits)
  then obtain p where "find_first (\<lambda>(task_id, existing). compute_hash sha existing = compute_hash sha f)
      (gv_fingerprints g) = Some p" "fst p = i"
    by (auto simp: check_fingerprint_duplicate_def)
  from find_first_Some [OF this(1)] this(2) f show ?thesis
    by (cases p) (auto simp: dget_iff_in [OF assms(2)])
qed

text \<open>The governor's approval in full: a task is approved exactly when its family is not blocked, its
  description is no semantic duplicate of the history, no registered fingerprint has its hash, and
  either its family is not saturated and it has success criteria, or its family is saturated and
  it comes with a differentiator of at least ten characters. An approval changes nothing.\<close>

theorem governor_approves_iff:
  "gd_action (snd (evaluate_task sha now descr family0 differentiator criteria fp trace g)) = Approve \<longleftrightarrow>
     family_or_classified family0 descr \<notin> set (gv_blocked_families g) \<and>
     \<not> is_semantic_duplicate descr (gv_history g) \<and>
     duplicate_id sha fp g = [] \<and>
     (if is_family_saturated (family_or_classified family0 descr) g
      then differentiator \<noteq> [] \<and> 10 \<le> length (strip differentiator) else criteria \<noteq> [])"
  by (auto simp: evaluate_task_def history_duplicate_def is_family_saturated_def Let_def split: list.splits)

lemma evaluate_other_fields:
  "gv_history (fst (evaluate_task sha now descr f0 df crit fp tr g)) = gv_history g"
  "gv_family_history (fst (evaluate_task sha now descr f0 df crit fp tr g)) = gv_family_history g"
  "gv_threshold (fst (evaluate_task sha now descr f0 df crit fp tr g)) = gv_threshold g"
  "gv_blocked_families (fst (evaluate_task sha now descr f0 df crit fp tr g)) = gv_blocked_families g"
  "gv_fingerprints (fst (evaluate_task sha now descr f0 df crit fp tr g)) = gv_fingerprints g"
  by (simp_all add: evaluate_task_def Let_def split: list.splits)

text \<open>A forced shift leads out of the loop: a shift names one of the family's listed alternatives,
  neither saturated nor blocked, and is counted; an escalation is only raised when every listed
  alternative is saturated or blocked, and is logged with its family.\<close>

theorem governor_shift_or_escalation:
  assumes "evaluate_task sha now descr family0 differentiator criteria fp trace g = (g', d)"
  shows "(gd_action d = Shift \<longrightarrow>
      gd_alternative_family d \<in> set (dget_or STRATEGY_SHIFTS (gd_family d) []) \<and>
      \<not> is_family_saturated (gd_alternative_family d) g \<and>
      gd_alternative_family d \<notin> set (gv_blocked_families g) \<and> gv_forced_shifts g' = gv_forced_shifts g + 1) \<and>
    (gd_action d = Escalate \<longrightarrow>
      (\<forall>f \<in> set (dget_or STRATEGY_SHIFTS (gd_family d) []).
         is_family_saturated f g \<or> f \<in> set (gv_blocked_families g)) \<and>
      gd_escalation d \<and> (\<exists>e. gv_escalation_log g' = gv_escalation_log g @ [e] \<and> es_family e = gd_family d)) \<and>
    (gd_action d \<notin> {Shift, Escalate} \<longrightarrow> g' = g)"
proof -
  let ?alts = "available_from (dget_or STRATEGY_SHIFTS (family_or_classified family0 descr) []) g"
  have hd: "a \<in> set ?alts" if "?alts = a # as" for a as using that by simp
  show ?thesis
  proof (cases "?alts")
    case Nil
    then have "\<forall>f \<in> set (dget_or STRATEGY_SHIFTS (family_or_classified family0 descr) []).
        is_family_saturated f g \<or> f \<in> set (gv_blocked_families g)"
      by (auto simp: is_family_saturated_def available_from_def filter_empty_conv)
    with assms Nil show ?thesis by (auto simp: evaluate_task_def Let_def split: if_splits)
  next
    case (Cons a as)
    with hd [OF Cons] have "a \<in> set (dget_or STRATEGY_SHIFTS (family_or_classified family0 descr) [])"
      "\<not> is_family_saturated a g" "a \<notin> set (gv_blocked_families g)"
      unfolding available_iff is_family_saturated_def by blast+
    with assms Cons show ?thesis by (auto simp: evaluate_task_def Let_def split: if_splits)
  qed
qed

section \<open>No family is repeated beyond the threshold\<close>

text \<open>The loop the governor guards: a proposal is evaluated and recorded when it is approved.\<close>

record proposal =
  pr_description :: string
  pr_family :: string
  pr_criteria :: "string list"
  pr_fingerprint :: "task_fingerprint option"

definition propose :: "(string \<Rightarrow> string) \<Rightarrow> governor \<Rightarrow> proposal \<Rightarrow> governor" where
  "propose sha g p =
     (let (g', d) = evaluate_task sha [] (pr_description p) (pr_family p) [] (pr_criteria p)
        (pr_fingerprint p) [] g
      in if gd_action d = Approve then record_task (pr_description p) (pr_family p) g' else g')"

definition unsaturable :: "governor \<Rightarrow> bool" where
  "unsaturable g \<longleftrightarrow> 1 \<le> gv_threshold g \<and>
     (\<forall>f. int (count_list (lastn 20 (gv_family_history g)) f) \<le> gv_threshold g)"

lemma count_list_drop_le: "count_list (drop n xs) f \<le> count_list xs f"
  by (metis append_take_drop_id count_list_append le_add2)

lemma lastn_snoc_count: "count_list (lastn 20 (xs @ [x])) f \<le> count_list (lastn 20 xs) f + (if x = f then 1 else 0)"
proof (cases "length xs < 20")
  case True
  then show ?thesis by (simp add: lastn_def)
next
  case False
  then have "Suc (length xs) - 20 = 1 + (length xs - 20)" by simp
  then have "lastn 20 (xs @ [x]) = drop 1 (lastn 20 xs) @ [x]"
    using False unfolding lastn_def drop_drop by simp
  then show ?thesis using count_list_drop_le [of 1 "lastn 20 xs" f] by simp
qed

lemma propose_unsaturable:
  assumes "unsaturable g"
  shows "unsaturable (propose sha g p)"
proof -
  let ?e = "evaluate_task sha [] (pr_description p) (pr_family p) [] (pr_criteria p) (pr_fingerprint p) [] g"
  let ?f = "family_or_classified (pr_family p) (pr_description p)"
  note keep = evaluate_other_fields [of sha "[]" "pr_description p" "pr_family p" "[]" "pr_criteria p" "pr_fingerprint p" "[]" g]
  show ?thesis
  proof (cases "gd_action (snd ?e) = Approve")
    case False
    then have "propose sha g p = fst ?e" by (simp add: propose_def case_prod_beta)
    with assms keep show ?thesis by (simp add: unsaturable_def)
  next
    case True
    then have "\<not> is_family_saturated ?f g" unfolding governor_approves_iff by auto
    then have less: "int (count_list (lastn 20 (gv_family_history g)) ?f) < gv_threshold g"
      using assms count_list_0_iff [of "lastn 20 (gv_family_history g)" ?f]
      by (force simp: is_family_saturated_def saturated_families_iff unsaturable_def)
    have p: "propose sha g p = record_task (pr_description p) (pr_family p) (fst ?e)"
      using True by (simp add: propose_def case_prod_beta)
    have "int (count_list (lastn 20 (gv_family_history g @ [?f])) f) \<le> gv_threshold g" for f
    proof -
      have "int (count_list (lastn 20 (gv_family_history g)) f) \<le> gv_threshold g"
        using assms by (simp add: unsaturable_def)
      moreover have "count_list (lastn 20 (gv_family_history g @ [?f])) f \<le>
          count_list (lastn 20 (gv_family_history g)) f + (if ?f = f then 1 else 0)" by (rule lastn_snoc_count)
      ultimately show ?thesis using less by (auto split: if_splits)
    qed
    with assms keep show ?thesis unfolding p by (simp add: unsaturable_def record_task_def)
  qed
qed

interpretation governor: machine "propose sha" "\<lambda>g. \<exists>n. 1 \<le> n \<and> g = new_governor n" unsaturable
proof
  show "unsaturable g" if "\<exists>n. 1 \<le> n \<and> g = new_governor n" for g
    using that by (auto simp: unsaturable_def new_governor_def lastn_def)
qed (rule propose_unsaturable)

text \<open>No remediation loop: whatever tasks are proposed to a fresh governor with a positive threshold,
  as long as none comes with a differentiator no family ever occurs more often than the threshold
  among the twenty most recent recorded tasks.\<close>

theorem governor_bounds_repetition:
  assumes "1 \<le> n"
  shows "int (count_list (lastn 20 (gv_family_history (run_events (propose sha) (new_governor n) ps))) f) \<le> n"
proof -
  have "gv_threshold (propose sha g p) = gv_threshold g" for g p
    by (simp add: propose_def case_prod_beta evaluate_other_fields record_task_def)
  then have "gv_threshold (run_events (propose sha) g ps) = gv_threshold g" for g
    by (induction ps arbitrary: g) auto
  then have "gv_threshold (run_events (propose sha) (new_governor n) ps) = n" by (simp add: new_governor_def)
  moreover have "unsaturable (run_events (propose sha) (new_governor n) ps)"
    using assms by (intro governor.run_from_start) blast
  ultimately show ?thesis by (simp add: unsaturable_def)
qed

theorem governor_bounds_repetition_witness:
  "int (count_list (lastn 20 (gv_family_history (run_events (propose id) (new_governor 1)
     [\<lparr>pr_description = ''go'', pr_family = ''x'', pr_criteria = [''ok''], pr_fingerprint = None\<rparr>]))) ''x'') \<le> 1"
  by (rule governor_bounds_repetition) simp
section \<open>What the shift table reaches\<close>

lemma classified_not_listed:
  "classify_task_family d \<noteq> ''other'' \<Longrightarrow> dget_or STRATEGY_SHIFTS (classify_task_family d) [] = []"
proof -
  assume "classify_task_family d \<noteq> ''other''"
  moreover have "classify_task_family d \<in> {''testing'', ''editing'', ''search'', ''writing'', ''other''}"
    by (simp add: classify_task_family_def Let_def)
  ultimately consider "classify_task_family d = ''testing''" | "classify_task_family d = ''editing''"
    | "classify_task_family d = ''search''" | "classify_task_family d = ''writing''" by blast
  then show ?thesis by cases (simp_all add: STRATEGY_SHIFTS_def dget_or_def)
qed

text \<open>The strategy shift cannot work for a task whose family the governor classifies itself: the
  classifier's families are not in the shift table, so such a task of a saturated family, unless it
  is called other, always ends in an escalation and never in a shift.\<close>

theorem classified_tasks_only_escalate:
  assumes "is_family_saturated (classify_task_family descr) g" "classify_task_family descr \<noteq> ''other''"
    and "classify_task_family descr \<notin> set (gv_blocked_families g)"
    and "\<not> is_semantic_duplicate descr (gv_history g)" "duplicate_id sha fp g = []"
  shows "gd_action (snd (evaluate_task sha now descr [] [] criteria fp trace g)) = Escalate"
  using assms classified_not_listed [OF assms(2)]
  by (simp add: evaluate_task_def family_or_classified_def history_duplicate_def is_family_saturated_def
      available_from_def Let_def)

theorem classified_tasks_only_escalate_witness:
  "gd_action (snd (evaluate_task id ''t'' ''test'' [] [] [''ok''] None []
     ((new_governor 3)\<lparr>gv_family_history := [''testing'', ''testing'', ''testing'']\<rparr>))) = Escalate"
proof (rule classified_tasks_only_escalate)
  let ?g = "(new_governor 3)\<lparr>gv_family_history := [''testing'', ''testing'', ''testing'']\<rparr>"
  have c: "classify_task_family ''test'' = ''testing''" by code_simp
  show "is_family_saturated (classify_task_family ''test'') ?g"
    unfolding c is_family_saturated_def saturated_families_iff by (simp add: new_governor_def lastn_def)
  show "classify_task_family ''test'' \<noteq> ''other''" by (simp add: c)
  show "classify_task_family ''test'' \<notin> set (gv_blocked_families ?g)" by (simp add: new_governor_def)
  show "\<not> is_semantic_duplicate ''test'' (gv_history ?g)" by (simp add: new_governor_def duplicate_iff)
  show "duplicate_id id None ?g = []" by (simp add: duplicate_id_def)
qed

text \<open>A materialised alternative never repeats what is stuck: its family is neither saturated nor
  blocked, unless every one of the nineteen families is, and then it is the family other.\<close>

theorem materialized_family_is_free:
  "(gd_family (materialize_alternative original mission trace g) \<notin> set (get_saturated_families g) \<and>
    gd_family (materialize_alternative original mission trace g) \<notin> set (gv_blocked_families g)) \<or>
   (available_from TASK_FAMILIES g = [] \<and> gd_family (materialize_alternative original mission trace g) = ''other'')"
proof -
  let ?alts = "dget_or STRATEGY_SHIFTS original [''observation'', ''documentation'']"
  have fam: "gd_family (materialize_alternative original mission trace g) = shift_target original g"
    by (simp add: materialize_alternative_def Let_def)
  have hd: "hd (available_from fs g) \<notin> set (get_saturated_families g) \<and>
      hd (available_from fs g) \<notin> set (gv_blocked_families g)" if "available_from fs g \<noteq> []" for fs
    using hd_in_set [OF that] unfolding available_iff by blast
  show ?thesis
  proof (cases "available_from ?alts g = []")
    case False
    then show ?thesis unfolding fam shift_target_def Let_def using hd by simp
  next
    case True
    then show ?thesis unfolding fam shift_target_def Let_def
      using hd [of TASK_FAMILIES] by (cases "available_from TASK_FAMILIES g = []") simp_all
  qed
qed

text \<open>The governor survives a restart up to its fingerprints: loading the saved state into any governor
  restores history, families, blocks, shifts, escalations and threshold, and so every decision on a
  task without a fingerprint; the registered fingerprints are those of the governor loaded into, so a
  restarted governor has forgotten them.\<close>

theorem governor_state_roundtrip:
  "load_governor_state (Some (save_governor_state g)) g0 = (g\<lparr>gv_fingerprints := gv_fingerprints g0\<rparr>, True) \<and>
   snd (evaluate_task sha now descr family0 df criteria None trace (fst (load_governor_state (Some (save_governor_state g)) g0))) =
   snd (evaluate_task sha now descr family0 df criteria None trace g)"
proof -
  have l: "load_governor_state (Some (save_governor_state g)) g0 = (g\<lparr>gv_fingerprints := gv_fingerprints g0\<rparr>, True)"
    by (simp add: load_governor_state_def save_governor_state_def)
  have "get_family_counts (g\<lparr>gv_fingerprints := f\<rparr>) = get_family_counts g" for f by (simp add: get_family_counts_def)
  moreover have "get_saturated_families (g\<lparr>gv_fingerprints := f\<rparr>) = get_saturated_families g" for f
    by (simp add: get_saturated_families_def get_family_counts_def)
  moreover have "available_from fs (g\<lparr>gv_fingerprints := f\<rparr>) = available_from fs g" for f fs
    by (simp add: available_from_def get_saturated_families_def get_family_counts_def)
  ultimately show ?thesis unfolding l
    by (simp add: evaluate_task_def history_duplicate_def duplicate_id_def Let_def split: list.splits)
qed

section \<open>Routing outcomes\<close>

record route =
  rt_next_action :: string
  rt_reason :: string
  rt_recommended_family :: "string option"
  rt_should_call_teacher :: bool
  rt_should_run_tests :: bool
  rt_should_block_task :: bool

definition no_route :: route where
  "no_route = \<lparr>rt_next_action = [], rt_reason = [], rt_recommended_family = None,
     rt_should_call_teacher = False, rt_should_run_tests = False, rt_should_block_task = False\<rparr>"

text \<open>The result is a dictionary of values: \<^verbatim>\<open>stderr\<close> that is not a string has no \<^verbatim>\<open>lower\<close>.\<close>

definition decide_next_after_result ::
    "(string, pyval) dict \<Rightarrow> string \<Rightarrow> string list \<Rightarrow> nat \<Rightarrow> py_error + route" where
  "decide_next_after_result result task_description history threshold =
     (let failure_type = dget_or result ''failure_type'' PNone;
          stderr = dget_or result ''stderr'' (PStr [])
      in
      if truthy (dget_or result ''success'' (PBool False)) then
        Inr (no_route\<lparr>rt_next_action := ''idle'', rt_reason := ''Task completed successfully.''\<rparr>)
      else
        (let tests = Inr (no_route\<lparr>rt_next_action := ''validation'',
               rt_reason := ''Tests failed; a validation/remediation task is required.'',
               rt_should_run_tests := True\<rparr>);
             default = Inr (no_route\<lparr>rt_next_action := ''teacher_review'',
               rt_reason := ''Unable to determine next step; deferring to teacher.'',
               rt_should_call_teacher := True\<rparr>);
             current = classify_task_family task_description;
             failing = Inr (case required_strategy_shift_family current history threshold of
                 Some (f # fs) \<Rightarrow> no_route\<lparr>rt_next_action := ''shift_strategy'',
                   rt_recommended_family := Some (f # fs),
                   rt_reason := ''Current family '' @ [CHR 0x27] @ current @ [CHR 0x27] @
                     '' is saturated or error prone; shifting to '' @ [CHR 0x27] @ (f # fs) @ [CHR 0x27] @ ''.'',
                   rt_should_call_teacher := True\<rparr>
               | _ \<Rightarrow> no_route\<lparr>rt_next_action := ''teacher_review'',
                   rt_reason := ''Error encountered; teacher intervention recommended.'',
                   rt_should_call_teacher := True\<rparr>)
         in
         if py_eq failure_type (PStr ''test_failed'') then tests
         else (case stderr of
             PStr err \<Rightarrow>
               if contains (py_lower err) ''failed'' then tests
               else if py_eq failure_type (PStr ''command_error'') \<or> err \<noteq> [] then failing
               else default
           | _ \<Rightarrow> Inl AttributeError)))"

definition route_outcome ::
    "(string, pyval) dict \<Rightarrow> string \<Rightarrow> string list option \<Rightarrow> py_error + route \<times> pyval" where
  "route_outcome report task_description history =
     (case decide_next_after_result
        [(''success'', dget_or report ''success'' (PBool False)),
         (''failure_type'', dget_or report ''failure_type'' PNone),
         (''stdout'', dget_or report ''stdout_truncated'' (PStr [])),
         (''stderr'', dget_or report ''stderr_truncated'' (PStr []))]
        task_description (case history of None \<Rightarrow> [] | Some h \<Rightarrow> h) 3 of
      Inl e \<Rightarrow> Inl e
    | Inr r \<Rightarrow> Inr (r, dget_or report ''report_id'' PNone))"

text \<open>Routing a result whose error output is text never fails and gives one of four actions: idle exactly
  on success; the teacher is called unless the task succeeded or its tests failed; a recommended
  family is given exactly with a shift, differs from the family of the task and is a recent one.\<close>

theorem routing_is_total:
  assumes "dget_or result ''stderr'' (PStr []) = PStr err"
  shows "\<exists>r. decide_next_after_result result descr history n = Inr r \<and>
    rt_next_action r \<in> {''idle'', ''validation'', ''shift_strategy'', ''teacher_review''} \<and>
    (rt_next_action r = ''idle'' \<longleftrightarrow> truthy (dget_or result ''success'' (PBool False))) \<and>
    (rt_should_call_teacher r \<longleftrightarrow> rt_next_action r \<in> {''shift_strategy'', ''teacher_review''}) \<and>
    (rt_should_run_tests r \<longleftrightarrow> rt_next_action r = ''validation'') \<and>
    (case rt_recommended_family r of
       None \<Rightarrow> rt_next_action r \<noteq> ''shift_strategy''
     | Some f \<Rightarrow> rt_next_action r = ''shift_strategy'' \<and> f \<noteq> classify_task_family descr \<and> f \<in> set (recent_families history))"
proof -
  have shift: "f \<noteq> classify_task_family descr \<and> f \<in> set (recent_families history)"
    if "required_strategy_shift_family (classify_task_family descr) history n = Some f" for f
    using shift_least [OF that] by blast
  show ?thesis
    using assms shift by (auto simp: decide_next_after_result_def no_route_def Let_def split: option.splits list.splits)
qed

theorem routing_is_total_witness:
  "\<exists>r. decide_next_after_result [(''stderr'', PStr ''boom'')] ''go'' [] 3 = Inr r \<and> rt_next_action r \<noteq> ''idle''"
proof -
  have "dget_or [(''stderr'', PStr ''boom'')] ''stderr'' (PStr []) = PStr ''boom''" by (simp add: dget_or_def)
  from routing_is_total [OF this, of "''go''" "[]" 3] show ?thesis by (auto simp: dget_or_def)
qed

end
