(* ===== verification/Approval.thy ===== *)
theory Approval
  imports PyRegex Redaction
begin

text \<open>
  \<^verbatim>\<open>igris/core/risk_classifier.py\<close>: the risk level of an action from its id and description, the
  approval table of the four modes and the guard of secret files. A reason is its case and the data
  its sentence prints.
\<close>

section \<open>Risk levels\<close>

definition RISK_LEVELS :: "string list" where
  "RISK_LEVELS = [''low'', ''medium'', ''high'', ''critical'']"

definition MEDIUM_PATTERNS :: "string list" where
  "MEDIUM_PATTERNS =
     [''write'', ''edit'', ''create_file'', ''patch'', ''install'',
      ''pip_install'', ''npm_install'', ''restart_dev'',
      ''git_add'', ''git_commit'', ''git_branch'',
      ''mkdir'', ''cp'', ''mv'', ''touch'']"

definition HIGH_PATTERNS :: "string list" where
  "HIGH_PATTERNS =
     [''deploy'', ''push'', ''git_push'', ''publish'',
      ''nginx_reload'', ''systemd_restart'', ''docker_down'',
      ''docker_compose_up'', ''docker_compose_down'',
      ''service_restart'', ''service_stop'']"

definition CRITICAL_PATTERNS :: "string list" where
  "CRITICAL_PATTERNS =
     [''delete'', ''rm_rf'', ''drop'', ''truncate'',
      ''db_migrate'', ''db_drop'', ''db_delete'',
      ''dns_update'', ''firewall_change'',
      ''write_env'', ''write_secrets'', ''expose_secret'',
      ''force_push'', ''push_main'', ''push_master'',
      ''auto_merge'', ''production_deploy'',
      ''destroy'', ''provision'']"

definition classify_action_risk :: "string \<Rightarrow> string \<Rightarrow> string" where
  "classify_action_risk action_id action_description =
     (let combined = py_lower (action_id @ '' '' @ action_description)
      in if any_in CRITICAL_PATTERNS combined then ''critical''
         else if any_in HIGH_PATTERNS combined then ''high''
         else if any_in MEDIUM_PATTERNS combined then ''medium''
         else ''low'')"

section \<open>Approval\<close>

definition APPROVAL_MODES :: "string list" where
  "APPROVAL_MODES = [''safe'', ''operator'', ''trusted'', ''manual-critical'']"

datatype approval_reason =
    LowAllowed | MediumAllowed | HighRejectedSafe | HighRollbackPresent | HighNoRollback
  | HighHostAuthorized string | HighHostUnauthorized string | HighNeedsConfirmation
  | CriticalToken | CriticalNeedsToken | UnknownRisk | SecretFileBlocked string | NotASecret

record approval_decision =
  ap_allowed :: bool
  ap_risk_level :: string
  ap_approval_mode :: string
  ap_requires_rollback :: bool
  ap_requires_confirmation :: bool
  ap_reason :: approval_reason
  ap_action_id :: string
  ap_trace_id :: string

definition check_approval ::
    "string \<Rightarrow> string \<Rightarrow> string \<Rightarrow> bool \<Rightarrow> string \<Rightarrow> string list \<Rightarrow> string option \<Rightarrow> string \<Rightarrow>
     approval_decision"
where
  "check_approval action_id level mode has_rollback host authorized_hosts approval_token trace_id =
     (let risk_level = (if level \<notin> set RISK_LEVELS then ''critical'' else level);
          approval_mode = (if mode \<notin> set APPROVAL_MODES then ''manual-critical'' else mode);
          decide = (\<lambda>ok rollback confirm reason.
            \<lparr>ap_allowed = ok, ap_risk_level = risk_level, ap_approval_mode = approval_mode,
             ap_requires_rollback = rollback, ap_requires_confirmation = confirm,
             ap_reason = reason, ap_action_id = action_id, ap_trace_id = trace_id\<rparr>)
      in if risk_level = ''low'' then decide True False False LowAllowed
         else if risk_level = ''medium'' then decide True False False MediumAllowed
         else if risk_level = ''high'' then
           (if approval_mode = ''safe'' then decide False False True HighRejectedSafe
            else if approval_mode = ''operator'' then
              (if has_rollback then decide True True False HighRollbackPresent
               else decide False True True HighNoRollback)
            else if approval_mode = ''trusted'' then
              (if host \<in> set authorized_hosts then decide True False False (HighHostAuthorized host)
               else decide False False True (HighHostUnauthorized host))
            else decide False False True HighNeedsConfirmation)
         else if risk_level = ''critical'' then
           (if approval_token \<noteq> None \<and> approval_token \<noteq> Some []
            then decide True False False CriticalToken
            else decide False False True CriticalNeedsToken)
         else decide False False False UnknownRisk)"

section \<open>Secret files\<close>

definition SECRET_FILE_PATTERNS :: "rx list" where
  "SECRET_FILE_PATTERNS =
     [Seq (Lit ''.env'') (Alt AtEnd (Lit ''.'')),
      Lit ''.secret'',
      Lit ''credentials'',
      Lit ''service_account'',
      Lit ''id_rsa'',
      Lit ''id_ed25519'',
      Seq (Lit ''.pem'') AtEnd,
      Seq (Lit ''.key'') AtEnd]"

definition secret_base_name :: "string \<Rightarrow> string" where
  "secret_base_name path =
     (if CHR ''/'' \<in> set path then List.last (split_on (CHR ''/'') (py_lower path)) else py_lower path)"

definition is_secret_file :: "string \<Rightarrow> bool" where
  "is_secret_file path = list_ex (\<lambda>pat. re_test False pat (secret_base_name path)) SECRET_FILE_PATTERNS"

definition guard_secret_access :: "string \<Rightarrow> string \<Rightarrow> approval_decision" where
  "guard_secret_access path action =
     (if is_secret_file path then
        \<lparr>ap_allowed = False, ap_risk_level = ''critical'', ap_approval_mode = ''manual-critical'',
         ap_requires_rollback = False, ap_requires_confirmation = False,
         ap_reason = SecretFileBlocked (redact_secrets path),
         ap_action_id = action @ '':'' @ path, ap_trace_id = []\<rparr>
      else
        \<lparr>ap_allowed = True, ap_risk_level = ''low'', ap_approval_mode = ''safe'',
         ap_requires_rollback = False, ap_requires_confirmation = False, ap_reason = NotASecret,
         ap_action_id = action @ '':'' @ path, ap_trace_id = []\<rparr>)"

section \<open>The approval table\<close>

lemma risk_level_cases: "l \<in> set RISK_LEVELS \<longleftrightarrow> l = ''low'' \<or> l = ''medium'' \<or> l = ''high'' \<or> l = ''critical''"
  by (auto simp: RISK_LEVELS_def)

lemma approval_mode_cases:
  "m \<in> set APPROVAL_MODES \<longleftrightarrow> m = ''safe'' \<or> m = ''operator'' \<or> m = ''trusted'' \<or> m = ''manual-critical''"
  by (auto simp: APPROVAL_MODES_def)

lemmas approval_simps = check_approval_def risk_level_cases approval_mode_cases Let_def

text \<open>The approval table: an action is approved exactly when its level is low or medium; or high,
  in operator mode with a rollback or in trusted mode on an authorized host; or critical or not a
  level at all, with a non-empty token. A refused action always asks for a confirmation.\<close>

theorem approval_table:
  fixes act level mode rb host hosts token trace
  defines "d \<equiv> check_approval act level mode rb host hosts token trace"
  shows "(ap_allowed d \<longleftrightarrow>
      level = ''low'' \<or> level = ''medium'' \<or>
      level = ''high'' \<and> (mode = ''operator'' \<and> rb \<or> mode = ''trusted'' \<and> host \<in> set hosts) \<or>
      level \<notin> {''low'', ''medium'', ''high''} \<and> token \<notin> {None, Some []}) \<and>
    (ap_requires_confirmation d \<longleftrightarrow> \<not> ap_allowed d)"
  unfolding d_def by (auto simp: approval_simps)

text \<open>A token opens the critical level in every mode, but not the high level: with the same token
  safe and manual-critical mode refuse a high action and allow a critical one.\<close>

theorem token_opens_critical_not_high:
  "ap_allowed (check_approval act ''critical'' mode rb host hosts (Some (c # cs)) trace) \<and>
   \<not> ap_allowed (check_approval act ''high'' ''safe'' rb host hosts (Some (c # cs)) trace) \<and>
   \<not> ap_allowed (check_approval act ''high'' ''manual-critical'' rb host hosts (Some (c # cs)) trace)"
  by (auto simp: approval_simps)

section \<open>Classification\<close>

lemma any_in_mono: "set ws \<subseteq> set vs \<Longrightarrow> any_in ws s \<Longrightarrow> any_in vs s"
  by (auto simp: any_in_iff)

lemma any_in_contains: "any_in ws s \<Longrightarrow> contains t s \<Longrightarrow> any_in ws t"
  by (auto simp: any_in_iff intro: contains_trans)

fun level_rank :: "string \<Rightarrow> nat" where
  "level_rank l = (if l = ''low'' then 0 else if l = ''medium'' then 1 else if l = ''high'' then 2 else 3)"

lemma rank_classify:
  "level_rank (classify_action_risk a d) =
     (let s = py_lower (a @ '' '' @ d)
      in if any_in CRITICAL_PATTERNS s then 3 else if any_in HIGH_PATTERNS s then 2
         else if any_in MEDIUM_PATTERNS s then 1 else 0)"
  by (simp add: classify_action_risk_def Let_def)

lemma classification_rank_mono:
  assumes "contains (py_lower (a' @ '' '' @ d')) (py_lower (a @ '' '' @ d))"
  shows "level_rank (classify_action_risk a d) \<le> level_rank (classify_action_risk a' d')"
  unfolding rank_classify Let_def using any_in_contains [OF _ assms] by auto

text \<open>Saying more never lowers the level: an action whose id and description contain those of
  another, whatever the letters' case, has at least its level.\<close>

theorem classification_is_monotone:
  assumes "contains (py_lower (a' @ '' '' @ d')) (py_lower (a @ '' '' @ d))"
  shows "level_rank (classify_action_risk a d) \<le> level_rank (classify_action_risk a' d')"
  by (rule classification_rank_mono [OF assms])

theorem classification_is_monotone_witness:
  "level_rank (classify_action_risk ''fs'' ''Write notes'') \<le>
   level_rank (classify_action_risk ''fs'' ''write notes and push'')"
  by (rule classification_is_monotone) code_simp

text \<open>An action without a known word is low, and low is approved in every mode: a shell command
  given as its text (\<^verbatim>\<open>rm -rf /\<close>) passes the gate of the strictest mode.\<close>

theorem unknown_action_is_approved:
  "classify_action_risk ''rm -rf /'' ''wipe the disk'' = ''low'' \<and>
   ap_allowed (check_approval ''rm -rf /'' (classify_action_risk ''rm -rf /'' ''wipe the disk'')
     mode rb host hosts token trace)"
proof -
  have "classify_action_risk ''rm -rf /'' ''wipe the disk'' = ''low''" by code_simp
  then show ?thesis by (simp add: approval_simps)
qed

section \<open>Secret names\<close>

lemma rxm_Lit_exact: "rxm False (Lit w) b m a \<longleftrightarrow> m = w"
  by (auto simp: rxm_Lit starts_ic_False starts_length_eq)

lemma rxm_Lit_end: "rxm False (Seq (Lit w) AtEnd) b m a \<longleftrightarrow> m = w \<and> (a = [] \<or> a = [CHR 0x0A])"
  by (auto simp: rxm_Seq rxm_Lit_exact rxm_AtEnd)

lemma rxm_Lit_end_or_dot:
  "rxm False (Seq (Lit w) (Alt AtEnd (Lit ''.''))) b m a \<longleftrightarrow>
     rxm False (Seq (Lit w) AtEnd) b m a \<or> rxm False (Lit (w @ ''.'')) b m a"
  by (auto simp: rxm_Seq rxm_Alt rxm_Lit_exact rxm_AtEnd)

lemma re_test_Lit_end:
  "re_test False (Seq (Lit w) AtEnd) s \<longleftrightarrow> (\<exists>u. s = u @ w \<or> s = u @ w @ [CHR 0x0A])"
  unfolding re_test_iff rxm_Lit_end by fastforce

lemma re_test_Lit_end_or_dot:
  "re_test False (Seq (Lit w) (Alt AtEnd (Lit ''.''))) s \<longleftrightarrow>
     re_test False (Seq (Lit w) AtEnd) s \<or> contains s (w @ ''.'')"
  unfolding re_test_Lit [symmetric] re_test_iff rxm_Lit_end_or_dot by blast

text \<open>Which file names are secret: those whose last component, in lower case, contains
  \<^verbatim>\<open>.env.\<close>, \<^verbatim>\<open>.secret\<close>, \<^verbatim>\<open>credentials\<close>, \<^verbatim>\<open>service_account\<close>, \<^verbatim>\<open>id_rsa\<close> or
  \<^verbatim>\<open>id_ed25519\<close>, or ends (before an optional line feed) in \<^verbatim>\<open>.env\<close>, \<^verbatim>\<open>.pem\<close> or
  \<^verbatim>\<open>.key\<close>. What a directory is called does not matter.\<close>

theorem secret_file_names:
  "is_secret_file path \<longleftrightarrow>
     (let n = secret_base_name path
      in any_in [''.env.'', ''.secret'', ''credentials'', ''service_account'', ''id_rsa'', ''id_ed25519''] n \<or>
         (\<exists>u. \<exists>e \<in> {''.env'', ''.pem'', ''.key''}. n = u @ e \<or> n = u @ e @ [CHR 0x0A]))"
  by (auto simp: is_secret_file_def SECRET_FILE_PATTERNS_def re_test_Lit_end_or_dot re_test_Lit
      re_test_Lit_end any_in_def Let_def)

end
