(* ===== verification/Rollback.thy ===== *)
theory Rollback
  imports Redaction
begin

text \<open>
  \<^verbatim>\<open>igris/core/rollback_manager.py\<close>, the file backups: a backup copies a file beside the
  rollback records, a rollback copies it back. The state is the files of the project by normalised
  path (\<^verbatim>\<open>str(Path(p))\<close>) and the records in the order they were last written, each as
  \<^verbatim>\<open>to_dict\<close> stores it: with its paths and its command redacted. Directories are not files here and
  always exist; the record files themselves are the second field. New ids and times are arguments.
  The snapshots of diffs and of JSON states are not modelled.
\<close>

section \<open>Records and state\<close>

type_synonym file_tree = "(string, string) dict"

record rollback_entry =
  rbe_id :: string
  rbe_type :: string
  rbe_description :: string
  rbe_mission_id :: string
  rbe_action_id :: string
  rbe_trace_id :: string
  rbe_original_path :: string
  rbe_backup_path :: string
  rbe_rollback_command :: string
  rbe_applicable :: bool
  rbe_applied :: bool
  rbe_created_at :: string

record workspace =
  ws_files :: file_tree
  ws_entries :: "(string, rollback_entry) dict"

definition redact_entry :: "rollback_entry \<Rightarrow> rollback_entry" where
  "redact_entry e = e
     \<lparr>rbe_original_path := redact_secrets (rbe_original_path e),
      rbe_backup_path := redact_secrets (rbe_backup_path e),
      rbe_rollback_command := redact_secrets (rbe_rollback_command e)\<rparr>"

text \<open>A write makes the record the youngest of the directory.\<close>

definition save_entry :: "workspace \<Rightarrow> rollback_entry \<Rightarrow> workspace" where
  "save_entry ws e =
     ws\<lparr>ws_entries := ddel (ws_entries ws) (rbe_id e) @ [(rbe_id e, redact_entry e)]\<rparr>"

definition load_entry :: "workspace \<Rightarrow> string \<Rightarrow> rollback_entry option" where
  "load_entry ws entry_id = dget (ws_entries ws) entry_id"

section \<open>Operations\<close>

definition backup_dir :: "string \<Rightarrow> string" where
  "backup_dir project_root = path_str (project_root @ ''/.igris/rollback/backups'')"

definition backup_entry ::
    "string \<Rightarrow> string \<Rightarrow> string \<Rightarrow> string \<Rightarrow> string \<Rightarrow> string \<Rightarrow> string \<Rightarrow> string \<Rightarrow> string \<Rightarrow>
     rollback_entry"
where
  "backup_entry project_root hex_name hex_id gmt file_path mission_id action_id trace_id description =
     (let src = path_str file_path;
          backup_path =
            path_str (backup_dir project_root @ ''/'' @ hex_name @ ''_'' @ path_name file_path)
      in \<lparr>rbe_id = ''rb-'' @ hex_id, rbe_type = ''file_backup'',
          rbe_description =
            (if description \<noteq> [] then description else ''Backup of '' @ path_name file_path),
          rbe_mission_id = mission_id, rbe_action_id = action_id, rbe_trace_id = trace_id,
          rbe_original_path = src, rbe_backup_path = backup_path,
          rbe_rollback_command = ''cp '' @ backup_path @ '' '' @ src,
          rbe_applicable = True, rbe_applied = False, rbe_created_at = gmt\<rparr>)"

definition backup_file ::
    "string \<Rightarrow> string \<Rightarrow> string \<Rightarrow> string \<Rightarrow> workspace \<Rightarrow> string \<Rightarrow> string \<Rightarrow> string \<Rightarrow> string \<Rightarrow> string \<Rightarrow>
     workspace \<times> rollback_entry option"
where
  "backup_file project_root hex_name hex_id gmt ws file_path mission_id action_id trace_id description =
     (case dget (ws_files ws) (path_str file_path) of
        None \<Rightarrow> (ws, None)
      | Some content \<Rightarrow>
          let entry = backup_entry project_root hex_name hex_id gmt file_path mission_id action_id
                trace_id description;
              ws1 = ws\<lparr>ws_files := dset (ws_files ws) (rbe_backup_path entry) content\<rparr>
          in (save_entry ws1 entry, Some entry))"

definition backup_config ::
    "string \<Rightarrow> string \<Rightarrow> string \<Rightarrow> string \<Rightarrow> workspace \<Rightarrow> string \<Rightarrow> string \<Rightarrow> string \<Rightarrow> string \<Rightarrow>
     workspace \<times> rollback_entry option"
where
  "backup_config project_root hex_name hex_id gmt ws config_path mission_id action_id trace_id =
     backup_file project_root hex_name hex_id gmt ws config_path mission_id action_id trace_id
       (''Config backup: '' @ path_name config_path)"

definition apply_file_rollback :: "workspace \<Rightarrow> string \<Rightarrow> workspace \<times> bool" where
  "apply_file_rollback ws entry_id =
     (case load_entry ws entry_id of
        None \<Rightarrow> (ws, False)
      | Some entry \<Rightarrow>
          if rbe_type entry \<noteq> ''file_backup'' then (ws, False)
          else if \<not> rbe_applicable entry then (ws, False)
          else
            (case dget (ws_files ws) (path_str (rbe_backup_path entry)) of
               None \<Rightarrow> (save_entry ws (entry\<lparr>rbe_applicable := False\<rparr>), False)
             | Some content \<Rightarrow>
                 (save_entry
                    (ws\<lparr>ws_files := dset (ws_files ws) (path_str (rbe_original_path entry)) content\<rparr>)
                    (entry\<lparr>rbe_applied := True\<rparr>), True)))"

datatype rollback_check =
    EntryNotFound | AlreadyApplied | BackupMissing | RollbackReady | ManualRollback | Recorded bool

definition verify_rollback_applicable :: "workspace \<Rightarrow> string \<Rightarrow> rollback_check" where
  "verify_rollback_applicable ws entry_id =
     (case load_entry ws entry_id of
        None \<Rightarrow> EntryNotFound
      | Some entry \<Rightarrow>
          if rbe_applied entry then AlreadyApplied
          else if rbe_type entry = ''file_backup'' then
            (if dget (ws_files ws) (path_str (rbe_backup_path entry)) = None then BackupMissing
             else RollbackReady)
          else if rbe_type entry \<in> {''diff_snapshot'', ''state_snapshot''} then ManualRollback
          else Recorded (rbe_applicable entry))"

text \<open>The loop appends before it compares with the limit: at least one record is listed.\<close>

definition list_entries :: "workspace \<Rightarrow> string option \<Rightarrow> int \<Rightarrow> rollback_entry list" where
  "list_entries ws mission_id limit =
     take (nat (max 1 limit))
       (filter (\<lambda>e. str_or mission_id [] = [] \<or> rbe_mission_id e = str_or mission_id [])
         (map snd (rev (ws_entries ws))))"

definition get_entry :: "workspace \<Rightarrow> string \<Rightarrow> rollback_entry option" where
  "get_entry ws entry_id = map_option redact_entry (load_entry ws entry_id)"

definition has_rollback_for_action :: "workspace \<Rightarrow> string \<Rightarrow> bool" where
  "has_rollback_for_action ws action_id = list_ex (\<lambda>(i, e). rbe_action_id e = action_id) (ws_entries ws)"

section \<open>The store of records\<close>

definition entries_wf :: "workspace \<Rightarrow> bool" where
  "entries_wf ws \<longleftrightarrow> dwf (ws_entries ws) \<and> (\<forall>(i, e) \<in> set (ws_entries ws). rbe_id e = i)"

lemma dget_append: "dget (m @ n) k = (case dget m k of None \<Rightarrow> dget n k | Some v \<Rightarrow> Some v)"
  by (induction m) auto

lemma redact_entry_id [simp]: "rbe_id (redact_entry e) = rbe_id e"
  by (simp add: redact_entry_def)

lemma load_save_entry:
  assumes "dwf (ws_entries ws)"
  shows "load_entry (save_entry ws e) i = (if i = rbe_id e then Some (redact_entry e) else load_entry ws i)"
  using assms by (auto simp: load_entry_def save_entry_def dget_append dget_ddel split: option.splits)

lemma save_entry_files [simp]: "ws_files (save_entry ws e) = ws_files ws"
  by (simp add: save_entry_def)

lemma save_entry_wf: "entries_wf ws \<Longrightarrow> entries_wf (save_entry ws e)"
proof -
  assume wf: "entries_wf ws"
  then have d: "dwf (ddel (ws_entries ws) (rbe_id e))" by (simp add: entries_wf_def)
  have "rbe_id e \<notin> set (dkeys (ddel (ws_entries ws) (rbe_id e)))"
    using wf by (simp add: entries_wf_def dget_ddel flip: dget_None_iff)
  with d have "dwf (ddel (ws_entries ws) (rbe_id e) @ [(rbe_id e, redact_entry e)])"
    by (simp add: dwf_def dkeys_def)
  then show ?thesis
    using wf set_ddel_sub [of "ws_entries ws" "rbe_id e"] by (auto simp: entries_wf_def save_entry_def)
qed

section \<open>Backup and rollback\<close>

lemma backup_entry_simps [simp]:
  "rbe_id (backup_entry pr hn hi gmt p m a t d) = ''rb-'' @ hi"
  "rbe_type (backup_entry pr hn hi gmt p m a t d) = ''file_backup''"
  "rbe_applicable (backup_entry pr hn hi gmt p m a t d)"
  "\<not> rbe_applied (backup_entry pr hn hi gmt p m a t d)"
  "rbe_original_path (backup_entry pr hn hi gmt p m a t d) = path_str p"
  "path_str (rbe_backup_path (backup_entry pr hn hi gmt p m a t d)) =
     rbe_backup_path (backup_entry pr hn hi gmt p m a t d)"
  by (simp_all add: backup_entry_def Let_def)

lemma backup_file_shape:
  assumes "backup_file pr hn hi gmt ws p m a t d = (ws', r)"
  obtains (missing) "dget (ws_files ws) (path_str p) = None" "ws' = ws" "r = None"
  | (saved) c e where "dget (ws_files ws) (path_str p) = Some c" "r = Some e"
      "ws' = save_entry (ws\<lparr>ws_files := dset (ws_files ws) (rbe_backup_path e) c\<rparr>) e"
      "e = backup_entry pr hn hi gmt p m a t d"
  using assms by (cases "dget (ws_files ws) (path_str p)") (auto simp: backup_file_def Let_def)

lemma apply_file_rollback_shape:
  assumes "load_entry ws i = Some e" "rbe_type e = ''file_backup''" "rbe_applicable e"
    and "dget (ws_files ws) (path_str (rbe_backup_path e)) = Some c"
  shows "apply_file_rollback ws i =
    (save_entry (ws\<lparr>ws_files := dset (ws_files ws) (path_str (rbe_original_path e)) c\<rparr>)
       (e\<lparr>rbe_applied := True\<rparr>), True)"
  using assms by (simp add: apply_file_rollback_def)

text \<open>A backup can be restored: after a backup of a file whose paths hold nothing that redaction
  changes, and then any changes to the project that leave the backup copy and its record alone,
  the rollback succeeds, gives the file its old content and touches no other file.\<close>

theorem backup_restores:
  assumes "backup_file project_root hn hi gmt ws p m a t d = (ws1, Some e)"
    and "entries_wf ws"
    and "redact_secrets (rbe_original_path e) = rbe_original_path e"
    and "redact_secrets (rbe_backup_path e) = rbe_backup_path e"
    and "load_entry ws2 (rbe_id e) = load_entry ws1 (rbe_id e)"
    and "dget (ws_files ws2) (rbe_backup_path e) = dget (ws_files ws1) (rbe_backup_path e)"
  shows "\<exists>ws3. apply_file_rollback ws2 (rbe_id e) = (ws3, True) \<and>
    dget (ws_files ws3) (path_str p) = dget (ws_files ws) (path_str p) \<and>
    (\<forall>q. q \<noteq> path_str p \<longrightarrow> dget (ws_files ws3) q = dget (ws_files ws2) q)"
  using assms(1)
proof (cases rule: backup_file_shape)
  case (saved c e')
  then have e: "e' = e" by simp
  note s = saved(1,3) [unfolded e]
  have be: "e = backup_entry project_root hn hi gmt p m a t d" using saved(4) e by simp
  have wf: "dwf (ws_entries (ws\<lparr>ws_files := dset (ws_files ws) (rbe_backup_path e) c\<rparr>))"
    using assms(2) by (simp add: entries_wf_def)
  have "load_entry ws2 (rbe_id e) = Some (redact_entry e)"
    using assms(5) s(2) load_save_entry [OF wf] by simp
  moreover have "redact_entry e = e\<lparr>rbe_rollback_command := redact_secrets (rbe_rollback_command e)\<rparr>"
    using assms(3,4) by (simp add: redact_entry_def)
  moreover have "dget (ws_files ws2) (rbe_backup_path e) = Some c" using assms(6) s(2) by simp
  ultimately show ?thesis
    using s be by (subst apply_file_rollback_shape [of _ _ "redact_entry e" c]) auto
qed simp

definition notes_ws :: workspace where
  "notes_ws = \<lparr>ws_files = [(''notes.txt'', ''old''), (''other.txt'', ''x'')], ws_entries = []\<rparr>"

theorem backup_restores_witness:
  "\<exists>ws1 e ws3. backup_file ''.'' ''0a'' ''01'' ''now'' notes_ws ''./notes.txt'' [] [] [] [] = (ws1, Some e) \<and>
     apply_file_rollback (ws1\<lparr>ws_files := dset (ws_files ws1) ''notes.txt'' ''new''\<rparr>) (rbe_id e) = (ws3, True) \<and>
     dget (ws_files ws3) ''notes.txt'' = Some ''old''"
proof -
  let ?e = "backup_entry ''.'' ''0a'' ''01'' ''now'' ''./notes.txt'' [] [] [] []"
  let ?ws1 = "save_entry (notes_ws\<lparr>ws_files := dset (ws_files notes_ws) (rbe_backup_path ?e) ''old''\<rparr>) ?e"
  let ?ws2 = "?ws1\<lparr>ws_files := dset (ws_files ?ws1) ''notes.txt'' ''new''\<rparr>"
  have ps: "path_str ''./notes.txt'' = ''notes.txt''" "dget (ws_files notes_ws) ''notes.txt'' = Some ''old''"
    and bp: "rbe_backup_path ?e = ''.igris/rollback/backups/0a_notes.txt''"
    by code_simp+
  have b: "backup_file ''.'' ''0a'' ''01'' ''now'' notes_ws ''./notes.txt'' [] [] [] [] = (?ws1, Some ?e)"
    by (simp add: backup_file_def ps Let_def)
  have r: "redact_secrets ''notes.txt'' = ''notes.txt''"
    "redact_secrets ''.igris/rollback/backups/0a_notes.txt'' = ''.igris/rollback/backups/0a_notes.txt''"
    by code_simp+
  have "\<exists>ws3. apply_file_rollback ?ws2 (rbe_id ?e) = (ws3, True) \<and>
      dget (ws_files ws3) (path_str ''./notes.txt'') = dget (ws_files notes_ws) (path_str ''./notes.txt'') \<and>
      (\<forall>q. q \<noteq> path_str ''./notes.txt'' \<longrightarrow> dget (ws_files ws3) q = dget (ws_files ?ws2) q)"
    by (rule backup_restores [OF b])
      (use bp ps r in \<open>simp_all add: load_entry_def entries_wf_def notes_ws_def\<close>)
  then obtain ws3 where "apply_file_rollback ?ws2 (rbe_id ?e) = (ws3, True)"
    "dget (ws_files ws3) ''notes.txt'' = Some ''old''"
    unfolding ps by blast
  with b show ?thesis by blast
qed

text \<open>The record stores its paths redacted: when the path of a file looks like a secret
  (\<^verbatim>\<open>token=prod.cfg\<close>), the backup is made but its record points to no file, and the rollback of the
  untouched backup fails and marks the record as not applicable.\<close>

definition token_ws :: workspace where
  "token_ws = \<lparr>ws_files = [(''token=prod.cfg'', ''old'')], ws_entries = []\<rparr>"

theorem secret_like_path_cannot_be_restored:
  "let (ws1, r) = backup_file ''.'' ''0a'' ''01'' ''now'' token_ws ''token=prod.cfg'' [] [] [] [];
       (ws2, ok) = apply_file_rollback ws1 ''rb-01''
   in r \<noteq> None \<and> verify_rollback_applicable ws1 ''rb-01'' = BackupMissing \<and> \<not> ok \<and>
      map_option rbe_applicable (load_entry ws2 ''rb-01'') = Some False"
proof -
  let ?e = "backup_entry ''.'' ''0a'' ''01'' ''now'' ''token=prod.cfg'' [] [] [] []"
  let ?ws1 = "save_entry (token_ws\<lparr>ws_files := dset (ws_files token_ws) (rbe_backup_path ?e) ''old''\<rparr>) ?e"
  have ps: "path_str ''token=prod.cfg'' = ''token=prod.cfg''"
    "dget (ws_files token_ws) ''token=prod.cfg'' = Some ''old''"
    and bp: "rbe_backup_path ?e = ''.igris/rollback/backups/0a_token=prod.cfg''" by code_simp+
  have b: "backup_file ''.'' ''0a'' ''01'' ''now'' token_ws ''token=prod.cfg'' [] [] [] [] = (?ws1, Some ?e)"
    by (simp add: backup_file_def ps Let_def)
  have wf: "dwf (ws_entries (token_ws\<lparr>ws_files := f\<rparr>))" for f by (simp add: token_ws_def)
  have l: "load_entry ?ws1 ''rb-01'' = Some (redact_entry ?e)"
    using load_save_entry [OF wf, of _ ?e "''rb-01''"] by simp
  have stored: "path_str (rbe_backup_path (redact_entry ?e)) = ''.igris/rollback/backups/0a_token=<REDACTED>''"
    unfolding redact_entry_def by (simp add: bp) code_simp
  have missing: "dget (ws_files ?ws1) (path_str (rbe_backup_path (redact_entry ?e))) = None"
    by (simp add: stored bp) (simp add: token_ws_def)
  have kept: "rbe_type (redact_entry ?e) = ''file_backup''" "rbe_applicable (redact_entry ?e)"
    "\<not> rbe_applied (redact_entry ?e)"
    by (simp_all add: redact_entry_def)
  have "verify_rollback_applicable ?ws1 ''rb-01'' = BackupMissing"
    using missing by (simp add: verify_rollback_applicable_def l kept)
  moreover have "apply_file_rollback ?ws1 ''rb-01'' =
      (save_entry ?ws1 ((redact_entry ?e)\<lparr>rbe_applicable := False\<rparr>), False)"
    using missing by (simp add: apply_file_rollback_def l kept)
  moreover have "dwf (ws_entries ?ws1)"
    using save_entry_wf [of "token_ws\<lparr>ws_files := f\<rparr>" ?e for f] by (simp add: entries_wf_def token_ws_def save_entry_def)
  then have "load_entry (save_entry ?ws1 ((redact_entry ?e)\<lparr>rbe_applicable := False\<rparr>)) ''rb-01'' =
      Some (redact_entry ((redact_entry ?e)\<lparr>rbe_applicable := False\<rparr>))"
    by (subst load_save_entry) simp_all
  ultimately show ?thesis by (simp add: b Let_def) (simp add: redact_entry_def)
qed

text \<open>A rollback is applied as often as it is asked for: the check says already applied, the
  operation does not look.\<close>

theorem rollback_applies_again:
  assumes "entries_wf ws" "load_entry ws i = Some e" "rbe_type e = ''file_backup''" "rbe_applicable e"
    "rbe_applied e" "rbe_id e = i" "dget (ws_files ws) (path_str (rbe_backup_path e)) = Some c"
  shows "verify_rollback_applicable ws i = AlreadyApplied \<and> snd (apply_file_rollback ws i) \<and>
    dget (ws_files (fst (apply_file_rollback ws i))) (path_str (rbe_original_path e)) = Some c"
  using assms apply_file_rollback_shape [OF assms(2-4,7)]
  by (simp add: verify_rollback_applicable_def)

end
