(* ===== verification/SafePolicy.thy ===== *)
theory SafePolicy
  imports Window PyVal
begin

text \<open>
  \<^verbatim>\<open>igris/core/safe_policy.py\<close> with \<^verbatim>\<open>igris/layers/execution/safe_commands.py\<close>: the second
  check of a command id, after the allowlist. The module's state is its execution log. A check reads
  the clock once to decide, and an allowed one twice more to record: the three times are arguments.
  The interpreter's path (\<^verbatim>\<open>sys.executable\<close>) and the printed time are arguments too. A reason is
  its case and the data the sentence prints.
\<close>

section \<open>The allowlist\<close>

definition ALLOWED_COMMANDS :: "string \<Rightarrow> (string, string list) dict" where
  "ALLOWED_COMMANDS exe =
     [(''git_status'', [''git'', ''status'', ''--short'']),
      (''git_log'', [''git'', ''log'', ''--oneline'', ''-10'']),
      (''run_tests'', [exe, ''-m'', ''pytest'', ''-q'']),
      (''list_files'', [exe, ''-c'',
         ''import os; print('' @ [CHR 0x27, CHR 0x5C, CHR 0x6E, CHR 0x27] @
         ''.join(sorted(os.listdir('' @ [CHR 0x27, CHR 0x2E, CHR 0x27] @ ''))))'']),
      (''system_info'', [exe, ''-c'',
         ''from igris.core.system_info import get_system_info; import json; '' @
         ''print(json.dumps(get_system_info(), indent=2))''])]"

definition allowed_ids :: "string list" where
  "allowed_ids = [''git_status'', ''git_log'', ''run_tests'', ''list_files'', ''system_info'']"

lemma dkeys_allowed [simp]: "dkeys (ALLOWED_COMMANDS exe) = allowed_ids"
  by (simp add: ALLOWED_COMMANDS_def allowed_ids_def)

section \<open>Rate and burst limits\<close>

type_synonym execution_log = "(string \<times> pyfloat) list"

datatype policy_reason =
    NotInAllowlist | ExplicitlyBlocked | DestructiveKeyword string | RateExceeded nat
  | BurstExceeded nat | SuspiciousRoot | ChecksPassed

definition RATE_LIMIT_WINDOW :: pyfloat where "RATE_LIMIT_WINDOW = 60"
definition RATE_LIMIT_MAX :: nat where "RATE_LIMIT_MAX = 20"
definition BURST_LIMIT :: nat where "BURST_LIMIT = 5"

definition record_execution ::
    "pyfloat \<Rightarrow> pyfloat \<Rightarrow> execution_log \<Rightarrow> string \<Rightarrow> execution_log" where
  "record_execution stamp now lg command_id =
     (let cutoff = now - RATE_LIMIT_WINDOW * 2
      in filter (\<lambda>(c, t). t > cutoff) (lg @ [(command_id, stamp)]))"

definition recent_executions :: "pyfloat \<Rightarrow> execution_log \<Rightarrow> execution_log" where
  "recent_executions now lg = filter (\<lambda>(c, t). t > now - RATE_LIMIT_WINDOW) lg"

definition check_rate_limit :: "pyfloat \<Rightarrow> execution_log \<Rightarrow> string \<Rightarrow> policy_reason option" where
  "check_rate_limit now lg command_id =
     (let recent = recent_executions now lg;
          same_cmd = filter (\<lambda>(c, t). c = command_id) recent
      in if length recent \<ge> RATE_LIMIT_MAX then Some (RateExceeded (length recent))
         else if length same_cmd \<ge> BURST_LIMIT then Some (BurstExceeded (length same_cmd))
         else None)"

section \<open>The policy\<close>

definition BLOCKED_COMMAND_IDS :: "string list" where
  "BLOCKED_COMMAND_IDS =
     [''git_push'', ''git_force_push'', ''rm_rf'', ''delete_all'', ''shell_exec'', ''eval'', ''sudo'']"

definition DESTRUCTIVE_KEYWORDS :: "string list" where
  "DESTRUCTIVE_KEYWORDS =
     [''push'', ''force'', ''delete'', ''remove'', ''drop'', ''truncate'', ''reset --hard'', ''clean -fd'']"

record policy_decision =
  pd_allowed :: bool
  pd_command_id :: string
  pd_reason :: policy_reason
  pd_checks_passed :: "string list"
  pd_checks_failed :: "string list"
  pd_timestamp :: string

text \<open>\<^verbatim>\<open>".." in project_root\<close> for any truthy value: a substring, a member or a key; a number
  raises.\<close>

fun dots_in :: "pyval \<Rightarrow> py_error + bool" where
  "dots_in (PStr s) = Inr (contains s ''..'')"
| "dots_in (PList xs) = Inr (list_ex (\<lambda>x. py_eq x (PStr ''..'')) xs)"
| "dots_in (PDict m) = Inr (''..'' \<in> set (dkeys m))"
| "dots_in _ = Inl TypeError"

definition suspicious_context :: "(string, pyval) dict option \<Rightarrow> py_error + bool" where
  "suspicious_context context =
     (case context of
        None \<Rightarrow> Inr False
      | Some c \<Rightarrow>
          let project_root = dget_or c ''project_root'' (PStr [])
          in if c \<noteq> [] \<and> truthy project_root then dots_in project_root else Inr False)"

text \<open>\<^verbatim>\<open>check_command_policy\<close> in the source's order. The keywords are a \<^verbatim>\<open>frozenset\<close>: the one
  reported when several match is any; no allowed id contains one (\<open>allowed_ids_are_clean\<close>).\<close>

definition check_command_policy ::
    "string \<Rightarrow> string \<Rightarrow> pyfloat \<Rightarrow> pyfloat \<Rightarrow> pyfloat \<Rightarrow> execution_log \<Rightarrow> string \<Rightarrow>
     (string, pyval) dict option \<Rightarrow> execution_log \<times> (py_error + policy_decision)"
where
  "check_command_policy exe gmt now stamp later lg command_id context =
     (let decide = (\<lambda>ok reason passed failed.
            \<lparr>pd_allowed = ok, pd_command_id = command_id, pd_reason = reason,
             pd_checks_passed = passed, pd_checks_failed = failed, pd_timestamp = gmt\<rparr>)
      in if command_id \<notin> set (dkeys (ALLOWED_COMMANDS exe)) then
           (lg, Inr (decide False NotInAllowlist [] [''allowlist'']))
         else if command_id \<in> set BLOCKED_COMMAND_IDS then
           (lg, Inr (decide False ExplicitlyBlocked [''allowlist''] [''blocked_list'']))
         else case filter (\<lambda>kw. contains (py_lower command_id) kw) DESTRUCTIVE_KEYWORDS of
           kw # _ \<Rightarrow>
             (lg, Inr (decide False (DestructiveKeyword kw) [''allowlist'', ''blocked_list'']
                [''destructive_check'']))
         | [] \<Rightarrow>
           (case check_rate_limit now lg command_id of
              Some reason \<Rightarrow>
                (lg, Inr (decide False reason
                   [''allowlist'', ''blocked_list'', ''destructive_check''] [''rate_limit'']))
            | None \<Rightarrow>
                (case suspicious_context context of
                   Inl e \<Rightarrow> (lg, Inl e)
                 | Inr True \<Rightarrow>
                     (lg, Inr (decide False SuspiciousRoot
                        [''allowlist'', ''blocked_list'', ''destructive_check'', ''rate_limit'']
                        [''context_validation'']))
                 | Inr False \<Rightarrow>
                     (record_execution stamp later lg command_id,
                      Inr (decide True ChecksPassed
                        [''allowlist'', ''blocked_list'', ''destructive_check'', ''rate_limit'',
                         ''context_validation''] [])))))"

definition reset_rate_limits :: "execution_log \<Rightarrow> execution_log" where
  "reset_rate_limits lg = []"

record policy_status =
  ps_allowed_commands :: "string list"
  ps_blocked_commands :: "string list"
  ps_rate_limit_window :: pyfloat
  ps_rate_limit_max :: nat
  ps_burst_limit :: nat
  ps_recent_executions :: nat
  ps_remaining_capacity :: int

definition get_policy_status :: "string \<Rightarrow> pyfloat \<Rightarrow> execution_log \<Rightarrow> policy_status" where
  "get_policy_status exe now lg =
     (let recent = recent_executions now lg
      in \<lparr>ps_allowed_commands = sort (dkeys (ALLOWED_COMMANDS exe)),
          ps_blocked_commands = sort BLOCKED_COMMAND_IDS,
          ps_rate_limit_window = RATE_LIMIT_WINDOW, ps_rate_limit_max = RATE_LIMIT_MAX,
          ps_burst_limit = BURST_LIMIT, ps_recent_executions = length recent,
          ps_remaining_capacity = max 0 (int RATE_LIMIT_MAX - int (length recent))\<rparr>)"

section \<open>What a check decides\<close>

lemma allowed_ids_are_clean:
  assumes "c \<in> set allowed_ids"
  shows "c \<notin> set BLOCKED_COMMAND_IDS"
    and "filter (\<lambda>kw. contains (py_lower c) kw) DESTRUCTIVE_KEYWORDS = []"
proof -
  have "list_all (\<lambda>c. c \<notin> set BLOCKED_COMMAND_IDS \<and>
      filter (\<lambda>kw. contains (py_lower c) kw) DESTRUCTIVE_KEYWORDS = []) allowed_ids"
    by code_simp
  with assms show "c \<notin> set BLOCKED_COMMAND_IDS"
    "filter (\<lambda>kw. contains (py_lower c) kw) DESTRUCTIVE_KEYWORDS = []"
    by (auto simp: list_all_iff)
qed

definition granted :: "py_error + policy_decision \<Rightarrow> bool" where
  "granted r = (case r of Inl e \<Rightarrow> False | Inr d \<Rightarrow> pd_allowed d)"

lemma policy_cases:
  assumes "check_command_policy exe gmt now stamp later lg c context = (lg', r)"
  shows "granted r \<longleftrightarrow> c \<in> set allowed_ids \<and> check_rate_limit now lg c = None \<and>
      suspicious_context context = Inr False"
    and "lg' = (if granted r then record_execution stamp later lg c else lg)"
  using assms
  by (auto simp: check_command_policy_def granted_def allowed_ids_are_clean Let_def
      split: if_splits option.splits sum.splits bool.splits list.splits)

definition command_stamps :: "(string \<Rightarrow> bool) \<Rightarrow> execution_log \<Rightarrow> pyfloat list" where
  "command_stamps P lg = map snd (filter (\<lambda>(c, t). P c) lg)"

definition recent_stamps :: "pyfloat \<Rightarrow> (string \<Rightarrow> bool) \<Rightarrow> execution_log \<Rightarrow> pyfloat list" where
  "recent_stamps now P lg = filter (\<lambda>t. now - t < RATE_LIMIT_WINDOW) (command_stamps P lg)"

lemma stamps_append [simp]:
  "command_stamps P (lg @ [(c, t)]) = command_stamps P lg @ (if P c then [t] else [])"
  by (simp add: command_stamps_def)

lemma stamps_filter: "command_stamps P (filter (\<lambda>(c, t). Q t) lg) = filter Q (command_stamps P lg)"
  by (induction lg) (auto simp: command_stamps_def)

lemma recent_stamps_eq: "recent_stamps now P lg = command_stamps P (recent_executions now lg)"
proof -
  have "(\<lambda>(c :: string, t). now - RATE_LIMIT_WINDOW < t) = (\<lambda>(c, t). now - t < RATE_LIMIT_WINDOW)"
    by (auto simp: fun_eq_iff)
  then show ?thesis by (simp add: recent_stamps_def recent_executions_def stamps_filter)
qed

lemma check_rate_limit_None:
  "check_rate_limit now lg c = None \<longleftrightarrow>
     length (recent_stamps now (\<lambda>_. True) lg) < 20 \<and> length (recent_stamps now (\<lambda>d. d = c) lg) < 5"
proof -
  have "length (recent_stamps now (\<lambda>_. True) lg) = length (recent_executions now lg)"
    by (simp add: recent_stamps_eq command_stamps_def)
  moreover have "length (recent_stamps now (\<lambda>d. d = c) lg) =
      length (filter (\<lambda>(d, t). d = c) (recent_executions now lg))"
    by (simp add: recent_stamps_eq command_stamps_def)
  ultimately show ?thesis
    by (auto simp: check_rate_limit_def Let_def RATE_LIMIT_MAX_def BURST_LIMIT_def)
qed

lemma stamps_record:
  "command_stamps P (record_execution stamp now lg c) =
     filter (\<lambda>t. now - t < 120) (command_stamps P lg @ (if P c then [stamp] else []))"
proof -
  have "(\<lambda>(c :: string, t). now - RATE_LIMIT_WINDOW * 2 < t) = (\<lambda>(c, t). now - t < 120)"
    by (auto simp: fun_eq_iff RATE_LIMIT_WINDOW_def)
  then have "record_execution stamp now lg c = filter (\<lambda>(c, t). now - t < 120) (lg @ [(c, stamp)])"
    by (simp only: record_execution_def Let_def)
  then show ?thesis by (simp only: stamps_filter stamps_append)
qed

text \<open>When the safe command policy allows an id: exactly when it is one of the five allowed ids,
  fewer than 20 executions and fewer than 5 of the same id lie in the last 60 seconds, and the
  context has no suspicious root. The blocked list and the destructive keywords never decide. An
  execution is recorded exactly then.\<close>

theorem policy_allows_iff:
  "let (lg', r) = check_command_policy exe gmt now stamp later lg c context
   in (granted r \<longleftrightarrow> c \<in> set allowed_ids \<and>
         length (recent_stamps now (\<lambda>_. True) lg) < 20 \<and>
         length (recent_stamps now (\<lambda>d. d = c) lg) < 5 \<and>
         suspicious_context context = Inr False) \<and>
      lg' = (if granted r then record_execution stamp later lg c else lg)"
proof -
  obtain lg' r where ch: "check_command_policy exe gmt now stamp later lg c context = (lg', r)"
    by (cases "check_command_policy exe gmt now stamp later lg c context")
  from policy_cases [OF ch] ch show ?thesis by (simp add: check_rate_limit_None)
qed

section \<open>Limits over a run\<close>

record policy_request =
  pr_command :: string
  pr_context :: "(string, pyval) dict option"
  pr_now :: pyfloat
  pr_stamp :: pyfloat
  pr_later :: pyfloat

fun policy_grants :: "string \<Rightarrow> string \<Rightarrow> execution_log \<Rightarrow> policy_request list \<Rightarrow> execution_log" where
  "policy_grants exe gmt lg [] = []"
| "policy_grants exe gmt lg (q # qs) =
     (case check_command_policy exe gmt (pr_now q) (pr_stamp q) (pr_later q) lg (pr_command q)
             (pr_context q) of
        (lg', r) \<Rightarrow>
          (if granted r then [(pr_command q, pr_stamp q)] else []) @ policy_grants exe gmt lg' qs)"

fun policy_clock :: "pyfloat \<Rightarrow> policy_request list \<Rightarrow> bool" where
  "policy_clock now [] = True"
| "policy_clock now (q # qs) =
     (now \<le> pr_now q \<and> pr_now q \<le> pr_stamp q \<and> pr_stamp q \<le> pr_later q \<and> policy_clock (pr_later q) qs)"

lemma record_tracks:
  assumes "tracks 60 now past (command_stamps P lg)"
    and "now \<le> t1" "t1 \<le> t2" "t2 \<le> t3"
  shows "tracks 60 t3 (past @ (if P c then [t2] else [])) (command_stamps P (record_execution t2 t3 lg c))"
proof -
  have "tracks 60 t2 past (command_stamps P lg)"
    by (rule tracks_wait [OF assms(1)]) (use assms in linarith)
  then have "tracks 60 t2 (past @ (if P c then [t2] else []))
      (command_stamps P lg @ (if P c then [t2] else []))"
    using tracks_grant [of 60 t2 past] by simp
  from tracks_prune [OF this assms(4), of 120] show ?thesis by (simp add: stamps_record)
qed

lemma grants_keep_spacing:
  assumes "tracks 60 now past (command_stamps P lg)" "spaced 60 n past" "policy_clock now qs"
    and limit: "\<And>now' lg' c. P c \<Longrightarrow> check_rate_limit now' lg' c = None \<Longrightarrow>
      length (recent_stamps now' P lg') < n"
  shows "spaced 60 n (past @ command_stamps P (policy_grants exe gmt lg qs))"
  using assms(1-3)
proof (induction qs arbitrary: now past lg)
  case (Cons q qs)
  let ?c = "pr_command q"
  obtain lg' r where ch: "check_command_policy exe gmt (pr_now q) (pr_stamp q) (pr_later q) lg ?c
      (pr_context q) = (lg', r)"
    by fastforce
  note pc = policy_cases [OF ch]
  have le: "now \<le> pr_now q" "pr_now q \<le> pr_stamp q" "pr_stamp q \<le> pr_later q"
    and clock: "policy_clock (pr_later q) qs" using Cons.prems(3) by auto
  let ?past = "past @ (if granted r \<and> P ?c then [pr_stamp q] else [])"
  have tr: "tracks 60 (pr_later q) ?past (command_stamps P lg')"
  proof (cases "granted r")
    case True
    with pc(2) record_tracks [OF Cons.prems(1) le] show ?thesis by simp
  next
    case False
    with pc(2) tracks_wait [OF Cons.prems(1), of "pr_later q"] le show ?thesis by simp
  qed
  have sp: "spaced 60 n ?past"
  proof (cases "granted r \<and> P ?c")
    case True
    then have few: "length (recent_stamps (pr_now q) P lg) < n" using pc(1) limit by blast
    have t1: "tracks 60 (pr_now q) past (recent_stamps (pr_now q) P lg)"
      using tracks_later [OF Cons.prems(1) le(1)] by (simp add: recent_stamps_def RATE_LIMIT_WINDOW_def)
    from spaced_grant [OF Cons.prems(2) tracks_wait [OF t1 le(2)] few] True show ?thesis by simp
  next
    case False
    with Cons.prems(2) show ?thesis by auto
  qed
  have "command_stamps P (policy_grants exe gmt lg (q # qs)) =
      (if granted r \<and> P ?c then [pr_stamp q] else []) @ command_stamps P (policy_grants exe gmt lg' qs)"
    using ch by (auto simp: command_stamps_def)
  with Cons.IH [OF tr sp clock] show ?case by (simp add: append_assoc)
qed (simp add: command_stamps_def)

text \<open>The safe command policy keeps its two limits over any run under a clock that does not go
  back, although it forgets what is older than two windows: the 21st of any consecutive allowed
  executions is at least 60 seconds after the first, and so is the 6th of the same command id.\<close>

theorem policy_rate_limits_hold:
  assumes "policy_clock t0 qs" and "gs = policy_grants exe gmt [] qs"
  shows "spaced 60 20 (map snd gs) \<and> spaced 60 5 (map snd (filter (\<lambda>(d, t). d = c) gs))"
proof
  have start: "tracks 60 t0 [] (command_stamps P [])" "spaced 60 n []" for P n
    by (simp_all add: command_stamps_def spaced_def)
  have "spaced 60 20 ([] @ command_stamps (\<lambda>_. True) gs)"
    unfolding assms(2)
    by (rule grants_keep_spacing [OF start assms(1)]) (simp add: check_rate_limit_None)
  then show "spaced 60 20 (map snd gs)" by (simp add: command_stamps_def)
  have "spaced 60 5 ([] @ command_stamps (\<lambda>d. d = c) gs)"
    unfolding assms(2)
    by (rule grants_keep_spacing [OF start assms(1)]) (simp add: check_rate_limit_None)
  then show "spaced 60 5 (map snd (filter (\<lambda>(d, t). d = c) gs))" by (simp add: command_stamps_def)
qed

definition burst_request :: "string \<Rightarrow> pyfloat \<Rightarrow> policy_request" where
  "burst_request c t = \<lparr>pr_command = c, pr_context = None, pr_now = t, pr_stamp = t, pr_later = t\<rparr>"

theorem policy_rate_limits_hold_witness:
  "let qs = map (burst_request ''git_log'') [0, 1, 2, 3, 4, 5, 61];
       gs = policy_grants ''python'' '''' [] qs
   in map snd gs = [0, 1, 2, 3, 4, 61] \<and> spaced 60 20 (map snd gs)"
proof -
  have "map snd (policy_grants ''python'' '''' []
      (map (burst_request ''git_log'') [0, 1, 2, 3, 4, 5, 61])) = [0, 1, 2, 3, 4, 61]"
    by code_simp
  moreover have "policy_clock 0 (map (burst_request ''git_log'') [0, 1, 2, 3, 4, 5, 61])"
    by (simp add: burst_request_def)
  from policy_rate_limits_hold [OF this refl]
  have "spaced 60 20 (map snd (policy_grants ''python'' '''' []
      (map (burst_request ''git_log'') [0, 1, 2, 3, 4, 5, 61])))" by blast
  ultimately show ?thesis by (simp add: Let_def)
qed

end
