(* ===== verification/ToolRuntime.thy ===== *)
theory ToolRuntime
  imports Approval Rollback SafePolicy
begin

text \<open>
  \<^verbatim>\<open>igris/core/tool_runtime.py\<close> with the path guard and the truncation of
  \<^verbatim>\<open>igris/core/safety.py\<close>: the governed tools. What the operating system answers (the resolved
  parts of a path, whether it is a link, whether a write succeeds and what a failed one leaves, what a child process returns and
  does to the files, the environment variables) is the record \<open>tool_os\<close>. The state is the runtime's
  fields, the files with the rollback records, and the child processes started so far, each with its
  arguments, directory and environment. The HTTP check and the diff preview are not modelled.
\<close>

section \<open>The operating system\<close>

datatype child_outcome = Exited int string string int | TimedOut | NotFound | OsFailed string

type_synonym environment = "(string, string) dict"

record tool_os =
  tv_resolve :: "string \<Rightarrow> string list option"
  tv_is_symlink :: "string \<Rightarrow> bool"
  tv_write_ok :: "string \<Rightarrow> bool"
  tv_write_left :: "string \<Rightarrow> nat option"
  tv_environ :: environment
  tv_child :: "string list \<Rightarrow> string \<Rightarrow> environment \<Rightarrow> file_tree \<Rightarrow> file_tree \<times> child_outcome"

text \<open>\<^verbatim>\<open>write_text\<close> empties the file before it writes: a failed write leaves the beginning that was stored, or,
  where the file could not even be opened, everything as it was.\<close>

definition failed_write :: "tool_os \<Rightarrow> string \<Rightarrow> string \<Rightarrow> file_tree \<Rightarrow> file_tree" where
  "failed_write os path content files =
     (case tv_write_left os path of None \<Rightarrow> files | Some n \<Rightarrow> dset files path (take n content))"

definition truncate_output :: "string \<Rightarrow> int \<Rightarrow> string" where
  "truncate_output text max_chars =
     (if int (length text) \<le> max_chars then text
      else slice_to max_chars text @ [CHR 0x0A] @ ''... [truncated]'')"

definition inside :: "string list \<Rightarrow> string list \<Rightarrow> bool" where
  "inside r p \<longleftrightarrow> take (length r) p = r"

definition check_path_access :: "tool_os \<Rightarrow> string \<Rightarrow> string \<Rightarrow> bool" where
  "check_path_access os path base =
     (case (tv_resolve os path, tv_resolve os base) of
        (Some p, Some r) \<Rightarrow> if tv_is_symlink os path \<and> \<not> inside r p then False else inside r p
      | _ \<Rightarrow> False)"

section \<open>State and results\<close>

record ssh_host =
  sh_hostname :: string
  sh_alias :: string
  sh_allowed_paths :: "string list"
  sh_allowed_services :: "string list"
  sh_requires_backup :: bool
  sh_policy :: string

type_synonym child_run = "string list \<times> string \<times> environment"

record tool_runtime =
  tl_project_root :: string
  tl_approval_mode :: string
  tl_authorized_hosts :: "string list"
  tl_host_registry :: "(string, ssh_host) dict"
  tl_mission_allowlist :: "(string, string list) dict"
  tl_space :: workspace
  tl_ran :: "child_run list"

datatype tool_error = NoError | Refused approval_reason | Message string | OsError

record tool_result =
  tx_tool :: string
  tx_action :: string
  tx_success :: bool
  tx_output :: string
  tx_error :: tool_error
  tx_risk_level :: string
  tx_returncode :: int
  tx_duration_ms :: int
  tx_mission_id :: string
  tx_action_id :: string
  tx_trace_id :: string
  tx_rollback_id :: string

definition tool_result_of :: "string \<Rightarrow> string \<Rightarrow> tool_result" where
  "tool_result_of tool action =
     \<lparr>tx_tool = tool, tx_action = action, tx_success = False, tx_output = [], tx_error = NoError,
      tx_risk_level = ''low'', tx_returncode = 0, tx_duration_ms = 0, tx_mission_id = [],
      tx_action_id = [], tx_trace_id = [], tx_rollback_id = []\<rparr>"

definition tool_result_to_dict :: "tool_result \<Rightarrow> tool_result" where
  "tool_result_to_dict r = r
     \<lparr>tx_output := redact_secrets (tx_output r),
      tx_error := (case tx_error r of Message s \<Rightarrow> Message (redact_secrets s) | e \<Rightarrow> e)\<rparr>"

definition register_host :: "tool_runtime \<Rightarrow> ssh_host \<Rightarrow> tool_runtime" where
  "register_host t h = t\<lparr>tl_host_registry := dset (tl_host_registry t) (sh_hostname h) h\<rparr>"

definition get_host :: "tool_runtime \<Rightarrow> string \<Rightarrow> ssh_host option" where
  "get_host t hostname = dget (tl_host_registry t) hostname"

definition list_hosts :: "tool_runtime \<Rightarrow> ssh_host list" where
  "list_hosts t =
     map (\<lambda>(k, h). if sh_alias h = [] then h\<lparr>sh_alias := sh_hostname h\<rparr> else h) (tl_host_registry t)"

definition set_mission_allowlist :: "tool_runtime \<Rightarrow> string \<Rightarrow> string list \<Rightarrow> tool_runtime" where
  "set_mission_allowlist t mission_id commands =
     t\<lparr>tl_mission_allowlist := dset (tl_mission_allowlist t) mission_id commands\<rparr>"

section \<open>Child processes\<close>

record proc_result =
  pc_returncode :: int
  pc_stdout :: string
  pc_stderr :: string
  pc_duration_ms :: int

definition secret_env_name :: "string \<Rightarrow> bool" where
  "secret_env_name k = any_in [''KEY'', ''TOKEN'', ''SECRET'', ''PASSWORD''] (py_upper k)"

definition redact_env :: "environment \<Rightarrow> environment" where
  "redact_env env = map (\<lambda>(k, v). (k, if secret_env_name k then ''***REDACTED***'' else v)) env"

definition run_subprocess ::
    "tool_os \<Rightarrow> tool_runtime \<Rightarrow> string list \<Rightarrow> string option \<Rightarrow> int \<Rightarrow> environment \<Rightarrow>
     tool_runtime \<times> proc_result"
where
  "run_subprocess os t cmd cwd timeout env_override =
     (let work_dir = str_or cwd (path_str (tl_project_root t));
          env = redact_env (dupdate (tv_environ os) env_override);
          (files', outcome) = tv_child os cmd work_dir env (ws_files (tl_space t));
          t' = t\<lparr>tl_space := (tl_space t)\<lparr>ws_files := files'\<rparr>,
                 tl_ran := tl_ran t @ [(cmd, work_dir, env)]\<rparr>
      in (t',
          case outcome of
            Exited rc out err ms \<Rightarrow>
              \<lparr>pc_returncode = rc, pc_stdout = truncate_output out 10000,
               pc_stderr = truncate_output err 10000, pc_duration_ms = ms\<rparr>
          | TimedOut \<Rightarrow>
              \<lparr>pc_returncode = 124, pc_stdout = [], pc_stderr = ''Command timed out'',
               pc_duration_ms = timeout * 1000\<rparr>
          | NotFound \<Rightarrow>
              \<lparr>pc_returncode = 127, pc_stdout = [], pc_stderr = ''Command not found: '' @ hd cmd,
               pc_duration_ms = 0\<rparr>
          | OsFailed msg \<Rightarrow>
              \<lparr>pc_returncode = 1, pc_stdout = [], pc_stderr = msg, pc_duration_ms = 0\<rparr>))"

definition make_result ::
    "string \<Rightarrow> string \<Rightarrow> proc_result \<Rightarrow> string \<Rightarrow> string \<Rightarrow> string \<Rightarrow> tool_result" where
  "make_result tool action p mission_id trace_id risk_level =
     (tool_result_of tool action)
       \<lparr>tx_success := pc_returncode p = 0, tx_output := pc_stdout p,
        tx_error := Message (pc_stderr p), tx_risk_level := risk_level,
        tx_returncode := pc_returncode p, tx_duration_ms := pc_duration_ms p,
        tx_mission_id := mission_id, tx_trace_id := trace_id\<rparr>"

definition run_tool ::
    "tool_os \<Rightarrow> tool_runtime \<Rightarrow> string \<Rightarrow> string \<Rightarrow> string list \<Rightarrow> int \<Rightarrow> string \<Rightarrow> string \<Rightarrow> string \<Rightarrow>
     tool_runtime \<times> tool_result"
where
  "run_tool os t tool action cmd timeout mission_id trace_id risk_level =
     (case run_subprocess os t cmd None timeout [] of
        (t', p) \<Rightarrow> (t', make_result tool action p mission_id trace_id risk_level))"

text \<open>No caller passes a token: a high action is decided by the mode alone, a critical one refused.\<close>

definition check_risk ::
    "tool_runtime \<Rightarrow> string \<Rightarrow> string \<Rightarrow> bool \<Rightarrow> string \<Rightarrow> string \<Rightarrow> tool_result option" where
  "check_risk t action_id desc has_rollback host trace_id =
     (let risk = classify_action_risk action_id desc;
          decision = check_approval action_id risk (tl_approval_mode t) has_rollback host
            (tl_authorized_hosts t) None trace_id
      in if \<not> ap_allowed decision then
           Some ((tool_result_of ''risk_gate'' action_id)
             \<lparr>tx_error := Refused (ap_reason decision), tx_risk_level := risk, tx_trace_id := trace_id\<rparr>)
         else None)"

definition gated_tool ::
    "tool_os \<Rightarrow> tool_runtime \<Rightarrow> string \<Rightarrow> string \<Rightarrow> string \<Rightarrow> string \<Rightarrow> string list \<Rightarrow> int \<Rightarrow> string \<Rightarrow> string \<Rightarrow>
     tool_runtime \<times> tool_result"
where
  "gated_tool os t tool action risk_id desc cmd timeout mission_id trace_id =
     (case check_risk t risk_id desc False [] trace_id of
        Some blocked \<Rightarrow> (t, blocked\<lparr>tx_tool := tool, tx_mission_id := mission_id\<rparr>)
      | None \<Rightarrow> run_tool os t tool action cmd timeout mission_id trace_id ''high'')"

section \<open>Shell and files\<close>

definition allowed_shell ::
    "string \<Rightarrow> tool_runtime \<Rightarrow> string \<Rightarrow> (string, string list) dict" where
  "allowed_shell exe t mission_id =
     (if mission_id \<noteq> [] then
        foldl (\<lambda>allowed cmd_id. if cmd_id \<notin> set (dkeys allowed) then dset allowed cmd_id [cmd_id] else allowed)
          (ALLOWED_COMMANDS exe) (dget_or (tl_mission_allowlist t) mission_id [])
      else ALLOWED_COMMANDS exe)"

definition shell_execute ::
    "tool_os \<Rightarrow> string \<Rightarrow> tool_runtime \<Rightarrow> string \<Rightarrow> string list \<Rightarrow> string option \<Rightarrow> int \<Rightarrow> string \<Rightarrow> string \<Rightarrow>
     tool_runtime \<times> tool_result"
where
  "shell_execute os exe t command_id args cwd timeout mission_id trace_id =
     (case dget (allowed_shell exe t mission_id) command_id of
        None \<Rightarrow>
          (t, (tool_result_of ''shell'' command_id)
             \<lparr>tx_error := Message (''Command not allowed: '' @ command_id), tx_returncode := 126,
              tx_trace_id := trace_id, tx_mission_id := mission_id\<rparr>)
      | Some argv \<Rightarrow>
          (case check_risk t command_id [] False [] trace_id of
             Some blocked \<Rightarrow> (t, blocked\<lparr>tx_tool := ''shell'', tx_mission_id := mission_id\<rparr>)
           | None \<Rightarrow>
               (case run_subprocess os t (argv @ args) cwd timeout [] of
                  (t', p) \<Rightarrow> (t', make_result ''shell'' command_id p mission_id trace_id ''low''))))"

definition fs_read ::
    "tool_os \<Rightarrow> tool_runtime \<Rightarrow> string \<Rightarrow> int \<Rightarrow> string \<Rightarrow> string \<Rightarrow> tool_result" where
  "fs_read os t path max_chars mission_id trace_id =
     (let blank = (tool_result_of ''filesystem'' ''read'')
            \<lparr>tx_trace_id := trace_id, tx_mission_id := mission_id\<rparr>;
          sg = guard_secret_access path ''read''
      in if \<not> ap_allowed sg then blank\<lparr>tx_error := Refused (ap_reason sg), tx_risk_level := ''critical''\<rparr>
         else if \<not> check_path_access os (path_str path) (tl_project_root t) then
           blank\<lparr>tx_error := Message (''Path outside project root: '' @ path), tx_risk_level := ''medium''\<rparr>
         else case dget (ws_files (tl_space t)) (path_str path) of
           None \<Rightarrow> blank\<lparr>tx_error := OsError\<rparr>
         | Some content \<Rightarrow>
             blank\<lparr>tx_success := True, tx_output := truncate_output content max_chars\<rparr>)"

text \<open>\<open>hex_name\<close>, \<open>hex_id\<close> and \<open>gmt\<close> are what a backup draws.\<close>

definition fs_write ::
    "tool_os \<Rightarrow> tool_runtime \<Rightarrow> string \<Rightarrow> string \<Rightarrow> bool \<Rightarrow> string \<Rightarrow> string \<Rightarrow> string \<Rightarrow> string \<Rightarrow> string \<Rightarrow>
     tool_runtime \<times> tool_result"
where
  "fs_write os t path content backup hex_name hex_id gmt mission_id trace_id =
     (let blank = (tool_result_of ''filesystem'' ''write'')
            \<lparr>tx_trace_id := trace_id, tx_mission_id := mission_id\<rparr>
      in if is_secret_file path then
           (t, blank\<lparr>tx_error := Message (''Cannot write to secret file: '' @ redact_secrets path),
                tx_risk_level := ''critical''\<rparr>)
         else if \<not> check_path_access os (path_str path) (tl_project_root t) then
           (t, blank\<lparr>tx_error := Message (''Path outside project root: '' @ path),
                tx_risk_level := ''medium''\<rparr>)
         else if detect_secret_like_content content then
           (t, blank\<lparr>tx_error := Message ''Content contains secret-like patterns'',
                tx_risk_level := ''critical''\<rparr>)
         else
           let (space, rollback_id) =
                 (if backup \<and> dget (ws_files (tl_space t)) (path_str path) \<noteq> None then
                    case backup_file (path_str (tl_project_root t)) hex_name hex_id gmt (tl_space t)
                           (path_str path) mission_id [] trace_id [] of
                      (ws, r) \<Rightarrow> (ws, case r of None \<Rightarrow> [] | Some e \<Rightarrow> rbe_id e)
                  else (tl_space t, []))
           in if tv_write_ok os (path_str path) then
                (t\<lparr>tl_space := space\<lparr>ws_files := dset (ws_files space) (path_str path) content\<rparr>\<rparr>,
                 blank\<lparr>tx_success := True,
                   tx_output := ''Written '' @ nat_str (length content) @ '' chars to '' @ path,
                   tx_risk_level := ''medium'', tx_rollback_id := rollback_id\<rparr>)
              else (t\<lparr>tl_space := space\<lparr>ws_files := failed_write os (path_str path) content (ws_files space)\<rparr>\<rparr>,
                 blank\<lparr>tx_error := OsError\<rparr>))"

section \<open>Git, docker, nginx, systemd and tests\<close>

definition git_status :: "tool_os \<Rightarrow> tool_runtime \<Rightarrow> string \<Rightarrow> string \<Rightarrow> tool_runtime \<times> tool_result" where
  "git_status os t m tr = run_tool os t ''git'' ''status'' [''git'', ''status'', ''--short''] 10 m tr ''low''"

definition git_diff :: "tool_os \<Rightarrow> tool_runtime \<Rightarrow> bool \<Rightarrow> string \<Rightarrow> string \<Rightarrow> tool_runtime \<times> tool_result" where
  "git_diff os t staged m tr =
     run_tool os t ''git'' ''diff''
       ([''git'', ''diff'', ''--stat''] @ (if staged then [''--cached''] else [])) 10 m tr ''low''"

definition git_log :: "tool_os \<Rightarrow> tool_runtime \<Rightarrow> int \<Rightarrow> string \<Rightarrow> string \<Rightarrow> tool_runtime \<times> tool_result" where
  "git_log os t count m tr =
     run_tool os t ''git'' ''log'' [''git'', ''log'', ''--oneline'', ''-'' @ int_str count] 10 m tr ''low''"

definition git_branch :: "tool_os \<Rightarrow> tool_runtime \<Rightarrow> string \<Rightarrow> string \<Rightarrow> tool_runtime \<times> tool_result" where
  "git_branch os t m tr = run_tool os t ''git'' ''branch'' [''git'', ''branch'', ''-a''] 10 m tr ''low''"

fun stage_files :: "tool_os \<Rightarrow> tool_runtime \<Rightarrow> string list \<Rightarrow> tool_runtime" where
  "stage_files os t [] = t"
| "stage_files os t (f # fs) =
     stage_files os (fst (run_subprocess os t [''git'', ''add'', f] None 5 [])) fs"

definition git_commit ::
    "tool_os \<Rightarrow> tool_runtime \<Rightarrow> string \<Rightarrow> string list \<Rightarrow> string option \<Rightarrow> string \<Rightarrow> string \<Rightarrow>
     tool_runtime \<times> tool_result"
where
  "git_commit os t msg fs approval_token m tr =
     (let blank = (tool_result_of ''git'' ''commit'')\<lparr>tx_trace_id := tr, tx_mission_id := m\<rparr>
      in if detect_secret_like_content msg then
           (t, blank\<lparr>tx_error := Message ''Commit message contains secret-like content'',
                tx_risk_level := ''medium''\<rparr>)
         else case filter is_secret_file fs of
           f # _ \<Rightarrow>
             (t, blank\<lparr>tx_error := Message (''Cannot commit secret file: '' @ f),
                  tx_risk_level := ''critical''\<rparr>)
         | [] \<Rightarrow>
             run_tool os (stage_files os t fs) ''git'' ''commit'' [''git'', ''commit'', ''-m'', msg] 30 m tr
               ''medium'')"

definition git_push ::
    "tool_os \<Rightarrow> tool_runtime \<Rightarrow> string \<Rightarrow> string option \<Rightarrow> string \<Rightarrow> string \<Rightarrow> tool_runtime \<times> tool_result"
where
  "git_push os t branch approval_token m tr =
     (let blank = (tool_result_of ''git'' ''push'')\<lparr>tx_trace_id := tr, tx_mission_id := m\<rparr>
      in if approval_token = None \<or> approval_token = Some [] then
           (t, blank\<lparr>tx_error := Message ''Push requires approval token: I_APPROVE_GITHUB_WRITE'',
                tx_risk_level := ''high''\<rparr>)
         else if branch \<in> {''main'', ''master''} then
           (t, blank\<lparr>tx_error := Message ''Push to main/master is forbidden'',
                tx_risk_level := ''critical''\<rparr>)
         else
           run_tool os t ''git'' ''push'' ([''git'', ''push'', ''origin''] @ (if branch \<noteq> [] then [branch] else []))
             60 m tr ''high'')"

definition docker_ps :: "tool_os \<Rightarrow> tool_runtime \<Rightarrow> string \<Rightarrow> string \<Rightarrow> tool_runtime \<times> tool_result" where
  "docker_ps os t m tr =
     run_tool os t ''docker'' ''ps''
       [''docker'', ''ps'', ''--format'', ''table {{.Names}}'' @ [CHR 0x09] @ ''{{.Status}}'' @ [CHR 0x09] @
        ''{{.Ports}}''] 10 m tr ''low''"

definition docker_logs ::
    "tool_os \<Rightarrow> tool_runtime \<Rightarrow> string \<Rightarrow> int \<Rightarrow> string \<Rightarrow> string \<Rightarrow> tool_runtime \<times> tool_result" where
  "docker_logs os t container n m tr =
     run_tool os t ''docker'' ''logs'' [''docker'', ''logs'', ''--tail'', int_str n, container] 15 m tr ''low''"

definition docker_compose_config ::
    "tool_os \<Rightarrow> tool_runtime \<Rightarrow> string \<Rightarrow> string \<Rightarrow> tool_runtime \<times> tool_result" where
  "docker_compose_config os t m tr =
     run_tool os t ''docker'' ''compose_config'' [''docker'', ''compose'', ''config''] 10 m tr ''low''"

text \<open>The gated tools take an approval token and never look at it.\<close>

definition docker_compose_up ::
    "tool_os \<Rightarrow> tool_runtime \<Rightarrow> string \<Rightarrow> string option \<Rightarrow> string \<Rightarrow> string \<Rightarrow> tool_runtime \<times> tool_result"
where
  "docker_compose_up os t service approval_token m tr =
     gated_tool os t ''docker'' ''compose_up'' ''docker_compose_up'' ''start containers''
       ([''docker'', ''compose'', ''up'', ''-d''] @ (if service \<noteq> [] then [service] else [])) 120 m tr"

definition docker_compose_down ::
    "tool_os \<Rightarrow> tool_runtime \<Rightarrow> string option \<Rightarrow> string \<Rightarrow> string \<Rightarrow> tool_runtime \<times> tool_result" where
  "docker_compose_down os t approval_token m tr =
     gated_tool os t ''docker'' ''compose_down'' ''docker_compose_down'' ''stop containers''
       [''docker'', ''compose'', ''down''] 60 m tr"

definition docker_health :: "tool_os \<Rightarrow> tool_runtime \<Rightarrow> string \<Rightarrow> string \<Rightarrow> tool_runtime \<times> tool_result" where
  "docker_health os t m tr =
     run_tool os t ''docker'' ''health'' [''docker'', ''info'', ''--format'', ''{{.ServerVersion}}''] 10 m tr ''low''"

definition nginx_config_test ::
    "tool_os \<Rightarrow> tool_runtime \<Rightarrow> string \<Rightarrow> string \<Rightarrow> tool_runtime \<times> tool_result" where
  "nginx_config_test os t m tr = run_tool os t ''nginx'' ''config_test'' [''nginx'', ''-t''] 10 m tr ''low''"

definition nginx_reload :: "tool_os \<Rightarrow> tool_runtime \<Rightarrow> string \<Rightarrow> string \<Rightarrow> tool_runtime \<times> tool_result" where
  "nginx_reload os t m tr =
     gated_tool os t ''nginx'' ''reload'' ''nginx_reload'' ''reload nginx'' [''nginx'', ''-s'', ''reload''] 10 m tr"

definition systemd_status ::
    "tool_os \<Rightarrow> tool_runtime \<Rightarrow> string \<Rightarrow> string \<Rightarrow> string \<Rightarrow> tool_runtime \<times> tool_result" where
  "systemd_status os t service m tr =
     run_tool os t ''systemd'' ''status'' [''systemctl'', ''status'', service, ''--no-pager''] 10 m tr ''low''"

definition systemd_logs ::
    "tool_os \<Rightarrow> tool_runtime \<Rightarrow> string \<Rightarrow> int \<Rightarrow> string \<Rightarrow> string \<Rightarrow> tool_runtime \<times> tool_result" where
  "systemd_logs os t service lines m tr =
     run_tool os t ''systemd'' ''logs''
       [''journalctl'', ''-u'', service, ''-n'', int_str lines, ''--no-pager''] 10 m tr ''low''"

definition systemd_restart ::
    "tool_os \<Rightarrow> tool_runtime \<Rightarrow> string \<Rightarrow> string option \<Rightarrow> string \<Rightarrow> string \<Rightarrow> tool_runtime \<times> tool_result"
where
  "systemd_restart os t service approval_token m tr =
     gated_tool os t ''systemd'' ''restart'' ''systemd_restart'' (''restart '' @ service)
       [''systemctl'', ''restart'', service] 30 m tr"

definition run_tests ::
    "tool_os \<Rightarrow> string \<Rightarrow> tool_runtime \<Rightarrow> string list \<Rightarrow> string \<Rightarrow> string \<Rightarrow> tool_runtime \<times> tool_result" where
  "run_tests os exe t args m tr =
     run_tool os t ''test'' ''pytest'' ([exe, ''-m'', ''pytest'', ''-q''] @ args) 120 m tr ''low''"

section \<open>Any tool call\<close>

datatype tool_request =
    RegisterHost ssh_host | SetAllowlist string "string list"
  | ShellExecute string "string list" "string option" int
  | FsRead string int | FsWrite string string bool string string string
  | GitStatus | GitDiff bool | GitLog int | GitBranch
  | GitCommit string "string list" "string option" | GitPush string "string option"
  | DockerPs | DockerLogs string int | DockerComposeConfig
  | DockerComposeUp string "string option" | DockerComposeDown "string option" | DockerHealth
  | NginxConfigTest | NginxReload
  | SystemdStatus string | SystemdLogs string int | SystemdRestart string "string option"
  | RunTests "string list"

text \<open>A call, with its mission and trace. Registering a host or an allowlist has no result.\<close>

fun tool_call ::
    "tool_os \<Rightarrow> string \<Rightarrow> tool_runtime \<Rightarrow> tool_request \<times> string \<times> string \<Rightarrow> tool_runtime \<times> tool_result option"
where
  "tool_call os exe t (RegisterHost h, m, tr) = (register_host t h, None)"
| "tool_call os exe t (SetAllowlist i cs, m, tr) = (set_mission_allowlist t i cs, None)"
| "tool_call os exe t (ShellExecute c args cwd timeout, m, tr) =
     map_prod id Some (shell_execute os exe t c args cwd timeout m tr)"
| "tool_call os exe t (FsRead p n, m, tr) = (t, Some (fs_read os t p n m tr))"
| "tool_call os exe t (FsWrite p c b hn hi gmt, m, tr) =
     map_prod id Some (fs_write os t p c b hn hi gmt m tr)"
| "tool_call os exe t (GitStatus, m, tr) = map_prod id Some (git_status os t m tr)"
| "tool_call os exe t (GitDiff s, m, tr) = map_prod id Some (git_diff os t s m tr)"
| "tool_call os exe t (GitLog n, m, tr) = map_prod id Some (git_log os t n m tr)"
| "tool_call os exe t (GitBranch, m, tr) = map_prod id Some (git_branch os t m tr)"
| "tool_call os exe t (GitCommit msg fs tok, m, tr) = map_prod id Some (git_commit os t msg fs tok m tr)"
| "tool_call os exe t (GitPush b tok, m, tr) = map_prod id Some (git_push os t b tok m tr)"
| "tool_call os exe t (DockerPs, m, tr) = map_prod id Some (docker_ps os t m tr)"
| "tool_call os exe t (DockerLogs c n, m, tr) = map_prod id Some (docker_logs os t c n m tr)"
| "tool_call os exe t (DockerComposeConfig, m, tr) = map_prod id Some (docker_compose_config os t m tr)"
| "tool_call os exe t (DockerComposeUp s tok, m, tr) = map_prod id Some (docker_compose_up os t s tok m tr)"
| "tool_call os exe t (DockerComposeDown tok, m, tr) = map_prod id Some (docker_compose_down os t tok m tr)"
| "tool_call os exe t (DockerHealth, m, tr) = map_prod id Some (docker_health os t m tr)"
| "tool_call os exe t (NginxConfigTest, m, tr) = map_prod id Some (nginx_config_test os t m tr)"
| "tool_call os exe t (NginxReload, m, tr) = map_prod id Some (nginx_reload os t m tr)"
| "tool_call os exe t (SystemdStatus s, m, tr) = map_prod id Some (systemd_status os t s m tr)"
| "tool_call os exe t (SystemdLogs s n, m, tr) = map_prod id Some (systemd_logs os t s n m tr)"
| "tool_call os exe t (SystemdRestart s tok, m, tr) = map_prod id Some (systemd_restart os t s tok m tr)"
| "tool_call os exe t (RunTests args, m, tr) = map_prod id Some (run_tests os exe t args m tr)"

definition tool_step :: "tool_os \<Rightarrow> string \<Rightarrow> tool_runtime \<Rightarrow> tool_request \<times> string \<times> string \<Rightarrow> tool_runtime" where
  "tool_step os exe t c = fst (tool_call os exe t c)"

end
