(* ===== verification/ToolSafety.thy ===== *)
theory ToolSafety
  imports ToolRuntime
begin

text \<open>
  What the governed tools guarantee over any sequence of calls: which child processes they start
  and in which environment, which files they change, and that a write can be undone.
\<close>

section \<open>One child process\<close>

definition same_policy :: "tool_runtime \<Rightarrow> tool_runtime \<Rightarrow> bool" where
  "same_policy t t' \<longleftrightarrow> tl_project_root t' = tl_project_root t \<and> tl_approval_mode t' = tl_approval_mode t \<and>
     tl_authorized_hosts t' = tl_authorized_hosts t \<and> tl_mission_allowlist t' = tl_mission_allowlist t"

lemma same_policy_refl [simp]: "same_policy t t"
  by (simp add: same_policy_def)


text \<open>An operation that starts the processes \<open>cmds\<close>, in order, all with the redacted environment.\<close>

definition env_redacted :: "environment \<Rightarrow> bool" where
  "env_redacted env \<longleftrightarrow> (\<forall>(k, v) \<in> set env. secret_env_name k \<longrightarrow> v = ''***REDACTED***'')"

definition starts_children :: "tool_runtime \<Rightarrow> string list list \<Rightarrow> tool_runtime \<Rightarrow> bool" where
  "starts_children t cmds t' \<longleftrightarrow> same_policy t t' \<and>
     (\<exists>rs. tl_ran t' = tl_ran t @ rs \<and> map fst rs = cmds \<and> (\<forall>(c, d, env) \<in> set rs. env_redacted env))"

lemma env_redacted_redact_env: "env_redacted (redact_env env)"
  by (auto simp: env_redacted_def redact_env_def)

lemma run_subprocess_state:
  "fst (run_subprocess os t cmd cwd timeout ov) =
     (let work_dir = str_or cwd (path_str (tl_project_root t));
          env = redact_env (dupdate (tv_environ os) ov)
      in t\<lparr>tl_space := (tl_space t)\<lparr>ws_files := fst (tv_child os cmd work_dir env (ws_files (tl_space t)))\<rparr>,
           tl_ran := tl_ran t @ [(cmd, work_dir, env)]\<rparr>)"
  by (simp add: run_subprocess_def Let_def split: prod.split)

lemma run_subprocess_starts: "starts_children t [cmd] (fst (run_subprocess os t cmd cwd timeout ov))"
  unfolding run_subprocess_state Let_def
  by (simp add: starts_children_def same_policy_def env_redacted_redact_env)

lemma starts_none: "starts_children t [] t' \<longleftrightarrow> same_policy t t' \<and> tl_ran t' = tl_ran t"
  by (auto simp: starts_children_def)


lemma run_tool_starts: "starts_children t [cmd] (fst (run_tool os t tool action cmd timeout m tr risk))"
  using run_subprocess_starts [of t cmd os None timeout "[]"]
  by (cases "run_subprocess os t cmd None timeout []") (simp add: run_tool_def)

lemma gated_tool_starts:
  "starts_children t (if check_risk t rid desc False [] tr = None then [cmd] else [])
     (fst (gated_tool os t tool action rid desc cmd timeout m tr))"
  using run_tool_starts by (auto simp: gated_tool_def starts_none split: option.splits)


section \<open>What a call may start\<close>






text \<open>The commands behind the gate, and when it is open: no tool passes it a host, a rollback or a token.\<close>

definition gated_command :: "string list \<Rightarrow> bool" where
  "gated_command cmd \<longleftrightarrow>
     take 3 cmd \<in> {[''docker'', ''compose'', ''up''], [''docker'', ''compose'', ''down''], [''nginx'', ''-s'', ''reload'']} \<or>
     take 2 cmd = [''systemctl'', ''restart'']"












section \<open>Any call\<close>







section \<open>Every sequence of calls\<close>










text \<open>When a gated tool runs: in trusted mode with the empty host authorized, and never otherwise.
  The tools pass neither a host nor a rollback nor their token to the gate, so operator mode with a
  rollback and a token given to the call do not open it.\<close>

theorem gated_tools_run_iff:
  "tl_ran (fst (docker_compose_down os t token m tr)) \<noteq> tl_ran t \<longleftrightarrow>
     tl_approval_mode t = ''trusted'' \<and> [] \<in> set (tl_authorized_hosts t)"
proof -
  have l: "classify_action_risk ''docker_compose_down'' ''stop containers'' = ''high''" by code_simp
  have "check_risk t ''docker_compose_down'' ''stop containers'' False [] tr = None \<longleftrightarrow>
      tl_approval_mode t = ''trusted'' \<and> [] \<in> set (tl_authorized_hosts t)"
    by (auto simp: check_risk_def l approval_simps)
  moreover have "tl_ran (fst (docker_compose_down os t token m tr)) \<noteq> tl_ran t \<longleftrightarrow>
      check_risk t ''docker_compose_down'' ''stop containers'' False [] tr = None"
    using gated_tool_starts [of t "''docker_compose_down''" "''stop containers''" tr
        "[''docker'', ''compose'', ''down'']" os "''docker''" "''compose_down''" 60 m]
    by (auto simp: docker_compose_down_def starts_children_def split: if_splits)
  ultimately show ?thesis by simp
qed

definition quiet_os :: tool_os where
  "quiet_os = \<lparr>tv_resolve = (\<lambda>p. Some (path_parts p)), tv_is_symlink = (\<lambda>p. False),
     tv_write_ok = (\<lambda>p. True), tv_write_left = (\<lambda>p. None),
     tv_environ = [(''PATH'', ''/bin''), (''OPENAI_API_KEY'', ''sk-1'')],
     tv_child = (\<lambda>cmd d env fs. (fs, Exited 0 ''ok'' [] 1))\<rparr>"

definition safe_tools :: tool_runtime where
  "safe_tools = \<lparr>tl_project_root = ''.'', tl_approval_mode = ''safe'', tl_authorized_hosts = [],
     tl_host_registry = [], tl_mission_allowlist = [],
     tl_space = \<lparr>ws_files = [(''notes.txt'', ''old'')], ws_entries = []\<rparr>, tl_ran = []\<rparr>"



text \<open>Any token and any other way to name the branch pass: the push of \<^verbatim>\<open>HEAD:main\<close> and the
  forced push are started in every mode.\<close>

theorem push_check_is_by_name:
  "map fst (tl_ran (fst (git_push os t ''HEAD:main'' (Some ''x'') m tr))) =
     map fst (tl_ran t) @ [[''git'', ''push'', ''origin'', ''HEAD:main'']] \<and>
   map fst (tl_ran (fst (git_push os t ''--force'' (Some ''x'') m tr))) =
     map fst (tl_ran t) @ [[''git'', ''push'', ''origin'', ''--force'']]"
proof -
  have "map fst (tl_ran (fst (run_tool os t ''git'' ''push'' cmd 60 m tr ''high''))) =
      map fst (tl_ran t) @ [cmd]" for cmd
    using run_tool_starts [of t cmd os "''git''" "''push''" 60 m tr "''high''"]
    by (auto simp: starts_children_def)
  then show ?thesis by (simp add: git_push_def)
qed

text \<open>The allowlist of a mission opens more than an id: the gate reads the id and not the
  arguments. In safe mode a mission allowed \<^verbatim>\<open>docker\<close> stops the containers through the shell tool.\<close>

theorem allowlisted_program_runs_any_arguments:
  "map fst (tl_ran (run_events (tool_step quiet_os exe) safe_tools
      [(SetAllowlist ''m1'' [''docker''], [], []),
       (ShellExecute ''docker'' [''compose'', ''down''] None 30, ''m1'', [])])) =
     [[''docker'', ''compose'', ''down'']] \<and>
   gated_command [''docker'', ''compose'', ''down'']"
proof
  let ?t = "set_mission_allowlist safe_tools ''m1'' [''docker'']"
  have risk: "classify_action_risk ''docker'' [] = ''low''" by code_simp
  have "dget (allowed_shell exe ?t ''m1'') ''docker'' = Some [''docker'']"
    by (simp add: allowed_shell_def set_mission_allowlist_def safe_tools_def dget_or_def allowed_ids_def)
  moreover have "check_risk ?t ''docker'' [] False [] [] = None"
    by (simp add: check_risk_def risk approval_simps)
  ultimately have "tl_ran (fst (shell_execute quiet_os exe ?t ''docker'' [''compose'', ''down''] None 30 ''m1'' [])) =
      tl_ran (fst (run_subprocess quiet_os ?t [''docker'', ''compose'', ''down''] None 30 []))"
    by (simp add: shell_execute_def split: prod.split)
  then show "map fst (tl_ran (run_events (tool_step quiet_os exe) safe_tools
      [(SetAllowlist ''m1'' [''docker''], [], []),
       (ShellExecute ''docker'' [''compose'', ''down''] None 30, ''m1'', [])])) =
     [[''docker'', ''compose'', ''down'']]"
    by (simp add: tool_step_def run_subprocess_state Let_def set_mission_allowlist_def safe_tools_def)
  show "gated_command [''docker'', ''compose'', ''down'']" by (simp add: gated_command_def numeral_eq_Suc)
qed

section \<open>Files\<close>

text \<open>The copy a backup made of a file that was there.\<close>

definition copied :: "string \<Rightarrow> string \<Rightarrow> tool_runtime \<Rightarrow> tool_runtime \<Rightarrow> bool" where
  "copied copy full t t' \<longleftrightarrow>
     copy = full \<or> dget (ws_files (tl_space t)) full = None \<or>
     dget (ws_files (tl_space t')) copy = dget (ws_files (tl_space t)) full"

definition write_guards :: "tool_os \<Rightarrow> tool_runtime \<Rightarrow> string \<Rightarrow> string \<Rightarrow> bool" where
  "write_guards os t path content \<longleftrightarrow>
     \<not> is_secret_file path \<and> check_path_access os (path_str path) (tl_project_root t) \<and>
     \<not> detect_secret_like_content content"

lemma fs_write_refused:
  "\<not> write_guards os t p c \<Longrightarrow>
     fst (fs_write os t p c b hn hi gmt m tr) = t \<and>
     \<not> tx_success (snd (fs_write os t p c b hn hi gmt m tr))"
  by (auto simp: fs_write_def write_guards_def tool_result_of_def Let_def)

lemma fs_write_done:
  assumes "write_guards os t p c"
    and "sr = (if b \<and> dget (ws_files (tl_space t)) (path_str p) \<noteq> None then
           case backup_file (path_str (tl_project_root t)) hn hi gmt (tl_space t) (path_str p) m [] tr [] of
             (ws, r) \<Rightarrow> (ws, case r of None \<Rightarrow> [] | Some e \<Rightarrow> rbe_id e)
         else (tl_space t, []))"
    and "fs_write os t p c b hn hi gmt m tr = (t', r)"
  shows "tx_success r = tv_write_ok os (path_str p)"
    and "tl_space t' = (if tv_write_ok os (path_str p)
        then (fst sr)\<lparr>ws_files := dset (ws_files (fst sr)) (path_str p) c\<rparr>
        else (fst sr)\<lparr>ws_files := failed_write os (path_str p) c (ws_files (fst sr))\<rparr>)"
    and "tx_success r \<Longrightarrow> tx_rollback_id r = snd sr"
  using assms
  by (auto simp: fs_write_def write_guards_def tool_result_of_def Let_def split: prod.splits if_splits)

text \<open>What a write does: it succeeds exactly when the name is not secret, the resolved path lies in
  the project, the content holds nothing like a secret and the system lets it; then the file holds
  the content. A refused write changes nothing, one that fails leaves the file or a beginning of the content, and
  whatever it does, a write changes no file but the named one and the copy of its backup.\<close>

theorem fs_write_effect:
  fixes os t p c b hn hi gmt m tr
  defines "t' \<equiv> fst (fs_write os t p c b hn hi gmt m tr)"
    and "r \<equiv> snd (fs_write os t p c b hn hi gmt m tr)"
  shows "(tx_success r \<longleftrightarrow> write_guards os t p c \<and> tv_write_ok os (path_str p)) \<and>
    dget (ws_files (tl_space t')) (path_str p) =
      (if tx_success r then Some c
       else case if write_guards os t p c then tv_write_left os (path_str p) else None of
         None \<Rightarrow> dget (ws_files (tl_space t)) (path_str p) | Some n \<Rightarrow> Some (take n c)) \<and>
    {q. dget (ws_files (tl_space t')) q \<noteq> dget (ws_files (tl_space t)) q} \<subseteq>
      (if write_guards os t p c
       then {path_str p, path_str (backup_dir (path_str (tl_project_root t)) @ ''/'' @ hn @ ''_'' @ path_name (path_str p))}
       else {}) \<and>
    (b \<and> write_guards os t p c \<longrightarrow>
       copied (path_str (backup_dir (path_str (tl_project_root t)) @ ''/'' @ hn @ ''_'' @ path_name (path_str p)))
         (path_str p) t t')"
proof (cases "write_guards os t p c")
  case False
  from fs_write_refused [OF this, of b hn hi gmt m tr] False show ?thesis
    unfolding t'_def r_def by simp
next
  case True
  define sr where "sr = (if b \<and> dget (ws_files (tl_space t)) (path_str p) \<noteq> None then
           case backup_file (path_str (tl_project_root t)) hn hi gmt (tl_space t) (path_str p) m [] tr [] of
             (ws, r) \<Rightarrow> (ws, case r of None \<Rightarrow> [] | Some e \<Rightarrow> rbe_id e)
         else (tl_space t, []))"
  have out: "fs_write os t p c b hn hi gmt m tr = (t', r)" by (simp add: t'_def r_def)
  note d = fs_write_done [OF True sr_def out]
  let ?bp = "path_str (backup_dir (path_str (tl_project_root t)) @ ''/'' @ hn @ ''_'' @ path_name (path_str p))"
  have files: "dget (ws_files (fst sr)) (path_str p) = dget (ws_files (tl_space t)) (path_str p) \<and>
      {q. dget (ws_files (fst sr)) q \<noteq> dget (ws_files (tl_space t)) q} \<subseteq> {?bp} \<and>
      (b \<longrightarrow> dget (ws_files (tl_space t)) (path_str p) = None \<or>
         dget (ws_files (fst sr)) ?bp = dget (ws_files (tl_space t)) (path_str p))"
  proof (cases "b \<and> dget (ws_files (tl_space t)) (path_str p) \<noteq> None")
    case False
    then have "fst sr = tl_space t" by (simp only: sr_def if_False fst_conv)
    then show ?thesis using False by auto
  next
    case bk: True
    obtain ws x where bf: "backup_file (path_str (tl_project_root t)) hn hi gmt (tl_space t) (path_str p) m [] tr []
        = (ws, x)" by fastforce
    with bk have ws: "fst sr = ws" by (simp add: sr_def)
    from bf show ?thesis
    proof (cases rule: backup_file_shape)
      case missing
      with bk show ?thesis by simp
    next
      case (saved cc e)
      have "rbe_backup_path e = ?bp" by (simp only: saved(4) backup_entry_def Let_def rollback_entry.simps)
      with saved ws show ?thesis by auto
    qed
  qed
  with d(1,2) True show ?thesis by (auto simp: failed_write_def copied_def split: if_splits option.splits)
qed

text \<open>A write that fails after the file was opened destroys its text, and nobody restores the backup that was made.\<close>

lemma failed_write_destroys:
  "(let os = quiet_os\<lparr>tv_write_ok := (\<lambda>p. False), tv_write_left := (\<lambda>p. Some 0)\<rparr>;
        (t', r) = fs_write os safe_tools ''notes.txt'' ''new'' True ''0a'' ''01'' ''now'' [] []
    in \<not> tx_success r \<and> dget (ws_files (tl_space t')) ''notes.txt'' = Some [])"
  by code_simp

text \<open>C21. A write can be undone: when a write that kept a backup of an existing file succeeds and no
  path holds anything like a secret, the rollback it names gives the file its old content back.\<close>

theorem fs_write_can_be_undone:
  assumes "fs_write os t p c True hn hi gmt m tr = (t', r)" and "tx_success r"
    and "dget (ws_files (tl_space t)) (path_str p) = Some old" and "entries_wf (tl_space t)"
    and "bp = path_str (backup_dir (path_str (tl_project_root t)) @ ''/'' @ hn @ ''_'' @ path_name (path_str p))"
    and "redact_secrets (path_str p) = path_str p" and "redact_secrets bp = bp" and "bp \<noteq> path_str p"
  shows "\<exists>ws. apply_file_rollback (tl_space t') (tx_rollback_id r) = (ws, True) \<and>
    dget (ws_files ws) (path_str p) = Some old"
proof -
  have g: "write_guards os t p c"
    using fs_write_refused [of os t p c True hn hi gmt m tr] assms(1,2) by auto
  obtain ws1 x where bf: "backup_file (path_str (tl_project_root t)) hn hi gmt (tl_space t) (path_str p) m [] tr []
      = (ws1, x)" by fastforce
  from bf obtain e where e: "x = Some e" "e = backup_entry (path_str (tl_project_root t)) hn hi gmt (path_str p) m [] tr []"
    by (cases rule: backup_file_shape) (use assms(3) in auto)
  have bp: "rbe_backup_path e = bp" by (simp only: e(2) assms(5) backup_entry_def Let_def rollback_entry.simps)
  note d = fs_write_done [OF g refl assms(1)]
  have t': "tl_space t' = ws1\<lparr>ws_files := dset (ws_files ws1) (path_str p) c\<rparr>"
    and rid: "tx_rollback_id r = rbe_id e"
    using d assms(2,3) bf e(1) by auto
  have "\<exists>ws3. apply_file_rollback (tl_space t') (rbe_id e) = (ws3, True) \<and>
      dget (ws_files ws3) (path_str (path_str p)) = dget (ws_files (tl_space t)) (path_str (path_str p)) \<and>
      (\<forall>q. q \<noteq> path_str (path_str p) \<longrightarrow> dget (ws_files ws3) q = dget (ws_files (tl_space t')) q)"
  proof (rule backup_restores [OF bf [unfolded e(1)] assms(4)])
    show "redact_secrets (rbe_original_path e) = rbe_original_path e" using assms(6) by (simp add: e(2))
    show "redact_secrets (rbe_backup_path e) = rbe_backup_path e" using assms(7) bp by simp
    show "load_entry (tl_space t') (rbe_id e) = load_entry ws1 (rbe_id e)" by (simp add: t' load_entry_def)
    show "dget (ws_files (tl_space t')) (rbe_backup_path e) = dget (ws_files ws1) (rbe_backup_path e)"
      using assms(8) bp by (simp add: t')
  qed
  with assms(3) rid show ?thesis by auto
qed

theorem fs_write_can_be_undone_witness:
  "\<exists>t' r ws. fs_write quiet_os safe_tools ''notes.txt'' ''new'' True ''0a'' ''01'' ''now'' [] [] = (t', r) \<and>
     dget (ws_files (tl_space t')) ''notes.txt'' = Some ''new'' \<and>
     apply_file_rollback (tl_space t') (tx_rollback_id r) = (ws, True) \<and>
     dget (ws_files ws) ''notes.txt'' = Some ''old''"
proof -
  let ?w = "fs_write quiet_os safe_tools ''notes.txt'' ''new'' True ''0a'' ''01'' ''now'' [] []"
  have ps: "path_str ''notes.txt'' = ''notes.txt''" by code_simp
  have "write_guards quiet_os safe_tools ''notes.txt'' ''new''" by code_simp
  with fs_write_effect [of quiet_os safe_tools "''notes.txt''" "''new''" True "''0a''" "''01''" "''now''" "[]" "[]"]
  have s: "tx_success (snd ?w)" "dget (ws_files (tl_space (fst ?w))) ''notes.txt'' = Some ''new''"
    by (simp_all add: quiet_os_def ps)
  let ?bp = "''.igris/rollback/backups/0a_notes.txt''"
  have "\<exists>ws. apply_file_rollback (tl_space (fst ?w)) (tx_rollback_id (snd ?w)) = (ws, True) \<and>
      dget (ws_files ws) (path_str ''notes.txt'') = Some ''old''"
  proof (rule fs_write_can_be_undone [of _ _ _ _ _ _ _ _ _ _ _ _ ?bp])
    show "?w = (fst ?w, snd ?w)" by simp
    show "dget (ws_files (tl_space safe_tools)) (path_str ''notes.txt'') = Some ''old''"
      "entries_wf (tl_space safe_tools)"
      by (simp_all add: ps safe_tools_def entries_wf_def)
    show "?bp = path_str (backup_dir (path_str (tl_project_root safe_tools)) @ ''/'' @ ''0a'' @ ''_'' @
        path_name (path_str ''notes.txt''))" by code_simp
    show "redact_secrets (path_str ''notes.txt'') = path_str ''notes.txt''" "redact_secrets ?bp = ?bp"
      by code_simp+
    show "?bp \<noteq> path_str ''notes.txt''" by (simp add: ps)
  qed (fact s(1))
  with s(2) show ?thesis unfolding ps by (metis prod.collapse)
qed

end
