(* ===== verification/Credentials.thy ===== *)
theory Credentials
  imports Redaction
begin

text \<open>
  \<^verbatim>\<open>igris/core/interlocutor_auth.py\<close>, the credentials: a store of hashed passwords with a lock
  after too many failures. What the three stores of that module share comes first: the file as it can
  be found and the result of an operation. The state of a store is its file and its table in memory;
  whether a write succeeds (\<open>None\<close>, or the error's text), the clock, the salt and the key derivation
  are arguments. Times are numbers; a text that is no time is \<open>None\<close>.
\<close>

section \<open>Files and results\<close>

text \<open>A value of a table is \<open>None\<close> when it is no dictionary or cannot be converted.\<close>

datatype 'a store_file =
    FileMissing | FileUnreadable string | FileNotJson string | FileNotDict | TableNotDict
  | Table "(string \<times> 'a option) list"

type_synonym write_outcome = "string option"

record auth_op_result =
  ao_ok :: bool
  ao_action :: string
  ao_profile_id :: string
  ao_session_token :: string
  ao_session_id :: string
  ao_expires_at :: "pyfloat option"
  ao_warnings :: "string list"
  ao_errors :: "string list"
  ao_metadata :: "(string, int) dict"

definition op_result :: "string \<Rightarrow> string \<Rightarrow> auth_op_result" where
  "op_result action profile_id =
     \<lparr>ao_ok = False, ao_action = action, ao_profile_id = profile_id, ao_session_token = [],
      ao_session_id = [], ao_expires_at = None, ao_warnings = [], ao_errors = [], ao_metadata = []\<rparr>"

definition op_failed :: "auth_op_result \<Rightarrow> string list \<Rightarrow> auth_op_result" where
  "op_failed r es = r\<lparr>ao_errors := ao_errors r @ es\<rparr>"

definition op_ok :: "auth_op_result \<Rightarrow> auth_op_result" where
  "op_ok r = r\<lparr>ao_ok := True\<rparr>"

text \<open>\<^verbatim>\<open>to_dict\<close> of a result: the token only on request, every text redacted.\<close>

definition op_result_to_dict :: "auth_op_result \<Rightarrow> bool \<Rightarrow> auth_op_result" where
  "op_result_to_dict r include_token = r
     \<lparr>ao_action := redact (ao_action r), ao_profile_id := redact (ao_profile_id r),
      ao_session_token := (if include_token then redact (ao_session_token r) else []),
      ao_session_id := redact (ao_session_id r),
      ao_warnings := map redact (ao_warnings r), ao_errors := map redact (ao_errors r)\<rparr>"

fun table_of :: "(string \<times> 'a option) list \<Rightarrow> (string, 'a) dict" where
  "table_of [] = []"
| "table_of ((k, None) # m) = table_of m"
| "table_of ((k, Some v) # m) = (k, v) # table_of m"

definition skipped_of :: "(string \<times> 'a option) list \<Rightarrow> nat" where
  "skipped_of m = length (filter (\<lambda>(k, v). v = None) m)"

definition saved_table :: "('a \<Rightarrow> 'a) \<Rightarrow> (string, 'a) dict \<Rightarrow> 'a store_file" where
  "saved_table f m = Table (map (\<lambda>(k, v). (k, Some (f v))) m)"

lemma table_of_saved [simp]:
  "table_of (map (\<lambda>(k, v). (k, Some (f v))) m) = map (\<lambda>(k, v). (k, f v)) m"
  by (induction m) auto

section \<open>Passwords\<close>

definition PASSWORD_KDF :: string where "PASSWORD_KDF = ''pbkdf2_hmac_sha256''"
definition PASSWORD_ITERATIONS :: int where "PASSWORD_ITERATIONS = 390000"
definition MAX_FAILED_LOGIN_ATTEMPTS :: int where "MAX_FAILED_LOGIN_ATTEMPTS = 5"

type_synonym kdf = "string \<Rightarrow> string \<Rightarrow> int \<Rightarrow> string"

definition verify_password :: "kdf \<Rightarrow> string \<Rightarrow> string \<Rightarrow> string \<Rightarrow> int \<Rightarrow> bool" where
  "verify_password kd raw_password salt expected_hash iterations \<longleftrightarrow>
     kd raw_password salt iterations = expected_hash"

definition ascii_letter :: "char \<Rightarrow> bool" where
  "ascii_letter c = in_items [Rng (CHR ''a'') (CHR ''z''), Rng (CHR ''A'') (CHR ''Z'')] c"

definition ascii_digit :: "char \<Rightarrow> bool" where
  "ascii_digit c = in_items [Rng (CHR ''0'') (CHR ''9'')] c"

definition check_password_strength :: "string \<Rightarrow> string list" where
  "check_password_strength raw_password =
     (if length raw_password < 8 then [''password_too_short_min_8''] else []) @
     (if list_ex ascii_letter raw_password then [] else [''password_requires_letter'']) @
     (if list_ex ascii_digit raw_password then [] else [''password_requires_digit''])"

section \<open>The credential store\<close>

record auth_credential =
  cr_profile_id :: string
  cr_email :: string
  cr_mobile_phone :: string
  cr_password_hash :: string
  cr_password_salt :: string
  cr_password_kdf :: string
  cr_password_iterations :: int
  cr_created_at :: "pyfloat option"
  cr_updated_at :: "pyfloat option"
  cr_last_login_at :: "pyfloat option"
  cr_failed_login_count :: int
  cr_locked :: bool
  cr_metadata :: pyval

text \<open>For storage everything is kept and the metadata redacted; otherwise the hash and the salt are
  left out and the addresses redacted.\<close>

definition credential_to_dict :: "bool \<Rightarrow> auth_credential \<Rightarrow> auth_credential" where
  "credential_to_dict include_sensitive c =
     (if include_sensitive then c\<lparr>cr_metadata := redact_nested (cr_metadata c)\<rparr>
      else c\<lparr>cr_metadata := redact_nested (cr_metadata c), cr_password_hash := [],
             cr_password_salt := [], cr_email := redact_email (cr_email c),
             cr_mobile_phone := redact_phone (cr_mobile_phone c)\<rparr>)"

record credential_store =
  cs_file :: "auth_credential store_file"
  cs_credentials :: "(string, auth_credential) dict"

definition cs_save :: "write_outcome \<Rightarrow> credential_store \<Rightarrow> credential_store \<times> auth_op_result" where
  "cs_save w s =
     (let r = op_result ''save_credentials'' []
      in case w of
           Some msg \<Rightarrow> (s, op_failed r [''credentials save failed: '' @ msg])
         | None \<Rightarrow>
             (s\<lparr>cs_file := saved_table (credential_to_dict True) (cs_credentials s)\<rparr>,
              (op_ok r)\<lparr>ao_metadata := [(''saved_count'', int (length (cs_credentials s)))]\<rparr>))"

definition cs_reload :: "credential_store \<Rightarrow> credential_store \<times> auth_op_result" where
  "cs_reload s =
     (let r = op_result ''reload_credentials'' []
      in case cs_file s of
           FileMissing \<Rightarrow>
             (s\<lparr>cs_credentials := []\<rparr>, (op_ok r)\<lparr>ao_warnings := [''storage_file_missing'']\<rparr>)
         | FileUnreadable msg \<Rightarrow> (s, op_failed r [''read failed: '' @ msg])
         | FileNotJson msg \<Rightarrow> (s, op_failed r [''invalid json: '' @ msg])
         | FileNotDict \<Rightarrow> (s, op_failed r [''credentials root is not a dict''])
         | TableNotDict \<Rightarrow>
             (s\<lparr>cs_credentials := []\<rparr>, (op_ok r)\<lparr>ao_warnings := [''credentials_not_dict'']\<rparr>)
         | Table m \<Rightarrow>
             (s\<lparr>cs_credentials := table_of m\<rparr>,
              (op_ok r)\<lparr>ao_metadata := [(''loaded_count'', int (length (table_of m)))],
                ao_warnings := (if skipped_of m \<noteq> 0
                  then [''skipped_'' @ nat_str (skipped_of m) @ ''_invalid_credentials''] else [])\<rparr>))"

text \<open>A new store on a file: an existing one is loaded, a failed load leaves the table empty.\<close>

definition open_credentials :: "auth_credential store_file \<Rightarrow> credential_store" where
  "open_credentials f =
     (let s = \<lparr>cs_file = f, cs_credentials = []\<rparr>
      in if f = FileMissing then s else fst (cs_reload s))"

definition new_credential :: "kdf \<Rightarrow> string \<Rightarrow> pyfloat \<Rightarrow> string \<Rightarrow> string \<Rightarrow> string \<Rightarrow> string \<Rightarrow> auth_credential"
where
  "new_credential kd salt now profile_id email mobile_phone raw_password =
     \<lparr>cr_profile_id = profile_id, cr_email = email, cr_mobile_phone = mobile_phone,
      cr_password_hash = kd raw_password salt PASSWORD_ITERATIONS, cr_password_salt = salt,
      cr_password_kdf = PASSWORD_KDF, cr_password_iterations = PASSWORD_ITERATIONS,
      cr_created_at = Some now, cr_updated_at = Some now, cr_last_login_at = None,
      cr_failed_login_count = 0, cr_locked = False, cr_metadata = PDict []\<rparr>"

definition create_credential ::
    "kdf \<Rightarrow> string \<Rightarrow> pyfloat \<Rightarrow> write_outcome \<Rightarrow> credential_store \<Rightarrow> string \<Rightarrow> string \<Rightarrow> string \<Rightarrow> string \<Rightarrow>
     credential_store \<times> auth_op_result"
where
  "create_credential kd salt now w s profile_id email mobile_phone raw_password =
     (let r = op_result ''create_credential'' profile_id
      in if strip profile_id = [] then (s, op_failed r [''profile_id_required''])
         else if profile_id \<in> set (dkeys (cs_credentials s)) then
           (s, op_failed r [''credential_already_exists''])
         else if check_password_strength raw_password \<noteq> [] then
           (s, op_failed r (check_password_strength raw_password))
         else
           let c = new_credential kd salt now profile_id email mobile_phone raw_password;
               (s1, save_r) = cs_save w (s\<lparr>cs_credentials := dset (cs_credentials s) profile_id c\<rparr>)
           in if \<not> ao_ok save_r then
                (s1\<lparr>cs_credentials := ddel (cs_credentials s1) profile_id\<rparr>,
                 op_failed r (ao_errors save_r @ [''persist_failed_rollback'']))
              else (s1, op_ok r))"

definition get_credential :: "credential_store \<Rightarrow> string \<Rightarrow> auth_credential option" where
  "get_credential s profile_id = dget (cs_credentials s) profile_id"

text \<open>The updates of one credential: change it in memory, then save everything.\<close>

definition change_credential ::
    "string \<Rightarrow> (auth_credential \<Rightarrow> auth_credential) \<Rightarrow> (auth_credential \<Rightarrow> string list) \<Rightarrow> write_outcome \<Rightarrow>
     credential_store \<Rightarrow> string \<Rightarrow> credential_store \<times> auth_op_result"
where
  "change_credential action f warns w s profile_id =
     (let r = op_result action profile_id
      in case dget (cs_credentials s) profile_id of
           None \<Rightarrow> (s, op_failed r [''credential_not_found:'' @ profile_id])
         | Some c \<Rightarrow>
             let (s1, save_r) = cs_save w (s\<lparr>cs_credentials := dset (cs_credentials s) profile_id (f c)\<rparr>);
                 r1 = r\<lparr>ao_warnings := warns (f c)\<rparr>
             in if \<not> ao_ok save_r then (s1, op_failed r1 (ao_errors save_r)) else (s1, op_ok r1))"

definition record_successful_login ::
    "pyfloat \<Rightarrow> write_outcome \<Rightarrow> credential_store \<Rightarrow> string \<Rightarrow> credential_store \<times> auth_op_result" where
  "record_successful_login now w s profile_id =
     change_credential ''record_successful_login''
       (\<lambda>c. c\<lparr>cr_last_login_at := Some now, cr_failed_login_count := 0, cr_updated_at := Some now\<rparr>)
       (\<lambda>c. []) w s profile_id"

definition record_failed_login ::
    "pyfloat \<Rightarrow> write_outcome \<Rightarrow> credential_store \<Rightarrow> string \<Rightarrow> credential_store \<times> auth_op_result" where
  "record_failed_login now w s profile_id =
     change_credential ''record_failed_login''
       (\<lambda>c. let n = cr_failed_login_count c + 1
            in c\<lparr>cr_failed_login_count := n, cr_updated_at := Some now,
                 cr_locked := (if n \<ge> MAX_FAILED_LOGIN_ATTEMPTS then True else cr_locked c)\<rparr>)
       (\<lambda>c. if cr_failed_login_count c \<ge> MAX_FAILED_LOGIN_ATTEMPTS
            then [''account_locked_after_'' @ int_str (cr_failed_login_count c) @ ''_failures''] else [])
       w s profile_id"

definition unlock_credential ::
    "pyfloat \<Rightarrow> write_outcome \<Rightarrow> credential_store \<Rightarrow> string \<Rightarrow> credential_store \<times> auth_op_result" where
  "unlock_credential now w s profile_id =
     change_credential ''unlock''
       (\<lambda>c. c\<lparr>cr_locked := False, cr_failed_login_count := 0, cr_updated_at := Some now\<rparr>) (\<lambda>c. []) w s
       profile_id"

definition verify_login ::
    "kdf \<Rightarrow> pyfloat \<Rightarrow> write_outcome \<Rightarrow> credential_store \<Rightarrow> string \<Rightarrow> string \<Rightarrow>
     credential_store \<times> auth_op_result"
where
  "verify_login kd now w s profile_id raw_password =
     (let r = op_result ''verify_login'' profile_id
      in case dget (cs_credentials s) profile_id of
           None \<Rightarrow> (s, op_failed r [''invalid_credentials''])
         | Some c \<Rightarrow>
             if cr_locked c then (s, op_failed r [''account_locked''])
             else if \<not> verify_password kd raw_password (cr_password_salt c) (cr_password_hash c)
                  (cr_password_iterations c) then
               (fst (record_failed_login now w s profile_id), op_failed r [''invalid_credentials''])
             else (fst (record_successful_login now w s profile_id), op_ok r))"

record store_health =
  he_exists :: bool
  he_count :: nat
  he_other_count :: nat

definition credentials_health :: "credential_store \<Rightarrow> store_health" where
  "credentials_health s =
     \<lparr>he_exists = (cs_file s \<noteq> FileMissing), he_count = length (cs_credentials s),
      he_other_count = length (filter (\<lambda>(k, c). cr_locked c) (cs_credentials s))\<rparr>"

section \<open>Requests\<close>

datatype credential_request =
    CreateCredential string pyfloat write_outcome string string string string
  | Login pyfloat write_outcome string string
  | Unlock pyfloat write_outcome string
  | RestartCredentials

fun credential_step :: "kdf \<Rightarrow> credential_store \<Rightarrow> credential_request \<Rightarrow> credential_store" where
  "credential_step kd s (CreateCredential salt now w i email phone pw) =
     fst (create_credential kd salt now w s i email phone pw)"
| "credential_step kd s (Login now w i pw) = fst (verify_login kd now w s i pw)"
| "credential_step kd s (Unlock now w i) = fst (unlock_credential now w s i)"
| "credential_step kd s RestartCredentials = open_credentials (cs_file s)"

fun persisted :: "credential_request \<Rightarrow> bool" where
  "persisted (CreateCredential salt now w i email phone pw) = (w = None)"
| "persisted (Login now w i pw) = (w = None)"
| "persisted (Unlock now w i) = (w = None)"
| "persisted RestartCredentials = True"

fun unlocks :: "string \<Rightarrow> credential_request \<Rightarrow> bool" where
  "unlocks p (Unlock now w i) = (i = p)"
| "unlocks p _ = False"

fun logged_in :: "kdf \<Rightarrow> string \<Rightarrow> credential_store \<Rightarrow> credential_request \<Rightarrow> bool" where
  "logged_in kd p s (Login now w i pw) = (i = p \<and> ao_ok (snd (verify_login kd now w s i pw)))"
| "logged_in kd p s _ = False"

text \<open>A wrong guess: the password was compared with the hash of \<open>p\<close> and did not match.\<close>

fun wrong_guess :: "kdf \<Rightarrow> string \<Rightarrow> credential_store \<Rightarrow> credential_request \<Rightarrow> bool" where
  "wrong_guess kd p s (Login now w i pw) =
     (i = p \<and> p \<in> set (dkeys (cs_credentials s)) \<and>
      ao_errors (snd (verify_login kd now w s i pw)) = [''invalid_credentials''])"
| "wrong_guess kd p s _ = False"

fun wrong_guesses :: "kdf \<Rightarrow> string \<Rightarrow> credential_store \<Rightarrow> credential_request list \<Rightarrow> nat" where
  "wrong_guesses kd p s [] = 0"
| "wrong_guesses kd p s (e # es) =
     (if wrong_guess kd p s e then 1 else 0) + wrong_guesses kd p (credential_step kd s e) es"

fun never_opened :: "kdf \<Rightarrow> string \<Rightarrow> credential_store \<Rightarrow> credential_request list \<Rightarrow> bool" where
  "never_opened kd p s [] = True"
| "never_opened kd p s (e # es) =
     (\<not> unlocks p e \<and> \<not> logged_in kd p s e \<and> never_opened kd p (credential_step kd s e) es)"

section \<open>The lock\<close>

text \<open>When a login succeeds, and what an attempt does to the credential.\<close>

lemma cs_save_simps:
  "cs_credentials (fst (cs_save w s)) = cs_credentials s"
  "ao_ok (snd (cs_save w s)) \<longleftrightarrow> w = None"
  "cs_file (fst (cs_save w s)) =
     (if w = None then saved_table (credential_to_dict True) (cs_credentials s) else cs_file s)"
  by (auto simp: cs_save_def op_failed_def op_ok_def op_result_def Let_def split: option.split)

lemma change_credential_state:
  "cs_credentials (fst (change_credential a f ws w s i)) =
     (case dget (cs_credentials s) i of None \<Rightarrow> cs_credentials s | Some c \<Rightarrow> dset (cs_credentials s) i (f c))"
  "cs_file (fst (change_credential a f ws w s i)) =
     (case dget (cs_credentials s) i of
        None \<Rightarrow> cs_file s
      | Some c \<Rightarrow> if w = None then saved_table (credential_to_dict True) (dset (cs_credentials s) i (f c))
          else cs_file s)"
  by (cases w; simp add: change_credential_def case_prod_unfold Let_def cs_save_simps split: option.split)+

text \<open>When a login succeeds: exactly for a known account that is not locked and a password whose
  derived key is the stored one.\<close>

theorem login_succeeds_iff:
  "ao_ok (snd (verify_login kd now w s i pw)) \<longleftrightarrow>
     (\<exists>c. dget (cs_credentials s) i = Some c \<and> \<not> cr_locked c \<and>
        kd pw (cr_password_salt c) (cr_password_iterations c) = cr_password_hash c)"
  by (auto simp: verify_login_def verify_password_def op_failed_def op_ok_def op_result_def Let_def
      split: option.split)

lemma login_errors:
  "dget (cs_credentials s) i = Some c \<Longrightarrow>
     ao_errors (snd (verify_login kd now w s i pw)) =
       (if cr_locked c then [''account_locked'']
        else if kd pw (cr_password_salt c) (cr_password_iterations c) = cr_password_hash c then []
        else [''invalid_credentials''])"
  by (auto simp: verify_login_def verify_password_def op_failed_def op_ok_def op_result_def Let_def)

lemma login_other:
  "j \<noteq> i \<Longrightarrow> dget (cs_credentials (fst (verify_login kd now w s i pw))) j = dget (cs_credentials s) j"
  by (auto simp: verify_login_def record_failed_login_def record_successful_login_def
      change_credential_state Let_def split: option.split)

text \<open>What a store keeps of a credential over a save and a load, all but the redacted metadata.\<close>

definition core_credential :: "auth_credential \<Rightarrow> auth_credential" where
  "core_credential c = c\<lparr>cr_metadata := PNone\<rparr>"

definition creds_agree :: "credential_store \<Rightarrow> bool" where
  "creds_agree s \<longleftrightarrow>
     (\<exists>m. cs_file s = saved_table id m \<and>
        map (\<lambda>(k, c). (k, core_credential c)) m =
        map (\<lambda>(k, c). (k, core_credential c)) (cs_credentials s)) \<or>
     cs_file s = FileMissing \<and> cs_credentials s = []"

definition counts_ok :: "credential_store \<Rightarrow> bool" where
  "counts_ok s \<longleftrightarrow> dwf (cs_credentials s) \<and>
     (\<forall>(k, c) \<in> set (cs_credentials s). 0 \<le> cr_failed_login_count c \<and>
        (5 \<le> cr_failed_login_count c \<longrightarrow> cr_locked c))"

definition creds_inv :: "credential_store \<Rightarrow> bool" where
  "creds_inv s \<longleftrightarrow> counts_ok s \<and> creds_agree s"

lemma core_credential_stored [simp]: "core_credential (credential_to_dict True c) = core_credential c"
  by (simp add: core_credential_def credential_to_dict_def)

lemma core_credential_count:
  "core_credential c = core_credential d \<Longrightarrow>
     cr_failed_login_count c = cr_failed_login_count d \<and> cr_locked c = cr_locked d \<and>
     cr_password_hash c = cr_password_hash d \<and> cr_password_salt c = cr_password_salt d \<and>
     cr_password_iterations c = cr_password_iterations d"
  by (cases c; cases d) (simp add: core_credential_def)

lemma saved_agrees:
  "cs_file s = saved_table (credential_to_dict True) (cs_credentials s) \<Longrightarrow> creds_agree s"
  unfolding creds_agree_def
  by (intro disjI1 exI [of _ "map (\<lambda>(k, c). (k, credential_to_dict True c)) (cs_credentials s)"])
    (simp add: saved_table_def case_prod_beta)

lemma open_saved: "cs_credentials (open_credentials (saved_table id m)) = m"
  by (simp add: open_credentials_def cs_reload_def saved_table_def op_ok_def Let_def case_prod_beta)

lemma cs_file_open [simp]: "cs_file (open_credentials f) = f"
  by (cases f) (simp_all add: open_credentials_def cs_reload_def Let_def)

lemma creds_core_eq:
  assumes "map (\<lambda>(k, c). (k, core_credential c)) m = map (\<lambda>(k, c). (k, core_credential c)) n"
  shows "dkeys m = dkeys n"
    and "map_option core_credential (dget m k) = map_option core_credential (dget n k)"
proof -
  have "map fst (map (\<lambda>(k, c). (k, core_credential c)) m) = map fst (map (\<lambda>(k, c). (k, core_credential c)) n)"
    by (simp only: assms)
  then show "dkeys m = dkeys n" by (simp add: dkeys_def case_prod_beta comp_def)
  have "dget (map (\<lambda>(k, c). (k, core_credential c)) m) k = dget (map (\<lambda>(k, c). (k, core_credential c)) n) k"
    by (simp only: assms)
  then show "map_option core_credential (dget m k) = map_option core_credential (dget n k)"
    by (simp add: dget_map_values)
qed

lemma restart_agrees:
  assumes "creds_agree s"
  shows "map (\<lambda>(k, c). (k, core_credential c)) (cs_credentials (open_credentials (cs_file s))) =
      map (\<lambda>(k, c). (k, core_credential c)) (cs_credentials s)"
    and "creds_agree (open_credentials (cs_file s))"
proof -
  have "cs_file s = FileMissing \<and> cs_credentials s = [] \<or>
      (\<exists>m. cs_file s = saved_table id m \<and> map (\<lambda>(k, c). (k, core_credential c)) m =
        map (\<lambda>(k, c). (k, core_credential c)) (cs_credentials s))"
    using assms unfolding creds_agree_def by blast
  then show "map (\<lambda>(k, c). (k, core_credential c)) (cs_credentials (open_credentials (cs_file s))) =
      map (\<lambda>(k, c). (k, core_credential c)) (cs_credentials s)"
    "creds_agree (open_credentials (cs_file s))"
    by (auto simp: open_saved creds_agree_def) (auto simp: open_credentials_def)
qed

lemma counts_ok_dget:
  "counts_ok s \<Longrightarrow> dget (cs_credentials s) k = Some c \<Longrightarrow>
     0 \<le> cr_failed_login_count c \<and> (5 \<le> cr_failed_login_count c \<longrightarrow> cr_locked c)"
  unfolding counts_ok_def by (auto dest: dget_Some_in)

lemma counts_ok_dset:
  assumes "dwf m" "\<forall>(k, c) \<in> set m. P c" "P d"
  shows "\<forall>(k, c) \<in> set (dset m i d). P c"
proof -
  have "P c" if "(k, c) \<in> set (dset m i d)" for k c
  proof -
    have "dget (dset m i d) k = Some c" using that dget_iff_in [OF dwf_dset [OF assms(1)]] by blast
    then show ?thesis using assms by (auto split: if_splits dest: dget_Some_in)
  qed
  then show ?thesis by blast
qed

lemma creds_inv_changed:
  assumes "creds_inv s" "w = None"
    and "\<And>c. 0 \<le> cr_failed_login_count c \<Longrightarrow> 5 \<le> cr_failed_login_count c \<longrightarrow> cr_locked c \<Longrightarrow>
      0 \<le> cr_failed_login_count (f c) \<and> (5 \<le> cr_failed_login_count (f c) \<longrightarrow> cr_locked (f c))"
  shows "creds_inv (fst (change_credential a f ws w s i))"
proof (cases "dget (cs_credentials s) i")
  case None
  then have "fst (change_credential a f ws w s i) = s" by (simp add: change_credential_def)
  with assms(1) show ?thesis by simp
next
  case (Some c)
  let ?s = "fst (change_credential a f ws w s i)"
  have st: "cs_credentials ?s = dset (cs_credentials s) i (f c)"
    "cs_file ?s = saved_table (credential_to_dict True) (cs_credentials ?s)"
    using Some assms(2) by (simp_all add: change_credential_state)
  have "counts_ok ?s"
    unfolding counts_ok_def st(1)
  proof
    show "dwf (dset (cs_credentials s) i (f c))"
      using assms(1) by (simp add: creds_inv_def counts_ok_def)
    show "\<forall>(k, d) \<in> set (dset (cs_credentials s) i (f c)). 0 \<le> cr_failed_login_count d \<and>
        (5 \<le> cr_failed_login_count d \<longrightarrow> cr_locked d)"
    proof (rule counts_ok_dset)
      show "dwf (cs_credentials s)"
        "\<forall>(k, d) \<in> set (cs_credentials s). 0 \<le> cr_failed_login_count d \<and>
          (5 \<le> cr_failed_login_count d \<longrightarrow> cr_locked d)"
        using assms(1) by (simp_all add: creds_inv_def counts_ok_def)
      show "0 \<le> cr_failed_login_count (f c) \<and> (5 \<le> cr_failed_login_count (f c) \<longrightarrow> cr_locked (f c))"
        using assms(1,3) counts_ok_dget [OF _ Some] by (simp add: creds_inv_def)
    qed
  qed
  with saved_agrees [OF st(2)] show ?thesis by (simp add: creds_inv_def)
qed

lemma login_state:
  "fst (verify_login kd now w s i pw) = s \<or>
   fst (verify_login kd now w s i pw) = fst (record_failed_login now w s i) \<or>
   fst (verify_login kd now w s i pw) = fst (record_successful_login now w s i)"
  by (auto simp: verify_login_def Let_def split: option.split)

lemma create_state:
  assumes "s' = fst (create_credential kd salt now None s i email phone pw)"
  shows "s' = s \<or> i \<notin> set (dkeys (cs_credentials s)) \<and>
    cs_credentials s' = dset (cs_credentials s) i (new_credential kd salt now i email phone pw) \<and>
    cs_file s' = saved_table (credential_to_dict True) (cs_credentials s')"
  using assms by (simp add: create_credential_def case_prod_unfold Let_def cs_save_simps)

lemma creds_inv_step:
  assumes "creds_inv s" "persisted e"
  shows "creds_inv (credential_step kd s e)"
proof (cases e)
  case (CreateCredential salt now w i email phone pw)
  let ?c = "new_credential kd salt now i email phone pw"
  define s' where "s' = fst (create_credential kd salt now None s i email phone pw)"
  from create_state [OF s'_def] consider "s' = s"
    | "cs_credentials s' = dset (cs_credentials s) i ?c"
      "cs_file s' = saved_table (credential_to_dict True) (cs_credentials s')" by blast
  then have "creds_inv s'"
  proof cases
    case 2
    have "counts_ok s'"
      unfolding counts_ok_def 2(1)
      using assms(1) counts_ok_dset [of "cs_credentials s" _ ?c i]
      by (simp add: creds_inv_def counts_ok_def new_credential_def)
    with saved_agrees [OF 2(2)] show ?thesis by (simp add: creds_inv_def)
  qed (simp add: assms(1))
  with CreateCredential assms(2) show ?thesis by (simp add: s'_def)
next
  case (Login now w i pw)
  then have w: "w = None" using assms(2) by simp
  have "creds_inv (fst (record_failed_login now w s i))"
    unfolding record_failed_login_def
    by (rule creds_inv_changed [OF assms(1) w]) (simp add: MAX_FAILED_LOGIN_ATTEMPTS_def Let_def)
  moreover have "creds_inv (fst (record_successful_login now w s i))"
    unfolding record_successful_login_def by (rule creds_inv_changed [OF assms(1) w]) simp
  ultimately show ?thesis using login_state [of kd now w s i pw] assms(1) Login by auto
next
  case (Unlock now w i)
  then show ?thesis
    using assms(2) creds_inv_changed [OF assms(1)] by (simp add: unlock_credential_def)
next
  case RestartCredentials
  note r = restart_agrees [OF assms(1) [unfolded creds_inv_def, THEN conjunct2]]
  let ?s = "open_credentials (cs_file s)"
  have "dwf (cs_credentials ?s)"
    using assms(1) creds_core_eq(1) [OF r(1)] by (simp add: creds_inv_def counts_ok_def dwf_def)
  moreover have "0 \<le> cr_failed_login_count c \<and> (5 \<le> cr_failed_login_count c \<longrightarrow> cr_locked c)"
    if "(k, c) \<in> set (cs_credentials ?s)" for k c
  proof -
    have "dget (cs_credentials ?s) k = Some c" using calculation that by (simp add: dget_iff_in)
    with creds_core_eq(2) [OF r(1), of k] obtain d
      where d: "dget (cs_credentials s) k = Some d" "core_credential c = core_credential d"
      by (cases "dget (cs_credentials s) k") auto
    with core_credential_count [OF d(2)] counts_ok_dget [OF _ d(1)] assms(1) show ?thesis
      by (simp add: creds_inv_def)
  qed
  ultimately show ?thesis using r(2) RestartCredentials by (auto simp: creds_inv_def counts_ok_def)
qed

text \<open>The store as a machine, on the requests whose write succeeds.\<close>

definition persisted_step :: "kdf \<Rightarrow> credential_store \<Rightarrow> credential_request \<Rightarrow> credential_store" where
  "persisted_step kd s e = (if persisted e then credential_step kd s e else s)"

interpretation credentials: machine "persisted_step kd"
  "\<lambda>s. cs_file s = FileMissing \<and> cs_credentials s = []" creds_inv for kd
proof unfold_locales
  show "creds_inv s" if "cs_file s = FileMissing \<and> cs_credentials s = []" for s
    using that by (simp add: creds_inv_def counts_ok_def creds_agree_def)
  show "creds_inv (persisted_step kd s e)" if "creds_inv s" for s e
    using that by (simp add: persisted_step_def creds_inv_step)
qed

lemma run_persisted:
  "list_all persisted es \<Longrightarrow> run_events (persisted_step kd) s es = run_events (credential_step kd) s es"
  by (induction es arbitrary: s) (simp_all add: persisted_step_def)

text \<open>One request adds its wrong guess to the count of failures of \<open>p\<close>.\<close>

lemma guess_counts:
  assumes "creds_inv s" "persisted e" "\<not> unlocks p e" "\<not> logged_in kd p s e"
    and c: "dget (cs_credentials s) p = Some c"
  shows "\<exists>d. dget (cs_credentials (credential_step kd s e)) p = Some d \<and>
    cr_failed_login_count d = cr_failed_login_count c + (if wrong_guess kd p s e then 1 else 0) \<and>
    (wrong_guess kd p s e \<longrightarrow> cr_failed_login_count c < 5) \<and> (cr_locked c \<longrightarrow> cr_locked d)"
proof (cases e)
  case (CreateCredential salt now w i email phone pw)
  then have "fst (create_credential kd salt now None s i email phone pw) = s \<or>
      i \<noteq> p \<and> cs_credentials (fst (create_credential kd salt now None s i email phone pw)) =
        dset (cs_credentials s) i (new_credential kd salt now i email phone pw)"
    using create_state [of _ kd salt now s i email phone pw] dget_Some_key [OF c] by blast
  with CreateCredential assms(2) c show ?thesis by auto
next
  case (Login now w i pw)
  show ?thesis
  proof (cases "i = p")
    case False
    with Login login_other [of p i kd now w s pw] c show ?thesis by simp
  next
    case True
    have nok: "\<not> ao_ok (snd (verify_login kd now w s p pw))" using assms(4) Login True by simp
    have known: "p \<in> set (dkeys (cs_credentials s))" by (rule dget_Some_key [OF c])
    show ?thesis
    proof (cases "cr_locked c")
      case lk: True
      then have "fst (verify_login kd now w s p pw) = s" by (simp add: verify_login_def c)
      moreover have "\<not> wrong_guess kd p s e"
        using Login True login_errors [OF c, of kd now w pw] lk by simp
      ultimately show ?thesis using Login True c login_errors [OF c, of kd now w pw] lk by simp
    next
      case open': False
      with nok c have bad: "kd pw (cr_password_salt c) (cr_password_iterations c) \<noteq> cr_password_hash c"
        by (simp add: login_succeeds_iff)
      then have st: "fst (verify_login kd now w s p pw) = fst (record_failed_login now w s p)"
        using open' by (simp add: verify_login_def verify_password_def c)
      have g: "wrong_guess kd p s e"
        using Login True known login_errors [OF c, of kd now w pw] open' bad by simp
      have "cr_failed_login_count c < 5"
        using counts_ok_dget [OF _ c] assms(1) open' by (auto simp: creds_inv_def)
      then show ?thesis
        using Login True st g c
        by (simp add: record_failed_login_def change_credential_state Let_def)
    qed
  qed
next
  case (Unlock now w i)
  with assms(3) have "i \<noteq> p" by simp
  then have "dget (cs_credentials (fst (unlock_credential now w s i))) p = Some c"
    using c by (simp add: unlock_credential_def change_credential_state split: option.split)
  with Unlock show ?thesis by simp
next
  case RestartCredentials
  have "creds_agree s" using assms(1) by (simp add: creds_inv_def)
  from creds_core_eq(2) [OF restart_agrees(1) [OF this], of p] c
  obtain d where d: "dget (cs_credentials (open_credentials (cs_file s))) p = Some d"
    "core_credential d = core_credential c"
    by (cases "dget (cs_credentials (open_credentials (cs_file s))) p") auto
  with core_credential_count [OF d(2)] RestartCredentials show ?thesis by auto
qed

lemma guesses_bounded:
  assumes "creds_inv s" "list_all persisted es" "never_opened kd p s es"
    and "dget (cs_credentials s) p = Some c"
  shows "\<exists>d. dget (cs_credentials (run_events (credential_step kd) s es)) p = Some d \<and>
    cr_failed_login_count d = cr_failed_login_count c + int (wrong_guesses kd p s es) \<and>
    int (wrong_guesses kd p s es) \<le> max 0 (5 - cr_failed_login_count c) \<and>
    (5 \<le> cr_failed_login_count d \<longrightarrow> cr_locked d)"
  using assms
proof (induction es arbitrary: s c)
  case Nil
  with counts_ok_dget [of s p c] show ?case by (simp add: creds_inv_def)
next
  case (Cons e es)
  let ?s = "credential_step kd s e"
  obtain d where d: "dget (cs_credentials ?s) p = Some d"
    "cr_failed_login_count d = cr_failed_login_count c + (if wrong_guess kd p s e then 1 else 0)"
    "wrong_guess kd p s e \<longrightarrow> cr_failed_login_count c < 5"
    using guess_counts [of s e p kd c] Cons.prems by auto
  have "creds_inv ?s" using Cons.prems creds_inv_step by simp
  from Cons.IH [OF this _ _ d(1)] Cons.prems
  obtain d' where d': "dget (cs_credentials (run_events (credential_step kd) ?s es)) p = Some d'"
    "cr_failed_login_count d' = cr_failed_login_count d + int (wrong_guesses kd p ?s es)"
    "int (wrong_guesses kd p ?s es) \<le> max 0 (5 - cr_failed_login_count d)"
    "5 \<le> cr_failed_login_count d' \<longrightarrow> cr_locked d'" by auto
  with d show ?case by auto
qed

text \<open>C16. A password cannot be guessed: between two successful logins or unlocks at most five passwords
  are compared with the hash of an account, whatever other accounts, new accounts and restarts come
  between, as long as every write succeeds; and after the fifth no password opens the account.\<close>

theorem password_guesses_bounded:
  assumes "s0 = \<lparr>cs_file = FileMissing, cs_credentials = []\<rparr>"
    and "list_all persisted (es0 @ es)" and "s = run_events (credential_step kd) s0 es0"
    and "p \<in> set (dkeys (cs_credentials s))" and "never_opened kd p s es"
  shows "wrong_guesses kd p s es \<le> 5 \<and>
    (wrong_guesses kd p s es = 5 \<longrightarrow>
       \<not> ao_ok (snd (verify_login kd now w (run_events (credential_step kd) s es) p pw)))"
proof -
  have "creds_inv (run_events (persisted_step kd) s0 es0)"
    by (rule credentials.run_from_start) (simp add: assms(1))
  then have inv: "creds_inv s" using assms(2,3) by (simp add: run_persisted)
  obtain c where c: "dget (cs_credentials s) p = Some c"
    using assms(4) dget_None_iff [of "cs_credentials s" p] by auto
  have nonneg: "0 \<le> cr_failed_login_count c"
    using counts_ok_dget [OF _ c] inv by (simp add: creds_inv_def)
  obtain d where d: "dget (cs_credentials (run_events (credential_step kd) s es)) p = Some d"
    "cr_failed_login_count d = cr_failed_login_count c + int (wrong_guesses kd p s es)"
    "int (wrong_guesses kd p s es) \<le> max 0 (5 - cr_failed_login_count c)"
    "5 \<le> cr_failed_login_count d \<longrightarrow> cr_locked d"
    using guesses_bounded [OF inv _ assms(5) c] assms(2) by auto
  have "\<not> ao_ok (snd (verify_login kd now w (run_events (credential_step kd) s es) p pw))"
    if "wrong_guesses kd p s es = 5"
    using that d nonneg by (simp add: login_succeeds_iff)
  moreover have "wrong_guesses kd p s es \<le> 5" using d(3) nonneg by linarith
  ultimately show ?thesis by blast
qed

definition toy_kdf :: kdf where
  "toy_kdf pw salt n = salt @ pw"

definition ann_account :: "credential_request list" where
  "ann_account = [CreateCredential ''salt'' 1 None ''ann'' ''a@x.y'' ''123456'' ''s3cretpass'']"

definition ann_guesses :: "credential_request list" where
  "ann_guesses =
     [Login 2 None ''ann'' ''a1'', Login 3 None ''bob'' ''b'', Login 4 None ''ann'' ''a2'',
      RestartCredentials, Login 5 None ''ann'' ''a3'', Login 6 None ''ann'' ''a4'',
      Login 7 None ''ann'' ''a5'', RestartCredentials, Login 8 None ''ann'' ''s3cretpass'']"

theorem password_guesses_bounded_witness:
  "let s = run_events (credential_step toy_kdf) \<lparr>cs_file = FileMissing, cs_credentials = []\<rparr> ann_account
   in wrong_guesses toy_kdf ''ann'' s ann_guesses = 5 \<and>
      \<not> ao_ok (snd (verify_login toy_kdf 9 None (run_events (credential_step toy_kdf) s ann_guesses)
          ''ann'' ''s3cretpass''))"
proof -
  let ?s = "run_events (credential_step toy_kdf) \<lparr>cs_file = FileMissing, cs_credentials = []\<rparr> ann_account"
  have five: "wrong_guesses toy_kdf ''ann'' ?s ann_guesses = 5" by code_simp
  have "wrong_guesses toy_kdf ''ann'' ?s ann_guesses \<le> 5 \<and>
      (wrong_guesses toy_kdf ''ann'' ?s ann_guesses = 5 \<longrightarrow>
       \<not> ao_ok (snd (verify_login toy_kdf 9 None (run_events (credential_step toy_kdf) ?s ann_guesses)
          ''ann'' ''s3cretpass'')))"
  proof (rule password_guesses_bounded [OF refl _ refl])
    show "list_all persisted (ann_account @ ann_guesses)"
      by (simp add: ann_account_def ann_guesses_def)
    show "''ann'' \<in> set (dkeys (cs_credentials ?s))" by code_simp
    show "never_opened toy_kdf ''ann'' ?s ann_guesses" by code_simp
  qed
  with five show ?thesis by (simp add: Let_def)
qed

text \<open>The bound rests on the writes. When they fail, a login still answers, and a restart forgets
  the failures: eight wrong passwords are compared, and the right one then succeeds although its
  success is not recorded on disk.\<close>

theorem unsaved_failures_are_forgotten:
  "let s = run_events (credential_step toy_kdf) \<lparr>cs_file = FileMissing, cs_credentials = []\<rparr> ann_account;
       four = map (\<lambda>pw. Login 2 (Some ''disk full'') ''ann'' pw) [''a1'', ''a2'', ''a3'', ''a4''];
       es = four @ [RestartCredentials] @ four @ [RestartCredentials];
       s' = run_events (credential_step toy_kdf) s es
   in wrong_guesses toy_kdf ''ann'' s es = 8 \<and>
      ao_ok (snd (verify_login toy_kdf 3 (Some ''disk full'') s' ''ann'' ''s3cretpass'')) \<and>
      cs_file (fst (verify_login toy_kdf 3 (Some ''disk full'') s' ''ann'' ''s3cretpass'')) = cs_file s"
  by code_simp

text \<open>A credentials file that cannot be parsed opens as an empty store, and the next account created
  overwrites it: every account it held is gone.\<close>

theorem broken_file_is_overwritten:
  assumes "strip i \<noteq> []" and "check_password_strength pw = []"
  shows "cs_file (fst (create_credential kd salt now None (open_credentials (FileNotJson msg)) i email phone pw)) =
    saved_table (credential_to_dict True) [(i, new_credential kd salt now i email phone pw)]"
  using assms
  by (simp add: open_credentials_def cs_reload_def create_credential_def case_prod_unfold Let_def cs_save_simps)

theorem broken_file_is_overwritten_witness:
  "cs_file (fst (create_credential toy_kdf ''salt'' 1 None (open_credentials (FileNotJson ''bad'')) ''ann''
      ''a@x.y'' ''123456'' ''s3cretpass'')) =
    saved_table (credential_to_dict True)
      [(''ann'', new_credential toy_kdf ''salt'' 1 ''ann'' ''a@x.y'' ''123456'' ''s3cretpass'')]"
  by (rule broken_file_is_overwritten) code_simp+

text \<open>An unknown account always gets the generic error; a known one that was locked says so.\<close>

theorem lock_reveals_account:
  "(i \<notin> set (dkeys (cs_credentials s)) \<longrightarrow>
     ao_errors (snd (verify_login kd now w s i pw)) = [''invalid_credentials'']) \<and>
   ao_errors (snd (verify_login toy_kdf 9 None (run_events (credential_step toy_kdf)
       \<lparr>cs_file = FileMissing, cs_credentials = []\<rparr> (ann_account @ ann_guesses)) ''ann'' ''guess'')) =
     [''account_locked'']"
proof
  show "i \<notin> set (dkeys (cs_credentials s)) \<longrightarrow>
      ao_errors (snd (verify_login kd now w s i pw)) = [''invalid_credentials'']"
    using dget_None_iff [of "cs_credentials s" i]
    by (auto simp: verify_login_def op_failed_def op_result_def Let_def)
qed code_simp

end
