(* ===== verification/Sessions.thy ===== *)
theory Sessions
  imports Credentials
begin

text \<open>
  \<^verbatim>\<open>igris/core/interlocutor_auth.py\<close>, the sessions and the pending enrollments: tokens that are
  returned once and kept as hashes, with a time to live. The new token, the id, the hash function, the
  clock (read once in an operation) and the outcome of a write are arguments.
\<close>

type_synonym token_hash = "string \<Rightarrow> string"

definition SESSION_TTL_SECONDS :: pyfloat where "SESSION_TTL_SECONDS = 28800"
definition ENROLLMENT_TTL_SECONDS :: pyfloat where "ENROLLMENT_TTL_SECONDS = 600"

text \<open>A time that cannot be parsed counts as expired.\<close>

definition iso_expired :: "pyfloat \<Rightarrow> pyfloat option \<Rightarrow> bool" where
  "iso_expired now expires_at = (case expires_at of None \<Rightarrow> True | Some e \<Rightarrow> e \<le> now)"

section \<open>Sessions\<close>

record auth_session =
  se_session_id :: string
  se_token_hash :: string
  se_profile_id :: string
  se_created_at :: "pyfloat option"
  se_expires_at :: "pyfloat option"
  se_last_seen_at :: "pyfloat option"
  se_revoked :: bool
  se_ip_hint :: string
  se_user_agent_hint :: string
  se_metadata :: pyval

text \<open>A stored session is redacted throughout, its profile id included.\<close>

definition session_to_dict :: "auth_session \<Rightarrow> auth_session" where
  "session_to_dict e = e
     \<lparr>se_session_id := redact (se_session_id e), se_token_hash := redact (se_token_hash e),
      se_profile_id := redact (se_profile_id e), se_ip_hint := redact (se_ip_hint e),
      se_user_agent_hint := redact (se_user_agent_hint e), se_metadata := redact_nested (se_metadata e)\<rparr>"

record session_manager =
  sm_file :: "auth_session store_file"
  sm_sessions :: "(string, auth_session) dict"
  sm_ttl_seconds :: pyfloat
  sm_sliding_window :: bool

definition sm_save :: "write_outcome \<Rightarrow> session_manager \<Rightarrow> session_manager \<times> auth_op_result" where
  "sm_save w s =
     (let r = op_result ''save_sessions'' []
      in case w of
           Some msg \<Rightarrow> (s, op_failed r [''sessions save failed: '' @ msg])
         | None \<Rightarrow>
             (s\<lparr>sm_file := saved_table session_to_dict (sm_sessions s)\<rparr>,
              (op_ok r)\<lparr>ao_metadata := [(''saved_count'', int (length (sm_sessions s)))]\<rparr>))"

definition sm_reload :: "session_manager \<Rightarrow> session_manager \<times> auth_op_result" where
  "sm_reload s =
     (let r = op_result ''reload_sessions'' []
      in case sm_file s of
           FileMissing \<Rightarrow> (s\<lparr>sm_sessions := []\<rparr>, (op_ok r)\<lparr>ao_warnings := [''storage_file_missing'']\<rparr>)
         | FileUnreadable msg \<Rightarrow> (s, op_failed r [''read failed: '' @ msg])
         | FileNotJson msg \<Rightarrow> (s, op_failed r [''invalid json: '' @ msg])
         | FileNotDict \<Rightarrow> (s\<lparr>sm_sessions := []\<rparr>, op_failed r [''sessions root is not a dict''])
         | TableNotDict \<Rightarrow> (s\<lparr>sm_sessions := []\<rparr>, (op_ok r)\<lparr>ao_warnings := [''sessions_not_dict'']\<rparr>)
         | Table m \<Rightarrow>
             (s\<lparr>sm_sessions := table_of m\<rparr>,
              (op_ok r)\<lparr>ao_metadata := [(''loaded_count'', int (length (table_of m)))],
                ao_warnings := (if skipped_of m \<noteq> 0
                  then [''skipped_'' @ nat_str (skipped_of m) @ ''_invalid_sessions''] else [])\<rparr>))"

definition open_sessions :: "pyfloat \<Rightarrow> bool \<Rightarrow> auth_session store_file \<Rightarrow> session_manager" where
  "open_sessions ttl sliding f =
     (let s = \<lparr>sm_file = f, sm_sessions = [], sm_ttl_seconds = ttl, sm_sliding_window = sliding\<rparr>
      in if f = FileMissing then s else fst (sm_reload s))"

definition create_session ::
    "token_hash \<Rightarrow> string \<Rightarrow> string \<Rightarrow> pyfloat \<Rightarrow> write_outcome \<Rightarrow> session_manager \<Rightarrow> string \<Rightarrow> string \<Rightarrow>
     string \<Rightarrow> session_manager \<times> auth_op_result"
where
  "create_session sha raw_token session_id now w s profile_id ip_hint user_agent_hint =
     (let r = op_result ''create_session'' profile_id
      in if strip profile_id = [] then (s, op_failed r [''profile_id_required''])
         else
           let h = sha raw_token; expires = now + sm_ttl_seconds s;
               session = \<lparr>se_session_id = session_id, se_token_hash = h, se_profile_id = profile_id,
                 se_created_at = Some now, se_expires_at = Some expires, se_last_seen_at = Some now,
                 se_revoked = False, se_ip_hint = ip_hint, se_user_agent_hint = user_agent_hint,
                 se_metadata = PDict []\<rparr>;
               (s1, save_r) = sm_save w (s\<lparr>sm_sessions := dset (sm_sessions s) h session\<rparr>)
           in if \<not> ao_ok save_r then
                (s1\<lparr>sm_sessions := ddel (sm_sessions s1) h\<rparr>,
                 op_failed r (ao_errors save_r @ [''persist_failed_rollback'']))
              else
                (s1, (op_ok r)\<lparr>ao_session_token := raw_token, ao_session_id := session_id,
                       ao_expires_at := Some expires\<rparr>))"

definition touch_session :: "pyfloat \<Rightarrow> session_manager \<Rightarrow> auth_session \<Rightarrow> auth_session" where
  "touch_session now s e =
     e\<lparr>se_last_seen_at := Some now,
       se_expires_at := (if sm_sliding_window s then Some (now + sm_ttl_seconds s) else se_expires_at e)\<rparr>"

definition resolve_session ::
    "token_hash \<Rightarrow> pyfloat \<Rightarrow> write_outcome \<Rightarrow> session_manager \<Rightarrow> string \<Rightarrow>
     session_manager \<times> auth_session option \<times> auth_op_result"
where
  "resolve_session sha now w s session_token =
     (let r = op_result ''resolve_session'' []; h = sha session_token
      in case dget (sm_sessions s) h of
           None \<Rightarrow> (s, None, op_failed r [''session_not_found''])
         | Some e \<Rightarrow>
             if se_revoked e then (s, None, op_failed r [''session_revoked''])
             else if iso_expired now (se_expires_at e) then (s, None, op_failed r [''session_expired''])
             else
               let e1 = touch_session now s e;
                   (s1, save_r) = sm_save w (s\<lparr>sm_sessions := dset (sm_sessions s) h e1\<rparr>);
                   r1 = (if \<not> ao_ok save_r
                     then r\<lparr>ao_warnings := ao_errors save_r @ [''session_touch_persist_failed'']\<rparr> else r)
               in (s1, Some e1,
                   (op_ok r1)\<lparr>ao_profile_id := se_profile_id e1, ao_session_id := se_session_id e1,
                      ao_expires_at := se_expires_at e1\<rparr>))"

definition revoke_session ::
    "token_hash \<Rightarrow> write_outcome \<Rightarrow> session_manager \<Rightarrow> string \<Rightarrow> session_manager \<times> auth_op_result" where
  "revoke_session sha w s session_token =
     (let r = op_result ''revoke_session'' []; h = sha session_token
      in case dget (sm_sessions s) h of
           None \<Rightarrow> (s, op_failed r [''session_not_found''])
         | Some e \<Rightarrow>
             let (s1, save_r) = sm_save w (s\<lparr>sm_sessions := dset (sm_sessions s) h (e\<lparr>se_revoked := True\<rparr>)\<rparr>)
             in if \<not> ao_ok save_r then (s1, op_failed r (ao_errors save_r))
                else (s1, (op_ok r)\<lparr>ao_session_id := se_session_id e\<rparr>))"

definition revoke_all_for_profile ::
    "write_outcome \<Rightarrow> session_manager \<Rightarrow> string \<Rightarrow> session_manager \<times> auth_op_result" where
  "revoke_all_for_profile w s profile_id =
     (let r = op_result ''revoke_all_for_profile'' profile_id;
          hit = (\<lambda>e. se_profile_id e = profile_id \<and> \<not> se_revoked e);
          count = length (filter (\<lambda>(h, e). hit e) (sm_sessions s));
          (s1, save_r) = sm_save w (s\<lparr>sm_sessions :=
            map (\<lambda>(h, e). (h, if hit e then e\<lparr>se_revoked := True\<rparr> else e)) (sm_sessions s)\<rparr>)
      in if \<not> ao_ok save_r then (s1, op_failed r (ao_errors save_r))
         else (s1, (op_ok r)\<lparr>ao_metadata := [(''revoked_count'', int count)]\<rparr>))"

definition session_live :: "pyfloat \<Rightarrow> auth_session \<Rightarrow> bool" where
  "session_live now e \<longleftrightarrow> \<not> se_revoked e \<and> \<not> iso_expired now (se_expires_at e)"

definition gc_sessions :: "pyfloat \<Rightarrow> write_outcome \<Rightarrow> session_manager \<Rightarrow> session_manager \<times> auth_op_result" where
  "gc_sessions now w s =
     (let r = op_result ''gc_expired'' [];
          kept = filter (\<lambda>(h, e). session_live now e) (sm_sessions s);
          (s1, save_r) = sm_save w (s\<lparr>sm_sessions := kept\<rparr>)
      in if \<not> ao_ok save_r then (s1, op_failed r (ao_errors save_r))
         else (s1, (op_ok r)\<lparr>ao_metadata :=
                [(''removed_count'', int (length (sm_sessions s)) - int (length kept)),
                 (''remaining_count'', int (length kept))]\<rparr>))"

definition sessions_health :: "pyfloat \<Rightarrow> session_manager \<Rightarrow> store_health" where
  "sessions_health now s =
     \<lparr>he_exists = (sm_file s \<noteq> FileMissing), he_count = length (sm_sessions s),
      he_other_count = length (filter (\<lambda>(h, e). session_live now e) (sm_sessions s))\<rparr>"

section \<open>Pending enrollments\<close>

record pending_enrollment =
  pe_enrollment_id :: string
  pe_token_hash :: string
  pe_profile_id :: string
  pe_first_name :: string
  pe_last_name :: string
  pe_email :: string
  pe_mobile_phone :: string
  pe_created_at :: "pyfloat option"
  pe_expires_at :: "pyfloat option"
  pe_used :: bool
  pe_metadata :: pyval

definition enrollment_to_dict :: "bool \<Rightarrow> pending_enrollment \<Rightarrow> pending_enrollment" where
  "enrollment_to_dict include_sensitive e =
     (if include_sensitive then e\<lparr>pe_metadata := redact_nested (pe_metadata e)\<rparr>
      else e\<lparr>pe_metadata := redact_nested (pe_metadata e), pe_email := redact_email (pe_email e),
             pe_mobile_phone := redact_phone (pe_mobile_phone e)\<rparr>)"

record enrollment_store =
  en_file :: "pending_enrollment store_file"
  en_enrollments :: "(string, pending_enrollment) dict"
  en_ttl_seconds :: pyfloat

definition en_save :: "write_outcome \<Rightarrow> enrollment_store \<Rightarrow> enrollment_store \<times> auth_op_result" where
  "en_save w s =
     (let r = op_result ''save_enrollments'' []
      in case w of
           Some msg \<Rightarrow> (s, op_failed r [''enrollments save failed: '' @ msg])
         | None \<Rightarrow>
             (s\<lparr>en_file := saved_table (enrollment_to_dict True) (en_enrollments s)\<rparr>,
              (op_ok r)\<lparr>ao_metadata := [(''saved_count'', int (length (en_enrollments s)))]\<rparr>))"

definition en_reload :: "enrollment_store \<Rightarrow> enrollment_store \<times> auth_op_result" where
  "en_reload s =
     (let r = op_result ''reload_enrollments'' []
      in case en_file s of
           FileMissing \<Rightarrow> (s\<lparr>en_enrollments := []\<rparr>, (op_ok r)\<lparr>ao_warnings := [''storage_file_missing'']\<rparr>)
         | FileUnreadable msg \<Rightarrow> (s, op_failed r [''read failed: '' @ msg])
         | FileNotJson msg \<Rightarrow> (s, op_failed r [''invalid json: '' @ msg])
         | FileNotDict \<Rightarrow> (s, op_failed r [''enrollments root is not a dict''])
         | TableNotDict \<Rightarrow>
             (s\<lparr>en_enrollments := []\<rparr>, (op_ok r)\<lparr>ao_warnings := [''enrollments_not_dict'']\<rparr>)
         | Table m \<Rightarrow>
             (s\<lparr>en_enrollments := table_of m\<rparr>,
              (op_ok r)\<lparr>ao_metadata := [(''loaded_count'', int (length (table_of m)))],
                ao_warnings := (if skipped_of m \<noteq> 0
                  then [''skipped_'' @ nat_str (skipped_of m) @ ''_invalid_enrollments''] else [])\<rparr>))"

definition open_enrollments :: "pyfloat \<Rightarrow> pending_enrollment store_file \<Rightarrow> enrollment_store" where
  "open_enrollments ttl f =
     (let s = \<lparr>en_file = f, en_enrollments = [], en_ttl_seconds = ttl\<rparr>
      in if f = FileMissing then s else fst (en_reload s))"

definition create_pending ::
    "token_hash \<Rightarrow> string \<Rightarrow> string \<Rightarrow> pyfloat \<Rightarrow> write_outcome \<Rightarrow> enrollment_store \<Rightarrow> string \<Rightarrow> string \<Rightarrow>
     string \<Rightarrow> string \<Rightarrow> string \<Rightarrow> enrollment_store \<times> auth_op_result"
where
  "create_pending sha raw_token enrollment_id now w s profile_id first_name last_name email mobile_phone =
     (let r = op_result ''create_pending_enrollment'' profile_id
      in if profile_id = [] then (s, op_failed r [''profile_id_required''])
         else
           let h = sha raw_token; expires = now + en_ttl_seconds s;
               enrollment = \<lparr>pe_enrollment_id = enrollment_id, pe_token_hash = h,
                 pe_profile_id = profile_id, pe_first_name = first_name, pe_last_name = last_name,
                 pe_email = email, pe_mobile_phone = mobile_phone, pe_created_at = Some now,
                 pe_expires_at = Some expires, pe_used = False, pe_metadata = PDict []\<rparr>;
               (s1, save_r) = en_save w (s\<lparr>en_enrollments := dset (en_enrollments s) h enrollment\<rparr>)
           in if \<not> ao_ok save_r then
                (s1\<lparr>en_enrollments := ddel (en_enrollments s1) h\<rparr>,
                 op_failed r (ao_errors save_r @ [''persist_failed_rollback'']))
              else
                (s1, (op_ok r)\<lparr>ao_session_token := raw_token, ao_session_id := enrollment_id,
                       ao_expires_at := Some expires\<rparr>))"

definition resolve_token ::
    "token_hash \<Rightarrow> pyfloat \<Rightarrow> enrollment_store \<Rightarrow> string \<Rightarrow> pending_enrollment option \<times> auth_op_result" where
  "resolve_token sha now s enrollment_token =
     (let r = op_result ''resolve_enrollment_token'' []
      in case dget (en_enrollments s) (sha enrollment_token) of
           None \<Rightarrow> (None, op_failed r [''enrollment_token_not_found''])
         | Some e \<Rightarrow>
             if pe_used e then (None, op_failed r [''enrollment_token_already_used''])
             else if iso_expired now (pe_expires_at e) then
               (None, op_failed r [''enrollment_token_expired''])
             else (Some e, (op_ok r)\<lparr>ao_profile_id := pe_profile_id e\<rparr>))"

definition mark_used ::
    "token_hash \<Rightarrow> write_outcome \<Rightarrow> enrollment_store \<Rightarrow> string \<Rightarrow> enrollment_store \<times> auth_op_result" where
  "mark_used sha w s enrollment_token =
     (let r = op_result ''mark_enrollment_used'' []; h = sha enrollment_token
      in case dget (en_enrollments s) h of
           None \<Rightarrow> (s, op_failed r [''enrollment_not_found''])
         | Some e \<Rightarrow>
             let (s1, save_r) = en_save w
                   (s\<lparr>en_enrollments := dset (en_enrollments s) h (e\<lparr>pe_used := True\<rparr>)\<rparr>)
             in if \<not> ao_ok save_r then (s1, op_failed r (ao_errors save_r)) else (s1, op_ok r))"

definition gc_enrollments ::
    "pyfloat \<Rightarrow> write_outcome \<Rightarrow> enrollment_store \<Rightarrow> enrollment_store \<times> auth_op_result" where
  "gc_enrollments now w s =
     (let r = op_result ''gc_expired_enrollments'' [];
          kept = filter (\<lambda>(h, e). \<not> pe_used e \<and> \<not> iso_expired now (pe_expires_at e)) (en_enrollments s);
          (s1, save_r) = en_save w (s\<lparr>en_enrollments := kept\<rparr>)
      in if \<not> ao_ok save_r then (s1, op_failed r (ao_errors save_r))
         else (s1, (op_ok r)\<lparr>ao_metadata :=
                [(''removed_count'', int (length (en_enrollments s)) - int (length kept))]\<rparr>))"

definition enrollments_health :: "pyfloat \<Rightarrow> enrollment_store \<Rightarrow> store_health" where
  "enrollments_health now s =
     \<lparr>he_exists = (en_file s \<noteq> FileMissing), he_count = length (en_enrollments s),
      he_other_count = length (filter (\<lambda>(h, e). \<not> pe_used e \<and> \<not> iso_expired now (pe_expires_at e))
        (en_enrollments s))\<rparr>"

section \<open>Which tokens resolve\<close>

text \<open>When a session token resolves: exactly when its hash has a session that is neither revoked nor
  expired, whether the use can be recorded or not; with a sliding window the session then lives for
  the full time again.\<close>

theorem session_resolves_iff:
  "let (s', e, r) = resolve_session sha now w s tok
   in (ao_ok r \<longleftrightarrow> (\<exists>x. dget (sm_sessions s) (sha tok) = Some x \<and> session_live now x)) \<and>
      (ao_ok r \<longleftrightarrow> e \<noteq> None) \<and>
      (if ao_ok r then dget (sm_sessions s') (sha tok) = e \<and>
         (sm_sliding_window s \<longrightarrow> map_option se_expires_at e = Some (Some (now + sm_ttl_seconds s)))
       else s' = s)"
  by (auto simp: resolve_session_def session_live_def sm_save_def op_failed_def op_ok_def op_result_def
      touch_session_def Let_def split: option.split)

text \<open>An enrollment token resolves exactly when its hash has an unused enrollment in its time.\<close>

lemma enrollment_resolves_iff:
  "ao_ok (snd (resolve_token sha now s tok)) \<longleftrightarrow>
     (\<exists>e. dget (en_enrollments s) (sha tok) = Some e \<and> \<not> pe_used e \<and> \<not> iso_expired now (pe_expires_at e))"
  "fst (resolve_token sha now s tok) = Some e \<longleftrightarrow>
     dget (en_enrollments s) (sha tok) = Some e \<and> \<not> pe_used e \<and> \<not> iso_expired now (pe_expires_at e)"
  by (auto simp: resolve_token_def op_failed_def op_ok_def op_result_def Let_def split: option.split)

section \<open>Requests to the session manager\<close>

datatype session_request =
    CreateSession string string pyfloat write_outcome string string string
  | ResolveSession pyfloat write_outcome string
  | RevokeSession write_outcome string
  | RevokeAll write_outcome string
  | GcSessions pyfloat write_outcome
  | RestartSessions

fun session_step :: "token_hash \<Rightarrow> session_manager \<Rightarrow> session_request \<Rightarrow> session_manager" where
  "session_step sha s (CreateSession tok i now w p ip ua) = fst (create_session sha tok i now w s p ip ua)"
| "session_step sha s (ResolveSession now w tok) = fst (resolve_session sha now w s tok)"
| "session_step sha s (RevokeSession w tok) = fst (revoke_session sha w s tok)"
| "session_step sha s (RevokeAll w p) = fst (revoke_all_for_profile w s p)"
| "session_step sha s (GcSessions now w) = fst (gc_sessions now w s)"
| "session_step sha s RestartSessions = open_sessions (sm_ttl_seconds s) (sm_sliding_window s) (sm_file s)"

definition stored_sessions :: "auth_session store_file \<Rightarrow> (string, auth_session) dict" where
  "stored_sessions f = (case f of Table m \<Rightarrow> table_of m | _ \<Rightarrow> [])"

lemma stored_saved: "stored_sessions (saved_table f m) = map (\<lambda>(k, e). (k, f e)) m"
  by (simp add: stored_sessions_def saved_table_def)

lemma open_sessions_stored:
  "sm_sessions (open_sessions ttl sl f) = stored_sessions f" "sm_file (open_sessions ttl sl f) = f"
  "sm_ttl_seconds (open_sessions ttl sl f) = ttl" "sm_sliding_window (open_sessions ttl sl f) = sl"
  by (cases f; simp add: open_sessions_def sm_reload_def stored_sessions_def Let_def)+

lemma sm_save_simps:
  "sm_sessions (fst (sm_save w s)) = sm_sessions s"
  "ao_ok (snd (sm_save w s)) \<longleftrightarrow> w = None"
  "sm_file (fst (sm_save w s)) = (if w = None then saved_table session_to_dict (sm_sessions s) else sm_file s)"
  "sm_ttl_seconds (fst (sm_save w s)) = sm_ttl_seconds s"
  "sm_sliding_window (fst (sm_save w s)) = sm_sliding_window s"
  by (auto simp: sm_save_def op_failed_def op_ok_def op_result_def Let_def split: option.split)

text \<open>Every request keeps a property of the single sessions, in memory and in the file, if the
  changes of a session and the stored form keep it.\<close>

definition all_sessions :: "(string \<Rightarrow> auth_session \<Rightarrow> bool) \<Rightarrow> session_manager \<Rightarrow> bool" where
  "all_sessions P s \<longleftrightarrow>
     (\<forall>(h, e) \<in> set (sm_sessions s). P h e) \<and> (\<forall>(h, e) \<in> set (stored_sessions (sm_file s)). P h e)"

lemma all_sessions_save:
  assumes "\<forall>(h, e) \<in> set m. P h e" "all_sessions P s" "\<And>h e. P h e \<Longrightarrow> P h (session_to_dict e)"
  shows "all_sessions P (fst (sm_save w (s\<lparr>sm_sessions := m\<rparr>)))"
  using assms by (auto simp: all_sessions_def sm_save_simps stored_saved)

lemma all_sessions_step:
  assumes inv: "all_sessions P s"
    and stored: "\<And>h e. P h e \<Longrightarrow> P h (session_to_dict e)"
    and revoked: "\<And>h e. P h e \<Longrightarrow> P h (e\<lparr>se_revoked := True\<rparr>)"
    and touched: "\<And>h e now w tok. q = ResolveSession now w tok \<Longrightarrow> P h e \<Longrightarrow> \<not> se_revoked e \<Longrightarrow>
      P h (touch_session now s e)"
    and created: "\<And>tok i now w p ip ua. q = CreateSession tok i now w p ip ua \<Longrightarrow>
      P (sha tok) \<lparr>se_session_id = i, se_token_hash = sha tok, se_profile_id = p, se_created_at = Some now,
        se_expires_at = Some (now + sm_ttl_seconds s), se_last_seen_at = Some now, se_revoked = False,
        se_ip_hint = ip, se_user_agent_hint = ua, se_metadata = PDict []\<rparr>"
  shows "all_sessions P (session_step sha s q)"
proof (cases q)
  case (CreateSession tok i now w p ip ua)
  let ?e = "\<lparr>se_session_id = i, se_token_hash = sha tok, se_profile_id = p, se_created_at = Some now,
        se_expires_at = Some (now + sm_ttl_seconds s), se_last_seen_at = Some now, se_revoked = False,
        se_ip_hint = ip, se_user_agent_hint = ua, se_metadata = PDict []\<rparr>"
  let ?s1 = "fst (sm_save w (s\<lparr>sm_sessions := dset (sm_sessions s) (sha tok) ?e\<rparr>))"
  have "\<forall>(h, e) \<in> set (dset (sm_sessions s) (sha tok) ?e). P h e"
    using set_dset_sub [of "sm_sessions s" "sha tok" ?e] inv created [OF CreateSession]
    by (auto simp: all_sessions_def)
  from all_sessions_save [OF this inv stored] have a: "all_sessions P ?s1" .
  then have "all_sessions P (?s1\<lparr>sm_sessions := ddel (sm_sessions ?s1) (sha tok)\<rparr>)"
    using set_ddel_sub [of "sm_sessions ?s1" "sha tok"] by (auto simp: all_sessions_def)
  with a inv CreateSession show ?thesis by (auto simp: create_session_def case_prod_unfold Let_def)
next
  case (ResolveSession now w tok)
  show ?thesis
  proof (cases "\<exists>e. dget (sm_sessions s) (sha tok) = Some e \<and> session_live now e")
    case True
    then obtain e where e: "dget (sm_sessions s) (sha tok) = Some e" "session_live now e" by blast
    have "P (sha tok) (touch_session now s e)"
      using inv e dget_Some_in [OF e(1)] touched [OF ResolveSession, of "sha tok" e]
      by (auto simp: all_sessions_def session_live_def)
    then have "\<forall>(h, e) \<in> set (dset (sm_sessions s) (sha tok) (touch_session now s e)). P h e"
      using set_dset_sub [of "sm_sessions s" "sha tok" "touch_session now s e"] inv
      by (auto simp: all_sessions_def)
    from all_sessions_save [OF this inv stored] show ?thesis
      using e ResolveSession by (simp add: resolve_session_def session_live_def case_prod_unfold Let_def)
  next
    case False
    then have "fst (resolve_session sha now w s tok) = s"
      by (auto simp: resolve_session_def session_live_def Let_def split: option.split)
    with inv ResolveSession show ?thesis by simp
  qed
next
  case (RevokeSession w tok)
  show ?thesis
  proof (cases "dget (sm_sessions s) (sha tok)")
    case None
    with inv RevokeSession show ?thesis by (simp add: revoke_session_def)
  next
    case (Some e)
    have "\<forall>(h, x) \<in> set (dset (sm_sessions s) (sha tok) (e\<lparr>se_revoked := True\<rparr>)). P h x"
      using set_dset_sub [of "sm_sessions s" "sha tok" "e\<lparr>se_revoked := True\<rparr>"] inv dget_Some_in [OF Some]
        revoked [of "sha tok" e] by (auto simp: all_sessions_def)
    from all_sessions_save [OF this inv stored] show ?thesis
      using Some RevokeSession by (simp add: revoke_session_def case_prod_unfold Let_def)
  qed
next
  case (RevokeAll w p)
  have "\<forall>(h, x) \<in> set (map (\<lambda>(h, e). (h, if se_profile_id e = p \<and> \<not> se_revoked e
      then e\<lparr>se_revoked := True\<rparr> else e)) (sm_sessions s)). P h x"
    using inv revoked by (auto simp: all_sessions_def)
  from all_sessions_save [OF this inv stored] show ?thesis
    using RevokeAll by (simp add: revoke_all_for_profile_def case_prod_unfold Let_def)
next
  case (GcSessions now w)
  have "\<forall>(h, x) \<in> set (filter (\<lambda>(h, e). session_live now e) (sm_sessions s)). P h x"
    using inv by (auto simp: all_sessions_def)
  from all_sessions_save [OF this inv stored] show ?thesis
    using GcSessions by (simp add: gc_sessions_def case_prod_unfold Let_def)
next
  case RestartSessions
  with inv show ?thesis by (simp add: all_sessions_def open_sessions_stored)
qed

section \<open>Revoked and idle sessions\<close>

lemma session_step_config:
  "sm_ttl_seconds (session_step sha s q) = sm_ttl_seconds s \<and>
   sm_sliding_window (session_step sha s q) = sm_sliding_window s"
  by (cases q)
    (auto simp: create_session_def resolve_session_def revoke_session_def revoke_all_for_profile_def
      gc_sessions_def case_prod_unfold Let_def sm_save_simps open_sessions_stored split: option.split)

text \<open>A hash is dead when every session it has, in memory or in the file, is revoked.\<close>

definition dead_hash :: "string \<Rightarrow> session_manager \<Rightarrow> bool" where
  "dead_hash h s \<longleftrightarrow> all_sessions (\<lambda>k e. k = h \<longrightarrow> se_revoked e) s"

fun creates_hash :: "token_hash \<Rightarrow> string \<Rightarrow> session_request \<Rightarrow> bool" where
  "creates_hash sha h (CreateSession tok i now w p ip ua) = (sha tok = h)"
| "creates_hash sha h _ = False"

lemma dead_hash_step: "dead_hash h s \<Longrightarrow> \<not> creates_hash sha h q \<Longrightarrow> dead_hash h (session_step sha s q)"
  unfolding dead_hash_def
  by (rule all_sessions_step) (auto simp: session_to_dict_def)

lemma dead_hash_run:
  "dead_hash h s \<Longrightarrow> list_all (\<lambda>q. \<not> creates_hash sha h q) qs \<Longrightarrow> dead_hash h (run_events (session_step sha) s qs)"
  by (induction qs arbitrary: s) (auto intro: dead_hash_step)

lemma dead_hash_refused:
  assumes "dead_hash (sha tok) s"
  shows "\<not> ao_ok (snd (snd (resolve_session sha now w s tok)))"
proof -
  have "\<not> session_live now e" if "dget (sm_sessions s) (sha tok) = Some e" for e
    using assms dget_Some_in [OF that] by (auto simp: dead_hash_def all_sessions_def session_live_def)
  with session_resolves_iff [of sha now w s tok] show ?thesis by (auto simp: case_prod_unfold Let_def)
qed

lemma revoke_kills:
  assumes "dwf (sm_sessions s)" "revoke_session sha w s tok = (s1, r)" "ao_ok r"
  shows "dead_hash (sha tok) s1"
proof -
  obtain e where e: "dget (sm_sessions s) (sha tok) = Some e"
    using assms(2,3) by (auto simp: revoke_session_def op_failed_def op_result_def Let_def split: option.splits)
  have w: "w = None" and s1: "s1 = fst (sm_save w (s\<lparr>sm_sessions := dset (sm_sessions s) (sha tok) (e\<lparr>se_revoked := True\<rparr>)\<rparr>))"
    using assms(2,3)
    by (auto simp: revoke_session_def e case_prod_unfold Let_def sm_save_simps op_failed_def op_result_def
        split: if_splits)
  let ?m = "dset (sm_sessions s) (sha tok) (e\<lparr>se_revoked := True\<rparr>)"
  have "se_revoked x" if "(sha tok, x) \<in> set ?m" for x
  proof -
    have "dget ?m (sha tok) = Some x" using that dget_iff_in [OF dwf_dset [OF assms(1)]] by blast
    then show ?thesis by auto
  qed
  then show ?thesis
    unfolding s1 by (auto simp: dead_hash_def all_sessions_def sm_save_simps w stored_saved session_to_dict_def)
qed

text \<open>C22. Logging out is final: once a token was revoked successfully, it never resolves again, whatever
  requests follow (other sessions, collections of garbage, restarts from the file, failing writes),
  unless a new session is given the same hash.\<close>

theorem revoked_session_stays_dead:
  assumes "dwf (sm_sessions s)" and "revoke_session sha w s tok = (s1, r)" and "ao_ok r"
    and "list_all (\<lambda>q. \<not> creates_hash sha (sha tok) q) qs"
  shows "\<not> ao_ok (snd (snd (resolve_session sha now w' (run_events (session_step sha) s1 qs) tok)))"
  using dead_hash_run [OF revoke_kills [OF assms(1-3)] assms(4)] by (rule dead_hash_refused)

definition one_session :: session_manager where
  "one_session = fst (create_session id ''tok1'' ''id1'' 0 None
     (open_sessions SESSION_TTL_SECONDS True FileMissing) ''ann'' [] [])"

theorem revoked_session_stays_dead_witness:
  "ao_ok (snd (snd (resolve_session id 1 None one_session ''tok1''))) \<and>
   \<not> ao_ok (snd (snd (resolve_session id 3 None (run_events (session_step id)
       (fst (revoke_session id None one_session ''tok1''))
       [CreateSession ''tok2'' ''id2'' 1 None ''ann'' [] [], RestartSessions,
        ResolveSession 2 (Some ''full'') ''tok1'']) ''tok1'')))"
proof -
  have "dwf (sm_sessions one_session)" "ao_ok (snd (revoke_session id None one_session ''tok1''))"
    and ok: "ao_ok (snd (snd (resolve_session id 1 None one_session ''tok1'')))" by code_simp+
  then have "\<not> ao_ok (snd (snd (resolve_session id 3 None (run_events (session_step id)
       (fst (revoke_session id None one_session ''tok1''))
       [CreateSession ''tok2'' ''id2'' 1 None ''ann'' [] [], RestartSessions,
        ResolveSession 2 (Some ''full'') ''tok1'']) ''tok1'')))"
    by (intro revoked_session_stays_dead [OF _ prod.collapse [symmetric]]) simp_all
  with ok show ?thesis by blast
qed

definition idle_bound :: "pyfloat \<Rightarrow> string \<Rightarrow> auth_session \<Rightarrow> bool" where
  "idle_bound ttl h e \<longleftrightarrow> (\<exists>t. se_last_seen_at e = Some t \<and> se_expires_at e = Some (t + ttl))"

definition sliding_inv :: "pyfloat \<Rightarrow> session_manager \<Rightarrow> bool" where
  "sliding_inv ttl s \<longleftrightarrow> sm_ttl_seconds s = ttl \<and> sm_sliding_window s \<and> all_sessions (idle_bound ttl) s"

interpretation sessions: machine "session_step sha"
  "\<lambda>s. sm_ttl_seconds s = ttl \<and> sm_sliding_window s \<and> sm_file s = FileMissing \<and> sm_sessions s = []"
  "sliding_inv ttl" for sha ttl
proof unfold_locales
  show "sliding_inv ttl s"
    if "sm_ttl_seconds s = ttl \<and> sm_sliding_window s \<and> sm_file s = FileMissing \<and> sm_sessions s = []" for s
    using that by (simp add: sliding_inv_def all_sessions_def stored_sessions_def)
  show "sliding_inv ttl (session_step sha s q)" if "sliding_inv ttl s" for s q
  proof -
    have "all_sessions (idle_bound ttl) (session_step sha s q)"
      by (rule all_sessions_step)
        (use that in \<open>auto simp: sliding_inv_def idle_bound_def session_to_dict_def touch_session_def\<close>)
    with that session_step_config [of sha s q] show ?thesis by (simp add: sliding_inv_def)
  qed
qed

text \<open>A session dies of neglect: in a manager with a sliding window that started empty, a token
  resolves only within the time to live after it was created or last resolved.\<close>

theorem session_idle_timeout:
  assumes "s = run_events (session_step sha) (open_sessions ttl True FileMissing) qs"
    and "ao_ok (snd (snd (resolve_session sha now w s tok)))"
  shows "\<exists>e t. dget (sm_sessions s) (sha tok) = Some e \<and> se_last_seen_at e = Some t \<and> now < t + ttl"
proof -
  have inv: "sliding_inv ttl s"
    unfolding assms(1) by (rule sessions.run_from_start) (simp add: open_sessions_stored stored_sessions_def)
  obtain e where e: "dget (sm_sessions s) (sha tok) = Some e" "session_live now e"
    using assms(2) session_resolves_iff [of sha now w s tok] by (auto simp: case_prod_unfold Let_def)
  have "idle_bound ttl (sha tok) e"
    using inv dget_Some_in [OF e(1)] by (auto simp: sliding_inv_def all_sessions_def)
  with e show ?thesis by (auto simp: idle_bound_def session_live_def iso_expired_def)
qed

theorem session_idle_timeout_witness:
  "\<exists>e t. dget (sm_sessions (run_events (session_step id) (open_sessions 60 True FileMissing)
      [CreateSession ''tok1'' ''id1'' 0 None ''ann'' [] [], ResolveSession 50 None ''tok1'', RestartSessions]))
      ''tok1'' = Some e \<and> se_last_seen_at e = Some t \<and> 100 < t + 60"
proof -
  have "ao_ok (snd (snd (resolve_session id 100 None (run_events (session_step id) (open_sessions 60 True FileMissing)
      [CreateSession ''tok1'' ''id1'' 0 None ''ann'' [] [], ResolveSession 50 None ''tok1'', RestartSessions])
      ''tok1'')))" by code_simp
  from session_idle_timeout [OF refl this] show ?thesis by simp
qed

text \<open>The stored session is redacted throughout. A profile id that looks like a token is a valid
  user name; after a restart its session belongs to the profile \<^verbatim>\<open><REDACTED>\<close>.\<close>

theorem stored_session_loses_profile:
  "let s = fst (create_session id ''tok1'' ''id1'' 0 None (open_sessions 60 True FileMissing) ''ghp_abcdefghij'' [] []);
       (s', e, r) = resolve_session id 1 None s ''tok1'';
       (s'', e'', r'') = resolve_session id 1 None (session_step id s RestartSessions) ''tok1''
   in ao_profile_id r = ''ghp_abcdefghij'' \<and> ao_ok r'' \<and> ao_profile_id r'' = ''<REDACTED>''"
  by code_simp

section \<open>Enrollment tokens\<close>

datatype enrollment_request =
    CreatePending string string pyfloat write_outcome string string string string string
  | MarkUsed write_outcome string
  | GcEnrollments pyfloat write_outcome
  | RestartEnrollments

fun enrollment_step :: "token_hash \<Rightarrow> enrollment_store \<Rightarrow> enrollment_request \<Rightarrow> enrollment_store" where
  "enrollment_step sha s (CreatePending tok i now w p f l em ph) =
     fst (create_pending sha tok i now w s p f l em ph)"
| "enrollment_step sha s (MarkUsed w tok) = fst (mark_used sha w s tok)"
| "enrollment_step sha s (GcEnrollments now w) = fst (gc_enrollments now w s)"
| "enrollment_step sha s RestartEnrollments = open_enrollments (en_ttl_seconds s) (en_file s)"

definition stored_enrollments :: "pending_enrollment store_file \<Rightarrow> (string, pending_enrollment) dict" where
  "stored_enrollments f = (case f of Table m \<Rightarrow> table_of m | _ \<Rightarrow> [])"

lemma stored_saved_enrollments: "stored_enrollments (saved_table f m) = map (\<lambda>(k, e). (k, f e)) m"
  by (simp add: stored_enrollments_def saved_table_def)

lemma open_enrollments_stored:
  "en_enrollments (open_enrollments ttl f) = stored_enrollments f" "en_file (open_enrollments ttl f) = f"
  "en_ttl_seconds (open_enrollments ttl f) = ttl"
  by (cases f; simp add: open_enrollments_def en_reload_def stored_enrollments_def Let_def)+

lemma en_save_simps:
  "en_enrollments (fst (en_save w s)) = en_enrollments s"
  "ao_ok (snd (en_save w s)) \<longleftrightarrow> w = None"
  "en_file (fst (en_save w s)) =
     (if w = None then saved_table (enrollment_to_dict True) (en_enrollments s) else en_file s)"
  "en_ttl_seconds (fst (en_save w s)) = en_ttl_seconds s"
  by (auto simp: en_save_def op_failed_def op_ok_def op_result_def Let_def split: option.split)

definition all_enrollments :: "(string \<Rightarrow> pending_enrollment \<Rightarrow> bool) \<Rightarrow> enrollment_store \<Rightarrow> bool" where
  "all_enrollments P s \<longleftrightarrow>
     (\<forall>(h, e) \<in> set (en_enrollments s). P h e) \<and> (\<forall>(h, e) \<in> set (stored_enrollments (en_file s)). P h e)"

lemma all_enrollments_save:
  assumes "\<forall>(h, e) \<in> set m. P h e" "all_enrollments P s" "\<And>h e. P h e \<Longrightarrow> P h (enrollment_to_dict True e)"
  shows "all_enrollments P (fst (en_save w (s\<lparr>en_enrollments := m\<rparr>)))"
  using assms by (auto simp: all_enrollments_def en_save_simps stored_saved_enrollments)

definition new_enrollment ::
    "token_hash \<Rightarrow> string \<Rightarrow> string \<Rightarrow> pyfloat \<Rightarrow> pyfloat \<Rightarrow> string \<Rightarrow> string \<Rightarrow> string \<Rightarrow> string \<Rightarrow> string \<Rightarrow>
     pending_enrollment"
where
  "new_enrollment sha tok i now ttl p f l em ph =
     \<lparr>pe_enrollment_id = i, pe_token_hash = sha tok, pe_profile_id = p, pe_first_name = f,
      pe_last_name = l, pe_email = em, pe_mobile_phone = ph, pe_created_at = Some now,
      pe_expires_at = Some (now + ttl), pe_used = False, pe_metadata = PDict []\<rparr>"

lemma all_enrollments_step:
  assumes inv: "all_enrollments P s"
    and stored: "\<And>h e. P h e \<Longrightarrow> P h (enrollment_to_dict True e)"
    and used: "\<And>h e. P h e \<Longrightarrow> P h (e\<lparr>pe_used := True\<rparr>)"
    and created: "\<And>tok i now w p f l em ph. q = CreatePending tok i now w p f l em ph \<Longrightarrow>
      P (sha tok) (new_enrollment sha tok i now (en_ttl_seconds s) p f l em ph)"
  shows "all_enrollments P (enrollment_step sha s q)"
proof (cases q)
  case (CreatePending tok i now w p f l em ph)
  let ?e = "new_enrollment sha tok i now (en_ttl_seconds s) p f l em ph"
  let ?s1 = "fst (en_save w (s\<lparr>en_enrollments := dset (en_enrollments s) (sha tok) ?e\<rparr>))"
  have "\<forall>(h, e) \<in> set (dset (en_enrollments s) (sha tok) ?e). P h e"
    using set_dset_sub [of "en_enrollments s" "sha tok" ?e] inv created [OF CreatePending]
    by (auto simp: all_enrollments_def)
  from all_enrollments_save [OF this inv stored] have a: "all_enrollments P ?s1" .
  then have "all_enrollments P (?s1\<lparr>en_enrollments := ddel (en_enrollments ?s1) (sha tok)\<rparr>)"
    using set_ddel_sub [of "en_enrollments ?s1" "sha tok"] by (auto simp: all_enrollments_def)
  with a inv CreatePending show ?thesis
    by (auto simp: create_pending_def new_enrollment_def case_prod_unfold Let_def)
next
  case (MarkUsed w tok)
  show ?thesis
  proof (cases "dget (en_enrollments s) (sha tok)")
    case None
    with inv MarkUsed show ?thesis by (simp add: mark_used_def)
  next
    case (Some e)
    have "\<forall>(h, x) \<in> set (dset (en_enrollments s) (sha tok) (e\<lparr>pe_used := True\<rparr>)). P h x"
      using set_dset_sub [of "en_enrollments s" "sha tok" "e\<lparr>pe_used := True\<rparr>"] inv dget_Some_in [OF Some]
        used [of "sha tok" e] by (auto simp: all_enrollments_def)
    from all_enrollments_save [OF this inv stored] show ?thesis
      using Some MarkUsed by (simp add: mark_used_def case_prod_unfold Let_def)
  qed
next
  case (GcEnrollments now w)
  have "\<forall>(h, x) \<in> set (filter (\<lambda>(h, e). \<not> pe_used e \<and> \<not> iso_expired now (pe_expires_at e)) (en_enrollments s)). P h x"
    using inv by (auto simp: all_enrollments_def)
  from all_enrollments_save [OF this inv stored] show ?thesis
    using GcEnrollments by (simp add: gc_enrollments_def case_prod_unfold Let_def)
next
  case RestartEnrollments
  with inv show ?thesis by (simp add: all_enrollments_def open_enrollments_stored)
qed

lemma enrollment_step_ttl: "en_ttl_seconds (enrollment_step sha s q) = en_ttl_seconds s"
  by (cases q)
    (auto simp: create_pending_def mark_used_def gc_enrollments_def case_prod_unfold Let_def en_save_simps
      open_enrollments_stored split: option.split)

definition ten_minutes :: "pyfloat \<Rightarrow> string \<Rightarrow> pending_enrollment \<Rightarrow> bool" where
  "ten_minutes ttl h e \<longleftrightarrow> (\<exists>t. pe_created_at e = Some t \<and> pe_expires_at e = Some (t + ttl))"

interpretation enrollments: machine "enrollment_step sha"
  "\<lambda>s. en_ttl_seconds s = ttl \<and> en_file s = FileMissing \<and> en_enrollments s = []"
  "\<lambda>s. en_ttl_seconds s = ttl \<and> all_enrollments (ten_minutes ttl) s" for sha ttl
proof unfold_locales
  show "en_ttl_seconds s = ttl \<and> all_enrollments (ten_minutes ttl) s"
    if "en_ttl_seconds s = ttl \<and> en_file s = FileMissing \<and> en_enrollments s = []" for s
    using that by (simp add: all_enrollments_def stored_enrollments_def)
  show "en_ttl_seconds (enrollment_step sha s q) = ttl \<and> all_enrollments (ten_minutes ttl) (enrollment_step sha s q)"
    if "en_ttl_seconds s = ttl \<and> all_enrollments (ten_minutes ttl) s" for s q
  proof
    show "en_ttl_seconds (enrollment_step sha s q) = ttl" using that by (simp add: enrollment_step_ttl)
    show "all_enrollments (ten_minutes ttl) (enrollment_step sha s q)"
      by (rule all_enrollments_step)
        (use that in \<open>auto simp: ten_minutes_def enrollment_to_dict_def new_enrollment_def\<close>)
  qed
qed

text \<open>An enrollment token lives for its time from its creation and no use prolongs it.\<close>

theorem enrollment_token_lifetime:
  assumes "s = run_events (enrollment_step sha) (open_enrollments ttl FileMissing) qs"
    and "fst (resolve_token sha now s tok) = Some e"
  shows "\<exists>t. pe_created_at e = Some t \<and> now < t + ttl \<and> \<not> pe_used e"
proof -
  have "en_ttl_seconds s = ttl \<and> all_enrollments (ten_minutes ttl) s"
    unfolding assms(1)
    by (rule enrollments.run_from_start) (simp add: open_enrollments_stored stored_enrollments_def)
  moreover have e: "dget (en_enrollments s) (sha tok) = Some e" "\<not> pe_used e" "\<not> iso_expired now (pe_expires_at e)"
    using assms(2) by (simp_all add: enrollment_resolves_iff)
  ultimately have "ten_minutes ttl (sha tok) e"
    using dget_Some_in [OF e(1)] by (auto simp: all_enrollments_def)
  with e show ?thesis by (auto simp: ten_minutes_def iso_expired_def)
qed

theorem enrollment_token_lifetime_witness:
  "let s = run_events (enrollment_step id) (open_enrollments 600 FileMissing)
       [CreatePending ''tok'' ''id1'' 0 None ''ann'' ''Ann'' ''Lee'' ''a@x.y'' ''123456'', RestartEnrollments]
   in map_option pe_profile_id (fst (resolve_token id 599 s ''tok'')) = Some ''ann'' \<and>
      (\<exists>t. pe_created_at (the (fst (resolve_token id 599 s ''tok''))) = Some t \<and> 599 < t + 600 \<and>
        \<not> pe_used (the (fst (resolve_token id 599 s ''tok''))))"
proof -
  let ?s = "run_events (enrollment_step id) (open_enrollments 600 FileMissing)
       [CreatePending ''tok'' ''id1'' 0 None ''ann'' ''Ann'' ''Lee'' ''a@x.y'' ''123456'', RestartEnrollments]"
  have ann: "map_option pe_profile_id (fst (resolve_token id 599 ?s ''tok'')) = Some ''ann''" by code_simp
  then obtain e where e: "fst (resolve_token id 599 ?s ''tok'') = Some e" by blast
  from enrollment_token_lifetime [OF refl e] ann e show ?thesis by (simp only: Let_def option.sel simp_thms)
qed

end
