(* ===== verification/Identity.thy ===== *)
theory Identity
  imports AuthGate PyVal
begin

text \<open>
  \<^verbatim>\<open>igris/core/identity_resolver.py\<close>: the profiles of the people and components the runtime talks
  to. A resolver holds the profiles file and its own copy of it, loaded on first use. The profile
  extends what the authorization gate reads. A profile read from the file has the values a profile
  is written with; what \<^verbatim>\<open>from_dict\<close> does to them is \<open>normalize_profile\<close>. The clock is an argument.
  The built-in profiles are made when the module loads, at a time written 0. The copy to the memory
  graph is not modelled.
\<close>

section \<open>Profiles\<close>

definition TRUST_LEVELS :: "string list" where
  "TRUST_LEVELS = [''untrusted'', ''limited'', ''trusted'', ''admin'']"

definition EXPERTISE_LEVELS :: "string list" where
  "EXPERTISE_LEVELS = [''unknown'', ''novice'', ''intermediate'', ''expert'', ''owner'']"

definition COMM_STYLES :: "string list" where
  "COMM_STYLES = [''conversational'', ''formal'', ''casual'', ''technical'']"

definition ENROLLED_LIMITED_SCOPES :: "string list" where
  "ENROLLED_LIMITED_SCOPES = [''chat'', ''memory_basic'', ''read_own_profile'']"

definition normalize_expertise :: "string \<Rightarrow> string" where
  "normalize_expertise v = (if v \<in> set EXPERTISE_LEVELS then v else ''unknown'')"

definition normalize_comm_style :: "string \<Rightarrow> string" where
  "normalize_comm_style v = (if v \<in> set COMM_STYLES then v else ''conversational'')"

definition normalize_trust :: "string \<Rightarrow> string" where
  "normalize_trust v = (if v \<in> set TRUST_LEVELS then v else ''untrusted'')"

record profile = interlocutor +
  pf_first_name :: string
  pf_last_name :: string
  pf_expertise_level :: string
  pf_communication_style :: string
  pf_persistent_flags :: "(string, pyval) dict"
  pf_delegation_keys :: "string list"
  pf_interaction_count :: int
  pf_first_seen_at :: pyfloat
  pf_last_seen_at :: pyfloat

text \<open>A new profile, with the defaults of the class.\<close>

definition new_profile :: "pyfloat \<Rightarrow> string \<Rightarrow> string \<Rightarrow> profile" where
  "new_profile now profile_id display_name =
     \<lparr>ip_profile_id = profile_id, ip_display_name = display_name, ip_trust_level = ''untrusted'',
      ip_authorized_scopes = [], pf_first_name = [], pf_last_name = [],
      pf_expertise_level = ''unknown'', pf_communication_style = ''conversational'',
      pf_persistent_flags = [], pf_delegation_keys = [], pf_interaction_count = 0,
      pf_first_seen_at = now, pf_last_seen_at = now\<rparr>"

definition normalize_profile :: "profile \<Rightarrow> profile" where
  "normalize_profile p = p
     \<lparr>pf_expertise_level := normalize_expertise (pf_expertise_level p),
      pf_communication_style := normalize_comm_style (pf_communication_style p),
      ip_trust_level := normalize_trust (ip_trust_level p)\<rparr>"

definition has_scope :: "profile \<Rightarrow> string \<Rightarrow> bool" where
  "has_scope p scope \<longleftrightarrow> scope \<in> set (ip_authorized_scopes p)"

fun list_index :: "'a list \<Rightarrow> 'a \<Rightarrow> nat option" where
  "list_index [] x = None"
| "list_index (y # ys) x = (if y = x then Some 0 else map_option Suc (list_index ys x))"

definition is_at_least :: "profile \<Rightarrow> string \<Rightarrow> bool" where
  "is_at_least p min_trust =
     (case (list_index TRUST_LEVELS (ip_trust_level p), list_index TRUST_LEVELS min_trust) of
        (Some i, Some j) \<Rightarrow> j \<le> i
      | _ \<Rightarrow> False)"

definition touch_profile :: "pyfloat \<Rightarrow> profile \<Rightarrow> profile" where
  "touch_profile now p = p\<lparr>pf_last_seen_at := now, pf_interaction_count := pf_interaction_count p + 1\<rparr>"

section \<open>The resolver\<close>

datatype profiles_file = NoProfiles | BrokenProfiles | Profiles "(string, profile) dict"

record resolver =
  ir_disk :: profiles_file
  ir_profiles :: "(string, profile) dict option"

definition load_profiles :: "profiles_file \<Rightarrow> (string, profile) dict" where
  "load_profiles d = (case d of Profiles m \<Rightarrow> map (\<lambda>(k, p). (k, normalize_profile p)) m | _ \<Rightarrow> [])"

definition save_profiles :: "(string, profile) dict \<Rightarrow> profiles_file" where
  "save_profiles m = Profiles m"

definition BUILTIN_PROFILES :: "(string, profile) dict" where
  "BUILTIN_PROFILES =
     [(''system'',
       (new_profile 0 ''system'' ''IGRIS Internal'')
         \<lparr>pf_first_name := ''IGRIS'', pf_last_name := ''Internal'', ip_trust_level := ''admin'',
          ip_authorized_scopes := [''*''], pf_expertise_level := ''expert'',
          pf_communication_style := ''technical''\<rparr>),
      (''owner'',
       (new_profile 0 ''owner'' ''Christian (Owner)'')
         \<lparr>pf_first_name := ''Christian'', pf_last_name := ''Ricci'', ip_trust_level := ''admin'',
          ip_authorized_scopes := [''*''], pf_expertise_level := ''owner'',
          pf_communication_style := ''technical''\<rparr>)]"

definition fresh_resolver :: "profiles_file \<Rightarrow> resolver" where
  "fresh_resolver d = \<lparr>ir_disk = d, ir_profiles = None\<rparr>"

definition ir_load :: "resolver \<Rightarrow> (string, profile) dict" where
  "ir_load r = (case ir_profiles r of None \<Rightarrow> load_profiles (ir_disk r) | Some m \<Rightarrow> m)"

definition ir_store :: "resolver \<Rightarrow> (string, profile) dict \<Rightarrow> resolver" where
  "ir_store r m = r\<lparr>ir_disk := save_profiles m, ir_profiles := Some m\<rparr>"

definition same_name :: "string \<Rightarrow> profile \<Rightarrow> bool" where
  "same_name name p \<longleftrightarrow> py_lower (ip_display_name p) = py_lower name"

definition guest_profile :: "pyfloat \<Rightarrow> string \<Rightarrow> profile" where
  "guest_profile now name_or_id =
     touch_profile now (new_profile now
       (map (\<lambda>c. if c = CHR '' '' then CHR ''_'' else c) (py_lower name_or_id)) name_or_id)"

definition resolve :: "pyfloat \<Rightarrow> resolver \<Rightarrow> string \<Rightarrow> resolver \<times> profile" where
  "resolve now r name_or_id =
     (case dget BUILTIN_PROFILES name_or_id of
        Some p \<Rightarrow> (r, p)
      | None \<Rightarrow>
          let profiles = ir_load r; r1 = r\<lparr>ir_profiles := Some profiles\<rparr>
          in case dget profiles name_or_id of
               Some p \<Rightarrow> (r1\<lparr>ir_profiles := Some (dset profiles name_or_id (touch_profile now p))\<rparr>, touch_profile now p)
             | None \<Rightarrow>
                 (case filter (\<lambda>(k, p). same_name name_or_id p) profiles of
                    (k, p) # _ \<Rightarrow> (r1\<lparr>ir_profiles := Some (dset profiles k (touch_profile now p))\<rparr>, touch_profile now p)
                  | [] \<Rightarrow> (r1, guest_profile now name_or_id)))"

definition update_profile :: "resolver \<Rightarrow> profile \<Rightarrow> resolver" where
  "update_profile r p = ir_store r (dset (ir_load r) (ip_profile_id p) p)"

definition create_profile ::
    "pyfloat \<Rightarrow> resolver \<Rightarrow> string \<Rightarrow> string \<Rightarrow> string \<Rightarrow> string \<Rightarrow> string \<Rightarrow> string list \<Rightarrow> string \<Rightarrow> string \<Rightarrow>
     (string, pyval) dict \<Rightarrow> resolver \<times> profile"
where
  "create_profile now r profile_id display_name first_name last_name trust_level authorized_scopes
       expertise_level communication_style persistent_flags =
     (let p = (new_profile now profile_id display_name)
            \<lparr>pf_first_name := first_name, pf_last_name := last_name,
             ip_trust_level := normalize_trust trust_level, ip_authorized_scopes := authorized_scopes,
             pf_expertise_level := normalize_expertise expertise_level,
             pf_communication_style := normalize_comm_style communication_style,
             pf_persistent_flags := persistent_flags\<rparr>
      in (update_profile r p, p))"

definition create_enrolled_limited_profile ::
    "pyfloat \<Rightarrow> resolver \<Rightarrow> string \<Rightarrow> string \<Rightarrow> string \<Rightarrow> string option \<Rightarrow> resolver \<times> profile" where
  "create_enrolled_limited_profile now r profile_id first_name last_name display_name =
     (let full = strip (first_name @ '' '' @ last_name);
          display = str_or display_name (if full \<noteq> [] then full else profile_id);
          p = (new_profile now profile_id display)
            \<lparr>pf_first_name := first_name, pf_last_name := last_name,
             ip_trust_level := ''limited'', ip_authorized_scopes := ENROLLED_LIMITED_SCOPES,
             pf_expertise_level := ''unknown'', pf_communication_style := ''conversational'',
             pf_persistent_flags := [(''enrolled'', PBool True)], pf_delegation_keys := []\<rparr>
      in (update_profile r p, p))"

text \<open>The three changes of a known profile; an unknown id leaves the file alone.\<close>

definition change_profile :: "(profile \<Rightarrow> profile) \<Rightarrow> resolver \<Rightarrow> string \<Rightarrow> resolver \<times> bool" where
  "change_profile f r profile_id =
     (let profiles = ir_load r
      in case dget profiles profile_id of
           None \<Rightarrow> (r\<lparr>ir_profiles := Some profiles\<rparr>, False)
         | Some p \<Rightarrow> (ir_store r (dset profiles profile_id (f p)), True))"

definition grant_scope :: "resolver \<Rightarrow> string \<Rightarrow> string \<Rightarrow> resolver \<times> bool" where
  "grant_scope r profile_id scope =
     change_profile (\<lambda>p. if scope \<notin> set (ip_authorized_scopes p)
       then p\<lparr>ip_authorized_scopes := ip_authorized_scopes p @ [scope]\<rparr> else p) r profile_id"

definition revoke_scope :: "resolver \<Rightarrow> string \<Rightarrow> string \<Rightarrow> resolver \<times> bool" where
  "revoke_scope r profile_id scope =
     change_profile (\<lambda>p. p\<lparr>ip_authorized_scopes := filter (\<lambda>s. s \<noteq> scope) (ip_authorized_scopes p)\<rparr>)
       r profile_id"

definition set_flag :: "resolver \<Rightarrow> string \<Rightarrow> string \<Rightarrow> pyval \<Rightarrow> resolver \<times> bool" where
  "set_flag r profile_id flag v =
     change_profile (\<lambda>p. p\<lparr>pf_persistent_flags := dset (pf_persistent_flags p) flag v\<rparr>) r profile_id"

definition get_all :: "resolver \<Rightarrow> profile list" where
  "get_all r = map snd (ir_load r)"

definition get_all_including_builtins :: "resolver \<Rightarrow> profile list" where
  "get_all_including_builtins r = map snd (dupdate BUILTIN_PROFILES (ir_load r))"

section \<open>Who is privileged\<close>

definition known_name :: "resolver \<Rightarrow> string \<Rightarrow> bool" where
  "known_name r name \<longleftrightarrow>
     name \<in> set (dkeys BUILTIN_PROFILES) \<or> name \<in> set (dkeys (ir_load r)) \<or>
     list_ex (\<lambda>(k, p). same_name name p) (ir_load r)"

lemma resolve_unknown:
  assumes "\<not> known_name r name"
  shows "snd (resolve now r name) = guest_profile now name"
    and "ir_disk (fst (resolve now r name)) = ir_disk r"
proof -
  have b: "dget BUILTIN_PROFILES name = None" and l: "dget (ir_load r) name = None"
    using assms by (simp_all add: known_name_def dget_None_iff)
  have f: "filter (\<lambda>(k, p). same_name name p) (ir_load r) = []"
    using assms by (auto simp: known_name_def filter_empty_conv list_ex_iff)
  show "snd (resolve now r name) = guest_profile now name" "ir_disk (fst (resolve now r name)) = ir_disk r"
    by (simp_all add: resolve_def b l f)
qed

lemma guest_profile_untrusted [simp]:
  "ip_trust_level (guest_profile now name) = ''untrusted''" "ip_authorized_scopes (guest_profile now name) = []"
  by (simp_all add: guest_profile_def touch_profile_def new_profile_def)

lemma touch_rights [simp]:
  "ip_trust_level (touch_profile now p) = ip_trust_level p"
  "ip_authorized_scopes (touch_profile now p) = ip_authorized_scopes p"
  "ip_display_name (touch_profile now p) = ip_display_name p" "ip_profile_id (touch_profile now p) = ip_profile_id p"
  by (simp_all add: touch_profile_def)

lemma resolve_disk [simp]: "ir_disk (fst (resolve now r name)) = ir_disk r"
  by (auto simp: resolve_def Let_def split: option.split list.split)

text \<open>Who a name resolves to: a built-in profile, else the profile with that id, else the first
  with that display name in any letter case, else a new untrusted guest without scopes. Rights come
  only from the built-ins and the file.\<close>

theorem resolve_rights:
  "let p = snd (resolve now r name)
   in (ip_trust_level p, ip_authorized_scopes p) =
     (if \<not> known_name r name then (''untrusted'', [])
      else case dget BUILTIN_PROFILES name of
        Some b \<Rightarrow> (''admin'', [''*''])
      | None \<Rightarrow>
          (case dget (ir_load r) name of
             Some q \<Rightarrow> (ip_trust_level q, ip_authorized_scopes q)
           | None \<Rightarrow>
               let q = snd (hd (filter (\<lambda>(k, q). same_name name q) (ir_load r)))
               in (ip_trust_level q, ip_authorized_scopes q)))"
proof (cases "known_name r name")
  case False
  then show ?thesis by (simp add: resolve_unknown Let_def)
next
  case True
  show ?thesis
  proof (cases "dget BUILTIN_PROFILES name")
    case (Some b)
    then have "b \<in> set (map snd BUILTIN_PROFILES)" by (force dest: dget_Some_in)
    then have "ip_trust_level b = ''admin''" "ip_authorized_scopes b = [''*'']"
      by (auto simp: BUILTIN_PROFILES_def)
    with Some True show ?thesis by (simp add: resolve_def)
  next
    case None
    show ?thesis
    proof (cases "dget (ir_load r) name")
      case (Some q)
      with None True show ?thesis by (simp add: resolve_def Let_def)
    next
      case no_id: None
      with None True have "list_ex (\<lambda>(k, p). same_name name p) (ir_load r)"
        by (simp add: known_name_def dget_None_iff)
      then have "filter (\<lambda>(k, p). same_name name p) (ir_load r) \<noteq> []"
        by (auto simp: list_ex_iff filter_empty_conv)
      then obtain k q rest where f: "filter (\<lambda>(k, p). same_name name p) (ir_load r) = (k, q) # rest"
        by (cases "filter (\<lambda>(k, p). same_name name p) (ir_load r)") auto
      with None no_id True show ?thesis by (simp add: resolve_def Let_def)
    qed
  qed
qed

section \<open>A restart of the resolver\<close>

text \<open>What the file keeps of a profile: all but the visits, with its levels normalised.\<close>

definition core_profile :: "profile \<Rightarrow> profile" where
  "core_profile p = (normalize_profile p)\<lparr>pf_interaction_count := 0, pf_last_seen_at := 0\<rparr>"

definition core_map :: "(string, profile) dict \<Rightarrow> (string, profile) dict" where
  "core_map m = map (\<lambda>(k, p). (k, core_profile p)) m"

lemma normalize_profile_idem [simp]: "normalize_profile (normalize_profile p) = normalize_profile p"
  by (simp add: normalize_profile_def normalize_trust_def normalize_expertise_def normalize_comm_style_def
      TRUST_LEVELS_def EXPERTISE_LEVELS_def COMM_STYLES_def)

lemma core_profile_normalize [simp]: "core_profile (normalize_profile p) = core_profile p"
  by (simp add: core_profile_def)

lemma core_profile_touch [simp]: "core_profile (touch_profile now p) = core_profile p"
  by (simp add: core_profile_def touch_profile_def normalize_profile_def)

lemma core_map_load [simp]: "core_map (load_profiles (save_profiles m)) = core_map m"
  by (simp add: core_map_def load_profiles_def save_profiles_def case_prod_beta)

lemma core_map_dset: "core_map (dset m k p) = dset (core_map m) k (core_profile p)"
  by (induction m k p rule: dset.induct) (auto simp: core_map_def)

lemma dget_core_map: "dget (core_map m) k = map_option core_profile (dget m k)"
  by (induction m) (auto simp: core_map_def)

text \<open>The operations of the resolver.\<close>

datatype identity_request =
    Resolve pyfloat string
  | Update profile
  | Create pyfloat string string string string string "string list" string string "(string, pyval) dict"
  | Enroll pyfloat string string string "string option"
  | GrantScope string string
  | RevokeScope string string
  | SetFlag string string pyval

fun identity_step :: "resolver \<Rightarrow> identity_request \<Rightarrow> resolver" where
  "identity_step r (Resolve now name) = fst (resolve now r name)"
| "identity_step r (Update p) = update_profile r p"
| "identity_step r (Create now i d f l lv ss el cs fl) = fst (create_profile now r i d f l lv ss el cs fl)"
| "identity_step r (Enroll now i f l d) = fst (create_enrolled_limited_profile now r i f l d)"
| "identity_step r (GrantScope i s) = fst (grant_scope r i s)"
| "identity_step r (RevokeScope i s) = fst (revoke_scope r i s)"
| "identity_step r (SetFlag i k v) = fst (set_flag r i k v)"

definition synced :: "resolver \<Rightarrow> bool" where
  "synced r \<longleftrightarrow> core_map (load_profiles (ir_disk r)) = core_map (ir_load r)"

lemma synced_fresh: "ir_profiles r = None \<Longrightarrow> synced r"
  by (simp add: synced_def ir_load_def)

lemma synced_store: "synced (ir_store r m)"
  by (simp add: synced_def ir_load_def ir_store_def)

lemma synced_cached: "synced r \<Longrightarrow> synced (r\<lparr>ir_profiles := Some (ir_load r)\<rparr>)"
  by (simp add: synced_def ir_load_def)

lemma synced_touched:
  assumes "synced r" "dget (ir_load r) k = Some p"
  shows "synced (r\<lparr>ir_profiles := Some (dset (ir_load r) k (touch_profile now p))\<rparr>)"
proof -
  have "core_map (dset (ir_load r) k (touch_profile now p)) = core_map (ir_load r)"
    using assms(2) by (simp add: core_map_dset dset_same dget_core_map)
  with assms(1) show ?thesis by (simp add: synced_def ir_load_def)
qed

definition resolver_wf :: "resolver \<Rightarrow> bool" where
  "resolver_wf r \<longleftrightarrow> dwf (load_profiles (ir_disk r)) \<and> dwf (ir_load r) \<and> synced r"

lemma dkeys_load [simp]: "dkeys (load_profiles (Profiles m)) = dkeys m"
  by (simp add: load_profiles_def dkeys_def case_prod_beta)

lemma resolver_wf_store: "dwf m \<Longrightarrow> resolver_wf (ir_store r m)"
  by (simp add: resolver_wf_def synced_store) (simp add: ir_store_def ir_load_def save_profiles_def dwf_def)

lemma resolver_wf_load: "resolver_wf r \<Longrightarrow> dwf (ir_load r)"
  by (simp add: resolver_wf_def)

lemma resolver_wf_cached: "resolver_wf r \<Longrightarrow> resolver_wf (r\<lparr>ir_profiles := Some (ir_load r)\<rparr>)"
  using synced_cached [of r] by (auto simp: resolver_wf_def ir_load_def)

lemma resolve_wf:
  assumes "resolver_wf r"
  shows "resolver_wf (fst (resolve now r name))"
proof -
  let ?m = "ir_load r"
  have cached: "resolver_wf (r\<lparr>ir_profiles := Some ?m\<rparr>)"
    by (rule resolver_wf_cached [OF assms])
  have touched: "resolver_wf (r\<lparr>ir_profiles := Some (dset ?m k (touch_profile now p))\<rparr>)"
    if "dget ?m k = Some p" for k p
    using assms that synced_touched [of r k p now] by (simp add: resolver_wf_def ir_load_def)
  show ?thesis
  proof (cases "dget BUILTIN_PROFILES name")
    case (Some b)
    with assms show ?thesis by (simp add: resolve_def)
  next
    case nb: None
    show ?thesis
    proof (cases "dget ?m name")
      case (Some p)
      with nb touched [OF Some] show ?thesis by (simp add: resolve_def Let_def)
    next
      case None
      show ?thesis
      proof (cases "filter (\<lambda>(k, p). same_name name p) ?m")
        case Nil
        with nb None cached show ?thesis by (simp add: resolve_def Let_def)
      next
        case (Cons kp rest)
        obtain k p where kp: "kp = (k, p)" by (cases kp)
        have "kp \<in> set (filter (\<lambda>(k, p). same_name name p) ?m)" by (simp add: Cons)
        then have "(k, p) \<in> set ?m" using kp by simp
        then have "dget ?m k = Some p" using assms by (simp add: resolver_wf_def dget_iff_in)
        with nb None Cons kp touched show ?thesis by (simp add: resolve_def Let_def)
      qed
    qed
  qed
qed

lemma change_profile_wf: "resolver_wf r \<Longrightarrow> resolver_wf (fst (change_profile f r i))"
  by (auto simp: change_profile_def Let_def resolver_wf_store resolver_wf_cached resolver_wf_load
      split: option.split)

lemma update_profile_wf: "resolver_wf r \<Longrightarrow> resolver_wf (update_profile r p)"
  by (simp add: update_profile_def resolver_wf_store resolver_wf_load)

lemma identity_step_wf: "resolver_wf r \<Longrightarrow> resolver_wf (identity_step r e)"
  by (cases e)
    (auto simp: resolve_wf update_profile_wf change_profile_wf create_profile_def Let_def
      create_enrolled_limited_profile_def grant_scope_def revoke_scope_def set_flag_def)

interpretation identities: machine identity_step
  "\<lambda>r. ir_profiles r = None \<and> dwf (load_profiles (ir_disk r))" resolver_wf
proof unfold_locales
  show "resolver_wf r" if "ir_profiles r = None \<and> dwf (load_profiles (ir_disk r))" for r
    using that by (simp add: resolver_wf_def synced_fresh) (simp add: ir_load_def)
qed (rule identity_step_wf)

text \<open>A restart of the resolver loses no identity: after any operations on a resolver that started
  on a profiles file, a new resolver on the resulting file knows the same ids in the same order,
  each with the same names, rights and flags. Only the visits since the last save are forgotten,
  and levels that are not in the lists become the defaults.\<close>

theorem restart_keeps_identities:
  assumes "dwf (load_profiles d)" and "r = run_events identity_step (fresh_resolver d) es"
  shows "core_map (ir_load (fresh_resolver (ir_disk r))) = core_map (ir_load r)"
proof -
  have "resolver_wf r"
    unfolding assms(2) by (rule identities.run_from_start) (simp add: fresh_resolver_def assms(1))
  then show ?thesis by (simp add: resolver_wf_def synced_def fresh_resolver_def ir_load_def)
qed

definition family_requests :: "identity_request list" where
  "family_requests =
     [Create 1 ''ann'' ''Ann'' [] [] ''trusted'' [''deploy''] ''wizard'' ''formal'' [],
      Resolve 2 ''ANN'', Enroll 3 ''bob'' ''Bob'' ''Ray'' None, GrantScope ''bob'' ''read'', Resolve 4 ''bob'']"

theorem restart_keeps_identities_witness:
  "let r = run_events identity_step (fresh_resolver NoProfiles) family_requests
   in core_map (ir_load (fresh_resolver (ir_disk r))) = core_map (ir_load r) \<and>
      dkeys (ir_load (fresh_resolver (ir_disk r))) = [''ann'', ''bob''] \<and>
      map (ip_trust_level \<circ> snd) (ir_load r) = [''trusted'', ''limited'']"
proof -
  have "dkeys (ir_load (fresh_resolver (ir_disk (run_events identity_step (fresh_resolver NoProfiles)
      family_requests)))) = [''ann'', ''bob'']"
    "map (ip_trust_level \<circ> snd) (ir_load (run_events identity_step (fresh_resolver NoProfiles)
      family_requests)) = [''trusted'', ''limited'']"
    by code_simp+
  with restart_keeps_identities [OF _ refl, of NoProfiles family_requests] show ?thesis
    by (simp add: Let_def load_profiles_def)
qed

text \<open>No operation touches the built-in identities: whatever the file says of \<^verbatim>\<open>system\<close> and
  \<^verbatim>\<open>owner\<close>, they resolve to the built-in admins; but the listing with the built-ins shows the
  profile of the file in their place.\<close>

theorem builtin_resolves_but_listing_differs:
  "let r = run_events identity_step (fresh_resolver NoProfiles)
       [Create 1 ''owner'' ''Impostor'' [] [] ''untrusted'' [] ''novice'' ''casual'' []]
   in ip_trust_level (snd (resolve 2 r ''owner'')) = ''admin'' \<and>
      map (\<lambda>p. (ip_display_name p, ip_trust_level p)) (get_all_including_builtins r) =
        [(''IGRIS Internal'', ''admin''), (''Impostor'', ''untrusted'')]"
  by code_simp

end
