(* ===== verification/ActionGuard.thy ===== *)
theory ActionGuard
  imports Identity PyRegex
begin

text \<open>
  \<^verbatim>\<open>igris/core/action_guard.py\<close> with \<^verbatim>\<open>igris/core/interlocutor_audit.py\<close> and the guard of
  \<^verbatim>\<open>igris/core/agent_reasoning_loop.py\<close>: whether an identity may perform a sensitive action. Each
  check makes a new resolver on the profiles file and appends one event to the audit log, if the
  write succeeds. Event ids, times and the outcome of the write are arguments. The handlers of
  exceptions around the resolver and the gate are for errors neither raises on a profile.
\<close>

section \<open>The audit log\<close>

record guard_event =
  au_event_id :: string
  au_event_type :: string
  au_ts :: string
  au_interlocutor_id :: string
  au_display_name :: string
  au_trust_level :: string
  au_action_type :: string
  au_target_resource :: string
  au_decision :: string
  au_reason :: string

definition AUDIT_SECRET_RE :: rx where
  "AUDIT_SECRET_RE = Seqs
     [Grp 1 (Words [''passphrase'', ''password'', ''secret'', ''token'', ''key'']),
      Plus (Cls [Ch (CHR 0x22), SpaceC, Ch (CHR '':''), Ch (CHR ''='')]),
      Plus (NCls [SpaceC, Ch (CHR '',''), Ch (CHR 0x22), Ch (CHR 0x7D), Ch (CHR 0x7B)])]"

definition audit_redact :: "string \<Rightarrow> string" where
  "audit_redact text = re_sub True AUDIT_SECRET_RE (\<lambda>c. dget_or c 1 [] @ ''=<REDACTED>'') text"

record audit_io =
  ai_event_id :: string
  ai_ts :: string
  ai_write_ok :: bool

definition audit_record ::
    "audit_io \<Rightarrow> guard_event list \<Rightarrow> string \<Rightarrow> string \<Rightarrow> string \<Rightarrow> string \<Rightarrow> string \<Rightarrow> string \<Rightarrow> string \<Rightarrow>
     string \<Rightarrow> guard_event list \<times> string"
where
  "audit_record io lg event_type interlocutor_id display_name trust_level action_type target_resource
       decision reason =
     (let entry = \<lparr>au_event_id = ai_event_id io, au_event_type = event_type, au_ts = ai_ts io,
            au_interlocutor_id = interlocutor_id, au_display_name = display_name,
            au_trust_level = trust_level, au_action_type = action_type,
            au_target_resource = target_resource, au_decision = decision,
            au_reason = audit_redact reason\<rparr>
      in if ai_write_ok io then (lg @ [entry], ai_event_id io) else (lg, []))"

text \<open>\<^verbatim>\<open>lines[-n:]\<close>: asking for none gives all.\<close>

definition audit_recent :: "guard_event list \<Rightarrow> int \<Rightarrow> guard_event list" where
  "audit_recent lg n = slice_from (- n) lg"

section \<open>The guard\<close>

definition SENSITIVE_ACTION_TYPES :: "string list" where
  "SENSITIVE_ACTION_TYPES =
     [''write_file'', ''edit_file'', ''run_command'', ''github_write'', ''github_admin'',
      ''deploy'', ''rollback'', ''delete'', ''network_scan'', ''browser_operation'', ''override'']"

datatype guard_reason = NonSensitive | UnknownInterlocutor | GateReason auth_reason

fun reason_code :: "auth_reason \<Rightarrow> string" where
  "reason_code AdminBypass = ''admin_bypass''"
| "reason_code ScopeMatch = ''scope_match''"
| "reason_code ScopeDenied = ''scope_denied''"
| "reason_code DelegationKeyAccepted = ''delegation_key_accepted''"
| "reason_code (DelegationKeyRejected v) = ''delegation_key_rejected:'' @
     (case v of Ok \<Rightarrow> ''ok'' | KeyNotFound \<Rightarrow> ''key_not_found'' | PassphraseMismatch \<Rightarrow> ''passphrase_mismatch''
      | KeyExpired \<Rightarrow> ''key_expired'' | KeyConsumed \<Rightarrow> ''key_consumed'' | BearerMismatch \<Rightarrow> ''bearer_mismatch''
      | ScopeNotCovered ss \<Rightarrow> ''scope_not_covered:'' @ list_repr ss)"

definition check_action ::
    "crypto \<Rightarrow> keys_file \<Rightarrow> audit_io \<Rightarrow> pyfloat \<Rightarrow> profiles_file \<Rightarrow> guard_event list \<Rightarrow> string \<Rightarrow> string \<Rightarrow>
     string option \<Rightarrow> guard_event list \<times> bool \<times> guard_reason"
where
  "check_action c keys io now disk lg action_type profile_id scope =
     (if action_type \<notin> set SENSITIVE_ACTION_TYPES then (lg, True, NonSensitive)
      else
        let profile = snd (resolve now (fresh_resolver disk) profile_id) in
        if ip_trust_level profile = ''untrusted'' then
          (fst (audit_record io lg ''unknown_interlocutor_denied'' profile_id ''unknown'' ''untrusted''
             action_type [] ''denied'' ''unknown or untrusted profile''), False, UnknownInterlocutor)
        else
          let required_scope = str_or scope action_type;
              res = snd (check_auth c now keys (interlocutor.truncate profile) action_type required_scope
                None None)
          in (fst (audit_record io lg (if ar_allowed res then ''auth_allowed'' else ''auth_denied'')
                profile_id (ip_display_name profile) (ip_trust_level profile) action_type required_scope
                (if ar_allowed res then ''allowed'' else ''denied'') (reason_code (ar_reason res))),
              ar_allowed res, GateReason (ar_reason res)))"

section \<open>The guard of the reasoning loop\<close>

definition SENSITIVE_ACTION_MAP :: "(string, string) dict" where
  "SENSITIVE_ACTION_MAP =
     [(''write_file'', ''write_file''), (''edit_file'', ''edit_file''),
      (''insert_after'', ''edit_file''), (''insert_before'', ''edit_file''),
      (''replace_range'', ''edit_file''), (''append_file'', ''edit_file''),
      (''apply_patch'', ''edit_file''), (''shell_template'', ''run_command''),
      (''github_write'', ''github_write''), (''deploy'', ''deploy''), (''rollback'', ''rollback''),
      (''delete'', ''delete''), (''network_scan'', ''network_scan''),
      (''browser_operation'', ''browser_operation''), (''override'', ''override'')]"

definition acting_profile :: "string option \<Rightarrow> bool \<Rightarrow> string" where
  "acting_profile interlocutor is_internal_supervisor =
     str_or interlocutor (if is_internal_supervisor then ''system'' else ''unknown'')"

definition guard_action ::
    "crypto \<Rightarrow> keys_file \<Rightarrow> audit_io \<Rightarrow> pyfloat \<Rightarrow> profiles_file \<Rightarrow> guard_event list \<Rightarrow> string option \<Rightarrow> bool \<Rightarrow>
     string \<Rightarrow> guard_event list \<times> bool \<times> guard_reason"
where
  "guard_action c keys io now disk lg interlocutor is_internal_supervisor action_type =
     (case dget SENSITIVE_ACTION_MAP action_type of
        None \<Rightarrow> (lg, True, NonSensitive)
      | Some guard_type \<Rightarrow>
          check_action c keys io now disk lg guard_type
            (acting_profile interlocutor is_internal_supervisor) None)"

section \<open>What the guard decides\<close>

lemma keyless_gate:
  "ar_allowed (snd (check_auth c now keys (interlocutor.truncate p) a s None None)) \<longleftrightarrow>
     ip_trust_level p = ''admin'' \<or>
     s \<in> set (ip_authorized_scopes p) \<or> a \<in> set (ip_authorized_scopes p) \<or> ''*'' \<in> set (ip_authorized_scopes p)"
  by (auto simp: check_auth_def scope_ok_def denied_def interlocutor.defs Let_def)

text \<open>C27. When a sensitive action is allowed: exactly when the name resolves to a profile above
  untrusted that is an admin or has the scope asked for, the action or everything in its scopes;
  an action that is not on the list always is. A check of a sensitive action appends exactly one
  event to the log when it can be written, with the decision it returns, and any other check none.\<close>

theorem action_guard_decision:
  "let (lg', ok, reason) = check_action c keys io now disk lg a who scope;
       p = snd (resolve now (fresh_resolver disk) who)
   in (ok \<longleftrightarrow>
         (if a \<in> set SENSITIVE_ACTION_TYPES \<and> ip_trust_level p \<noteq> ''admin''
          then ip_trust_level p \<noteq> ''untrusted'' \<and>
            {str_or scope a, a, ''*''} \<inter> set (ip_authorized_scopes p) \<noteq> {}
          else True)) \<and>
      (if a \<in> set SENSITIVE_ACTION_TYPES \<and> ai_write_ok io
       then \<exists>e. lg' = lg @ [e] \<and> au_interlocutor_id e = who \<and> au_action_type e = a \<and>
         au_decision e = (if ok then ''allowed'' else ''denied'')
       else lg' = lg)"
  by (auto simp: check_action_def audit_record_def keyless_gate Let_def)

text \<open>A name nobody registered can do nothing sensitive, whatever scope it asks for.\<close>

theorem unregistered_name_is_denied:
  assumes "\<not> known_name (fresh_resolver disk) who" and "a \<in> set SENSITIVE_ACTION_TYPES"
  shows "fst (snd (check_action c keys io now disk lg a who scope)) = False"
  using assms(2) by (simp add: check_action_def resolve_unknown [OF assms(1)] Let_def)

theorem unregistered_name_is_denied_witness:
  "fst (snd (check_action toy_crypto (Keys []) \<lparr>ai_event_id = ''e1'', ai_ts = ''now'', ai_write_ok = True\<rparr> 1
     NoProfiles [] ''deploy'' ''Mallory'' (Some ''*''))) = False"
proof (rule unregistered_name_is_denied)
  show "\<not> known_name (fresh_resolver NoProfiles) ''Mallory''" by code_simp
qed (simp add: SENSITIVE_ACTION_TYPES_def)

text \<open>Somebody just enrolled can do nothing sensitive: the enrolment gives the level limited and
  three scopes, none of which is a sensitive action.\<close>

lemma enrolled_resolves:
  assumes "i \<notin> set (dkeys BUILTIN_PROFILES)" "(r', p) = create_enrolled_limited_profile now r i f l d"
  shows "ip_trust_level (snd (resolve t (fresh_resolver (ir_disk r')) i)) = ''limited''"
    and "ip_authorized_scopes (snd (resolve t (fresh_resolver (ir_disk r')) i)) = ENROLLED_LIMITED_SCOPES"
proof -
  have p: "ip_profile_id p = i" "ip_trust_level p = ''limited''"
    "ip_authorized_scopes p = ENROLLED_LIMITED_SCOPES" "r' = update_profile r p"
    using assms(2) by (auto simp: create_enrolled_limited_profile_def new_profile_def Let_def)
  have "ir_load (fresh_resolver (ir_disk r')) =
      map (\<lambda>(k, p). (k, normalize_profile p)) (dset (ir_load r) i p)"
    by (simp add: p update_profile_def ir_store_def fresh_resolver_def ir_load_def load_profiles_def
        save_profiles_def)
  then have g: "dget (ir_load (fresh_resolver (ir_disk r'))) i = Some (normalize_profile p)"
    by (simp add: dget_map_values)
  have b: "dget BUILTIN_PROFILES i = None" using assms(1) by (simp add: dget_None_iff)
  show "ip_trust_level (snd (resolve t (fresh_resolver (ir_disk r')) i)) = ''limited''"
    "ip_authorized_scopes (snd (resolve t (fresh_resolver (ir_disk r')) i)) = ENROLLED_LIMITED_SCOPES"
    using p(2,3) by (simp_all add: resolve_def b g Let_def normalize_profile_def normalize_trust_def TRUST_LEVELS_def)
qed

theorem enrolled_profile_cannot_act:
  assumes "i \<notin> set (dkeys BUILTIN_PROFILES)" and "a \<in> set SENSITIVE_ACTION_TYPES"
    and "(r', p) = create_enrolled_limited_profile t r i f l d"
  shows "fst (snd (check_action c keys io now (ir_disk r') lg a i None)) = False"
proof -
  have s: "a \<notin> set ENROLLED_LIMITED_SCOPES" "''*'' \<notin> set ENROLLED_LIMITED_SCOPES"
    using assms(2) by (auto simp: ENROLLED_LIMITED_SCOPES_def SENSITIVE_ACTION_TYPES_def)
  from action_guard_decision [of c keys io now "ir_disk r'" lg a i None]
    enrolled_resolves [OF assms(1,3), of now] assms(2) s
  show ?thesis by (auto simp: str_or_def Let_def split: prod.splits)
qed

theorem enrolled_profile_cannot_act_witness:
  "fst (snd (check_action toy_crypto (Keys []) \<lparr>ai_event_id = ''e1'', ai_ts = ''now'', ai_write_ok = True\<rparr> 2
     (ir_disk (fst (create_enrolled_limited_profile 1 (fresh_resolver NoProfiles) ''bob'' ''Bob'' ''Ray'' None)))
     [] ''run_command'' ''bob'' None)) = False"
  by (rule enrolled_profile_cannot_act [OF _ _ prod.collapse])
    (simp_all add: BUILTIN_PROFILES_def SENSITIVE_ACTION_TYPES_def)

text \<open>The reasoning loop does not lend its rights: without an interlocutor and without being the
  supervisor, every action the loop guards is denied, unless somebody registered the name
  \<^verbatim>\<open>unknown\<close>; the supervisor acts as an admin.\<close>

lemma guarded_types: "dget SENSITIVE_ACTION_MAP a = Some g \<Longrightarrow> g \<in> set SENSITIVE_ACTION_TYPES"
  by (auto simp: SENSITIVE_ACTION_MAP_def SENSITIVE_ACTION_TYPES_def split: if_splits)

theorem loop_guard_denies_anonymous:
  assumes "\<not> known_name (fresh_resolver disk) ''unknown''"
    and "a \<in> set (dkeys SENSITIVE_ACTION_MAP)" and "who \<in> {None, Some []}"
  shows "fst (snd (guard_action c keys io now disk lg who False a)) = False \<and>
    fst (snd (guard_action c keys io now disk lg who True a)) = True"
proof -
  obtain g where g: "dget SENSITIVE_ACTION_MAP a = Some g"
    using assms(2) dget_None_iff [of SENSITIVE_ACTION_MAP a] by auto
  have who: "acting_profile who False = ''unknown''" "acting_profile who True = ''system''"
    using assms(3) by (auto simp: acting_profile_def str_or_def)
  have "ip_trust_level (snd (resolve now (fresh_resolver disk) ''system'')) = ''admin''"
    by (simp add: resolve_def BUILTIN_PROFILES_def)
  with action_guard_decision [of c keys io now disk lg g "''system''" None]
  have "fst (snd (check_action c keys io now disk lg g ''system'' None))"
    by (auto simp: Let_def split: prod.splits)
  with unregistered_name_is_denied [OF assms(1) guarded_types [OF g], of c keys io now lg None] who
  show ?thesis by (simp add: guard_action_def g)
qed

section \<open>The HTTP dependency\<close>

text \<open>\<^verbatim>\<open>igris/core/authorization.py\<close>: the user of a request from its \<^verbatim>\<open>Authorization\<close> header,
  and the scope an endpoint requires. A refusal is the HTTP status.\<close>

record api_user =
  us_user_id :: string
  us_scopes :: "string list"
  us_trust_level :: string

definition get_current_user :: "string option \<Rightarrow> api_user" where
  "get_current_user auth_header =
     (if starts (case auth_header of None \<Rightarrow> [] | Some h \<Rightarrow> h) ''Bearer ''
      then \<lparr>us_user_id = ''token_user'', us_scopes = [''read''], us_trust_level = ''operator''\<rparr>
      else \<lparr>us_user_id = ''anonymous'', us_scopes = [''read''], us_trust_level = ''readonly''\<rparr>)"

definition require_scope :: "string \<Rightarrow> api_user \<Rightarrow> nat + unit" where
  "require_scope scope user =
     (if scope \<notin> set (us_scopes user) \<and> ''admin'' \<notin> set (us_scopes user) then Inl 403 else Inr ())"

text \<open>Whatever the header says, a request passes exactly the endpoints that ask for reading: no token
  is validated and none gives more.\<close>

theorem api_scope_is_read_only:
  "require_scope scope (get_current_user auth_header) = (if scope = ''read'' then Inr () else Inl 403)"
  by (simp add: require_scope_def get_current_user_def)

end
