(* ===== verification/AuthRoutes.thy ===== *)
theory AuthRoutes
  imports Sessions ActionGuard
begin

text \<open>
  \<^verbatim>\<open>igris/api/routes/auth_routes.py\<close>: enrollment, login, logout and the profile of a session, on the
  four files of the auth subsystem. Every request opens its stores from the files. What a request
  draws (the clock, a salt, a token, an id, the outcome of each write) is its \<open>route_io\<close>. Errors are the
  response's codes. Pending enrollments are
  compared by the text of their times, the clock's without a zone, so that equal times count as pending.
\<close>

section \<open>Validation\<close>

definition RESERVED_USERNAMES :: "string list" where
  "RESERVED_USERNAMES = [''owner'', ''system'', ''admin'', ''root'', ''igris'']"

text \<open>\<^verbatim>\<open>^[a-z0-9_.\-]{2,64}$\<close> on a stripped text, which has no line feed at its end.\<close>

definition username_format :: "string \<Rightarrow> bool" where
  "username_format s \<longleftrightarrow> 2 \<le> length s \<and> length s \<le> 64 \<and>
     list_all (in_items [Rng (CHR ''a'') (CHR ''z''), Rng (CHR ''0'') (CHR ''9''), Ch (CHR ''_''),
       Ch (CHR ''.''), Ch (CHR ''-'')]) s"

definition validate_username :: "string \<Rightarrow> string list" where
  "validate_username username =
     (let normalized = strip (py_lower username)
      in (if normalized = [] then [''username_required'']
          else if \<not> username_format normalized then [''invalid_username_format''] else []) @
         (if normalized \<in> set RESERVED_USERNAMES then [''username_reserved''] else []))"

definition validate_email :: "string \<Rightarrow> string list" where
  "validate_email email =
     (if CHR ''@'' \<notin> set email \<or> CHR ''.'' \<notin> set (List.last (split_on (CHR ''@'') email))
      then [''invalid_email''] else [])"

definition validate_phone :: "string \<Rightarrow> string list" where
  "validate_phone phone =
     (if length (filter (\<lambda>c. in_item c DigitC) phone) < 6 then [''invalid_mobile_phone''] else [])"

definition extract_bearer_token :: "string option \<Rightarrow> string option \<Rightarrow> string" where
  "extract_bearer_token auth_header cookie =
     (let h = str_or auth_header []
      in if starts h ''Bearer '' then strip (drop 7 h) else str_or cookie [])"

section \<open>State and responses\<close>

record auth_files =
  fi_profiles :: profiles_file
  fi_credentials :: "auth_credential store_file"
  fi_sessions :: "auth_session store_file"
  fi_enrollments :: "pending_enrollment store_file"

record route_io =
  io_kdf :: kdf
  io_sha :: token_hash
  io_now :: pyfloat
  io_salt :: string
  io_token :: string
  io_uuid :: string
  io_profile_write_ok :: bool
  io_credential_write :: write_outcome
  io_session_write :: write_outcome
  io_enrollment_write :: write_outcome

datatype auth_response =
    Rejected string "string list"
  | EnrollStarted string "pyfloat option" string
  | SignedIn string string "pyfloat option"
  | LoggedOut
  | MyProfile profile

record enroll_start_request =
  er_username :: string
  er_first_name :: string
  er_last_name :: string
  er_email :: string
  er_mobile_phone :: string
  er_forbidden :: "string list"

section \<open>Enrollment\<close>

definition pending_for :: "pyfloat \<Rightarrow> enrollment_store \<Rightarrow> string \<Rightarrow> bool" where
  "pending_for now es username =
     list_ex (\<lambda>(h, e). pe_profile_id e = username \<and> \<not> pe_used e \<and>
       (case pe_expires_at e of None \<Rightarrow> False | Some t \<Rightarrow> now \<le> t)) (en_enrollments es)"

definition enroll_start :: "route_io \<Rightarrow> auth_files \<Rightarrow> enroll_start_request \<Rightarrow> auth_files \<times> auth_response" where
  "enroll_start io fs req =
     (let username = strip (py_lower (er_username req));
          errors = validate_username username @ validate_email (er_email req) @
            validate_phone (er_mobile_phone req) @
            (if strip (er_first_name req) = [] then [''first_name_required''] else []) @
            (if strip (er_last_name req) = [] then [''last_name_required''] else []);
          es = open_enrollments ENROLLMENT_TTL_SECONDS (fi_enrollments fs)
      in if er_forbidden req \<noteq> [] then (fs, Rejected ''forbidden_field'' (er_forbidden req))
         else if errors \<noteq> [] then (fs, Rejected ''validation_failed'' errors)
         else if username \<in> set (dkeys (load_profiles (fi_profiles fs))) \<or>
             username \<in> set (dkeys BUILTIN_PROFILES) then (fs, Rejected ''username_taken'' [])
         else if get_credential (open_credentials (fi_credentials fs)) username \<noteq> None then
           (fs, Rejected ''username_taken'' [])
         else if pending_for (io_now io) es username then (fs, Rejected ''username_taken'' [])
         else
           (case create_pending (io_sha io) (io_token io) (io_uuid io) (io_now io)
                   (io_enrollment_write io) es username (strip (er_first_name req))
                   (strip (er_last_name req)) (er_email req) (er_mobile_phone req) of
              (es', r) \<Rightarrow>
                (fs\<lparr>fi_enrollments := en_file es'\<rparr>,
                 if \<not> ao_ok r then Rejected ''enrollment_create_failed'' (ao_errors r)
                 else EnrollStarted (ao_session_token r) (ao_expires_at r) username)))"

definition sign_in ::
    "route_io \<Rightarrow> auth_files \<Rightarrow> string \<Rightarrow> (auth_op_result \<Rightarrow> string list) \<Rightarrow> auth_files \<times> auth_response" where
  "sign_in io fs profile_id details =
     (case create_session (io_sha io) (io_token io) (io_uuid io) (io_now io) (io_session_write io)
             (open_sessions SESSION_TTL_SECONDS True (fi_sessions fs)) profile_id [] [] of
        (sm, r) \<Rightarrow>
          (fs\<lparr>fi_sessions := sm_file sm\<rparr>,
           if \<not> ao_ok r then Rejected ''session_create_failed'' (details r)
           else SignedIn profile_id (ao_session_token r) (ao_expires_at r)))"

definition enroll_complete ::
    "route_io \<Rightarrow> auth_files \<Rightarrow> string \<Rightarrow> string \<Rightarrow> string \<Rightarrow> auth_files \<times> auth_response" where
  "enroll_complete io fs enrollment_token password confirm_password =
     (let es = open_enrollments ENROLLMENT_TTL_SECONDS (fi_enrollments fs)
      in if password \<noteq> confirm_password then (fs, Rejected ''password_mismatch'' [])
         else case resolve_token (io_sha io) (io_now io) es enrollment_token of
           (None, r) \<Rightarrow>
             (fs, Rejected (if ao_errors r \<noteq> [] \<and> contains (hd (ao_errors r)) ''expired''
                then ''expired_enrollment_token'' else ''invalid_enrollment_token'') [])
         | (Some e, r) \<Rightarrow>
             let profile_id = pe_profile_id e in
             if \<not> io_profile_write_ok io then (fs, Rejected ''create_failed'' [])
             else
               let ir = fst (create_enrolled_limited_profile (io_now io) (fresh_resolver (fi_profiles fs))
                     profile_id (pe_first_name e) (pe_last_name e) None);
                   fs1 = fs\<lparr>fi_profiles := ir_disk ir\<rparr>;
                   (cs, cred_r) = create_credential (io_kdf io) (io_salt io) (io_now io)
                     (io_credential_write io) (open_credentials (fi_credentials fs)) profile_id
                     (pe_email e) (pe_mobile_phone e) password;
                   fs2 = fs1\<lparr>fi_credentials := cs_file cs\<rparr>
               in if \<not> ao_ok cred_r then
                    (fs2, Rejected (case ao_errors cred_r of [] \<Rightarrow> ''create_failed'' | x # _ \<Rightarrow> x) [])
                  else
                    let es' = fst (mark_used (io_sha io) (io_enrollment_write io) es enrollment_token)
                    in sign_in io (fs2\<lparr>fi_enrollments := en_file es'\<rparr>) profile_id ao_errors)"

section \<open>Login, logout, me\<close>

definition login :: "route_io \<Rightarrow> auth_files \<Rightarrow> string \<Rightarrow> string \<Rightarrow> auth_files \<times> auth_response" where
  "login io fs user_name password =
     (let username = strip (py_lower user_name);
          (cs, r) = verify_login (io_kdf io) (io_now io) (io_credential_write io)
            (open_credentials (fi_credentials fs)) username password;
          fs1 = fs\<lparr>fi_credentials := cs_file cs\<rparr>
      in if \<not> ao_ok r then (fs1, Rejected ''invalid_credentials'' [])
         else sign_in io fs1 username (\<lambda>_. []))"

definition logout ::
    "route_io \<Rightarrow> auth_files \<Rightarrow> string option \<Rightarrow> string option \<Rightarrow> string option \<Rightarrow> auth_files \<times> auth_response" where
  "logout io fs auth_header cookie body_token =
     (let bearer = extract_bearer_token auth_header cookie;
          token = (if bearer = [] then str_or body_token [] else bearer)
      in if token = [] then (fs, Rejected ''invalid_session'' [])
         else
           (case revoke_session (io_sha io) (io_session_write io)
                   (open_sessions SESSION_TTL_SECONDS True (fi_sessions fs)) token of
              (sm, r) \<Rightarrow>
                (fs\<lparr>fi_sessions := sm_file sm\<rparr>,
                 if ao_ok r then LoggedOut else Rejected ''invalid_session'' [])))"

definition me :: "route_io \<Rightarrow> auth_files \<Rightarrow> string option \<Rightarrow> string option \<Rightarrow> auth_files \<times> auth_response" where
  "me io fs auth_header cookie =
     (let token = extract_bearer_token auth_header cookie
      in if token = [] then (fs, Rejected ''authentication_required'' [])
         else
           (case resolve_session (io_sha io) (io_now io) (io_session_write io)
                   (open_sessions SESSION_TTL_SECONDS True (fi_sessions fs)) token of
              (sm, e, r) \<Rightarrow>
                let fs1 = fs\<lparr>fi_sessions := sm_file sm\<rparr>
                in case e of
                     None \<Rightarrow> (fs1, Rejected ''invalid_session'' [])
                   | Some s \<Rightarrow>
                       if \<not> ao_ok r then (fs1, Rejected ''invalid_session'' [])
                       else (fs1, MyProfile (snd (resolve (io_now io)
                         (fresh_resolver (fi_profiles fs)) (se_profile_id s))))))"

section \<open>Signing in and coming back\<close>

definition fresh_session :: "route_io \<Rightarrow> string \<Rightarrow> auth_session" where
  "fresh_session io p =
     \<lparr>se_session_id = io_uuid io, se_token_hash = io_sha io (io_token io), se_profile_id = p,
      se_created_at = Some (io_now io), se_expires_at = Some (io_now io + SESSION_TTL_SECONDS),
      se_last_seen_at = Some (io_now io), se_revoked = False, se_ip_hint = [], se_user_agent_hint = [],
      se_metadata = PDict []\<rparr>"

lemma sign_in_effect:
  assumes "sign_in io fs p details = (fs', SignedIn q tok expires)"
  shows "q = p \<and> tok = io_token io \<and> fs' = fs\<lparr>fi_sessions := saved_table session_to_dict
    (dset (stored_sessions (fi_sessions fs)) (io_sha io (io_token io)) (fresh_session io p))\<rparr>"
  using assms
  by (auto simp: sign_in_def create_session_def fresh_session_def case_prod_unfold Let_def sm_save_simps
      op_ok_def op_failed_def op_result_def open_sessions_stored split: if_splits)

lemma sign_in_profiles:
  "fi_profiles (fst (sign_in io fs p d)) = fi_profiles fs"
  "fi_enrollments (fst (sign_in io fs p d)) = fi_enrollments fs"
  by (simp_all add: sign_in_def case_prod_unfold)

datatype route_request =
    EnrollStart route_io enroll_start_request
  | EnrollComplete route_io string string string
  | LoginRoute route_io string string
  | Logout route_io "string option" "string option" "string option"
  | Me route_io "string option" "string option"

fun route_step :: "auth_files \<Rightarrow> route_request \<Rightarrow> auth_files" where
  "route_step fs (EnrollStart io req) = fst (enroll_start io fs req)"
| "route_step fs (EnrollComplete io tok pw pw2) = fst (enroll_complete io fs tok pw pw2)"
| "route_step fs (LoginRoute io name pw) = fst (login io fs name pw)"
| "route_step fs (Logout io h c b) = fst (logout io fs h c b)"
| "route_step fs (Me io h c) = fst (me io fs h c)"

text \<open>What a sign-in, a logout and a \<^verbatim>\<open>me\<close> do to the file of sessions.\<close>

lemma sign_in_sessions:
  "fi_sessions (fst (sign_in io fs p d)) \<in> {fi_sessions fs, saved_table session_to_dict
     (dset (stored_sessions (fi_sessions fs)) (io_sha io (io_token io)) (fresh_session io p))}"
  by (auto simp: sign_in_def create_session_def fresh_session_def case_prod_unfold Let_def sm_save_simps open_sessions_stored)

lemma login_sessions:
  "\<exists>p. fi_sessions (fst (login io fs n pw)) \<in> {fi_sessions fs, saved_table session_to_dict
     (dset (stored_sessions (fi_sessions fs)) (io_sha io (io_token io)) (fresh_session io p))}"
  using sign_in_sessions [of io "fs\<lparr>fi_credentials := c\<rparr>" for c]
  by (auto simp: login_def case_prod_unfold Let_def)

lemma enroll_complete_sessions:
  "\<exists>p. fi_sessions (fst (enroll_complete io fs tok pw pw2)) \<in> {fi_sessions fs, saved_table session_to_dict
     (dset (stored_sessions (fi_sessions fs)) (io_sha io (io_token io)) (fresh_session io p))}"
proof -
  define P where "P x \<longleftrightarrow> (\<exists>p. fi_sessions x \<in> {fi_sessions fs, saved_table session_to_dict
     (dset (stored_sessions (fi_sessions fs)) (io_sha io (io_token io)) (fresh_session io p))})" for x :: auth_files
  have signs: "P (fst (sign_in io x p d))" if "fi_sessions x = fi_sessions fs" for x p d
    using sign_in_sessions [of io x p d] unfolding that P_def by blast
  have keeps: "P x" if "fi_sessions x = fi_sessions fs" for x
    using that by (simp add: P_def)
  have "P (fst (enroll_complete io fs tok pw pw2))"
    unfolding enroll_complete_def Let_def case_prod_unfold
    by (simp add: signs keeps split: option.split)
  then show ?thesis by (simp add: P_def)
qed

text \<open>The file holds a session of a profile under a hash that is not revoked and does not expire before a time.\<close>

definition session_held :: "string \<Rightarrow> string \<Rightarrow> pyfloat \<Rightarrow> auth_session store_file \<Rightarrow> bool" where
  "session_held h p t f \<longleftrightarrow> (\<exists>e x. dget (stored_sessions f) h = Some e \<and> se_profile_id e = p \<and> \<not> se_revoked e \<and>
     se_expires_at e = Some x \<and> t \<le> x)"

lemma held_saved:
  assumes "dget m h = Some e" "se_profile_id e = p" "\<not> se_revoked e" "se_expires_at e = Some x" "t \<le> x" "redact p = p"
  shows "session_held h p t (saved_table session_to_dict m)"
  using assms by (auto simp: session_held_def stored_saved dget_map_values session_to_dict_def)

lemma held_saved_other:
  assumes "session_held h p t f" "redact p = p" "k \<noteq> h"
  shows "session_held h p t (saved_table session_to_dict (dset (stored_sessions f) k e))"
  using assms by (auto simp: session_held_def [of h p t f] intro: held_saved)

text \<open>The requests that leave the session of a token alone: they come after the login, hash with the same function,
  make no token of the same hash and do not log out with a token of that hash.\<close>

fun request_io :: "route_request \<Rightarrow> route_io" where
  "request_io (EnrollStart io req) = io"
| "request_io (EnrollComplete io tok pw pw2) = io"
| "request_io (LoginRoute io name pw) = io"
| "request_io (Logout io h c b) = io"
| "request_io (Me io h c) = io"

fun touches_token :: "token_hash \<Rightarrow> string \<Rightarrow> route_request \<Rightarrow> bool" where
  "touches_token sha tok (EnrollComplete io t pw pw2) = (sha (io_token io) = sha tok)"
| "touches_token sha tok (LoginRoute io name pw) = (sha (io_token io) = sha tok)"
| "touches_token sha tok (Logout io h c b) =
     (let bearer = extract_bearer_token h c in sha (if bearer = [] then str_or b [] else bearer) = sha tok)"
| "touches_token sha tok _ = False"

definition spares :: "token_hash \<Rightarrow> string \<Rightarrow> pyfloat \<Rightarrow> route_request \<Rightarrow> bool" where
  "spares sha tok t0 q \<longleftrightarrow> io_sha (request_io q) = sha \<and> t0 \<le> io_now (request_io q) \<and> \<not> touches_token sha tok q"

lemma held_revoke:
  assumes "session_held h p t f" "redact p = p" "sha tok \<noteq> h"
  shows "session_held h p t (sm_file (fst (revoke_session sha w (open_sessions ttl sl f) tok)))"
  using assms held_saved_other [OF assms]
  by (auto simp: revoke_session_def case_prod_unfold Let_def sm_save_simps open_sessions_stored split: option.split)

lemma held_resolve:
  assumes "session_held h p (t0 + SESSION_TTL_SECONDS) f" "redact p = p" "t0 \<le> now"
  shows "session_held h p (t0 + SESSION_TTL_SECONDS)
    (sm_file (fst (resolve_session sha now w (open_sessions SESSION_TTL_SECONDS True f) tok)))"
proof -
  let ?s = "open_sessions SESSION_TTL_SECONDS True f" and ?t = "t0 + SESSION_TTL_SECONDS"
  have f: "sm_file (fst (resolve_session sha now w ?s tok)) \<in> {f} \<union>
      {saved_table session_to_dict (dset (stored_sessions f) (sha tok) (touch_session now ?s e)) | e.
        dget (stored_sessions f) (sha tok) = Some e \<and> \<not> se_revoked e}"
    by (auto simp: resolve_session_def case_prod_unfold Let_def sm_save_simps open_sessions_stored split: option.split)
  have "session_held h p ?t (saved_table session_to_dict (dset (stored_sessions f) (sha tok) (touch_session now ?s e)))"
    if e: "dget (stored_sessions f) (sha tok) = Some e" "\<not> se_revoked e" for e
  proof (cases "sha tok = h")
    case True
    with e assms show ?thesis
      by (intro held_saved [where e = "touch_session now ?s e" and x = "now + SESSION_TTL_SECONDS"])
        (auto simp: session_held_def touch_session_def open_sessions_stored)
  next
    case False
    then show ?thesis by (rule held_saved_other [OF assms(1,2)])
  qed
  with f assms(1) show ?thesis by auto
qed

lemma held_step:
  assumes "session_held (sha tok) p (t0 + SESSION_TTL_SECONDS) (fi_sessions fs)" "redact p = p" "spares sha tok t0 q"
  shows "session_held (sha tok) p (t0 + SESSION_TTL_SECONDS) (fi_sessions (route_step fs q))"
proof (cases q)
  case (EnrollStart io req)
  then show ?thesis using assms(1) by (simp add: enroll_start_def case_prod_unfold Let_def)
next
  case (EnrollComplete io t pw pw2)
  with assms(3) have "io_sha io (io_token io) \<noteq> sha tok" by (auto simp: spares_def)
  with enroll_complete_sessions [of io fs t pw pw2] held_saved_other [OF assms(1,2)] assms(1) EnrollComplete
  show ?thesis by auto
next
  case (LoginRoute io name pw)
  with assms(3) have "io_sha io (io_token io) \<noteq> sha tok" by (auto simp: spares_def)
  with login_sessions [of io fs name pw] held_saved_other [OF assms(1,2)] assms(1) LoginRoute
  show ?thesis by auto
next
  case (Logout io h c b)
  with assms show ?thesis
    by (auto simp: spares_def logout_def case_prod_unfold Let_def intro: held_revoke)
next
  case (Me io h c)
  have "fi_sessions (fst (me io fs h c)) \<in> {fi_sessions fs, sm_file (fst (resolve_session (io_sha io) (io_now io)
      (io_session_write io) (open_sessions SESSION_TTL_SECONDS True (fi_sessions fs)) (extract_bearer_token h c)))}"
    by (auto simp: me_def case_prod_unfold Let_def split: option.split)
  moreover have "t0 \<le> io_now io" using assms(3) Me by (simp add: spares_def)
  ultimately show ?thesis using held_resolve [OF assms(1,2)] assms(1) Me by auto
qed

lemma held_run:
  assumes "session_held (sha tok) p (t0 + SESSION_TTL_SECONDS) (fi_sessions fs)" "redact p = p" "list_all (spares sha tok t0) qs"
  shows "session_held (sha tok) p (t0 + SESSION_TTL_SECONDS) (fi_sessions (run_events route_step fs qs))"
  using assms by (induction qs arbitrary: fs) (auto intro: held_step)

lemma held_me:
  assumes "session_held (io_sha io tok) p t (fi_sessions fs)" "io_now io < t" "strip tok = tok" "tok \<noteq> []"
  shows "snd (me io fs (Some (''Bearer '' @ tok)) cookie) =
    MyProfile (snd (resolve (io_now io) (fresh_resolver (fi_profiles fs)) p))"
proof -
  have tok: "extract_bearer_token (Some (''Bearer '' @ tok)) cookie = tok"
    using assms(3) by (simp add: extract_bearer_token_def str_or_def Let_def)
  show ?thesis unfolding me_def Let_def tok
    using assms by (auto simp: session_held_def resolve_session_def open_sessions_stored iso_expired_def
        touch_session_def op_ok_def case_prod_unfold Let_def)
qed

text \<open>C32. A login lets its user back in, and not only once: after any requests of any users, \<^verbatim>\<open>me\<close> requests
  with the token among them, with writes that fail or not, the token sent as a bearer token within the time to live
  of the login resolves to the profile that logged in, whose rights come from the profiles file of the time. The
  requests must leave the session alone: nobody logs out with the token, no other token has its hash, and the clock does not go back
  behind the login. The name must survive the redaction of the stored session (see
  \<open>secret_like_name_is_a_guest\<close>), and the token generator makes no empty or padded token.\<close>

theorem login_token_resolves:
  assumes "login io fs name pw = (fs', SignedIn p tok expires)"
    and "redact p = p" and "strip tok = tok" and "tok \<noteq> []"
    and "list_all (spares (io_sha io) tok (io_now io)) qs"
    and "io_sha io' = io_sha io" and "io_now io' < io_now io + SESSION_TTL_SECONDS"
  shows "p = strip (py_lower name) \<and>
    snd (me io' (run_events route_step fs' qs) (Some (''Bearer '' @ tok)) cookie) =
      MyProfile (snd (resolve (io_now io') (fresh_resolver (fi_profiles (run_events route_step fs' qs))) p))"
proof -
  let ?v = "verify_login (io_kdf io) (io_now io) (io_credential_write io)
    (open_credentials (fi_credentials fs)) (strip (py_lower name)) pw"
  have "sign_in io (fs\<lparr>fi_credentials := cs_file (fst ?v)\<rparr>) (strip (py_lower name)) (\<lambda>_. []) =
      (fs', SignedIn p tok expires)"
    using assms(1) by (auto simp: login_def case_prod_unfold Let_def split: if_splits)
  note s = sign_in_effect [OF this]
  have "session_held (io_sha io tok) p (io_now io + SESSION_TTL_SECONDS) (fi_sessions fs')"
    using s assms(2) by (auto intro!: held_saved simp: fresh_session_def)
  from held_run [OF this assms(2,5)] have
    "session_held (io_sha io' tok) p (io_now io + SESSION_TTL_SECONDS) (fi_sessions (run_events route_step fs' qs))"
    unfolding assms(6) .
  from held_me [OF this assms(7,3,4)] s show ?thesis by simp
qed

definition demo_io :: "pyfloat \<Rightarrow> route_io" where
  "demo_io now = \<lparr>io_kdf = (\<lambda>pw salt n. salt @ pw), io_sha = id, io_now = now, io_salt = ''s'', io_token = ''tk'',
     io_uuid = ''u'', io_profile_write_ok = True, io_credential_write = None, io_session_write = None,
     io_enrollment_write = None\<rparr>"

definition no_files :: auth_files where
  "no_files = \<lparr>fi_profiles = NoProfiles, fi_credentials = FileMissing, fi_sessions = FileMissing,
     fi_enrollments = FileMissing\<rparr>"

definition ann_request :: enroll_start_request where
  "ann_request = \<lparr>er_username = '' Ann'', er_first_name = ''An'', er_last_name = ''Li'', er_email = ''a@b.c'',
     er_mobile_phone = ''123456'', er_forbidden = []\<rparr>"

definition ann_files :: auth_files where
  "ann_files = fst (enroll_complete (demo_io 1) (fst (enroll_start (demo_io 0) no_files ann_request)) ''tk''
     ''Passw0rd123!'' ''Passw0rd123!'')"


theorem login_token_resolves_witness:
  "snd (me (demo_io 9) (run_events route_step (fst (login (demo_io 5) ann_files ''ANN'' ''Passw0rd123!''))
        [Me (demo_io 6) (Some ''Bearer tk'') None, Logout (demo_io 7) None (Some ''other'') None])
      (Some (''Bearer '' @ ''tk'')) None) =
    MyProfile (snd (resolve 9 (fresh_resolver (fi_profiles (run_events route_step
      (fst (login (demo_io 5) ann_files ''ANN'' ''Passw0rd123!''))
      [Me (demo_io 6) (Some ''Bearer tk'') None, Logout (demo_io 7) None (Some ''other'') None]))) ''ann''))"
proof -
  let ?qs = "[Me (demo_io 6) (Some ''Bearer tk'') None, Logout (demo_io 7) None (Some ''other'') None]"
  have "snd (login (demo_io 5) ann_files ''ANN'' ''Passw0rd123!'') = SignedIn ''ann'' ''tk'' (Some 28805)"
    "redact ''ann'' = ''ann''" "strip ''tk'' = ''tk''" "extract_bearer_token None (Some ''other'') = ''other''" by code_simp+
  then have "login (demo_io 5) ann_files ''ANN'' ''Passw0rd123!'' =
      (fst (login (demo_io 5) ann_files ''ANN'' ''Passw0rd123!''), SignedIn ''ann'' ''tk'' (Some 28805))"
    by (simp add: prod_eq_iff)
  moreover have "list_all (spares (io_sha (demo_io 5)) ''tk'' (io_now (demo_io 5))) ?qs"
    using \<open>extract_bearer_token None (Some ''other'') = ''other''\<close> by (simp add: spares_def demo_io_def)
  moreover have "''tk'' \<noteq> []" "io_sha (demo_io 9) = io_sha (demo_io 5)"
    "io_now (demo_io 9) < io_now (demo_io 5) + SESSION_TTL_SECONDS" "io_now (demo_io 9) = 9"
    by (simp_all add: demo_io_def SESSION_TTL_SECONDS_def)
  ultimately show ?thesis
    using login_token_resolves [of "demo_io 5" ann_files "''ANN''" "''Passw0rd123!''" _ "''ann''" "''tk''" _ ?qs "demo_io 9" None]
      \<open>redact ''ann'' = ''ann''\<close> \<open>strip ''tk'' = ''tk''\<close> by (simp del: run_events.simps route_step.simps)
qed

section \<open>What a web account can do\<close>

definition powerless :: "profile \<Rightarrow> bool" where
  "powerless p \<longleftrightarrow> ip_trust_level p \<noteq> ''admin'' \<and>
     set (ip_authorized_scopes p) \<inter> set (''*'' # SENSITIVE_ACTION_TYPES) = {}"

definition powerless_files :: "auth_files \<Rightarrow> bool" where
  "powerless_files fs \<longleftrightarrow> (\<forall>(k, p) \<in> set (load_profiles (fi_profiles fs)). powerless p)"

lemma enrolled_powerless:
  "powerless (normalize_profile (snd (create_enrolled_limited_profile now r i f l d)))"
  by (simp add: powerless_def create_enrolled_limited_profile_def normalize_profile_def normalize_trust_def
      TRUST_LEVELS_def ENROLLED_LIMITED_SCOPES_def SENSITIVE_ACTION_TYPES_def Let_def)

lemma enroll_complete_profiles:
  "fi_profiles (fst (enroll_complete io fs tok pw pw2)) = fi_profiles fs \<or>
   (\<exists>i f l. fi_profiles (fst (enroll_complete io fs tok pw pw2)) =
      ir_disk (fst (create_enrolled_limited_profile (io_now io) (fresh_resolver (fi_profiles fs)) i f l None)))"
  by (auto simp: enroll_complete_def case_prod_unfold Let_def sign_in_profiles split: option.split)

lemma load_enrolled:
  "set (load_profiles (ir_disk (fst (create_enrolled_limited_profile now (fresh_resolver disk) i f l d)))) \<subseteq>
     insert (i, normalize_profile (snd (create_enrolled_limited_profile now (fresh_resolver disk) i f l d)))
       (set (load_profiles disk))"
proof -
  let ?p = "snd (create_enrolled_limited_profile now (fresh_resolver disk) i f l d)"
  have id: "ip_profile_id ?p = i"
    by (simp add: create_enrolled_limited_profile_def new_profile_def Let_def)
  have "load_profiles (ir_disk (fst (create_enrolled_limited_profile now (fresh_resolver disk) i f l d))) =
      map (\<lambda>(k, p). (k, normalize_profile p)) (dset (load_profiles disk) i ?p)"
    by (simp add: create_enrolled_limited_profile_def update_profile_def ir_store_def fresh_resolver_def
        ir_load_def load_profiles_def save_profiles_def new_profile_def Let_def)
  moreover have "normalize_profile p = p" if "(k, p) \<in> set (load_profiles disk)" for k p
    using that by (auto simp: load_profiles_def split: profiles_file.splits)
  ultimately show ?thesis using set_dset_sub [of "load_profiles disk" i ?p] by fastforce
qed

lemma enroll_start_profiles: "fi_profiles (fst (enroll_start io fs req)) = fi_profiles fs"
  by (simp add: enroll_start_def case_prod_unfold Let_def)

lemma login_profiles: "fi_profiles (fst (login io fs n pw)) = fi_profiles fs"
  by (simp add: login_def sign_in_profiles case_prod_unfold Let_def)

lemma logout_profiles: "fi_profiles (fst (logout io fs h c b)) = fi_profiles fs"
  by (simp add: logout_def case_prod_unfold Let_def)

lemma me_profiles: "fi_profiles (fst (me io fs h c)) = fi_profiles fs"
  by (simp add: me_def case_prod_unfold Let_def split: option.split)

interpretation routes: machine route_step powerless_files powerless_files
proof unfold_locales
  show "powerless_files (route_step fs q)" if inv: "powerless_files fs" for fs q
  proof (cases q)
    case (EnrollComplete io tok pw pw2)
    with inv show ?thesis
      using enroll_complete_profiles [of io fs tok pw pw2] load_enrolled enrolled_powerless
      unfolding powerless_files_def by fastforce
  qed (use inv in \<open>simp_all add: powerless_files_def enroll_start_profiles login_profiles logout_profiles
        me_profiles\<close>)
qed

lemma powerless_resolves:
  assumes "\<forall>(k, p) \<in> set (load_profiles disk). powerless p" and "who \<notin> set (dkeys BUILTIN_PROFILES)"
  shows "powerless (snd (resolve now (fresh_resolver disk) who))"
proof -
  have touched: "powerless (touch_profile now p)" if "powerless p" for p using that by (simp add: powerless_def)
  have guest: "powerless (guest_profile now who)" by (simp add: powerless_def)
  have b: "dget BUILTIN_PROFILES who = None" using assms(2) by (simp add: dget_None_iff)
  have load: "ir_load (fresh_resolver disk) = load_profiles disk" by (simp add: ir_load_def fresh_resolver_def)
  show ?thesis
  proof (cases "dget (load_profiles disk) who")
    case (Some p)
    then have "powerless p" using assms(1) dget_Some_in by fastforce
    then show ?thesis using Some by (simp add: resolve_def b load Let_def touched)
  next
    case none: None
    show ?thesis
    proof (cases "filter (\<lambda>(k, p). same_name who p) (load_profiles disk)")
      case Nil
      then show ?thesis by (simp add: resolve_def b load none guest Let_def)
    next
      case (Cons kp rest)
      have "kp \<in> set (filter (\<lambda>(k, p). same_name who p) (load_profiles disk))" by (simp add: Cons)
      then have "kp \<in> set (load_profiles disk)" by simp
      then have "powerless (snd kp)" using assms(1) by (auto simp: case_prod_beta)
      then show ?thesis using Cons by (simp add: resolve_def b load none Let_def touched case_prod_beta)
    qed
  qed
qed

text \<open>C6. Enrolling over the web gives no power: if no stored profile may do anything sensitive, then after
  any requests to the routes (enrolments, completions, logins, failing writes, whatever tokens are drawn)
  the guard still denies every sensitive action to every name that is not built in.\<close>

theorem web_accounts_never_act:
  assumes "powerless_files fs" and "who \<notin> set (dkeys BUILTIN_PROFILES)"
    and "a \<in> set SENSITIVE_ACTION_TYPES"
  shows "fst (snd (check_action c keys io now (fi_profiles (run_events route_step fs qs)) lg a who None)) = False"
proof -
  have "powerless_files (run_events route_step fs qs)" using assms(1) by (rule routes.run_from_start)
  then have "powerless (snd (resolve now (fresh_resolver (fi_profiles (run_events route_step fs qs))) who))"
    by (intro powerless_resolves assms(2)) (simp add: powerless_files_def)
  with assms(3) action_guard_decision
    [of c keys io now "fi_profiles (run_events route_step fs qs)" lg a who None]
  show ?thesis by (auto simp: powerless_def str_or_def Let_def split: prod.splits)
qed

theorem web_accounts_never_act_witness:
  "fst (snd (check_action toy_crypto (Keys []) \<lparr>ai_event_id = ''e1'', ai_ts = ''now'', ai_write_ok = True\<rparr> 9
     (fi_profiles (run_events route_step no_files
       [EnrollStart (demo_io 0) ann_request, EnrollComplete (demo_io 1) ''tk'' ''Passw0rd123!'' ''Passw0rd123!'',
        LoginRoute (demo_io 2) ''ann'' ''Passw0rd123!'']))
     [] ''deploy'' ''ann'' None)) = False"
  by (rule web_accounts_never_act)
    (simp_all add: powerless_files_def no_files_def load_profiles_def BUILTIN_PROFILES_def SENSITIVE_ACTION_TYPES_def)

section \<open>Accounts that get lost\<close>

text \<open>A password that is too weak is only found after the profile was written: when the enrolment token
  has expired, the user name is taken and nobody can log in with it.\<close>

theorem weak_password_strands_username:
  "let fs1 = fst (enroll_start (demo_io 0) no_files ann_request);
       (fs2, r2) = enroll_complete (demo_io 1) fs1 ''tk'' ''short'' ''short'';
       (fs3, r3) = enroll_start (demo_io 1000) fs2 ann_request
   in r2 = Rejected ''password_too_short_min_8'' [] \<and> r3 = Rejected ''username_taken'' [] \<and>
      snd (login (demo_io 1000) fs3 ''ann'' ''short'') = Rejected ''invalid_credentials'' [] \<and>
      snd (enroll_complete (demo_io 1000) fs3 ''tk'' ''Passw0rd123!'' ''Passw0rd123!'') =
        Rejected ''expired_enrollment_token'' []"
  by code_simp

text \<open>A user name in the form of a secret is valid, but its stored session belongs to somebody else:
  the user who just enrolled is shown the guest \<^verbatim>\<open><REDACTED>\<close>.\<close>

theorem secret_like_name_is_a_guest:
  "let req = ann_request\<lparr>er_username := ''ghp_abcdefghij''\<rparr>;
       fs1 = fst (enroll_start (demo_io 0) no_files req);
       (fs2, r2) = enroll_complete (demo_io 1) fs1 ''tk'' ''Passw0rd123!'' ''Passw0rd123!''
   in r2 = SignedIn ''ghp_abcdefghij'' ''tk'' (Some 28801) \<and>
      snd (me (demo_io 2) fs2 None (Some ''tk'')) = MyProfile (guest_profile 2 ''<REDACTED>'')"
  by code_simp

end
