(* ===== verification/PyText.thy ===== *)
theory PyText
  imports PyVal
begin

text \<open>
  More of Python's text: substring search and suffixes, numbers padded with zeros, and
  \<^verbatim>\<open>str\<close> of a value. How a float prints is a parameter of \<open>val_str\<close>, since floats are exact
  rationals here.
\<close>

section \<open>Searching\<close>

fun str_find :: "string \<Rightarrow> string \<Rightarrow> nat option" where
  "str_find s p =
     (if starts s p then Some 0
      else case s of [] \<Rightarrow> None | c # s' \<Rightarrow> map_option Suc (str_find s' p))"

declare str_find.simps [simp del]

lemma str_find_Some: "str_find s p = Some i \<Longrightarrow> i \<le> length s \<and> starts (drop i s) p"
proof (induction s arbitrary: i)
  case Nil
  then show ?case by (subst (asm) str_find.simps) (auto split: if_splits)
next
  case (Cons c s)
  from Cons.prems show ?case
    by (subst (asm) str_find.simps) (auto split: if_splits dest: Cons.IH)
qed

lemma str_find_None: "str_find s p = None \<longleftrightarrow> \<not> contains s p"
proof (induction s)
  case Nil
  then show ?case by (subst str_find.simps) (cases p; simp)
next
  case (Cons c s)
  then show ?case by (subst str_find.simps) simp
qed

definition ends_with :: "string \<Rightarrow> string \<Rightarrow> bool" where
  "ends_with s p \<longleftrightarrow> length p \<le> length s \<and> drop (length s - length p) s = p"

lemma ends_with_iff: "ends_with s p \<longleftrightarrow> (\<exists>u. s = u @ p)"
  by (auto simp: ends_with_def intro: exI [of _ "take (length s - length p) s"]
      dest: sym [of _ p] intro!: append_take_drop_id [symmetric])
    (metis append_take_drop_id)

section \<open>Lines\<close>

definition is_linebreak :: "char \<Rightarrow> bool" where
  "is_linebreak c \<longleftrightarrow>
     c \<in> {CHR 0x0A, CHR 0x0B, CHR 0x0C, CHR 0x0D, CHR 0x1C, CHR 0x1D, CHR 0x1E, CHR 0x85}"

text \<open>\<^verbatim>\<open>str.splitlines\<close>: a carriage return and a line feed together are one break, and a
  break at the end opens no line.\<close>

fun splitlines_acc :: "string \<Rightarrow> string \<Rightarrow> string list" where
  "splitlines_acc w [] = (if w = [] then [] else [rev w])"
| "splitlines_acc w (c # s) =
     (if is_linebreak c then
        rev w # (case s of
          [] \<Rightarrow> []
        | d # s' \<Rightarrow> if c = CHR 0x0D \<and> d = CHR 0x0A then splitlines_acc [] s' else splitlines_acc [] s)
      else splitlines_acc (c # w) s)"

definition splitlines :: "string \<Rightarrow> string list" where
  "splitlines s = splitlines_acc [] s"

section \<open>Printing\<close>

definition bool_str :: "bool \<Rightarrow> string" where
  "bool_str b = (if b then ''True'' else ''False'')"

text \<open>\<^verbatim>\<open>{n:03d}\<close>\<close>

definition pad3 :: "nat \<Rightarrow> string" where
  "pad3 n = replicate (3 - length (nat_str n)) (CHR ''0'') @ nat_str n"

fun nonfinite_str :: "nonfinite \<Rightarrow> string" where
  "nonfinite_str NotANumber = ''nan''"
| "nonfinite_str (Infinite positive) = (if positive then ''inf'' else ''-inf'')"

function val_repr :: "(pyfloat \<Rightarrow> string) \<Rightarrow> pyval \<Rightarrow> string" where
  "val_repr fr PNone = ''None''"
| "val_repr fr (PBool b) = bool_str b"
| "val_repr fr (PInt i) = int_str i"
| "val_repr fr (PFloat r) = fr r"
| "val_repr fr (PNonFinite x) = nonfinite_str x"
| "val_repr fr (PStr s) = py_repr s"
| "val_repr fr (PList xs) = ''['' @ join '', '' (map (val_repr fr) xs) @ '']''"
| "val_repr fr (PDict m) =
     ''{'' @ join '', '' (map (\<lambda>(k, v). py_repr k @ '': '' @ val_repr fr v) m) @ ''}''"
  by pat_completeness auto
termination
proof (relation "measure (\<lambda>(fr, v). size v)", goal_cases)
  case (2 fr xs x)
  then show ?case using size_list_estimation' [of x xs "size x" size] by simp
next
  case (3 fr m x k v)
  then have "(k, v) \<in> set m" by auto
  then have "size_prod (\<lambda>_. 0) size (k, v) \<le> size_list (size_prod (\<lambda>_. 0) size) m"
    by (rule size_list_estimation') simp
  then show ?case by simp
qed simp

definition val_str :: "(pyfloat \<Rightarrow> string) \<Rightarrow> pyval \<Rightarrow> string" where
  "val_str fr v = (case v of PStr s \<Rightarrow> s | _ \<Rightarrow> val_repr fr v)"

text \<open>\<^verbatim>\<open>str(d.get(k) or default)\<close>\<close>

definition str_field :: "(pyfloat \<Rightarrow> string) \<Rightarrow> (string, pyval) dict \<Rightarrow> string \<Rightarrow> string \<Rightarrow> string" where
  "str_field fr d k d0 =
     (case dget d k of None \<Rightarrow> d0 | Some v \<Rightarrow> if truthy v then val_str fr v else d0)"

lemma val_str_PStr [simp]: "val_str fr (PStr s) = s"
  by (simp add: val_str_def)

section \<open>Substrings survive stripping and lowering\<close>

lemma contains_middle: "contains (u @ w @ v) w"
  unfolding contains_iff by blast

lemma contains_strip:
  assumes "s = u @ w @ v" "list_ex (\<lambda>c. \<not> is_space c) u" "list_ex (\<lambda>c. \<not> is_space c) v"
  shows "contains (strip s) w"
proof -
  obtain c u1 where u: "dropWhile is_space u = c # u1" "\<not> is_space c"
    using assms(2) by (metis dropWhile_eq_Nil_conv hd_dropWhile list.exhaust_sel list_ex_iff list.sel(1))
  have "lstrip s = (c # u1) @ w @ v"
    using u assms(1,2) by (auto simp: lstrip_def dropWhile_append1 list_ex_iff)
  moreover obtain d v1 where v: "dropWhile is_space (rev v) = d # v1" "\<not> is_space d"
    using assms(3) by (metis dropWhile_eq_Nil_conv hd_dropWhile list.exhaust_sel list_ex_iff list.sel(1) set_rev)
  ultimately have "strip s = rev ((d # v1) @ rev w @ rev (c # u1))"
    using assms(3) by (auto simp: strip_def dropWhile_append1 list_ex_iff)
  then have "strip s = (c # u1) @ w @ rev (d # v1)" by simp
  then show ?thesis using contains_middle by metis
qed

lemma contains_strip_end:
  assumes "s = u @ w" "list_ex (\<lambda>c. \<not> is_space c) u" "w \<noteq> []" "\<not> is_space (last w)"
  shows "contains (strip s) w"
proof -
  have "lstrip s = dropWhile is_space u @ w"
    using assms(1,2) by (auto simp: lstrip_def dropWhile_append1 list_ex_iff)
  moreover have "dropWhile is_space (rev (v @ w)) = rev (v @ w)" for v
    using assms(3,4) by (intro dropWhile_hd) (simp add: hd_append hd_rev)
  ultimately have "strip s = dropWhile is_space u @ w" by (simp add: strip_def)
  then show ?thesis using contains_middle [of "dropWhile is_space u" w "[]"] by simp
qed

lemma join_member: "x \<in> set xs \<Longrightarrow> \<exists>a b. join sep xs = a @ x @ b"
proof (induction sep xs rule: join.induct)
  case (3 sep y z ys)
  show ?case
  proof (cases "x = y")
    case True
    then have "join sep (y # z # ys) = [] @ x @ sep @ join sep (z # ys)" by simp
    then show ?thesis by blast
  next
    case False
    with 3 obtain a b where "join sep (z # ys) = a @ x @ b" by auto
    then show ?thesis by (intro exI [of _ "y @ sep @ a"] exI [of _ b]) simp
  qed
next
  case (2 sep y)
  then show ?case by (intro exI [of _ "[]"]) simp
qed simp

lemma contains_last_part: "contains s (List.last (split_on d s))"
proof -
  have "split_on d s \<noteq> []" by (simp add: split_on_def split_on_acc_nonempty)
  then have "\<exists>a b. join [d] (split_on d s) = a @ List.last (split_on d s) @ b" by (intro join_member) simp
  then show ?thesis by (simp add: contains_iff)
qed

section \<open>Padded numbers are distinct\<close>

definition num_of :: "string \<Rightarrow> nat" where
  "num_of s = foldl (\<lambda>n c. n * 10 + (ord_of c - 48)) 0 s"

lemma num_of_snoc: "num_of (s @ [c]) = num_of s * 10 + (ord_of c - 48)"
  by (simp add: num_of_def)

lemma num_of_nat_str: "num_of (nat_str n) = n"
proof (induction n rule: nat_str.induct)
  case (1 n)
  have digit: "ord_of (char_of (48 + k) :: char) - 48 = k" if "k < 10" for k :: nat
    using that by simp
  show ?case
  proof (cases "n < 10")
    case True
    then show ?thesis by (subst nat_str.simps) (simp add: num_of_def digit)
  next
    case False
    have d: "ord_of (char_of (48 + n mod 10) :: char) - 48 = n mod 10" by (rule digit) simp
    from False show ?thesis by (subst nat_str.simps) (simp only: if_False num_of_snoc d 1 [OF False] div_mult_mod_eq)
  qed
qed

lemma num_of_zeros: "num_of (replicate k (CHR ''0'') @ s) = num_of s"
  by (induction k) (simp_all add: num_of_def)

lemma pad3_inj [simp]: "pad3 m = pad3 n \<longleftrightarrow> m = n"
  by (metis pad3_def num_of_nat_str num_of_zeros)

end
