(* ===== verification/BrainPlan.thy ===== *)
theory BrainPlan
  imports PyText PyRegex
begin

text \<open>
  The mission brain, \<^verbatim>\<open>igris/agent/mission\<close>: its data (\<^verbatim>\<open>mission_schema.py\<close>), how a
  request becomes requirements, a plan and a checklist (\<^verbatim>\<open>understand_and_plan.py\<close>), and the
  actions for the checklist (\<^verbatim>\<open>action_translator.py\<close>). The id and the time of a new mission are
  arguments. A repository view is the dictionary the caller passes.
\<close>

section \<open>Data\<close>

record requirement =
  rq_id :: string
  rq_description :: string
  rq_verification_method :: string
  rq_explicit :: bool
  rq_status :: string

record checklist_item =
  ck_id :: string
  ck_description :: string
  ck_linked_requirement :: string
  ck_status :: string
  ck_evidence :: string

record brain_action =
  ba_id :: string
  ba_description :: string
  ba_linked_checklist_ids :: "string list"
  ba_expected_outcome :: string
  ba_unsafe :: bool

record execution_result =
  xr_action_id :: string
  xr_command :: string
  xr_returncode :: "int option"
  xr_stdout :: string
  xr_stderr :: string
  xr_success :: bool
  xr_evidence :: string
  xr_evidence_depth :: string
  xr_evidence_tags :: "string list"

record final_judgment =
  fj_technical_status :: string
  fj_strategic_status :: string
  fj_reason :: string

record plan_entry =
  pn_id :: string
  pn_step :: string
  pn_why :: string
  pn_linked_requirements :: string

record brain_mission =
  bm_id :: string
  bm_created_at :: string
  bm_project :: string
  bm_user_input :: string
  bm_intent_summary :: string
  bm_requirements :: "requirement list"
  bm_plan :: "plan_entry list"
  bm_checklist :: "checklist_item list"
  bm_actions :: "brain_action list"
  bm_execution_results :: "execution_result list"
  bm_status :: string
  bm_quality_gate_passed :: bool
  bm_satisfaction_gate_passed :: bool
  bm_final_response :: string
  bm_final_judgment :: final_judgment
  bm_context_snapshot :: "(string, pyval) dict"
  bm_recovery_attempts :: int

definition new_brain_mission :: "string \<Rightarrow> string \<Rightarrow> string \<Rightarrow> string \<Rightarrow> brain_mission" where
  "new_brain_mission mission_id now project user_input =
     \<lparr>bm_id = mission_id, bm_created_at = now, bm_project = project, bm_user_input = user_input,
      bm_intent_summary = ''unknown'', bm_requirements = [], bm_plan = [], bm_checklist = [],
      bm_actions = [], bm_execution_results = [], bm_status = ''created'',
      bm_quality_gate_passed = False, bm_satisfaction_gate_passed = False, bm_final_response = [],
      bm_final_judgment = \<lparr>fj_technical_status = ''unknown'', fj_strategic_status = ''unknown'', fj_reason = []\<rparr>,
      bm_context_snapshot = [], bm_recovery_attempts = 0\<rparr>"

section \<open>Understanding a request\<close>

type_synonym repo_view = "(string, pyval) dict"

definition classify_intent :: "string \<Rightarrow> string" where
  "classify_intent user_input =
     (let text = py_lower user_input
      in if any_in [''diagnos'', ''errore'', ''bug'', ''fix''] text then ''diagnosis''
         else if any_in [''architett'', ''architecture'', ''design''] text then ''architecture''
         else if any_in [''plan'', ''piano'', ''roadmap''] text then ''planning''
         else if any_in [''verify'', ''verifica'', ''test'', ''check''] text then ''verification''
         else if any_in [''implement'', ''modifica'', ''change'', ''aggiungi''] text then ''code_change''
         else ''mixed'')"

definition classify_request_shape :: "string \<Rightarrow> string \<Rightarrow> string" where
  "classify_request_shape user_input intent_type =
     (let text = py_lower user_input
      in if any_in [''?'', ''oppure'', ''forse'', ''non so'', ''sistema tutto''] text then ''ambiguous''
         else if intent_type = ''architecture'' then ''architectural''
         else if intent_type = ''diagnosis'' then ''diagnostic''
         else if any_in ['' e '', '','', ''poi'', ''quindi'', ''dopo''] text then ''multi_step''
         else if length (split_ws user_input) \<le> 12 then ''simple''
         else if intent_type = ''verification'' then ''verification''
         else ''mixed'')"

definition unknown_safe_summary :: "string \<Rightarrow> string" where
  "unknown_safe_summary user_input =
     (let text = join '' '' (split_ws (strip user_input))
      in if text = [] then ''unknown'' else take 240 text)"

definition FILE_RE :: rx where
  "FILE_RE = Seqs
     [Plus (Cls [Rng (CHR ''A'') (CHR ''Z''), Rng (CHR ''a'') (CHR ''z''), Rng (CHR ''0'') (CHR ''9''),
        Ch (CHR ''_''), Ch (CHR ''.''), Ch (CHR ''/''), Ch (CHR ''-'')]),
      Lit ''.'', Words [''py'', ''md'', ''json'', ''yaml'', ''yml'', ''toml'']]"

fun stripped_strings :: "pyval list \<Rightarrow> string list" where
  "stripped_strings [] = []"
| "stripped_strings (PStr s # vs) =
     (if strip s \<noteq> [] then strip s # stripped_strings vs else stripped_strings vs)"
| "stripped_strings (_ # vs) = stripped_strings vs"

definition view_paths :: "repo_view \<Rightarrow> string \<Rightarrow> string list" where
  "view_paths view key = (case dget view key of Some (PList vs) \<Rightarrow> stripped_strings vs | _ \<Rightarrow> [])"

definition where_candidates :: "string \<Rightarrow> repo_view option \<Rightarrow> string list" where
  "where_candidates user_input view =
     take 8 (unique_keep_first (re_findall False FILE_RE user_input @
       (case view of
          None \<Rightarrow> []
        | Some v \<Rightarrow> concat (map (view_paths v) [''paths'', ''changed_files'', ''files'']))))"

definition extract_constraints :: "string \<Rightarrow> string list" where
  "extract_constraints user_input =
     (let text = py_lower user_input
      in (if contains text ''senza'' then [''contains_without_constraint''] else []) @
         (if contains text ''non '' then [''contains_negative_constraint''] else []) @
         (if any_in [''deve'', ''must'', ''obbligatorio'', ''required''] text
          then [''contains_mandatory_constraint''] else []))"

definition WHY_MARKERS :: "string list" where
  "WHY_MARKERS =
     [''per '', ''perch'' @ [CHR 0xE9] @ '' '', ''because '', ''in modo da '',
      ''cos'' @ [CHR 0xEC] @ '' da '']"

definition why_summary :: "string \<Rightarrow> string" where
  "why_summary user_input =
     (let text = strip user_input; lowered = py_lower text
      in case find_first (\<lambda>m. str_find lowered m \<noteq> None) WHY_MARKERS of
           Some m \<Rightarrow> strip (take 160 (drop (the (str_find lowered m)) text))
         | None \<Rightarrow>
             if contains lowered ''bug'' \<or> contains lowered ''errore'' then ''resolve_defect''
             else if contains lowered ''architett'' \<or> contains lowered ''architecture'' then
               ''improve_system_design''
             else ''unknown'')"

record decomposition =
  dc_intent_type :: string
  dc_request_shape :: string
  dc_what :: string
  dc_where :: "string list"
  dc_why :: string
  dc_constraints :: "string list"
  dc_unknowns :: "string list"

definition decompose_intent :: "string \<Rightarrow> repo_view option \<Rightarrow> string \<Rightarrow> decomposition" where
  "decompose_intent user_input view intent_type =
     (let what = unknown_safe_summary user_input;
          wh = where_candidates user_input view;
          why = why_summary user_input
      in \<lparr>dc_intent_type = intent_type,
          dc_request_shape = classify_request_shape user_input intent_type,
          dc_what = (if what = [] then ''unknown'' else what),
          dc_where = (if wh = [] then [''unknown''] else wh),
          dc_why = why,
          dc_constraints = extract_constraints user_input,
          dc_unknowns = (if wh = [] then [''where''] else []) @ (if why = ''unknown'' then [''why''] else [])\<rparr>)"

text \<open>The decomposition as it is stored in the mission's context.\<close>

definition decomposition_val :: "decomposition \<Rightarrow> pyval" where
  "decomposition_val d = PDict
     [(''intent_type'', PStr (dc_intent_type d)), (''request_shape'', PStr (dc_request_shape d)),
      (''what'', PStr (dc_what d)), (''where'', PList (map PStr (dc_where d))),
      (''why'', PStr (dc_why d)), (''constraints'', PList (map PStr (dc_constraints d))),
      (''unknowns'', PList (map PStr (dc_unknowns d)))]"

definition verification_method_for_intent :: "string \<Rightarrow> string" where
  "verification_method_for_intent intent_type = dget_or
     [(''diagnosis'', ''reproduce_and_confirm_resolution''), (''verification'', ''run_targeted_tests''),
      (''architecture'', ''review_artifacts_and_constraints''), (''planning'', ''review_plan_consistency''),
      (''code_change'', ''file_diff_and_tests''), (''mixed'', ''combined_artifact_review'')]
     intent_type ''combined_artifact_review''"

section \<open>Requirements, plan, checklist\<close>

definition requirement_of :: "string \<Rightarrow> string \<Rightarrow> string \<Rightarrow> bool \<Rightarrow> requirement" where
  "requirement_of i description method explicit =
     \<lparr>rq_id = i, rq_description = description, rq_verification_method = method, rq_explicit = explicit,
      rq_status = ''pending''\<rparr>"

definition build_requirements ::
    "string \<Rightarrow> string \<Rightarrow> repo_view option \<Rightarrow> decomposition \<Rightarrow> requirement list" where
  "build_requirements intent_type summary view d =
     (let base_desc = (if summary \<noteq> ''unknown'' then summary else ''User intent is partially unknown'');
          rs = [requirement_of ''REQ-001''
                  (''Interpret request with explicit intent decomposition (what='' @ dc_what d @ '', where='' @
                   join '','' (dc_where d) @ '', why='' @ dc_why d @ '') and preserve constraints: '' @ base_desc)
                  ''intent_consistency_check'' True,
                requirement_of ''REQ-002''
                  (''Produce an executable plan for intent type '' @ [CHR 0x27] @ intent_type @ [CHR 0x27] @
                   '' and request shape '' @ [CHR 0x27] @ dc_request_shape d @ [CHR 0x27])
                  (verification_method_for_intent intent_type) False] @
               (case view of
                  None \<Rightarrow> []
                | Some v \<Rightarrow>
                    if v = [] then []
                    else [requirement_of ''REQ-003''
                      (''Use available repository view without inventing missing details; repo_view_keys='' @
                       list_repr (sort (dkeys v))) ''evidence_traceability_check'' False])
      in rs @
         (if dc_unknowns d = [] then []
          else [requirement_of (''REQ-'' @ pad3 (length rs + 1))
            (''Track unresolved intent fields explicitly: '' @ join '','' (dc_unknowns d))
            ''unknowns_explicitly_marked_check'' False]))"

definition build_plan :: "string \<Rightarrow> requirement list \<Rightarrow> bool \<Rightarrow> plan_entry list" where
  "build_plan intent_type requirements simple_request =
     (let req_ids = map rq_id requirements
      in if simple_request then
           [\<lparr>pn_id = ''PLAN-001'', pn_step = ''Apply minimal action set to satisfy the request safely.'',
             pn_why = ''Simple request classified as '' @ intent_type @ ''; avoid bureaucratic overhead.'',
             pn_linked_requirements = join '','' req_ids\<rparr>]
         else
           [\<lparr>pn_id = ''PLAN-001'', pn_step = ''Confirm intent and constraints before execution.'',
             pn_why = ''Prevents false-positive completion.'', pn_linked_requirements = hd req_ids\<rparr>,
            \<lparr>pn_id = ''PLAN-002'', pn_step = ''Execute changes or analysis in a verifiable sequence.'',
             pn_why = ''Ensures deterministic progress and measurable outcomes.'',
             pn_linked_requirements = (if length req_ids > 1 then req_ids ! 1 else hd req_ids)\<rparr>,
            \<lparr>pn_id = ''PLAN-003'', pn_step = ''Validate results against requirements and constraints.'',
             pn_why = ''Avoids technical success without mission satisfaction.'',
             pn_linked_requirements = join '','' req_ids\<rparr>])"

definition checklist_item_of :: "string \<Rightarrow> string \<Rightarrow> string \<Rightarrow> checklist_item" where
  "checklist_item_of i description req =
     \<lparr>ck_id = i, ck_description = description, ck_linked_requirement = req, ck_status = ''pending'',
      ck_evidence = []\<rparr>"

fun number_checklist :: "nat \<Rightarrow> requirement list \<Rightarrow> checklist_item list" where
  "number_checklist n [] = []"
| "number_checklist n (r # rs) =
     checklist_item_of (''CHK-'' @ pad3 n)
       (''Evidence collected for '' @ rq_id r @ '': '' @ rq_verification_method r) (rq_id r) #
     number_checklist (n + 1) rs"

definition build_checklist :: "requirement list \<Rightarrow> bool \<Rightarrow> checklist_item list" where
  "build_checklist requirements simple_request =
     (if simple_request then
        [checklist_item_of ''CHK-001'' ''Primary request outcome is demonstrably completed.''
           (rq_id (hd requirements))]
      else number_checklist 1 requirements)"

definition simple_request :: "string \<Rightarrow> bool" where
  "simple_request user_input \<longleftrightarrow>
     classify_request_shape user_input (classify_intent user_input) = ''simple'' \<and>
     classify_intent user_input \<in> {''verification'', ''planning'', ''mixed''}"

definition intent_line :: "decomposition \<Rightarrow> string" where
  "intent_line d =
     ''['' @ dc_intent_type d @ ''|'' @ dc_request_shape d @ ''] what='' @ dc_what d @ '' where='' @
     join '','' (dc_where d) @ '' why='' @ dc_why d"

definition understand_and_plan ::
    "string \<Rightarrow> string \<Rightarrow> repo_view option \<Rightarrow> brain_mission \<Rightarrow> brain_mission" where
  "understand_and_plan user_input project view target =
     (let intent_type = classify_intent user_input;
          d = decompose_intent user_input view intent_type;
          rs = build_requirements intent_type (unknown_safe_summary user_input) view d;
          simple = simple_request user_input;
          snapshot = dset (bm_context_snapshot target) ''intent_decomposition'' (decomposition_val d)
      in target
        \<lparr>bm_project := project, bm_user_input := user_input, bm_intent_summary := intent_line d,
         bm_requirements := rs, bm_plan := build_plan intent_type rs simple,
         bm_checklist := build_checklist rs simple, bm_status := ''understand_planned'',
         bm_context_snapshot :=
           (case view of
              None \<Rightarrow> snapshot
            | Some v \<Rightarrow>
                if v = [] then snapshot
                else dset snapshot ''repo_view_keys'' (PList (map PStr (sort (dkeys v)))))\<rparr>)"

fun number_actions :: "nat \<Rightarrow> checklist_item list \<Rightarrow> brain_action list" where
  "number_actions n [] = []"
| "number_actions n (c # cs) =
     \<lparr>ba_id = ''ACT-'' @ pad3 n,
      ba_description = ''Produce evidence for checklist '' @ ck_id c @ '': '' @ ck_description c,
      ba_linked_checklist_ids = [ck_id c],
      ba_expected_outcome = ''Checklist '' @ ck_id c @ '' marked with evidence'', ba_unsafe = False\<rparr> #
     number_actions (n + 1) cs"

definition translate_checklist_to_actions :: "brain_mission \<Rightarrow> brain_mission" where
  "translate_checklist_to_actions m = m\<lparr>bm_actions := number_actions 1 (bm_checklist m)\<rparr>"

end
