(* ===== verification/BrainRun.thy ===== *)
theory BrainRun
  imports BrainPlan
begin

text \<open>
  Running a brain mission: \<^verbatim>\<open>execution_adapter.py\<close>, \<^verbatim>\<open>action_verifier.py\<close>,
  \<^verbatim>\<open>quality_gate.py\<close>, \<^verbatim>\<open>satisfaction_gate.py\<close>, \<^verbatim>\<open>final_response.py\<close>,
  \<^verbatim>\<open>mission_report.py\<close> and the pipeline of \<^verbatim>\<open>mission_orchestrator.py\<close>. The shell is a
  parameter: it takes the state of the machine and a command and returns the new state with what the
  process did, or the exception \<^verbatim>\<open>subprocess.run\<close> raises (a time out), which the pipeline
  does not catch. How a float prints is a parameter too.
\<close>

section \<open>Executing the actions\<close>

datatype shell_outcome = Finished int string string | Raised string

type_synonym 'w shell = "'w \<Rightarrow> string \<Rightarrow> 'w \<times> shell_outcome"

datatype brain_error = ShellError string | ValueFault py_error | ReportNotWritten

definition UNSAFE_COMMAND_PATTERNS :: "(string \<times> rx) list" where
  "UNSAFE_COMMAND_PATTERNS =
     [([CHR 0x5C] @ ''brm'' @ [CHR 0x5C] @ ''s+-rf'' @ [CHR 0x5C] @ ''b'',
       Seqs [WB, Lit ''rm'', Plus (Cls [SpaceC]), Lit ''-rf'', WB]),
      ([CHR 0x5C] @ ''bdd'' @ [CHR 0x5C] @ ''s+if='',
       Seqs [WB, Lit ''dd'', Plus (Cls [SpaceC]), Lit ''if='']),
      ([CHR 0x5C] @ ''bmkfs'' @ [CHR 0x5C] @ ''b'', Seqs [WB, Lit ''mkfs'', WB]),
      ([CHR 0x5C] @ ''bshutdown'' @ [CHR 0x5C] @ ''b'', Seqs [WB, Lit ''shutdown'', WB]),
      ([CHR 0x5C] @ ''breboot'' @ [CHR 0x5C] @ ''b'', Seqs [WB, Lit ''reboot'', WB]),
      ('':'' @ [CHR 0x5C] @ ''('' @ [CHR 0x5C] @ '')'' @ [CHR 0x5C] @ ''s*'' @ [CHR 0x5C] @ ''{'',
       Seqs [Lit '':()'', Star (Cls [SpaceC]), Lit ''{'']),
      (''>'' @ [CHR 0x5C] @ ''s*/dev/sd'', Seqs [Lit ''>'', Star (Cls [SpaceC]), Lit ''/dev/sd''])]"

definition unsafe_command :: "string \<Rightarrow> string option" where
  "unsafe_command cmd =
     map_option fst (find_first (\<lambda>(pat, r). re_test False r (py_lower (strip cmd))) UNSAFE_COMMAND_PATTERNS)"

definition action_result ::
    "string \<Rightarrow> string \<Rightarrow> bool \<Rightarrow> string \<Rightarrow> string \<Rightarrow> string \<Rightarrow> int option \<Rightarrow> string \<times> string list \<Rightarrow>
     execution_result"
where
  "action_result action_id command success evidence stderr stdout returncode depth_tags =
     \<lparr>xr_action_id = action_id, xr_command = command, xr_returncode = returncode, xr_stdout = stdout,
      xr_stderr = stderr, xr_success = success, xr_evidence = evidence,
      xr_evidence_depth = fst depth_tags, xr_evidence_tags = snd depth_tags\<rparr>"

definition WRITES_RE :: rx where
  "WRITES_RE = Grp 1 (Alts [Lit ''>>'', Lit ''>'', Seq (Lit ''tee'') (Plus (Cls [SpaceC]))])"

definition add_missing :: "string list \<Rightarrow> string list \<Rightarrow> string list" where
  "add_missing tags new = foldl (\<lambda>ts t. if t \<in> set ts then ts else ts @ [t]) tags new"

definition evidence_tags ::
    "string \<Rightarrow> bool \<Rightarrow> string \<Rightarrow> string \<Rightarrow> int option \<Rightarrow> string list" where
  "evidence_tags command success stdout stderr returncode =
     (let cmd = strip command; low = py_lower cmd; nl = [CHR 0x0A];
          out = stdout @ nl @ stderr; writes = re_test False WRITES_RE low;
          t1 = (if cmd \<noteq> [] then [''command_executed''] else []);
          t2 = (if any_in [''pytest'', ''unittest'', ''nosetests''] low
                then t1 @ [''test_executed''] @
                  (if success \<and> returncode = Some 0 then [''test_passed''] else [])
                else t1);
          t3 = (if writes \<or> any_in [''touch '', ''mv '', ''cp ''] low
                then t2 @ [''artifact_changed'', ''file_updated''] else t2);
          t4 = (if any_in [''report'', ''.md'', ''.json''] low \<and> writes then t3 @ [''report_updated''] else t3)
      in if contains out ''?? '' \<or> contains out (nl @ ''M '') \<or> starts out ''M ''
         then add_missing t4 [''artifact_changed'', ''file_updated''] else t4)"

definition SUFFICIENT_MARKERS :: "string list" where
  "SUFFICIENT_MARKERS = [''test_passed'', ''artifact_changed'', ''report_updated'']"

definition classify_evidence ::
    "string \<Rightarrow> string \<Rightarrow> bool \<Rightarrow> string \<Rightarrow> string \<Rightarrow> int option \<Rightarrow> string \<times> string list" where
  "classify_evidence command evidence success stdout stderr returncode =
     (if contains evidence ''missing-command'' \<or> contains evidence ''blocked-'' then
        (''missing_evidence'', [''missing_evidence''])
      else if starts evidence ''dry-run'' then
        (''shallow_evidence'', [''command_executed'', ''dry_run_evidence''])
      else
        let tags = evidence_tags command success stdout stderr returncode in
        if \<not> success then
          (if tags = [] then (''missing_evidence'', [''missing_evidence'']) else (''shallow_evidence'', tags))
        else if list_ex (\<lambda>t. t \<in> set tags) SUFFICIENT_MARKERS then (''sufficient_evidence'', tags)
        else if tags \<noteq> [] then (''shallow_evidence'', tags)
        else (''missing_evidence'', [''missing_evidence'']))"

definition blocked_result :: "string \<Rightarrow> string \<Rightarrow> string \<Rightarrow> string \<Rightarrow> execution_result" where
  "blocked_result action_id cmd evidence stderr =
     action_result action_id cmd False evidence stderr [] None (classify_evidence cmd evidence False [] stderr None)"

text \<open>One round of the loop: the new state and commands seen, with the action's result.\<close>

definition execute_action ::
    "'w shell \<Rightarrow> (string, string) dict \<Rightarrow> bool \<Rightarrow> string \<Rightarrow> 'w \<Rightarrow> string list \<Rightarrow> brain_action \<Rightarrow>
     'w \<times> string list \<times> (brain_error + execution_result)"
where
  "execute_action sh command_map dry_run differentiator w seen a =
     (let cmd = strip (dget_or command_map (ba_id a) [])
      in if cmd = [] then
           (w, seen, Inr (blocked_result (ba_id a) [] ''missing-command'' ''missing command mapping''))
         else case unsafe_command cmd of
           Some pat \<Rightarrow>
             (w, seen, Inr (blocked_result (ba_id a) cmd ''blocked-unsafe-command''
               (''blocked unsafe command by policy pattern '' @ [CHR 0x27] @ pat @ [CHR 0x27])))
         | None \<Rightarrow>
             if cmd \<in> set seen \<and> differentiator = [] then
               (w, seen, Inr (blocked_result (ba_id a) cmd ''blocked-blind-retry''
                 ''blocked blind retry: missing differentiator''))
             else if dry_run then
               let evidence = (if differentiator \<noteq> [] then ''dry-run-differentiated'' else ''dry-run'');
                   stdout = ''dry-run execution simulated''
               in (w, cmd # seen, Inr (action_result (ba_id a) cmd True evidence [] stdout (Some 0)
                    (classify_evidence cmd evidence True stdout [] (Some 0))))
             else
               (case sh w cmd of
                  (w', Raised e) \<Rightarrow> (w', cmd # seen, Inl (ShellError e))
                | (w', Finished rc out err) \<Rightarrow>
                    let evidence = (if differentiator \<noteq> [] then ''process-executed-differentiated''
                          else ''process-executed'')
                    in (w', cmd # seen, Inr (action_result (ba_id a) cmd (rc = 0) evidence err out (Some rc)
                         (classify_evidence cmd evidence (rc = 0) out err (Some rc))))))"

fun execute_actions ::
    "'w shell \<Rightarrow> (string, string) dict \<Rightarrow> bool \<Rightarrow> string \<Rightarrow> 'w \<Rightarrow> string list \<Rightarrow> brain_action list \<Rightarrow>
     'w \<times> (brain_error + execution_result list)"
where
  "execute_actions sh command_map dry_run differentiator w seen [] = (w, Inr [])"
| "execute_actions sh command_map dry_run differentiator w seen (a # acts) =
     (case execute_action sh command_map dry_run differentiator w seen a of
        (w', seen', Inl e) \<Rightarrow> (w', Inl e)
      | (w', seen', Inr r) \<Rightarrow>
          (case execute_actions sh command_map dry_run differentiator w' seen' acts of
             (w'', Inl e) \<Rightarrow> (w'', Inl e)
           | (w'', Inr rs) \<Rightarrow> (w'', Inr (r # rs))))"

definition execute_mission_actions ::
    "'w shell \<Rightarrow> (string, string) dict \<Rightarrow> bool \<Rightarrow> string list \<Rightarrow> string \<Rightarrow> 'w \<Rightarrow> brain_mission \<Rightarrow>
     'w \<times> (brain_error + brain_mission)"
where
  "execute_mission_actions sh command_map dry_run previous_commands differentiator w m =
     (case execute_actions sh command_map dry_run differentiator w previous_commands (bm_actions m) of
        (w', Inl e) \<Rightarrow> (w', Inl e)
      | (w', Inr rs) \<Rightarrow> (w', Inr (m\<lparr>bm_execution_results := rs\<rparr>)))"

section \<open>Verification\<close>

record action_verdict =
  av_passed :: bool
  av_technical_failures :: "(string \<times> string) list"
  av_insufficient :: "(string \<times> string \<times> string) list"
  av_sufficient :: "string list"

definition verify_actions :: "brain_mission \<Rightarrow> action_verdict" where
  "verify_actions m =
     (let rs = bm_execution_results m;
          failures = map (\<lambda>r. (xr_action_id r, if xr_stderr r = [] then ''unknown error'' else xr_stderr r))
            (filter (\<lambda>r. \<not> xr_success r) rs)
      in \<lparr>av_passed = (failures = []), av_technical_failures = failures,
          av_insufficient = map (\<lambda>r. (xr_action_id r, xr_evidence_depth r, xr_evidence r))
            (filter (\<lambda>r. xr_evidence_depth r \<in> {''missing_evidence'', ''shallow_evidence''}) rs),
          av_sufficient = map xr_action_id
            (filter (\<lambda>r. xr_evidence_depth r = ''sufficient_evidence'') rs)\<rparr>)"

section \<open>The quality gate\<close>

record quality_report =
  qr_passed :: bool
  qr_score :: int
  qr_gaps :: "string list"
  qr_reasons :: "string list"
  qr_sufficient_items :: "string list"
  qr_incomplete_items :: "string list"
  qr_evidence_depth :: "(string, string) dict"

definition action_evidence :: "brain_mission \<Rightarrow> (string, string) dict" where
  "action_evidence m =
     foldl (\<lambda>d r. dset d (xr_action_id r) (xr_evidence_depth r)) [] (bm_execution_results m)"

definition item_covered :: "brain_mission \<Rightarrow> checklist_item \<Rightarrow> bool" where
  "item_covered m c =
     list_ex (\<lambda>a. ck_id c \<in> set (ba_linked_checklist_ids a) \<and>
       dget (action_evidence m) (ba_id a) = Some ''sufficient_evidence'') (bm_actions m)"

definition shallow_or_missing :: "brain_mission \<Rightarrow> string list" where
  "shallow_or_missing m = map xr_action_id
     (filter (\<lambda>r. xr_success r \<and> xr_evidence_depth r \<in> {''shallow_evidence'', ''missing_evidence''})
       (bm_execution_results m))"

definition missing_evidence :: "brain_mission \<Rightarrow> string list" where
  "missing_evidence m = map xr_action_id
     (filter (\<lambda>r. xr_evidence_depth r = ''missing_evidence'') (bm_execution_results m))"

definition link_gaps :: "brain_mission \<Rightarrow> string list" where
  "link_gaps m =
     (let req_ids = map rq_id (bm_requirements m);
          missing_req_links = sort (remdups (filter
            (\<lambda>r. r \<notin> set (map ck_linked_requirement (bm_checklist m))) req_ids));
          linked = concat (map ba_linked_checklist_ids (bm_actions m));
          successful = map xr_action_id (filter xr_success (bm_execution_results m))
      in (if req_ids = [] then [''No requirements defined''] else []) @
         (if missing_req_links \<noteq> []
          then [''Missing checklist links for requirements: '' @ join '', '' missing_req_links] else []) @
         map (\<lambda>c. ''Checklist item without action link: '' @ ck_id c)
           (filter (\<lambda>c. ck_id c \<notin> set linked) (bm_checklist m)) @
         map (\<lambda>a. ''Action not successfully executed: '' @ ba_id a)
           (filter (\<lambda>a. ba_id a \<notin> set successful) (bm_actions m)))"

definition evidence_gaps :: "brain_mission \<Rightarrow> (string \<times> string) list" where
  "evidence_gaps m =
     (let weak = shallow_or_missing m; missing = missing_evidence m;
          incomplete = map ck_id (filter (\<lambda>c. \<not> item_covered m c) (bm_checklist m));
          n = length (bm_checklist m)
      in (if missing \<noteq> [] then
            [(''Action(s) with missing evidence depth: '' @ join '', '' missing, ''missing_evidence'')] else []) @
         (if n = 1 \<and> weak \<noteq> [] then
            [(''Single-step mission has shallow evidence depth: '' @ join '', '' weak, ''shallow_evidence'')]
          else []) @
         (if n > 1 \<and> weak \<noteq> [] then
            [(''Multi-step mission has insufficient action evidence depth: '' @ join '', '' weak,
              ''insufficient_multistep_evidence'')] else []) @
         (if n > 1 \<and> incomplete \<noteq> [] then
            [(''Multi-step mission has incomplete checklist evidence coverage: '' @ join '', '' incomplete,
              ''incomplete_checklist_evidence'')] else []))"

definition evaluate_quality_gate :: "brain_mission \<Rightarrow> brain_mission \<times> quality_report" where
  "evaluate_quality_gate m =
     (let gaps = link_gaps m @ map fst (evidence_gaps m);
          passed = (gaps = [])
      in (m\<lparr>bm_quality_gate_passed := passed\<rparr>,
          \<lparr>qr_passed = passed, qr_score = max 0 (100 - int (length gaps) * 15), qr_gaps = gaps,
           qr_reasons = sort (remdups (map snd (evidence_gaps m))),
           qr_sufficient_items = map ck_id (filter (item_covered m) (bm_checklist m)),
           qr_incomplete_items = map ck_id (filter (\<lambda>c. \<not> item_covered m c) (bm_checklist m)),
           qr_evidence_depth = action_evidence m\<rparr>))"

section \<open>The satisfaction gate\<close>

definition INTENT_KEYWORDS :: "(string, string list) dict" where
  "INTENT_KEYWORDS =
     [(''architecture'', [''architecture'', ''architettura'', ''design'']),
      (''diagnosis'', [''diagnosis'', ''diagnost'', ''bug'', ''errore'', ''root cause'']),
      (''verification'', [''verification'', ''verifica'', ''test'', ''validate'', ''checked'']),
      (''code_change'', [''code_change'', ''modifica'', ''implement'', ''patch'', ''diff'']),
      (''planning'', [''planning'', ''piano'', ''plan'', ''roadmap'', ''steps'']),
      (''mixed'', [''mixed'', ''analisi'', ''execution'', ''azione''])]"

definition extract_decomposition :: "brain_mission \<Rightarrow> (string, pyval) dict" where
  "extract_decomposition m =
     (case dget (bm_context_snapshot m) ''intent_decomposition'' of Some (PDict d) \<Rightarrow> d | _ \<Rightarrow> [])"

text \<open>The text between the opening bracket of a summary and its first \<^verbatim>\<open>|\<close>.\<close>

definition summary_intent :: "string \<Rightarrow> string" where
  "summary_intent summary =
     (if starts summary ''['' \<and> CHR '']'' \<in> set summary then
        let head = takeWhile (\<lambda>c. c \<noteq> CHR '']'') (drop 1 summary);
            t = strip (hd (split_on (CHR ''|'') head))
        in if t = [] then ''mixed'' else t
      else ''mixed'')"

definition extract_intent_type :: "(pyfloat \<Rightarrow> string) \<Rightarrow> brain_mission \<Rightarrow> string" where
  "extract_intent_type fr m =
     (let intent = strip (str_field fr (extract_decomposition m) ''intent_type'' [])
      in if intent \<noteq> [] then intent else summary_intent (strip (bm_intent_summary m)))"

record satisfaction_report =
  sr_passed :: bool
  sr_gaps :: "string list"
  sr_diagnostics :: "string list"
  sr_quality_prerequisite_met :: bool
  sr_ready_for_completion :: bool
  sr_intent_type :: string

fun val_strings :: "pyval list \<Rightarrow> string list" where
  "val_strings [] = []"
| "val_strings (PStr s # vs) = s # val_strings vs"
| "val_strings (_ # vs) = val_strings vs"

definition known_locations :: "(string, pyval) dict \<Rightarrow> py_error + string list" where
  "known_locations d =
     (case py_iter (py_or (dget_or d ''where'' PNone) (PList [])) of
        Inl e \<Rightarrow> Inl e
      | Inr vs \<Rightarrow> Inr (filter (\<lambda>s. s \<noteq> [] \<and> s \<noteq> ''unknown'') (val_strings vs)))"

definition mentions_location :: "string \<Rightarrow> string \<Rightarrow> bool" where
  "mentions_location response item = contains response (List.last (split_on (CHR ''/'') (py_lower item)))"

definition evaluate_satisfaction_gate ::
    "(pyfloat \<Rightarrow> string) \<Rightarrow> brain_mission \<Rightarrow> py_error + (brain_mission \<times> satisfaction_report)" where
  "evaluate_satisfaction_gate fr m =
     (let response = strip (py_lower (bm_final_response m));
          intent_type = extract_intent_type fr m;
          d = extract_decomposition m;
          keywords = dget_or INTENT_KEYWORDS intent_type (dget_or INTENT_KEYWORDS ''mixed'' []);
          gaps = (if bm_intent_summary m = [] \<or> bm_intent_summary m = ''unknown''
              then [''Intent summary missing''] else []) @
            (if strip (bm_final_response m) = [] then [''Final response missing''] else []) @
            (if response \<noteq> [] \<and> \<not> any_in keywords response
             then [''Final response does not semantically reflect intent type '' @
               [CHR 0x27] @ intent_type @ [CHR 0x27]] else []);
          why = py_lower (strip (str_field fr d ''why'' ''unknown''))
      in case known_locations d of
           Inl e \<Rightarrow> Inl e
         | Inr known_where \<Rightarrow>
             let diagnostics =
                   (if known_where \<noteq> [] \<and> response \<noteq> [] \<and>
                      \<not> list_ex (mentions_location response) known_where
                    then [''Final response does not explicitly mention known target location(s)''] else []) @
                   (if why = ''unknown'' \<and> response \<noteq> [] \<and>
                      \<not> any_in [''unknown'', ''uncertain'', ''limite'', ''assumption'', ''clarification''] response
                    then [''Intent why is unknown but final response does not acknowledge uncertainty'']
                    else []);
                 passed = (gaps = [])
             in Inr (m\<lparr>bm_satisfaction_gate_passed := passed\<rparr>,
                  \<lparr>sr_passed = passed, sr_gaps = gaps, sr_diagnostics = diagnostics,
                   sr_quality_prerequisite_met = bm_quality_gate_passed m,
                   sr_ready_for_completion = (passed \<and> bm_quality_gate_passed m),
                   sr_intent_type = intent_type\<rparr>))"

section \<open>The final response\<close>

definition EVIDENCE_REASONS :: "string list" where
  "EVIDENCE_REASONS =
     [''missing_evidence'', ''shallow_evidence'', ''insufficient_multistep_evidence'',
      ''incomplete_checklist_evidence'']"

definition completion_policy_blockers :: "quality_report \<Rightarrow> satisfaction_report \<Rightarrow> string list" where
  "completion_policy_blockers q s =
     (if list_ex (\<lambda>r. r \<in> set EVIDENCE_REASONS) (qr_reasons q) then [''quality_evidence_policy_block''] else []) @
     (if sr_diagnostics s \<noteq> [] then [''satisfaction_diagnostics_present''] else []) @
     (if \<not> sr_ready_for_completion s then [''not_ready_for_completion''] else [])"

definition build_final_response ::
    "brain_mission \<Rightarrow> quality_report \<Rightarrow> satisfaction_report \<Rightarrow> brain_mission" where
  "build_final_response m q s =
     (let blockers = completion_policy_blockers q s;
          status = (if qr_passed q \<and> sr_passed s \<and> blockers = [] then ''completed''
            else if qr_passed q \<or> sr_passed s then ''partial'' else ''failed'');
          response = ''Mission '' @ bm_id m @ '' status='' @ status @ ''; quality_passed='' @
            bool_str (qr_passed q) @ ''; satisfaction_passed='' @ bool_str (sr_passed s) @ ''.''
      in m\<lparr>bm_status := status, bm_final_response := response,
           bm_final_judgment :=
             \<lparr>fj_technical_status = (if qr_passed q then ''passed'' else ''failed''),
              fj_strategic_status = (if sr_passed s then ''passed'' else ''failed''),
              fj_reason = (if blockers \<noteq> []
                then response @ '' completion_policy_blockers='' @ join '','' blockers else response)\<rparr>\<rparr>)"

section \<open>Reports and the pipeline\<close>

text \<open>The directory of reports. Writing one can be refused, or break off after it has emptied the file; either
  raises, which the pipeline does not catch. Reading one gives empty texts their defaults.\<close>

datatype report_file = Report brain_mission | TornReport

type_synonym report_dir = "(string, report_file) dict"

datatype report_disk = Writable | Refused | BreaksOff

definition save_mission_report :: "report_disk \<Rightarrow> report_dir \<Rightarrow> brain_mission \<Rightarrow> report_dir \<times> brain_error option" where
  "save_mission_report disk dir m =
     (case disk of
        Writable \<Rightarrow> (dset dir (bm_id m) (Report m), None)
      | Refused \<Rightarrow> (dir, Some ReportNotWritten)
      | BreaksOff \<Rightarrow> (dset dir (bm_id m) TornReport, Some ReportNotWritten))"

definition from_report :: "string \<Rightarrow> string \<Rightarrow> brain_mission \<Rightarrow> brain_mission" where
  "from_report fresh_id now m = m
     \<lparr>bm_id := (if bm_id m = [] then fresh_id else bm_id m),
      bm_created_at := (if bm_created_at m = [] then now else bm_created_at m),
      bm_project := (if bm_project m = [] then ''igrisgpt'' else bm_project m),
      bm_intent_summary := (if bm_intent_summary m = [] then ''unknown'' else bm_intent_summary m),
      bm_status := (if bm_status m = [] then ''created'' else bm_status m)\<rparr>"

definition load_mission_report ::
    "string \<Rightarrow> string \<Rightarrow> report_dir \<Rightarrow> string \<Rightarrow> py_error + brain_mission option" where
  "load_mission_report fresh_id now dir mission_id =
     (case dget dir mission_id of
        None \<Rightarrow> Inr None
      | Some (Report m) \<Rightarrow> Inr (Some (from_report fresh_id now m))
      | Some TornReport \<Rightarrow> Inl ValueError)"

definition run_mission_pipeline ::
    "(pyfloat \<Rightarrow> string) \<Rightarrow> 'w shell \<Rightarrow> string \<Rightarrow> string \<Rightarrow> string \<Rightarrow> string \<Rightarrow> repo_view option \<Rightarrow>
     (string, string) dict \<Rightarrow> bool \<Rightarrow> report_disk \<Rightarrow> 'w \<times> report_dir \<Rightarrow>
     ('w \<times> report_dir) \<times> (brain_error + brain_mission)"
where
  "run_mission_pipeline fr sh mission_id now user_input project view command_map dry_run disk st =
     (let m0 = understand_and_plan user_input project view
            (new_brain_mission mission_id now project user_input);
          m1 = translate_checklist_to_actions m0
      in case execute_mission_actions sh command_map dry_run [] [] (fst st) m1 of
           (w, Inl e) \<Rightarrow> ((w, snd st), Inl e)
         | (w, Inr m2) \<Rightarrow>
             let (m3, quality) = evaluate_quality_gate m2;
                 m4 = (if bm_final_response m3 = []
                   then m3\<lparr>bm_final_response := bm_intent_summary m3\<rparr> else m3)
             in case evaluate_satisfaction_gate fr m4 of
                  Inl e \<Rightarrow> ((w, snd st), Inl (ValueFault e))
                | Inr (m5, satisfaction) \<Rightarrow>
                    let m6 = build_final_response m5 quality satisfaction
                    in case save_mission_report disk (snd st) m6 of
                         (dir, Some e) \<Rightarrow> ((w, dir), Inl e)
                       | (dir, None) \<Rightarrow> ((w, dir), Inr m6))"

end
