(* ===== verification/BrainTheorems.thy ===== *)
theory BrainTheorems
  imports BrainRun
begin

text \<open>
  The brain mission pipeline: what its planner produces, what running the actions leaves, when the
  quality gate and the satisfaction gate pass, and the outcome of \<^verbatim>\<open>run_mission_pipeline\<close>.
\<close>

section \<open>What the plan looks like\<close>

lemma requirements_shape:
  "\<exists>r1 r2 rs. build_requirements i s v d = r1 # r2 # rs \<and> rq_id r1 = ''REQ-001'' \<and> rq_id r2 = ''REQ-002''"
  by (simp add: build_requirements_def requirement_of_def Let_def split: option.split)

lemma number_checklist_links: "map ck_linked_requirement (number_checklist n rs) = map rq_id rs"
  by (induction rs arbitrary: n) (simp_all add: checklist_item_of_def)

lemma number_actions_links: "map ba_linked_checklist_ids (number_actions n cs) = map (\<lambda>c. [ck_id c]) cs"
  by (induction cs arbitrary: n) simp_all

lemma number_actions_ids: "map ba_id (number_actions n cs) = map (\<lambda>k. ''ACT-'' @ pad3 k) [n..<n + length cs]"
proof (induction cs arbitrary: n)
  case (Cons c cs)
  have "[n..<n + length (c # cs)] = n # [n + 1..<(n + 1) + length cs]" by (subst upt_rec) simp
  with Cons [of "n + 1"] show ?case by (simp del: upt_Suc)
qed simp

lemma distinct_action_ids: "distinct (map ba_id (number_actions n cs))"
  unfolding number_actions_ids by (simp add: distinct_map inj_on_def)

section \<open>What the actions leave\<close>

lemma execute_action_result:
  assumes "execute_action sh cm dry df w seen a = (w', seen', Inr r)"
  shows "xr_action_id r = ba_id a \<and> xr_command r = strip (dget_or cm (ba_id a) []) \<and>
    (xr_success r \<longrightarrow> xr_command r \<noteq> [] \<and> unsafe_command (xr_command r) = None \<and> xr_returncode r = Some 0 \<and>
      (df = [] \<longrightarrow> xr_command r \<notin> set seen) \<and> insert (xr_command r) (set seen) \<subseteq> set seen') \<and>
    (xr_evidence_depth r = ''sufficient_evidence'' \<longrightarrow> \<not> dry) \<and>
    xr_evidence_depth r \<in> {''sufficient_evidence'', ''shallow_evidence'', ''missing_evidence''}"
  using assms
  by (auto simp: execute_action_def blocked_result_def action_result_def classify_evidence_def Let_def
      split: if_splits option.splits prod.splits shell_outcome.splits)

lemma execute_actions_Cons:
  assumes "execute_actions sh cm dry df w seen (a # acts) = (w', Inr rs)"
  obtains w1 seen1 r rs1 where "execute_action sh cm dry df w seen a = (w1, seen1, Inr r)"
    "execute_actions sh cm dry df w1 seen1 acts = (w', Inr rs1)" "rs = r # rs1"
  using assms by (auto split: prod.splits sum.splits)

lemma execute_actions_ids:
  "execute_actions sh cm dry df w seen acts = (w', Inr rs) \<Longrightarrow> map xr_action_id rs = map ba_id acts"
proof (induction acts arbitrary: w seen rs)
  case (Cons a acts)
  from Cons.prems obtain w1 seen1 r rs1 where c: "execute_action sh cm dry df w seen a = (w1, seen1, Inr r)"
    "execute_actions sh cm dry df w1 seen1 acts = (w', Inr rs1)" "rs = r # rs1"
    by (rule execute_actions_Cons)
  from c(3) Cons.IH [OF c(2)] execute_action_result [OF c(1)] show ?case by simp
qed simp

text \<open>What runs is safe by the patterns, was not run before without a differentiator, and nothing runs
  in a dry run.\<close>

definition run_commands :: "'w shell \<Rightarrow> 'w \<Rightarrow> string list \<Rightarrow> 'w" where
  "run_commands sh w cmds = foldl (\<lambda>w c. fst (sh w c)) w cmds"

lemma execute_action_runs:
  assumes "execute_action sh cm dry df w seen a = (w', seen', r)"
  obtains cmds where "w' = run_commands sh w cmds" "distinct cmds"
    "\<forall>c \<in> set cmds. unsafe_command c = None \<and> (df = [] \<longrightarrow> c \<notin> set seen)" "dry \<longrightarrow> cmds = []"
    "set seen \<union> set cmds \<subseteq> set seen'"
proof -
  let ?c = "strip (dget_or cm (ba_id a) [])"
  show ?thesis
  proof (cases "?c \<noteq> [] \<and> unsafe_command ?c = None \<and> (df = [] \<longrightarrow> ?c \<notin> set seen) \<and> \<not> dry")
    case True
    with assms show ?thesis
      by (intro that [of "[?c]"])
        (auto simp: execute_action_def run_commands_def Let_def split: prod.splits shell_outcome.splits)
  next
    case False
    with assms show ?thesis
      by (intro that [of "[]"])
        (auto simp: execute_action_def run_commands_def Let_def split: if_splits option.splits)
  qed
qed

lemma execute_actions_run:
  "\<exists>cmds. fst (execute_actions sh cm dry df w seen acts) = run_commands sh w cmds \<and>
     (\<forall>c \<in> set cmds. unsafe_command c = None \<and> (df = [] \<longrightarrow> c \<notin> set seen)) \<and>
     (df = [] \<longrightarrow> distinct cmds) \<and> (dry \<longrightarrow> cmds = [])"
proof (induction acts arbitrary: w seen)
  case Nil
  then show ?case by (intro exI [of _ "[]"]) (simp add: run_commands_def)
next
  case (Cons a acts)
  obtain w1 seen1 r where e: "execute_action sh cm dry df w seen a = (w1, seen1, r)" by (metis prod_cases3)
  from e obtain c1 where c1: "w1 = run_commands sh w c1" "distinct c1"
    "\<forall>c \<in> set c1. unsafe_command c = None \<and> (df = [] \<longrightarrow> c \<notin> set seen)" "dry \<longrightarrow> c1 = []"
    "set seen \<union> set c1 \<subseteq> set seen1"
    by (rule execute_action_runs)
  show ?case
  proof (cases r)
    case (Inl x)
    with e c1 show ?thesis by (intro exI [of _ c1]) auto
  next
    case (Inr x)
    obtain c2 where c2: "fst (execute_actions sh cm dry df w1 seen1 acts) = run_commands sh w1 c2"
      "\<forall>c \<in> set c2. unsafe_command c = None \<and> (df = [] \<longrightarrow> c \<notin> set seen1)"
      "df = [] \<longrightarrow> distinct c2" "dry \<longrightarrow> c2 = []"
      using Cons.IH [of w1 seen1] by blast
    have "fst (execute_actions sh cm dry df w seen (a # acts)) = fst (execute_actions sh cm dry df w1 seen1 acts)"
      by (simp add: e Inr split: prod.split sum.split)
    also have "\<dots> = run_commands sh w (c1 @ c2)" using c2(1) c1(1) by (simp add: run_commands_def)
    finally show ?thesis using c1 c2 by (intro exI [of _ "c1 @ c2"]) auto
  qed
qed
section \<open>The gates\<close>

lemma execute_actions_results:
  assumes "execute_actions sh cm dry df w seen acts = (w', Inr rs)" "r \<in> set rs"
  shows "(xr_success r \<longrightarrow> xr_command r \<noteq> [] \<and> unsafe_command (xr_command r) = None \<and> xr_returncode r = Some 0) \<and>
    (xr_evidence_depth r = ''sufficient_evidence'' \<longrightarrow> \<not> dry) \<and>
    xr_evidence_depth r \<in> {''sufficient_evidence'', ''shallow_evidence'', ''missing_evidence''}"
  using assms
proof (induction acts arbitrary: w seen rs)
  case (Cons a acts)
  from Cons.prems(1) obtain w1 seen1 x rs1 where c: "execute_action sh cm dry df w seen a = (w1, seen1, Inr x)"
    "execute_actions sh cm dry df w1 seen1 acts = (w', Inr rs1)" "rs = x # rs1"
    by (rule execute_actions_Cons)
  show ?case
  proof (cases "r = x")
    case True
    then show ?thesis using execute_action_result [OF c(1)] by auto
  next
    case False
    then show ?thesis using Cons.IH [OF c(2)] Cons.prems(2) c(3) by simp
  qed
qed simp

lemma foldl_dset_dget:
  "distinct (map f rs) \<Longrightarrow> r \<in> set rs \<Longrightarrow> dget (foldl (\<lambda>d r. dset d (f r) (g r)) d rs) (f r) = Some (g r)"
proof (induction rs rule: rev_induct)
  case (snoc x rs)
  show ?case
  proof (cases "r = x")
    case False
    then have "r \<in> set rs" "f r \<noteq> f x" using snoc.prems by (auto simp: rev_image_eqI)
    with snoc show ?thesis by simp
  qed simp
qed simp

definition well_evidenced :: "execution_result \<Rightarrow> bool" where
  "well_evidenced r \<longleftrightarrow> xr_success r \<and> xr_evidence_depth r = ''sufficient_evidence''"

lemma successful_ids:
  assumes "distinct (map xr_action_id rs)" "r \<in> set rs"
  shows "xr_action_id r \<in> set (map xr_action_id (filter P rs)) \<longleftrightarrow> P r"
  using assms by (auto simp: distinct_map dest: inj_onD)

lemma sort_Nil_iff: "sort xs = [] \<longleftrightarrow> xs = []"
  by (metis length_0_conv length_sort)

lemma link_gaps_Nil:
  "link_gaps m = [] \<longleftrightarrow> bm_requirements m \<noteq> [] \<and>
     set (map rq_id (bm_requirements m)) \<subseteq> set (map ck_linked_requirement (bm_checklist m)) \<and>
     (\<forall>c \<in> set (bm_checklist m). ck_id c \<in> set (concat (map ba_linked_checklist_ids (bm_actions m)))) \<and>
     (\<forall>a \<in> set (bm_actions m). ba_id a \<in> set (map xr_action_id (filter xr_success (bm_execution_results m))))"
proof -
  have "sort (remdups (filter (\<lambda>r. r \<notin> C) xs)) = [] \<longleftrightarrow> set xs \<subseteq> C" for xs :: "string list" and C
    unfolding sort_Nil_iff remdups_eq_nil_iff filter_empty_conv by blast
  then show ?thesis
    unfolding link_gaps_def Let_def append_is_Nil_conv map_is_Nil_conv filter_empty_conv by simp
qed

lemma evidence_gaps_Nil:
  "evidence_gaps m = [] \<longleftrightarrow> missing_evidence m = [] \<and>
     (bm_checklist m \<noteq> [] \<longrightarrow> shallow_or_missing m = []) \<and>
     (1 < length (bm_checklist m) \<longrightarrow> (\<forall>c \<in> set (bm_checklist m). item_covered m c))"
proof -
  have len: "bm_checklist m \<noteq> [] \<longleftrightarrow> length (bm_checklist m) = 1 \<or> 1 < length (bm_checklist m)"
    by (cases "bm_checklist m") auto
  have fil: "map ck_id (filter (\<lambda>c. \<not> item_covered m c) xs) = [] \<longleftrightarrow> (\<forall>c \<in> set xs. item_covered m c)" for xs
    by (simp add: filter_empty_conv)
  show ?thesis unfolding evidence_gaps_def Let_def fil len by auto
qed

lemma quality_gate_iff:
  fixes m :: brain_mission
  assumes acts: "bm_actions m = number_actions 1 (bm_checklist m)"
    and ids: "map xr_action_id (bm_execution_results m) = map ba_id (bm_actions m)"
    and ne: "bm_checklist m \<noteq> []" "bm_requirements m \<noteq> []"
    and depth: "\<forall>r \<in> set (bm_execution_results m). xr_evidence_depth r \<in>
      {''sufficient_evidence'', ''shallow_evidence'', ''missing_evidence''}"
  shows "qr_passed (snd (evaluate_quality_gate m)) \<longleftrightarrow>
    set (map rq_id (bm_requirements m)) \<subseteq> set (map ck_linked_requirement (bm_checklist m)) \<and>
    (\<forall>r \<in> set (bm_execution_results m). well_evidenced r)"
proof -
  let ?rs = "bm_execution_results m"
  have dist: "distinct (map xr_action_id ?rs)" by (simp only: ids acts distinct_action_ids)
  have linked: "concat (map ba_linked_checklist_ids (bm_actions m)) = map ck_id (bm_checklist m)"
    unfolding acts number_actions_links by (induction "bm_checklist m") (auto simp: concat_map_singleton)
  have succ: "(\<forall>a \<in> set (bm_actions m). ba_id a \<in> set (map xr_action_id (filter xr_success ?rs))) \<longleftrightarrow>
      (\<forall>r \<in> set ?rs. xr_success r)"
  proof -
    let ?S = "set (map xr_action_id (filter xr_success ?rs))"
    have img: "ba_id ` set (bm_actions m) = xr_action_id ` set ?rs" by (metis ids list.set_map)
    have "(\<forall>a \<in> set (bm_actions m). ba_id a \<in> ?S) \<longleftrightarrow> ba_id ` set (bm_actions m) \<subseteq> ?S" by blast
    also have "\<dots> \<longleftrightarrow> (\<forall>r \<in> set ?rs. xr_action_id r \<in> ?S)" unfolding img by blast
    finally show ?thesis using successful_ids [OF dist] by blast
  qed
  have links: "link_gaps m = [] \<longleftrightarrow>
      set (map rq_id (bm_requirements m)) \<subseteq> set (map ck_linked_requirement (bm_checklist m)) \<and>
      (\<forall>r \<in> set ?rs. xr_success r)"
    unfolding link_gaps_Nil succ linked using ne(2) by simp
  have weak: "missing_evidence m = [] \<and> shallow_or_missing m = [] \<longleftrightarrow>
      (\<forall>r \<in> set ?rs. xr_evidence_depth r = ''sufficient_evidence'')" if "\<forall>r \<in> set ?rs. xr_success r"
    using that depth
    by (auto simp: missing_evidence_def shallow_or_missing_def filter_empty_conv)
  have cov: "item_covered m c" if c: "c \<in> set (bm_checklist m)" and
    all: "\<forall>r \<in> set ?rs. xr_evidence_depth r = ''sufficient_evidence''" for c
  proof -
    have "ck_id c \<in> set (concat (map ba_linked_checklist_ids (bm_actions m)))"
      unfolding linked using c by simp
    then obtain a where a: "a \<in> set (bm_actions m)" "ck_id c \<in> set (ba_linked_checklist_ids a)" by auto
    have "ba_id a \<in> set (map xr_action_id ?rs)" unfolding ids using a(1) by simp
    then obtain r where r: "r \<in> set ?rs" "ba_id a = xr_action_id r" by auto
    have "dget (action_evidence m) (ba_id a) = Some (xr_evidence_depth r)"
      unfolding action_evidence_def r(2) by (rule foldl_dset_dget [OF dist r(1)])
    with a all r(1) show ?thesis by (auto simp: item_covered_def list_ex_iff)
  qed
  have "qr_passed (snd (evaluate_quality_gate m)) \<longleftrightarrow> link_gaps m = [] \<and> evidence_gaps m = []"
    by (simp add: evaluate_quality_gate_def Let_def)
  also have "\<dots> \<longleftrightarrow> set (map rq_id (bm_requirements m)) \<subseteq> set (map ck_linked_requirement (bm_checklist m)) \<and>
      (\<forall>r \<in> set ?rs. well_evidenced r)"
    unfolding links evidence_gaps_Nil well_evidenced_def using weak cov ne(1) by blast
  finally show ?thesis .
qed
text \<open>The pipeline lets the satisfaction gate judge the intent summary, which names the intent, the
  places and the reason by construction.\<close>

lemma ink_lower: "list_ex (\<lambda>c. \<not> is_space c) (py_lower s) = list_ex (\<lambda>c. \<not> is_space c) s"
  by (simp add: py_lower_def list_ex_iff)

lemma line_mentions:
  assumes "intent_line d = u @ w @ v" "list_ex (\<lambda>c. \<not> is_space c) u" "list_ex (\<lambda>c. \<not> is_space c) v"
  shows "contains (strip (py_lower (intent_line d))) (py_lower w)"
proof (rule contains_strip)
  show "py_lower (intent_line d) = py_lower u @ py_lower w @ py_lower v" by (simp only: assms(1) py_lower_append)
qed (use assms(2,3) in \<open>simp_all add: py_lower_def list_ex_iff\<close>)

lemma line_mentions_intent: "contains (strip (py_lower (intent_line d))) (py_lower (dc_intent_type d))"
  by (rule line_mentions [where u = "''[''" and v = "''|'' @ dc_request_shape d @ ''] what='' @ dc_what d @
      '' where='' @ join '','' (dc_where d) @ '' why='' @ dc_why d"])
    (simp_all add: intent_line_def is_space_def)

lemma line_mentions_place:
  assumes "p \<in> set (dc_where d)"
  shows "contains (strip (py_lower (intent_line d))) (py_lower p)"
proof -
  obtain a b where "join '','' (dc_where d) = a @ p @ b" using join_member [OF assms] by blast
  then show ?thesis
    by (intro line_mentions [where u = "''['' @ dc_intent_type d @ ''|'' @ dc_request_shape d @ ''] what='' @
        dc_what d @ '' where='' @ a" and v = "b @ '' why='' @ dc_why d"])
      (simp_all add: intent_line_def is_space_def)
qed

lemma line_mentions_why:
  assumes "dc_why d \<noteq> []" "trimmed (dc_why d)"
  shows "contains (strip (py_lower (intent_line d))) (py_lower (dc_why d))"
proof (rule contains_strip_end)
  let ?u = "''['' @ dc_intent_type d @ ''|'' @ dc_request_shape d @ ''] what='' @ dc_what d @ '' where='' @
    join '','' (dc_where d) @ '' why=''"
  show "py_lower (intent_line d) = py_lower ?u @ py_lower (dc_why d)"
    by (simp only: py_lower_append [symmetric] append_assoc intent_line_def)
  show "list_ex (\<lambda>c. \<not> is_space c) (py_lower ?u)" unfolding ink_lower by (simp add: is_space_def)
  show "\<not> is_space (last (py_lower (dc_why d)))"
    using assms by (simp add: py_lower_def last_map trimmed_def)
qed (use assms(1) in simp)

definition INTENT_TYPES :: "string list" where
  "INTENT_TYPES = [''diagnosis'', ''architecture'', ''planning'', ''verification'', ''code_change'', ''mixed'']"

lemma val_strings_PStr [simp]: "val_strings (map PStr xs) = xs"
  by (induction xs) auto

lemma summary_satisfies:
  assumes d: "dget (bm_context_snapshot m) ''intent_decomposition'' = Some (decomposition_val d)"
    and line: "bm_final_response m = intent_line d" "bm_intent_summary m = intent_line d"
    and intent: "dc_intent_type d \<in> set INTENT_TYPES"
    and why: "dc_why d \<noteq> []" "trimmed (dc_why d)" and wh: "dc_where d \<noteq> []"
  shows "\<exists>s. evaluate_satisfaction_gate fr m = Inr (m\<lparr>bm_satisfaction_gate_passed := True\<rparr>, s) \<and> sr_passed s \<and>
    sr_diagnostics s = [] \<and> sr_ready_for_completion s = bm_quality_gate_passed m"
proof -
  let ?r = "strip (py_lower (intent_line d))"
  have ext: "extract_decomposition m = [(''intent_type'', PStr (dc_intent_type d)),
      (''request_shape'', PStr (dc_request_shape d)), (''what'', PStr (dc_what d)),
      (''where'', PList (map PStr (dc_where d))), (''why'', PStr (dc_why d)),
      (''constraints'', PList (map PStr (dc_constraints d))), (''unknowns'', PList (map PStr (dc_unknowns d)))]"
    by (simp add: extract_decomposition_def d decomposition_val_def)
  have it: "extract_intent_type fr m = dc_intent_type d"
    using intent unfolding extract_intent_type_def ext
    by (auto simp: str_field_def INTENT_TYPES_def strip_def lstrip_def is_space_def Let_def)
  have kw: "any_in (dget_or INTENT_KEYWORDS (dc_intent_type d) x) ?r" for x
  proof -
    have "py_lower (dc_intent_type d) = dc_intent_type d" using intent
      unfolding INTENT_TYPES_def by (auto simp: py_lower_def lower_char_def)
    moreover have "dc_intent_type d \<in> set (dget_or INTENT_KEYWORDS (dc_intent_type d) x)" using intent
      by (auto simp: INTENT_TYPES_def INTENT_KEYWORDS_def dget_or_def)
    ultimately show ?thesis using line_mentions_intent [of d] by (auto simp: any_in_iff)
  qed
  have rne: "?r \<noteq> []" using line_mentions_intent [of d] intent by (auto simp: INTENT_TYPES_def py_lower_def)
  have places: "known_locations (extract_decomposition m) = Inr (filter (\<lambda>s. s \<noteq> [] \<and> s \<noteq> ''unknown'') (dc_where d))"
    unfolding ext using wh by (simp add: known_locations_def py_or_def dget_or_def)
  have mention: "ws = [] \<or> list_ex (mentions_location ?r) ws" if "set ws \<subseteq> set (dc_where d)" for ws
  proof (cases "ws = []")
    case False
    with that have "hd ws \<in> set (dc_where d)" by (cases ws) auto
    from line_mentions_place [OF this] have "mentions_location ?r (hd ws)"
      unfolding mentions_location_def using contains_last_part contains_trans by blast
    with False show ?thesis by (cases ws) auto
  qed simp
  have unk: "py_lower (strip (dc_why d)) = ''unknown'' \<longrightarrow> contains ?r ''unknown''"
    using line_mentions_why [OF why] strip_trimmed_id [OF why(2)] by auto
  have whyf: "str_field fr (extract_decomposition m) ''why'' x = dc_why d" for x
    unfolding ext using why(1) by (simp add: str_field_def)
  have line0: "intent_line d \<noteq> []" "intent_line d \<noteq> ''unknown''" "strip (intent_line d) \<noteq> []"
    by (simp_all add: intent_line_def strip_Nil_iff is_space_def)
  show ?thesis
    using kw rne mention [OF filter_is_subset, of "\<lambda>s. s \<noteq> [] \<and> s \<noteq> ''unknown''"] unk
    unfolding evaluate_satisfaction_gate_def Let_def places line it whyf
    by (simp add: line0 any_in_def)
qed
section \<open>The pipeline\<close>

lemma classify_intent_known: "classify_intent s \<in> set INTENT_TYPES"
  by (simp add: classify_intent_def INTENT_TYPES_def Let_def)

lemma why_summary_text: "why_summary s \<noteq> [] \<and> trimmed (why_summary s)"
proof (cases "find_first (\<lambda>m. str_find (py_lower (strip s)) m \<noteq> None) WHY_MARKERS")
  case None
  then show ?thesis unfolding why_summary_def Let_def None option.case by (simp add: trimmed_def is_space_def)
next
  case (Some m)
  from find_first_Some [OF Some] obtain i where m: "m \<in> set WHY_MARKERS"
    and i: "str_find (py_lower (strip s)) m = Some i" by auto
  let ?t = "drop i (strip s)"
  have "starts (py_lower ?t) m" using str_find_Some [OF i] by (simp add: py_lower_def drop_map)
  moreover have "m \<noteq> []" "\<not> is_space (hd m)" using m by (auto simp: WHY_MARKERS_def is_space_def)
  ultimately obtain c t where t: "?t = c # t" "\<not> is_space c"
    by (cases ?t; cases m) (auto simp: py_lower_def)
  have "why_summary s = strip (take 160 ?t)" unfolding why_summary_def Let_def Some option.case i by simp
  with t trimmed_strip show ?thesis by (simp add: strip_Nil_iff)
qed

lemma success_distinct:
  assumes "execute_actions sh cm dry [] w seen acts = (w', Inr rs)" "\<forall>r \<in> set rs. xr_success r"
  shows "distinct (map xr_command rs) \<and> set (map xr_command rs) \<inter> set seen = {}"
  using assms
proof (induction acts arbitrary: w seen rs)
  case (Cons a acts)
  from Cons.prems(1) obtain w1 seen1 x rs1 where c: "execute_action sh cm dry [] w seen a = (w1, seen1, Inr x)"
    "execute_actions sh cm dry [] w1 seen1 acts = (w', Inr rs1)" "rs = x # rs1"
    by (rule execute_actions_Cons)
  have x: "xr_success x" and rest: "\<forall>r \<in> set rs1. xr_success r" using Cons.prems(2) c(3) by simp_all
  from x execute_action_result [OF c(1)]
  have "xr_command x \<notin> set seen" "insert (xr_command x) (set seen) \<subseteq> set seen1" by blast+
  with Cons.IH [OF c(2) rest] c(3) show ?case by auto
qed simp

text \<open>The mission before its actions run.\<close>

definition planned_mission :: "string \<Rightarrow> string \<Rightarrow> string \<Rightarrow> string \<Rightarrow> repo_view option \<Rightarrow> brain_mission" where
  "planned_mission i now input project view = translate_checklist_to_actions
     (understand_and_plan input project view (new_brain_mission i now project input))"

lemma planned_shape:
  fixes i now input project view
  defines "m \<equiv> planned_mission i now input project view"
    and "d \<equiv> decompose_intent input view (classify_intent input)"
  shows "bm_requirements m = build_requirements (classify_intent input) (unknown_safe_summary input) view d"
    "bm_checklist m = build_checklist (bm_requirements m) (simple_request input)"
    "bm_actions m = number_actions 1 (bm_checklist m)" "bm_intent_summary m = intent_line d"
    "bm_final_response m = []" "bm_id m = i"
    "dget (bm_context_snapshot m) ''intent_decomposition'' = Some (decomposition_val d)"
  by (simp_all add: m_def d_def planned_mission_def translate_checklist_to_actions_def
      understand_and_plan_def new_brain_mission_def Let_def split: option.split)

lemma planned_coverage:
  fixes i now input project view
  defines "m \<equiv> planned_mission i now input project view"
  shows "bm_requirements m \<noteq> []" "bm_checklist m \<noteq> []"
    "set (map rq_id (bm_requirements m)) \<subseteq> set (map ck_linked_requirement (bm_checklist m)) \<longleftrightarrow>
      \<not> simple_request input"
proof -
  note m = planned_shape [of i now input project view, folded m_def]
  have reqs: "bm_requirements m \<noteq> []" "''REQ-002'' \<in> set (map rq_id (bm_requirements m))"
    "rq_id (hd (bm_requirements m)) = ''REQ-001''"
    using requirements_shape [of "classify_intent input" "unknown_safe_summary input" view
        "decompose_intent input view (classify_intent input)"] m(1) by auto
  then show "bm_requirements m \<noteq> []" "bm_checklist m \<noteq> []"
    using m(2) by (cases "bm_requirements m"; simp add: build_checklist_def)+
  show "set (map rq_id (bm_requirements m)) \<subseteq> set (map ck_linked_requirement (bm_checklist m)) \<longleftrightarrow>
      \<not> simple_request input"
  proof (cases "simple_request input")
    case True
    then have "map ck_linked_requirement (bm_checklist m) = [''REQ-001'']"
      using m(2) reqs(3) by (simp add: build_checklist_def checklist_item_of_def)
    then have "''REQ-002'' \<notin> set (map ck_linked_requirement (bm_checklist m))" by simp
    with True reqs(2) show ?thesis by blast
  next
    case False
    then have "map ck_linked_requirement (bm_checklist m) = map rq_id (bm_requirements m)"
      using m(2) number_checklist_links by (simp add: build_checklist_def)
    with False show ?thesis by simp
  qed
qed

lemma executed_quality:
  fixes i now input project view
  defines "m \<equiv> planned_mission i now input project view"
  assumes ex: "execute_actions sh cm dry df w seen (bm_actions m) = (w', Inr rs)"
  shows "qr_passed (snd (evaluate_quality_gate (m\<lparr>bm_execution_results := rs\<rparr>))) \<longleftrightarrow>
    \<not> simple_request input \<and> (\<forall>r \<in> set rs. well_evidenced r)"
proof -
  let ?m = "m\<lparr>bm_execution_results := rs\<rparr>"
  note m = planned_shape [of i now input project view, folded m_def]
  note c = planned_coverage [of i now input project view, folded m_def]
  have "qr_passed (snd (evaluate_quality_gate ?m)) \<longleftrightarrow>
      set (map rq_id (bm_requirements ?m)) \<subseteq> set (map ck_linked_requirement (bm_checklist ?m)) \<and>
      (\<forall>r \<in> set (bm_execution_results ?m). well_evidenced r)"
  proof (rule quality_gate_iff)
    show "map xr_action_id (bm_execution_results ?m) = map ba_id (bm_actions ?m)"
      using execute_actions_ids [OF ex] by simp
    show "\<forall>r \<in> set (bm_execution_results ?m). xr_evidence_depth r \<in>
        {''sufficient_evidence'', ''shallow_evidence'', ''missing_evidence''}"
      using execute_actions_results [OF ex] by simp
  qed (use m(3) c(1,2) in simp_all)
  with c(3) show ?thesis by simp
qed

lemma planned_satisfies:
  fixes i now input project view
  defines "d \<equiv> decompose_intent input view (classify_intent input)"
  assumes "bm_context_snapshot m = bm_context_snapshot (planned_mission i now input project view)"
    and "bm_final_response m = intent_line d" "bm_intent_summary m = intent_line d"
  shows "\<exists>s. evaluate_satisfaction_gate fr m = Inr (m\<lparr>bm_satisfaction_gate_passed := True\<rparr>, s) \<and> sr_passed s \<and>
    sr_diagnostics s = [] \<and> sr_ready_for_completion s = bm_quality_gate_passed m"
proof (rule summary_satisfies)
  show "dget (bm_context_snapshot m) ''intent_decomposition'' = Some (decomposition_val d)"
    unfolding assms(2) d_def by (rule planned_shape)
  show "dc_intent_type d \<in> set INTENT_TYPES" "dc_why d \<noteq> []" "trimmed (dc_why d)" "dc_where d \<noteq> []"
    using classify_intent_known why_summary_text by (simp_all add: d_def decompose_intent_def Let_def)
qed (fact assms(3,4))+

lemma pipeline_returns:
  assumes "execute_actions sh cm dry [] w [] (bm_actions (planned_mission i now input project view)) = (w', Inr rs)"
  obtains m where "run_mission_pipeline fr sh i now input project view cm dry Writable (w, dir) = ((w', dset dir i (Report m)), Inr m)"
    "bm_actions m = bm_actions (planned_mission i now input project view)" "bm_execution_results m = rs"
    "bm_id m = i" "bm_satisfaction_gate_passed m"
    "bm_status m = (if \<not> simple_request input \<and> (\<forall>r \<in> set rs. well_evidenced r)
       then ''completed'' else ''partial'')"
proof -
  define d where "d = decompose_intent input view (classify_intent input)"
  define m1 where "m1 = planned_mission i now input project view"
  note m1 = planned_shape [of i now input project view, folded m1_def d_def]
  note ex = assms [folded m1_def]
  define m2 where "m2 = m1\<lparr>bm_execution_results := rs\<rparr>"
  define qr where "qr = snd (evaluate_quality_gate m2)"
  define q where "q = qr_passed qr"
  define m4 where "m4 = m2\<lparr>bm_quality_gate_passed := q, bm_final_response := intent_line d\<rparr>"
  have gate: "evaluate_quality_gate m2 = (m2\<lparr>bm_quality_gate_passed := q\<rparr>, qr)"
    by (simp add: evaluate_quality_gate_def qr_def q_def Let_def)
  have q_iff: "q \<longleftrightarrow> \<not> simple_request input \<and> (\<forall>r \<in> set rs. well_evidenced r)"
    unfolding q_def qr_def m2_def m1_def by (rule executed_quality [OF ex [unfolded m1_def]])
  have reasons: "q \<Longrightarrow> qr_reasons qr = []"
    by (simp add: q_def qr_def evaluate_quality_gate_def Let_def)
  have m2: "bm_final_response m2 = []" "bm_intent_summary m2 = intent_line d"
    "bm_context_snapshot m4 = bm_context_snapshot (planned_mission i now input project view)"
    using m1 by (simp_all add: m2_def m4_def m1_def)
  obtain s where s: "evaluate_satisfaction_gate fr m4 = Inr (m4\<lparr>bm_satisfaction_gate_passed := True\<rparr>, s)"
    "sr_passed s" "sr_diagnostics s = []" "sr_ready_for_completion s = q"
    using planned_satisfies [OF m2(3), folded d_def, of fr] m2 by (auto simp: m4_def)
  define m where "m = build_final_response (m4\<lparr>bm_satisfaction_gate_passed := True\<rparr>) qr s"
  have "completion_policy_blockers qr s = [] \<longleftrightarrow> q"
    using reasons s by (auto simp: completion_policy_blockers_def)
  then have status: "bm_status m = (if q then ''completed'' else ''partial'')"
    using s(2) by (auto simp: m_def build_final_response_def q_def [symmetric] Let_def)
  have same: "bm_actions m = bm_actions m1" "bm_execution_results m = rs" "bm_id m = i" "bm_satisfaction_gate_passed m"
    using m1(6) by (simp_all add: m_def build_final_response_def m4_def m2_def Let_def)
  have "run_mission_pipeline fr sh i now input project view cm dry Writable (w, dir) = ((w', dset dir (bm_id m) (Report m)), Inr m)"
    unfolding run_mission_pipeline_def Let_def planned_mission_def [symmetric]
    using m2(1,2) s(1)
    by (simp add: save_mission_report_def m1_def [symmetric] execute_mission_actions_def ex m2_def [symmetric] gate m4_def m_def)
  with status q_iff same show ?thesis by (intro that [of m]) (simp_all add: m1_def)
qed

lemma pipeline_run:
  assumes "run_mission_pipeline fr sh i now input project view cm dry disk (w, dir) = (st', Inr m)"
  obtains w' where
    "execute_actions sh cm dry [] w [] (bm_actions m) = (w', Inr (bm_execution_results m))"
    "bm_id m = i" "st' = (w', dset dir i (Report m))" "bm_satisfaction_gate_passed m" "bm_actions m \<noteq> []"
    "bm_status m = (if \<not> simple_request input \<and> (\<forall>r \<in> set (bm_execution_results m). well_evidenced r)
       then ''completed'' else ''partial'')"
proof -
  have "disk = Writable"
    using assms by (cases disk) (auto simp: run_mission_pipeline_def save_mission_report_def Let_def
        split: sum.splits prod.splits)
  note assms = assms [unfolded this]
  let ?m = "planned_mission i now input project view"
  obtain w' rs where ex: "execute_actions sh cm dry [] w [] (bm_actions ?m) = (w', Inr rs)"
    using assms by (auto simp: run_mission_pipeline_def Let_def planned_mission_def [symmetric]
        execute_mission_actions_def split: sum.splits prod.splits)
  have "bm_actions ?m \<noteq> []"
    using planned_shape(3) planned_coverage(2) [of i now input project view] by (auto simp: neq_Nil_conv)
  moreover obtain m' where run: "run_mission_pipeline fr sh i now input project view cm dry Writable (w, dir) =
      ((w', dset dir i (Report m')), Inr m')"
    and m': "bm_actions m' = bm_actions ?m" "bm_execution_results m' = rs" "bm_id m' = i"
      "bm_satisfaction_gate_passed m'" "bm_status m' = (if \<not> simple_request input \<and>
        (\<forall>r \<in> set rs. well_evidenced r) then ''completed'' else ''partial'')"
    by (rule pipeline_returns [OF ex])
  moreover have "m = m'" "st' = (w', dset dir i (Report m'))" using assms run by auto
  ultimately show ?thesis using ex by (intro that [of w']) simp_all
qed

section \<open>What the pipeline promises\<close>

text \<open>C9. 
  The satisfaction gate of a mission the pipeline planned always passes, so the status is never
  \<^verbatim>\<open>failed\<close>. It is \<^verbatim>\<open>completed\<close> exactly when the request is not of the simple shape (whose
  checklist links one requirement of several) and every action succeeded with sufficient evidence.
\<close>

theorem pipeline_outcome:
  assumes "run_mission_pipeline fr sh i now input project view cm dry disk (w, dir) = ((w', dir'), Inr m)"
  shows "bm_satisfaction_gate_passed m \<and> dget dir' i = Some (Report m) \<and>
    bm_status m = (if \<not> simple_request input \<and>
      (\<forall>r \<in> set (bm_execution_results m). xr_success r \<and> xr_evidence_depth r = ''sufficient_evidence'')
      then ''completed'' else ''partial'')"
  using assms by (rule pipeline_run) (simp add: well_evidenced_def)

text \<open>The results are what the shell answered, one command after the other, from one state of the machine to another.\<close>

fun ran_in_order :: "'w shell \<Rightarrow> 'w \<Rightarrow> execution_result list \<Rightarrow> 'w \<Rightarrow> bool" where
  "ran_in_order sh w [] w' \<longleftrightarrow> w' = w"
| "ran_in_order sh w (r # rs) w' \<longleftrightarrow>
     (case sh w (xr_command r) of
        (w1, Finished rc out err) \<Rightarrow> xr_returncode r = Some rc \<and> xr_stdout r = out \<and> xr_stderr r = err \<and>
          ran_in_order sh w1 rs w'
      | (w1, Raised e) \<Rightarrow> False)"

lemma action_ran:
  assumes "execute_action sh cm False df w seen a = (w', seen', Inr r)" "xr_success r"
  shows "\<exists>rc out err. sh w (xr_command r) = (w', Finished rc out err) \<and> xr_returncode r = Some rc \<and>
    xr_stdout r = out \<and> xr_stderr r = err"
  using assms
  by (auto simp: execute_action_def blocked_result_def action_result_def Let_def
      split: if_splits option.splits prod.splits shell_outcome.splits)

lemma actions_ran:
  assumes "execute_actions sh cm dry df w seen acts = (w', Inr rs)" "\<not> dry" "\<forall>r \<in> set rs. xr_success r"
  shows "ran_in_order sh w rs w'"
  using assms
proof (induction acts arbitrary: w seen rs)
  case (Cons a acts)
  from Cons.prems(1) obtain w1 seen1 r rs1 where c: "execute_action sh cm dry df w seen a = (w1, seen1, Inr r)"
    "execute_actions sh cm dry df w1 seen1 acts = (w', Inr rs1)" "rs = r # rs1"
    by (rule execute_actions_Cons)
  from action_ran [of sh cm df w seen a] c(1) Cons.prems(2,3) Cons.IH [OF c(2)] c(3) show ?case by auto
qed simp

lemma execute_actions_commands:
  "execute_actions sh cm dry df w seen acts = (w', Inr rs) \<Longrightarrow>
   map xr_command rs = map (\<lambda>a. strip (dget_or cm (ba_id a) [])) acts"
proof (induction acts arbitrary: w seen rs)
  case (Cons a acts)
  from Cons.prems obtain w1 seen1 r rs1 where c: "execute_action sh cm dry df w seen a = (w1, seen1, Inr r)"
    "execute_actions sh cm dry df w1 seen1 acts = (w', Inr rs1)" "rs = r # rs1"
    by (rule execute_actions_Cons)
  from c(3) Cons.IH [OF c(2)] execute_action_result [OF c(1)] show ?case by simp
qed simp

text \<open>C10. 
  A mission reported completed really ran: it was no dry run, and the commands mapped to its actions, all
  different and all passed by the unsafe-command filter, were given to the shell in the order of the actions,
  each in the state the one before left; the machine is in the state the last one left; and each result holds the
  output of the shell for its command, whose code was 0.
\<close>

theorem completed_was_executed:
  assumes "run_mission_pipeline fr sh i now input project view cm dry disk (w, dir) = ((w', dir'), Inr m)"
    and "bm_status m = ''completed''"
  shows "\<not> dry \<and> bm_actions m \<noteq> [] \<and>
    map xr_action_id (bm_execution_results m) = map ba_id (bm_actions m) \<and>
    map xr_command (bm_execution_results m) = map (\<lambda>a. strip (dget_or cm (ba_id a) [])) (bm_actions m) \<and>
    distinct (map xr_command (bm_execution_results m)) \<and>
    ran_in_order sh w (bm_execution_results m) w' \<and>
    (\<forall>r \<in> set (bm_execution_results m). xr_success r \<and> xr_command r \<noteq> [] \<and>
       unsafe_command (xr_command r) = None \<and> xr_returncode r = Some 0)"
  using assms(1)
proof (rule pipeline_run)
  fix w1
  assume ex: "execute_actions sh cm dry [] w [] (bm_actions m) = (w1, Inr (bm_execution_results m))"
    and w1: "(w', dir') = (w1, dset dir i (Report m))"
    and m: "bm_actions m \<noteq> []" "bm_status m = (if \<not> simple_request input \<and>
      (\<forall>r \<in> set (bm_execution_results m). well_evidenced r) then ''completed'' else ''partial'')"
  from m(2) assms(2) have good: "\<forall>r \<in> set (bm_execution_results m). well_evidenced r" by (simp split: if_splits)
  have ids: "map xr_action_id (bm_execution_results m) = map ba_id (bm_actions m)" by (rule execute_actions_ids [OF ex])
  with m(1) obtain r where "r \<in> set (bm_execution_results m)" by (cases "bm_execution_results m") auto
  with good execute_actions_results [OF ex] have "\<not> dry" by (auto simp: well_evidenced_def)
  moreover from this have "ran_in_order sh w (bm_execution_results m) w'"
    using actions_ran [OF ex] good w1 by (simp add: well_evidenced_def)
  moreover have "distinct (map xr_command (bm_execution_results m))"
    using success_distinct [OF ex] good by (simp add: well_evidenced_def)
  ultimately show ?thesis
    using ids m(1) good execute_actions_results [OF ex] execute_actions_commands [OF ex] by (auto simp: well_evidenced_def)
qed

text \<open>
  Whatever the outcome, an exception of the shell included, the machine ends in the state some sequence
  of commands leaves it in, and each of those commands was mapped to an action, is not empty and passed the
  filter. A dry run leaves the machine alone.
\<close>


theorem only_safe_commands_run:
  "\<exists>cmds. fst (fst (run_mission_pipeline fr sh i now input project view cm dry disk (w, dir))) = run_commands sh w cmds \<and>
     distinct cmds \<and> list_all (\<lambda>c. unsafe_command c = None) cmds \<and> (if dry then cmds = [] else True)"
proof -
  let ?m = "planned_mission i now input project view"
  obtain cmds where c: "fst (execute_actions sh cm dry [] w [] (bm_actions ?m)) = run_commands sh w cmds"
    "\<forall>c \<in> set cmds. unsafe_command c = None" "distinct cmds" "dry \<longrightarrow> cmds = []"
    using execute_actions_run [of sh cm dry "[]" w "[]" "bm_actions ?m"] by auto
  have "fst (fst (run_mission_pipeline fr sh i now input project view cm dry disk (w, dir))) =
      fst (execute_actions sh cm dry [] w [] (bm_actions ?m))"
    by (simp add: run_mission_pipeline_def Let_def planned_mission_def [symmetric] execute_mission_actions_def
        case_prod_unfold split: sum.split option.split)
  with c show ?thesis by (intro exI [of _ cmds]) (simp add: list_all_iff)
qed

section \<open>A run\<close>

definition sample_shell :: "(string list) shell" where
  "sample_shell w cmd = (w @ [cmd], if contains cmd ''boom'' then Raised ''timeout''
     else Finished (if contains cmd ''fail'' then 1 else 0) ''1 passed'' [])"

definition sample_commands :: "(string, string) dict" where
  "sample_commands = [(''ACT-001'', ''> a''), (''ACT-002'', ''> b''), (''ACT-003'', ''> c'')]"

lemma sample_runs:
  "case execute_actions sample_shell sample_commands False [] [] []
       (bm_actions (planned_mission ''m1'' ''t'' ''bug'' ''p'' None)) of
     (w, Inr rs) \<Rightarrow> w = [''> a'', ''> b'', ''> c''] \<and> list_all well_evidenced rs
   | _ \<Rightarrow> False"
proof -
  have "map ba_id (bm_actions (planned_mission ''m1'' ''t'' ''bug'' ''p'' None)) =
      [''ACT-001'', ''ACT-002'', ''ACT-003'']" by code_simp
  then obtain a b c where a: "bm_actions (planned_mission ''m1'' ''t'' ''bug'' ''p'' None) = [a, b, c]"
    "ba_id a = ''ACT-001''" "ba_id b = ''ACT-002''" "ba_id c = ''ACT-003''"
    by (auto simp: map_eq_Cons_conv)
  have safe: "unsafe_command ''> a'' = None" "unsafe_command ''> b'' = None" "unsafe_command ''> c'' = None"
    by code_simp+
  have ev: "fst (classify_evidence ''> a'' ''process-executed'' True ''1 passed'' [] (Some 0)) = ''sufficient_evidence''"
    "fst (classify_evidence ''> b'' ''process-executed'' True ''1 passed'' [] (Some 0)) = ''sufficient_evidence''"
    "fst (classify_evidence ''> c'' ''process-executed'' True ''1 passed'' [] (Some 0)) = ''sufficient_evidence''"
    by code_simp+
  have cmds: "strip ''> a'' = ''> a''" "strip ''> b'' = ''> b''" "strip ''> c'' = ''> c''" by code_simp+
  show ?thesis
    by (simp add: a execute_action_def Let_def dget_or_def sample_commands_def cmds safe sample_shell_def contains_def ev action_result_def
        well_evidenced_def)
qed

lemma sample_completes:
  obtains m where "run_mission_pipeline fr sample_shell ''m1'' ''t'' ''bug'' ''p'' None sample_commands False Writable ([], []) =
      (([''> a'', ''> b'', ''> c''], dset [] ''m1'' (Report m)), Inr m)" "bm_status m = ''completed''"
proof -
  obtain rs where ex: "execute_actions sample_shell sample_commands False [] [] []
      (bm_actions (planned_mission ''m1'' ''t'' ''bug'' ''p'' None)) = ([''> a'', ''> b'', ''> c''], Inr rs)"
    "\<forall>r \<in> set rs. well_evidenced r"
    using sample_runs by (auto simp: list_all_iff split: prod.splits sum.splits)
  have "\<not> simple_request ''bug''" by code_simp
  with ex that show ?thesis by (elim pipeline_returns [of _ _ _ _ _ _ _ _ _ _ _ fr "[]"]) auto
qed

theorem pipeline_outcome_witness:
  "\<exists>(m :: brain_mission) dir'. dget dir' ''m1'' = Some (Report m) \<and> bm_satisfaction_gate_passed m \<and> bm_status m = ''completed''"
proof (rule sample_completes [of "\<lambda>_. []"])
  fix m assume "run_mission_pipeline (\<lambda>_. []) sample_shell ''m1'' ''t'' ''bug'' ''p'' None sample_commands False Writable ([], []) =
      (([''> a'', ''> b'', ''> c''], dset [] ''m1'' (Report m)), Inr m)" "bm_status m = ''completed''"
  from pipeline_outcome [OF this(1)] this(2) show ?thesis
    by (intro exI [of _ m] exI [of _ "dset [] ''m1'' (Report m)"]) (simp only: simp_thms)
qed

theorem completed_was_executed_witness:
  "\<exists>m :: brain_mission. bm_status m = ''completed'' \<and> bm_actions m \<noteq> [] \<and>
     distinct (map xr_command (bm_execution_results m)) \<and> (\<forall>r \<in> set (bm_execution_results m). xr_success r) \<and>
     ran_in_order sample_shell [] (bm_execution_results m) [''> a'', ''> b'', ''> c'']"
proof (rule sample_completes [of "\<lambda>_. []"])
  fix m assume "run_mission_pipeline (\<lambda>_. []) sample_shell ''m1'' ''t'' ''bug'' ''p'' None sample_commands False Writable ([], []) =
      (([''> a'', ''> b'', ''> c''], dset [] ''m1'' (Report m)), Inr m)" "bm_status m = ''completed''"
  from completed_was_executed [OF this] this(2) show ?thesis
    by (elim conjE, intro exI [of _ m] conjI ballI) (assumption | drule bspec, assumption, elim conjE)+
qed

text \<open>Two commands the filters let through: a recursive removal with its flags swapped, and an
  \<^verbatim>\<open>echo\<close> that counts as a passed test.\<close>

lemma unsafe_filter_misses: "unsafe_command ''rm -rf /'' \<noteq> None \<and> unsafe_command ''rm -fr /'' = None"
  by code_simp

lemma echo_counts_as_test:
  "fst (classify_evidence ''echo pytest'' ''process-executed'' True ''pytest'' [] (Some 0)) = ''sufficient_evidence''"
  by code_simp

end
