(* ===== verification/SelfMod.thy ===== *)
theory SelfMod
  imports PyText PyRegex
begin

text \<open>
  \<^verbatim>\<open>self_modification_gate.py\<close>: which core files a diff touches, and the gate a change of
  one must pass: confidence, the module's tests, the health check, with an audit file. The processes it
  starts (pytest, curl, git) are parameters over the state of the machine; they end with a code or raise.
\<close>

section \<open>What a diff changes\<close>

definition DEFAULT_CORE_FILES :: "string list" where
  "DEFAULT_CORE_FILES =
     [''igris/web/server.py'', ''igris/core/self_repair_supervisor.py'', ''igris/core/meta_watchdog.py'',
      ''igris/core/agent_reasoning_loop.py'', ''igris/core/model_orchestrator.py'']"

text \<open>The environment variable, when it is set to more than white space, replaces the list.\<close>

definition get_core_files :: "string \<Rightarrow> string list" where
  "get_core_files env =
     (if strip env \<noteq> []
      then remdups (filter (\<lambda>p. p \<noteq> []) (map strip (split_on (CHR '','') (strip env))))
      else DEFAULT_CORE_FILES)"

definition PATH_LINE_RE :: rx where
  "PATH_LINE_RE = Seqs
     [LineStart, Words [''---'', ''+++''], Plus (Cls [SpaceC]), Opt (Words [''a/'', ''b/'']),
      Grp 1 (Plus Dot), LineEnd]"

definition GIT_HEADER_RE :: rx where
  "GIT_HEADER_RE = Seqs [LineStart, Lit ''diff --git a/'', Grp 1 (Seq Dot (LazyStar Dot)), Lit '' b/'']"

definition extract_changed_paths :: "string \<Rightarrow> string list" where
  "extract_changed_paths diff =
     unique_keep_first
       (filter (\<lambda>p. p \<noteq> [] \<and> p \<noteq> ''/dev/null'' \<and> \<not> starts p ''b/'')
          (map strip (re_groups False PATH_LINE_RE 1 diff)) @
        map strip (re_groups False GIT_HEADER_RE 1 diff))"

definition touches_core_files :: "string \<Rightarrow> string list \<Rightarrow> string list" where
  "touches_core_files diff core = sort (filter (\<lambda>f. f \<in> set (extract_changed_paths diff)) (remdups core))"

section \<open>Tests, health check, audit\<close>

datatype 'a proc = Done 'a | Raises string

datatype gate_record = GateRecord (gr_run_id: string) (gr_touched: "string list") (gr_diff_hash: string)
  (gr_confidence: pyfloat) (gr_test_passed: "bool option") (gr_smoke_passed: "bool option")
  (gr_rollback_done: bool) (gr_below_threshold: bool) (gr_reason: string) (gr_outcome: string)
  (gr_checked_at: pyfloat)

datatype audit_file = NoAudit | BadAudit | NotAList | AuditLog "gate_record list"

record 'w gate_host =
  gh_exists :: "'w \<Rightarrow> string \<Rightarrow> bool"
  gh_pytest :: "'w \<Rightarrow> string list \<Rightarrow> 'w \<times> int proc"
  gh_port_ok :: bool
  gh_curl :: "'w \<Rightarrow> 'w \<times> (int \<times> pyval option) proc"
  gh_revert :: "'w \<Rightarrow> 'w \<times> int proc"
  gh_disk_ok :: bool
  gh_sha16 :: "string \<Rightarrow> string"
  gh_fixed2 :: "pyfloat \<Rightarrow> string"

record self_gate =
  sg_core_files :: "string list"
  sg_threshold :: pyfloat

record gate_result =
  ga_approved :: bool
  ga_touched_core :: "string list"
  ga_diff_hash :: string
  ga_test_passed :: "bool option"
  ga_smoke_passed :: "bool option"
  ga_rollback_done :: bool
  ga_confidence :: pyfloat
  ga_below_threshold :: bool
  ga_reason :: string
  ga_run_id :: string
  ga_checked_at :: pyfloat

datatype gate_error = Fault py_error | ProcessError string

definition new_self_gate :: "string \<Rightarrow> string list option \<Rightarrow> pyfloat \<Rightarrow> self_gate" where
  "new_self_gate env core_files threshold =
     \<lparr>sg_core_files = (case core_files of Some (f # fs) \<Rightarrow> f # fs | _ \<Rightarrow> get_core_files env),
      sg_threshold = threshold\<rparr>"

definition test_module_for_core_file :: "(string \<Rightarrow> bool) \<Rightarrow> string \<Rightarrow> string" where
  "test_module_for_core_file exists core_file =
     (let name = path_stem core_file
      in case find_first exists
           [''tests/test_'' @ name @ ''.py'',
            ''tests/test_'' @ filter (\<lambda>c. c \<noteq> CHR ''_'') name @ ''.py''] of
           None \<Rightarrow> [] | Some t \<Rightarrow> t)"

definition run_targeted_tests :: "'w gate_host \<Rightarrow> 'w \<Rightarrow> string list \<Rightarrow> 'w \<times> bool proc" where
  "run_targeted_tests h w core_files =
     (let tests = filter (\<lambda>t. t \<noteq> []) (map (test_module_for_core_file (gh_exists h w)) core_files)
      in if tests = [] then (w, Done True)
         else case gh_pytest h w tests of
                (w', Done rc) \<Rightarrow> (w', Done (rc = 0))
              | (w', Raises e) \<Rightarrow> (w', Raises e))"

text \<open>The exceptions of curl and of parsing its output are caught; a bad port number and a reply
  that is no object are not.\<close>

definition run_smoke_check :: "'w gate_host \<Rightarrow> 'w \<Rightarrow> 'w \<times> (py_error + bool)" where
  "run_smoke_check h w =
     (if \<not> gh_port_ok h then (w, Inl ValueError)
      else case gh_curl h w of
             (w', Raises _) \<Rightarrow> (w', Inr False)
           | (w', Done (rc, payload)) \<Rightarrow>
               if rc \<noteq> 0 then (w', Inr False)
               else case payload of
                      None \<Rightarrow> (w', Inr False)
                    | Some (PDict d) \<Rightarrow> (w', Inr (dget d ''status'' = Some (PStr ''ok'')))
                    | Some _ \<Rightarrow> (w', Inl AttributeError))"

definition append_audit_record :: "bool \<Rightarrow> audit_file \<Rightarrow> gate_record \<Rightarrow> py_error + audit_file" where
  "append_audit_record disk_ok audit r =
     (let write = (\<lambda>rs. Inr (if disk_ok then AuditLog (rs @ [r]) else audit))
      in case audit of NoAudit \<Rightarrow> write [] | BadAudit \<Rightarrow> write [] | AuditLog rs \<Rightarrow> write rs
         | NotAList \<Rightarrow> Inl AttributeError)"

definition load_audit_records :: "audit_file \<Rightarrow> gate_record list" where
  "load_audit_records audit = (case audit of AuditLog rs \<Rightarrow> rs | _ \<Rightarrow> [])"

definition gate_audit :: "'w gate_host \<Rightarrow> audit_file \<Rightarrow> gate_result \<Rightarrow> string \<Rightarrow> py_error + audit_file" where
  "gate_audit h audit r outcome =
     append_audit_record (gh_disk_ok h) audit
       (GateRecord (ga_run_id r) (ga_touched_core r) (ga_diff_hash r) (ga_confidence r) (ga_test_passed r)
          (ga_smoke_passed r) (ga_rollback_done r) (ga_below_threshold r) (ga_reason r) outcome
          (ga_checked_at r))"

section \<open>The gate\<close>

type_synonym 'w gate_state = "'w \<times> audit_file"

definition is_self_modification :: "self_gate \<Rightarrow> string \<Rightarrow> bool" where
  "is_self_modification g diff \<longleftrightarrow> touches_core_files diff (sg_core_files g) \<noteq> []"

text \<open>Writing the audit record and returning the result, or the error the record raises.\<close>

definition audited ::
    "'w gate_host \<Rightarrow> 'w gate_state \<Rightarrow> gate_result \<Rightarrow> string \<Rightarrow> 'w gate_state \<times> (gate_error + gate_result)" where
  "audited h st r outcome =
     (case gate_audit h (snd st) r outcome of
        Inl e \<Rightarrow> (st, Inl (Fault e))
      | Inr audit \<Rightarrow> ((fst st, audit), Inr r))"

definition gate_start :: "'w gate_host \<Rightarrow> self_gate \<Rightarrow> string \<Rightarrow> string \<Rightarrow> pyfloat \<Rightarrow> pyfloat \<Rightarrow> gate_result" where
  "gate_start h g diff run_id confidence now =
     \<lparr>ga_approved = False, ga_touched_core = touches_core_files diff (sg_core_files g),
      ga_diff_hash = gh_sha16 h diff, ga_test_passed = None, ga_smoke_passed = None,
      ga_rollback_done = False, ga_confidence = confidence, ga_below_threshold = False, ga_reason = [],
      ga_run_id = run_id, ga_checked_at = now\<rparr>"

definition gate_smoke ::
    "'w gate_host \<Rightarrow> bool \<Rightarrow> 'w gate_state \<Rightarrow> gate_result \<Rightarrow> 'w gate_state \<times> (gate_error + gate_result)" where
  "gate_smoke h run_smoke st r =
     (let passed = ''all self-modification checks passed''
      in if \<not> run_smoke then audited h st (r\<lparr>ga_approved := True, ga_reason := passed\<rparr>) ''approved''
         else
           let (w, res) = run_smoke_check h (fst st);
               finish = (\<lambda>ok. if ok
                 then audited h (w, snd st)
                   (r\<lparr>ga_smoke_passed := Some True, ga_approved := True, ga_reason := passed\<rparr>) ''approved''
                 else audited h (w, snd st)
                   (r\<lparr>ga_smoke_passed := Some False,
                      ga_reason := ''smoke check failed after self-modification''\<rparr>) ''smoke_failed'')
           in case res of
                Inl AttributeError \<Rightarrow> ((w, snd st), Inl (Fault AttributeError))
              | Inl _ \<Rightarrow> finish False
              | Inr ok \<Rightarrow> finish ok)"

definition gate_check ::
    "'w gate_host \<Rightarrow> self_gate \<Rightarrow> string \<Rightarrow> string \<Rightarrow> pyfloat \<Rightarrow> bool \<Rightarrow> pyfloat \<Rightarrow> 'w gate_state \<Rightarrow>
     'w gate_state \<times> (gate_error + gate_result)"
where
  "gate_check h g diff run_id confidence run_smoke now st =
     (let r = gate_start h g diff run_id confidence now
      in if ga_touched_core r = [] then
           (st, Inr (r\<lparr>ga_approved := True, ga_reason := ''no core files touched''\<rparr>))
         else if confidence < sg_threshold g then
           audited h st
             (r\<lparr>ga_below_threshold := True, ga_reason := ''self-modification confidence '' @
                gh_fixed2 h confidence @ '' below threshold '' @ gh_fixed2 h (sg_threshold g)\<rparr>)
             ''below_confidence_threshold''
         else
           let (w, tests) = run_targeted_tests h (fst st) (ga_touched_core r)
           in case tests of
                Raises e \<Rightarrow> audited h (w, snd st)
                  (r\<lparr>ga_test_passed := Some False, ga_reason := ''targeted test error: '' @ e\<rparr>) ''test_failed''
              | Done False \<Rightarrow> audited h (w, snd st)
                  (r\<lparr>ga_test_passed := Some False,
                     ga_reason := ''targeted tests failed for core module''\<rparr>) ''test_failed''
              | Done True \<Rightarrow> gate_smoke h run_smoke (w, snd st) (r\<lparr>ga_test_passed := Some True\<rparr>))"

definition rollback_if_needed ::
    "'w gate_host \<Rightarrow> 'w gate_state \<Rightarrow> gate_result \<Rightarrow> 'w gate_state \<times> (gate_error + bool \<times> gate_result)" where
  "rollback_if_needed h st r =
     (if ga_approved r \<or> ga_smoke_passed r \<noteq> Some False then (st, Inr (False, r))
      else case gh_revert h (fst st) of
             (w, Raises e) \<Rightarrow> ((w, snd st), Inl (ProcessError e))
           | (w, Done rc) \<Rightarrow>
               let r' = r\<lparr>ga_rollback_done := (rc = 0)\<rparr>
               in case audited h (w, snd st) r' ''rolled_back'' of
                    (st', Inl e) \<Rightarrow> (st', Inl e)
                  | (st', Inr _) \<Rightarrow> (st', Inr (rc = 0, r')))"

section \<open>What the gate guarantees\<close>

lemma lazy_until_space:
  assumes "\<forall>c \<in> set g. c \<noteq> CHR '' '' \<and> c \<noteq> CHR 0x0A" and "length g \<le> n"
    and h: "\<And>b a c. \<exists>c'. h (b, a, c) = (b, a, c')"
  shows "\<exists>qs. concat (map (\<lambda>p. mt False (Lit '' b/'') (h p)) (lazy_iter n (mt False Dot) (b, g @ '' b/'' @ v, c))) =
    mt False (Lit '' b/'') (h (rev g @ b, '' b/'' @ v, c)) @ qs"
  using assms(1,2)
proof (induction g arbitrary: n b)
  case Nil
  show ?case by (cases n) simp_all
next
  case (Cons x g)
  from Cons.prems obtain k where n: "n = Suc k" "length g \<le> k" by (cases n) auto
  have x: "x \<noteq> CHR '' ''" "x \<noteq> CHR 0x0A" using Cons.prems(1) by simp_all
  obtain c' where c': "h (b, x # g @ '' b/'' @ v, c) = (b, x # g @ '' b/'' @ v, c')" using h by blast
  have "mt False (Lit '' b/'') (h (b, x # g @ '' b/'' @ v, c)) = []"
    unfolding c' using x(1) by (simp add: starts_ic_False)
  then show ?case using Cons.IH [of k "x # b"] Cons.prems(1) n(2) x(2) by (simp add: n(1))
qed

lemma git_header_mt:
  assumes "f \<noteq> []" "\<forall>c \<in> set f. c \<noteq> CHR '' '' \<and> c \<noteq> CHR 0x0A" "b = [] \<or> hd b = CHR 0x0A"
  shows "\<exists>b' a' qs. mt False GIT_HEADER_RE (b, ''diff --git a/'' @ f @ '' b/'' @ v, []) = (b', a', [(1, f)]) # qs"
proof -
  obtain x g where f: "f = x # g" "x \<noteq> CHR 0x0A" using assms(1,2) by (cases f) auto
  let ?b0 = "rev ''diff --git a/'' @ b"
  let ?h = "\<lambda>(b', a', c'). (b', a', dset c' 1 (rev (take (length b' - length ?b0) b')))"
  have "\<exists>qs. concat (map (\<lambda>p. mt False (Lit '' b/'') (?h p))
      (lazy_iter (length (g @ '' b/'' @ v)) (mt False Dot) (x # ?b0, g @ '' b/'' @ v, []))) =
    mt False (Lit '' b/'') (?h (rev g @ x # ?b0, '' b/'' @ v, [])) @ qs"
    by (rule lazy_until_space) (use assms(2) f in auto)
  then obtain qs where qs: "concat (map (\<lambda>p. mt False (Lit '' b/'') (?h p))
      (lazy_iter (length (g @ '' b/'' @ v)) (mt False Dot) (x # ?b0, g @ '' b/'' @ v, []))) =
    mt False (Lit '' b/'') (?h (rev g @ x # ?b0, '' b/'' @ v, [])) @ qs" by blast
  have start: "b = [] \<or> hd b = CHR 0x0A" by fact
  have "mt False GIT_HEADER_RE (b, ''diff --git a/'' @ f @ '' b/'' @ v, []) =
    concat (map (\<lambda>p. mt False (Lit '' b/'') (?h p))
      (lazy_iter (length (g @ '' b/'' @ v)) (mt False Dot) (x # ?b0, g @ '' b/'' @ v, [])))"
    using start f(2) by (auto simp: GIT_HEADER_RE_def f(1) starts_ic_False o_def)
  with qs show ?thesis by (auto simp: f(1) starts_ic_False)
qed

lemma Star_Dot_line: "rxm False (Star Dot) b m a \<Longrightarrow> CHR 0x0A \<notin> set m"
proof (induction "length m" arbitrary: b m rule: less_induct)
  case less
  from less.prems consider "m = []"
    | m1 n where "m = m1 @ n" "m1 \<noteq> []" "rxm False Dot b m1 (n @ a)" "rxm False (Star Dot) (rev m1 @ b) n a"
    by (rule rxm_StarE)
  then show ?case
  proof cases
    case (2 m1 n)
    then show ?thesis using less.hyps [of n "rev m1 @ b"] by (auto simp: rxm_Dot)
  qed simp
qed

lemma git_header_line: "rxm False GIT_HEADER_RE b m a \<Longrightarrow> m \<noteq> [] \<and> CHR 0x0A \<notin> set m"
  by (auto simp: GIT_HEADER_RE_def rxm_simps rxm_LazyStar starts_ic_False starts_length_eq dest!: Star_Dot_line)

lemma git_header_detected:
  assumes "u = [] \<or> last u = CHR 0x0A" "f \<noteq> []" "\<forall>c \<in> set f. \<not> is_space c"
  shows "f \<in> set (extract_changed_paths (u @ ''diff --git a/'' @ f @ '' b/'' @ v))"
proof -
  have sp: "is_space (CHR '' '')" "is_space (CHR 0x0A)" by code_simp+
  with assms(3) have f: "\<forall>c \<in> set f. c \<noteq> CHR '' '' \<and> c \<noteq> CHR 0x0A" by metis
  have b: "rev u = [] \<or> hd (rev u) = CHR 0x0A" using assms(1) by (auto simp: hd_rev)
  obtain b' a' qs where "mt False GIT_HEADER_RE (rev u, ''diff --git a/'' @ f @ '' b/'' @ v, []) = (b', a', [(1, f)]) # qs"
    using git_header_mt [OF assms(2) f b] by blast
  from re_groups_line [OF git_header_line this assms(1)]
  have "f \<in> set (re_groups False GIT_HEADER_RE 1 (u @ ''diff --git a/'' @ f @ '' b/'' @ v))" by simp
  moreover have "strip f = f"
    by (rule strip_trimmed_id) (use assms(2,3) in \<open>simp add: trimmed_def\<close>)
  ultimately have "f \<in> strip ` set (re_groups False GIT_HEADER_RE 1 (u @ ''diff --git a/'' @ f @ '' b/'' @ v))"
    by (intro image_eqI [of f strip f]) simp_all
  then show ?thesis unfolding extract_changed_paths_def set_unique_keep_first set_append set_map by (rule UnI2)
qed

lemma set_touches: "set (touches_core_files diff core) = set core \<inter> set (extract_changed_paths diff)"
  by (auto simp: touches_core_files_def)

lemma append_audit_cases:
  assumes "append_audit_record d audit r = Inr audit'"
  shows "audit' = (if d then AuditLog (load_audit_records audit @ [r]) else audit)" "audit \<noteq> NotAList"
  using assms by (auto simp: append_audit_record_def load_audit_records_def Let_def split: audit_file.splits if_splits)

text \<open>The record of a result.\<close>

definition record_of :: "gate_result \<Rightarrow> string \<Rightarrow> gate_record" where
  "record_of r outcome = GateRecord (ga_run_id r) (ga_touched_core r) (ga_diff_hash r) (ga_confidence r)
     (ga_test_passed r) (ga_smoke_passed r) (ga_rollback_done r) (ga_below_threshold r) (ga_reason r) outcome
     (ga_checked_at r)"

lemma audited_cases:
  assumes "audited h st r outcome = (st', Inr r')"
  shows "r' = r" "fst st' = fst st"
    "snd st' = (if gh_disk_ok h then AuditLog (load_audit_records (snd st) @ [record_of r outcome]) else snd st)"
  using assms append_audit_cases [of "gh_disk_ok h" "snd st" "record_of r outcome"]
  by (auto simp: audited_def gate_audit_def record_of_def split: sum.splits)

text \<open>What the checks of an approved change did on the machine. The tests of a module are the files named
  after it that exist, the one with the underscores first; pytest ran them and returned 0, where there is one.
  The health check asked the server, which answered ok.\<close>

definition named_tests :: "(string \<Rightarrow> bool) \<Rightarrow> string \<Rightarrow> string list" where
  "named_tests exists f = filter exists
     [''tests/test_'' @ path_stem f @ ''.py'', ''tests/test_'' @ filter (\<lambda>c. c \<noteq> CHR ''_'') (path_stem f) @ ''.py'']"

definition tests_ran :: "'w gate_host \<Rightarrow> string list \<Rightarrow> 'w \<Rightarrow> 'w \<Rightarrow> bool" where
  "tests_ran h files w w' \<longleftrightarrow>
     (if \<forall>f \<in> set files. named_tests (gh_exists h w) f = [] then w' = w
      else \<exists>tests. gh_pytest h w tests = (w', Done 0) \<and>
        (\<forall>f \<in> set files. named_tests (gh_exists h w) f \<noteq> [] \<longrightarrow> hd (named_tests (gh_exists h w) f) \<in> set tests))"

definition server_answered_ok :: "'w gate_host \<Rightarrow> 'w \<Rightarrow> 'w \<Rightarrow> bool" where
  "server_answered_ok h w w' \<longleftrightarrow> gh_port_ok h \<and>
     (\<exists>d. gh_curl h w = (w', Done (0, Some (PDict d))) \<and> dget d ''status'' = Some (PStr ''ok''))"

definition checks_ran :: "'w gate_host \<Rightarrow> string list \<Rightarrow> bool \<Rightarrow> 'w \<Rightarrow> 'w \<Rightarrow> bool" where
  "checks_ran h files run_smoke w w' \<longleftrightarrow>
     (\<exists>w1. tests_ran h files w w1 \<and> (if run_smoke then server_answered_ok h w1 w' else w' = w1))"

lemma test_module_named: "test_module_for_core_file ex f = (case named_tests ex f of [] \<Rightarrow> [] | t # _ \<Rightarrow> t)"
  by (simp add: test_module_for_core_file_def named_tests_def Let_def)

lemma named_tests_not_empty: "[] \<notin> set (named_tests ex f)"
  by (auto simp: named_tests_def)

lemma passed_tests_ran:
  assumes "run_targeted_tests h w files = (w', Done True)"
  shows "tests_ran h files w w'"
proof -
  let ?nt = "named_tests (gh_exists h w)" and ?t = "test_module_for_core_file (gh_exists h w)"
  have some: "?t f \<noteq> [] \<longleftrightarrow> ?nt f \<noteq> []" "?nt f \<noteq> [] \<Longrightarrow> ?t f = hd (?nt f)" for f
    using named_tests_not_empty [of "gh_exists h w" f] by (auto simp: test_module_named split: list.splits)
  show ?thesis
  proof (cases "\<forall>f \<in> set files. ?nt f = []")
    case True
    with some(1) have "filter (\<lambda>t. t \<noteq> []) (map ?t files) = []" by (auto simp: filter_empty_conv)
    with assms True show ?thesis by (simp add: run_targeted_tests_def tests_ran_def)
  next
    case False
    let ?tests = "filter (\<lambda>t. t \<noteq> []) (map ?t files)"
    from False some(1) have "?tests \<noteq> []" by (auto simp: filter_empty_conv)
    with assms have "gh_pytest h w ?tests = (w', Done 0)"
      by (auto simp: run_targeted_tests_def Let_def split: prod.splits proc.splits)
    moreover have "\<forall>f \<in> set files. ?nt f \<noteq> [] \<longrightarrow> hd (?nt f) \<in> set ?tests" using some by force
    ultimately show ?thesis using False by (auto simp: tests_ran_def)
  qed
qed

lemma passed_smoke_answered:
  "run_smoke_check h w = (w', Inr True) \<Longrightarrow> server_answered_ok h w w'"
  by (auto simp: run_smoke_check_def server_answered_ok_def split: if_splits prod.splits proc.splits option.splits pyval.splits)

text \<open>What a check of a core change that returns has done: its verdict and the record it left.\<close>

lemma gate_smoke_cases:
  assumes "gate_smoke h run_smoke st r = (st', Inr r')" "\<not> ga_approved r"
  obtains outcome st1 where "audited h st1 r' outcome = (st', Inr r')" "snd st1 = snd st"
    "ga_touched_core r' = ga_touched_core r" "ga_test_passed r' = ga_test_passed r" "ga_confidence r' = ga_confidence r"
    "ga_approved r' \<longleftrightarrow> outcome = ''approved''"
    "ga_approved r' \<longrightarrow> ga_smoke_passed r' = (if run_smoke then Some True else ga_smoke_passed r) \<and>
      (if run_smoke then server_answered_ok h (fst st) (fst st') else fst st' = fst st)"
proof -
  obtain w res where chk: "run_smoke_check h (fst st) = (w, res)" by force
  have ok: "res = Inr True \<Longrightarrow> server_answered_ok h (fst st) w" using passed_smoke_answered chk by simp
  let ?smoke = "\<lambda>r1 (w' :: 'a) outcome. audited h (w', snd st) r1 outcome = (st', Inr r') \<and>
    ga_touched_core r1 = ga_touched_core r \<and> ga_test_passed r1 = ga_test_passed r \<and>
    ga_confidence r1 = ga_confidence r \<and> (ga_approved r1 \<longleftrightarrow> outcome = ''approved'') \<and>
    (ga_approved r1 \<longrightarrow> ga_smoke_passed r1 = (if run_smoke then Some True else ga_smoke_passed r) \<and>
      (if run_smoke then server_answered_ok h (fst st) w' else w' = fst st))"
  have "\<exists>r1 w' outcome. ?smoke r1 w' outcome"
  proof (cases run_smoke)
    case False
    with assms(1) show ?thesis by (intro exI [of _ "r\<lparr>ga_approved := True, ga_reason := ''all self-modification checks passed''\<rparr>"]
        exI [of _ "fst st"] exI [of _ "''approved''"]) (simp add: gate_smoke_def Let_def)
  next
    case True
    let ?no = "r\<lparr>ga_smoke_passed := Some False, ga_reason := ''smoke check failed after self-modification''\<rparr>"
    let ?yes = "r\<lparr>ga_smoke_passed := Some True, ga_approved := True, ga_reason := ''all self-modification checks passed''\<rparr>"
    from assms(1) True chk have "(res = Inr True \<and> audited h (w, snd st) ?yes ''approved'' = (st', Inr r')) \<or>
        audited h (w, snd st) ?no ''smoke_failed'' = (st', Inr r')"
      by (auto simp: gate_smoke_def Let_def split: sum.splits py_error.splits if_splits)
    then have "?smoke ?yes w ''approved'' \<or> ?smoke ?no w ''smoke_failed''"
      using ok True assms(2) by auto
    then show ?thesis by blast
  qed
  then obtain outcome st1 r1 where "audited h st1 r1 outcome = (st', Inr r')" "snd st1 = snd st"
    "ga_touched_core r1 = ga_touched_core r" "ga_test_passed r1 = ga_test_passed r" "ga_confidence r1 = ga_confidence r"
    "ga_approved r1 \<longleftrightarrow> outcome = ''approved''"
    "ga_approved r1 \<longrightarrow> ga_smoke_passed r1 = (if run_smoke then Some True else ga_smoke_passed r) \<and>
      (if run_smoke then server_answered_ok h (fst st) (fst st1) else fst st1 = fst st)"
    by fastforce
  with that audited_cases(1,2) show ?thesis by metis
qed

lemma gate_check_cases:
  assumes "gate_check h g diff run_id confidence run_smoke now st = (st', Inr r)"
    and touched: "touches_core_files diff (sg_core_files g) \<noteq> []"
  obtains outcome st1 where "audited h st1 r outcome = (st', Inr r)" "snd st1 = snd st"
    "ga_touched_core r = touches_core_files diff (sg_core_files g)" "ga_approved r \<longleftrightarrow> outcome = ''approved''"
    "ga_approved r \<longrightarrow> sg_threshold g \<le> confidence \<and> ga_test_passed r = Some True \<and>
      ga_smoke_passed r = (if run_smoke then Some True else None) \<and>
      checks_ran h (ga_touched_core r) run_smoke (fst st) (fst st')"
proof -
  let ?r = "gate_start h g diff run_id confidence now"
  have r0: "ga_touched_core ?r = touches_core_files diff (sg_core_files g)" "\<not> ga_approved ?r"
    "ga_smoke_passed ?r = None" by (simp_all add: gate_start_def)
  obtain w tests where t: "run_targeted_tests h (fst st) (ga_touched_core ?r) = (w, tests)" by force
  consider (low) "confidence < sg_threshold g" | (raises) e where "\<not> confidence < sg_threshold g" "tests = Raises e"
    | (fails) "\<not> confidence < sg_threshold g" "tests = Done False"
    | (ok) "\<not> confidence < sg_threshold g" "tests = Done True"
    by (cases tests) auto
  then consider (rejects) r1 st1 outcome where "audited h st1 r1 outcome = (st', Inr r)" "snd st1 = snd st"
      "ga_touched_core r1 = ga_touched_core ?r" "\<not> ga_approved r1" "outcome \<noteq> ''approved''"
    | (ok) "\<not> confidence < sg_threshold g" "tests = Done True"
  proof cases
    case low
    with assms(1) touched r0(1,2) have "audited h st
        (?r\<lparr>ga_below_threshold := True, ga_reason := ''self-modification confidence '' @
          gh_fixed2 h confidence @ '' below threshold '' @ gh_fixed2 h (sg_threshold g)\<rparr>)
        ''below_confidence_threshold'' = (st', Inr r)"
      by (simp add: gate_check_def Let_def)
    then show ?thesis by (rule rejects) (use r0(2) in simp_all)
  next
    case (raises e)
    with assms(1) touched r0(1,2) t have "audited h (w, snd st)
        (?r\<lparr>ga_test_passed := Some False, ga_reason := ''targeted test error: '' @ e\<rparr>) ''test_failed'' = (st', Inr r)"
      by (simp add: gate_check_def Let_def)
    then show ?thesis by (rule rejects) (use r0(2) in simp_all)
  next
    case fails
    with assms(1) touched r0(1,2) t have "audited h (w, snd st)
        (?r\<lparr>ga_test_passed := Some False, ga_reason := ''targeted tests failed for core module''\<rparr>)
        ''test_failed'' = (st', Inr r)"
      by (simp add: gate_check_def Let_def)
    then show ?thesis by (rule rejects) (use r0(2) in simp_all)
  qed
  then show ?thesis
  proof cases
    case rejects
    then show ?thesis using audited_cases(1) [OF rejects(1)] r0(1)
      by (intro that [of st1 outcome]) auto
  next
    case ok
    with assms(1) touched r0 t have "gate_smoke h run_smoke (w, snd st) (?r\<lparr>ga_test_passed := Some True\<rparr>) = (st', Inr r)"
      by (simp add: gate_check_def Let_def)
    moreover have "tests_ran h (ga_touched_core ?r) (fst st) w" using t ok(2) by (simp add: passed_tests_ran)
    ultimately show ?thesis
      by (elim gate_smoke_cases) (use r0 ok that in \<open>auto simp: checks_ran_def split: if_splits\<close>)
  qed
qed

text \<open>C14. 
  A diff with a git header of a core file is only approved with the confidence reached and the checks run:
  where a touched module has a test file of its name, pytest was started with the test files of all touched
  modules that have one and returned 0; and, when it was asked for, the health check was sent and the server
  answered ok. (A module without a test file passes, as the code has it.) Where the disk can be written the
  audit file ends with the record of that approval, after everything it held.
\<close>

theorem core_change_is_checked:
  assumes "gate_check h g (u @ ''diff --git a/'' @ f @ '' b/'' @ v) run_id confidence run_smoke now st = (st', Inr r)"
    and "f \<in> set (sg_core_files g)" "f \<noteq> []" "\<forall>c \<in> set f. \<not> is_space c" "u = [] \<or> last u = CHR 0x0A"
  shows "f \<in> set (ga_touched_core r) \<and>
    (ga_approved r \<longrightarrow> sg_threshold g \<le> confidence \<and> ga_test_passed r = Some True \<and>
       ga_smoke_passed r = (if run_smoke then Some True else None) \<and>
       checks_ran h (ga_touched_core r) run_smoke (fst st) (fst st')) \<and>
    (gh_disk_ok h \<longrightarrow> (\<exists>rec. snd st' = AuditLog (load_audit_records (snd st) @ [rec]) \<and>
       gr_touched rec = ga_touched_core r \<and> (gr_outcome rec = ''approved'' \<longleftrightarrow> ga_approved r)))"
proof -
  let ?diff = "u @ ''diff --git a/'' @ f @ '' b/'' @ v"
  have f: "f \<in> set (touches_core_files ?diff (sg_core_files g))"
    using git_header_detected [OF assms(5,3,4)] assms(2) by (simp only: set_touches Int_iff)
  then have "touches_core_files ?diff (sg_core_files g) \<noteq> []" by auto
  with assms(1) show ?thesis
  proof (rule gate_check_cases)
    fix outcome st1
    assume a: "audited h st1 r outcome = (st', Inr r)" "snd st1 = snd st"
      and r: "ga_touched_core r = touches_core_files ?diff (sg_core_files g)"
        "ga_approved r \<longleftrightarrow> outcome = ''approved''"
        "ga_approved r \<longrightarrow> sg_threshold g \<le> confidence \<and> ga_test_passed r = Some True \<and>
          ga_smoke_passed r = (if run_smoke then Some True else None) \<and>
          checks_ran h (ga_touched_core r) run_smoke (fst st) (fst st')"
    have "snd st' = (if gh_disk_ok h then AuditLog (load_audit_records (snd st) @ [record_of r outcome]) else snd st)"
      using audited_cases(3) [OF a(1)] a(2) by simp
    moreover have "gr_touched (record_of r outcome) = ga_touched_core r" "gr_outcome (record_of r outcome) = outcome"
      by (simp_all add: record_of_def)
    moreover have "f \<in> set (ga_touched_core r)" using f unfolding r(1) .
    ultimately show ?thesis using r(2,3) by (intro conjI impI exI [of _ "record_of r outcome"]) simp_all
  qed
qed

definition sample_host :: "unit gate_host" where
  "sample_host = \<lparr>gh_exists = (\<lambda>_ p. p = ''tests/test_server.py''), gh_pytest = (\<lambda>w _. (w, Done 0)),
     gh_port_ok = True, gh_curl = (\<lambda>w. (w, Done (0, Some (PDict [(''status'', PStr ''ok'')])))),
     gh_revert = (\<lambda>w. (w, Done 0)), gh_disk_ok = True, gh_sha16 = (\<lambda>_. ''h''), gh_fixed2 = (\<lambda>_. ''c'')\<rparr>"

definition sample_gate :: self_gate where
  "sample_gate = new_self_gate [] None (85/100)"

definition sample_diff :: string where
  "sample_diff = ''diff --git a/igris/web/server.py b/x''"

theorem core_change_is_checked_witness:
  "\<exists>st' r. gate_check sample_host sample_gate sample_diff ''r'' (9/10) True 0 ((), NoAudit) = (st', Inr r) \<and>
     ga_approved r \<and> ''igris/web/server.py'' \<in> set (ga_touched_core r) \<and> ga_smoke_passed r = Some True"
proof -
  have ok: "case gate_check sample_host sample_gate sample_diff ''r'' (9/10) True 0 ((), NoAudit) of
      (st', Inr r) \<Rightarrow> ga_approved r | _ \<Rightarrow> False" by code_simp
  then obtain st' r where run: "gate_check sample_host sample_gate sample_diff ''r'' (9/10) True 0 ((), NoAudit) = (st', Inr r)"
    "ga_approved r" by (auto split: prod.splits sum.splits)
  have "sample_diff = [] @ ''diff --git a/'' @ ''igris/web/server.py'' @ '' b/'' @ ''x''" by (simp add: sample_diff_def)
  note run' = run(1) [unfolded this]
  have "''igris/web/server.py'' \<in> set (sg_core_files sample_gate)" by code_simp
  moreover have "\<forall>c \<in> set ''igris/web/server.py''. \<not> is_space c" by code_simp
  ultimately have "''igris/web/server.py'' \<in> set (ga_touched_core r) \<and> ga_smoke_passed r = Some True"
    using core_change_is_checked [OF run'] run(2) by simp
  with run show ?thesis by blast
qed

text \<open>A pure rename onto a core file has no other header, and is approved unchecked.\<close>

definition rename_diff :: string where
  "rename_diff = ''diff --git a/x.py b/igris/web/server.py'' @ [CHR 0x0A] @ ''similarity index 100%'' @ [CHR 0x0A] @
     ''rename from x.py'' @ [CHR 0x0A] @ ''rename to igris/web/server.py'' @ [CHR 0x0A]"

lemma rename_onto_core_is_unchecked: "touches_core_files rename_diff DEFAULT_CORE_FILES = []"
  by code_simp

text \<open>A variable of separators only protects nothing.\<close>

lemma separators_protect_nothing: "sg_core_files (new_self_gate '','' None t) = []"
  by code_simp

text \<open>A broken audit file is replaced by the one new record.\<close>

lemma broken_audit_is_replaced: "append_audit_record True BadAudit r = Inr (AuditLog [r])"
  by (simp add: append_audit_record_def)

end
