(* ===== verification/CommitSafety.thy ===== *)
theory CommitSafety
  imports PyText PyRegex
begin

text \<open>
  The gates before a commit: \<^verbatim>\<open>commit_safety.py\<close>, which files and scopes may be committed,
  and \<^verbatim>\<open>acceptance_gate.py\<close>, whether a diff is more than a stub and covers the endpoints the
  goal names.
\<close>

section \<open>Files that are never committed\<close>

definition BLOCKED_FILENAMES :: "string list" where
  "BLOCKED_FILENAMES =
     [''.env'', ''.env.local'', ''.env.production'', ''.env.staging'', ''.env.test'', ''.envrc'',
      ''credentials.json'', ''credentials.yml'', ''credentials.yaml'',
      ''secrets.json'', ''secrets.yml'', ''secrets.yaml'', ''.netrc'']"

definition BLOCKED_EXTENSIONS :: "string list" where
  "BLOCKED_EXTENSIONS = [''.pem'', ''.key'', ''.p12'', ''.pfx'', ''.cer'', ''.crt'', ''.ppk'']"

definition BLOCKED_PATH_PREFIXES :: "string list" where
  "BLOCKED_PATH_PREFIXES =
     [''.venv/'', ''venv/'', ''.tox/'', ''.eggs/'', ''__pycache__/'', ''.pytest_cache/'', ''.mypy_cache/'',
      ''.ruff_cache/'', ''.hypothesis/'', ''igris_gpt.egg-info/'', ''*.egg-info/'',
      ''.igris/locks/'', ''.igris/runs/'', ''.igris/supervisor_runs'', ''logs/'', ''tmp/'', ''.tmp/'',
      ''node_modules/'']"

definition SECRET_PATH_RE :: rx where
  "SECRET_PATH_RE = Grp 1 (Words
     [''id_rsa'', ''id_ecdsa'', ''id_ed25519'', ''id_dsa'', ''.pem'', ''.key'', ''_private'', ''secret'', ''credential''])"

definition SECRET_CONTENT_RE :: rx where
  "SECRET_CONTENT_RE =
     (let sep = Opt (Cls [Ch (CHR ''_''), Ch (CHR ''-'')]);
          alnum = Cls [Rng (CHR ''a'') (CHR ''z''), Rng (CHR ''0'') (CHR ''9'')]
      in Seqs
        [Grp 1 (Alts
           [Seqs [Lit ''api'', sep, Lit ''key''], Seqs [Lit ''api'', sep, Lit ''secret''],
            Seqs [Lit ''access'', sep, Lit ''token''], Seqs [Lit ''private'', sep, Lit ''key''],
            Lit ''password'', Lit ''passwd'', Seqs [Lit ''auth'', sep, Lit ''token''],
            Seqs [Lit ''bearer'', Plus (Cls [SpaceC]), AtLeast 10 alnum],
            Seqs [Lit ''aws'', sep, Grp 2 (Words [''access'', ''secret''])],
            Seqs [Lit ''ghp_'', Rep 36 alnum], Seqs [Lit ''sk-'', AtLeast 32 alnum]]),
         Star (Cls [SpaceC]), Cls [Ch (CHR ''=''), Ch (CHR '':'')], Star (Cls [SpaceC]), Plus (NCls [SpaceC])])"

record file_risk =
  fr_path :: string
  fr_blocked :: bool
  fr_reasons :: "string list"

record safety_report =
  sy_ok :: bool
  sy_blocked_files :: "file_risk list"
  sy_warnings :: "string list"
  sy_scope_violations :: "string list"

definition safety_summary :: "safety_report \<Rightarrow> string" where
  "safety_summary r =
     (if sy_ok r then ''pre-commit safety gate: PASSED''
      else join [CHR 0x0A] (''pre-commit safety gate: BLOCKED'' #
        map (\<lambda>f. ''  BLOCKED '' @ fr_path f @ '': '' @ join ''; '' (fr_reasons f)) (sy_blocked_files r) @
        map (\<lambda>v. ''  SCOPE VIOLATION: '' @ v) (sy_scope_violations r)))"

definition clean_prefix :: "string \<Rightarrow> string" where
  "clean_prefix prefix = rstrip_chars ''/'' (rstrip_chars ''*'' prefix) @ ''/''"

definition below_prefix :: "string \<Rightarrow> string \<Rightarrow> bool" where
  "below_prefix npath prefix \<longleftrightarrow>
     (let p = clean_prefix prefix in starts npath p \<or> starts npath (''.'' @ p) \<or> contains npath (''/'' @ p))"

definition HARMLESS_HIDDEN :: "string list" where
  "HARMLESS_HIDDEN =
     [''.gitignore'', ''.gitattributes'', ''.github'', ''.flake8'', ''.pre-commit-config.yaml'', ''.ruff.toml'']"

text \<open>The reasons one file is blocked for, in the order of the checks.\<close>

definition file_reasons :: "string \<Rightarrow> string list" where
  "file_reasons path =
     (let npath = path_str path; name = path_name path; ext = py_lower (path_suffix path);
          r1 = (if name \<in> set BLOCKED_FILENAMES then [''blocked filename: '' @ name] else []);
          r2 = r1 @ (if ext \<in> set BLOCKED_EXTENSIONS then [''blocked extension: '' @ ext] else []);
          r3 = r2 @ (case find_first (below_prefix npath) BLOCKED_PATH_PREFIXES of
                 None \<Rightarrow> [] | Some p \<Rightarrow> [''runtime artifact: '' @ p]);
          r4 = r3 @ (if re_test True SECRET_PATH_RE npath \<and> r3 = [] then [''secret-like path: '' @ npath] else [])
      in r4 @
         (if starts name ''.'' \<and> name \<notin> set HARMLESS_HIDDEN \<and>
             (ext \<in> {''.env'', ''.secret'', ''.key'', ''.pem''} \<or> name \<in> set BLOCKED_FILENAMES) \<and>
             \<not> list_ex (\<lambda>r. contains r ''blocked'') r4
          then [''hidden potentially-sensitive file: '' @ name] else []))"

definition in_scope :: "string list \<Rightarrow> string \<Rightarrow> bool" where
  "in_scope scopes npath \<longleftrightarrow>
     list_ex (\<lambda>s. starts npath (rstrip_chars ''/'' s @ ''/'') \<or> npath = s) scopes"

definition blocked_files :: "string list \<Rightarrow> file_risk list" where
  "blocked_files changed_files =
     map (\<lambda>p. \<lparr>fr_path = p, fr_blocked = True, fr_reasons = file_reasons p\<rparr>)
       (filter (\<lambda>p. file_reasons p \<noteq> []) (map strip changed_files))"

definition commit_scan :: "string list \<Rightarrow> string list option \<Rightarrow> safety_report" where
  "commit_scan changed_files allowed_scopes =
     \<lparr>sy_ok = (blocked_files changed_files = []), sy_blocked_files = blocked_files changed_files,
      sy_warnings = [],
      sy_scope_violations =
        (case allowed_scopes of
           None \<Rightarrow> []
         | Some scopes \<Rightarrow>
             map (\<lambda>p. p @ '' is outside allowed scopes: '' @ list_repr (take 3 scopes))
               (filter (\<lambda>p. file_reasons p = [] \<and> \<not> in_scope scopes (path_str p)) (map strip changed_files)))\<rparr>"

text \<open>The numbers of the suspicious added lines, with the first 40 characters the pattern matched.\<close>

definition scan_diff_content :: "string \<Rightarrow> (nat \<times> string) list" where
  "scan_diff_content diff =
     concat (map (\<lambda>(i, line).
       if \<not> starts line ''+'' \<or> starts line ''+++'' then []
       else case re_match_text True SECRET_CONTENT_RE (drop 1 line) of
              None \<Rightarrow> [] | Some m \<Rightarrow> [(i, take 40 m)])
       (enumerate 1 (splitlines diff)))"

section \<open>The scope of a diff\<close>

record diff_scope =
  dp_ok :: bool
  dp_violations :: "string list"
  dp_warnings :: "string list"
  dp_file_count :: nat

definition scope_summary :: "diff_scope \<Rightarrow> string" where
  "scope_summary d =
     (if dp_ok d then ''diff scope: ok ('' @ nat_str (dp_file_count d) @ '' file(s))''
      else ''diff scope: VIOLATIONS'' @ [CHR 0x0A] @ join [CHR 0x0A] (map (\<lambda>v. ''  '' @ v) (dp_violations d)))"

definition CI_MENTIONS :: "string list" where
  "CI_MENTIONS = [''ci'', ''workflow'', ''.github'', ''github actions'', ''pipeline'']"

definition scope_violations :: "string list \<Rightarrow> string list \<Rightarrow> string list" where
  "scope_violations scopes changed_files =
     map (\<lambda>raw. ''out-of-scope file: '' @ raw @ '' (allowed: '' @ list_repr (take 3 scopes) @ '')'')
       (filter (\<lambda>raw. \<not> in_scope scopes (path_str (strip raw))) changed_files)"

definition workflow_path :: "string \<Rightarrow> bool" where
  "workflow_path npath \<longleftrightarrow> contains npath ''.github/workflows/'' \<or> starts npath ''.github/''"

definition validate_diff_scope :: "string list \<Rightarrow> string list option \<Rightarrow> string \<Rightarrow> int \<Rightarrow> diff_scope" where
  "validate_diff_scope changed_files allowed_scopes issue_goal max_files =
     (if changed_files = [] then \<lparr>dp_ok = True, dp_violations = [], dp_warnings = [], dp_file_count = 0\<rparr>
      else
        let count = length changed_files;
            too_many = (if int count > max_files
              then [''too many files changed: '' @ nat_str count @ '' > max_files='' @ int_str max_files] else []);
            large = (if int count > max_files then []
              else if int count > max (max_files div 2) 10
              then [''large diff: '' @ nat_str count @ '' files changed''] else []);
            blocked = map (\<lambda>f. ''blocked file in diff: '' @ fr_path f @ '' ('' @ join ''; '' (fr_reasons f) @ '')'')
              (sy_blocked_files (commit_scan changed_files None));
            outside = (case allowed_scopes of
                None \<Rightarrow> [] | Some scopes \<Rightarrow> if scopes = [] then [] else scope_violations scopes changed_files);
            workflows = (if any_in CI_MENTIONS (py_lower issue_goal) then []
              else map (\<lambda>p. ''CI/workflow file modified without CI in goal: '' @ p)
                (filter (\<lambda>p. workflow_path (path_str (strip p))) changed_files));
            violations = too_many @ blocked @ outside
        in \<lparr>dp_ok = (violations = []), dp_violations = violations, dp_warnings = large @ workflows,
            dp_file_count = count\<rparr>)"

section \<open>Acceptance evidence\<close>

definition quote :: rx where
  "quote = Cls [Ch (CHR 0x27), Ch (CHR 0x22)]"

definition quoted_key :: rx where
  "quoted_key = Seqs [quote, Plus (NCls [Ch (CHR 0x27), Ch (CHR 0x22)]), quote]"

definition spaces :: rx where
  "spaces = Star (Cls [SpaceC])"

definition STUB_PATTERNS :: "(bool \<times> rx) list" where
  "STUB_PATTERNS =
     (let sp1 = Plus (Cls [SpaceC]); single = [CHR 0x27, CHR 0x27]; dbl = [CHR 0x22, CHR 0x22]
      in [(False, Seqs
             [LineStart, Lit ''+'', sp1, Lit ''return'', sp1, Lit ''{'',
              Plus (Seqs [spaces, quoted_key, spaces, Lit '':'', spaces,
                Alts [Lit ''[]'', Lit ''{}'', Seq (Lit single) spaces, Lit dbl],
                spaces, Opt (Lit '',''), spaces]),
              Lit ''}'']),
          (True, Seqs
             [LineStart, Lit ''+'', spaces, Lit ''#'', spaces,
              Grp 1 (Alts [Lit ''TODO'', Lit ''FIXME'', Lit ''Logic to gather'', Seq (Lit ''stub'') WB,
                Seqs [Lit ''Placeholder'', sp1, Lit ''for'', WB]])]),
          (False, Seqs [LineStart, Lit ''+'', sp1, Words [''pass'', ''...''], spaces, LineEnd]),
          (False, Seqs
             [LineStart, Lit ''+'', sp1, Lit ''return'', sp1, Plus (Cls [WordC]), spaces, Lit ''(content'',
              spaces, Lit ''='', spaces, Lit ''{'',
              Plus (Seqs [spaces, quoted_key, spaces, Lit '':'', spaces,
                Alts [Seqs [Lit ''['', spaces, Lit '']''], Seqs [Lit ''{'', spaces, Lit ''}''],
                  Seq (Lit single) spaces, Seq (Lit dbl) spaces],
                spaces, Opt (Lit '',''), spaces]),
              Lit ''}'', spaces, Lit '')''])])"

definition HARDCODED_EMPTY_RE :: rx where
  "HARDCODED_EMPTY_RE = Seqs
     [quoted_key, spaces, Lit '':'', spaces,
      Alts [Seqs [Lit ''['', spaces, Lit '']''], Seqs [Lit ''{'', spaces, Lit ''}''],
        Seq (Lit [CHR 0x27, CHR 0x27]) spaces, Lit [CHR 0x22, CHR 0x22]]]"

definition stub_reason :: "string \<Rightarrow> string option" where
  "stub_reason added =
     (case find_first (\<lambda>(ic, r). re_test ic r added) STUB_PATTERNS of
        Some (ic, r) \<Rightarrow>
          Some (''Stub pattern detected: '' @
            py_repr (strip (take 120 (case re_match_text ic r added of None \<Rightarrow> [] | Some m \<Rightarrow> m))))
      | None \<Rightarrow>
          let empties = re_findall False HARDCODED_EMPTY_RE added
          in if 3 \<le> length empties
             then Some (''Return dict has '' @ nat_str (length empties) @ '' hardcoded-empty values: '' @
               list_repr (take 3 empties))
             else None)"

definition ENDPOINT_RE :: rx where
  "ENDPOINT_RE = Seq (NotBehind [WordC]) (Grp 1 (Seqs
     [Lit ''/'', Opt (Lit ''api/''), Plus (Cls [WordC, Ch (CHR ''-''), Ch (CHR ''/'')]),
      Star (Seqs [Lit ''/{'', Plus (Cls [WordC]), Lit ''}''])]))"

definition FILE_EXT_RE :: rx where
  "FILE_EXT_RE = Seqs [Lit ''.'', Cls [WordC], UpTo 4 (Cls [WordC]), AtEnd]"

definition extract_required_endpoints :: "string \<Rightarrow> string list" where
  "extract_required_endpoints goal =
     filter (\<lambda>ep. length ep > 3 \<and> \<not> starts ep ''//'' \<and> \<not> re_test False FILE_EXT_RE ep)
       (re_groups False ENDPOINT_RE 1 goal)"

definition added_lines :: "string \<Rightarrow> string" where
  "added_lines diff =
     join [CHR 0x0A] (filter (\<lambda>l. starts l ''+'' \<and> \<not> starts l ''+++'') (splitlines diff))"

definition touches_tests :: "string list \<Rightarrow> bool" where
  "touches_tests modified_files =
     list_ex (\<lambda>f. starts f ''tests/'' \<or> contains f ''test_'') modified_files"

record acceptance =
  ac_passed :: bool
  ac_missing :: "string list"
  ac_found :: "string list"
  ac_required :: "string list"

definition endpoint_missing :: "string list \<Rightarrow> string \<Rightarrow> string \<Rightarrow> string list" where
  "endpoint_missing modified_files added ep =
     (if \<not> contains added ep then [''Required endpoint '' @ [CHR 0x27] @ ep @ [CHR 0x27] @ '' not found in diff'']
      else if \<not> (touches_tests modified_files \<and> contains added ep)
      then [''Required endpoint '' @ [CHR 0x27] @ ep @ [CHR 0x27] @ '' has no dedicated test coverage in diff'']
      else [])"

definition endpoint_found :: "string list \<Rightarrow> string \<Rightarrow> string \<Rightarrow> string list" where
  "endpoint_found modified_files added ep =
     (if \<not> contains added ep then []
      else (''Endpoint '' @ [CHR 0x27] @ ep @ [CHR 0x27] @ '' present in diff'') #
        (if touches_tests modified_files
         then [''Endpoint '' @ [CHR 0x27] @ ep @ [CHR 0x27] @ '' covered by test in diff''] else []))"

definition check_acceptance_evidence :: "string \<Rightarrow> string \<Rightarrow> string list \<Rightarrow> acceptance" where
  "check_acceptance_evidence goal diff modified_files =
     (let required = extract_required_endpoints goal; added = added_lines diff
      in if strip diff = [] then
           \<lparr>ac_passed = True, ac_missing = [], ac_found = [], ac_required = required\<rparr>
         else
           let missing = (case stub_reason added of None \<Rightarrow> [] | Some r \<Rightarrow> [r]) @
                 concat (map (endpoint_missing modified_files added) required)
           in \<lparr>ac_passed = (missing = []), ac_missing = missing,
               ac_found = concat (map (endpoint_found modified_files added) required),
               ac_required = required\<rparr>)"

section \<open>What the gates promise\<close>







lemma scan_ok_iff: "sy_ok (commit_scan files scopes) \<longleftrightarrow> (\<forall>p \<in> set files. file_reasons (strip p) = [])"
  by (auto simp: commit_scan_def blocked_files_def filter_empty_conv)









text \<open>One file more than the number the documentation only warns about stops the delivery.\<close>

lemma many_files_are_refused:
  "\<not> dp_ok (validate_diff_scope [''src/a.py'', ''src/b.py''] (Some [''src'']) [] 1)"
  by code_simp

text \<open>What the lists let through: a copy of the environment file, the metadata of another package
  (the star of the prefix is taken literally), and a path that climbs out of its scope.\<close>

lemma env_copy_passes: "file_reasons ''.env.backup'' = [] \<and> file_reasons ''prod.env'' = []"
  by code_simp

lemma egg_info_passes: "file_reasons ''other.egg-info/PKG-INFO'' = []"
  by code_simp

lemma scope_climbs_out: "dp_ok (validate_diff_scope [''src/../deploy/run.sh''] (Some [''src'']) [] 50)"
  by code_simp

lemma endpoint_missing_Nil: "endpoint_missing files added ep = [] \<longleftrightarrow> contains added ep \<and> touches_tests files"
  by (simp add: endpoint_missing_def)

text \<open>
  A non-empty diff is accepted exactly when no stub pattern is found in its added lines, every endpoint of
  the goal is among them, and, if there is one, some modified file looks like a test.
\<close>

theorem acceptance_decision:
  "ac_passed (check_acceptance_evidence goal diff files) \<longleftrightarrow>
    (if strip diff = [] then True
     else stub_reason (added_lines diff) = None \<and>
       list_all (contains (added_lines diff)) (extract_required_endpoints goal) \<and>
       (extract_required_endpoints goal = [] \<or> touches_tests files))"
proof (cases "strip diff = []")
  case False
  let ?required = "extract_required_endpoints goal" and ?added = "added_lines diff"
  have "ac_passed (check_acceptance_evidence goal diff files) \<longleftrightarrow> stub_reason ?added = None \<and>
      (\<forall>ep \<in> set ?required. endpoint_missing files ?added ep = [])"
    using False by (simp add: check_acceptance_evidence_def Let_def split: option.split)
  with False show ?thesis by (auto simp: endpoint_missing_Nil list_all_iff neq_Nil_conv)
qed (simp add: check_acceptance_evidence_def)

text \<open>A file whose name merely contains the letters counts as a test, whatever it holds, and an
  endpoint is found inside a longer one.\<close>

lemma latest_counts_as_test: "touches_tests [''src/latest_news.py'']"
  by code_simp

lemma longer_endpoint_accepted:
  "ac_passed (check_acceptance_evidence ''add /api/item'' (''+    x = get(/api/items)'') [''src/latest_news.py''])"
  by code_simp

end
