(* ===== verification/EditTools.thy ===== *)
theory EditTools
  imports ToolRuntime PyText
begin

text \<open>
  The file edits of the reasoning loop: \<^verbatim>\<open>agent_loop_insertion_helpers.py\<close>,
  \<^verbatim>\<open>agent_loop_edit_mixin.py\<close> and the Python check of \<^verbatim>\<open>agent_reasoning_loop.py\<close>. They
  work on the files of the tool runtime, which also writes for \<^verbatim>\<open>write_file\<close>. Python's parser is
  a parameter: it gives the text of a syntax error, or what the guards read off the tree (the routes that
  decorate top-level functions, an assignment of \<^verbatim>\<open>app\<close>, the names of all functions). The hash is
  a parameter. Reading a file in text mode turns every line end into a line feed. Dashes, arrows and dots outside
  Latin-1 in the program's messages are written in ASCII.
\<close>

section \<open>Guards on the text\<close>

definition SOURCE_EXTENSIONS :: "string list" where
  "SOURCE_EXTENSIONS =
     [''.py'', ''.js'', ''.ts'', ''.jsx'', ''.tsx'', ''.html'', ''.css'', ''.scss'', ''.sass'', ''.md'', ''.json'',
      ''.yaml'', ''.yml'', ''.toml'', ''.ini'', ''.cfg'', ''.sh'', ''.go'', ''.rs'', ''.java'', ''.cpp'', ''.c'',
      ''.h'', ''.rb'', ''.php'', ''.swift'', ''.kt'']"

text \<open>\<^verbatim>\<open>os.path.basename\<close> and the extension of \<^verbatim>\<open>os.path.splitext\<close>, whose leading dots do
  not start one.\<close>

definition base_name :: "string \<Rightarrow> string" where
  "base_name p = List.last (split_on (CHR ''/'') p)"

definition split_ext :: "string \<Rightarrow> string" where
  "split_ext p =
     (let stem = dropWhile (\<lambda>c. c = CHR ''.'') (base_name p); ext = takeWhile (\<lambda>c. c \<noteq> CHR ''.'') (rev stem)
      in if CHR ''.'' \<in> set stem then CHR ''.'' # rev ext else [])"

text \<open>A source file of 200 characters or more is not replaced by less than three tenths of it.\<close>

definition destructive_write :: "string \<Rightarrow> string \<Rightarrow> string \<Rightarrow> bool" where
  "destructive_write file_path existing new_content \<longleftrightarrow>
     py_lower (split_ext file_path) \<in> set SOURCE_EXTENSIONS \<and> 200 \<le> length existing \<and>
     \<not> 3 * length existing \<le> 10 * length new_content"

definition insertion_already_near_anchor :: "string list \<Rightarrow> nat \<Rightarrow> string \<Rightarrow> bool \<Rightarrow> bool" where
  "insertion_already_near_anchor file_lines idx insertion after =
     (let wanted = strip insertion; window_size = max 1 (length (splitlines insertion)) + 4;
          window = (if after then take window_size (drop (idx + 1) file_lines)
            else drop (idx - window_size) (take idx file_lines))
      in wanted \<noteq> [] \<and> contains (strip (concat window)) wanted)"

definition inserts_app_route_before_app_init :: "string list \<Rightarrow> nat \<Rightarrow> string \<Rightarrow> bool \<Rightarrow> bool" where
  "inserts_app_route_before_app_init file_lines idx insertion after \<longleftrightarrow>
     contains insertion ''@app.'' \<and>
     \<not> contains (concat (take (if after then idx + 1 else idx) file_lines)) ''app = FastAPI''"

definition inserts_app_route_after_block_header :: "string \<Rightarrow> string \<Rightarrow> bool" where
  "inserts_app_route_after_block_header anchor_line insertion \<longleftrightarrow>
     contains insertion ''@app.'' \<and> ends_with (strip anchor_line) '':'' \<and> \<not> starts (strip anchor_line) ''@''"

definition inserts_app_route_after_decorator_line :: "string \<Rightarrow> string \<Rightarrow> bool" where
  "inserts_app_route_after_decorator_line anchor_line insertion \<longleftrightarrow>
     contains insertion ''@app.'' \<and> starts (strip anchor_line) ''@''"

definition blank_line :: "string \<Rightarrow> bool" where
  "blank_line l \<longleftrightarrow> strip l = []"

definition lstrip_spaces :: "string \<Rightarrow> string" where
  "lstrip_spaces l = dropWhile (\<lambda>c. c = CHR '' '') l"

definition reindent :: "string \<Rightarrow> nat \<Rightarrow> bool \<Rightarrow> string \<Rightarrow> string" where
  "reindent indent body_base first l =
     (if blank_line l then l
      else indent @ (if first then lstrip_spaces l
        else if body_base \<le> length l then drop body_base l else lstrip_spaces l))"

definition normalize_app_route_insertion_indent :: "string \<Rightarrow> string \<Rightarrow> string" where
  "normalize_app_route_insertion_indent anchor_line insertion =
     (if \<not> contains insertion ''@app.'' \<or> \<not> contains anchor_line ''app = FastAPI('' then insertion
      else
        let indent = take (length anchor_line - length (lstrip anchor_line)) anchor_line;
            lines = splitlines insertion;
            leading_blank = (lines \<noteq> [] \<and> blank_line (hd lines));
            content = (if leading_blank then tl lines else lines);
            (blanks, rest) = (takeWhile blank_line content, dropWhile blank_line content)
        in if indent = [] \<or> rest = [] then insertion
           else
             let body = filter (\<lambda>l. \<not> blank_line l) (tl rest);
                 widths = map (\<lambda>l. length l - length (lstrip_spaces l)) body;
                 base = (if widths = [] then 0 else Min (set widths));
                 normalized = blanks @ reindent indent base True (hd rest) # map (reindent indent base False) (tl rest)
             in join [CHR 0x0A] ((if leading_blank then [[]] else []) @ normalized) @
                (if ends_with insertion [CHR 0x0A] then [CHR 0x0A] else []))"

definition APP_ROUTE_RE :: rx where
  "APP_ROUTE_RE =
     (let quote = Cls [Ch (CHR 0x27), Ch (CHR 0x22)]
      in Seqs [Lit ''@app.'', Grp 1 (Plus (Cls [WordC])), Lit ''('', Star (Cls [SpaceC]), quote,
           Grp 2 (Plus (NCls [Ch (CHR 0x27), Ch (CHR 0x22)])), quote])"

definition app_routes_in_content :: "string \<Rightarrow> (string \<times> string) list" where
  "app_routes_in_content content =
     map (\<lambda>(skip, m, c). (dget_or c 1 [], dget_or c 2 [])) (matches_from False APP_ROUTE_RE [] content)"

definition app_route_already_exists :: "string list \<Rightarrow> string \<Rightarrow> bool" where
  "app_route_already_exists other_lines insertion \<longleftrightarrow>
     list_ex (\<lambda>r. r \<in> set (app_routes_in_content (concat other_lines))) (app_routes_in_content insertion)"

definition duplicate_app_route_error :: "string \<Rightarrow> string" where
  "duplicate_app_route_error action_type =
     action_type @ '': FastAPI route already present; do not retry this edit. Proceed to tests/report or use '' @
     ''replace_range only if the existing route body needs a targeted update.''"

definition MODULE_BODY_MARKERS :: "string list" where
  "MODULE_BODY_MARKERS = map (\<lambda>m. CHR 0x0A # m)
     [''def '', ''async def '', ''class '', ''@pytest.fixture'', ''app = '', ''client = '']"

definition looks_like_complete_python_module :: "string \<Rightarrow> bool" where
  "looks_like_complete_python_module content \<longleftrightarrow>
     (let stripped = lstrip content
      in (starts stripped ''import '' \<or> starts stripped ''from '') \<and>
         any_in MODULE_BODY_MARKERS (CHR 0x0A # stripped))"

section \<open>Python's parser\<close>

record module_info =
  mo_app_assigned :: bool
  mo_app_routes :: "(string \<times> string) list"
  mo_functions :: "string list"

type_synonym py_parser = "string \<Rightarrow> string + module_info"

definition is_server_file :: "string \<Rightarrow> bool" where
  "is_server_file path \<longleftrightarrow> base_name path = ''server.py'' \<or> ends_with path ''web/server.py''"

datatype edit_error =
    AstInvalid string string | ServerRoute string string string | SymbolsRemoved string "string list"
  | DestructiveWrite string nat nat | SecretInsertion | OsProblem | EditMessage string | ToolFailed tool_error
  | VerificationFailed | EditRaised

definition validate_python_ast :: "py_parser \<Rightarrow> string \<Rightarrow> string \<Rightarrow> edit_error option" where
  "validate_python_ast parse path content =
     (if \<not> ends_with path ''.py'' then None
      else case parse content of
        Inl e \<Rightarrow> Some (AstInvalid path e)
      | Inr m \<Rightarrow>
          if is_server_file path \<and> \<not> mo_app_assigned m
          then (case mo_app_routes m of [] \<Rightarrow> None | (attr, name) # _ \<Rightarrow> Some (ServerRoute path attr name))
          else None)"

definition in_quotes :: "string \<Rightarrow> string" where
  "in_quotes s = [CHR 0x27] @ s @ [CHR 0x27]"

section \<open>Files\<close>

text \<open>\<^verbatim>\<open>os.path.join\<close>: an absolute second path replaces the first.\<close>

definition os_join :: "string \<Rightarrow> string \<Rightarrow> string" where
  "os_join dir p =
     (if starts p ''/'' then p else if dir = [] \<or> ends_with dir ''/'' then dir @ p else dir @ ''/'' @ p)"

fun universal_newlines :: "string \<Rightarrow> string" where
  "universal_newlines [] = []"
| "universal_newlines (c # s) =
     (if c = CHR 0x0D then
        CHR 0x0A # (case s of [] \<Rightarrow> [] | d # s' \<Rightarrow> if d = CHR 0x0A then universal_newlines s' else universal_newlines s)
      else c # universal_newlines s)"

fun lines_acc :: "string \<Rightarrow> string \<Rightarrow> string list" where
  "lines_acc w [] = (if w = [] then [] else [rev w])"
| "lines_acc w (c # s) = (if c = CHR 0x0A then rev (c # w) # lines_acc [] s else lines_acc (c # w) s)"

text \<open>\<^verbatim>\<open>readlines\<close> keeps the line ends.\<close>

definition file_lines_of :: "string \<Rightarrow> string list" where
  "file_lines_of s = lines_acc [] (universal_newlines s)"

definition read_text_file :: "tool_runtime \<Rightarrow> string \<Rightarrow> string option" where
  "read_text_file t full_path = map_option universal_newlines (dget (ws_files (tl_space t)) (path_str full_path))"

record edit_result =
  ex_success :: bool
  ex_summary :: string
  ex_error :: "edit_error option"
  ex_result_data :: "pyval option"

definition edit_failed :: "edit_error \<Rightarrow> edit_result" where
  "edit_failed e = \<lparr>ex_success = False, ex_summary = [], ex_error = Some e, ex_result_data = None\<rparr>"

definition edit_blocked :: "edit_error \<Rightarrow> string \<Rightarrow> edit_result" where
  "edit_blocked e s = \<lparr>ex_success = False, ex_summary = s, ex_error = Some e, ex_result_data = None\<rparr>"

definition edit_done :: "string \<Rightarrow> pyval option \<Rightarrow> edit_result" where
  "edit_done s d = \<lparr>ex_success = True, ex_summary = s, ex_error = None, ex_result_data = d\<rparr>"

text \<open>What an edit draws and asks: the names of a backup, the time, the parser, the hash.\<close>

record edit_env =
  ed_os :: tool_os
  ed_root :: string
  ed_hex_name :: string
  ed_hex_id :: string
  ed_gmt :: string
  ed_parse :: py_parser
  ed_sha :: "string \<Rightarrow> string"

definition commit_safe_edit ::
    "edit_env \<Rightarrow> tool_runtime \<Rightarrow> string \<Rightarrow> string \<Rightarrow> string \<Rightarrow> tool_runtime \<times> edit_error option" where
  "commit_safe_edit ev t full_path merged insertion =
     (if detect_secret_like_content insertion then (t, Some SecretInsertion)
      else
        let space = fst (backup_file (ed_root ev) (ed_hex_name ev) (ed_hex_id ev) (ed_gmt ev) (tl_space t)
              (path_str full_path) [] [] [] [])
        in if tv_write_ok (ed_os ev) (path_str full_path) then
             (t\<lparr>tl_space := space\<lparr>ws_files := dset (ws_files space) (path_str full_path) merged\<rparr>\<rparr>, None)
           else (t\<lparr>tl_space := space\<lparr>ws_files := failed_write (ed_os ev) (path_str full_path) merged (ws_files space)\<rparr>\<rparr>,
                 Some OsProblem))"

definition ends_line :: "string \<Rightarrow> string" where
  "ends_line s = (if ends_with s [CHR 0x0A] then s else s @ [CHR 0x0A])"

text \<open>The common end of an edit: the Python check, nothing to do for the same text, the write.\<close>

definition finish_edit ::
    "edit_env \<Rightarrow> tool_runtime \<Rightarrow> string list \<Rightarrow> string \<Rightarrow> string \<Rightarrow> string \<Rightarrow> string \<Rightarrow> string \<Rightarrow> string \<Rightarrow> pyval \<Rightarrow>
     tool_runtime \<times> string list \<times> edit_result"
where
  "finish_edit ev t modified action file_path before merged insertion summary data =
     (case validate_python_ast (ed_parse ev) file_path merged of
        Some e \<Rightarrow> (t, modified, edit_failed e)
      | None \<Rightarrow>
          if ed_sha ev before = ed_sha ev merged then
            (t, modified, edit_done (action @ '': no change'') None)
          else case commit_safe_edit ev t (os_join (ed_root ev) file_path) merged insertion of
                 (t', Some e) \<Rightarrow> (t', modified, edit_failed e)
               | (t', None) \<Rightarrow> (t', modified @ [file_path], edit_done summary (Some data)))"

definition first_line_with :: "string \<Rightarrow> string list \<Rightarrow> nat option" where
  "first_line_with anchor ls = map_option fst (find_first (\<lambda>(i, l). contains l anchor) (enumerate 0 ls))"

definition find_anchor :: "string list \<Rightarrow> string \<Rightarrow> nat option" where
  "find_anchor ls anchor =
     (case first_line_with anchor ls of
        Some i \<Rightarrow> Some i
      | None \<Rightarrow> if strip anchor = ''app = FastAPI()'' then first_line_with ''app = FastAPI('' ls else None)"

type_synonym params = "(string, pyval) dict"

definition insert_after_lines ::
    "edit_env \<Rightarrow> tool_runtime \<Rightarrow> string list \<Rightarrow> string \<Rightarrow> string \<Rightarrow> string \<Rightarrow> string list \<Rightarrow>
     tool_runtime \<times> string list \<times> edit_result"
where
  "insert_after_lines ev t modified file_path anchor new_content ls =
     (case find_anchor ls anchor of
        None \<Rightarrow> (t, modified, edit_failed (EditMessage (''insert_after: anchor not found: '' @ py_repr anchor)))
      | Some idx \<Rightarrow>
          let line = ls ! idx;
              insertion = normalize_app_route_insertion_indent line (ends_line new_content)
          in if inserts_app_route_after_block_header line insertion then
               (t, modified, edit_failed (EditMessage
                 (''insert_after: refusing to insert @app route immediately after a Python block header; use an '' @
                  ''anchor after app = FastAPI(...) or after the complete previous route/block; route would be '' @
                  ''before app = FastAPI initialization'')))
             else if inserts_app_route_after_decorator_line line insertion then
               (t, modified, edit_failed (EditMessage
                 (''insert_after: refusing to insert @app route immediately after a decorator line; use an '' @
                  ''anchor after the complete decorated function block or after app = FastAPI(...)'')))
             else if app_route_already_exists ls insertion then
               (t, modified, edit_failed (EditMessage (duplicate_app_route_error ''insert_after'')))
             else if inserts_app_route_before_app_init ls idx insertion True then
               (t, modified, edit_failed (EditMessage
                 ''insert_after: refusing to insert @app route before app = FastAPI initialization''))
             else if insertion_already_near_anchor ls idx insertion True then
               (t, modified, edit_done ''insert_after: no change; content already present near anchor'' None)
             else finish_edit ev t modified ''insert_after'' file_path (concat ls)
               (concat (take (idx + 1) ls @ [insertion] @ drop (idx + 1) ls)) insertion
               (''Inserted '' @ nat_str (length insertion) @ '' chars after line '' @ nat_str (idx + 1) @ '' in '' @ file_path)
               (PDict [(''path'', PStr file_path), (''after_line'', PInt (int (idx + 1)))]))"

definition insert_before_lines ::
    "edit_env \<Rightarrow> tool_runtime \<Rightarrow> string list \<Rightarrow> string \<Rightarrow> string \<Rightarrow> string \<Rightarrow> string list \<Rightarrow>
     tool_runtime \<times> string list \<times> edit_result"
where
  "insert_before_lines ev t modified file_path anchor new_content ls =
     (case first_line_with anchor ls of
        None \<Rightarrow> (t, modified, edit_failed (EditMessage (''insert_before: anchor not found: '' @ py_repr anchor)))
      | Some idx \<Rightarrow>
          let insertion = ends_line new_content
          in if app_route_already_exists ls insertion then
               (t, modified, edit_failed (EditMessage (duplicate_app_route_error ''insert_before'')))
             else if inserts_app_route_before_app_init ls idx insertion False then
               (t, modified, edit_failed (EditMessage
                 ''insert_before: refusing to insert @app route before app = FastAPI initialization''))
             else if insertion_already_near_anchor ls idx insertion False then
               (t, modified, edit_done ''insert_before: no change; content already present near anchor'' None)
             else finish_edit ev t modified ''insert_before'' file_path (concat ls)
               (concat (take idx ls @ [insertion] @ drop idx ls)) insertion
               (''Inserted '' @ nat_str (length insertion) @ '' chars before line '' @ nat_str (idx + 1) @ '' in '' @ file_path)
               (PDict [(''path'', PStr file_path), (''before_line'', PInt (int (idx + 1)))]))"

definition replace_lines ::
    "edit_env \<Rightarrow> tool_runtime \<Rightarrow> string list \<Rightarrow> string \<Rightarrow> int \<Rightarrow> int \<Rightarrow> string \<Rightarrow> string list \<Rightarrow>
     tool_runtime \<times> string list \<times> edit_result"
where
  "replace_lines ev t modified file_path s e new_content ls =
     (if int (length ls) < e then
        (t, modified, edit_failed (EditMessage
          (''replace_range: end '' @ int_str e @ '' > file length '' @ nat_str (length ls))))
      else
        let replacement = ends_line new_content;
            before = take (nat (s - 1)) ls; behind = drop (nat e) ls;
            data = [(''path'', PStr file_path), (''start'', PInt s), (''end'', PInt e)]
        in if app_route_already_exists (before @ behind) replacement then
             (t, modified, edit_done ''replace_range: FastAPI route already present; no change''
               (Some (PDict (data @ [(''noop'', PBool True)]))))
           else finish_edit ev t modified ''replace_range'' file_path (concat ls)
             (concat (before @ [replacement] @ behind)) replacement
             (''Replaced lines '' @ int_str s @ ''-'' @ int_str e @ '' in '' @ file_path @ '' with '' @
               nat_str (length replacement) @ '' chars'') (PDict data))"

text \<open>The handlers read their parameters from the action. A missing text is the empty one; a value that
  is no text raises where the code first needs one, and every exception ends as a failure.\<close>

definition edit_raised :: "tool_runtime \<Rightarrow> string list \<Rightarrow> tool_runtime \<times> string list \<times> edit_result" where
  "edit_raised t modified = (t, modified, edit_failed EditRaised)"

definition missing_text :: "pyval \<Rightarrow> bool" where
  "missing_text v \<longleftrightarrow> v = PNone"

definition with_file ::
    "edit_env \<Rightarrow> tool_runtime \<Rightarrow> string list \<Rightarrow> string \<Rightarrow> pyval \<Rightarrow>
     (string \<Rightarrow> string list \<Rightarrow> tool_runtime \<times> string list \<times> edit_result) \<Rightarrow>
     tool_runtime \<times> string list \<times> edit_result"
where
  "with_file ev t modified action path k =
     (case path of
        PStr file_path \<Rightarrow>
          (case read_text_file t (os_join (ed_root ev) file_path) of
             None \<Rightarrow> (t, modified, edit_failed (EditMessage (action @ '': file not found: '' @ file_path)))
           | Some content \<Rightarrow> k file_path (lines_acc [] content))
      | _ \<Rightarrow> edit_raised t modified)"

definition execute_insert_after ::
    "edit_env \<Rightarrow> tool_runtime \<Rightarrow> string list \<Rightarrow> params \<Rightarrow> tool_runtime \<times> string list \<times> edit_result" where
  "execute_insert_after ev t modified ps =
     (let path = dget_or ps ''path'' (PStr []); anchor = dget_or ps ''anchor'' (PStr []);
          content = dget_or ps ''content'' (PStr [])
      in if \<not> truthy path \<or> missing_text anchor \<or> missing_text content then
           (t, modified, edit_failed (EditMessage ''insert_after: missing path/anchor/content''))
         else with_file ev t modified ''insert_after'' path (\<lambda>file_path ls.
           case (anchor, content) of
             (PStr a, PStr c) \<Rightarrow> insert_after_lines ev t modified file_path a c ls
           | (PStr a, _) \<Rightarrow>
               (case find_anchor ls a of
                  None \<Rightarrow> (t, modified, edit_failed (EditMessage (''insert_after: anchor not found: '' @ py_repr a)))
                | Some _ \<Rightarrow> edit_raised t modified)
           | _ \<Rightarrow> edit_raised t modified))"

definition execute_insert_before ::
    "edit_env \<Rightarrow> tool_runtime \<Rightarrow> string list \<Rightarrow> params \<Rightarrow> tool_runtime \<times> string list \<times> edit_result" where
  "execute_insert_before ev t modified ps =
     (let path = dget_or ps ''path'' (PStr []); anchor = dget_or ps ''anchor'' (PStr []);
          content = dget_or ps ''content'' (PStr [])
      in if \<not> truthy path \<or> missing_text anchor \<or> missing_text content then
           (t, modified, edit_failed (EditMessage ''insert_before: missing path/anchor/content''))
         else with_file ev t modified ''insert_before'' path (\<lambda>file_path ls.
           case (anchor, content) of
             (PStr a, PStr c) \<Rightarrow> insert_before_lines ev t modified file_path a c ls
           | (PStr a, _) \<Rightarrow>
               (case first_line_with a ls of
                  None \<Rightarrow> (t, modified, edit_failed (EditMessage (''insert_before: anchor not found: '' @ py_repr a)))
                | Some _ \<Rightarrow> edit_raised t modified)
           | _ \<Rightarrow> if ls = [] then (t, modified, edit_failed (EditMessage ''insert_before: anchor not found''))
               else edit_raised t modified))"

text \<open>\<^verbatim>\<open>int(v)\<close> of a value; a text is trimmed and may have a sign.\<close>

definition is_digit :: "char \<Rightarrow> bool" where
  "is_digit c \<longleftrightarrow> 48 \<le> (ord_of c :: nat) \<and> (ord_of c :: nat) \<le> 57"

fun digits_ok :: "bool \<Rightarrow> string \<Rightarrow> bool" where
  "digits_ok after_digit [] = after_digit"
| "digits_ok after_digit (c # s) =
     (if is_digit c then digits_ok True s else c = CHR ''_'' \<and> after_digit \<and> digits_ok False s)"

definition int_of_text :: "string \<Rightarrow> int option" where
  "int_of_text s =
     (let t = strip s; neg = starts t ''-''; body = (if neg \<or> starts t ''+'' then drop 1 t else t)
      in if digits_ok False body
         then Some ((if neg then - 1 else 1) * int (num_of (filter (\<lambda>c. c \<noteq> CHR ''_'') body)))
         else None)"

definition py_int :: "pyval \<Rightarrow> int option" where
  "py_int v = (case v of
       PInt i \<Rightarrow> Some i | PBool b \<Rightarrow> Some (if b then 1 else 0)
     | PFloat r \<Rightarrow> Some (if 0 \<le> r then \<lfloor>r\<rfloor> else \<lceil>r\<rceil>)
     | PStr s \<Rightarrow> int_of_text s | _ \<Rightarrow> None)"

definition execute_replace_range ::
    "edit_env \<Rightarrow> tool_runtime \<Rightarrow> string list \<Rightarrow> params \<Rightarrow> tool_runtime \<times> string list \<times> edit_result" where
  "execute_replace_range ev t modified ps =
     (let path = dget_or ps ''path'' (PStr []); first = dget_or ps ''start'' PNone;
          final = dget_or ps ''end'' PNone; content = dget_or ps ''content'' (PStr [])
      in if \<not> truthy path \<or> first = PNone \<or> final = PNone \<or> missing_text content then
           (t, modified, edit_failed (EditMessage ''replace_range: missing path/start/end/content''))
         else case (py_int first, py_int final) of
           (Some s, Some e) \<Rightarrow>
             if s < 1 \<or> e < s then
               (t, modified, edit_failed (EditMessage (''replace_range: invalid range '' @ int_str s @ ''..'' @ int_str e)))
             else with_file ev t modified ''replace_range'' path (\<lambda>file_path ls.
               case content of
                 PStr c \<Rightarrow> replace_lines ev t modified file_path s e c ls
               | _ \<Rightarrow> if int (length ls) < e
                   then (t, modified, edit_failed (EditMessage
                     (''replace_range: end '' @ int_str e @ '' > file length '' @ nat_str (length ls))))
                   else edit_raised t modified)
         | _ \<Rightarrow> (t, modified, edit_failed (EditMessage ''replace_range: start/end must be integers'')))"

definition execute_append_file ::
    "edit_env \<Rightarrow> tool_runtime \<Rightarrow> string list \<Rightarrow> params \<Rightarrow> tool_runtime \<times> string list \<times> edit_result" where
  "execute_append_file ev t modified ps =
     (let path = dget_or ps ''path'' (PStr []); content = dget_or ps ''content'' (PStr [])
      in if \<not> truthy path \<or> missing_text content then
           (t, modified, edit_failed (EditMessage ''append_file: missing path/content''))
         else case path of
           PStr file_path \<Rightarrow>
             let existing = (case read_text_file t (os_join (ed_root ev) file_path) of None \<Rightarrow> [] | Some x \<Rightarrow> x)
             in (case content of
                   PStr c \<Rightarrow>
                     if ends_with file_path ''.py'' \<and> strip existing \<noteq> [] \<and> looks_like_complete_python_module c then
                       (t, modified, edit_failed (EditMessage
                         (''append_file: refusing to append complete Python module content to existing file: '' @
                          file_path @ ''; use write_file for new files or replace_range/insert_after/'' @
                          ''insert_before for existing files'')))
                     else finish_edit ev t modified ''append_file'' file_path existing
                       (existing @ (if existing = [] \<or> ends_with existing [CHR 0x0A] then [] else [CHR 0x0A]) @ c) c
                       (''Appended '' @ nat_str (length c) @ '' chars to '' @ file_path)
                       (PDict [(''path'', PStr file_path), (''appended_chars'', PInt (int (length c)))])
                 | _ \<Rightarrow> edit_raised t modified)
         | _ \<Rightarrow> edit_raised t modified)"

section \<open>Writing a whole file\<close>

text \<open>The functions the server module must keep, among those it has now.\<close>

definition CRITICAL_SYMBOLS :: "string list" where
  "CRITICAL_SYMBOLS = [''create_app'', ''run_app'']"

definition removed_symbols :: "py_parser \<Rightarrow> string \<Rightarrow> string \<Rightarrow> string \<Rightarrow> string list" where
  "removed_symbols parse file_path existing content =
     (if is_server_file file_path \<and> ends_with file_path ''.py'' then
        (case (parse existing, parse content) of
           (Inr old, Inr new) \<Rightarrow>
             filter (\<lambda>s. s \<in> set (mo_functions old) \<and> s \<notin> set (mo_functions new)) CRITICAL_SYMBOLS
         | _ \<Rightarrow> [])
      else [])"

definition write_data :: "string \<Rightarrow> string \<Rightarrow> string \<Rightarrow> pyval" where
  "write_data file_path content hash =
     PDict [(''path'', PStr file_path), (''chars'', PInt (int (length content))), (''hash'', PStr (take 12 hash))]"

definition write_file_text ::
    "edit_env \<Rightarrow> tool_runtime \<Rightarrow> string list \<Rightarrow> string \<Rightarrow> string \<Rightarrow> tool_runtime \<times> string list \<times> edit_result"
where
  "write_file_text ev t modified file_path content =
     (let full_path = os_join (ed_root ev) file_path; existing = read_text_file t full_path;
          before = map_option (ed_sha ev) existing; new_hash = ed_sha ev content;
          removed = (case existing of None \<Rightarrow> [] | Some x \<Rightarrow> removed_symbols (ed_parse ev) file_path x content)
      in if before = Some new_hash then
           (t, modified @ [file_path],
            edit_done (''write_file: '' @ in_quotes file_path @ '' already has this content (idempotent)'') (Some (write_data file_path content new_hash)))
         else if (case existing of None \<Rightarrow> False | Some x \<Rightarrow> destructive_write file_path x content) then
           (t, modified, edit_blocked (DestructiveWrite file_path (length (the existing)) (length content)) (''Blocked: destructive write on '' @ in_quotes file_path))
         else if removed \<noteq> [] then
           (t, modified, edit_blocked (SymbolsRemoved file_path removed) (''Blocked: symbol removal in '' @ in_quotes file_path))
         else case validate_python_ast (ed_parse ev) file_path content of
           Some e \<Rightarrow> (t, modified, edit_blocked e (''Blocked: invalid Python in '' @ in_quotes file_path))
         | None \<Rightarrow>
             (case fs_write (ed_os ev) t full_path content True (ed_hex_name ev) (ed_hex_id ev) (ed_gmt ev) [] [] of
                (t', tr) \<Rightarrow>
                  if \<not> tx_success tr then
                    (t', modified, edit_blocked (ToolFailed (tx_error tr)) ''write_file failed'')
                  else case dget (ws_files (tl_space t')) (path_str full_path) of
                    None \<Rightarrow> (t', modified, edit_failed OsProblem)
                  | Some written \<Rightarrow>
                      if ed_sha ev written \<noteq> new_hash then (t', modified, edit_failed VerificationFailed)
                      else (t', modified @ [file_path],
                        edit_done (''Written '' @ nat_str (length content) @ '' chars to '' @ file_path @ '' (hash: '' @
                            take 8 (str_or before ''new'') @ ''->'' @ take 8 (ed_sha ev written) @ '')'')
                          (Some (write_data file_path content (ed_sha ev written))))))"

definition execute_write_file ::
    "edit_env \<Rightarrow> tool_runtime \<Rightarrow> string list \<Rightarrow> params \<Rightarrow> tool_runtime \<times> string list \<times> edit_result" where
  "execute_write_file ev t modified ps =
     (let path = dget_or ps ''path'' (PStr []); content = dget_or ps ''content'' (PStr [])
      in if \<not> truthy path then (t, modified, edit_failed (EditMessage (''write_file: missing '' @ in_quotes ''path'' @ '' parameter'')))
         else if missing_text content then
           (t, modified, edit_failed (EditMessage (''write_file: missing '' @ in_quotes ''content'' @ '' parameter'')))
         else case (path, content) of
           (PStr file_path, PStr c) \<Rightarrow> write_file_text ev t modified file_path c
         | _ \<Rightarrow> edit_raised t modified)"

definition execute_apply_patch ::
    "edit_env \<Rightarrow> tool_runtime \<Rightarrow> string list \<Rightarrow> params \<Rightarrow> tool_runtime \<times> string list \<times> edit_result" where
  "execute_apply_patch ev t modified ps =
     (let path = dget_or ps ''path'' (PStr []); content = dget_or ps ''content'' (PStr [])
      in if \<not> truthy path \<or> \<not> truthy content then
           (t, modified, edit_failed (EditMessage
              (''apply_patch: missing '' @ in_quotes ''path'' @ '' or '' @ in_quotes ''content'')))
         else execute_write_file ev t modified [(''path'', path), (''content'', content)])"

section \<open>The text of an error\<close>

text \<open>What the program prints itself; what the system says of a failure and the advice after the sizes of a
  destructive write are left out.\<close>

fun error_text :: "edit_error \<Rightarrow> string" where
  "error_text (AstInvalid p e) = ''Python AST validation failed for '' @ in_quotes p @ '': '' @ e"
| "error_text (ServerRoute p attr name) =
     ''Server route guard: '' @ in_quotes p @ '' defines top-level @app.'' @ attr @ '' route '' @ in_quotes name @
     ''. Routes must be registered inside create_app() where app is defined.''"
| "error_text (SymbolsRemoved p names) =
     ''Symbol guard: writing '' @ in_quotes p @ '' would remove critical symbols: '' @ list_repr names @
     ''. Provide a complete file that preserves these functions.''"
| "error_text (DestructiveWrite p old new) =
     ''Destructive write guard: '' @ in_quotes p @ '' has '' @ nat_str old @ '' chars but new content is only '' @
     nat_str new @ '' chars''"
| "error_text SecretInsertion = ''Safe edit blocked: insertion contains secret-like patterns''"
| "error_text (EditMessage s) = s"
| "error_text (ToolFailed (Message s)) = s"
| "error_text VerificationFailed = ''write_file: verification failed - hash mismatch after write''"
| "error_text _ = []"

section \<open>The branches of the dispatch that edit\<close>

definition edit_handler ::
    "string \<Rightarrow> (edit_env \<Rightarrow> tool_runtime \<Rightarrow> string list \<Rightarrow> params \<Rightarrow> tool_runtime \<times> string list \<times> edit_result) option"
where
  "edit_handler action_type =
     (if action_type = ''write_file'' then Some execute_write_file
      else if action_type = ''insert_after'' then Some execute_insert_after
      else if action_type = ''insert_before'' then Some execute_insert_before
      else if action_type = ''replace_range'' then Some execute_replace_range
      else if action_type = ''append_file'' then Some execute_append_file
      else if action_type = ''apply_patch'' then Some execute_apply_patch else None)"

end
