(* ===== verification/MicroStep.thy ===== *)
theory MicroStep
  imports PyText
begin

text \<open>
  \<^verbatim>\<open>micro_step_planner.py\<close>: the guide the reasoning loop consults. It follows the actions through
  the steps discover, read, plan, modify, test, verify, finish, and asks for a redirect when a discovery is
  repeated although target files are known.
\<close>

datatype micro_step = DISCOVER | READ | PLAN | MODIFY | TEST | VERIFY | FINISH

fun step_value :: "micro_step \<Rightarrow> string" where
  "step_value DISCOVER = ''discover''" | "step_value READ = ''read''" | "step_value PLAN = ''plan''"
| "step_value MODIFY = ''modify''" | "step_value TEST = ''test''" | "step_value VERIFY = ''verify''"
| "step_value FINISH = ''finish''"

record micro_state =
  mi_current_step :: micro_step
  mi_goal_type :: string
  mi_discovered_files :: "pyval list"
  mi_read_files :: "string list"
  mi_modified_files :: "string list"
  mi_tests_run :: "string list"
  mi_verification_done :: bool
  mi_blocked_reason :: "string option"
  mi_discovery_attempts :: nat
  mi_last_action_family :: string

definition micro_to_dict :: "micro_state \<Rightarrow> (string, pyval) dict" where
  "micro_to_dict s =
     [(''current_step'', PStr (step_value (mi_current_step s))), (''goal_type'', PStr (mi_goal_type s)),
      (''discovered_files'', PList (mi_discovered_files s)),
      (''read_files'', PList (map PStr (mi_read_files s))),
      (''modified_files'', PList (map PStr (mi_modified_files s))),
      (''tests_run'', PList (map PStr (mi_tests_run s))),
      (''verification_done'', PBool (mi_verification_done s)),
      (''blocked_reason'', case mi_blocked_reason s of None \<Rightarrow> PNone | Some r \<Rightarrow> PStr r),
      (''discovery_attempts'', PInt (int (mi_discovery_attempts s))),
      (''last_action_family'', PStr (mi_last_action_family s))]"

text \<open>\<^verbatim>\<open>git_status\<close> is listed under discovery and under verification; the later entry stands.\<close>

definition ACTION_FAMILY_MAP :: "(string, string) dict" where
  "ACTION_FAMILY_MAP =
     dupdate []
       (map (\<lambda>a. (a, ''discovery'')) [''find_files'', ''search_code'', ''list_directory'', ''git_status''] @
        map (\<lambda>a. (a, ''read'')) [''read_file'', ''read_file_range'', ''cat''] @
        map (\<lambda>a. (a, ''plan'')) [''update_plan'', ''record_memory''] @
        map (\<lambda>a. (a, ''modify'')) [''write_file'', ''append_file'', ''insert_after'', ''insert_before'',
          ''replace_range'', ''apply_patch'', ''propose_patch''] @
        map (\<lambda>a. (a, ''test'')) [''run_tests'', ''pytest'', ''run_command''] @
        map (\<lambda>a. (a, ''verify'')) [''git_diff'', ''git_status'', ''http_check''] @
        map (\<lambda>a. (a, ''finish'')) [''final_report'', ''finish'', ''complete'', ''blocked'', ''ask_user''])"

definition action_family :: "string \<Rightarrow> string" where
  "action_family action_type = dget_or ACTION_FAMILY_MAP action_type ''generic''"

definition detect_goal_type :: "string \<Rightarrow> string" where
  "detect_goal_type goal =
     (let text = py_lower goal
      in if any_in [''/api/'', ''endpoint'', ''route'', ''fastapi''] text then ''endpoint_api''
         else if any_in [''fix'', ''bug'', ''failing test'', ''traceback'', ''error''] text then ''bugfix''
         else if any_in [''add test'', ''pytest'', ''coverage''] text then ''add_test''
         else if any_in [''docs'', ''readme'', ''.md'', ''config'', ''.yml'', ''.yaml''] text then ''doc_config''
         else ''generic'')"

definition goal_requires_test :: "string \<Rightarrow> bool" where
  "goal_requires_test goal_type \<longleftrightarrow> goal_type \<noteq> ''doc_config''"

definition micro_initialize :: "string \<Rightarrow> (string, pyval) dict \<Rightarrow> py_error + micro_state" where
  "micro_initialize goal context =
     (case py_iter (py_or (dget_or context ''discovered_files'' (PList [])) (PList [])) of
        Inl e \<Rightarrow> Inl e
      | Inr files \<Rightarrow> Inr
          \<lparr>mi_current_step = DISCOVER, mi_goal_type = detect_goal_type goal, mi_discovered_files = files,
           mi_read_files = [], mi_modified_files = [], mi_tests_run = [], mi_verification_done = False,
           mi_blocked_reason = None, mi_discovery_attempts = 0, mi_last_action_family = []\<rparr>)"

definition add_discovered :: "pyval list \<Rightarrow> pyval list \<Rightarrow> pyval list" where
  "add_discovered known files =
     foldl (\<lambda>ks f. case f of
       PStr s \<Rightarrow> if s \<noteq> [] \<and> \<not> list_ex (py_eq f) ks then ks @ [f] else ks | _ \<Rightarrow> ks) known files"

definition observed_files :: "(string, pyval) dict \<Rightarrow> pyval list" where
  "observed_files obs =
     (case py_or (dget_or obs ''discovered_files'' PNone) (py_or (dget_or obs ''files'' PNone) (PList [])) of
        PList files \<Rightarrow> files | _ \<Rightarrow> [])"

definition add_path :: "string \<Rightarrow> string list \<Rightarrow> string list" where
  "add_path path paths = (if path \<noteq> [] \<and> path \<notin> set paths then paths @ [path] else paths)"

definition update_after_action ::
    "(pyfloat \<Rightarrow> string) \<Rightarrow> micro_state \<Rightarrow> string \<Rightarrow> (string, pyval) dict \<Rightarrow> (string, pyval) dict \<Rightarrow> micro_state"
where
  "update_after_action fr s action_type params obs =
     (let family = action_family action_type;
          success = truthy (dget_or obs ''success'' (PBool False));
          path = str_field fr params ''path'' [];
          s0 = s\<lparr>mi_last_action_family := family\<rparr>
      in if family = ''discovery'' then
           let files = add_discovered (mi_discovered_files s0) (observed_files obs)
           in s0\<lparr>mi_discovery_attempts := mi_discovery_attempts s0 + 1, mi_discovered_files := files,
                 mi_current_step := (if files \<noteq> [] then READ else mi_current_step s0)\<rparr>
         else if family = ''read'' then
           let files = add_path path (mi_read_files s0)
           in s0\<lparr>mi_read_files := files,
                 mi_current_step := (if files = [] then mi_current_step s0
                   else if mi_goal_type s0 = ''generic'' then PLAN else MODIFY)\<rparr>
         else if family = ''plan'' then s0\<lparr>mi_current_step := MODIFY\<rparr>
         else if family = ''modify'' then
           let files = add_path path (mi_modified_files s0)
           in s0\<lparr>mi_modified_files := files,
                 mi_current_step := (if files = [] then mi_current_step s0
                   else if goal_requires_test (mi_goal_type s0) then TEST else VERIFY)\<rparr>
         else if family = ''test'' then
           s0\<lparr>mi_tests_run := mi_tests_run s0 @ [if action_type = [] then ''run_tests'' else action_type],
              mi_current_step := VERIFY\<rparr>
         else if family = ''verify'' then
           (if action_type \<in> {''git_diff'', ''git_status'', ''run_tests'', ''http_check''} \<and> success
            then s0\<lparr>mi_verification_done := True, mi_current_step := FINISH\<rparr> else s0)
         else if family = ''finish'' then
           s0\<lparr>mi_current_step := FINISH,
              mi_blocked_reason := (if action_type = ''blocked''
                then Some (str_field fr params ''reason'' ''blocked'') else mi_blocked_reason s0)\<rparr>
         else s0)"

record directive =
  di_expected_step :: micro_step
  di_allowed :: "string list"
  di_discouraged :: "string list"
  di_instruction :: string

fun next_directive :: "micro_step \<Rightarrow> directive" where
  "next_directive DISCOVER =
     \<lparr>di_expected_step = DISCOVER, di_allowed = [''discovery'', ''read''],
      di_discouraged = [''modify'', ''test'', ''finish''],
      di_instruction = ''Discover target files, then read the most relevant one.''\<rparr>"
| "next_directive READ =
     \<lparr>di_expected_step = READ, di_allowed = [''read'', ''discovery''], di_discouraged = [''test'', ''finish''],
      di_instruction = ''Read discovered targets. Do not repeat discovery if targets already exist.''\<rparr>"
| "next_directive PLAN =
     \<lparr>di_expected_step = PLAN, di_allowed = [''plan'', ''modify'', ''read''],
      di_discouraged = [''discovery'', ''finish''],
      di_instruction = ''Create a concise plan for edits, then move to modify.''\<rparr>"
| "next_directive MODIFY =
     \<lparr>di_expected_step = MODIFY, di_allowed = [''modify'', ''read''], di_discouraged = [''discovery'', ''finish''],
      di_instruction = ''Apply the smallest safe edits aligned to acceptance criteria.''\<rparr>"
| "next_directive TEST =
     \<lparr>di_expected_step = TEST, di_allowed = [''test'', ''verify'', ''modify''],
      di_discouraged = [''discovery'', ''finish''],
      di_instruction = ''Run tests relevant to modified files before verification.''\<rparr>"
| "next_directive VERIFY =
     \<lparr>di_expected_step = VERIFY, di_allowed = [''verify'', ''test'', ''finish''], di_discouraged = [''discovery''],
      di_instruction = ''Verify diff/status and readiness for completion.''\<rparr>"
| "next_directive FINISH =
     \<lparr>di_expected_step = FINISH, di_allowed = [''finish'', ''verify''], di_discouraged = [''discovery'', ''modify''],
      di_instruction = ''Finish with summary once verification is complete.''\<rparr>"

definition allow_rediscovery :: "(pyfloat \<Rightarrow> string) \<Rightarrow> micro_state \<Rightarrow> pyval \<Rightarrow> (string, pyval) dict \<Rightarrow> bool" where
  "allow_rediscovery fr s reason params \<longleftrightarrow>
     mi_discovered_files s = [] \<or>
     any_in [''wrong file'', ''wrong_file'', ''no file'', ''not found'']
       (py_lower (if truthy reason then val_str fr reason else []) @ '' '' @
        py_lower (str_field fr params ''pattern'' []))"

definition should_redirect_action ::
    "(pyfloat \<Rightarrow> string) \<Rightarrow> micro_state \<Rightarrow> string \<Rightarrow> pyval \<Rightarrow> (string, pyval) dict \<Rightarrow> bool \<times> string" where
  "should_redirect_action fr s action_type reason params =
     (if action_family action_type = ''discovery'' \<and>
         mi_current_step s \<in> {READ, PLAN, MODIFY, TEST, VERIFY} \<and>
         mi_discovered_files s \<noteq> [] \<and> \<not> allow_rediscovery fr s reason params
      then (True, ''Do not repeat discovery; read the discovered target files.'')
      else (False, []))"

definition micro_context :: "micro_state \<Rightarrow> directive \<Rightarrow> (string, pyval) dict" where
  "micro_context s d =
     [(''micro_step_current'', PStr (step_value (mi_current_step s))),
      (''micro_step_goal_type'', PStr (mi_goal_type s)),
      (''micro_step_allowed_action_families'', PList (map PStr (di_allowed d))),
      (''micro_step_discouraged_action_families'', PList (map PStr (di_discouraged d))),
      (''micro_step_instruction'', PStr (take 240 (di_instruction d))),
      (''micro_step_redirect_reason'', PStr [])]"

section \<open>Following a run\<close>

text \<open>An action with what was observed, and the planner after it.\<close>

type_synonym micro_event = "string \<times> (string, pyval) dict \<times> (string, pyval) dict"

definition micro_step_event :: "(pyfloat \<Rightarrow> string) \<Rightarrow> micro_state \<Rightarrow> micro_event \<Rightarrow> micro_state" where
  "micro_step_event fr s e = (case e of (t, params, obs) \<Rightarrow> update_after_action fr s t params obs)"

definition earned :: "micro_event \<Rightarrow> bool" where
  "earned e \<longleftrightarrow> (case e of (t, params, obs) \<Rightarrow> action_family t = ''finish'' \<or>
     t \<in> {''git_diff'', ''git_status'', ''http_check''} \<and> truthy (dget_or obs ''success'' (PBool False)))"

lemma verify_family: "action_family t = ''verify'' \<longleftrightarrow> t \<in> {''git_diff'', ''git_status'', ''http_check''}"
proof
  have "list_all (\<lambda>(t, f). f = ''verify'' \<longrightarrow> t \<in> set [''git_diff'', ''git_status'', ''http_check'']) ACTION_FAMILY_MAP"
    by code_simp
  moreover assume "action_family t = ''verify''"
  then have "dget ACTION_FAMILY_MAP t = Some ''verify''"
    by (auto simp: action_family_def dget_or_def split: option.splits)
  ultimately show "t \<in> {''git_diff'', ''git_status'', ''http_check''}"
    using dget_Some_in by (fastforce simp: list_all_iff)
next
  have "list_all (\<lambda>t. action_family t = ''verify'') [''git_diff'', ''git_status'', ''http_check'']" by code_simp
  moreover assume "t \<in> {''git_diff'', ''git_status'', ''http_check''}"
  ultimately show "action_family t = ''verify''" by auto
qed

lemma update_finish:
  "mi_current_step (update_after_action fr s t params obs) = FINISH \<Longrightarrow> mi_current_step s = FINISH \<or> earned (t, params, obs)"
  using verify_family [of t]
  by (auto simp: update_after_action_def earned_def Let_def split: if_splits)

text \<open>The planner only comes to its last step by a successful look at the diff, the status or a
  page, or because the model ends the loop itself.\<close>

theorem finish_is_earned:
  assumes "micro_initialize goal context = Inr s" "mi_current_step (run_events (micro_step_event fr) s es) = FINISH"
  shows "\<exists>e \<in> set es. earned e"
proof -
  have start: "mi_current_step s = DISCOVER" using assms(1) by (auto simp: micro_initialize_def split: sum.splits)
  have "mi_current_step (run_events (micro_step_event fr) s es) = FINISH \<Longrightarrow>
      mi_current_step s = FINISH \<or> (\<exists>e \<in> set es. earned e)" for s
  proof (induction es arbitrary: s)
    case (Cons e es)
    from Cons.IH [OF Cons.prems [simplified]] update_finish [of fr s "fst e" "fst (snd e)" "snd (snd e)"]
    show ?case by (cases e) (auto simp: micro_step_event_def)
  qed simp
  from this [OF assms(2)] start show ?thesis by simp
qed

text \<open>A redirect never sends the loop to read a file it does not know.\<close>

lemma redirect_has_target:
  "fst (should_redirect_action fr s t reason params) \<Longrightarrow> mi_discovered_files s \<noteq> []"
  by (auto simp: should_redirect_action_def split: if_splits)

end
