(* ===== verification/Compactor.thy ===== *)
theory Compactor
  imports PyRegex PyText
begin

text \<open>
  \<^verbatim>\<open>tool_output_compactor.py\<close> and \<^verbatim>\<open>tool_result_budget.py\<close>: what happens to the
  output of a tool between the tool and the model. The compactor drops escape codes, merges repeated lines,
  shortens runs and stack traces and cuts the text; the budget then cuts by bytes of UTF-8. A character
  of a text here is below 256, so it takes one byte or two. The three dots of the budget's marker stand for
  the ellipsis, which takes three bytes too. The rules are the defaults; reading them from a file is not modelled.
\<close>

section \<open>Rules\<close>

record compactor_config =
  cc_max_chars :: int
  cc_tail_lines :: int
  cc_stack_head :: int
  cc_stack_tail :: int
  cc_collapse_patterns :: "(rx \<times> string) list"

definition collapse_defaults :: "(rx \<times> string) list" where
  "collapse_defaults =
     [(Grp 1 (Seq (Lit [CHR 0x5C]) (AtLeast 3 Dot)), ''.''),
      (Grp 1 (AtLeast 3 (Lit ''='')), ''=''),
      (Grp 1 (AtLeast 3 (Lit ''-'')), ''-'')]"

definition compactor_defaults :: compactor_config where
  "compactor_defaults =
     \<lparr>cc_max_chars = 8000, cc_tail_lines = 50, cc_stack_head = 10, cc_stack_tail = 5,
      cc_collapse_patterns = collapse_defaults\<rparr>"

section \<open>Steps\<close>

definition ANSI_ESCAPE :: rx where
  "ANSI_ESCAPE =
     (let esc = Lit [CHR 0x1B]
      in Seq esc (Alts
        [Seqs [Lit ''['', Star (Cls [Rng (CHR ''0'') (CHR ''9''), Ch (CHR '';'')]),
           Cls [Rng (CHR ''a'') (CHR ''z''), Rng (CHR ''A'') (CHR ''Z'')]],
         Seqs [Lit '']'', LazyStar Dot, Alt (Lit [CHR 0x1B, CHR 0x5C]) (Lit [CHR 0x07])],
         NCls [Ch (CHR ''[''), Rng (CHR ''a'') (CHR ''z'')]]))"

definition strip_ansi :: "string \<Rightarrow> string" where
  "strip_ansi text = re_sub False ANSI_ESCAPE (\<lambda>c. []) text"

text \<open>\<^verbatim>\<open>splitlines(keepends=True)\<close>\<close>

fun keep_lines_acc :: "string \<Rightarrow> string \<Rightarrow> string list" where
  "keep_lines_acc w [] = (if w = [] then [] else [rev w])"
| "keep_lines_acc w (c # s) =
     (if is_linebreak c then
        (case s of
           [] \<Rightarrow> [rev (c # w)]
         | d # s' \<Rightarrow>
             if c = CHR 0x0D \<and> d = CHR 0x0A then rev (d # c # w) # keep_lines_acc [] s'
             else rev (c # w) # keep_lines_acc [] s)
      else keep_lines_acc (c # w) s)"

definition keep_lines :: "string \<Rightarrow> string list" where
  "keep_lines s = keep_lines_acc [] s"

definition rstrip_newlines :: "string \<Rightarrow> string" where
  "rstrip_newlines l = rev (dropWhile (\<lambda>c. c = CHR 0x0A \<or> c = CHR 0x0D) (rev l))"

definition repeat_marker :: "nat \<Rightarrow> string \<Rightarrow> string" where
  "repeat_marker count prev = ''[repeated '' @ nat_str count @ '' times] '' @ prev @ [CHR 0x0A]"

text \<open>One turn of the loop: the lines kept so far, the line being counted and how often it came.\<close>

definition dedup_step :: "string list \<times> string option \<times> nat \<Rightarrow> string \<Rightarrow> string list \<times> string option \<times> nat" where
  "dedup_step st line =
     (case st of (compressed, prev, count) \<Rightarrow>
        if prev = Some (rstrip_newlines line) then (compressed, prev, count + 1)
        else (if 1 < count then compressed @ [repeat_marker count (case prev of None \<Rightarrow> [] | Some p \<Rightarrow> p)]
              else if count = 1 then compressed @ [line] else compressed,
              Some (rstrip_newlines line), 1))"

definition dedup_list :: "string list \<Rightarrow> string list" where
  "dedup_list lines =
     (case foldl dedup_step ([], None, 0) lines of (compressed, prev, count) \<Rightarrow>
        if 1 < count then compressed @ [repeat_marker count (case prev of None \<Rightarrow> [] | Some p \<Rightarrow> p)]
        else if count = 1 then compressed @ [List.last lines] else compressed)"

definition dedup_lines :: "string \<Rightarrow> string" where
  "dedup_lines text = (let lines = keep_lines text in if lines = [] then text else concat (dedup_list lines))"

definition replace_run :: "string \<Rightarrow> caps \<Rightarrow> string" where
  "replace_run char c =
     (let run = dget_or c 1 []
      in if 3 \<le> length run
         then ''['' @ nat_str (length run) @ [CHR 0xD7] @ '' '' @ [CHR 0x27] @ char @ [CHR 0x27] @ '']'' else run)"

definition collapse_repeated_patterns :: "compactor_config \<Rightarrow> string \<Rightarrow> string" where
  "collapse_repeated_patterns cfg text =
     foldl (\<lambda>t (pattern, name). re_sub False pattern (replace_run name) t) text (cc_collapse_patterns cfg)"

text \<open>\<^verbatim>\<open>re.split\<close> at the empty lines, which it keeps.\<close>

fun split_empty_lines :: "string \<Rightarrow> string \<Rightarrow> string list" where
  "split_empty_lines w (c # d # s) =
     (if c = CHR 0x0A \<and> d = CHR 0x0A then rev w # [c, d] # split_empty_lines [] s
      else split_empty_lines (c # w) (d # s))"
| "split_empty_lines w s = [rev w @ s]"

definition truncate_segment :: "compactor_config \<Rightarrow> string \<Rightarrow> string" where
  "truncate_segment cfg seg =
     (let seg_lines = keep_lines seg
      in if 15 \<le> length seg_lines \<and> (contains seg ''Traceback'' \<or> contains (py_lower seg) ''stack trace'')
         then concat (slice_to (cc_stack_head cfg) seg_lines) @
           ''... ['' @ int_str (int (length seg_lines) - cc_stack_head cfg - cc_stack_tail cfg) @ '' lines elided] ...'' @
           [CHR 0x0A] @ concat (slice_from (- cc_stack_tail cfg) seg_lines)
         else seg)"

definition truncate_stack_traces :: "compactor_config \<Rightarrow> string \<Rightarrow> string" where
  "truncate_stack_traces cfg text =
     (if length (keep_lines text) < 15 then text
      else concat (map (truncate_segment cfg) (split_empty_lines [] text)))"

definition report_header_line :: "string \<Rightarrow> bool" where
  "report_header_line l \<longleftrightarrow> starts (strip l) ''FAILURES'' \<or> starts (strip l) ''short test summary info''"

definition tail_first_test_runner :: "compactor_config \<Rightarrow> string \<Rightarrow> string" where
  "tail_first_test_runner cfg text =
     (let lines = splitlines text; behind = dropWhile (\<lambda>l. \<not> report_header_line l) lines;
          note = ''last '' @ int_str (cc_tail_lines cfg) @ '' lines of output]'';
          final = slice_from (- cc_tail_lines cfg) lines
      in if lines = [] then text
         else join [CHR 0x0A]
           (if behind \<noteq> [] then
              (let block = takeWhile (\<lambda>l. strip l \<noteq> []) behind
               in block @ take 1 (drop (length block) behind)) @ [[], ''['' @ note] @ final
            else [''[no summary found, '' @ note] @ final))"

definition hard_truncate :: "compactor_config \<Rightarrow> string \<Rightarrow> string" where
  "hard_truncate cfg text =
     (if cc_max_chars cfg < int (length text)
      then slice_to (cc_max_chars cfg) text @ [CHR 0x0A] @ ''[truncated '' @
        int_str (int (length text) - cc_max_chars cfg) @ '' chars]''
      else text)"

definition compress :: "compactor_config \<Rightarrow> string \<Rightarrow> string \<Rightarrow> string" where
  "compress cfg text source_type =
     (if text = [] then text
      else
        let text = truncate_stack_traces cfg (collapse_repeated_patterns cfg (dedup_lines (strip_ansi text)));
            text = (if source_type = ''test_runner'' then tail_first_test_runner cfg text else text)
        in hard_truncate cfg text)"

section \<open>The budget\<close>

definition DEFAULT_BUDGET_BYTES :: int where "DEFAULT_BUDGET_BYTES = 16 * 1024"

definition TRAILER_RESERVED :: int where "TRAILER_RESERVED = 256"

definition utf8_width :: "char \<Rightarrow> nat" where
  "utf8_width c = (if (ord_of c :: nat) < 128 then 1 else 2)"

definition utf8_bytes :: "string \<Rightarrow> nat" where
  "utf8_bytes s = sum_list (map utf8_width s)"

text \<open>The characters that are whole in the first \<open>n\<close> bytes.\<close>

fun utf8_take :: "nat \<Rightarrow> string \<Rightarrow> string" where
  "utf8_take n [] = []"
| "utf8_take n (c # s) = (if utf8_width c \<le> n then c # utf8_take (n - utf8_width c) s else [])"

record budget_outcome =
  bo_original_bytes :: nat
  bo_final_bytes :: nat
  bo_truncated :: bool

definition budget_trailer :: "nat \<Rightarrow> string" where
  "budget_trailer removed =
     [CHR 0x0A] @ ''[... '' @ nat_str removed @ '' bytes truncated by tool_result_budget ...]''"

definition apply_tool_result_budget :: "string \<Rightarrow> int \<Rightarrow> string \<times> budget_outcome" where
  "apply_tool_result_budget content budget_bytes =
     (let original = utf8_bytes content
      in if budget_bytes = 0 \<or> int original \<le> budget_bytes then
           (content, \<lparr>bo_original_bytes = original, bo_final_bytes = original, bo_truncated = False\<rparr>)
         else
           let cap = nat (max 0 (budget_bytes - TRAILER_RESERVED));
               final = utf8_take cap content @ budget_trailer (original - cap)
           in (final, \<lparr>bo_original_bytes = original, bo_final_bytes = utf8_bytes final, bo_truncated = True\<rparr>))"

section \<open>Different lines\<close>

text \<open>The line that ends a run of one is the next line, not the one that was counted: of lines that all
  differ from their neighbours the first is lost and the last comes twice.\<close>

lemma dedup_fold:
  "successively (\<noteq>) (map rstrip_newlines (a # xs)) \<Longrightarrow>
   foldl dedup_step (acc, Some (rstrip_newlines a), 1) xs =
     (acc @ xs, Some (rstrip_newlines (List.last (a # xs))), 1)"
proof (induction xs arbitrary: a acc)
  case (Cons b xs)
  have "rstrip_newlines a \<noteq> rstrip_newlines b" "successively (\<noteq>) (map rstrip_newlines (b # xs))"
    using Cons.prems by simp_all
  then show ?case using Cons.IH [of b "acc @ [b]"] by (simp add: dedup_step_def)
qed simp

theorem dedup_loses_first_line:
  assumes "successively (\<noteq>) (map rstrip_newlines (a # b # xs))"
  shows "dedup_list (a # b # xs) = b # xs @ [List.last (b # xs)]"
  using dedup_fold [OF assms, of "[]"] by (simp add: dedup_list_def dedup_step_def)

theorem dedup_loses_first_line_witness:
  "dedup_list [''import os'' @ [CHR 0x0A], ''import re'' @ [CHR 0x0A], ''x = 1''] =
     [''import re'' @ [CHR 0x0A], ''x = 1'', ''x = 1'']"
  using dedup_loses_first_line [of "''import os'' @ [CHR 0x0A]" "''import re'' @ [CHR 0x0A]" "[''x = 1'']"]
  by (simp add: rstrip_newlines_def)

text \<open>The rule for dots matches a backslash and what follows it on the line.\<close>

lemma backslash_hides_code:
  "collapse_repeated_patterns compactor_defaults (''a = b'' @ [CHR 0x5C] @ ''n + secret'') =
     ''a = b[11'' @ [CHR 0xD7] @ '' '' @ [CHR 0x27] @ ''.'' @ [CHR 0x27] @ '']'' \<and>
   collapse_repeated_patterns compactor_defaults ''......'' = ''......''"
  by code_simp

section \<open>The budget is kept\<close>

lemma utf8_bytes_append [simp]: "utf8_bytes (s @ t) = utf8_bytes s + utf8_bytes t"
  by (simp add: utf8_bytes_def)

lemma utf8_take_bytes: "utf8_bytes (utf8_take n s) \<le> n"
proof (induction n s rule: utf8_take.induct)
  case (2 n c s)
  then show ?case by (auto simp: utf8_bytes_def)
qed (simp add: utf8_bytes_def)

lemma utf8_take_prefix: "\<exists>t. s = utf8_take n s @ t"
  by (induction n s rule: utf8_take.induct) auto

lemma nat_str_bytes: "n < 10 ^ Suc k \<Longrightarrow> utf8_bytes (nat_str n) \<le> Suc k"
proof (induction k arbitrary: n)
  case 0
  then have "utf8_bytes (nat_str n) = utf8_width (char_of (48 + n))"
    by (subst nat_str.simps) (simp add: utf8_bytes_def)
  with 0 show ?case by (simp add: utf8_width_def)
next
  case (Suc k)
  show ?case
  proof (cases "n < 10")
    case True
    then have "utf8_bytes (nat_str n) = utf8_width (char_of (48 + n))"
      by (subst nat_str.simps) (simp add: utf8_bytes_def)
    with True show ?thesis by (simp add: utf8_width_def)
  next
    case False
    have "n div 10 < 10 ^ Suc k" using Suc.prems by (simp add: div_less_iff_less_mult)
    then have "utf8_bytes (nat_str (n div 10)) \<le> Suc k" by (rule Suc.IH)
    moreover have "utf8_bytes [char_of (48 + n mod 10)] = 1"
    proof -
      have "n mod 10 < 10" by simp
      then show ?thesis by (simp add: utf8_bytes_def utf8_width_def)
    qed
    moreover have "nat_str n = nat_str (n div 10) @ [char_of (48 + n mod 10)]"
      using False by (subst nat_str.simps) simp
    ultimately show ?thesis by simp
  qed
qed

lemma trailer_bytes: "n < 10 ^ 200 \<Longrightarrow> utf8_bytes (budget_trailer n) \<le> 256"
proof -
  assume "n < 10 ^ 200"
  then have "utf8_bytes (nat_str n) \<le> 200" using nat_str_bytes [of n 199] by simp
  moreover have "utf8_bytes [CHR 0x0A] + utf8_bytes ''[... '' +
      utf8_bytes '' bytes truncated by tool_result_budget ...]'' = 49" by code_simp
  moreover have "utf8_bytes (budget_trailer n) = utf8_bytes [CHR 0x0A] + utf8_bytes ''[... '' + utf8_bytes (nat_str n) +
      utf8_bytes '' bytes truncated by tool_result_budget ...]''"
    unfolding budget_trailer_def utf8_bytes_append by simp
  ultimately show ?thesis by simp
qed

text \<open>What goes to the model fits the budget, is reported with its size, and is the text itself or a
  beginning of it with a marker.\<close>

theorem tool_result_fits_budget:
  assumes "apply_tool_result_budget content budget = (result, outcome)"
    and "256 \<le> budget" "utf8_bytes content < 10 ^ 200"
  shows "int (utf8_bytes result) \<le> budget \<and> bo_final_bytes outcome = utf8_bytes result \<and>
    (if bo_truncated outcome then \<exists>kept lost. content = kept @ lost \<and> lost \<noteq> [] \<and>
        result = kept @ budget_trailer (utf8_bytes content - nat (budget - 256)) else result = content)"
proof (cases "int (utf8_bytes content) \<le> budget")
  case True
  then show ?thesis using assms by (auto simp: apply_tool_result_budget_def Let_def)
next
  case False
  let ?cap = "nat (budget - 256)"
  have r: "result = utf8_take ?cap content @ budget_trailer (utf8_bytes content - ?cap)"
      "bo_truncated outcome" "bo_final_bytes outcome = utf8_bytes result"
    using assms(1,2) False
    by (auto simp: apply_tool_result_budget_def TRAILER_RESERVED_def Let_def)
  have "utf8_bytes content - ?cap < 10 ^ 200" by (rule le_less_trans [OF diff_le_self assms(3)])
  then have "utf8_bytes (budget_trailer (utf8_bytes content - ?cap)) \<le> 256" by (rule trailer_bytes)
  then have "utf8_bytes result \<le> ?cap + 256"
    unfolding r(1) utf8_bytes_append using utf8_take_bytes [of ?cap content] by linarith
  moreover obtain t where t: "content = utf8_take ?cap content @ t" using utf8_take_prefix by blast
  moreover have "t \<noteq> []"
  proof
    assume "t = []"
    with t utf8_take_bytes [of ?cap content] have "utf8_bytes content \<le> ?cap" by simp
    with False assms(2) show False by simp
  qed
  moreover have "int (utf8_bytes result) \<le> budget"
    using calculation(1) assms(2) by linarith
  ultimately show ?thesis using r by auto
qed

theorem tool_result_fits_budget_witness:
  "utf8_bytes (fst (apply_tool_result_budget (replicate 400 (CHR ''a'')) 300)) \<le> 300"
proof -
  have "utf8_bytes (replicate 400 (CHR ''a'')) = 400" by (simp add: utf8_bytes_def sum_list_replicate utf8_width_def)
  then show ?thesis
    using tool_result_fits_budget [of "replicate 400 (CHR ''a'')" 300] by (cases "apply_tool_result_budget (replicate 400 (CHR ''a'')) 300") simp
qed

end
