(* ===== verification/CodeNav.thy ===== *)
theory CodeNav
  imports PyRegex PyText Redaction ToolRuntime
begin

text \<open>
  \<^verbatim>\<open>code_navigation.py\<close>: the read-only view of the project the reasoning loop has, with its
  path guard, its secret guard and its limits. The file system is the record \<open>nav_world\<close>: how a path
  resolves, what is a file or a directory, what a directory lists, what a file holds and which files a walk
  comes to, in the order it does. A pattern of the model's own is compiled by a parameter, which gives
  nothing when it is no regular expression.
\<close>

section \<open>Tables\<close>

definition CODE_EXTENSIONS :: "string list" where
  "CODE_EXTENSIONS =
     [''.py'', ''.js'', ''.ts'', ''.jsx'', ''.tsx'', ''.html'', ''.css'', ''.json'', ''.yaml'', ''.yml'', ''.toml'',
      ''.cfg'', ''.ini'', ''.md'', ''.txt'', ''.rst'', ''.sh'', ''.bash'', ''.zsh'', ''.fish'', ''.sql'',
      ''.graphql'', ''.proto'', ''.dockerfile'', ''.env.example'', ''.xml'', ''.csv'']"

definition SKIP_EXTENSIONS :: "string list" where
  "SKIP_EXTENSIONS =
     [''.pyc'', ''.pyo'', ''.so'', ''.dll'', ''.exe'', ''.bin'', ''.whl'', ''.png'', ''.jpg'', ''.jpeg'', ''.gif'',
      ''.ico'', ''.svg'', ''.webp'', ''.mp3'', ''.mp4'', ''.wav'', ''.avi'', ''.zip'', ''.tar'', ''.gz'', ''.bz2'',
      ''.xz'', ''.pdf'', ''.doc'', ''.docx'', ''.xls'', ''.xlsx'', ''.pem'', ''.key'', ''.p12'', ''.pfx'',
      ''.cert'', ''.egg-info'', ''.woff'', ''.woff2'', ''.ttf'', ''.eot'']"

definition SKIP_DIRS :: "string list" where
  "SKIP_DIRS =
     [''.git'', ''.hg'', ''.svn'', ''__pycache__'', ''.mypy_cache'', ''.pytest_cache'', ''.ruff_cache'',
      ''node_modules'', ''.tox'', ''.nox'', ''.venv'', ''venv'', ''env'', ''.igris'', ''.egg-info'', ''dist'',
      ''build'']"

definition SECRET_FILES :: "string list" where
  "SECRET_FILES =
     [''.env'', ''.env.local'', ''.env.production'', ''.env.development'', ''.env.staging'', ''.env.test'',
      ''id_rsa'', ''id_ed25519'', ''id_dsa'', ''credentials.json'', ''service_account.json'', ''.netrc'',
      ''.npmrc_with_tokens'']"

definition KNOWN_CODE_NAMES :: "string list" where
  "KNOWN_CODE_NAMES =
     [''Makefile'', ''Dockerfile'', ''Procfile'', ''Vagrantfile'', ''Rakefile'', ''Gemfile'', ''Pipfile'', ''Brewfile'']"

text \<open>\<^verbatim>\<open>safety.py\<close>\<close>

definition SENSITIVE_NAMES :: "string list" where
  "SENSITIVE_NAMES =
     [''.env'', ''.env.local'', ''.env.production'', ''.env.development'', ''id_rsa'', ''id_ed25519'',
      ''credentials.json'', ''service_account.json'']"

definition is_sensitive_filename :: "string \<Rightarrow> bool" where
  "is_sensitive_filename name \<longleftrightarrow> py_lower name \<in> set SENSITIVE_NAMES \<or>
     any_in [''key'', ''token'', ''secret'', ''credential'', ''password''] (py_lower name)"

section \<open>The file system\<close>

record nav_world =
  nw_root :: string
  nw_resolve :: "string \<Rightarrow> string list option"
  nw_is_file :: "string \<Rightarrow> bool"
  nw_is_dir :: "string \<Rightarrow> bool"
  nw_read :: "string \<Rightarrow> string option"
  nw_walk :: "string \<Rightarrow> string list"
  nw_children :: "string \<Rightarrow> (string \<times> bool \<times> nat) list option"
  nw_compile :: "string \<Rightarrow> (string \<Rightarrow> bool) option"

text \<open>\<^verbatim>\<open>root / path\<close>\<close>

definition nav_join :: "string \<Rightarrow> string \<Rightarrow> string" where
  "nav_join base path = path_str (if starts path ''/'' then path else base @ ''/'' @ path)"

text \<open>\<^verbatim>\<open>relative_to\<close> compares the components as they are written.\<close>

definition relative_to :: "string \<Rightarrow> string \<Rightarrow> py_error + string" where
  "relative_to p base =
     (if inside (path_parts base) (path_parts p) \<and> path_root p = path_root base then
        Inr (let rel = drop (length (path_parts base)) (path_parts p) in if rel = [] then ''.'' else join ''/'' rel)
      else Inl ValueError)"

definition is_safe_path :: "nav_world \<Rightarrow> string \<Rightarrow> bool" where
  "is_safe_path w path =
     (case (nw_resolve w path, nw_resolve w (nw_root w)) of
        (Some p, Some r) \<Rightarrow> inside r p \<and> path_name path \<notin> set SECRET_FILES
      | _ \<Rightarrow> False)"

definition should_skip_dir :: "string \<Rightarrow> bool" where
  "should_skip_dir name \<longleftrightarrow> name \<in> set SKIP_DIRS"

definition should_skip_file :: "string \<Rightarrow> bool" where
  "should_skip_file path \<longleftrightarrow> path_suffix path \<in> set SKIP_EXTENSIONS \<or> path_name path \<in> set SECRET_FILES \<or>
     is_sensitive_filename (path_name path)"

definition is_code_file :: "string \<Rightarrow> bool" where
  "is_code_file path \<longleftrightarrow> path_suffix path \<in> set CODE_EXTENSIONS \<or> path_name path \<in> set KNOWN_CODE_NAMES"

text \<open>The directories a walk passes on its way from \<open>start\<close> to a file; the walk does not enter a skipped one.\<close>

definition dirs_between :: "string \<Rightarrow> string \<Rightarrow> string list" where
  "dirs_between start path = butlast (drop (length (path_parts start)) (path_parts path))"

definition walk_code_files :: "nav_world \<Rightarrow> string \<Rightarrow> string list" where
  "walk_code_files w start =
     (if \<not> nw_is_file w start \<and> \<not> nw_is_dir w start then []
      else if nw_is_file w start then (if is_code_file start \<and> \<not> should_skip_file start then [start] else [])
      else filter (\<lambda>f. \<not> list_ex should_skip_dir (dirs_between start f) \<and> is_code_file f \<and>
             \<not> should_skip_file f \<and> is_safe_path w f) (nw_walk w start))"

definition walk_all_files :: "nav_world \<Rightarrow> string list" where
  "walk_all_files w =
     filter (\<lambda>f. \<not> list_ex should_skip_dir (dirs_between (nw_root w) f) \<and> \<not> should_skip_file f \<and> is_safe_path w f)
       (nw_walk w (nw_root w))"

section \<open>Results\<close>

record search_match =
  sm_file :: string
  sm_line_number :: nat
  sm_line_content :: string
  sm_context_before :: "string list"
  sm_context_after :: "string list"

definition search_match_to_dict :: "search_match \<Rightarrow> pyval" where
  "search_match_to_dict m = PDict
     [(''file'', PStr (sm_file m)), (''line_number'', PInt (int (sm_line_number m))),
      (''line_content'', PStr (redact_secrets (sm_line_content m))),
      (''context_before'', PList (map (PStr \<circ> redact_secrets) (sm_context_before m))),
      (''context_after'', PList (map (PStr \<circ> redact_secrets) (sm_context_after m)))]"

datatype nav_data = NavNone | NavMatches "search_match list" | NavValue pyval

record nav_result =
  nr_tool :: string
  nr_success :: bool
  nr_data :: nav_data
  nr_error :: string
  nr_truncated :: bool
  nr_total_count :: int
  nr_returned_count :: int

fun nav_data_value :: "nav_data \<Rightarrow> pyval" where
  "nav_data_value NavNone = PNone"
| "nav_data_value (NavMatches ms) = PList (map search_match_to_dict ms)"
| "nav_data_value (NavValue (PStr s)) = PStr (redact_secrets s)"
| "nav_data_value (NavValue v) = v"

definition nav_result_to_dict :: "nav_result \<Rightarrow> (string, pyval) dict" where
  "nav_result_to_dict r =
     [(''tool'', PStr (nr_tool r)), (''success'', PBool (nr_success r)), (''error'', PStr (nr_error r)),
      (''truncated'', PBool (nr_truncated r)), (''total_count'', PInt (nr_total_count r)),
      (''returned_count'', PInt (nr_returned_count r)), (''data'', nav_data_value (nr_data r))]"

definition nav_failed :: "string \<Rightarrow> string \<Rightarrow> nav_result" where
  "nav_failed tool e =
     \<lparr>nr_tool = tool, nr_success = False, nr_data = NavNone, nr_error = e, nr_truncated = False,
      nr_total_count = 0, nr_returned_count = 0\<rparr>"

definition nav_ok :: "string \<Rightarrow> nav_data \<Rightarrow> bool \<Rightarrow> int \<Rightarrow> int \<Rightarrow> nav_result" where
  "nav_ok tool data truncated total_count returned =
     \<lparr>nr_tool = tool, nr_success = True, nr_data = data, nr_error = [], nr_truncated = truncated,
      nr_total_count = total_count, nr_returned_count = returned\<rparr>"

section \<open>Searching\<close>

text \<open>The lines of a list of files that pass a test, each with its file, its index and all lines of its file;
  a file that cannot be read is passed over.\<close>

definition line_hits :: "nav_world \<Rightarrow> (string \<Rightarrow> bool) \<Rightarrow> string list \<Rightarrow> (string \<times> nat \<times> string list) list" where
  "line_hits w test files =
     concat (map (\<lambda>f. case nw_read w f of
         None \<Rightarrow> []
       | Some content \<Rightarrow>
           let lines = splitlines content
           in map (\<lambda>(i, l). (f, i, lines)) (filter (\<lambda>(i, l). test l) (enumerate 0 lines))) files)"

definition match_of :: "nav_world \<Rightarrow> nat \<Rightarrow> string \<times> nat \<times> string list \<Rightarrow> py_error + search_match" where
  "match_of w ctx hit = (case hit of (f, i, lines) \<Rightarrow>
     (case relative_to f (nw_root w) of
        Inl e \<Rightarrow> Inl e
      | Inr rel \<Rightarrow> Inr
          \<lparr>sm_file = rel, sm_line_number = i + 1, sm_line_content = lines ! i,
           sm_context_before = (if 0 < ctx then drop (i - ctx) (take i lines) else []),
           sm_context_after = (if 0 < ctx then take ctx (drop (i + 1) lines) else [])\<rparr>))"

fun collect :: "(py_error + 'a) list \<Rightarrow> py_error + 'a list" where
  "collect [] = Inr []"
| "collect (Inl e # rs) = Inl e"
| "collect (Inr x # rs) = (case collect rs of Inl e \<Rightarrow> Inl e | Inr xs \<Rightarrow> Inr (x # xs))"

text \<open>The search of \<^verbatim>\<open>search_code\<close> and \<^verbatim>\<open>find_symbol\<close>; every hit counts, the first ones
  are returned.\<close>

definition search_lines ::
    "nav_world \<Rightarrow> string \<Rightarrow> (string \<Rightarrow> bool) \<Rightarrow> string option \<Rightarrow> int \<Rightarrow> nat \<Rightarrow> py_error + nav_result" where
  "search_lines w tool test path max_results ctx =
     (let start = (case path of None \<Rightarrow> nw_root w | Some [] \<Rightarrow> nw_root w | Some p \<Rightarrow> nav_join (nw_root w) p);
          hits = line_hits w test (walk_code_files w start)
      in if str_or path [] \<noteq> [] \<and> \<not> is_safe_path w start then
           Inr (nav_failed tool (''Path outside project root: '' @ str_or path []))
         else case collect (map (match_of w ctx) (take (nat max_results) hits)) of
           Inl e \<Rightarrow> Inl e
         | Inr ms \<Rightarrow> Inr (nav_ok tool (NavMatches ms) (max_results < int (length hits)) (int (length hits))
             (int (length ms))))"

definition search_code ::
    "nav_world \<Rightarrow> string \<Rightarrow> string option \<Rightarrow> int \<Rightarrow> nat \<Rightarrow> py_error + nav_result" where
  "search_code w pattern path max_results context_lines =
     search_lines w ''search_code''
       (case nw_compile w pattern of Some test \<Rightarrow> test | None \<Rightarrow> re_test True (Lit pattern))
       path max_results context_lines"

text \<open>The definition patterns of \<^verbatim>\<open>find_symbol\<close>.\<close>

definition symbol_pattern :: "string \<Rightarrow> rx" where
  "symbol_pattern symbol =
     (let sp = Star (Cls [SpaceC]); sps = Plus (Cls [SpaceC])
      in Alts
        [Seqs [LineStart, sp, Alts [Lit ''def'', Lit ''class'', Seqs [Lit ''async'', sps, Lit ''def'']], sps, Lit symbol, sp,
           Cls [Ch (CHR ''(''), Ch (CHR '':'')]],
         Seqs [LineStart, sp, Words [''function'', ''const'', ''let'', ''var'', ''export''], sps, Lit symbol, sp,
           Cls [Ch (CHR ''(''), Ch (CHR ''='')]],
         Seqs [LineStart, sp, Opt (Seq (Lit ''pub'') sps), Words [''fn'', ''struct'', ''enum'', ''trait'', ''impl''],
           sps, Lit symbol],
         Seqs [LineStart, sp, Words [''func'', ''type'', ''var'', ''const''], sps, Lit symbol]])"

definition find_symbol :: "nav_world \<Rightarrow> string \<Rightarrow> string option \<Rightarrow> int \<Rightarrow> py_error + nav_result" where
  "find_symbol w symbol path max_results =
     search_lines w ''find_symbol'' (re_test False (symbol_pattern symbol)) path max_results 0"

section \<open>Shell patterns\<close>

text \<open>\<^verbatim>\<open>fnmatch\<close>: a star is any text, also with slashes, a question mark one character, brackets
  a set, negated by an exclamation mark; a bracket that is never closed stands for itself.\<close>

datatype glob = GAny | GOne "char \<Rightarrow> bool"

fun glob_set :: "string \<Rightarrow> citem list" where
  "glob_set (c # d # e # s) = (if d = CHR ''-'' then Rng c e # glob_set s else Ch c # glob_set (d # e # s))"
| "glob_set s = map Ch s"

text \<open>The text between the brackets and what follows them; a closing bracket that comes first is a member.\<close>

definition glob_bracket :: "string \<Rightarrow> (string \<times> string) option" where
  "glob_bracket s =
     (let n = (if starts s ''!'' then 1 else 0); m = (if starts (drop n s) '']'' then n + 1 else n);
          inner = take m s @ takeWhile (\<lambda>c. c \<noteq> CHR '']'') (drop m s); behind = drop (length inner) s
      in if behind = [] then None else Some (inner, tl behind))"

lemma glob_bracket_shorter: "glob_bracket s = Some (inner, s') \<Longrightarrow> length s' \<le> length s"
  by (auto simp: glob_bracket_def Let_def split: if_splits)

definition glob_member :: "string \<Rightarrow> char \<Rightarrow> bool" where
  "glob_member inner c \<longleftrightarrow>
     (if starts inner ''!'' then \<not> in_items (glob_set (tl inner)) c else in_items (glob_set inner) c)"

function glob_parse :: "string \<Rightarrow> glob list" where
  "glob_parse [] = []"
| "glob_parse (c # s) =
     (if c = CHR ''*'' then GAny # glob_parse s
      else if c = CHR ''?'' then GOne (\<lambda>x. True) # glob_parse s
      else if c = CHR ''['' then
        (case glob_bracket s of
           None \<Rightarrow> GOne (\<lambda>x. x = c) # glob_parse s
         | Some (inner, s') \<Rightarrow> GOne (glob_member inner) # glob_parse s')
      else GOne (\<lambda>x. x = c) # glob_parse s)"
  by pat_completeness auto
termination by (relation "measure length") (auto dest: glob_bracket_shorter)

fun glob_match :: "glob list \<Rightarrow> string \<Rightarrow> bool" where
  "glob_match [] s = (s = [])"
| "glob_match (GAny # g) [] = glob_match g []"
| "glob_match (GAny # g) (c # s) = (glob_match g (c # s) \<or> glob_match (GAny # g) s)"
| "glob_match (GOne p # g) [] = False"
| "glob_match (GOne p # g) (c # s) = (p c \<and> glob_match g s)"

definition fnmatch :: "string \<Rightarrow> string \<Rightarrow> bool" where
  "fnmatch name pat = glob_match (glob_parse pat) name"

text \<open>The walk from the root only comes to paths below it, so their relative paths exist.\<close>

definition rel_path :: "nav_world \<Rightarrow> string \<Rightarrow> string" where
  "rel_path w f = (case relative_to f (nw_root w) of Inl _ \<Rightarrow> [] | Inr rel \<Rightarrow> rel)"

definition find_files :: "nav_world \<Rightarrow> string \<Rightarrow> int \<Rightarrow> nav_result" where
  "find_files w pattern max_results =
     (let found = map (rel_path w)
            (filter (\<lambda>f. fnmatch (path_name f) pattern \<or> fnmatch (rel_path w f) pattern) (walk_all_files w));
          results = take (nat max_results) found
      in nav_ok ''find_files'' (NavValue (PList (map PStr results))) (max_results < int (length found))
        (int (length found)) (int (length results)))"

section \<open>Listing and reading\<close>

definition dir_order :: "(string \<times> bool \<times> nat) list \<Rightarrow> (string \<times> bool \<times> nat) list" where
  "dir_order cs = sort_key fst (filter (\<lambda>(n, d, z). d) cs) @ sort_key fst (filter (\<lambda>(n, d, z). \<not> d) cs)"

fun list_recursive :: "nav_world \<Rightarrow> int \<Rightarrow> nat \<Rightarrow> string \<Rightarrow> pyval list \<Rightarrow> py_error + pyval list" where
  "list_recursive w max_entries 0 directory entries = Inr entries"
| "list_recursive w max_entries (Suc d) directory entries =
     (if max_entries \<le> int (length entries) then Inr entries
      else case nw_children w directory of
        None \<Rightarrow> Inr entries
      | Some children \<Rightarrow>
          foldl (\<lambda>acc (name, is_dir, size).
            case acc of
              Inl e \<Rightarrow> Inl e
            | Inr es \<Rightarrow>
                let child = nav_join directory name
                in if max_entries \<le> int (length es) then Inr es
                   else if is_dir \<and> should_skip_dir name \<or> \<not> is_dir \<and> should_skip_file child then Inr es
                   else (case relative_to child (nw_root w) of
                     Inl e \<Rightarrow> Inl e
                   | Inr rel \<Rightarrow>
                       if is_dir then
                         list_recursive w max_entries d child (es @ [PDict
                           [(''name'', PStr name), (''type'', PStr ''directory''), (''path'', PStr rel)]])
                       else Inr (es @ [PDict
                         [(''name'', PStr name), (''type'', PStr ''file''), (''path'', PStr rel),
                          (''size'', PInt (int size))]])))
            (Inr entries) (dir_order children))"

definition list_directory :: "nav_world \<Rightarrow> string \<Rightarrow> int \<Rightarrow> int \<Rightarrow> py_error + nav_result" where
  "list_directory w path depth max_entries =
     (let target = nav_join (nw_root w) path
      in if \<not> is_safe_path w target then
           Inr (nav_failed ''list_directory'' (''Path outside project root: '' @ path))
         else if \<not> nw_is_dir w target then
           Inr (nav_failed ''list_directory'' (''Not a directory: '' @ path))
         else case list_recursive w max_entries (nat depth) target [] of
           Inl e \<Rightarrow> Inl e
         | Inr entries \<Rightarrow>
             Inr (nav_ok ''list_directory'' (NavValue (PList entries)) (max_entries \<le> int (length entries))
               (int (length entries)) (int (length entries))))"

definition MAX_READ_LINES :: int where "MAX_READ_LINES = 500"

text \<open>First and last index of what is read.\<close>

definition read_bounds :: "int \<Rightarrow> int \<Rightarrow> int option \<Rightarrow> int \<Rightarrow> int \<times> int" where
  "read_bounds total_lines start final max_lines =
     (let start_idx = max 0 (start - 1);
          end_idx = (case final of Some e \<Rightarrow> min total_lines e | None \<Rightarrow> min total_lines (start_idx + max_lines))
      in (start_idx, if max_lines < end_idx - start_idx then start_idx + max_lines else end_idx))"

definition read_file_range :: "nav_world \<Rightarrow> string \<Rightarrow> int \<Rightarrow> int option \<Rightarrow> int \<Rightarrow> nav_result" where
  "read_file_range w path start final max_lines =
     (let target = nav_join (nw_root w) path
      in if \<not> is_safe_path w target then
           nav_failed ''read_file_range'' (''Path outside project root or secret file: '' @ path)
         else if \<not> nw_is_file w target then nav_failed ''read_file_range'' (''File not found: '' @ path)
         else if path_suffix target \<in> set SKIP_EXTENSIONS then
           nav_failed ''read_file_range'' (''Binary or unsupported file type: '' @ path_suffix target)
         else case nw_read w target of
           None \<Rightarrow> nav_failed ''read_file_range'' ''Cannot read file''
         | Some content \<Rightarrow>
             let all_lines = splitlines content; n = int (length all_lines);
                 (start_idx, end_idx) = read_bounds n start final max_lines;
                 selected = drop (nat start_idx) (slice_to end_idx all_lines)
             in nav_ok ''read_file_range''
               (NavValue (PDict
                 [(''path'', PStr path), (''content'', PStr (join [CHR 0x0A] (map redact_secrets selected))),
                  (''start_line'', PInt (start_idx + 1)), (''end_line'', PInt end_idx), (''total_lines'', PInt n)]))
               (end_idx < n) n (end_idx - start_idx))"

section \<open>Maps of the project\<close>

definition parent_rel :: "nav_world \<Rightarrow> string \<Rightarrow> string" where
  "parent_rel w f =
     (let ps = butlast (drop (length (path_parts (nw_root w))) (path_parts f)) in if ps = [] then ''.'' else join ''/'' ps)"

text \<open>The loop leaves after it has counted the first file too many.\<close>

definition repo_map :: "nav_world \<Rightarrow> int \<Rightarrow> nav_result" where
  "repo_map w max_files =
     (let files = walk_all_files w; seen = take (nat max_files) files;
          files_seen = min (nat max_files + 1) (length files);
          dirs = remdups (map (parent_rel w) seen);
          exts = filter (\<lambda>e. e \<noteq> []) (map (py_lower \<circ> path_suffix) seen);
          languages = foldl (\<lambda>m e. dset m e (dget_or m e 0 + 1)) [] exts :: (string, int) dict
      in nav_ok ''repo_map''
        (NavValue (PDict
          [(''root'', PStr (path_name (nw_root w))), (''directories'', PList (map PStr (take 100 (sort dirs)))),
           (''file_count'', PInt (int files_seen)), (''dir_count'', PInt (int (length dirs))),
           (''languages'', PDict (map (\<lambda>(k, n). (k, PInt n)) languages))]))
        (max_files \<le> int files_seen) (int files_seen) (int files_seen))"

section \<open>Routes and tests\<close>

definition FASTAPI_PATTERNS :: rx where
  "FASTAPI_PATTERNS =
     (let sp = Star (Cls [SpaceC]); verbs = Words [''get'', ''post'', ''put'', ''delete'', ''patch'', ''options'']
      in Alts [Seqs [Lit ''FastAPI'', sp, Lit ''('' ], Seqs [Lit ''APIRouter'', sp, Lit ''(''],
           Seq (Lit ''@app.'') verbs, Seq (Lit ''@router.'') verbs, Lit ''.include_router'', Lit ''.add_api_route''])"

definition PREFERRED_PATHS :: "string list" where
  "PREFERRED_PATHS = [''igris/web/server.py'', ''app/main.py'', ''app/server.py'', ''main.py'', ''server.py'']"

record route_file =
  rf_file :: string
  rf_routes :: "(nat \<times> string) list"
  rf_score :: pyfloat

definition route_file_of :: "nav_world \<Rightarrow> string \<Rightarrow> route_file option" where
  "route_file_of w f =
     (case nw_read w f of
        None \<Rightarrow> None
      | Some content \<Rightarrow>
          let hits = map (\<lambda>(i, l). (i + 1, redact_secrets (strip l)))
                (filter (\<lambda>(i, l). re_test True FASTAPI_PATTERNS l) (enumerate 0 (splitlines content)));
              rel = rel_path w f
          in if path_suffix f \<noteq> ''.py'' \<or> hits = [] then None
             else Some \<lparr>rf_file = rel, rf_routes = take 20 hits,
               rf_score = of_nat (length hits) / 10 + (if rel \<in> set PREFERRED_PATHS then 1 else 0) +
                 (if contains (py_lower rel) ''server'' \<or> contains (py_lower rel) ''router'' then 3/10 else 0)\<rparr>)"

definition route_file_value :: "route_file \<Rightarrow> pyval" where
  "route_file_value r = PDict
     [(''file'', PStr (rf_file r)),
      (''routes'', PList (map (\<lambda>(i, l). PDict [(''line'', PInt (int i)), (''content'', PStr l)]) (rf_routes r))),
      (''score'', PFloat (rf_score r))]"

definition discover_fastapi_routes :: "nav_world \<Rightarrow> int \<Rightarrow> nav_result" where
  "discover_fastapi_routes w max_results =
     (let found = sort_key (\<lambda>r. - rf_score r) (List.map_filter (route_file_of w) (walk_code_files w (nw_root w)));
          kept = slice_to max_results found
      in nav_ok ''discover_fastapi_routes'' (NavValue (PList (map route_file_value kept)))
        (max_results < int (length found)) (int (length found)) (int (length kept)))"

definition TEST_FILE_PATTERNS :: rx where
  "TEST_FILE_PATTERNS = Seq AtStart (Alts
     [Seqs [Lit ''test_'', Star Dot, Lit ''.py'', AtEnd], Seqs [Star Dot, Lit ''_test.py'', AtEnd],
      Seqs [Lit ''conftest.py'', AtEnd]])"

definition TEST_CONTENT_PATTERNS :: rx where
  "TEST_CONTENT_PATTERNS =
     (let sps = Plus (Cls [SpaceC]); word = Plus (Cls [WordC])
      in Grp 1 (Alts
        [Seqs [Lit ''import'', sps, Lit ''pytest''], Seqs [Lit ''from'', sps, Lit ''pytest''],
         Seqs [Lit ''import'', sps, Lit ''unittest''], Seqs [Lit ''from'', sps, Lit ''unittest''], Lit ''TestClient'',
         Seq (Lit ''@pytest.'') (Grp 2 (Words [''mark'', ''fixture''])),
         Seqs [Lit ''class'', sps, Lit ''Test'', word], Seqs [Lit ''def'', sps, Lit ''test_'', word], Lit ''/api/ping'']))"

text \<open>\<^verbatim>\<open>findall\<close> of a pattern with two groups gives pairs.\<close>

definition pair_repr :: "string \<times> string \<Rightarrow> string" where
  "pair_repr p = ''('' @ py_repr (fst p) @ '', '' @ py_repr (snd p) @ '')''"

definition content_hits :: "string \<Rightarrow> (string \<times> string) list" where
  "content_hits content =
     map (\<lambda>(skip, m, c). (dget_or c 1 [], dget_or c 2 [])) (matches_from False TEST_CONTENT_PATTERNS [] content)"

definition test_file_of :: "nav_world \<Rightarrow> string \<Rightarrow> pyval option" where
  "test_file_of w f =
     (let name = path_name f; rel = rel_path w f; named = re_test False TEST_FILE_PATTERNS name;
          dir = list_ex (\<lambda>p. p \<in> set [''tests'', ''test'', ''testing'']) (path_parts rel);
          hits = (case nw_read w f of None \<Rightarrow> [] | Some content \<Rightarrow> content_hits (take 5000 content));
          indicators = (if named then [''filename:'' @ name] else []) @ (if dir then [''in_test_directory''] else []) @
            map (\<lambda>h. ''content:'' @ pair_repr h) (take 5 hits);
          kind = (if named then ''test_file'' else if dir then ''test_dir_file'' else ''test_content'')
      in if path_suffix f \<noteq> ''.py'' \<or> indicators = [] then None
         else Some (PDict [(''file'', PStr rel), (''type'', PStr kind), (''indicators'', PList (map PStr indicators))]))"

definition discover_tests :: "nav_world \<Rightarrow> int \<Rightarrow> nav_result" where
  "discover_tests w max_results =
     (let found = List.map_filter (test_file_of w) (walk_code_files w (nw_root w)); kept = slice_to max_results found
      in nav_ok ''discover_tests'' (NavValue (PList kept)) (max_results < int (length found)) (int (length found))
        (int (length kept)))"

section \<open>What navigation shows\<close>

text \<open>What the listings and the search may name: it lies in the project as both resolve, component by component,
  and its own name is no secret one.\<close>

definition lies_in_project :: "nav_world \<Rightarrow> string \<Rightarrow> bool" where
  "lies_in_project w f \<longleftrightarrow>
     (\<exists>root rest. nw_resolve w (nw_root w) = Some root \<and> nw_resolve w f = Some (root @ rest))"

definition may_be_named :: "nav_world \<Rightarrow> string \<Rightarrow> bool" where
  "may_be_named w f \<longleftrightarrow> lies_in_project w f \<and> path_name f \<notin> set SECRET_FILES \<and>
     path_suffix f \<notin> set SKIP_EXTENSIONS \<and> \<not> is_sensitive_filename (path_name f)"

lemma safe_path_lies: "is_safe_path w f \<Longrightarrow> lies_in_project w f \<and> path_name f \<notin> set SECRET_FILES"
  by (auto simp: is_safe_path_def lies_in_project_def inside_def split: option.splits)
    (metis append_take_drop_id)

lemma kept_may_be_named: "is_safe_path w f \<Longrightarrow> \<not> should_skip_file f \<Longrightarrow> may_be_named w f"
  by (simp add: may_be_named_def should_skip_file_def safe_path_lies)

lemma walk_all_named: "f \<in> set (walk_all_files w) \<Longrightarrow> may_be_named w f"
  by (simp add: walk_all_files_def kept_may_be_named)

lemma walk_code_named:
  "f \<in> set (walk_code_files w start) \<Longrightarrow> is_safe_path w start \<or> start = nw_root w \<Longrightarrow> \<not> nw_is_file w (nw_root w) \<Longrightarrow>
   may_be_named w f \<and> is_code_file f"
  by (auto simp: walk_code_files_def kept_may_be_named split: if_splits)

lemma collect_Inr: "collect rs = Inr xs \<Longrightarrow> map Inr xs = rs"
  by (induction rs arbitrary: xs rule: collect.induct) (auto split: sum.splits)

lemma line_hits_file: "(f, i, lines) \<in> set (line_hits w test files) \<Longrightarrow>
    f \<in> set files \<and> nw_read w f \<noteq> None \<and> lines = splitlines (the (nw_read w f)) \<and> i < length lines \<and> test (lines ! i)"
  by (auto simp: line_hits_def Let_def in_set_enumerate_eq split: option.splits dest: sym)

lemma lines_before: "i < length xs \<Longrightarrow> (if 0 < ctx then drop (i - ctx) (take i xs) else []) = map ((!) xs) [i - ctx..<i]"
  by (auto intro!: nth_equalityI)

lemma lines_after:
  "(if 0 < ctx then take ctx (drop (i + 1) xs) else []) = map ((!) xs) [i + 1..<min (length xs) (i + 1 + ctx)]"
  by (auto intro!: nth_equalityI)

definition shows_line :: "string list \<Rightarrow> nat \<Rightarrow> nat \<Rightarrow> search_match \<Rightarrow> bool" where
  "shows_line lines i ctx m \<longleftrightarrow> i < length lines \<and> sm_line_number m = i + 1 \<and> sm_line_content m = lines ! i \<and>
     sm_context_before m = map ((!) lines) [i - ctx..<i] \<and>
     sm_context_after m = map ((!) lines) [i + 1..<min (length lines) (i + 1 + ctx)]"

text \<open>C24. A match of \<^verbatim>\<open>search_code\<close> or \<^verbatim>\<open>find_symbol\<close> is a real one: its file is a
  code file that resolves to a place in the project and has no name on the lists of secrets; it has the number and
  the text of a line of that file that passes the test, and as context the lines around it, as many as asked for.
  There are no more matches than the limit, and the truncation is told.\<close>

theorem search_names_only_safe_files:
  assumes "search_lines w tool test path max_results ctx = Inr r" "nr_data r = NavMatches ms"
    and "\<not> nw_is_file w (nw_root w)"
  shows "length ms \<le> nat max_results \<and> nr_returned_count r = int (length ms) \<and>
    nr_truncated r = (max_results < nr_total_count r) \<and>
    (\<forall>m \<in> set ms. \<exists>f content i. may_be_named w f \<and> is_code_file f \<and>
       relative_to f (nw_root w) = Inr (sm_file m) \<and> nw_read w f = Some content \<and>
       shows_line (splitlines content) i ctx m \<and> test (sm_line_content m))"
proof -
  define start where "start = (case path of None \<Rightarrow> nw_root w | Some [] \<Rightarrow> nw_root w | Some p \<Rightarrow> nav_join (nw_root w) p)"
  define hits where "hits = line_hits w test (walk_code_files w start)"
  have eq: "search_lines w tool test path max_results ctx =
      (if str_or path [] \<noteq> [] \<and> \<not> is_safe_path w start
       then Inr (nav_failed tool (''Path outside project root: '' @ str_or path []))
       else case collect (map (match_of w ctx) (take (nat max_results) hits)) of
         Inl e \<Rightarrow> Inl e
       | Inr ms \<Rightarrow> Inr (nav_ok tool (NavMatches ms) (max_results < int (length hits)) (int (length hits)) (int (length ms))))"
    unfolding search_lines_def Let_def hits_def start_def ..
  have ok: "\<not> (str_or path [] \<noteq> [] \<and> \<not> is_safe_path w start)"
  proof
    assume bad: "str_or path [] \<noteq> [] \<and> \<not> is_safe_path w start"
    have "r = nav_failed tool (''Path outside project root: '' @ str_or path [])"
      using eq unfolding if_P [OF bad] assms(1) by (simp only: sum.inject)
    with assms(2) show False by (simp add: nav_failed_def)
  qed
  note out = eq [unfolded if_not_P [OF ok] assms(1)]
  obtain ms' where c': "collect (map (match_of w ctx) (take (nat max_results) hits)) = Inr ms'"
    using out by (cases "collect (map (match_of w ctx) (take (nat max_results) hits))") simp_all
  have r': "r = nav_ok tool (NavMatches ms') (max_results < int (length hits)) (int (length hits)) (int (length ms'))"
    using out unfolding c' by simp
  have "ms' = ms" using assms(2) unfolding r' by (simp add: nav_ok_def)
  then have c: "collect (map (match_of w ctx) (take (nat max_results) hits)) = Inr ms"
    and r: "r = nav_ok tool (NavMatches ms) (max_results < int (length hits)) (int (length hits)) (int (length ms))"
    using c' r' by simp_all
  from ok have safe: "str_or path [] = [] \<or> is_safe_path w start" by blast
  from safe have safe: "is_safe_path w start \<or> start = nw_root w"
    by (auto simp: start_def str_or_def split: option.splits list.splits)
  from collect_Inr [OF c] have m: "map Inr ms = map (match_of w ctx) (take (nat max_results) hits)" .
  then have len: "length ms = min (length hits) (nat max_results)" by (metis length_map length_take)
  have "\<exists>f content i. may_be_named w f \<and> is_code_file f \<and> relative_to f (nw_root w) = Inr (sm_file x) \<and>
      nw_read w f = Some content \<and> shows_line (splitlines content) i ctx x \<and> test (sm_line_content x)"
    if "x \<in> set ms" for x
  proof -
    from that m have "Inr x \<in> match_of w ctx ` set (take (nat max_results) hits)"
      by (metis image_eqI image_set)
    then obtain hit where h: "hit \<in> set hits" "match_of w ctx hit = Inr x"
      by (auto dest: in_set_takeD simp del: set_map)
    obtain f i lines where hit: "hit = (f, i, lines)" using prod_cases3 by blast
    from h(1) have lh: "f \<in> set (walk_code_files w start)" "nw_read w f \<noteq> None"
        "lines = splitlines (the (nw_read w f))" "i < length lines" "test (lines ! i)"
      unfolding hit hits_def using line_hits_file by blast+
    have "may_be_named w f \<and> is_code_file f" using lh(1) safe assms(3) by (rule walk_code_named)
    moreover have "relative_to f (nw_root w) = Inr (sm_file x)" "shows_line lines i ctx x"
      using h(2) lh(4) unfolding hit match_of_def shows_line_def lines_before [OF lh(4), symmetric] lines_after [symmetric]
      by (auto split: sum.splits)
    moreover obtain content where "nw_read w f = Some content" using lh(2) by blast
    ultimately show ?thesis using lh(3,5) by (auto simp: shows_line_def)
  qed
  then show ?thesis using r len by (auto simp: nav_ok_def)
qed

text \<open>The lines from one up to another that a read shows: the last one asked for, or as many as the limit allows, or
  the last one of the file, whichever comes first.\<close>

definition last_shown :: "nat \<Rightarrow> int \<Rightarrow> int option \<Rightarrow> int \<Rightarrow> int" where
  "last_shown n start final max_lines =
     (let cap = min (int n) (max 0 (start - 1) + max_lines) in case final of None \<Rightarrow> cap | Some e \<Rightarrow> min e cap)"

lemma drop_take_nth:
  assumes "e \<le> length xs"
  shows "drop s (take e xs) = map ((!) xs) [s..<e]"
  using assms by (auto intro!: nth_equalityI)

lemma read_bounds_shown:
  assumes "0 \<le> max_lines"
  shows "read_bounds (int n) start final max_lines = (max 0 (start - 1), last_shown n start final max_lines)"
  using assms by (auto simp: read_bounds_def last_shown_def Let_def split: option.split)

text \<open>C25. Reading a range shows exactly the lines from the first to the last one asked for, cut at the end of the
  file and at the limit, each redacted, of a file that lies in the project and has no secret name; and it tells which
  lines those are, how many the file has and whether it has more. (The end is not negative; with a negative one the
  limit does not hold.)\<close>

theorem read_file_range_shows:
  assumes "read_file_range w path start final max_lines = r" "nr_success r" "0 \<le> max_lines"
    and "case final of None \<Rightarrow> True | Some e \<Rightarrow> 0 \<le> e"
  shows "\<exists>content. lies_in_project w (nav_join (nw_root w) path) \<and> path_name (nav_join (nw_root w) path) \<notin> set SECRET_FILES \<and>
    nw_read w (nav_join (nw_root w) path) = Some content \<and>
    (let lines = splitlines content; e = last_shown (length lines) start final max_lines
     in nr_data r = NavValue (PDict
          [(''path'', PStr path),
           (''content'', PStr (join [CHR 0x0A] (map (\<lambda>i. redact_secrets (lines ! i)) [nat (start - 1)..<nat e]))),
           (''start_line'', PInt (max 1 start)), (''end_line'', PInt e), (''total_lines'', PInt (int (length lines)))]) \<and>
        nr_truncated r = (e < int (length lines)))"
proof -
  let ?t = "nav_join (nw_root w) path"
  obtain content where c: "is_safe_path w ?t" "nw_read w ?t = Some content"
      "r = (let all_lines = splitlines content; n = int (length all_lines);
                 (start_idx, end_idx) = read_bounds n start final max_lines;
                 selected = drop (nat start_idx) (slice_to end_idx all_lines)
             in nav_ok ''read_file_range''
               (NavValue (PDict
                 [(''path'', PStr path), (''content'', PStr (join [CHR 0x0A] (map redact_secrets selected))),
                  (''start_line'', PInt (start_idx + 1)), (''end_line'', PInt end_idx), (''total_lines'', PInt n)]))
               (end_idx < n) n (end_idx - start_idx))"
    using assms(1,2)
    by (auto simp: read_file_range_def nav_failed_def Let_def split: if_splits option.splits)
  let ?ls = "splitlines content" and ?s = "max 0 (start - 1)"
  let ?e = "last_shown (length ?ls) start final max_lines"
  have e: "0 \<le> ?e" "?e \<le> int (length ?ls)"
    using assms(3,4) by (auto simp: last_shown_def Let_def split: option.split)
  then have "drop (nat ?s) (slice_to ?e ?ls) = map ((!) ?ls) [nat (start - 1)..<nat ?e]"
    using drop_take_nth [of "nat ?e" ?ls "nat ?s"] by (simp add: slice_to_def max_def split: if_splits)
  then have "map redact_secrets (drop (nat ?s) (slice_to ?e ?ls)) =
      map (\<lambda>i. redact_secrets (?ls ! i)) [nat (start - 1)..<nat ?e]" by simp
  moreover have "?s + 1 = max 1 start" by simp
  ultimately show ?thesis
    using c(1,2) safe_path_lies [OF c(1)]
    unfolding c(3) read_bounds_shown [OF assms(3)] Let_def prod.case
    by (intro exI [of _ content]) (simp add: nav_ok_def)
qed

definition nav_demo :: nav_world where
  "nav_demo =
     \<lparr>nw_root = ''/r'', nw_resolve = (\<lambda>p. Some (path_parts p)), nw_is_file = (\<lambda>p. p \<noteq> ''/r''), nw_is_dir = (\<lambda>p. p = ''/r''),
      nw_read = (\<lambda>p. Some (''one'' @ [CHR 0x0A] @ ''two'' @ [CHR 0x0A] @ ''three'' @ [CHR 0x0A] @ ''four'')),
      nw_walk = (\<lambda>p. [''/r/a.py'', ''/r/api_token.txt'']), nw_children = (\<lambda>p. None), nw_compile = (\<lambda>p. None)\<rparr>"

theorem search_names_only_safe_files_witness:
  "\<exists>r ms. search_code nav_demo ''TWO'' None 5 1 = Inr r \<and> nr_data r = NavMatches ms \<and>
     length ms = 1 \<and> (\<forall>m \<in> set ms. \<exists>i. shows_line [''one'', ''two'', ''three'', ''four''] i 1 m)"
proof -
  have ok: "case search_code nav_demo ''TWO'' None 5 1 of Inl _ \<Rightarrow> False | Inr r \<Rightarrow>
      (case nr_data r of NavMatches ms \<Rightarrow> length ms = 1 | _ \<Rightarrow> False)" by code_simp
  then obtain r ms where r: "search_code nav_demo ''TWO'' None 5 1 = Inr r" "nr_data r = NavMatches ms" "length ms = 1"
    by (auto split: sum.splits nav_data.splits)
  have ls: "splitlines (''one'' @ [CHR 0x0A] @ ''two'' @ [CHR 0x0A] @ ''three'' @ [CHR 0x0A] @ ''four'') =
      [''one'', ''two'', ''three'', ''four'']" by code_simp
  have nf: "\<not> nw_is_file nav_demo (nw_root nav_demo)" by (simp add: nav_demo_def)
  have t: "nw_read nav_demo p = Some (''one'' @ [CHR 0x0A] @ ''two'' @ [CHR 0x0A] @ ''three'' @ [CHR 0x0A] @ ''four'')" for p
    by (simp add: nav_demo_def)
  from search_names_only_safe_files [OF r(1) [unfolded search_code_def] r(2) nf]
  have "\<forall>m \<in> set ms. \<exists>i. shows_line [''one'', ''two'', ''three'', ''four''] i 1 m"
    unfolding ls [symmetric] t option.inject by blast
  then show ?thesis using r by (intro exI conjI) assumption+
qed

theorem read_file_range_shows_witness:
  "nr_data (read_file_range nav_demo ''a.py'' 2 (Some 3) 500) = NavValue (PDict
     [(''path'', PStr ''a.py''), (''content'', PStr (join [CHR 0x0A] [redact_secrets ''two'', redact_secrets ''three''])),
      (''start_line'', PInt 2), (''end_line'', PInt 3), (''total_lines'', PInt 4)])"
proof -
  have ls: "splitlines (''one'' @ [CHR 0x0A] @ ''two'' @ [CHR 0x0A] @ ''three'' @ [CHR 0x0A] @ ''four'') =
      [''one'', ''two'', ''three'', ''four'']" by code_simp
  have ok: "nr_success (read_file_range nav_demo ''a.py'' 2 (Some 3) 500)" by code_simp
  have t: "nw_read nav_demo p = Some (''one'' @ [CHR 0x0A] @ ''two'' @ [CHR 0x0A] @ ''three'' @ [CHR 0x0A] @ ''four'')" for p
    by (simp add: nav_demo_def)
  have e: "case Some (3 :: int) of None \<Rightarrow> True | Some e \<Rightarrow> 0 \<le> e" by simp
  have lim: "(0 :: int) \<le> 500" by simp
  have last: "last_shown 4 2 (Some 3) 500 = 3" by (simp add: last_shown_def Let_def)
  have upt: "[nat (2 - 1)..<nat 3] = [1, 2]" by (simp add: upt_rec numeral_eq_Suc)
  from read_file_range_shows [OF refl ok lim e] obtain content where
    c: "''one'' @ [CHR 0x0A] @ ''two'' @ [CHR 0x0A] @ ''three'' @ [CHR 0x0A] @ ''four'' = content"
    and r: "let lines = splitlines content; e = last_shown (length lines) 2 (Some 3) 500
     in nr_data (read_file_range nav_demo ''a.py'' 2 (Some 3) 500) = NavValue (PDict
          [(''path'', PStr ''a.py''),
           (''content'', PStr (join [CHR 0x0A] (map (\<lambda>i. redact_secrets (lines ! i)) [nat (2 - 1)..<nat e]))),
           (''start_line'', PInt (max 1 2)), (''end_line'', PInt e), (''total_lines'', PInt (int (length lines)))]) \<and>
        nr_truncated (read_file_range nav_demo ''a.py'' 2 (Some 3) 500) = (e < int (length lines))"
    unfolding t option.inject by blast
  have len: "length [''one'', ''two'', ''three'', ''four''] = 4" by simp
  have "[''one'', ''two'', ''three'', ''four''] ! 1 = ''two''" "[''one'', ''two'', ''three'', ''four''] ! 2 = ''three''"
    by (simp_all add: numeral_2_eq_2)
  with r show ?thesis unfolding c [symmetric] ls Let_def len last upt by simp
qed

text \<open>A negative end reads to that many lines before the end of the file, whatever the limit; and a start behind
  the end gives a negative count.\<close>

lemma negative_end_passes_limit:
  "nr_returned_count (read_file_range nav_demo ''a.py'' 1 (Some (- 1)) 2) = - 1 \<and>
   nr_data (read_file_range nav_demo ''a.py'' 1 (Some (- 1)) 2) = NavValue (PDict
     [(''path'', PStr ''a.py''), (''content'', PStr (''one'' @ [CHR 0x0A] @ ''two'' @ [CHR 0x0A] @ ''three'')),
      (''start_line'', PInt 1), (''end_line'', PInt (- 1)), (''total_lines'', PInt 4)])"
  by code_simp

text \<open>A name that the listings hide as sensitive can still be read.\<close>

lemma hidden_file_is_read:
  "nr_data (find_files nav_demo ''*.txt'' 5) = NavValue (PList []) \<and>
   nr_success (read_file_range nav_demo ''api_token.txt'' 1 None 500)"
  by code_simp

text \<open>The secret names are compared with the name as it is given: a link to a secret file is read.\<close>

lemma link_to_secret_is_read:
  "nr_success (read_file_range (nav_demo\<lparr>nw_resolve := (\<lambda>p. Some (if p = ''/r/notes'' then [''r'', ''.env''] else path_parts p))\<rparr>)
     ''notes'' 1 None 500)"
  by code_simp

end
