(* ===== verification/LoopState.thy ===== *)
theory LoopState
  imports EditTools MicroStep AgentAction Compactor CodeNav ActionGuard
begin

text \<open>
  \<^verbatim>\<open>agent_reasoning_loop.py\<close>: the state of a loop and what surrounds the execution of an action:
  the decision taken from the model's reply, the redirects, the guard against repetition and the store of
  tool results. What one step is given from outside is a \<open>step_io\<close>: the model's reply, what the system
  answers, what git and http say, the signal to stop. The fields of an action that the loop uses as a text or a dictionary
  are one, since the parser lets no other action through. Building the prompt, the long-term memory's retrieval,
  the heartbeat, the tracker of tools and the reflection hook have no effect on this state but what
  \<open>step_io\<close> holds. A warning sign that starts a message of the program is left out.
\<close>

section \<open>Configuration and surroundings\<close>

record orch_reply =
  or_success :: bool
  or_provider :: string
  or_model :: string
  or_profile :: string
  or_text :: string
  or_cost :: pyfloat

type_synonym tool_answer = "bool \<times> string \<times> tool_error"

record step_io =
  io_context_error :: "py_error option"
  io_prompts :: "string \<times> string"
  io_reply :: "string \<Rightarrow> string \<Rightarrow> orch_reply"
  io_fresh_id :: string
  io_now :: string
  io_clock :: pyfloat
  io_edit :: edit_env
  io_nav :: "file_tree \<Rightarrow> nav_world"
  io_audit :: audit_io
  io_http :: "string \<Rightarrow> tool_answer"
  io_diff :: "string \<Rightarrow> string \<Rightarrow> tool_answer"
  io_exists :: "string \<Rightarrow> bool"
  io_tests_dir :: bool
  io_budget_setting :: "pyval option"
  io_set_order :: "string list \<Rightarrow> string list"
  io_checkpoint_saved :: bool
  io_shutdown :: bool

record loop_config =
  lc_project_root :: string
  lc_max_steps :: int
  lc_max_consecutive_errors :: int
  lc_no_diff_steps_max :: int
  lc_role :: string
  lc_preferred_profile :: string
  lc_tool_result_budget :: int
  lc_interlocutor_id :: "string option"
  lc_is_internal_supervisor :: bool
  lc_crypto :: crypto
  lc_keys :: keys_file
  lc_profiles :: profiles_file
  lc_executable :: string
  lc_loads :: "string \<Rightarrow> pyval option"
  lc_float_repr :: "pyfloat \<Rightarrow> string"

definition LOOP_WRITE_ACTIONS :: "string list" where
  "LOOP_WRITE_ACTIONS =
     [''write_file'', ''insert_after'', ''insert_before'', ''replace_range'', ''append_file'', ''apply_patch'']"

definition READ_ONLY_REPEAT_ACTIONS :: "string list" where
  "READ_ONLY_REPEAT_ACTIONS =
     [''find_files'', ''search_code'', ''read_file_range'', ''list_dir'', ''git_status'', ''git_diff'']"

section \<open>State\<close>

datatype loop_error =
    NoLoopError | ParseFailed "action_error list" | NoActionDecided | RepeatDiagnosis string nat
  | ContractViolation string string | NotValid "action_error list" | ExecutionError edit_error
  | RaisedInStep py_error

record loop_step =
  ls_step_number :: nat
  ls_action_type :: string
  ls_action_route :: string
  ls_role :: string
  ls_reason :: pyval
  ls_parameters :: params
  ls_risk_hint :: pyval
  ls_confidence :: pyval
  ls_outcome :: string
  ls_result_summary :: pyval
  ls_result_data :: pyval
  ls_error :: loop_error

definition new_step :: "nat \<Rightarrow> string \<Rightarrow> loop_step" where
  "new_step step_num role =
     \<lparr>ls_step_number = step_num, ls_action_type = [], ls_action_route = [], ls_role = role, ls_reason = PStr [],
      ls_parameters = [], ls_risk_hint = PStr ''low'', ls_confidence = PFloat (1/2), ls_outcome = [],
      ls_result_summary = PStr [], ls_result_data = PNone, ls_error = NoLoopError\<rparr>"

datatype recent_error = ReadLoopError nat nat string | ActionFailure loop_error nat string

fun is_read_loop_error :: "recent_error \<Rightarrow> bool" where
  "is_read_loop_error (ReadLoopError k n t) = True"
| "is_read_loop_error (ActionFailure e n t) = False"

type_synonym signature = "string \<times> pyval"

record history_entry =
  hi_signature :: signature
  hi_action_type :: string
  hi_parameters :: params
  hi_outcome :: string
  hi_result_data :: pyval

record checkpoint =
  cp_step_num :: nat
  cp_world_state :: params
  cp_steps_without_write :: nat
  cp_consecutive_errors :: nat
  cp_files_modified :: "string list"
  cp_recent_errors :: "recent_error list"

record loop_state =
  al_steps :: "loop_step list"
  al_recent_errors :: "recent_error list"
  al_files_modified :: "string list"
  al_memory_items :: "(pyval \<times> pyval \<times> pyfloat) list"
  al_world_state :: params
  al_consecutive_errors :: nat
  al_steps_without_write :: nat
  al_stop_reason :: string
  al_orchestrator :: "(string \<times> string \<times> string) option"
  al_total_cost_usd :: pyfloat
  al_action_history :: "history_entry list"
  al_micro_step_state :: "micro_state option"
  al_checkpoint :: "checkpoint option"
  al_space :: workspace
  al_ran :: "child_run list"
  al_audit :: "guard_event list"

definition new_loop :: "workspace \<Rightarrow> guard_event list \<Rightarrow> loop_state" where
  "new_loop ws audit =
     \<lparr>al_steps = [], al_recent_errors = [], al_files_modified = [], al_memory_items = [], al_world_state = [],
      al_consecutive_errors = 0, al_steps_without_write = 0, al_stop_reason = [], al_orchestrator = None,
      al_total_cost_usd = 0, al_action_history = [], al_micro_step_state = None, al_checkpoint = None,
      al_space = ws, al_ran = [], al_audit = audit\<rparr>"

definition world_get :: "loop_state \<Rightarrow> string \<Rightarrow> pyval" where
  "world_get s k = dget_or (al_world_state s) k PNone"

definition world_set :: "string \<Rightarrow> pyval \<Rightarrow> loop_state \<Rightarrow> loop_state" where
  "world_set k v s = s\<lparr>al_world_state := dset (al_world_state s) k v\<rparr>"

text \<open>\<^verbatim>\<open>setdefault(k, []).append(v)\<close>\<close>

definition world_append :: "string \<Rightarrow> pyval \<Rightarrow> loop_state \<Rightarrow> py_error + loop_state" where
  "world_append k v s =
     (case dget_or (al_world_state s) k (PList []) of
        PList xs \<Rightarrow> Inr (world_set k (PList (xs @ [v])) s)
      | _ \<Rightarrow> Inl AttributeError)"

text \<open>Parts of an action.\<close>

definition act_type :: "agent_action \<Rightarrow> string" where
  "act_type a = (case aa_action_type a of PStr t \<Rightarrow> t | _ \<Rightarrow> [])"

definition act_params :: "agent_action \<Rightarrow> params" where
  "act_params a = (case aa_parameters a of PDict d \<Rightarrow> d | _ \<Rightarrow> [])"

section \<open>Decision\<close>

definition deterministic_fallback :: "string \<Rightarrow> string \<Rightarrow> string \<Rightarrow> agent_action" where
  "deterministic_fallback role fresh_id now = (new_agent_action fresh_id now)
     \<lparr>aa_mode := PStr role, aa_action_type := PStr ''blocked'',
      aa_reason := PStr ''No suitable LLM provider available'',
      aa_parameters := PDict [(''reason'', PStr ''LLM unavailable - deterministic fallback'')]\<rparr>"

text \<open>The prompts of a local model are cut when they are long; a prompt is its text and its length is counted
  in characters.\<close>

definition LOCAL_TOKEN_WARN :: nat where "LOCAL_TOKEN_WARN = 3000"
definition LOCAL_TOKEN_CAP :: nat where "LOCAL_TOKEN_CAP = 3800"

definition LOCAL_PROFILES :: "string list" where
  "LOCAL_PROFILES = [''local_light'', ''local_coder'', ''mini_execution'']"

definition window_notice :: string where
  "window_notice = CHR 0x0A # ''... [file context truncated for token budget] ...'' @ [CHR 0x0A]"

definition guard_context_window ::
    "string \<Rightarrow> string \<Rightarrow> string \<Rightarrow> loop_state \<Rightarrow> loop_state \<times> string \<times> string" where
  "guard_context_window profile system_prompt user_message s =
     (let estimate = (length system_prompt + length user_message) div 4
      in if profile \<notin> set LOCAL_PROFILES \<or> estimate \<le> LOCAL_TOKEN_WARN then (s, system_prompt, user_message)
         else
           let s1 = world_set ''context_window_warning'' (PStr (''token_estimate='' @ nat_str estimate @
                 '' > warn_threshold='' @ nat_str LOCAL_TOKEN_WARN @ '' (profile='' @ profile @ '')'')) s;
               room = int (LOCAL_TOKEN_CAP * 4) - int (length user_message) - 200
           in if estimate \<le> LOCAL_TOKEN_CAP then (s1, system_prompt, user_message)
              else if 500 < room \<and> room < int (length system_prompt) then
                (world_set ''context_window_truncated'' (PBool True) s1,
                 take (nat room) system_prompt @ window_notice, user_message)
              else (s1, system_prompt, user_message))"

definition decide_action ::
    "loop_config \<Rightarrow> step_io \<Rightarrow> loop_state \<Rightarrow>
     loop_state \<times> (py_error + agent_action option \<times> action_error list)"
where
  "decide_action cfg io s =
     (case guard_context_window (lc_preferred_profile cfg) (fst (io_prompts io)) (snd (io_prompts io)) s of
        (s0, system_prompt, user_message) \<Rightarrow>
      let r = io_reply io system_prompt user_message;
          s1 = s0\<lparr>al_total_cost_usd := al_total_cost_usd s0 + or_cost r,
                 al_orchestrator := (if or_success r \<and> al_orchestrator s0 = None
                   then Some (or_provider r, or_model r, or_profile r) else al_orchestrator s0)\<rparr>
      in if \<not> or_success r \<or> or_profile r = ''deterministic'' then
           (s1, Inr (Some (deterministic_fallback (lc_role cfg) (io_fresh_id io) (io_now io)), []))
         else (s1, case parse_llm_action (lc_loads cfg) (io_fresh_id io) (or_text r) of
             Inl e \<Rightarrow> Inl e
           | Inr (action, errors, warnings) \<Rightarrow>
               Inr (map_option (\<lambda>a. a\<lparr>aa_mode := PStr (lc_role cfg)\<rparr>) action, errors)))"

section \<open>The step planner's part\<close>

definition refresh_micro_step_context :: "loop_state \<Rightarrow> loop_state" where
  "refresh_micro_step_context s =
     (case al_micro_step_state s of
        None \<Rightarrow> s
      | Some m \<Rightarrow>
          s\<lparr>al_world_state := dupdate (dset (al_world_state s) ''micro_step_state'' (PDict (micro_to_dict m)))
              (micro_context m (next_directive (mi_current_step m)))\<rparr>)"

definition ensure_micro_step_state :: "string \<Rightarrow> loop_state \<Rightarrow> py_error + loop_state" where
  "ensure_micro_step_state goal s =
     (case al_micro_step_state s of
        Some m \<Rightarrow> Inr (refresh_micro_step_context s)
      | None \<Rightarrow>
          (case micro_initialize goal (al_world_state s) of
             Inl e \<Rightarrow> Inl e
           | Inr m \<Rightarrow> Inr (refresh_micro_step_context (s\<lparr>al_micro_step_state := Some m\<rparr>))))"

definition redirected_read :: "string \<Rightarrow> string \<Rightarrow> agent_action \<Rightarrow> string \<Rightarrow> pyval \<Rightarrow> agent_action" where
  "redirected_read fresh_id now a reason target = (new_agent_action fresh_id now)
     \<lparr>aa_mode := aa_mode a, aa_action_type := PStr ''read_file_range'',
      aa_reason := PStr (''MicroStep redirect: '' @ reason),
      aa_parameters := PDict [(''path'', target), (''start'', PInt 1), (''end'', PInt 220)],
      aa_expected_effect := aa_expected_effect a, aa_risk_hint := aa_risk_hint a, aa_confidence := aa_confidence a,
      aa_required_preconditions := aa_required_preconditions a, aa_success_check := aa_success_check a,
      aa_fallback_if_blocked := aa_fallback_if_blocked a\<rparr>"

definition maybe_redirect_micro_step_action ::
    "loop_config \<Rightarrow> step_io \<Rightarrow> nat \<Rightarrow> agent_action \<Rightarrow> loop_state \<Rightarrow> py_error + agent_action \<times> loop_state"
where
  "maybe_redirect_micro_step_action cfg io step_num a s =
     (case al_micro_step_state s of
        None \<Rightarrow> Inr (a, s)
      | Some m \<Rightarrow>
          (case should_redirect_action (lc_float_repr cfg) m (act_type a) (aa_reason a) (act_params a) of
             (False, _) \<Rightarrow> Inr (a, s)
           | (True, reason) \<Rightarrow>
               (case mi_discovered_files m of
                  [] \<Rightarrow> Inr (a, s)
                | target # _ \<Rightarrow>
                    (case world_append ''micro_step_redirects'' (PDict
                       [(''step'', PInt (int step_num)), (''from_action'', PStr (act_type a)),
                        (''to_action'', PStr ''read_file_range''), (''reason'', PStr reason)]) s of
                       Inl e \<Rightarrow> Inl e
                     | Inr s' \<Rightarrow> Inr (redirected_read (io_fresh_id io) (io_now io) a reason target,
                         world_set ''micro_step_redirect_reason'' (PStr reason) s')))))"

section \<open>A requested test file\<close>

definition values_text :: "(pyfloat \<Rightarrow> string) \<Rightarrow> params \<Rightarrow> string" where
  "values_text fr ps = join '' '' (map (\<lambda>(k, v). val_str fr v) ps)"

definition is_requested_test_discovery ::
    "(pyfloat \<Rightarrow> string) \<Rightarrow> agent_action \<Rightarrow> string \<Rightarrow> py_error + bool" where
  "is_requested_test_discovery fr a requested =
     (let haystack = values_text fr (act_params a); path = dget_or (act_params a) ''path'' PNone
      in if contains haystack (base_name requested) \<or> contains haystack requested \<or> contains haystack ''tests'' \<or>
            contains haystack ''test_'' then Inr True
         else if act_type a \<noteq> ''list_directory'' then Inr False
         else if \<not> hashable path then Inl TypeError
         else Inr (named_in path [''tests'', ''./tests'']))"

definition count_requested_test_discovery_attempts ::
    "(pyfloat \<Rightarrow> string) \<Rightarrow> history_entry list \<Rightarrow> string \<Rightarrow> nat" where
  "count_requested_test_discovery_attempts fr history requested =
     length (filter (\<lambda>h.
       hi_action_type h \<in> {''find_files'', ''search_code'', ''list_directory''} \<and>
       (let haystack = values_text fr (hi_parameters h)
        in contains haystack (base_name requested) \<or> contains haystack requested \<or> contains haystack ''tests'')) history)"

definition lists_tests :: "(pyfloat \<Rightarrow> string) \<Rightarrow> pyval \<Rightarrow> bool" where
  "lists_tests fr v =
     (case v of PList xs \<Rightarrow> list_ex (\<lambda>x. starts (val_str fr x) ''tests/'') xs | _ \<Rightarrow> False)"

definition tests_directory_known :: "loop_config \<Rightarrow> step_io \<Rightarrow> loop_state \<Rightarrow> py_error + bool" where
  "tests_directory_known cfg io s =
     (let fr = lc_float_repr cfg
      in if lists_tests fr (world_get s ''discovered_files'') \<or> lists_tests fr (world_get s ''search_matched_files'')
         then Inr True
         else case py_iter (dget_or (al_world_state s) ''tool_result_history'' (PList [])) of
           Inl e \<Rightarrow> Inl e
         | Inr items \<Rightarrow>
             Inr (list_ex (\<lambda>i. case i of PDict d \<Rightarrow> lists_tests fr (dget_or d ''data'' PNone) | _ \<Rightarrow> False) items \<or>
               io_tests_dir io))"

definition GOAL_ENDPOINT_RE :: rx where
  "GOAL_ENDPOINT_RE = Seq (Lit ''/api/'') (Plus (Cls
     [Rng (CHR ''A'') (CHR ''Z''), Rng (CHR ''a'') (CHR ''z''), Rng (CHR ''0'') (CHR ''9''), Ch (CHR ''_''),
      Ch (CHR ''.''), Ch (CHR ''/''), Ch (CHR ''-'')]))"

definition extract_endpoint_from_goal :: "string \<Rightarrow> string" where
  "extract_endpoint_from_goal goal =
     (case re_match_text False GOAL_ENDPOINT_RE goal of
        None \<Rightarrow> ''/api/rank/status''
      | Some m \<Rightarrow> rev (dropWhile (\<lambda>c. c \<in> set ''.,'' \<or> c \<in> {CHR 0x60, CHR 0x27, CHR 0x22}) (rev m)))"

definition extract_expected_json :: "string \<Rightarrow> pyval option" where
  "extract_expected_json endpoint =
     (if endpoint = ''/api/rank/status'' then Some (PDict
        [(''rank_system'', PStr ''E-D-C-B-A-S''), (''current_rank'', PStr ''B''), (''last_passed'', PStr ''B''),
         (''next_rank'', PStr ''A''), (''status'', PStr ''ready_for_rank_a'')])
      else if endpoint = ''/api/version-info'' then Some (PDict [(''app'', PStr ''IGRIS_GPT''), (''status'', PStr ''ok'')])
      else None)"

definition nl :: string where "nl = [CHR 0x0A]"

definition build_requested_test_file_content :: "(pyfloat \<Rightarrow> string) \<Rightarrow> string \<Rightarrow> string \<Rightarrow> string" where
  "build_requested_test_file_content fr goal requested =
     (let endpoint = extract_endpoint_from_goal goal; base = base_name requested; q = [CHR 0x22];
          test_name = take (length base - length (split_ext base)) base;
          top = ''from fastapi.testclient import TestClient'' @ nl @ nl @
            ''from igris.web.server import create_app'' @ nl @ nl @ nl;
          body = ''    client = TestClient(create_app())'' @ nl @
            ''    response = client.get('' @ q @ endpoint @ q @ '')'' @ nl @ nl @
            ''    assert response.status_code == 200'' @ nl
      in case extract_expected_json endpoint of
           Some expected \<Rightarrow> top @ ''def '' @ test_name @ ''_endpoint():'' @ nl @ body @
             ''    assert response.json() == '' @ val_repr fr expected @ nl
         | None \<Rightarrow> top @ ''def '' @ test_name @ ''_endpoint_available():'' @ nl @ body)"

definition test_file_action :: "loop_config \<Rightarrow> step_io \<Rightarrow> string \<Rightarrow> string \<Rightarrow> agent_action \<Rightarrow> agent_action" where
  "test_file_action cfg io goal requested a = (new_agent_action (io_fresh_id io) (io_now io))
     \<lparr>aa_mode := PStr (lc_role cfg), aa_action_type := PStr ''write_file'',
      aa_reason := PStr (''Create explicitly requested dedicated test file '' @ base_name requested @
        '' after test discovery showed where tests belong.''),
      aa_parameters := PDict [(''path'', PStr requested),
        (''content'', PStr (build_requested_test_file_content (lc_float_repr cfg) goal requested))],
      aa_expected_effect := PStr (''Create '' @ requested @ '' with endpoint coverage''),
      aa_risk_hint := PStr ''low'',
      aa_confidence := (case py_number (aa_confidence a) of
          Some c \<Rightarrow> if c < 4/5 then PFloat (4/5) else aa_confidence a | None \<Rightarrow> aa_confidence a)\<rparr>"

definition redirect_repeated_test_discovery ::
    "loop_config \<Rightarrow> step_io \<Rightarrow> string \<Rightarrow> agent_action \<Rightarrow> loop_state \<Rightarrow> py_error + agent_action \<times> loop_state" where
  "redirect_repeated_test_discovery cfg io goal a s =
     (case world_get s ''must_create_test_file'' of
        PStr requested \<Rightarrow>
          if \<not> starts requested ''tests/test_'' \<or> \<not> ends_with requested ''.py'' \<or>
             io_exists io (os_join (lc_project_root cfg) requested) \<or>
             act_type a \<notin> {''find_files'', ''search_code'', ''list_directory''}
          then Inr (a, s)
          else
            (case is_requested_test_discovery (lc_float_repr cfg) a requested of
               Inl e \<Rightarrow> Inl e
             | Inr False \<Rightarrow> Inr (a, s)
             | Inr True \<Rightarrow>
                 (case tests_directory_known cfg io s of
                    Inl e \<Rightarrow> Inl e
                  | Inr known \<Rightarrow>
                      if count_requested_test_discovery_attempts (lc_float_repr cfg) (al_action_history s) requested < 1 \<and>
                         \<not> known
                      then Inr (a, s)
                      else Inr (test_file_action cfg io goal requested a,
                        world_set ''rank_test_creation_redirected'' (PDict
                          [(''from_action'', PStr (act_type a)), (''requested_test_file'', PStr requested),
                           (''reason'', PStr ''consume_test_discovery'')]) s)))
      | _ \<Rightarrow> Inr (a, s))"

section \<open>Repetition\<close>

text \<open>Two dictionaries print alike with sorted keys when they are equal up to the order of their keys: the
  signature holds the parameters with all dictionaries sorted.\<close>

function (sequential) sorted_value :: "pyval \<Rightarrow> pyval" where
  "sorted_value (PList xs) = PList (map sorted_value xs)"
| "sorted_value (PDict d) = PDict (sort_key fst (map (\<lambda>(k, w). (k, sorted_value w)) d))"
| "sorted_value v = v"
  by pat_completeness auto
termination
proof (relation "measure size", goal_cases)
  case (2 xs x)
  then show ?case using size_list_estimation' [of x xs "size x" size] by simp
next
  case (3 d x k w)
  then have x: "x = (k, w)" "(k, w) \<in> set d" by auto
  then have "size_prod (\<lambda>_. 0) size (k, w) \<le> size_list (size_prod (\<lambda>_. 0) size) d"
    by (intro size_list_estimation' [of "(k, w)"]) (simp_all only: x(2) order.refl)
  then have "size w < size (PDict d)" by simp
  then show ?case using 3 by simp
qed simp

definition action_signature :: "string \<Rightarrow> params \<Rightarrow> signature" where
  "action_signature action_type ps = (action_type, sorted_value (PDict ps))"

fun text_values :: "pyval list \<Rightarrow> string list" where
  "text_values [] = []"
| "text_values (PStr s # vs) = s # text_values vs"
| "text_values (v # vs) = text_values vs"

definition result_paths :: "pyval \<Rightarrow> string list" where
  "result_paths data =
     (case data of
        PList items \<Rightarrow> concat (map (\<lambda>i. case i of
          PStr s \<Rightarrow> [s] | PDict d \<Rightarrow> text_values (map snd d) | _ \<Rightarrow> []) items)
      | PDict d \<Rightarrow> text_values (map snd d)
      | _ \<Rightarrow> [])"

definition was_result_consumed :: "pyval \<Rightarrow> history_entry list \<Rightarrow> bool" where
  "was_result_consumed data history \<longleftrightarrow>
     truthy data \<and>
     list_ex (\<lambda>h. list_ex (\<lambda>v. list_ex (contains v) (result_paths data)) (text_values (map snd (hi_parameters h)))) history"

definition repeat_threshold :: nat where "repeat_threshold = 2"

definition succeeded_as :: "signature \<Rightarrow> history_entry \<Rightarrow> bool" where
  "succeeded_as sig h \<longleftrightarrow> hi_signature h = sig \<and> hi_outcome h = ''success''"

text \<open>The diagnosis names the action and how often it came.\<close>

definition check_anti_repeat :: "loop_state \<Rightarrow> string \<Rightarrow> params \<Rightarrow> loop_error option" where
  "check_anti_repeat s action_type ps =
     (let sig = action_signature action_type ps; history = al_action_history s;
          repeats = filter (succeeded_as sig) history;
          data = hi_result_data (List.last repeats);
          later = rev (takeWhile (\<lambda>h. \<not> succeeded_as sig h) (rev history))
      in if length repeats < repeat_threshold then None
         else if truthy data \<and> was_result_consumed data later then None
         else Some (RepeatDiagnosis action_type (length repeats)))"

definition record_action_history :: "string \<Rightarrow> params \<Rightarrow> string \<Rightarrow> pyval \<Rightarrow> loop_state \<Rightarrow> loop_state" where
  "record_action_history action_type ps outcome data s =
     s\<lparr>al_action_history := al_action_history s @
        [\<lparr>hi_signature = action_signature action_type ps, hi_action_type = action_type, hi_parameters = ps,
          hi_outcome = outcome, hi_result_data = data\<rparr>]\<rparr>"

definition suppress_human_gate :: "loop_state \<Rightarrow> bool" where
  "suppress_human_gate s \<longleftrightarrow> truthy (world_get s ''must_not_ask_user'') \<or> truthy (world_get s ''suppress_human_gate'')"

section \<open>Tool results\<close>

definition matched_file :: "pyval \<Rightarrow> pyval" where
  "matched_file m = (case m of PDict d \<Rightarrow> dget_or d ''file'' (PStr []) | _ \<Rightarrow> PStr [])"

definition store_tool_result ::
    "step_io \<Rightarrow> string \<Rightarrow> pyval \<Rightarrow> loop_state \<Rightarrow> loop_state \<times> py_error option" where
  "store_tool_result io action_type data s =
     (let entry = PDict [(''action_type'', PStr action_type), (''data'', data)];
          s1 = world_set ''last_tool_result'' entry s
      in case world_append ''tool_result_history'' entry s1 of
           Inl e \<Rightarrow> (s1, Some e)
         | Inr s2 \<Rightarrow>
             let s3 = (case world_get s2 ''tool_result_history'' of
                   PList xs \<Rightarrow> if 5 < length xs then world_set ''tool_result_history'' (PList (slice_from (- 5) xs)) s2 else s2
                 | _ \<Rightarrow> s2)
             in (case data of
                   PList items \<Rightarrow>
                     if action_type = ''find_files'' then (world_set ''discovered_files'' data s3, None)
                     else if action_type = ''search_code'' then
                       (if list_all (hashable \<circ> matched_file) items
                        then (world_set ''search_matched_files'' (PList (map PStr
                           (filter (\<lambda>f. f \<noteq> []) (io_set_order io (remdups (text_values (map matched_file items)))))) ) s3, None)
                        else (s3, Some TypeError))
                     else (s3, None)
                 | _ \<Rightarrow> (s3, None)))"

end
