(* ===== verification/LoopStep.thy ===== *)
theory LoopStep
  imports LoopState
begin

text \<open>
  One step of \<^verbatim>\<open>agent_reasoning_loop.py\<close>: how an action is chosen, the guards it passes, the
  dispatch to the tools and to the navigator, and what is recorded of the result. The steps run the modelled
  operations themselves: the guard, the edits, the tool runtime, the navigator and the compactor. A stage
  returns the state and the step it has changed and whether the step goes on. The branches for templates,
  commits and staging exist in the dispatch but no action that the schema knows is routed to them. The lesson
  that a breach of contract leaves in the memory graph is not modelled.
\<close>

section \<open>The tool runtime\<close>

text \<open>A runtime is made anew for each action; the files and the child processes are the loop's.\<close>

definition loop_runtime :: "loop_config \<Rightarrow> loop_state \<Rightarrow> tool_runtime" where
  "loop_runtime cfg s =
     \<lparr>tl_project_root = lc_project_root cfg, tl_approval_mode = ''safe'', tl_authorized_hosts = [],
      tl_host_registry = [], tl_mission_allowlist = [], tl_space = al_space s, tl_ran = al_ran s\<rparr>"

definition keep_runtime :: "tool_runtime \<Rightarrow> loop_state \<Rightarrow> loop_state" where
  "keep_runtime t s = s\<lparr>al_space := tl_space t, al_ran := tl_ran t\<rparr>"

definition exec_outcome :: "bool \<Rightarrow> string \<Rightarrow> edit_error option \<Rightarrow> pyval option \<Rightarrow> edit_result" where
  "exec_outcome success summary err data =
     \<lparr>ex_success = success, ex_summary = summary, ex_error = err, ex_result_data = data\<rparr>"

definition of_tool_result :: "nat \<Rightarrow> string \<Rightarrow> bool \<Rightarrow> tool_result \<Rightarrow> edit_result" where
  "of_tool_result n empty_text with_data tr =
     exec_outcome (tx_success tr) (if tx_output tr \<noteq> [] then take n (tx_output tr) else empty_text)
       (Some (ToolFailed (tx_error tr))) (if with_data then Some (PStr (tx_output tr)) else None)"

definition of_answer :: "nat \<Rightarrow> string \<Rightarrow> bool \<Rightarrow> tool_answer \<Rightarrow> edit_result" where
  "of_answer n empty_text with_data answer = (case answer of (ok, output, err) \<Rightarrow>
     exec_outcome ok (if output \<noteq> [] then take n output else empty_text) (Some (ToolFailed err))
       (if with_data then Some (PStr output) else None))"

definition normalize_run_test_args :: "(pyfloat \<Rightarrow> string) \<Rightarrow> params \<Rightarrow> string list option" where
  "normalize_run_test_args fr ps =
     (let args = dget_or ps ''args'' PNone; target = dget_or ps ''target'' PNone
      in if truthy args then
           (case args of PStr s \<Rightarrow> shlex_split s | PList xs \<Rightarrow> Some (map (val_str fr) xs) | v \<Rightarrow> Some [val_str fr v])
         else if \<not> truthy target then Some []
         else (case target of PStr s \<Rightarrow> Some [s] | PList xs \<Rightarrow> Some (map (val_str fr) xs) | v \<Rightarrow> Some [val_str fr v]))"

fun guard_reason_text :: "guard_reason \<Rightarrow> string" where
  "guard_reason_text NonSensitive = ''non-sensitive''"
| "guard_reason_text UnknownInterlocutor = ''unknown or untrusted interlocutor - access denied by default''"
| "guard_reason_text (GateReason r) = reason_code r"

definition guard_refusal :: "string \<Rightarrow> guard_reason \<Rightarrow> edit_result" where
  "guard_refusal action_type r =
     exec_outcome False (''Blocked by ActionGuard: '' @ guard_reason_text r)
       (Some (EditMessage (''ActionGuard denied '' @ in_quotes action_type @ '': '' @ guard_reason_text r))) None"

definition execute_propose_patch :: "loop_config \<Rightarrow> step_io \<Rightarrow> params \<Rightarrow> edit_result" where
  "execute_propose_patch cfg io ps =
     (let path = dget_or ps ''path'' (PStr []); content = dget_or ps ''content'' (PStr [])
      in if \<not> truthy path then edit_failed (EditMessage (''propose_patch: missing '' @ in_quotes ''path''))
         else case (path, content) of
           (PStr p, PStr c) \<Rightarrow> of_answer 300 ''No diff output'' True (io_diff io (os_join (lc_project_root cfg) p) c)
         | _ \<Rightarrow> edit_failed EditRaised)"

text \<open>Lists of texts; anything else makes the call raise.\<close>

definition text_list :: "pyval \<Rightarrow> string list option" where
  "text_list v = (case v of PList xs \<Rightarrow> as_strings xs | _ \<Rightarrow> None)"

text \<open>Staging files: the answer of the first command is a dictionary, whose return code is read as an attribute,
  so the loop over the files raises after its first \<^verbatim>\<open>git add\<close>. Nothing when it raises.\<close>

definition first_item :: "pyval \<Rightarrow> string option" where
  "first_item files = (case files of
     PList (PStr f # _) \<Rightarrow> Some f | PStr (c # _) \<Rightarrow> Some [c] | PDict ((k, _) # _) \<Rightarrow> Some k | _ \<Rightarrow> None)"

definition git_add_files :: "tool_os \<Rightarrow> tool_runtime \<Rightarrow> pyval \<Rightarrow> tool_runtime \<times> string list option" where
  "git_add_files os t files = (case first_item files of
     None \<Rightarrow> (t, None)
   | Some f \<Rightarrow> (fst (run_subprocess os t [''git'', ''add'', f] None 10 []), None))"

text \<open>The branches of the dispatch that call the runtime itself. Nothing when the type is no branch.\<close>

definition runtime_branch ::
    "loop_config \<Rightarrow> step_io \<Rightarrow> tool_runtime \<Rightarrow> string \<Rightarrow> params \<Rightarrow> tool_runtime \<times> edit_result" where
  "runtime_branch cfg io t action_type ps =
     (let os = ed_os (io_edit io); exe = lc_executable cfg
      in if action_type = ''git_status'' then
           map_prod id (of_tool_result 200 ''No output'' True) (git_status os t [] [])
         else if action_type = ''git_diff'' then
           map_prod id (of_tool_result 200 ''No diff'' True)
             (git_diff os t (truthy (dget_or ps ''staged'' (PBool False))) [] [])
         else if action_type = ''run_tests'' then
           (case normalize_run_test_args (lc_float_repr cfg) ps of
              None \<Rightarrow> (t, edit_failed EditRaised)
            | Some args \<Rightarrow> map_prod id (of_tool_result 500 ''No output'' True) (run_tests os exe t args [] []))
         else if action_type = ''http_check'' then
           (case dget_or ps ''url'' (PStr []) of
              PStr url \<Rightarrow> (t, of_answer 200 ''No response'' False (io_http io url))
            | _ \<Rightarrow> (t, edit_failed EditRaised))
         else if action_type = ''propose_patch'' then (t, execute_propose_patch cfg io ps)
         else if action_type = ''shell_template'' then
           (case (dget_or ps ''command_id'' (PStr []), text_list (dget_or ps ''args'' (PList []))) of
              (PStr cmd, Some args) \<Rightarrow>
                map_prod id (of_tool_result 200 ''No output'' False) (shell_execute os exe t cmd args None 30 [] [])
            | _ \<Rightarrow> (t, edit_failed EditRaised))
         else if action_type = ''git_commit'' then
           (case (py_or (dget_or ps ''message'' PNone) (py_or (dget_or ps ''commit_message'' PNone)
                 (PStr ''feat: reasoning loop implementation'')),
               text_list (py_or (dget_or ps ''files'' PNone) (PList []))) of
              (PStr msg, Some fs) \<Rightarrow> map_prod id (of_tool_result 400 ''No output'' True) (git_commit os t msg fs None [] [])
            | _ \<Rightarrow> (t, edit_failed EditRaised))
         else if action_type = ''git_add'' then
           (case git_add_files os t (py_or (dget_or ps ''files'' PNone) (py_or (dget_or ps ''paths'' PNone)
                (PList [py_or (dget_or ps ''path'' PNone) (py_or (dget_or ps ''file'' PNone) (PStr ''.''))]))) of
              (t', Some results) \<Rightarrow>
                (t', exec_outcome (list_all (\<lambda>r. contains r ''ok'') results) (join ''; '' results) None None)
            | (t', None) \<Rightarrow> (t', edit_failed EditRaised))
         else if action_type = ''raw_shell_proposal'' then
           (t, exec_outcome False ''Blocked: raw shell requires risk gate'' (Some (EditMessage
             (''Raw shell proposals must pass through Command Risk Engine. Use shell_template or structured '' @
              ''tools instead.''))) None)
         else (t, edit_failed (EditMessage (''Tool runtime action not yet integrated: '' @ action_type))))"

definition execute_tool_runtime ::
    "loop_config \<Rightarrow> step_io \<Rightarrow> string \<Rightarrow> params \<Rightarrow> loop_state \<Rightarrow> loop_state \<times> edit_result" where
  "execute_tool_runtime cfg io action_type ps s =
     (case guard_action (lc_crypto cfg) (lc_keys cfg) (io_audit io) (io_clock io) (lc_profiles cfg) (al_audit s)
             (lc_interlocutor_id cfg) (lc_is_internal_supervisor cfg) action_type of
        (audit, allowed, reason) \<Rightarrow>
          let s1 = s\<lparr>al_audit := audit\<rparr>; t = loop_runtime cfg s1
          in if \<not> allowed then (s1, guard_refusal action_type reason)
             else case edit_handler action_type of
               Some f \<Rightarrow>
                 (case f ((io_edit io)\<lparr>ed_root := lc_project_root cfg\<rparr>) t (al_files_modified s1) ps of
                    (t', modified, r) \<Rightarrow> (keep_runtime t' s1\<lparr>al_files_modified := modified\<rparr>, r))
             | None \<Rightarrow>
                 (case runtime_branch cfg io t action_type ps of (t', r) \<Rightarrow> (keep_runtime t' s1, r)))"

section \<open>Navigation\<close>

text \<open>A parameter that must be a number where it is compared, and an index. A float as an index
  and a limit that is not finite are taken to raise.\<close>

definition limit_of :: "pyval \<Rightarrow> int option" where
  "limit_of v = map_option ceiling (py_number v)"

definition index_of :: "pyval \<Rightarrow> int option" where
  "index_of v = (case v of PInt i \<Rightarrow> Some i | PBool b \<Rightarrow> Some (if b then 1 else 0) | _ \<Rightarrow> None)"

text \<open>An optional path: a false value is none.\<close>

definition nav_start :: "pyval \<Rightarrow> string option option" where
  "nav_start v = (if \<not> truthy v then Some None else case v of PStr p \<Rightarrow> Some (Some p) | _ \<Rightarrow> None)"

definition nav_call :: "nav_world \<Rightarrow> string \<Rightarrow> params \<Rightarrow> py_error + nav_result" where
  "nav_call w action_type ps =
     (if action_type = ''search_code'' then
        (case (dget_or ps ''pattern'' (PStr []), nav_start (dget_or ps ''path'' PNone),
             limit_of (dget_or ps ''max_results'' (PInt 50))) of
           (PStr pattern, Some path, Some limit) \<Rightarrow> search_code w pattern path limit 0
         | _ \<Rightarrow> Inl TypeError)
      else if action_type = ''find_files'' then
        (case (dget_or ps ''pattern'' (PStr []), limit_of (dget_or ps ''max_results'' (PInt 100))) of
           (PStr pattern, Some limit) \<Rightarrow> Inr (find_files w pattern limit)
         | (_, Some limit) \<Rightarrow> if walk_all_files w = [] then Inr (find_files w [] limit) else Inl TypeError
         | _ \<Rightarrow> Inl TypeError)
      else if action_type = ''list_directory'' then
        (case dget_or ps ''path'' (PStr ''.'') of
           PStr path \<Rightarrow>
             (case limit_of (dget_or ps ''depth'' (PInt 1)) of
                Some depth \<Rightarrow> list_directory w path depth 200
              | None \<Rightarrow>
                  (case list_directory w path 0 200 of
                     Inr r \<Rightarrow> if nr_success r then Inl TypeError else Inr r | Inl e \<Rightarrow> Inl e))
         | _ \<Rightarrow> Inl TypeError)
      else
        (case dget_or ps ''path'' (PStr []) of
           PStr path \<Rightarrow>
             let final = dget_or ps ''end'' PNone
             in if \<not> nr_success (read_file_range w path 1 None MAX_READ_LINES)
                then Inr (read_file_range w path 1 None MAX_READ_LINES)
                else (case (index_of (dget_or ps ''start'' (PInt 1)), index_of final) of
                  (Some a, Some b) \<Rightarrow> Inr (read_file_range w path a (Some b) MAX_READ_LINES)
                | (Some a, None) \<Rightarrow>
                    if final = PNone then Inr (read_file_range w path a None MAX_READ_LINES) else Inl TypeError
                | _ \<Rightarrow> Inl TypeError)
         | _ \<Rightarrow> Inl TypeError))"

fun nav_loop_data :: "nav_data \<Rightarrow> pyval" where
  "nav_loop_data NavNone = PNone"
| "nav_loop_data (NavMatches ms) = PList (map search_match_to_dict ms)"
| "nav_loop_data (NavValue v) = v"

definition nav_summary :: "step_io \<Rightarrow> string \<Rightarrow> nav_result \<Rightarrow> string" where
  "nav_summary io action_type r =
     action_type @ '': '' @ int_str (nr_total_count r) @ '' results'' @
     (case nr_data r of
        NavValue (PList xs) \<Rightarrow>
          if action_type = ''find_files'' \<and> xs \<noteq> [] then ''; files: '' @ list_repr (text_values (take 10 xs)) else []
      | NavMatches ms \<Rightarrow>
          if ms \<noteq> [] then ''; in files: '' @ list_repr (take 5 (io_set_order io (remdups (map sm_file ms)))) else []
      | _ \<Rightarrow> [])"

definition execute_navigation :: "step_io \<Rightarrow> nav_world \<Rightarrow> string \<Rightarrow> params \<Rightarrow> edit_result" where
  "execute_navigation io w action_type ps =
     (if action_type \<notin> {''search_code'', ''find_files'', ''list_directory'', ''read_file_range''} then
        edit_failed (EditMessage (''Unknown nav action: '' @ action_type))
      else case nav_call w action_type ps of
        Inl e \<Rightarrow> edit_failed EditRaised
      | Inr r \<Rightarrow>
          exec_outcome (nr_success r) (nav_summary io action_type r) (Some (EditMessage (nr_error r)))
            (if nr_success r \<and> nr_data r \<noteq> NavNone then Some (nav_loop_data (nr_data r)) else None))"
section \<open>One step\<close>

text \<open>The routes. Recording a memory keeps the item even when its text cannot be cut for the summary.\<close>

definition content_prefix :: "pyval \<Rightarrow> pyval option" where
  "content_prefix v = (case v of PStr c \<Rightarrow> Some (PStr (take 100 c)) | PList xs \<Rightarrow> Some (PList (take 100 xs)) | _ \<Rightarrow> None)"

definition execute_memory_record ::
    "loop_config \<Rightarrow> step_io \<Rightarrow> params \<Rightarrow> loop_state \<Rightarrow> loop_state \<times> (py_error + edit_result)" where
  "execute_memory_record cfg io ps s =
     (let event_type = dget_or ps ''event_type'' (PStr ''decision''); content = dget_or ps ''content'' (PStr []);
          s1 = s\<lparr>al_memory_items := al_memory_items s @ [(event_type, content, io_clock io)]\<rparr>
      in (s1, case content_prefix content of
           None \<Rightarrow> Inl TypeError
         | Some short \<Rightarrow> Inr (exec_outcome True
             (''Recorded '' @ val_str (lc_float_repr cfg) event_type @ '': '' @ val_str (lc_float_repr cfg) short) None None)))"

definition execute_plan_update ::
    "loop_config \<Rightarrow> params \<Rightarrow> loop_state \<Rightarrow> loop_state \<times> edit_result" where
  "execute_plan_update cfg ps s =
     (let updates = dget_or ps ''updates'' (PStr [])
      in (world_set ''last_plan_update'' updates s,
          exec_outcome True (''Plan updated: '' @ take 100 (val_str (lc_float_repr cfg) updates)) None None))"

definition loop_execute_action ::
    "loop_config \<Rightarrow> step_io \<Rightarrow> string \<Rightarrow> params \<Rightarrow> string \<Rightarrow> loop_state \<Rightarrow> loop_state \<times> (py_error + edit_result)" where
  "loop_execute_action cfg io action_type ps route s =
     (if route = ''code_navigation'' then
        (s, Inr (execute_navigation io (io_nav io (ws_files (al_space s))) action_type ps))
      else if route = ''tool_runtime'' then map_prod id Inr (execute_tool_runtime cfg io action_type ps s)
      else if route = ''command_risk_engine'' then
        (s, Inr (exec_outcome False ''Blocked: raw shell requires Command Risk Engine'' (Some (EditMessage
          ''Command Risk Engine not yet available (Epic #63). Raw shell proposals are blocked.'')) None))
      else if route = ''mission_controller'' then map_prod id Inr (execute_plan_update cfg ps s)
      else if route = ''memory'' then execute_memory_record cfg io ps s
      else if route = ''human_gate'' then
        (s, Inr (exec_outcome True (''Asking user: '' @
          val_str (lc_float_repr cfg) (dget_or ps ''question'' (PStr []))) None None))
      else if route = ''terminal'' then
        (s, Inr (exec_outcome True (val_str (lc_float_repr cfg)
          (dget_or ps ''summary'' (dget_or ps ''reason'' (PStr ''Terminal action'')))) None None))
      else (s, Inr (edit_failed (EditMessage (''Unknown route: '' @ route)))))"

text \<open>A stage of a step goes on, ends the step, or raises; what it changed stays.\<close>

datatype flow = GoOn | EndStep | Raise py_error

type_synonym progress = "loop_state \<times> loop_step \<times> flow"

definition and_then :: "progress \<Rightarrow> (loop_state \<Rightarrow> loop_step \<Rightarrow> progress) \<Rightarrow> progress" where
  "and_then p f = (case p of (s, st, GoOn) \<Rightarrow> f s st | _ \<Rightarrow> p)"

fun diagnosis_text :: "loop_error \<Rightarrow> string" where
  "diagnosis_text (RepeatDiagnosis t n) =
     ''Anti-repeat guard: '' @ in_quotes t @ '' with identical parameters already succeeded '' @ nat_str n @
     '' time(s) without its results being consumed by a downstream action. Strategy shift required.''"
| "diagnosis_text _ = []"

definition anti_repeat_stage :: "string \<Rightarrow> params \<Rightarrow> loop_state \<Rightarrow> loop_step \<Rightarrow> progress" where
  "anti_repeat_stage action_type ps s st =
     (case check_anti_repeat s action_type ps of
        None \<Rightarrow> (s, st, GoOn)
      | Some diagnosis \<Rightarrow>
          let retryable = action_type \<in> set READ_ONLY_REPEAT_ACTIONS;
              s1 = world_set ''anti_repeat_diagnosis'' (PStr (diagnosis_text diagnosis))
                (world_set ''anti_repeat_triggered'' (PBool True) s)
          in (if retryable then world_set ''anti_repeat_retryable'' (PBool True) s1 else s1,
              st\<lparr>ls_outcome := (if retryable then ''skipped'' else ''blocked''), ls_error := diagnosis,
                 ls_result_summary := PStr (''Governor anti-repeat: identical action repeated without consuming previous '' @
                   ''results. Use the results from the previous execution or choose a different action.'')\<rparr>, EndStep))"

definition contract_stage :: "loop_config \<Rightarrow> string \<Rightarrow> loop_state \<Rightarrow> loop_step \<Rightarrow> progress" where
  "contract_stage cfg action_type s st =
     (if validate_agent_action (lc_role cfg) action_type then (s, st, GoOn)
      else (s, st\<lparr>ls_outcome := ''skipped'', ls_error := ContractViolation (lc_role cfg) action_type,
           ls_result_summary := PStr (''Action '' @ in_quotes action_type @ '' is not permitted for role '' @
             in_quotes (lc_role cfg) @ ''. Choose an allowed action instead.'')\<rparr>, EndStep))"

definition validation_stage :: "agent_action \<Rightarrow> loop_state \<Rightarrow> loop_step \<Rightarrow> progress" where
  "validation_stage a s st =
     (case validate_action a of
        Inl e \<Rightarrow> (s, st, Raise e)
      | Inr v \<Rightarrow>
          if validation_result.vr_valid v then (s, st, GoOn)
          else (s, st\<lparr>ls_outcome := ''failure'', ls_error := NotValid (validation_result.vr_errors v)\<rparr>, EndStep))"

text \<open>A text result is compacted, then cut to the budget.\<close>

definition limited_result :: "loop_config \<Rightarrow> step_io \<Rightarrow> string \<Rightarrow> pyval \<Rightarrow> py_error + pyval" where
  "limited_result cfg io action_type data =
     (case data of
        PStr text \<Rightarrow>
          (case py_int (case io_budget_setting io of None \<Rightarrow> PInt (lc_tool_result_budget cfg) | Some v \<Rightarrow> v) of
             None \<Rightarrow> Inl TypeError
           | Some budget \<Rightarrow>
               Inr (PStr (fst (apply_tool_result_budget (compress compactor_defaults text action_type) budget))))
      | _ \<Rightarrow> Inr data)"

definition result_stage ::
    "loop_config \<Rightarrow> step_io \<Rightarrow> string \<Rightarrow> edit_result \<Rightarrow> loop_state \<Rightarrow> loop_step \<Rightarrow> progress" where
  "result_stage cfg io action_type r s st =
     (case ex_result_data r of
        None \<Rightarrow> (s, st, GoOn)
      | Some data \<Rightarrow>
          (case limited_result cfg io action_type data of
             Inl e \<Rightarrow> (s, st, Raise e)
           | Inr data' \<Rightarrow>
               (case store_tool_result io action_type data' s of
                  (s1, err) \<Rightarrow> (s1, st\<lparr>ls_result_data := data'\<rparr>, case err of None \<Rightarrow> GoOn | Some e \<Rightarrow> Raise e))))"

definition is_ast_validation_write_failure :: "string \<Rightarrow> edit_error option \<Rightarrow> bool" where
  "is_ast_validation_write_failure action_type e \<longleftrightarrow> action_type \<in> set LOOP_WRITE_ACTIONS \<and>
     (case e of None \<Rightarrow> False | Some x \<Rightarrow> contains (error_text x) ''Python AST validation failed'')"

definition failure_stage :: "nat \<Rightarrow> string \<Rightarrow> edit_result \<Rightarrow> loop_state \<Rightarrow> loop_step \<Rightarrow> progress" where
  "failure_stage step_num action_type r s st =
     (if ex_success r then (s, st, GoOn)
      else
        let e = (case ex_error r of None \<Rightarrow> EditMessage ''Execution failed'' | Some x \<Rightarrow> x);
            ast = is_ast_validation_write_failure action_type (Some e);
            st1 = st\<lparr>ls_error := ExecutionError e\<rparr>;
            st2 = (if ast then st1\<lparr>ls_outcome := ''blocked'', ls_result_summary := PStr
              (''Python AST validation blocked a write action; stopping to avoid accumulating unsafe edits.'')\<rparr> else st1);
            s1 = (if ast then world_set ''ast_validation_blocked'' (PBool True) s else s)
        in (s1\<lparr>al_recent_errors := al_recent_errors s1 @ [ActionFailure (ls_error st2) step_num action_type]\<rparr>, st2, GoOn))"

definition terminal_stage :: "string \<Rightarrow> params \<Rightarrow> loop_state \<Rightarrow> loop_step \<Rightarrow> progress" where
  "terminal_stage action_type ps s st =
     (s, if action_type = ''finish'' then
           st\<lparr>ls_outcome := ''finish'', ls_result_summary := dget_or ps ''summary'' (PStr ''Mission complete'')\<rparr>
         else if action_type = ''blocked'' then
           st\<lparr>ls_outcome := ''blocked'', ls_result_summary := dget_or ps ''reason'' (PStr ''Cannot proceed'')\<rparr>
         else if action_type = ''ask_user'' then
           st\<lparr>ls_outcome := ''ask_user'', ls_result_summary := dget_or ps ''question'' (PStr ''Need input'')\<rparr>
         else st, GoOn)"

definition proposal_stage :: "string \<Rightarrow> params \<Rightarrow> edit_result \<Rightarrow> loop_state \<Rightarrow> loop_step \<Rightarrow> progress" where
  "proposal_stage action_type ps r s st =
     (let path = dget_or ps ''path'' (PStr [])
      in if action_type = ''propose_patch'' \<and> ex_success r \<and> truthy path then
           (case world_append ''proposed_patches'' path s of Inl e \<Rightarrow> (s, st, Raise e) | Inr s1 \<Rightarrow> (s1, st, GoOn))
         else (s, st, GoOn))"

definition observation :: "string \<Rightarrow> edit_result \<Rightarrow> pyval \<Rightarrow> params" where
  "observation action_type r data =
     (''success'', PBool (ex_success r)) #
     (case data of
        PList xs \<Rightarrow> if action_type \<in> {''find_files'', ''search_code''}
          then [(''discovered_files'', PList (map PStr (text_values xs)))] else []
      | _ \<Rightarrow> [])"

definition planner_stage ::
    "loop_config \<Rightarrow> string \<Rightarrow> params \<Rightarrow> edit_result \<Rightarrow> loop_state \<Rightarrow> loop_step \<Rightarrow> progress" where
  "planner_stage cfg action_type ps r s st =
     (case al_micro_step_state s of
        None \<Rightarrow> (s, st, GoOn)
      | Some m \<Rightarrow>
          (refresh_micro_step_context (s\<lparr>al_micro_step_state := Some (update_after_action (lc_float_repr cfg) m action_type ps
              (observation action_type r (ls_result_data st)))\<rparr>), st, GoOn))"

text \<open>From the execution to the end of the step.\<close>

definition execution_stage ::
    "loop_config \<Rightarrow> step_io \<Rightarrow> nat \<Rightarrow> string \<Rightarrow> params \<Rightarrow> loop_state \<Rightarrow> loop_step \<Rightarrow> progress" where
  "execution_stage cfg io step_num action_type ps s st =
     (let route = get_action_route action_type; st = st\<lparr>ls_action_route := route\<rparr>
      in case loop_execute_action cfg io action_type ps route s of
           (s1, Inl e) \<Rightarrow> (s1, st, Raise e)
         | (s1, Inr r) \<Rightarrow>
             and_then (and_then (and_then (and_then (and_then
               (result_stage cfg io action_type r s1
                  (st\<lparr>ls_outcome := (if ex_success r then ''success'' else ''failure''),
                      ls_result_summary := PStr (ex_summary r)\<rparr>))
               (\<lambda>s st. (if action_type = ''ask_user'' \<and> suppress_human_gate s then s
                  else record_action_history action_type ps (ls_outcome st) (ls_result_data st) s, st, GoOn)))
               (failure_stage step_num action_type r))
               (terminal_stage action_type ps))
               (proposal_stage action_type ps r))
               (planner_stage cfg action_type ps r))"

definition perform ::
    "loop_config \<Rightarrow> step_io \<Rightarrow> nat \<Rightarrow> agent_action \<Rightarrow> loop_state \<Rightarrow> loop_step \<Rightarrow> progress" where
  "perform cfg io step_num a s st =
     (let action_type = act_type a; ps = act_params a;
          st = st\<lparr>ls_action_type := action_type, ls_reason := aa_reason a, ls_parameters := ps,
                  ls_risk_hint := aa_risk_hint a, ls_confidence := aa_confidence a\<rparr>
      in and_then (and_then (and_then (anti_repeat_stage action_type ps s st)
           (contract_stage cfg action_type)) (validation_stage a))
           (execution_stage cfg io step_num action_type ps))"

text \<open>Before an action is performed: the planner's state, the context, the decision and the redirects.\<close>

definition choose_action ::
    "loop_config \<Rightarrow> step_io \<Rightarrow> nat \<Rightarrow> string \<Rightarrow> loop_state \<Rightarrow>
     loop_state \<times> (loop_error + agent_action)"
where
  "choose_action cfg io step_num goal s =
     (case ensure_micro_step_state goal s of
        Inl e \<Rightarrow> (s, Inl (RaisedInStep e))
      | Inr s1 \<Rightarrow>
          (case io_context_error io of
             Some e \<Rightarrow> (s1, Inl (RaisedInStep e))
           | None \<Rightarrow>
               (case decide_action cfg io s1 of
                  (s2, Inl e) \<Rightarrow> (s2, Inl (RaisedInStep e))
                | (s2, Inr (None, errors)) \<Rightarrow>
                    (s2, Inl (if errors \<noteq> [] then ParseFailed errors else NoActionDecided))
                | (s2, Inr (Some a, errors)) \<Rightarrow>
                    (case redirect_repeated_test_discovery cfg io goal a s2 of
                       Inl e \<Rightarrow> (s2, Inl (RaisedInStep e))
                     | Inr (a3, s3) \<Rightarrow>
                         (case maybe_redirect_micro_step_action cfg io step_num a3 s3 of
                            Inl e \<Rightarrow> (s3, Inl (RaisedInStep e))
                          | Inr (a4, s4) \<Rightarrow> (s4, Inr a4))))))"

definition execute_step ::
    "loop_config \<Rightarrow> step_io \<Rightarrow> nat \<Rightarrow> string \<Rightarrow> loop_state \<Rightarrow> loop_state \<times> loop_step" where
  "execute_step cfg io step_num goal s =
     (let st = new_step step_num (lc_role cfg)
      in case choose_action cfg io step_num goal s of
           (s1, Inl e) \<Rightarrow>
             (s1, st\<lparr>ls_outcome := (case e of RaisedInStep _ \<Rightarrow> ''error'' | _ \<Rightarrow> ''failure''), ls_error := e\<rparr>)
         | (s1, Inr a) \<Rightarrow>
             (case perform cfg io step_num a s1 st of
                (s2, st2, Raise e) \<Rightarrow> (s2, st2\<lparr>ls_outcome := ''error'', ls_error := RaisedInStep e\<rparr>)
              | (s2, st2, _) \<Rightarrow> (s2, st2)))"

end
