(* ===== verification/LoopRun.thy ===== *)
theory LoopRun
  imports LoopStep
begin

text \<open>
  The run of \<^verbatim>\<open>agent_reasoning_loop.py\<close> with the checkpoint of
  \<^verbatim>\<open>loop_checkpoint_manager.py\<close>: at most \<^verbatim>\<open>max_steps\<close> steps, each after the stop
  conditions, with the count of steps without a write, the warnings and the automatic commit it leads to, and
  what each outcome does to the result. The checkpoint of the run's mission is one field; where the signal to
  stop comes is the step's input, and whether the checkpoint can be deleted at the end is the run's. Durations, the mission brain's shadow record, the callback and
  the printed summary are left out.
\<close>

section \<open>Around a step\<close>

record reasoning_result =
  lr_status :: string
  lr_stop_reason :: string
  lr_steps :: "loop_step list"
  lr_total_steps :: nat
  lr_successful_steps :: nat
  lr_failed_steps :: nat
  lr_files_modified :: "string list"
  lr_errors :: "loop_error list"
  lr_cost :: pyfloat

definition new_result :: reasoning_result where
  "new_result =
     \<lparr>lr_status = ''running'', lr_stop_reason = [], lr_steps = [], lr_total_steps = 0, lr_successful_steps = 0,
      lr_failed_steps = 0, lr_files_modified = [], lr_errors = [], lr_cost = 0\<rparr>"

definition check_stop_conditions :: "loop_config \<Rightarrow> nat \<Rightarrow> loop_state \<Rightarrow> string option" where
  "check_stop_conditions cfg step_num s =
     (if lc_max_steps cfg < int step_num then Some ''max_steps''
      else if lc_max_consecutive_errors cfg \<le> int (al_consecutive_errors s) then Some ''budget_exceeded''
      else if lc_no_diff_steps_max cfg \<le> int (al_steps_without_write s) then Some ''no_diff_repair''
      else if al_stop_reason s \<noteq> [] then Some (al_stop_reason s)
      else None)"

definition world_pop :: "string \<Rightarrow> loop_state \<Rightarrow> loop_state" where
  "world_pop k s = s\<lparr>al_world_state := ddel (al_world_state s) k\<rparr>"

definition count_write :: "nat \<Rightarrow> loop_step \<Rightarrow> loop_state \<Rightarrow> loop_state" where
  "count_write files_before st s =
     (if files_before < length (al_files_modified s) \<or> ls_action_type st \<in> set LOOP_WRITE_ACTIONS
      then world_pop ''READ_LOOP_WARNING'' (s\<lparr>al_steps_without_write := 0\<rparr>)
      else s\<lparr>al_steps_without_write := al_steps_without_write s + 1\<rparr>)"

definition read_loop_message :: "nat \<Rightarrow> string" where
  "read_loop_message n =
     ''READ LOOP: '' @ nat_str n @ '' consecutive read-only steps. STOP READING. WRITE or COMMIT a file NOW. '' @
     ''If a dependency is missing, CREATE it. If you have implementation files, stage and commit them immediately.''"

definition drop_read_loop_errors :: "loop_state \<Rightarrow> loop_state" where
  "drop_read_loop_errors s = s\<lparr>al_recent_errors := filter (\<lambda>e. \<not> is_read_loop_error e) (al_recent_errors s)\<rparr>"

definition warn_read_loop :: "nat \<Rightarrow> loop_step \<Rightarrow> loop_state \<Rightarrow> loop_state" where
  "warn_read_loop step_num st s =
     (let n = al_steps_without_write s
      in if 8 \<le> n then
           let s1 = world_set ''READ_LOOP_WARNING'' (PStr (read_loop_message n)) s
           in if 15 \<le> n then
                (drop_read_loop_errors s1)\<lparr>al_recent_errors :=
                   al_recent_errors (drop_read_loop_errors s1) @ [ReadLoopError step_num n (ls_action_type st)]\<rparr>
              else s1
         else if ''READ_LOOP_WARNING'' \<in> set (dkeys (al_world_state s)) then drop_read_loop_errors s
         else s)"

text \<open>The automatic commit starts git itself: three commands in the project, with the environment as it is. A
  command that does not end in time or cannot be started ends it.\<close>

definition untracked_files :: "string \<Rightarrow> string list" where
  "untracked_files porcelain =
     map (drop 3) (filter (\<lambda>l. starts l ''?? '' \<and> (starts (drop 3 l) ''igris/'' \<or> starts (drop 3 l) ''tests/''))
       (splitlines porcelain))"

definition commit_command ::
    "loop_config \<Rightarrow> step_io \<Rightarrow> string list \<Rightarrow> loop_state \<Rightarrow> loop_state \<times> (int \<times> string) option" where
  "commit_command cfg io cmd s =
     (let os = ed_os (io_edit io)
      in case tv_child os cmd (path_str (lc_project_root cfg)) (tv_environ os) (ws_files (al_space s)) of
           (files', outcome) \<Rightarrow>
             (s\<lparr>al_space := (al_space s)\<lparr>ws_files := files'\<rparr>,
                al_ran := al_ran s @ [(cmd, path_str (lc_project_root cfg), tv_environ os)]\<rparr>,
              case outcome of Exited rc out err ms \<Rightarrow> Some (rc, out) | _ \<Rightarrow> None))"

definition auto_committed :: "string list \<Rightarrow> loop_state \<Rightarrow> loop_state" where
  "auto_committed files s =
     drop_read_loop_errors (world_set ''auto_committed'' (PStr (''Auto-committed '' @
         nat_str (length files) @ '' file(s): '' @ join '', '' (take 3 files)))
       (world_pop ''READ_LOOP_WARNING'' (s\<lparr>al_steps_without_write := 0\<rparr>)))"

definition auto_commit :: "loop_config \<Rightarrow> step_io \<Rightarrow> loop_state \<Rightarrow> loop_state" where
  "auto_commit cfg io s =
     (if 20 \<le> al_steps_without_write s \<and> al_steps_without_write s mod 10 = 0 then
        (case commit_command cfg io [''git'', ''status'', ''--porcelain''] s of
           (s1, None) \<Rightarrow> s1
         | (s1, Some (_, porcelain)) \<Rightarrow>
             let files = untracked_files porcelain
             in if files = [] then s1
                else case commit_command cfg io ([''git'', ''add''] @ files) s1 of
                  (s2, None) \<Rightarrow> s2
                | (s2, Some _) \<Rightarrow>
                    (case commit_command cfg io [''git'', ''commit'', ''-m'',
                         ''feat: auto-committed by read-loop guard after '' @
                           nat_str (al_steps_without_write s) @ '' read-only steps''] s2 of
                       (s3, Some (rc, _)) \<Rightarrow> if rc = 0 then auto_committed files s3 else s3
                     | (s3, None) \<Rightarrow> s3))
      else s)"

definition save_checkpoint :: "step_io \<Rightarrow> nat \<Rightarrow> loop_state \<Rightarrow> loop_state" where
  "save_checkpoint io step_num s =
     (if io_checkpoint_saved io then
        s\<lparr>al_checkpoint := Some
          \<lparr>cp_step_num = step_num, cp_world_state = al_world_state s,
           cp_steps_without_write = al_steps_without_write s, cp_consecutive_errors = al_consecutive_errors s,
           cp_files_modified = al_files_modified s, cp_recent_errors = slice_from (- 5) (al_recent_errors s)\<rparr>\<rparr>
      else s)"

definition load_checkpoint :: "loop_state \<Rightarrow> checkpoint option" where
  "load_checkpoint s = al_checkpoint s"

text \<open>A file that cannot be deleted stays; the run catches the error.\<close>

definition clear_checkpoint :: "bool \<Rightarrow> loop_state \<Rightarrow> loop_state" where
  "clear_checkpoint deletes s = (if deletes then s\<lparr>al_checkpoint := None\<rparr> else s)"

text \<open>Everything from the step to the checkpoint.\<close>

definition take_step ::
    "loop_config \<Rightarrow> step_io \<Rightarrow> nat \<Rightarrow> string \<Rightarrow> loop_state \<Rightarrow> loop_state \<times> loop_step" where
  "take_step cfg io step_num goal s =
     (case execute_step cfg io step_num goal s of
        (s1, st) \<Rightarrow>
          let s2 = auto_commit cfg io (warn_read_loop step_num st (count_write (length (al_files_modified s)) st s1))
          in (save_checkpoint io step_num (s2\<lparr>al_steps := al_steps s2 @ [st]\<rparr>), st))"

section \<open>The run\<close>

text \<open>What a step's outcome does to the result; the flag says whether the loop ends. The step is one object in both lists.\<close>

definition replace_last :: "'a \<Rightarrow> 'a list \<Rightarrow> 'a list" where
  "replace_last x xs = butlast xs @ [x]"

definition track_outcome :: "loop_step \<Rightarrow> loop_state \<Rightarrow> reasoning_result \<Rightarrow> loop_state \<times> reasoning_result \<times> bool" where
  "track_outcome st s r =
     (if ls_outcome st = ''success'' then
        (s\<lparr>al_consecutive_errors := 0\<rparr>, r\<lparr>lr_successful_steps := lr_successful_steps r + 1\<rparr>, False)
      else if ls_outcome st \<in> {''failure'', ''error''} then
        (s\<lparr>al_consecutive_errors := al_consecutive_errors s + 1\<rparr>,
         r\<lparr>lr_failed_steps := lr_failed_steps r + 1, lr_errors := lr_errors r @ [ls_error st]\<rparr>, False)
      else if ls_outcome st = ''ask_user'' \<and> suppress_human_gate s then
        (s\<lparr>al_steps := replace_last (st\<lparr>ls_outcome := ''skipped''\<rparr>) (al_steps s)\<rparr>,
         r\<lparr>lr_steps := replace_last (st\<lparr>ls_outcome := ''skipped''\<rparr>) (lr_steps r)\<rparr>, False)
      else if ls_outcome st \<in> {''blocked'', ''finish'', ''ask_user''} then
        (s, r\<lparr>lr_stop_reason := ls_outcome st,
             lr_status := (if ls_outcome st = ''finish'' then ''finished'' else ''blocked'')\<rparr>, True)
      else (s, r, False))"

fun run_loop ::
    "loop_config \<Rightarrow> (nat \<Rightarrow> step_io) \<Rightarrow> string \<Rightarrow> nat list \<Rightarrow> loop_state \<Rightarrow> reasoning_result \<Rightarrow> loop_state \<times> reasoning_result"
where
  "run_loop cfg io goal [] s r = (s, r\<lparr>lr_stop_reason := ''max_steps'', lr_status := ''stopped''\<rparr>)"
| "run_loop cfg io goal (n # ns) s r =
     (case check_stop_conditions cfg n s of
        Some stop \<Rightarrow>
          (s, r\<lparr>lr_stop_reason := stop, lr_status := (if stop = ''finish'' then ''finished'' else ''stopped'')\<rparr>)
      | None \<Rightarrow>
          (case take_step cfg (io n) n goal s of
             (s1, st) \<Rightarrow>
               if io_shutdown (io n) then (s1, r\<lparr>lr_stop_reason := ''graceful_shutdown'', lr_status := ''stopped''\<rparr>)
               else (case track_outcome st s1 (r\<lparr>lr_steps := lr_steps r @ [st]\<rparr>) of
                 (s2, r2, ends) \<Rightarrow> if ends then (s2, r2) else run_loop cfg io goal ns s2 r2)))"

text \<open>What the run is given at its start: nothing, a dictionary, or any other value.\<close>

definition apply_initial_context :: "loop_config \<Rightarrow> pyval \<Rightarrow> loop_state \<Rightarrow> loop_state" where
  "apply_initial_context cfg context s =
     (case context of
        PNone \<Rightarrow> s
      | PDict d \<Rightarrow> s\<lparr>al_world_state := dupdate (al_world_state s) d\<rparr>
      | v \<Rightarrow> world_set ''note'' (PStr (val_str (lc_float_repr cfg) v)) s)"

text \<open>The number of long-term memories found, or nothing when that memory cannot be asked.\<close>

definition hydrate_long_term_memory :: "nat option \<Rightarrow> loop_state \<Rightarrow> loop_state" where
  "hydrate_long_term_memory hits s =
     (case hits of
        None \<Rightarrow> s
      | Some n \<Rightarrow>
          if truthy (world_get s ''ltm_hydrated'') then s
          else world_set ''ltm_items_loaded'' (PInt (int n)) (world_set ''ltm_hydrated'' (PBool True) s))"

definition close_result :: "loop_state \<Rightarrow> reasoning_result \<Rightarrow> reasoning_result" where
  "close_result s r = r
     \<lparr>lr_total_steps := length (lr_steps r), lr_files_modified := remdups (al_files_modified s),
      lr_cost := al_total_cost_usd s\<rparr>"

definition run ::
    "loop_config \<Rightarrow> (nat \<Rightarrow> step_io) \<Rightarrow> bool \<Rightarrow> string \<Rightarrow> pyval \<Rightarrow> nat option \<Rightarrow> loop_state \<Rightarrow>
     py_error + loop_state \<times> reasoning_result"
where
  "run cfg io deletes goal context ltm_hits s =
     (case ensure_micro_step_state goal (hydrate_long_term_memory ltm_hits (apply_initial_context cfg context s)) of
        Inl e \<Rightarrow> Inl e
      | Inr s1 \<Rightarrow>
          (case run_loop cfg io goal [1..<nat (lc_max_steps cfg) + 1] s1 new_result of
             (s2, r) \<Rightarrow> Inr (clear_checkpoint deletes s2, close_result s2 r)))"

end
