(* ===== verification/EditTheorems.thy ===== *)
theory EditTheorems
  imports EditTools ToolSafety
begin

text \<open>
  What the edits of \<^verbatim>\<open>agent_loop_edit_mixin.py\<close> keep and what they refuse, for the whole
  operations as the reasoning loop dispatches to them.
\<close>

section \<open>Edits around the old text\<close>



definition only_differs :: "string set \<Rightarrow> tool_runtime \<Rightarrow> tool_runtime \<Rightarrow> bool" where
  "only_differs ps t t' \<longleftrightarrow> (\<forall>q. q \<notin> ps \<longrightarrow> dget (ws_files (tl_space t')) q = dget (ws_files (tl_space t)) q)"





definition text_before :: "edit_env \<Rightarrow> tool_runtime \<Rightarrow> string \<Rightarrow> string" where
  "text_before ev t p = (case read_text_file t (os_join (ed_root ev) p) of None \<Rightarrow> [] | Some x \<Rightarrow> x)"




















section \<open>Whole files\<close>

definition runtime_backup_path :: "edit_env \<Rightarrow> tool_runtime \<Rightarrow> string \<Rightarrow> string" where
  "runtime_backup_path ev t p =
     path_str (backup_dir (path_str (tl_project_root t)) @ ''/'' @ ed_hex_name ev @ ''_'' @ path_name (path_str p))"

text \<open>\<open>write_passes\<close>: what has to hold of a new text for it to be written.\<close>

definition write_passes :: "edit_env \<Rightarrow> tool_runtime \<Rightarrow> string \<Rightarrow> string \<Rightarrow> bool" where
  "write_passes ev t p c \<longleftrightarrow>
     write_guards (ed_os ev) t (os_join (ed_root ev) p) c \<and> validate_python_ast (ed_parse ev) p c = None \<and>
     (case read_text_file t (os_join (ed_root ev) p) of
        None \<Rightarrow> True | Some x \<Rightarrow> \<not> destructive_write p x c \<and> removed_symbols (ed_parse ev) p x c = [])"

lemma write_file_text_cases:
  assumes "write_file_text ev t modified p c = (t', modified', r)"
  shows "t' = t \<and>
       (if ex_success r then map_option (ed_sha ev) (read_text_file t (os_join (ed_root ev) p)) = Some (ed_sha ev c) else modified' = modified) \<or>
     write_passes ev t p c \<and> only_differs {path_str (os_join (ed_root ev) p), runtime_backup_path ev t (os_join (ed_root ev) p)} t t' \<and>
       copied (runtime_backup_path ev t (os_join (ed_root ev) p)) (path_str (os_join (ed_root ev) p)) t t' \<and>
       (if ex_success r then modified' = modified @ [p] \<and> dget (ws_files (tl_space t')) (path_str (os_join (ed_root ev) p)) = Some c
        else modified' = modified \<and> \<not> tv_write_ok (ed_os ev) (path_str (os_join (ed_root ev) p)))"
proof -
  let ?full = "os_join (ed_root ev) p"
  let ?x = "read_text_file t ?full"
  let ?s = "''Written '' @ nat_str (length c) @ '' chars to '' @ p @ '' (hash: '' @
    take 8 (str_or (map_option (ed_sha ev) ?x) ''new'') @ ''->'' @ take 8 (ed_sha ev c) @ '')''"
  obtain t2 tr where w: "fs_write (ed_os ev) t ?full c True (ed_hex_name ev) (ed_hex_id ev) (ed_gmt ev) [] [] = (t2, tr)"
    by fastforce
  note eff = fs_write_effect [of "ed_os ev" t ?full c True "ed_hex_name ev" "ed_hex_id ev" "ed_gmt ev" "[]" "[]",
      unfolded w fst_conv snd_conv, folded runtime_backup_path_def]
  consider (same) "map_option (ed_sha ev) ?x = Some (ed_sha ev c)"
    | (bad) s e where "(t', modified', r) = (t, modified, edit_blocked e s)"
    | (written) "map_option (ed_sha ev) ?x \<noteq> Some (ed_sha ev c)" "validate_python_ast (ed_parse ev) p c = None"
      "case ?x of None \<Rightarrow> True | Some x \<Rightarrow> \<not> destructive_write p x c \<and> removed_symbols (ed_parse ev) p x c = []"
    using assms unfolding write_file_text_def Let_def
    by (auto split: if_splits option.splits)
  then show ?thesis
  proof cases
    case same
    then show ?thesis using assms by (auto simp: write_file_text_def Let_def edit_done_def)
  next
    case bad
    then show ?thesis by (simp add: edit_blocked_def only_differs_def)
  next
    case written
    have nd: "\<not> (case ?x of None \<Rightarrow> False | Some x \<Rightarrow> destructive_write p x c)"
      "(case ?x of None \<Rightarrow> [] | Some x \<Rightarrow> removed_symbols (ed_parse ev) p x c) = []"
      using written(3) by (auto split: option.splits)
    have d: "tx_success tr \<Longrightarrow> dget (ws_files (tl_space t2)) (path_str ?full) = Some c" using eff by simp
    have "write_file_text ev t modified p c = (if \<not> tx_success tr
        then (t2, modified, edit_blocked (ToolFailed (tx_error tr)) ''write_file failed'')
        else (t2, modified @ [p], edit_done ?s
          (Some (write_data p c (ed_sha ev c)))))"
      unfolding write_file_text_def Let_def if_not_P [OF written(1)] if_not_P [OF nd(1)] nd(2) written(2)
        w prod.case option.case
      by (cases "tx_success tr") (simp_all add: d)
    with assms have out: "(t', modified', r) = (if \<not> tx_success tr
        then (t2, modified, edit_blocked (ToolFailed (tx_error tr)) ''write_file failed'')
        else (t2, modified @ [p], edit_done ?s
          (Some (write_data p c (ed_sha ev c)))))" by simp
    show ?thesis
    proof (cases "write_guards (ed_os ev) t ?full c")
      case False
      then have "\<not> tx_success tr" "t2 = t"
        using eff fs_write_refused [OF False, of True "ed_hex_name ev" "ed_hex_id ev" "ed_gmt ev" "[]" "[]"] w by auto
      with out show ?thesis by (simp add: edit_blocked_def)
    next
      case True
      have "write_passes ev t p c" using True written(2,3) by (simp add: write_passes_def)
      moreover have "only_differs {path_str ?full, runtime_backup_path ev t ?full} t t2"
        "copied (runtime_backup_path ev t ?full) (path_str ?full) t t2"
        using eff True by (auto simp: only_differs_def)
      ultimately show ?thesis using out eff True by (cases "tx_success tr") (simp_all add: edit_done_def edit_blocked_def)
    qed
  qed
qed

text \<open>C12. Writing a whole file, also through \<^verbatim>\<open>apply_patch\<close>: whatever changes a file passed every guard, changes the
  named file alone and copies it to its backup; a success then holds the given content and is listed, and a
  failure is the system's. Where nothing changes, a success means that the text that was there has the hash of the
  given one, and a failure is not listed.\<close>

theorem write_file_is_guarded:
  assumes "act \<in> {''write_file'', ''apply_patch''}" "edit_handler act = Some f" "f ev t modified ps = (t', modified', r)"
  shows "t' = t \<and> \<not> ex_success r \<and> modified' = modified \<or>
    (\<exists>p c full. dget ps ''path'' = Some (PStr p) \<and> dget_or ps ''content'' (PStr []) = PStr c \<and>
       full = os_join (ed_root ev) p \<and>
       (t' = t \<and> ex_success r \<and> map_option (ed_sha ev) (read_text_file t full) = Some (ed_sha ev c) \<or>
        write_passes ev t p c \<and> only_differs {path_str full, runtime_backup_path ev t full} t t' \<and>
        copied (runtime_backup_path ev t full) (path_str full) t t' \<and>
        (if ex_success r then modified' = modified @ [p] \<and> dget (ws_files (tl_space t')) (path_str full) = Some c
         else modified' = modified \<and> \<not> tv_write_ok (ed_os ev) (path_str full))))"
proof -
  have edit: "dget ps ''path'' = Some v" if "dget_or ps ''path'' (PStr []) = v" "truthy v" for v
    using that by (auto simp: dget_or_def split: option.splits)
  have f: "f = execute_write_file \<or> f = execute_apply_patch" using assms(1,2) by (auto simp: edit_handler_def)
  have inner: "dget_or [(''path'', v), (''content'', w)] ''path'' d = v"
    "dget_or [(''path'', v), (''content'', w)] ''content'' d = w" for v w d :: pyval
    by (simp_all add: dget_or_def)
  have whole: "(\<exists>e. (t', modified', r) = (t, modified, edit_failed e)) \<or>
      (\<exists>p c. dget ps ''path'' = Some (PStr p) \<and> dget_or ps ''content'' (PStr []) = PStr c \<and>
        write_file_text ev t modified p c = (t', modified', r))"
    if "execute_write_file ev t modified [(''path'', dget_or ps ''path'' (PStr [])),
        (''content'', dget_or ps ''content'' (PStr []))] = (t', modified', r)"
    using that unfolding execute_write_file_def edit_raised_def Let_def inner
    by (auto split: if_splits pyval.splits dest: edit)
  have "execute_write_file ev t modified ps = execute_write_file ev t modified
      [(''path'', dget_or ps ''path'' (PStr [])), (''content'', dget_or ps ''content'' (PStr []))]"
    unfolding execute_write_file_def inner ..
  with assms f have "(\<exists>e. (t', modified', r) = (t, modified, edit_failed e)) \<or>
      execute_write_file ev t modified [(''path'', dget_or ps ''path'' (PStr [])),
        (''content'', dget_or ps ''content'' (PStr []))] = (t', modified', r)"
    by (auto simp: execute_apply_patch_def Let_def split: if_splits)
  with whole consider (bad) e where "(t', modified', r) = (t, modified, edit_failed e)"
    | (given) p c where "dget ps ''path'' = Some (PStr p)" "dget_or ps ''content'' (PStr []) = PStr c"
      "write_file_text ev t modified p c = (t', modified', r)"
    by blast
  then show ?thesis
  proof cases
    case bad
    then show ?thesis by (simp add: edit_failed_def)
  next
    case given
    with write_file_text_cases [OF given(3)] show ?thesis by (auto split: if_splits)
  qed
qed

section \<open>Runs\<close>

definition demo_edit :: edit_env where
  "demo_edit =
     \<lparr>ed_os = quiet_os\<lparr>tv_resolve := (\<lambda>p. Some (if p = ''/etc/motd'' then [''etc'', ''motd''] else [''work'']))\<rparr>,
      ed_root = ''.'', ed_hex_name = ''0a'', ed_hex_id = ''01'', ed_gmt = ''now'', ed_parse = (\<lambda>s. Inl ''bad''),
      ed_sha = (\<lambda>s. s)\<rparr>"

definition demo_tools :: tool_runtime where
  "demo_tools = safe_tools\<lparr>tl_space := \<lparr>ws_files = [(''notes.txt'', ''old''), (''.env'', ''A=1''), (''/etc/motd'', ''hi'')],
     ws_entries = []\<rparr>\<rparr>"

definition add_after :: "string \<Rightarrow> string \<Rightarrow> params" where
  "add_after path anchor =
     [(''path'', PStr path), (''anchor'', PStr anchor), (''content'', PStr ''more'')]"




theorem write_file_is_guarded_witness:
  "\<exists>t' r. execute_write_file demo_edit demo_tools [] (add_after ''notes.txt'' []) = (t', [''notes.txt''], r) \<and>
     write_passes demo_edit demo_tools ''notes.txt'' ''more'' \<and>
     dget (ws_files (tl_space t')) ''notes.txt'' = Some ''more''"
proof -
  let ?ps = "add_after ''notes.txt'' []"
  obtain t' m r where out: "execute_write_file demo_edit demo_tools [] ?ps = (t', m, r)"
    using prod_cases3 by blast
  have ok: "(let (t', m, r) = execute_write_file demo_edit demo_tools [] ?ps in m = [''notes.txt''] \<and> ex_success r)"
    by code_simp
  with out have m: "m = [''notes.txt'']" "ex_success r" by simp_all
  have act: "''write_file'' \<in> {''write_file'', ''apply_patch''}" "edit_handler ''write_file'' = Some execute_write_file"
    by (simp_all add: edit_handler_def)
  have p: "dget ?ps ''path'' = Some (PStr ''notes.txt'')" "dget_or ?ps ''content'' (PStr []) = PStr ''more''"
    "path_str (os_join (ed_root demo_edit) ''notes.txt'') = ''notes.txt''"
    "map_option (ed_sha demo_edit) (read_text_file demo_tools (os_join (ed_root demo_edit) ''notes.txt'')) \<noteq>
       Some (ed_sha demo_edit ''more'')"
    by code_simp+
  from write_file_is_guarded [OF act out, unfolded p(1,2) option.inject pyval.inject] m(2)
  have "write_passes demo_edit demo_tools ''notes.txt'' ''more'' \<and>
      dget (ws_files (tl_space t')) (path_str (os_join (ed_root demo_edit) ''notes.txt'')) = Some ''more''"
    using p(4) by auto
  then show ?thesis unfolding p(3) using out m(1) by blast
qed

text \<open>The safe edits ask neither whether the path is inside the project nor whether the file is secret;
  \<^verbatim>\<open>write_file\<close> refuses both.\<close>

lemma edits_reach_secrets:
  "list_all (\<lambda>p. case execute_append_file demo_edit demo_tools [] (add_after p []) of
      (t', m, r) \<Rightarrow> ex_success r \<and> m = [p]) [''.env'', ''/etc/motd''] \<and>
   list_all (\<lambda>p. case execute_write_file demo_edit demo_tools [] (add_after p []) of
      (t', m, r) \<Rightarrow> \<not> ex_success r \<and> m = []) [''.env'', ''/etc/motd'']"
  by code_simp

text \<open>A carriage return does not survive an edit, anywhere in the file.\<close>

lemma edits_drop_carriage_returns:
  "text_before demo_edit (demo_tools\<lparr>tl_space := \<lparr>ws_files = [(''a.txt'', [CHR ''a'', CHR 0x0D, CHR 0x0A])],
     ws_entries = []\<rparr>\<rparr>) ''a.txt'' = [CHR ''a'', CHR 0x0A]"
  by code_simp

end
