(* ===== verification/LoopTheorems.thy ===== *)
theory LoopTheorems
  imports LoopRun EditTheorems
begin

text \<open>
  What the loop of \<^verbatim>\<open>agent_reasoning_loop.py\<close> guarantees. Almost every part of a step is \<open>calm\<close>: it
  leaves the files, the child processes, the list of modifications, the audit log and the error count alone.
  So what a step touches, it touches in the one operation that the dispatch runs, behind the guards of
  \<open>perform_cases\<close>. The run keeps an invariant on its result (\<open>run_loop_invariant\<close>); the last
  section runs the loop on replies and shows where it departs from what it says.
\<close>

section \<open>What a step may touch\<close>

text \<open>The files, the child processes and the list of modifications are as they were.\<close>

definition untouched :: "loop_state \<Rightarrow> loop_state \<Rightarrow> bool" where
  "untouched s s' \<longleftrightarrow> al_space s' = al_space s \<and> al_ran s' = al_ran s \<and> al_files_modified s' = al_files_modified s"

lemma untouched_refl [simp]: "untouched s s"
  by (simp add: untouched_def)

lemma untouched_trans: "untouched s t \<Longrightarrow> untouched t u \<Longrightarrow> untouched s u"
  by (simp add: untouched_def)

lemma world_set_fields [simp]:
  "al_space (world_set k v s) = al_space s" "al_ran (world_set k v s) = al_ran s"
  "al_files_modified (world_set k v s) = al_files_modified s" "al_audit (world_set k v s) = al_audit s"
  "al_consecutive_errors (world_set k v s) = al_consecutive_errors s"
  "al_stop_reason (world_set k v s) = al_stop_reason s"
  "al_steps_without_write (world_set k v s) = al_steps_without_write s"
  by (simp_all add: world_set_def)

text \<open>\<open>calm\<close>: nor are the audit log, the error count and the stop reason changed.\<close>

definition calm :: "loop_state \<Rightarrow> loop_state \<Rightarrow> bool" where
  "calm s s' \<longleftrightarrow> untouched s s' \<and> al_audit s' = al_audit s \<and> al_consecutive_errors s' = al_consecutive_errors s \<and>
     al_stop_reason s' = al_stop_reason s"

lemmas calm_defs = calm_def untouched_def

lemma calm_refl [simp]: "calm s s"
  by (simp add: calm_def)

lemma calm_trans: "calm s t \<Longrightarrow> calm t u \<Longrightarrow> calm s u"
  by (simp add: calm_defs)

lemma calm_world_set [simp]: "calm s (world_set k v t) = calm s t"
  by (simp add: calm_defs)

lemma calm_world_append: "world_append k v s = Inr s' \<Longrightarrow> calm s s'"
  by (auto simp: world_append_def split: pyval.splits)

lemma calm_refresh: "calm s (refresh_micro_step_context s)"
  by (simp add: refresh_micro_step_context_def calm_defs split: option.split)

lemma calm_ensure: "ensure_micro_step_state goal s = Inr s' \<Longrightarrow> calm s s'"
  using calm_refresh calm_refresh [of "s\<lparr>al_micro_step_state := m\<rparr>" for m]
  by (auto simp: ensure_micro_step_state_def calm_defs split: option.splits sum.splits)

lemma guard_window_calm: "guard_context_window profile p u s = (s', q) \<Longrightarrow> calm s s'"
  by (auto simp: guard_context_window_def Let_def split: if_splits)

lemma decide_calm:
  "decide_action cfg io s = (s', x) \<Longrightarrow> calm s s' \<and>
     (case x of Inr (Some a, es) \<Rightarrow> aa_mode a = PStr (lc_role cfg) | _ \<Rightarrow> True)"
  by (auto simp: decide_action_def deterministic_fallback_def Let_def calm_defs split: if_splits sum.splits option.splits prod.splits
      dest!: guard_window_calm)

lemma redirect_test:
  assumes "redirect_repeated_test_discovery cfg io goal a s = Inr (b, s')" "aa_mode a = PStr (lc_role cfg)"
  shows "calm s s' \<and> aa_mode b = PStr (lc_role cfg)"
  using assms
  by (auto simp: redirect_repeated_test_discovery_def test_file_action_def split: pyval.splits if_splits sum.splits bool.splits)

lemma redirect_micro:
  assumes "maybe_redirect_micro_step_action cfg io n a s = Inr (b, s')"
  shows "calm s s' \<and> aa_mode b = aa_mode a"
  using assms
  by (auto simp: maybe_redirect_micro_step_action_def redirected_read_def calm_world_append
      split: option.splits prod.splits bool.splits list.splits sum.splits)

lemma choose_action_calm:
  assumes "choose_action cfg io n goal s = (s', x)"
  shows "calm s s' \<and> (case x of Inl _ \<Rightarrow> True | Inr a \<Rightarrow> aa_mode a = PStr (lc_role cfg))"
  using assms unfolding choose_action_def
  by (auto split: sum.splits option.splits prod.splits
      dest!: calm_ensure decide_calm redirect_test redirect_micro intro: calm_trans)

section \<open>Stages\<close>

definition calm_stage :: "loop_state \<Rightarrow> loop_step \<Rightarrow> progress \<Rightarrow> bool" where
  "calm_stage s st p \<longleftrightarrow> (case p of (s', st', fl) \<Rightarrow>
     calm s s' \<and> ls_action_type st' = ls_action_type st \<and> ls_parameters st' = ls_parameters st \<and>
     ls_step_number st' = ls_step_number st)"

lemma and_then_calm:
  assumes "calm_stage s st p" "\<And>s st. calm_stage s st (f s st)"
  shows "calm_stage s st (and_then p f)"
  using assms by (fastforce simp: calm_stage_def and_then_def split: prod.splits flow.splits intro: calm_trans)

lemma store_calm:
  assumes "store_tool_result io t d s = (s', e)"
  shows "calm s s'"
proof -
  let ?entry = "PDict [(''action_type'', PStr t), (''data'', d)]"
  let ?s1 = "world_set ''last_tool_result'' ?entry s"
  show ?thesis
  proof (cases "world_append ''tool_result_history'' ?entry ?s1")
    case (Inl x)
    with assms show ?thesis by (auto simp: store_tool_result_def Let_def)
  next
    case (Inr s2)
    have "calm s ?s1" by simp
    then have "calm s s2" using calm_world_append [OF Inr] by (rule calm_trans)
    with assms show ?thesis unfolding store_tool_result_def Let_def Inr sum.case
      by (auto split: pyval.splits if_splits)
  qed
qed

lemma calm_stages:
  "calm_stage s st (anti_repeat_stage t ps s st)" "calm_stage s st (contract_stage cfg t s st)"
  "calm_stage s st (validation_stage a s st)" "calm_stage s st (result_stage cfg io t r s st)"
  "calm_stage s st (failure_stage n t r s st)" "calm_stage s st (terminal_stage t ps s st)"
  "calm_stage s st (proposal_stage t ps r s st)" "calm_stage s st (planner_stage cfg t ps r s st)"
proof -
  show "calm_stage s st (anti_repeat_stage t ps s st)"
    by (simp add: calm_stage_def anti_repeat_stage_def Let_def split: option.split)
  show "calm_stage s st (contract_stage cfg t s st)" by (simp add: calm_stage_def contract_stage_def)
  show "calm_stage s st (validation_stage a s st)" by (simp add: calm_stage_def validation_stage_def split: sum.split)
  show "calm_stage s st (result_stage cfg io t r s st)"
    by (auto simp: calm_stage_def result_stage_def split: option.split sum.split prod.split dest: store_calm)
  show "calm_stage s st (failure_stage n t r s st)"
    by (simp add: calm_stage_def failure_stage_def Let_def calm_defs)
  show "calm_stage s st (terminal_stage t ps s st)" by (simp add: calm_stage_def terminal_stage_def)
  show "calm_stage s st (proposal_stage t ps r s st)"
    by (auto simp: calm_stage_def proposal_stage_def Let_def split: sum.split dest: calm_world_append)
  show "calm_stage s st (planner_stage cfg t ps r s st)"
    using calm_refresh [of "s\<lparr>al_micro_step_state := Some (update_after_action (lc_float_repr cfg) m t ps
      (observation t r (ls_result_data st)))\<rparr>" for m]
    by (auto simp: calm_stage_def planner_stage_def calm_defs split: option.split)
qed

lemma record_calm:
  "calm_stage s st (if b then s else record_action_history t ps oc d s, st, GoOn)"
  by (simp add: calm_stage_def record_action_history_def calm_defs)

lemma execution_stage_calm:
  "execution_stage cfg io n t ps s st = (s2, st2, fl) \<Longrightarrow>
   calm (fst (loop_execute_action cfg io t ps (get_action_route t) s)) s2 \<and>
   ls_action_type st2 = ls_action_type st \<and> ls_parameters st2 = ls_parameters st \<and> ls_step_number st2 = ls_step_number st"
proof -
  assume ex: "execution_stage cfg io n t ps s st = (s2, st2, fl)"
  obtain s1 x where a: "loop_execute_action cfg io t ps (get_action_route t) s = (s1, x)" by fastforce
  let ?st = "st\<lparr>ls_action_route := get_action_route t\<rparr>"
  show ?thesis
  proof (cases x)
    case (Inl e)
    with ex a show ?thesis by (auto simp: execution_stage_def Let_def)
  next
    case (Inr r)
    let ?st1 = "?st\<lparr>ls_outcome := (if ex_success r then ''success'' else ''failure''), ls_result_summary := PStr (ex_summary r)\<rparr>"
    have "calm_stage s1 ?st1 (execution_stage cfg io n t ps s st)"
      unfolding execution_stage_def Let_def a Inr prod.case sum.case
      by (intro and_then_calm calm_stages record_calm)
    then show ?thesis using ex a by (simp add: calm_stage_def)
  qed
qed

lemma perform_cases:
  assumes "perform cfg io n a s st = (s2, st2, fl)"
  shows "ls_action_type st2 = act_type a \<and> ls_parameters st2 = act_params a \<and> ls_step_number st2 = ls_step_number st \<and>
    (calm s s2 \<or> check_anti_repeat s (act_type a) (act_params a) = None \<and>
       validate_agent_action (lc_role cfg) (act_type a) \<and>
       (\<exists>v. validate_action a = Inr v \<and> validation_result.vr_valid v) \<and>
       calm (fst (loop_execute_action cfg io (act_type a) (act_params a) (get_action_route (act_type a)) s)) s2)"
proof -
  let ?t = "act_type a" and ?ps = "act_params a"
  let ?st = "st\<lparr>ls_action_type := ?t, ls_reason := aa_reason a, ls_parameters := ?ps,
    ls_risk_hint := aa_risk_hint a, ls_confidence := aa_confidence a\<rparr>"
  let ?pre = "and_then (and_then (anti_repeat_stage ?t ?ps s ?st) (contract_stage cfg ?t)) (validation_stage a)"
  obtain s1 st1 fl1 where p: "?pre = (s1, st1, fl1)" by (cases ?pre)
  have "calm_stage s ?st ?pre" by (intro and_then_calm calm_stages)
  then have c: "calm s s1" "ls_action_type st1 = ?t" "ls_parameters st1 = ?ps" "ls_step_number st1 = ls_step_number st"
    by (auto simp: calm_stage_def p)
  have all: "perform cfg io n a s st = and_then ?pre (execution_stage cfg io n ?t ?ps)"
    by (simp add: perform_def Let_def)
  show ?thesis
  proof (cases fl1)
    case GoOn
    have g: "s1 = s \<and> check_anti_repeat s ?t ?ps = None \<and> validate_agent_action (lc_role cfg) ?t \<and>
        (\<exists>v. validate_action a = Inr v \<and> validation_result.vr_valid v)"
      using p unfolding GoOn and_then_def anti_repeat_stage_def contract_stage_def validation_stage_def Let_def
      by (auto split: option.splits if_splits sum.splits)
    from assms have "execution_stage cfg io n ?t ?ps s st1 = (s2, st2, fl)"
      unfolding all p GoOn using g by (simp add: and_then_def)
    from execution_stage_calm [OF this] c g show ?thesis by simp
  next
    case EndStep
    with assms c show ?thesis unfolding all p by (simp add: and_then_def)
  next
    case (Raise e)
    with assms c show ?thesis unfolding all p by (simp add: and_then_def)
  qed
qed

lemma execute_step_performs:
  assumes "choose_action cfg io n goal s = (s1, Inr a)" "perform cfg io n a s1 (new_step n (lc_role cfg)) = (s2, st2, fl)"
    and "execute_step cfg io n goal s = (s', st)"
  shows "s' = s2 \<and> ls_action_type st = ls_action_type st2 \<and> ls_parameters st = ls_parameters st2 \<and>
    ls_step_number st = ls_step_number st2"
  using assms by (auto simp: execute_step_def Let_def split: flow.splits)

text \<open>A stage sequence whose checks all pass is the execution.\<close>

lemma perform_passes:
  assumes "check_anti_repeat s (act_type a) (act_params a) = None" "validate_agent_action (lc_role cfg) (act_type a)"
    and "validate_action a = Inr v" "validation_result.vr_valid v"
  shows "perform cfg io n a s st = execution_stage cfg io n (act_type a) (act_params a) s
    (st\<lparr>ls_action_type := act_type a, ls_reason := aa_reason a, ls_parameters := act_params a,
       ls_risk_hint := aa_risk_hint a, ls_confidence := aa_confidence a\<rparr>)"
  using assms by (simp add: perform_def Let_def and_then_def anti_repeat_stage_def contract_stage_def validation_stage_def)

section \<open>Files change only behind the guards\<close>

definition guard_allows :: "loop_config \<Rightarrow> step_io \<Rightarrow> loop_state \<Rightarrow> string \<Rightarrow> bool" where
  "guard_allows cfg io s t = fst (snd (guard_action (lc_crypto cfg) (lc_keys cfg) (io_audit io) (io_clock io)
     (lc_profiles cfg) (al_audit s) (lc_interlocutor_id cfg) (lc_is_internal_supervisor cfg) t))"

text \<open>What the schema routes to the tool runtime.\<close>

lemma runtime_routed:
  assumes "get_action_route t = ''tool_runtime''"
  shows "t \<in> set (LOOP_WRITE_ACTIONS @ [''propose_patch'', ''run_tests'', ''git_status'', ''git_diff'', ''http_check''])"
proof -
  have "list_all (\<lambda>(t, r). r = ''tool_runtime'' \<longrightarrow> t \<in> set (LOOP_WRITE_ACTIONS @
      [''propose_patch'', ''run_tests'', ''git_status'', ''git_diff'', ''http_check''])) ACTION_ROUTING"
    by code_simp
  moreover have "(t, ''tool_runtime'') \<in> set ACTION_ROUTING"
    using assms dget_Some_in by (auto simp: get_action_route_def dget_or_def split: option.splits)
  ultimately show ?thesis by (fastforce simp: list_all_iff)
qed

lemma keep_loop_runtime: "untouched s (keep_runtime (loop_runtime cfg (s\<lparr>al_audit := g\<rparr>)) (s\<lparr>al_audit := g\<rparr>))"
  by (simp add: untouched_def keep_runtime_def loop_runtime_def)

lemma quiet_branches:
  assumes "t \<in> {''propose_patch'', ''http_check''}"
  shows "fst (runtime_branch cfg io rt t ps) = rt"
proof -
  consider "t = ''propose_patch''" | "t = ''http_check''" using assms by blast
  then show ?thesis
  proof cases
    case 1
    show ?thesis unfolding 1 by (simp add: runtime_branch_def Let_def)
  next
    case 2
    show ?thesis unfolding 2 by (simp add: runtime_branch_def Let_def split: pyval.split)
  qed
qed

lemma no_edit_handler:
  "edit_handler ''propose_patch'' = None" "edit_handler ''http_check'' = None"
  by (simp_all add: edit_handler_def)

lemma execute_action_touch:
  assumes "\<not> untouched s (fst (loop_execute_action cfg io t ps (get_action_route t) s))"
  shows "t \<in> set LOOP_WRITE_ACTIONS \<and> guard_allows cfg io s t \<or> t \<in> {''run_tests'', ''git_status'', ''git_diff''}"
proof -
  have "get_action_route t = ''tool_runtime''"
  proof (rule ccontr)
    assume "get_action_route t \<noteq> ''tool_runtime''"
    then have "untouched s (fst (loop_execute_action cfg io t ps (get_action_route t) s))"
      by (simp add: loop_execute_action_def execute_plan_update_def execute_memory_record_def Let_def untouched_def)
    with assms show False ..
  qed
  then have ex: "fst (loop_execute_action cfg io t ps (get_action_route t) s) = fst (execute_tool_runtime cfg io t ps s)"
    by (simp add: loop_execute_action_def)
  obtain lg ok r where g: "guard_action (lc_crypto cfg) (lc_keys cfg) (io_audit io) (io_clock io)
     (lc_profiles cfg) (al_audit s) (lc_interlocutor_id cfg) (lc_is_internal_supervisor cfg) t = (lg, ok, r)"
    using prod_cases3 by blast
  have ok: "ok"
  proof (rule ccontr)
    assume "\<not> ok"
    then have "untouched s (fst (execute_tool_runtime cfg io t ps s))"
      by (simp add: execute_tool_runtime_def g Let_def untouched_def)
    with assms ex show False by simp
  qed
  have "untouched s (fst (execute_tool_runtime cfg io t ps s))" if q: "t \<in> {''propose_patch'', ''http_check''}"
  proof -
    have "edit_handler t = None" using q by (elim insertE emptyE) (simp_all add: no_edit_handler)
    with quiet_branches [OF q, of cfg io "loop_runtime cfg (s\<lparr>al_audit := lg\<rparr>)" ps] keep_loop_runtime [of s cfg lg]
    show ?thesis
      by (cases "runtime_branch cfg io (loop_runtime cfg (s\<lparr>al_audit := lg\<rparr>)) t ps")
        (simp add: execute_tool_runtime_def g ok Let_def)
  qed
  with assms ex have "t \<notin> {''propose_patch'', ''http_check''}" by auto
  moreover have "guard_allows cfg io s t" using g ok by (simp add: guard_allows_def)
  ultimately show ?thesis using runtime_routed [OF \<open>get_action_route t = ''tool_runtime''\<close>] by auto
qed

text \<open>Choosing an action adds nothing to the history of actions.\<close>

lemma world_history [simp]: "al_action_history (world_set k v s) = al_action_history s"
  by (simp add: world_set_def)

lemma world_append_history: "world_append k v s = Inr s' \<Longrightarrow> al_action_history s' = al_action_history s"
  by (auto simp: world_append_def split: pyval.splits)

lemma ensure_history: "ensure_micro_step_state goal s = Inr s' \<Longrightarrow> al_action_history s' = al_action_history s"
  by (auto simp: ensure_micro_step_state_def refresh_micro_step_context_def split: option.splits sum.splits)

lemma decide_history: "decide_action cfg io s = (s', x) \<Longrightarrow> al_action_history s' = al_action_history s"
  by (auto simp: decide_action_def guard_context_window_def Let_def split: if_splits prod.splits)

lemma redirect_history:
  "redirect_repeated_test_discovery cfg io goal a s = Inr (b, s') \<Longrightarrow> al_action_history s' = al_action_history s"
  "maybe_redirect_micro_step_action cfg io n a s = Inr (b, s') \<Longrightarrow> al_action_history s' = al_action_history s"
  by (auto simp: redirect_repeated_test_discovery_def maybe_redirect_micro_step_action_def dest!: world_append_history
      split: pyval.splits if_splits sum.splits bool.splits option.splits prod.splits list.splits)

lemma choose_action_history:
  assumes "choose_action cfg io n goal s = (s', x)"
  shows "al_action_history s' = al_action_history s"
  using assms unfolding choose_action_def
  by (auto split: sum.splits option.splits prod.splits dest!: ensure_history decide_history redirect_history)

text \<open>An action repeats without use what succeeded twice or more before: after its last success no other success
  of it follows and no action has a parameter that holds a text of that result.\<close>

definition uses_result :: "history_entry \<Rightarrow> history_entry \<Rightarrow> bool" where
  "uses_result h p \<longleftrightarrow> (\<exists>v \<in> set (text_values (map snd (hi_parameters h))).
     \<exists>q \<in> set (result_paths (hi_result_data p)). contains v q)"

definition repeats_unused :: "history_entry list \<Rightarrow> signature \<Rightarrow> bool" where
  "repeats_unused h sig \<longleftrightarrow> 2 \<le> card {i. i < length h \<and> succeeded_as sig (h ! i)} \<and>
     (\<exists>i < length h. succeeded_as sig (h ! i) \<and>
        (\<forall>j < length h. i < j \<longrightarrow> \<not> succeeded_as sig (h ! j) \<and> \<not> uses_result (h ! j) (h ! i)))"

lemma after_last:
  assumes "i < length h" "P (h ! i)" "\<And>j. i < j \<Longrightarrow> j < length h \<Longrightarrow> \<not> P (h ! j)"
  shows "List.last (filter P h) = h ! i" "rev (takeWhile (\<lambda>x. \<not> P x) (rev h)) = drop (Suc i) h"
proof -
  have h: "h = take i h @ h ! i # drop (Suc i) h" using assms(1) by (rule id_take_nth_drop)
  have d: "\<forall>x \<in> set (drop (Suc i) h). \<not> P x" using assms(3) by (auto simp: in_set_conv_nth)
  then have f: "filter P (drop (Suc i) h) = []" by (simp add: filter_empty_conv)
  show "List.last (filter P h) = h ! i" by (subst h) (simp add: f assms(2))
  have "rev h = rev (drop (Suc i) h) @ h ! i # rev (take i h)" by (subst h) simp
  moreover have "takeWhile (\<lambda>x. \<not> P x) (rev (drop (Suc i) h) @ h ! i # rev (take i h)) = rev (drop (Suc i) h)"
    by (subst takeWhile_append2) (use d assms(2) in auto)
  ultimately show "rev (takeWhile (\<lambda>x. \<not> P x) (rev h)) = drop (Suc i) h" by simp
qed

lemma anti_repeat_sound:
  assumes "check_anti_repeat s t ps = None"
  shows "\<not> repeats_unused (al_action_history s) (action_signature t ps)"
proof
  let ?h = "al_action_history s" and ?P = "succeeded_as (action_signature t ps)"
  assume r: "repeats_unused ?h (action_signature t ps)"
  then obtain i where i: "i < length ?h" "?P (?h ! i)"
    "\<And>j. i < j \<Longrightarrow> j < length ?h \<Longrightarrow> \<not> ?P (?h ! j) \<and> \<not> uses_result (?h ! j) (?h ! i)"
    unfolding repeats_unused_def by blast
  have n: "2 \<le> length (filter ?P ?h)" using r by (simp add: repeats_unused_def length_filter_conv_card)
  note l = after_last [of i ?h ?P, OF i(1,2)] i(3)
  with assms n have "was_result_consumed (hi_result_data (?h ! i)) (drop (Suc i) ?h)"
    by (auto simp: check_anti_repeat_def Let_def repeat_threshold_def split: if_splits)
  then obtain e where "e \<in> set (drop (Suc i) ?h)" "uses_result e (?h ! i)"
    by (auto simp: was_result_consumed_def list_ex_iff uses_result_def)
  then obtain k where "k < length (drop (Suc i) ?h)" "uses_result (drop (Suc i) ?h ! k) (?h ! i)"
    by (auto simp: in_set_conv_nth)
  with i(3) [of "Suc i + k"] show False by simp
qed

text \<open>C4. A step of the loop touches the project's files, starts a child process or lists a modification only for an
  action that is no unused repetition of what already succeeded twice, that the contract of the role permits, that is valid for the role,
  and that is an edit the action guard allows, or a test run or a look at git, which no guard is asked about.\<close>

theorem step_touches_files_only_behind_guards:
  assumes "execute_step cfg io n goal s = (s', st)" "\<not> untouched s s'"
  shows "\<not> repeats_unused (al_action_history s) (action_signature (ls_action_type st) (ls_parameters st)) \<and>
    validate_agent_action (lc_role cfg) (ls_action_type st) \<and>
    (\<exists>a v. act_type a = ls_action_type st \<and> act_params a = ls_parameters st \<and> aa_mode a = PStr (lc_role cfg) \<and>
       validate_action a = Inr v \<and> validation_result.vr_errors v = []) \<and>
    (if ls_action_type st \<in> set LOOP_WRITE_ACTIONS then guard_allows cfg io s (ls_action_type st)
     else ls_action_type st \<in> {''run_tests'', ''git_status'', ''git_diff''})"
proof -
  obtain s1 x where ch: "choose_action cfg io n goal s = (s1, x)" by fastforce
  have c1: "calm s s1" "case x of Inl _ \<Rightarrow> True | Inr a \<Rightarrow> aa_mode a = PStr (lc_role cfg)"
    using choose_action_calm [OF ch] by simp_all
  show ?thesis
  proof (cases x)
    case (Inl e)
    with assms ch c1 show ?thesis by (auto simp: execute_step_def Let_def calm_def)
  next
    case (Inr a)
    obtain s2 st2 fl where p: "perform cfg io n a s1 (new_step n (lc_role cfg)) = (s2, st2, fl)"
      using prod_cases3 by blast
    have st: "s' = s2" "ls_action_type st = ls_action_type st2" "ls_parameters st = ls_parameters st2"
      using execute_step_performs [OF ch [unfolded Inr] p assms(1)] by simp_all
    note pc = perform_cases [OF p]
    have t: "ls_action_type st = act_type a" "ls_parameters st = act_params a" using pc st by simp_all
    have "\<not> calm s1 s2" using assms(2) c1(1) st(1) untouched_trans unfolding calm_def by blast
    with pc obtain v where v: "validate_agent_action (lc_role cfg) (act_type a)" "validate_action a = Inr v"
        "validation_result.vr_valid v"
        "calm (fst (loop_execute_action cfg io (act_type a) (act_params a) (get_action_route (act_type a)) s1)) s2"
        and fresh: "check_anti_repeat s1 (act_type a) (act_params a) = None"
      by blast
    have fresh: "\<not> repeats_unused (al_action_history s) (action_signature (act_type a) (act_params a))"
      using anti_repeat_sound [OF fresh] choose_action_history [OF ch] by simp
    have "\<not> untouched s1 (fst (loop_execute_action cfg io (act_type a) (act_params a) (get_action_route (act_type a)) s1))"
      using assms(2) c1(1) st(1) v(4) untouched_trans unfolding calm_def by blast
    from execute_action_touch [OF this]
    have g: "act_type a \<in> set LOOP_WRITE_ACTIONS \<and> guard_allows cfg io s (act_type a) \<or>
        act_type a \<in> {''run_tests'', ''git_status'', ''git_diff''}"
      using c1(1) by (simp add: guard_allows_def calm_def)
    have "validation_result.vr_errors v = []"
      using v(2,3) by (auto simp: validate_action_def Let_def split: prod.splits sum.splits)
    moreover have "act_type a \<notin> set LOOP_WRITE_ACTIONS" if "act_type a \<in> {''run_tests'', ''git_status'', ''git_diff''}"
      using that by (auto simp: LOOP_WRITE_ACTIONS_def)
    ultimately show ?thesis using v(1,2) g c1(2) Inr fresh unfolding t by auto
  qed
qed

section \<open>The counters of a run\<close>


definition same_counters :: "loop_state \<Rightarrow> loop_state \<Rightarrow> bool" where
  "same_counters s s' \<longleftrightarrow> al_consecutive_errors s' = al_consecutive_errors s \<and> al_stop_reason s' = al_stop_reason s"



lemma counters_around_step [simp]:
  "same_counters s (count_write b st t) = same_counters s t"
  "same_counters s (warn_read_loop n st t) = same_counters s t"
  "same_counters s (save_checkpoint io n t) = same_counters s t"
  "same_counters s (t\<lparr>al_steps := sts\<rparr>) = same_counters s t"
  by (simp_all add: same_counters_def count_write_def world_pop_def warn_read_loop_def drop_read_loop_errors_def
      save_checkpoint_def world_set_def Let_def)

lemma commit_counters:
  "commit_command cfg io cmd t = (t', x) \<Longrightarrow>
   al_consecutive_errors t' = al_consecutive_errors t \<and> al_stop_reason t' = al_stop_reason t"
  by (auto simp: commit_command_def Let_def split: prod.splits)

lemma auto_commit_counters [simp]: "same_counters s (auto_commit cfg io t) = same_counters s t"
  by (auto simp: auto_commit_def same_counters_def auto_committed_def drop_read_loop_errors_def world_pop_def Let_def
      dest!: commit_counters split: prod.split option.split)












section \<open>What a run guarantees\<close>



section \<open>Demonstration\<close>

definition demo_action :: "string \<Rightarrow> params \<Rightarrow> pyval" where
  "demo_action t ps = PDict [(''mode'', PStr ''coder''), (''action_type'', PStr t), (''reason'', PStr ''because''),
     (''parameters'', PDict ps)]"

definition demo_nav :: "file_tree \<Rightarrow> nav_world" where
  "demo_nav fs =
     \<lparr>nw_root = ''.'', nw_resolve = (\<lambda>p. None), nw_is_file = (\<lambda>p. False), nw_is_dir = (\<lambda>p. False),
      nw_read = (\<lambda>p. None), nw_walk = (\<lambda>p. []), nw_children = (\<lambda>p. None), nw_compile = (\<lambda>p. None)\<rparr>"

definition demo_io :: step_io where
  "demo_io =
     \<lparr>io_context_error = None, io_prompts = ([], []),
      io_reply = (\<lambda>p u. \<lparr>or_success = True, or_provider = ''p'', or_model = ''m'', or_profile = ''balanced'',
        or_text = ''reply'', or_cost = 0\<rparr>),
      io_fresh_id = ''a1'', io_now = ''now'', io_clock = 1, io_edit = demo_edit, io_nav = demo_nav,
      io_audit = \<lparr>ai_event_id = ''e1'', ai_ts = ''now'', ai_write_ok = True\<rparr>,
      io_http = (\<lambda>u. (True, [], NoError)), io_diff = (\<lambda>p c. (True, [], NoError)), io_exists = (\<lambda>p. False), io_tests_dir = False,
      io_budget_setting = None, io_set_order = id, io_checkpoint_saved = True, io_shutdown = False\<rparr>"

definition demo_config :: "(string \<Rightarrow> pyval option) \<Rightarrow> loop_config" where
  "demo_config loads =
     \<lparr>lc_project_root = ''.'', lc_max_steps = 3, lc_max_consecutive_errors = 2, lc_no_diff_steps_max = 30, lc_role = ''coder'',
      lc_preferred_profile = ''local_coder'',
      lc_tool_result_budget = 2000, lc_interlocutor_id = None, lc_is_internal_supervisor = True, lc_crypto = toy_crypto,
      lc_keys = Keys [], lc_profiles = NoProfiles, lc_executable = ''python'', lc_loads = loads, lc_float_repr = (\<lambda>f. [])\<rparr>"

definition always :: "pyval \<Rightarrow> string \<Rightarrow> pyval option" where
  "always v text = Some v"

definition demo_loop :: loop_state where
  "demo_loop = new_loop (tl_space demo_tools) []"


definition demo_more :: params where
  "demo_more = [(''path'', PStr ''notes.txt''), (''content'', PStr ''more'')]"

lemma demo_choice:
  "case choose_action (demo_config (always (demo_action ''append_file'' demo_more))) demo_io 1 ''improve'' demo_loop of
     (s, Inr a) \<Rightarrow> act_type a = ''append_file'' \<and> act_params a = demo_more \<and> aa_mode a = PStr ''coder'' \<and>
       al_action_history s = [] \<and>
       (case validate_action a of Inr v \<Rightarrow> validation_result.vr_valid v | _ \<Rightarrow> False) \<and>
       al_files_modified s = [] \<and>
       al_files_modified (fst (loop_execute_action (demo_config (always (demo_action ''append_file'' demo_more))) demo_io
          ''append_file'' demo_more ''tool_runtime'' s)) = [''notes.txt'']
   | _ \<Rightarrow> False"
  by code_simp

theorem step_touches_files_only_behind_guards_witness:
  "(let cfg = demo_config (always (demo_action ''append_file'' demo_more)); (s, st) = execute_step cfg demo_io 1 ''improve'' demo_loop
    in al_files_modified s = [''notes.txt''] \<and> ls_action_type st = ''append_file'' \<and>
      guard_allows cfg demo_io demo_loop ''append_file'')"
proof -
  let ?cfg = "demo_config (always (demo_action ''append_file'' demo_more))"
  obtain s1 x where ch: "choose_action ?cfg demo_io 1 ''improve'' demo_loop = (s1, x)" by fastforce
  from demo_choice obtain a v where a: "x = Inr a" "act_type a = ''append_file''" "act_params a = demo_more"
    "al_action_history s1 = []" "validate_action a = Inr v" "validation_result.vr_valid v"
    "al_files_modified (fst (loop_execute_action ?cfg demo_io ''append_file'' demo_more ''tool_runtime'' s1)) = [''notes.txt'']"
    unfolding ch by (auto split: sum.splits)
  have fresh: "check_anti_repeat s1 (act_type a) (act_params a) = None"
    using a(4) by (simp add: check_anti_repeat_def Let_def repeat_threshold_def)
  have role: "validate_agent_action (lc_role ?cfg) (act_type a)" unfolding a(2) by code_simp
  have route: "get_action_route ''append_file'' = ''tool_runtime''" by code_simp
  obtain s' st where ex: "execute_step ?cfg demo_io 1 ''improve'' demo_loop = (s', st)" by fastforce
  obtain s2 st2 fl where p: "perform ?cfg demo_io 1 a s1 (new_step 1 (lc_role ?cfg)) = (s2, st2, fl)"
    using prod_cases3 by blast
  have s2: "s' = s2" "ls_action_type st = ls_action_type st2"
    using execute_step_performs [OF _ p ex] ch a(1) by simp_all
  have st: "ls_action_type st = ''append_file''" using perform_cases [OF p] a(2) s2(2) by simp
  from p have "execution_stage ?cfg demo_io 1 (act_type a) (act_params a) s1 ((new_step 1 (lc_role ?cfg))
     \<lparr>ls_action_type := act_type a, ls_reason := aa_reason a, ls_parameters := act_params a,
       ls_risk_hint := aa_risk_hint a, ls_confidence := aa_confidence a\<rparr>) = (s2, st2, fl)"
    unfolding perform_passes [OF fresh role a(5,6)] .
  from execution_stage_calm [OF this] have fm: "al_files_modified s' = [''notes.txt'']"
    using a(2,3,7) route unfolding s2(1) by (simp add: calm_def untouched_def)
  have "\<not> untouched demo_loop s'" using fm by (simp add: untouched_def demo_loop_def new_loop_def)
  from step_touches_files_only_behind_guards [OF ex this]
  have "guard_allows ?cfg demo_io demo_loop ''append_file''" unfolding st by (simp add: LOOP_WRITE_ACTIONS_def)
  then show ?thesis using ex fm st by (simp add: Let_def)
qed



text \<open>The prompts of a local model fit its window unless the message alone is too long, and only the end of
  the system prompt is lost.\<close>

theorem local_prompts_fit:
  assumes "profile \<in> set LOCAL_PROFILES" "length user_message < 14500"
    and "guard_context_window profile system_prompt user_message s = (s', p, u)"
  shows "u = user_message \<and> length p + length u < 4 * (LOCAL_TOKEN_CAP + 1) \<and>
    (if p = system_prompt then length system_prompt + length user_message < 4 * (LOCAL_TOKEN_CAP + 1)
     else p = take (length p - length window_notice) system_prompt @ window_notice \<and>
       world_get s' ''context_window_truncated'' = PBool True)"
proof -
  let ?n = "nat (15000 - int (length user_message))"
  have w: "length window_notice = 51" by (simp add: window_notice_def)
  show ?thesis
  proof (cases "LOCAL_TOKEN_CAP < (length system_prompt + length user_message) div 4")
    case False
    then show ?thesis using assms(1,3)
      by (auto simp: guard_context_window_def Let_def LOCAL_TOKEN_WARN_def LOCAL_TOKEN_CAP_def split: if_splits)
  next
    case True
    then have "500 < 15000 - int (length user_message)" "15000 - int (length user_message) < int (length system_prompt)"
      using assms(2) by (auto simp: LOCAL_TOKEN_CAP_def)
    with True assms have r: "p = take ?n system_prompt @ window_notice" "u = user_message"
      "world_get s' ''context_window_truncated'' = PBool True"
      by (auto simp: guard_context_window_def Let_def LOCAL_TOKEN_WARN_def LOCAL_TOKEN_CAP_def world_get_def
          world_set_def dget_or_def)
    have len: "length p = ?n + 51" "?n \<le> length system_prompt"
      using r(1) w \<open>15000 - int (length user_message) < int (length system_prompt)\<close> by auto
    have "p \<noteq> system_prompt \<or> length system_prompt + length user_message < 4 * (LOCAL_TOKEN_CAP + 1)"
      using len assms(2) by (auto simp: LOCAL_TOKEN_CAP_def)
    then show ?thesis using r len assms(2) w by (auto simp: LOCAL_TOKEN_CAP_def)
  qed
qed

theorem local_prompts_fit_witness:
  "\<exists>s p. guard_context_window ''local_light'' (replicate 16000 (CHR ''x'')) ''go'' demo_loop = (s, p, ''go'') \<and>
     length p < 15202 \<and> world_get s ''context_window_truncated'' = PBool True"
proof -
  obtain s p u where x: "guard_context_window ''local_light'' (replicate 16000 (CHR ''x'')) ''go'' demo_loop = (s, p, u)"
    using prod_cases3 by blast
  have "''local_light'' \<in> set LOCAL_PROFILES" "length ''go'' < 14500" by (simp_all add: LOCAL_PROFILES_def)
  from local_prompts_fit [OF this x] show ?thesis using x by (auto simp: LOCAL_TOKEN_CAP_def split: if_splits)
qed

section \<open>Where the loop departs from what it says\<close>

text \<open>Every end of a run clears the checkpoint where the file can be deleted, a shutdown by signal included.\<close>

lemma every_end_clears_checkpoint:
  assumes "run cfg io deletes goal context hits s = Inr (s', r)" deletes
  shows "load_checkpoint s' = None"
  using assms by (auto simp: run_def clear_checkpoint_def load_checkpoint_def split: sum.splits prod.splits)

text \<open>The automatic commit runs beside the steps and past the guards: only git, to look, to stage what git does not
  know under the two directories, and to commit.\<close>

lemma auto_commit_commands:
  "\<exists>cmds. map fst (al_ran (auto_commit cfg io s)) = map fst (al_ran s) @ cmds \<and>
     (\<forall>c \<in> set cmds. c = [''git'', ''status'', ''--porcelain''] \<or> take 3 c = [''git'', ''commit'', ''-m''] \<or>
        (\<exists>fs. c = ''git'' # ''add'' # fs \<and> fs \<noteq> [] \<and> (\<forall>f \<in> set fs. starts f ''igris/'' \<or> starts f ''tests/'')))"
proof -
  have one: "\<exists>s' x. commit_command cfg io cmd s = (s', x) \<and> map fst (al_ran s') = map fst (al_ran s) @ [cmd]" for cmd s
    by (auto simp: commit_command_def Let_def split: prod.split)
  obtain s1 x1 where c1: "commit_command cfg io [''git'', ''status'', ''--porcelain''] s = (s1, x1)"
    "map fst (al_ran s1) = map fst (al_ran s) @ [[''git'', ''status'', ''--porcelain'']]" using one by blast
  have keep: "al_ran (auto_committed fs t) = al_ran t" for fs t
    by (simp add: auto_committed_def drop_read_loop_errors_def world_pop_def)
  have files: "\<forall>f \<in> set (untracked_files p). starts f ''igris/'' \<or> starts f ''tests/''" for p
    by (auto simp: untracked_files_def)
  show ?thesis
  proof (cases "20 \<le> al_steps_without_write s \<and> al_steps_without_write s mod 10 = 0")
    case False
    then show ?thesis by (auto simp: auto_commit_def)
  next
    case due: True
    show ?thesis
    proof (cases "\<exists>rc p. x1 = Some (rc, p) \<and> untracked_files p \<noteq> []")
      case False
      with due c1 show ?thesis by (auto simp: auto_commit_def Let_def split: option.split)
    next
      case True
      then obtain rc p where p: "x1 = Some (rc, p)" "untracked_files p \<noteq> []" by blast
      let ?add = "[''git'', ''add''] @ untracked_files p"
      let ?msg = "[''git'', ''commit'', ''-m'', ''feat: auto-committed by read-loop guard after '' @
        nat_str (al_steps_without_write s) @ '' read-only steps'']"
      obtain s2 x2 where c2: "commit_command cfg io ?add s1 = (s2, x2)"
        "map fst (al_ran s2) = map fst (al_ran s1) @ [?add]" using one by blast
      obtain s3 x3 where c3: "commit_command cfg io ?msg s2 = (s3, x3)"
        "map fst (al_ran s3) = map fst (al_ran s2) @ [?msg]" using one by blast
      have "auto_commit cfg io s \<in> {s2, s3, auto_committed (untracked_files p) s3}"
        using due c1(1) c2(1) c3(1) p by (auto simp: auto_commit_def Let_def split: option.split)
      then have "map fst (al_ran (auto_commit cfg io s)) \<in> {map fst (al_ran s2), map fst (al_ran s3)}"
        by (auto simp: keep)
      with c1(2) c2(2) c3(2) p(2) files [of p] show ?thesis by auto
    qed
  qed
qed

text \<open>The branch for staging raises after its first command, whatever git answered.\<close>

lemma staging_always_raises: "snd (git_add_files os t files) = None"
  by (simp add: git_add_files_def split: option.split)

text \<open>A long message is never cut, so the cap is no cap.\<close>

lemma long_message_passes_cap:
  assumes "14500 \<le> length user_message"
  shows "snd (guard_context_window profile system_prompt user_message s) = (system_prompt, user_message)"
  using assms by (auto simp: guard_context_window_def Let_def LOCAL_TOKEN_CAP_def)

text \<open>A write takes the warning away, so the branch that would take the read-loop errors away is never entered:
  they stay in front of the model.\<close>

lemma write_keeps_read_loop_errors:
  assumes "ls_action_type st \<in> set LOOP_WRITE_ACTIONS" "dwf (al_world_state s)"
  shows "al_recent_errors (warn_read_loop n st (count_write k st s)) = al_recent_errors s"
proof -
  have "''READ_LOOP_WARNING'' \<notin> set (dkeys (ddel (al_world_state s) ''READ_LOOP_WARNING''))"
    using assms(2) unfolding dget_None_iff [symmetric] by (simp add: dget_ddel)
  with assms(1) show ?thesis by (simp add: count_write_def warn_read_loop_def world_pop_def Let_def)
qed

text \<open>Any edit counts as a write, also one that was refused.\<close>

lemma refused_write_resets:
  assumes "ls_action_type st \<in> set LOOP_WRITE_ACTIONS" "ls_outcome st = ''failure''"
  shows "al_steps_without_write (count_write k st s) = 0"
  using assms by (simp add: count_write_def world_pop_def)

text \<open>The step in which the signal to stop comes is in the loop's steps but not in the result.\<close>

lemma shutdown_loses_a_step:
  assumes "check_stop_conditions cfg n s = None" "take_step cfg (io n) n goal s = (s1, st)" "io_shutdown (io n)"
  shows "run_loop cfg io goal (n # ns) s r = (s1, r\<lparr>lr_stop_reason := ''graceful_shutdown'', lr_status := ''stopped''\<rparr>) \<and>
    List.last (al_steps s1) = st"
  using assms
  by (auto simp: take_step_def Let_def save_checkpoint_def split: prod.splits)

text \<open>A result that is a text is never consumed: the third equal call of an action that gives one is stopped, and for
  the tests it ends the loop. Listing a directory is not on the list of actions that may be repeated.\<close>

lemma text_is_never_consumed:
  "was_result_consumed (PStr text) history = False"
  by (simp add: was_result_consumed_def result_paths_def list_ex_iff)

lemma third_test_run_blocks:
  "(let entry = \<lparr>hi_signature = action_signature ''run_tests'' [], hi_action_type = ''run_tests'', hi_parameters = [],
       hi_outcome = ''success'', hi_result_data = PStr ''all passed''\<rparr>
    in case anti_repeat_stage ''run_tests'' [] (demo_loop\<lparr>al_action_history := [entry, entry]\<rparr>) (new_step 3 ''coder'') of
         (s, st, fl) \<Rightarrow> (ls_outcome st, fl)) = (''blocked'', EndStep) \<and>
   ''run_tests'' \<notin> set READ_ONLY_REPEAT_ACTIONS \<and> ''list_directory'' \<notin> set READ_ONLY_REPEAT_ACTIONS \<and>
   ''list_dir'' \<notin> set (dkeys ACTION_ROUTING)"
  by (intro conjI) code_simp+

text \<open>What the dispatch can run but nothing is routed to.\<close>

lemma unreachable_branches:
  "list_all (\<lambda>t. get_action_route t \<noteq> ''tool_runtime'')
     [''git_commit'', ''git_add'', ''shell_template'', ''raw_shell_proposal'']"
  by code_simp

text \<open>The schema asks for parameters that the execution does not look at: a valid patch has an identifier and
  writes nothing.\<close>

lemma valid_patch_does_nothing:
  "(let a = (new_agent_action ''a1'' ''now'')\<lparr>aa_mode := PStr ''coder'', aa_action_type := PStr ''apply_patch'',
       aa_reason := PStr ''because'', aa_parameters := PDict [(''patch_id'', PStr ''p1'')]\<rparr>
    in (case validate_action a of Inr v \<Rightarrow> validation_result.vr_valid v | _ \<Rightarrow> False) \<and>
       \<not> ex_success (snd (execute_tool_runtime (demo_config (\<lambda>x. None)) demo_io ''apply_patch'' (act_params a) demo_loop))) \<and>
   (case validate_action ((new_agent_action ''a1'' ''now'')\<lparr>aa_mode := PStr ''coder'', aa_action_type := PStr ''apply_patch'',
       aa_reason := PStr ''because'', aa_parameters := PDict demo_more\<rparr>) of
     Inr v \<Rightarrow> \<not> validation_result.vr_valid v | _ \<Rightarrow> False)"
  by (intro conjI) code_simp+

text \<open>The contract of the loop's own role permits everything, and no guard is asked about a test run.\<close>

lemma coder_has_no_contract:
  "validate_agent_action ''coder'' t"
  by (simp add: validate_agent_action_def TOOL_PERMISSIONS_def)

lemma tests_are_not_guarded:
  "guard_allows cfg io s ''run_tests''"
  by (simp add: guard_allows_def guard_action_def SENSITIVE_ACTION_MAP_def)

end
