(* ===== verification/ContextWeights.thy ===== *)
theory ContextWeights
  imports PyText
begin

text \<open>
  \<^verbatim>\<open>context_section_weighter.py\<close>: which sections of a prompt a reply cites, the statistics of the steps
  recorded, and the factor each section's share of the prompt is multiplied with. The two files are two fields,
  \<open>None\<close> when a file is missing or cannot be read; they hold what the program wrote. Quotients of counts are
  exact.
\<close>

section \<open>Records and statistics\<close>

definition MIN_SAMPLES :: nat where "MIN_SAMPLES = 10"
definition MAX_RECORDS :: nat where "MAX_RECORDS = 500"
definition MULTIPLIER_MIN :: pyfloat where "MULTIPLIER_MIN = 1/2"
definition MULTIPLIER_MAX :: pyfloat where "MULTIPLIER_MAX = 2"

definition TRACKED_SECTIONS :: "string list" where
  "TRACKED_SECTIONS =
     [''mission_context'', ''error_context'', ''recent_actions'', ''state_context'', ''memory_context'', ''file_context'']"

definition SECTION_KEYWORDS :: "(string, string list) dict" where
  "SECTION_KEYWORDS =
     [(''mission_context'', [''goal'', ''mission'', ''task'', ''objective'']),
      (''error_context'', [''error'', ''traceback'', ''exception'', ''test fail'', ''pytest'', ''AssertionError'']),
      (''recent_actions'', [''recent_action'', ''previous step'', ''last action'', ''already did'', ''previously'']),
      (''state_context'', [''world_state'', ''service'', ''health'', ''running'', ''state'']),
      (''memory_context'', [''memory'', ''lesson'', ''recall'', ''according to'', ''previously learned'']),
      (''file_context'', [''file'', ''function'', ''class'', ''import'', ''def '', ''line ''])]"

record step_usage =
  su_step_id :: string
  su_sections_present :: "string list"
  su_sections_cited :: "string list"
  su_success :: bool
  su_timestamp :: pyfloat

record section_stats =
  ss_section :: string
  ss_total_steps :: nat
  ss_cited_in_success :: nat
  ss_cited_count :: nat
  ss_present_count :: nat

definition detect_cited_sections :: "string \<Rightarrow> string list \<Rightarrow> string list" where
  "detect_cited_sections response_text sections_present =
     filter (\<lambda>s. list_ex (\<lambda>kw. contains (py_lower response_text) (py_lower kw)) (dget_or SECTION_KEYWORDS s []))
       sections_present"

definition count_section :: "string \<Rightarrow> section_stats \<Rightarrow> step_usage \<Rightarrow> section_stats" where
  "count_section s st r =
     (if s \<notin> set (su_sections_present r) then st
      else let cited = s \<in> set (su_sections_cited r)
           in st\<lparr>ss_total_steps := ss_total_steps st + 1, ss_present_count := ss_present_count st + 1,
                 ss_cited_count := ss_cited_count st + (if cited then 1 else 0),
                 ss_cited_in_success := ss_cited_in_success st + (if cited \<and> su_success r then 1 else 0)\<rparr>)"

definition stats_of :: "step_usage list \<Rightarrow> string \<Rightarrow> section_stats" where
  "stats_of records s = foldl (count_section s)
     \<lparr>ss_section = s, ss_total_steps = 0, ss_cited_in_success = 0, ss_cited_count = 0, ss_present_count = 0\<rparr> records"

definition compute_section_stats :: "step_usage list \<Rightarrow> (string, section_stats) dict" where
  "compute_section_stats records = map (\<lambda>s. (s, stats_of records s)) TRACKED_SECTIONS"

definition section_weight :: "nat \<Rightarrow> pyfloat \<Rightarrow> section_stats \<Rightarrow> pyfloat" where
  "section_weight min_samples baseline st =
     (if ss_cited_count st < max 3 (min_samples div 3) then 1
      else let p = of_nat (ss_cited_in_success st) / of_nat (ss_cited_count st);
               raw = (if 0 < baseline then p / baseline else 1)
           in max MULTIPLIER_MIN (min MULTIPLIER_MAX raw))"

definition compute_weights :: "step_usage list \<Rightarrow> nat \<Rightarrow> (string, pyfloat) dict" where
  "compute_weights records min_samples =
     (if length records < min_samples then map (\<lambda>s. (s, 1)) TRACKED_SECTIONS
      else let total = length records;
               baseline = (if total = 0 then 0 else of_nat (length (filter su_success records)) / of_nat total)
           in map (\<lambda>(s, st). (s, section_weight min_samples baseline st)) (compute_section_stats records))"

section \<open>The weighter\<close>

record weighter =
  wg_min_samples :: nat
  wg_usage :: "step_usage list option"
  wg_weights :: "(string, pyfloat) dict option"

definition new_weighter :: "nat \<Rightarrow> weighter" where
  "new_weighter min_samples = \<lparr>wg_min_samples = min_samples, wg_usage = None, wg_weights = None\<rparr>"

definition load_usage_records :: "weighter \<Rightarrow> step_usage list" where
  "load_usage_records w = (case wg_usage w of None \<Rightarrow> [] | Some rs \<Rightarrow> rs)"

definition save_usage_records :: "weighter \<Rightarrow> step_usage list \<Rightarrow> weighter" where
  "save_usage_records w rs = w\<lparr>wg_usage := Some (slice_from (- int MAX_RECORDS) rs)\<rparr>"

definition load_section_weights :: "weighter \<Rightarrow> (string, pyfloat) dict" where
  "load_section_weights w = (case wg_weights w of None \<Rightarrow> [] | Some ws \<Rightarrow> ws)"

definition save_section_weights :: "weighter \<Rightarrow> (string, pyfloat) dict \<Rightarrow> weighter" where
  "save_section_weights w ws = w\<lparr>wg_weights := Some ws\<rparr>"

definition recompute_and_save :: "weighter \<Rightarrow> step_usage list \<Rightarrow> weighter" where
  "recompute_and_save w rs = save_section_weights w (compute_weights rs (wg_min_samples w))"

definition record_step ::
    "weighter \<Rightarrow> string \<Rightarrow> string list \<Rightarrow> string \<Rightarrow> bool \<Rightarrow> pyfloat \<Rightarrow> weighter \<times> step_usage" where
  "record_step w step_id sections_present model_response success now =
     (let r = \<lparr>su_step_id = step_id, su_sections_present = sections_present,
            su_sections_cited = detect_cited_sections model_response sections_present, su_success = success,
            su_timestamp = now\<rparr>;
          records = load_usage_records w @ [r];
          w1 = save_usage_records w records
      in (if length records mod 10 = 0 then recompute_and_save w1 records else w1, r))"

definition get_budget_multipliers :: "weighter \<Rightarrow> weighter \<times> (string, pyfloat) dict" where
  "get_budget_multipliers w =
     (let weights = load_section_weights w; records = load_usage_records w;
          (w1, ws) = (if weights = [] \<and> wg_min_samples w \<le> length records then
              let ws = compute_weights records (wg_min_samples w) in (save_section_weights w ws, ws)
            else (w, weights))
      in (w1, map (\<lambda>s. (s, dget_or ws s 1)) TRACKED_SECTIONS))"

text \<open>The statistics, each with the weight, and their number; asking for the weights may store them.\<close>

definition get_stats :: "weighter \<Rightarrow> weighter \<times> nat \<times> (string \<times> section_stats \<times> pyfloat) list" where
  "get_stats w =
     (let records = load_usage_records w; (w1, ms) = get_budget_multipliers w
      in (w1, length records, map (\<lambda>(s, st). (s, st, dget_or ms s 1)) (compute_section_stats records)))"

section \<open>The weights are bounded\<close>

datatype weighter_event =
    RecordStep string "string list" string bool pyfloat | AskMultipliers | AskStats

definition weighter_step :: "weighter \<Rightarrow> weighter_event \<Rightarrow> weighter" where
  "weighter_step w e =
     (case e of
        RecordStep i present response ok now \<Rightarrow> fst (record_step w i present response ok now)
      | AskMultipliers \<Rightarrow> fst (get_budget_multipliers w)
      | AskStats \<Rightarrow> fst (get_stats w))"

definition clamped :: "(string, pyfloat) dict \<Rightarrow> bool" where
  "clamped ws \<longleftrightarrow> (\<forall>(s, x) \<in> set ws. MULTIPLIER_MIN \<le> x \<and> x \<le> MULTIPLIER_MAX)"

definition weighter_ok :: "weighter \<Rightarrow> bool" where
  "weighter_ok w \<longleftrightarrow> clamped (load_section_weights w) \<and> length (load_usage_records w) \<le> MAX_RECORDS"

lemmas multiplier_defs = MULTIPLIER_MIN_def MULTIPLIER_MAX_def

lemma section_weight_clamped:
  "MULTIPLIER_MIN \<le> section_weight n b st \<and> section_weight n b st \<le> MULTIPLIER_MAX"
proof -
  have *: "MULTIPLIER_MIN \<le> max MULTIPLIER_MIN (min MULTIPLIER_MAX r)" "max MULTIPLIER_MIN (min MULTIPLIER_MAX r) \<le> MULTIPLIER_MAX"
    for r by (simp_all add: multiplier_defs)
  have "MULTIPLIER_MIN \<le> 1" "1 \<le> MULTIPLIER_MAX" by (simp_all add: multiplier_defs)
  with * show ?thesis by (simp add: section_weight_def Let_def)
qed

lemma compute_weights_clamped: "clamped (compute_weights rs n)"
  using section_weight_clamped
  by (auto simp: clamped_def compute_weights_def Let_def) (auto simp: multiplier_defs)

lemma record_step_ok: "weighter_ok w \<Longrightarrow> weighter_ok (fst (record_step w i p r b t))"
  using compute_weights_clamped
  by (auto simp: weighter_ok_def record_step_def Let_def recompute_and_save_def save_section_weights_def
      load_section_weights_def load_usage_records_def save_usage_records_def slice_from_def MAX_RECORDS_def)

lemma get_budget_multipliers_ok:
  assumes "weighter_ok w" "get_budget_multipliers w = (w', ms)"
  shows "weighter_ok w' \<and> clamped ms \<and> dkeys ms = TRACKED_SECTIONS"
proof -
  have *: "clamped (map (\<lambda>s. (s, dget_or ws s 1)) xs)" if "clamped ws" for ws and xs :: "string list"
    using that dget_Some_in by (fastforce simp: clamped_def dget_or_def multiplier_defs split: option.split)
  show ?thesis
    using assms compute_weights_clamped *
    by (auto simp: get_budget_multipliers_def Let_def weighter_ok_def save_section_weights_def load_section_weights_def
        load_usage_records_def dkeys_def comp_def split: if_splits)
qed

lemma weighter_step_ok: "weighter_ok w \<Longrightarrow> weighter_ok (weighter_step w e)"
  using record_step_ok get_budget_multipliers_ok [OF _ prod.collapse [symmetric], of w]
  by (cases e) (auto simp: weighter_step_def get_stats_def Let_def split: prod.split)

interpretation weighting: machine weighter_step "\<lambda>w. \<exists>n. w = new_weighter n" weighter_ok
proof
  show "\<exists>n. w = new_weighter n \<Longrightarrow> weighter_ok w" for w
    by (auto simp: weighter_ok_def new_weighter_def load_section_weights_def load_usage_records_def clamped_def)
qed (rule weighter_step_ok)

lemma run_weighter_ok: "weighter_ok (run_events weighter_step (new_weighter n) es)"
  by (rule weighting.run_from_start) blast

lemma run_weights_clamped: "clamped (snd (get_budget_multipliers (run_events weighter_step (new_weighter n) es)))"
  using get_budget_multipliers_ok [OF run_weighter_ok prod.collapse [symmetric]] by blast

text \<open>C38. Whatever is recorded and asked, every section's factor is there and lies between a half and two, and the file of
  steps stays within its limit.\<close>

theorem multipliers_stay_clamped:
  "clamped (snd (get_budget_multipliers (run_events weighter_step (new_weighter n) es))) \<and>
   dkeys (snd (get_budget_multipliers (run_events weighter_step (new_weighter n) es))) = TRACKED_SECTIONS \<and>
   length (load_usage_records (run_events weighter_step (new_weighter n) es)) \<le> MAX_RECORDS"
  using get_budget_multipliers_ok [OF run_weighter_ok prod.collapse [symmetric], of n es] run_weighter_ok [of n es]
  by (simp add: weighter_ok_def)

text \<open>Once the file is full the number of records is never a multiple of ten again: the weights do not change any more.\<close>

lemma full_file_freezes_weights:
  assumes "length (load_usage_records w) = MAX_RECORDS"
  shows "wg_weights (fst (record_step w i p r b t)) = wg_weights w \<and>
    length (load_usage_records (fst (record_step w i p r b t))) = MAX_RECORDS"
  using assms
  by (simp add: record_step_def Let_def save_usage_records_def load_usage_records_def slice_from_def MAX_RECORDS_def)

text \<open>A common word cites a section: the reply that speaks of a file and a task cites two.\<close>

lemma citations:
  "detect_cited_sections ''I edit the FILE for this task'' TRACKED_SECTIONS = [''mission_context'', ''file_context'']"
  by code_simp

end
