(* ===== verification/ContextBuild.thy ===== *)
theory ContextBuild
  imports LoopRun ContextWeights
begin

text \<open>
  \<^verbatim>\<open>context_manager.py\<close>: what a model sees of a run. Each section is built, cut to its share of what is
  left, and the sections that lost something are named. What the memory graph adds and the order in which a set of
  paths is listed are arguments; scores are exact sums. A character of the program's own texts that is not
  Latin-1 (an arrow, a dash, a warning sign) is written as one \<^verbatim>\<open>>\<close>, so lengths agree. The time a packet takes is
  left out. The last section gives the packet of the reasoning loop.
\<close>

section \<open>Budgets\<close>

definition TOKEN_BUDGETS :: "(string, int) dict" where
  "TOKEN_BUDGETS =
     [(''local_light'', 8000), (''local_coder'', 16000), (''cheap_cloud_reasoning'', 64000),
      (''strong_cloud_reasoning'', 200000), (''risk_reviewer'', 16000), (''default'', 16000)]"

definition MAX_RECENT_ACTIONS :: nat where "MAX_RECENT_ACTIONS = 10"
definition MAX_RECENT_ERRORS :: nat where "MAX_RECENT_ERRORS = 5"
definition MAX_MEMORY_ITEMS :: nat where "MAX_MEMORY_ITEMS = 10"
definition MAX_FILE_SNIPPETS :: nat where "MAX_FILE_SNIPPETS = 8"
definition RESERVED_CHARS :: int where "RESERVED_CHARS = 4000"

definition budget_of :: "string \<Rightarrow> int" where
  "budget_of profile = dget_or TOKEN_BUDGETS profile (dget_or TOKEN_BUDGETS ''default'' 0)"

record budget_info =
  bi_profile :: string
  bi_total_budget_chars :: int
  bi_reserved_chars :: int
  bi_available_chars :: int
  bi_approximate_tokens :: int

definition get_budget_info :: "string \<Rightarrow> budget_info" where
  "get_budget_info profile =
     \<lparr>bi_profile = profile, bi_total_budget_chars = budget_of profile, bi_reserved_chars = RESERVED_CHARS,
      bi_available_chars = budget_of profile - RESERVED_CHARS, bi_approximate_tokens = budget_of profile div 4\<rparr>"

definition fit :: "string \<Rightarrow> int \<Rightarrow> string \<Rightarrow> string" where
  "fit text budget section =
     (if text = [] then [] else if int (length text) \<le> budget then text else if budget \<le> 0 then []
      else slice_to (budget - 20) text @ nl @ ''... ['' @ section @ '' truncated]'')"

definition weighted_budget :: "(string, pyfloat) dict \<Rightarrow> int \<Rightarrow> string \<Rightarrow> int" where
  "weighted_budget multipliers base section = max 0 \<lfloor>of_int base * dget_or multipliers section 1\<rfloor>"

section \<open>Actions, errors and memory\<close>

text \<open>\<^verbatim>\<open>v[:n]\<close> in a format string: a text or a list can be cut.\<close>

definition cut_value :: "(pyfloat \<Rightarrow> string) \<Rightarrow> nat \<Rightarrow> pyval \<Rightarrow> py_error + string" where
  "cut_value fr n v =
     (case v of PStr s \<Rightarrow> Inr (take n s) | PList xs \<Rightarrow> Inr (val_str fr (PList (take n xs))) | _ \<Rightarrow> Inl TypeError)"

definition action_line :: "(pyfloat \<Rightarrow> string) \<Rightarrow> nat \<Rightarrow> params \<Rightarrow> py_error + string" where
  "action_line fr i act =
     (let line = ''Step '' @ val_str fr (dget_or act ''step'' (PInt (int (i + 1)))) @ '': '' @
            val_str fr (dget_or act ''action_type'' (PStr ''unknown'')) @ '' > '' @
            val_str fr (dget_or act ''outcome'' (PStr ''unknown''));
          reason = dget_or act ''reason'' (PStr [])
      in if \<not> truthy reason then Inr line
         else (case cut_value fr 80 reason of Inl e \<Rightarrow> Inl e | Inr r \<Rightarrow> Inr (line @ '' ('' @ r @ '')'')))"

text \<open>Counting under equal keys, in the order of the first; a list or a dictionary is no key.\<close>

fun count_key :: "(pyval \<times> nat) list \<Rightarrow> pyval \<Rightarrow> (pyval \<times> nat) list" where
  "count_key [] v = [(v, 1)]"
| "count_key ((w, n) # ks) v = (if py_eq w v then (w, n + 1) # ks else (w, n) # count_key ks v)"

definition old_summary :: "(pyfloat \<Rightarrow> string) \<Rightarrow> params list \<Rightarrow> py_error + string" where
  "old_summary fr old =
     (let kinds = map (\<lambda>a. dget_or a ''action_type'' (PStr ''unknown'')) old
      in if \<not> list_all hashable kinds then Inl TypeError
         else Inr (''['' @ nat_str (length old) @ '' earlier actions summarized: '' @
           join '', '' (map (\<lambda>(k, n). nat_str n @ ''x '' @ val_str fr k) (foldl count_key [] kinds)) @ '']'' @ nl))"

definition condense_actions :: "(pyfloat \<Rightarrow> string) \<Rightarrow> params list \<Rightarrow> nat \<Rightarrow> py_error + string" where
  "condense_actions fr acts max_items =
     (if acts = [] then Inr ''No recent actions.''
      else let k = length acts - max_items
           in case (if k = 0 then Inr [] else old_summary fr (take k acts)) of
                Inl e \<Rightarrow> Inl e
              | Inr summary \<Rightarrow>
                  (case collect (map (\<lambda>(i, a). action_line fr i a) (enumerate k (drop k acts))) of
                     Inl e \<Rightarrow> Inl e | Inr lines \<Rightarrow> Inr (summary @ join nl lines)))"

definition error_line :: "(pyfloat \<Rightarrow> string) \<Rightarrow> params \<Rightarrow> py_error + string" where
  "error_line fr err =
     (let kind = val_str fr (dget_or err ''type'' (PStr ''error'')); file = dget_or err ''file'' (PStr []);
          loc = (if truthy file then val_str fr file @ '':'' @ val_str fr (dget_or err ''line'' (PStr [])) else [])
      in case cut_value fr 200 (dget_or err ''message'' (PStr [])) of
           Inl e \<Rightarrow> Inl e
         | Inr m \<Rightarrow> Inr (''['' @ kind @ ''] '' @ (if loc \<noteq> [] then loc @ '': '' else []) @ m))"

definition summarize_errors :: "(pyfloat \<Rightarrow> string) \<Rightarrow> params list \<Rightarrow> nat \<Rightarrow> py_error + string" where
  "summarize_errors fr errors max_items =
     (if errors = [] then Inr ''No recent errors.''
      else case collect (map (error_line fr) (slice_from (- int max_items) errors)) of
        Inl e \<Rightarrow> Inl e | Inr lines \<Rightarrow> Inr (join nl lines))"

definition memory_line :: "(pyfloat \<Rightarrow> string) \<Rightarrow> params \<Rightarrow> string option" where
  "memory_line fr item =
     (let content = dget_or item ''content'' (dget_or item ''description'' (PStr []))
      in if truthy content
         then Some (''['' @ val_str fr (dget_or item ''event_type'' (PStr ''lesson'')) @ ''] '' @ take 200 (val_str fr content))
         else None)"

definition build_memory_context :: "(pyfloat \<Rightarrow> string) \<Rightarrow> params list \<Rightarrow> string" where
  "build_memory_context fr items =
     (let lines = List.map_filter (memory_line fr) (slice_from (- int MAX_MEMORY_ITEMS) items)
      in if lines = [] then ''No relevant memory.'' else join nl lines)"

definition build_mission_context :: "string \<Rightarrow> string \<Rightarrow> string \<Rightarrow> string" where
  "build_mission_context goal mission_id mission_status =
     (let parts = (if goal \<noteq> [] then [''Goal: '' @ goal] else []) @
            (if mission_id \<noteq> [] then [''Mission: '' @ mission_id] else []) @
            (if mission_status \<noteq> [] then [''Status: '' @ mission_status] else [])
      in if parts = [] then ''No active mission.'' else join nl parts)"

section \<open>The state\<close>

text \<open>The first \<open>n\<close> entries of a value that can be cut.\<close>

definition first_items :: "nat \<Rightarrow> pyval \<Rightarrow> py_error + pyval list" where
  "first_items n v =
     (case v of PList xs \<Rightarrow> Inr (take n xs) | PStr s \<Rightarrow> Inr (map (\<lambda>c. PStr [c]) (take n s)) | _ \<Rightarrow> Inl TypeError)"

definition state_text :: "(pyfloat \<Rightarrow> string) \<Rightarrow> params \<Rightarrow> string \<Rightarrow> string" where
  "state_text fr ws k = strip (str_field fr ws k [])"

definition labelled :: "string \<Rightarrow> nat \<Rightarrow> string \<Rightarrow> string list" where
  "labelled label n text = (if text \<noteq> [] then [''  '' @ label @ '': '' @ take n text] else [])"

definition joined_items :: "(pyfloat \<Rightarrow> string) \<Rightarrow> string \<Rightarrow> nat \<Rightarrow> pyval list \<Rightarrow> string" where
  "joined_items fr sep n xs = join sep (map (\<lambda>x. take n (val_str fr x)) xs)"

definition intake_section :: "(pyfloat \<Rightarrow> string) \<Rightarrow> params \<Rightarrow> py_error + string list" where
  "intake_section fr ws =
     (let criteria = dget_or ws ''mbop_acceptance_criteria'' PNone;
          first = labelled ''WHAT'' 200 (state_text fr ws ''mbop_what'') @
            labelled ''WHERE (target file/module)'' 200 (state_text fr ws ''mbop_where'') @
            labelled ''WHY'' 200 (state_text fr ws ''mbop_why'')
      in case (if truthy criteria then first_items 5 criteria else Inr []) of
           Inl e \<Rightarrow> Inl e
         | Inr acs \<Rightarrow>
             let parts = first @ (if truthy criteria then [''  ACCEPTANCE CRITERIA: '' @ joined_items fr ''; '' 100 acs] else [])
             in Inr (if parts = [] then [] else [''## MISSION INTAKE'' @ nl @ join nl parts]))"

definition repeat_section :: "(pyfloat \<Rightarrow> string) \<Rightarrow> params \<Rightarrow> string list" where
  "repeat_section fr ws =
     (if truthy (dget_or ws ''anti_repeat_triggered'' PNone)
      then [''> ANTI-REPEAT GUARD TRIGGERED: '' @ take 200 (str_field fr ws ''anti_repeat_diagnosis'' []) @ nl @
            ''> Do NOT repeat the same find/search. Read or modify the files you found.'']
      else [])"

definition discovered_section :: "(pyfloat \<Rightarrow> string) \<Rightarrow> params \<Rightarrow> string list" where
  "discovered_section fr ws =
     (let v = dget_or ws ''discovered_files'' PNone
      in if truthy v then [''DISCOVERED FILES (> read or modify these next, do NOT search again):'' @ nl @ ''  '' @
           join '', '' (map (val_str fr) (case v of PList xs \<Rightarrow> take 10 xs | _ \<Rightarrow> [v]))]
         else [])"

definition matches_section :: "(pyfloat \<Rightarrow> string) \<Rightarrow> params \<Rightarrow> string list" where
  "matches_section fr ws =
     (case dget_or ws ''search_matched_files'' PNone of
        PList xs \<Rightarrow>
          if xs \<noteq> [] then [''SEARCH MATCHES (> read these files, do NOT search again):'' @ nl @ ''  '' @
            join '', '' (map (val_str fr) (take 10 xs))] else []
      | _ \<Rightarrow> [])"

definition last_tool_section :: "(pyfloat \<Rightarrow> string) \<Rightarrow> params \<Rightarrow> string list" where
  "last_tool_section fr ws =
     (case dget_or ws ''last_tool_result'' PNone of
        PDict d \<Rightarrow>
          let action_type = dget_or d ''action_type'' (PStr []); data = dget_or d ''data'' PNone
          in if d \<noteq> [] \<and> truthy action_type \<and> data \<noteq> PNone
             then [''LAST TOOL RESULT ('' @ val_str fr action_type @ ''): '' @ take 150 (val_str fr data) @ nl @
                   ''> Use this result. Do NOT repeat the same action.'']
             else []
      | _ \<Rightarrow> [])"

text \<open>The entries of a list under a key, when it is a list with entries.\<close>

definition list_under :: "params \<Rightarrow> string \<Rightarrow> pyval list" where
  "list_under ws k = (case dget_or ws k PNone of PList xs \<Rightarrow> xs | _ \<Rightarrow> [])"

definition bullet_items ::
    "(pyfloat \<Rightarrow> string) \<Rightarrow> string list \<Rightarrow> string \<Rightarrow> nat \<Rightarrow> nat \<Rightarrow> pyval list \<Rightarrow> string list" where
  "bullet_items fr heading bullet k n xs =
     (if xs = [] then [] else heading @ map (\<lambda>x. bullet @ take n (val_str fr x)) (take k xs))"

definition repair_section :: "(pyfloat \<Rightarrow> string) \<Rightarrow> params \<Rightarrow> string list" where
  "repair_section fr ws =
     (let stop = state_text fr ws ''previous_stop_reason''; summary = state_text fr ws ''previous_reasoning_summary'';
          pytest = state_text fr ws ''previous_pytest_failure''; files = list_under ws ''previous_files_modified'';
          gate = state_text fr ws ''previous_quality_gate_status''; failed = list_under ws ''previous_quality_gate_failed_checks'';
          score = state_text fr ws ''previous_satisfaction_score''
      in if stop = [] \<and> summary = [] \<and> pytest = [] then []
         else [''## PREVIOUS ATTEMPT DIAGNOSTICS'' @ nl @ join nl (
           labelled ''STOP REASON'' 200 stop @ labelled ''SUMMARY'' 300 summary @ labelled ''PYTEST FAILURE'' 400 pytest @
           (if files \<noteq> [] then [''  FILES MODIFIED: '' @ join '', '' (map (val_str fr) (take 10 files))] else []) @
           (if gate = [] then [] else
              (''  QUALITY GATE: '' @ gate @ '' > '' @ take 200 (str_field fr ws ''previous_quality_gate_reason'' [])) #
              (if failed \<noteq> [] then [''  QUALITY GATE ISSUES: '' @ join '', '' (map (val_str fr) (take 5 failed))] else [])) @
           (if score = [] then [] else
              (''  SATISFACTION SCORE: '' @ score) #
              bullet_items fr [] ''    MISSING AC: '' 3 100 (list_under ws ''previous_satisfaction_missing_acs'')) @
           bullet_items fr [''  LESSONS FROM PREVIOUS RUN:''] ''    - '' 3 150 (list_under ws ''mbop_lessons'') @
           bullet_items fr [''  SUGGESTED NEXT STEPS:''] ''    - '' 3 150 (list_under ws ''mbop_next_step'')) @
           nl @ ''> Address the issues above. Do NOT repeat the same approach.''])"

definition SKIP_KEYS :: "string list" where
  "SKIP_KEYS =
     [''discovered_files'', ''search_matched_files'', ''last_tool_result'', ''anti_repeat_triggered'',
      ''anti_repeat_diagnosis'', ''anti_repeat_retryable'', ''mbop_what'', ''mbop_where'', ''mbop_why'',
      ''mbop_acceptance_criteria'', ''previous_stop_reason'', ''previous_reasoning_summary'',
      ''previous_pytest_failure'', ''previous_files_modified'', ''previous_repair_strategy'',
      ''previous_quality_gate_status'', ''previous_quality_gate_reason'', ''previous_quality_gate_failed_checks'',
      ''previous_satisfaction_score'', ''previous_satisfaction_missing_acs'', ''previous_satisfaction_covered_acs'',
      ''mbop_lessons'', ''mbop_recommended_strategy'', ''mbop_next_step'']"

fun history_parts :: "(pyfloat \<Rightarrow> string) \<Rightarrow> pyval list \<Rightarrow> string list" where
  "history_parts fr [] = []"
| "history_parts fr (PDict d # es) =
     (val_str fr (dget_or d ''action_type'' (PStr ''?'')) @ '':'' @
      take 60 (val_str fr (dget_or d ''data'' (PStr [])))) # history_parts fr es"
| "history_parts fr (e # es) = history_parts fr es"

definition compact_section :: "(pyfloat \<Rightarrow> string) \<Rightarrow> params \<Rightarrow> string list" where
  "compact_section fr ws =
     (let lines = map (\<lambda>(k, v). k @ '': '' @ take 120 (val_str fr v))
            (filter (\<lambda>(k, v). k \<notin> set SKIP_KEYS \<and> k \<noteq> ''tool_result_history'') ws);
          parts = history_parts fr (slice_from (- 2) (list_under ws ''tool_result_history''));
          all = lines @ (if parts \<noteq> [] then [''tool_result_history (last 2): '' @ join '' | '' parts] else [])
      in if all = [] then [] else [''STATE:'' @ nl @ join nl all])"

definition build_state_context :: "(pyfloat \<Rightarrow> string) \<Rightarrow> params \<Rightarrow> py_error + string" where
  "build_state_context fr ws =
     (if ws = [] then Inr ''No state information available.''
      else case intake_section fr ws of
        Inl e \<Rightarrow> Inl e
      | Inr intake \<Rightarrow>
          let sections = intake @ repeat_section fr ws @ discovered_section fr ws @ matches_section fr ws @
                last_tool_section fr ws @ repair_section fr ws @ compact_section fr ws;
              result = (if sections = [] then ''No state information available.'' else join (nl @ nl) sections)
          in Inr (if 2500 < length result then take 2480 result @ nl @ ''... [state truncated]'' else result))"

section \<open>Files\<close>

record scored_file =
  sf_path :: string
  sf_score :: pyfloat
  sf_snippet :: string
  sf_reason :: string

definition ENTRY_NAMES :: "string list" where
  "ENTRY_NAMES =
     [''server.py'', ''main.py'', ''app.py'', ''__init__.py'', ''conftest.py'', ''setup.py'', ''pyproject.toml'']"

definition score_file_relevance :: "string \<Rightarrow> string list \<Rightarrow> string list \<Rightarrow> string list \<Rightarrow> pyfloat" where
  "score_file_relevance file_path keywords recent_files error_files =
     (let p = py_lower file_path
      in min 1 (of_nat (length (filter (\<lambda>kw. contains p (py_lower kw)) keywords)) * (3/10) +
           (if file_path \<in> set recent_files then 2/10 else 0) + (if file_path \<in> set error_files then 4/10 else 0) +
           (if list_ex (ends_with p) ENTRY_NAMES then 1/10 else 0)))"

definition file_header :: "string \<Rightarrow> string" where
  "file_header path = ''--- '' @ path @ '' ---'' @ nl"

text \<open>The entries that fit, how many they are and whether something was cut.\<close>

fun file_parts :: "int \<Rightarrow> nat \<Rightarrow> scored_file list \<Rightarrow> string list \<times> bool" where
  "file_parts budget used [] = ([], False)"
| "file_parts budget used (f # fs) =
     (let entry = (if sf_snippet f \<noteq> [] then file_header (sf_path f) @ redact_secrets (sf_snippet f) @ nl
            else ''--- '' @ sf_path f @ '' (no content loaded) ---'' @ nl);
          room = budget - int used - int (length (file_header (sf_path f) @ nl)) - 20
      in if int (used + length entry) \<le> budget then
           (case file_parts budget (used + length entry) fs of (es, gone) \<Rightarrow> (entry # es, gone))
         else if 100 < room \<and> sf_snippet f \<noteq> [] then
           let short = file_header (sf_path f) @ redact_secrets (take (nat room) (sf_snippet f)) @ nl @ ''... [truncated]'' @ nl
           in (case file_parts budget (used + length short) fs of (es, gone) \<Rightarrow> (short # es, True))
         else ([], True))"

definition scored_files ::
    "(string list \<Rightarrow> string list) \<Rightarrow> string list \<Rightarrow> (string, string) dict \<Rightarrow> string list \<Rightarrow> string list \<Rightarrow>
     string list \<Rightarrow> scored_file list"
where
  "scored_files set_order relevant_files snippets keywords recent_files error_files =
     sort_key (\<lambda>f. - sf_score f) (map (\<lambda>p.
       \<lparr>sf_path = p, sf_score = score_file_relevance p keywords recent_files error_files,
        sf_snippet = dget_or snippets p [],
        sf_reason = (if list_ex (\<lambda>k. contains (py_lower p) (py_lower k)) keywords then ''keyword'' else ''related'')\<rparr>)
       (set_order (remdups (relevant_files @ dkeys snippets))))"

definition build_file_context ::
    "(string list \<Rightarrow> string list) \<Rightarrow> string list \<Rightarrow> (string, string) dict \<Rightarrow> string list \<Rightarrow> string list \<Rightarrow>
     string list \<Rightarrow> int \<Rightarrow> string \<times> bool"
where
  "build_file_context set_order relevant_files snippets keywords recent_files error_files budget =
     (if relevant_files = [] \<and> snippets = [] then (''No files loaded.'', False)
      else
        let scored = scored_files set_order relevant_files snippets keywords recent_files error_files
        in case file_parts budget 0 (take MAX_FILE_SNIPPETS scored) of
             (parts, gone) \<Rightarrow>
               (if parts = [] then ''No files loaded.'' else join nl parts, gone \<or> length parts < length scored))"

section \<open>The packet\<close>

record context_packet =
  pk_mission_context :: string
  pk_state_context :: string
  pk_file_context :: string
  pk_recent_actions :: string
  pk_error_context :: string
  pk_memory_context :: string
  pk_memory_influence :: string
  pk_role :: string
  pk_budget_chars :: int
  pk_used_chars :: nat
  pk_truncated_sections :: "string list"

definition total_chars :: "context_packet \<Rightarrow> nat" where
  "total_chars p = length (pk_mission_context p) + length (pk_state_context p) + length (pk_file_context p) +
     length (pk_recent_actions p) + length (pk_error_context p) + length (pk_memory_context p)"

definition packet_to_dict :: "context_packet \<Rightarrow> params" where
  "packet_to_dict p =
     [(''mission_context'', PStr (redact_secrets (pk_mission_context p))),
      (''state_context'', PStr (redact_secrets (pk_state_context p))),
      (''file_context'', PStr (redact_secrets (pk_file_context p))),
      (''recent_actions'', PStr (redact_secrets (pk_recent_actions p))),
      (''error_context'', PStr (redact_secrets (pk_error_context p))),
      (''memory_context'', PStr (redact_secrets (pk_memory_context p))),
      (''memory_influence'', PStr (redact_secrets (pk_memory_influence p))), (''role'', PStr (pk_role p)),
      (''budget_chars'', PInt (pk_budget_chars p)), (''used_chars'', PInt (int (pk_used_chars p))),
      (''truncated_sections'', PList (map PStr (pk_truncated_sections p)))]"

text \<open>What is asked of the manager.\<close>

record context_request =
  cr_goal :: string
  cr_role :: string
  cr_profile :: string
  cr_mission_id :: string
  cr_mission_status :: string
  cr_world_state :: params
  cr_recent_actions :: "params list"
  cr_recent_errors :: "params list"
  cr_memory_items :: "params list"
  cr_relevant_files :: "string list"
  cr_file_snippets :: "(string, string) dict"
  cr_keywords :: "string list"

definition new_request :: "string \<Rightarrow> context_request" where
  "new_request goal =
     \<lparr>cr_goal = goal, cr_role = ''coder'', cr_profile = ''default'', cr_mission_id = [], cr_mission_status = [],
      cr_world_state = [], cr_recent_actions = [], cr_recent_errors = [], cr_memory_items = [], cr_relevant_files = [],
      cr_file_snippets = [], cr_keywords = []\<rparr>"

text \<open>The surroundings: how a float prints, how a set is listed, the factors of the sections, and the items and the
  summary of the memory graph.\<close>

record context_env =
  ce_float_repr :: "pyfloat \<Rightarrow> string"
  ce_set_order :: "string list \<Rightarrow> string list"
  ce_multipliers :: "(string, pyfloat) dict"
  ce_graph_items :: "params list"
  ce_memory_influence :: string

definition lost :: "string \<Rightarrow> string \<Rightarrow> string \<Rightarrow> string list" where
  "lost name text fitted = (if length fitted < length text then [name] else [])"

definition named_files :: "params list \<Rightarrow> string list" where
  "named_files ds = filter (\<lambda>f. f \<noteq> []) (text_values (map (\<lambda>d. dget_or d ''file'' (PStr [])) ds))"

text \<open>A weighted section: the text, what is left, and its name when something of it was lost.\<close>

definition fit_section ::
    "(string, pyfloat) dict \<Rightarrow> int \<Rightarrow> int \<Rightarrow> int \<Rightarrow> string \<Rightarrow> string \<Rightarrow> string \<Rightarrow> string \<times> int \<times> string list" where
  "fit_section ms available share cap name label text =
     (let s = fit text (weighted_budget ms (min (available div share) cap) name) label
      in (s, available - int (length s), lost name text s))"

definition fill_packet :: "context_env \<Rightarrow> context_request \<Rightarrow> string \<Rightarrow> string \<Rightarrow> string \<Rightarrow> context_packet" where
  "fill_packet env q error_texts action_text state_texts =
     (let ms = ce_multipliers env; budget = budget_of (cr_profile q); available = budget - RESERVED_CHARS;
          mission_text = build_mission_context (cr_goal q) (cr_mission_id q) (cr_mission_status q);
          mission = fit mission_text available ''mission''
      in case fit_section ms (available - int (length mission)) 4 4000 ''error_context'' ''errors'' error_texts of
           (errors, a2, lost2) \<Rightarrow>
         case fit_section ms a2 4 4000 ''recent_actions'' ''actions'' action_text of (actions, a3, lost3) \<Rightarrow>
         case fit_section ms a3 5 2000 ''state_context'' ''state'' state_texts of (state, a4, lost4) \<Rightarrow>
         case fit_section ms a4 4 3000 ''memory_context'' ''memory''
             (build_memory_context (ce_float_repr env) (cr_memory_items q @ ce_graph_items env)) of (memory, a5, lost5) \<Rightarrow>
         case build_file_context (ce_set_order env) (cr_relevant_files q) (cr_file_snippets q) (cr_keywords q)
             (named_files (cr_recent_actions q)) (named_files (cr_recent_errors q)) (max a5 0) of (file_text, gone) \<Rightarrow>
         let files = fit file_text (max a5 0) ''files'';
             p = \<lparr>pk_mission_context = mission, pk_state_context = state, pk_file_context = files,
               pk_recent_actions = actions, pk_error_context = errors, pk_memory_context = memory,
               pk_memory_influence = ce_memory_influence env, pk_role = cr_role q, pk_budget_chars = budget,
               pk_used_chars = 0, pk_truncated_sections = lost ''mission_context'' mission_text mission @ lost2 @ lost3 @
                 lost4 @ lost5 @ (if length files < length file_text \<or> gone then [''file_context''] else [])\<rparr>
         in p\<lparr>pk_used_chars := total_chars p\<rparr>)"

definition build_context :: "context_env \<Rightarrow> context_request \<Rightarrow> py_error + context_packet" where
  "build_context env q =
     (case summarize_errors (ce_float_repr env) (cr_recent_errors q) MAX_RECENT_ERRORS of
        Inl e \<Rightarrow> Inl e
      | Inr error_texts \<Rightarrow>
          (case condense_actions (ce_float_repr env) (cr_recent_actions q) MAX_RECENT_ACTIONS of
             Inl e \<Rightarrow> Inl e
           | Inr action_text \<Rightarrow>
               (case build_state_context (ce_float_repr env) (cr_world_state q) of
                  Inl e \<Rightarrow> Inl e
                | Inr state_texts \<Rightarrow> Inr (fill_packet env q error_texts action_text state_texts))))"

definition or_words :: "string list \<Rightarrow> string \<Rightarrow> string list" where
  "or_words keywords goal = (if keywords \<noteq> [] then keywords else split_ws goal)"

definition build_context_for_navigation :: "context_env \<Rightarrow> string \<Rightarrow> string list \<Rightarrow> py_error + context_packet" where
  "build_context_for_navigation env goal keywords = build_context env
     ((new_request goal)\<lparr>cr_role := ''researcher'', cr_profile := ''local_light'', cr_keywords := or_words keywords goal\<rparr>)"

definition build_context_for_coding ::
    "context_env \<Rightarrow> string \<Rightarrow> (string, string) dict \<Rightarrow> params list \<Rightarrow> params list \<Rightarrow> string list \<Rightarrow>
     py_error + context_packet"
where
  "build_context_for_coding env goal snippets actions errors keywords = build_context env
     ((new_request goal)\<lparr>cr_role := ''coder'', cr_profile := ''cheap_cloud_reasoning'', cr_file_snippets := snippets,
        cr_recent_actions := actions, cr_recent_errors := errors, cr_keywords := or_words keywords goal\<rparr>)"

definition build_context_for_testing ::
    "context_env \<Rightarrow> string \<Rightarrow> string \<Rightarrow> params list \<Rightarrow> py_error + context_packet" where
  "build_context_for_testing env goal test_output errors = build_context env
     ((new_request goal)\<lparr>cr_role := ''tester'', cr_profile := ''cheap_cloud_reasoning'',
        cr_recent_errors := (if test_output \<noteq> [] \<and> errors = []
          then [[(''type'', PStr ''test_output''), (''message'', PStr test_output)]] else errors),
        cr_keywords := [''test'', ''pytest'', ''assert''] @ split_ws goal\<rparr>)"

section \<open>The packet fits\<close>

lemma fit_length:
  assumes "20 \<le> b"
  shows "int (length (fit t b sec)) \<le> b + max 0 (int (length sec) - 3)"
  using assms by (auto simp: fit_def slice_to_def nl_def)

lemma weighted_between:
  assumes "clamped ms" "0 \<le> base"
  shows "base div 2 \<le> weighted_budget ms base sec \<and> weighted_budget ms base sec \<le> 2 * base"
proof -
  let ?m = "dget_or ms sec 1" let ?x = "of_int base * ?m"
  have m: "1/2 \<le> ?m" "?m \<le> 2"
    using assms(1) dget_Some_in by (fastforce simp: clamped_def dget_or_def multiplier_defs split: option.splits)+
  have b: "(0 :: rat) \<le> of_int base" using assms(2) by simp
  have "of_int base * (1/2) \<le> ?x" "?x \<le> of_int base * 2"
    using mult_left_mono [OF m(1) b] mult_left_mono [OF m(2) b] by simp_all
  moreover have "rat_of_int (base div 2) \<le> of_int base * (1/2)"
  proof -
    have "rat_of_int (2 * (base div 2)) \<le> of_int base" unfolding of_int_le_iff by simp
    then show ?thesis by simp
  qed
  ultimately have "base div 2 \<le> \<lfloor>?x\<rfloor>" "\<lfloor>?x\<rfloor> \<le> 2 * base"
    by (simp_all add: le_floor_iff floor_le_iff)
  with assms(2) show ?thesis by (simp add: weighted_budget_def)
qed

text \<open>A section takes at most twice its share and four characters.\<close>

lemma section_room:
  assumes "clamped ms" "40 \<le> base" "length sec \<le> 7"
  shows "int (length (fit t (weighted_budget ms base name) sec)) \<le> 2 * base + 4"
proof -
  have w: "base div 2 \<le> weighted_budget ms base name" "weighted_budget ms base name \<le> 2 * base"
    using weighted_between [OF assms(1), of base name] assms(2) by simp_all
  then have "20 \<le> weighted_budget ms base name" using assms(2) by linarith
  from fit_length [OF this, of t sec] w(2) assms(3) show ?thesis by linarith
qed

lemma room_left:
  assumes "fit_section ms a d cap name sec t = (s, a', l)" "clamped ms" "40 * d \<le> a" "40 \<le> cap" "d = 4 \<or> d = 5"
    and "length sec \<le> 7" "2 * n + 8 \<le> a"
  shows "a' = a - int (length s) \<and> n \<le> a'"
proof -
  let ?b = "min (a div d) cap"
  have "40 \<le> ?b" "2 * (2 * ?b) \<le> a" using assms(3-5) by (auto simp: min_def)
  with section_room [OF assms(2) this(1) assms(6), of t name] assms(1,7) show ?thesis
    by (auto simp: fit_section_def Let_def)
qed

lemma budget_at_least: "8000 \<le> budget_of profile"
proof -
  have "list_all (\<lambda>(k, b). 8000 \<le> b) TOKEN_BUDGETS" by (simp add: TOKEN_BUDGETS_def)
  then show ?thesis using dget_Some_in [of TOKEN_BUDGETS profile]
    by (fastforce simp: budget_of_def dget_or_def list_all_iff TOKEN_BUDGETS_def split: option.split)
qed

lemma packet_fits:
  assumes "build_context env q = Inr p" "clamped (ce_multipliers env)"
    and "length (build_mission_context (cr_goal q) (cr_mission_id q) (cr_mission_status q)) \<le> 2500"
  shows "pk_mission_context p = build_mission_context (cr_goal q) (cr_mission_id q) (cr_mission_status q) \<and>
    int (pk_used_chars p) \<le> pk_budget_chars p - RESERVED_CHARS + 2 \<and> pk_used_chars p = total_chars p"
proof -
  let ?m = "build_mission_context (cr_goal q) (cr_mission_id q) (cr_mission_status q)"
  define b where "b = budget_of (cr_profile q)"
  have b: "8000 \<le> b" unfolding b_def by (rule budget_at_least)
  have m: "fit ?m (b - RESERVED_CHARS) ''mission'' = ?m" using assms(3) b by (simp add: fit_def RESERVED_CHARS_def)
  obtain et acts st where p: "p = fill_packet env q et acts st"
    using assms(1) unfolding build_context_def by (auto split: sum.splits)
  obtain e a2 l2 where e: "fit_section (ce_multipliers env) (b - RESERVED_CHARS - int (length ?m)) 4 4000 ''error_context''
      ''errors'' et = (e, a2, l2)" using prod_cases3 by blast
  obtain a a3 l3 where a: "fit_section (ce_multipliers env) a2 4 4000 ''recent_actions'' ''actions'' acts = (a, a3, l3)"
    using prod_cases3 by blast
  obtain s a4 l4 where s: "fit_section (ce_multipliers env) a3 5 2000 ''state_context'' ''state'' st = (s, a4, l4)"
    using prod_cases3 by blast
  obtain y a5 l5 where y: "fit_section (ce_multipliers env) a4 4 3000 ''memory_context'' ''memory''
      (build_memory_context (ce_float_repr env) (cr_memory_items q @ ce_graph_items env)) = (y, a5, l5)"
    using prod_cases3 by blast
  obtain ft g where ft: "build_file_context (ce_set_order env) (cr_relevant_files q) (cr_file_snippets q) (cr_keywords q)
      (named_files (cr_recent_actions q)) (named_files (cr_recent_errors q)) (max a5 0) = (ft, g)" by fastforce
  have a1: "1500 \<le> b - RESERVED_CHARS - int (length ?m)" using assms(3) b by (simp add: RESERVED_CHARS_def)
  have a2: "a2 = b - RESERVED_CHARS - int (length ?m) - int (length e)" "746 \<le> a2"
    using room_left [OF e assms(2), of 746] a1 by simp_all
  have a3: "a3 = a2 - int (length a)" "369 \<le> a3" using room_left [OF a assms(2), of 369] a2(2) by simp_all
  have a4: "a4 = a3 - int (length s)" "180 \<le> a4" using room_left [OF s assms(2), of 180] a3(2) by simp_all
  have a5: "a5 = a4 - int (length y)" "20 \<le> a5" using room_left [OF y assms(2), of 20] a4(2) by simp_all
  have f: "int (length (fit ft (max a5 0) ''files'')) \<le> a5 + 2"
    using fit_length [of "max a5 0" ft "''files''"] a5(2) by simp
  show ?thesis
    unfolding p fill_packet_def Let_def b_def [symmetric] m e a s y ft prod.case
    using f a2(1) a3(1) a4(1) a5(1) by (simp add: total_chars_def)
qed

text \<open>C26. When the goal leaves room, a packet stays within its budget less the reserve but for two characters, and the
  mission is in it whole, with the factors the weighter has learnt from any run.\<close>

theorem packet_fits_budget:
  assumes "build_context (env\<lparr>ce_multipliers := snd (get_budget_multipliers (run_events weighter_step (new_weighter n) es))\<rparr>)
      q = Inr p"
    and "length (build_mission_context (cr_goal q) (cr_mission_id q) (cr_mission_status q)) \<le> 2500"
  shows "pk_mission_context p = build_mission_context (cr_goal q) (cr_mission_id q) (cr_mission_status q) \<and>
    int (pk_used_chars p) \<le> pk_budget_chars p - RESERVED_CHARS + 2 \<and> pk_used_chars p = total_chars p"
  by (rule packet_fits [OF assms(1) _ assms(2)]) (simp add: run_weights_clamped)

definition plain_env :: context_env where
  "plain_env = \<lparr>ce_float_repr = (\<lambda>f. []), ce_set_order = id, ce_multipliers = [], ce_graph_items = [],
     ce_memory_influence = []\<rparr>"

definition one_step :: "weighter_event list" where
  "one_step = [RecordStep ''s1'' TRACKED_SECTIONS ''the task'' True 1]"

theorem packet_fits_budget_witness:
  "\<exists>p. build_context (plain_env\<lparr>ce_multipliers :=
       snd (get_budget_multipliers (run_events weighter_step (new_weighter 1) one_step))\<rparr>)
       ((new_request ''fix it'')\<lparr>cr_profile := ''local_light''\<rparr>) = Inr p \<and>
     pk_mission_context p = ''Goal: fix it'' \<and> pk_used_chars p \<le> 4002"
proof -
  let ?q = "(new_request ''fix it'')\<lparr>cr_profile := ''local_light''\<rparr>"
  let ?env = "plain_env\<lparr>ce_multipliers := snd (get_budget_multipliers (run_events weighter_step (new_weighter 1) one_step))\<rparr>"
  have ok: "case build_context ?env ?q of Inl e \<Rightarrow> False | Inr p \<Rightarrow> pk_budget_chars p = 8000" by code_simp
  then obtain p where p: "build_context ?env ?q = Inr p" "pk_budget_chars p = 8000" by (auto split: sum.splits)
  have m: "build_mission_context (cr_goal ?q) (cr_mission_id ?q) (cr_mission_status ?q) = ''Goal: fix it''"
    by (simp add: new_request_def build_mission_context_def)
  from packet_fits_budget [OF p(1)] show ?thesis unfolding m using p by (simp add: RESERVED_CHARS_def)
qed

text \<open>Cutting can make a section longer than it was, and then it is not named as cut; a budget below twenty characters
  cuts from the end instead.\<close>

lemma cutting_lengthens:
  "length (fit (replicate 21 (CHR ''x'')) 20 ''mission'') = 24 \<and>
   lost ''mission_context'' (replicate 21 (CHR ''x'')) (fit (replicate 21 (CHR ''x'')) 20 ''mission'') = []"
  by code_simp

lemma small_budget_is_no_budget: "length (fit (replicate 100 (CHR ''x'')) 10 ''errors'') = 113"
  by code_simp

text \<open>A packet's texts are redacted when it is shown as a dictionary, not when it becomes a prompt.\<close>

lemma errors_are_not_redacted:
  "case build_context plain_env ((new_request ''go'')\<lparr>cr_recent_errors :=
       [[(''type'', PStr ''x''), (''message'', PStr ''password=hunter2hunter2'')]]\<rparr>) of
     Inl e \<Rightarrow> False
   | Inr p \<Rightarrow> contains (pk_error_context p) ''hunter2hunter2'' \<and>
       \<not> contains (redact_secrets (pk_error_context p)) ''hunter2hunter2''"
  by code_simp

section \<open>The packet of the reasoning loop\<close>

definition PROFILE_MAP :: "(string, string) dict" where
  "PROFILE_MAP = [(''local_light'', ''local_light''), (''local_coder'', ''local_coder''), (''mini_execution'', ''local_coder''),
     (''strong_execution'', ''cheap_cloud_reasoning'')]"

text \<open>The entries of an error's dictionary, and those of a step's that the manager looks at. The reason is redacted,
  which raises for a value that is no text.\<close>

definition recent_error_dict :: "recent_error \<Rightarrow> params" where
  "recent_error_dict e =
     (case e of
        ReadLoopError step n t \<Rightarrow>
          [(''step'', PInt (int step)), (''error'', PStr (read_loop_message n)), (''action_type'', PStr t)]
      | ActionFailure x step t \<Rightarrow>
          [(''type'', PStr ''action_failure''),
           (''message'', PStr (case x of ExecutionError err \<Rightarrow> error_text err | _ \<Rightarrow> [])),
           (''step'', PInt (int step)), (''action_type'', PStr t)])"

definition step_view :: "loop_step \<Rightarrow> py_error + params" where
  "step_view st =
     (case redact_value (ls_reason st) of
        Inl e \<Rightarrow> Inl e
      | Inr r \<Rightarrow> Inr [(''step_number'', PInt (int (ls_step_number st))), (''action_type'', PStr (ls_action_type st)),
          (''reason'', r), (''outcome'', PStr (ls_outcome st))])"

definition memory_item_dict :: "pyval \<times> pyval \<times> pyfloat \<Rightarrow> params" where
  "memory_item_dict m = (case m of (event_type, content, now) \<Rightarrow>
     [(''event_type'', event_type), (''content'', content), (''timestamp'', PFloat now)])"

definition loop_build_context ::
    "context_env \<Rightarrow> loop_config \<Rightarrow> loop_state \<Rightarrow> string \<Rightarrow> string \<Rightarrow> params list \<Rightarrow> py_error + context_packet" where
  "loop_build_context env cfg s goal mission_id ltm_items =
     (case collect (map step_view (slice_from (- 10) (al_steps s))) of
        Inl e \<Rightarrow> Inl e
      | Inr acts \<Rightarrow> build_context env ((new_request goal)
          \<lparr>cr_role := lc_role cfg, cr_profile := dget_or PROFILE_MAP (lc_preferred_profile cfg) ''cheap_cloud_reasoning'',
           cr_mission_id := mission_id, cr_world_state := al_world_state s, cr_recent_actions := acts,
           cr_recent_errors := map recent_error_dict (slice_from (- 5) (al_recent_errors s)),
           cr_memory_items := map memory_item_dict (al_memory_items s) @ ltm_items\<rparr>))"

text \<open>The read-loop error is put under a key the manager does not read: what the model sees of it is its mark alone.
  And the steps are numbered anew, since the manager looks for the key \<^verbatim>\<open>step\<close>.\<close>

lemma read_loop_error_has_no_text:
  "error_line fr (recent_error_dict (ReadLoopError step n t)) = Inr ''[error] ''"
  by (simp add: error_line_def recent_error_dict_def dget_or_def cut_value_def)

lemma steps_are_renumbered:
  assumes "step_view st = Inr d" "action_line fr 0 d = Inr line"
  shows "starts line ''Step 1: ''"
proof -
  have "dget_or d ''step'' (PInt (int (0 + 1))) = PInt 1"
    using assms(1) by (auto simp: step_view_def dget_or_def split: sum.splits)
  moreover have "int_str 1 = ''1''" by code_simp
  then have "val_str fr (PInt 1) = ''1''" by (simp add: val_str_def)
  ultimately show ?thesis
    using assms(2) by (auto simp: action_line_def Let_def split: if_splits sum.splits)
qed

text \<open>The loop names no files, so the packet's file section is always empty.\<close>

lemma loop_shows_no_files:
  assumes "loop_build_context env cfg s goal mission_id ltm = Inr p"
  shows "\<exists>b. pk_file_context p = fit ''No files loaded.'' b ''files''"
  using assms
  by (auto simp: loop_build_context_def build_context_def fill_packet_def Let_def build_file_context_def new_request_def
      split: sum.splits prod.splits)

end
