(* ===== verification/ModelCalls.thy ===== *)
theory ModelCalls
  imports Redaction PyText
begin

text \<open>
  What the orchestrator of \<^verbatim>\<open>model_orchestrator.py\<close> is made of: the classification of a
  provider's errors (\<^verbatim>\<open>llm_error_classifier.py\<close>), the circuit breaker of each provider, the
  providers, and one call of each protocol: the request that is sent and what is read from the answer. What a
  service answers is an argument, and so is what Python says of an answer of another shape than the code expects.
\<close>

section \<open>Errors of a provider\<close>

record error_class =
  ec_category :: string
  ec_retryable :: bool
  ec_recommended_action :: string
  ec_backoff_seconds :: pyfloat
  ec_provider_switch_allowed :: bool
  ec_severity :: string
  ec_reason :: string

definition error_class_of ::
    "string \<Rightarrow> bool \<Rightarrow> string \<Rightarrow> pyfloat \<Rightarrow> bool \<Rightarrow> string \<Rightarrow> string \<Rightarrow> error_class" where
  "error_class_of category retryable action backoff switch severity text =
     \<lparr>ec_category = category, ec_retryable = retryable, ec_recommended_action = action, ec_backoff_seconds = backoff,
      ec_provider_switch_allowed = switch, ec_severity = severity, ec_reason = take 240 text\<rparr>"

definition KEY_RE :: rx where
  "KEY_RE = Seq (Lit ''sk-'') (Plus (Cls
     [Rng (CHR ''A'') (CHR ''Z''), Rng (CHR ''a'') (CHR ''z''), Rng (CHR ''0'') (CHR ''9''), Ch (CHR ''_''), Ch (CHR ''-'')]))"

definition STATUS_RE :: rx where
  "STATUS_RE = Seqs [WB, Opt (Seqs [Lit ''http'', Star (Cls [SpaceC]), Lit ''error'', Star (Cls [SpaceC])]),
     Grp 1 (Rep 3 (Cls [DigitC])), WB]"

definition mentions :: "string \<Rightarrow> string list \<Rightarrow> bool" where
  "mentions text patterns = list_ex (contains (py_lower text)) patterns"

definition status_in :: "string \<Rightarrow> nat option" where
  "status_in text = map_option num_of (re_group False STATUS_RE 1 (py_lower text))"

definition classify_text :: "string \<Rightarrow> nat option \<Rightarrow> error_class" where
  "classify_text text code =
     (if mentions text [''timeout'', ''timed out''] then
        error_class_of ''timeout'' True ''retry_with_backoff'' 1 True ''warning'' text
      else if code = Some 429 \<or> mentions text [''rate limit'', ''too many requests''] then
        error_class_of ''rate_limit'' True ''backoff_or_switch_provider'' 2 True ''warning'' text
      else if code \<in> {Some 401, Some 403} \<or>
          mentions text [''unauthorized'', ''forbidden'', ''invalid api key'', ''authentication''] then
        error_class_of ''auth_error'' False ''fix_provider_credentials'' 0 False ''critical'' text
      else if code = Some 402 \<or> mentions text [''quota'', ''insufficient_quota'', ''billing'', ''credits''] then
        error_class_of ''quota_exceeded'' False ''switch_provider_or_refill_quota'' 0 True ''high'' text
      else if code = Some 413 \<or>
          mentions text [''context length'', ''maximum context'', ''too many tokens'', ''token limit''] then
        error_class_of ''context_length'' False ''condense_context_and_retry'' 0 True ''high'' text
      else if code = Some 400 \<or> mentions text [''invalid request'', ''bad request'', ''invalid_argument''] then
        error_class_of ''invalid_request'' False ''fix_request_payload'' 0 False ''high'' text
      else if code \<in> {Some 500, Some 502, Some 503, Some 504} \<or>
          mentions text [''service unavailable'', ''gateway'', ''connection reset'', ''temporarily unavailable''] then
        error_class_of ''provider_unavailable'' True ''retry_or_fallback_provider'' (3/2) True ''warning'' text
      else if mentions text [''json'', ''malformed'', ''decode'', ''parse'', ''unexpected end''] then
        error_class_of ''malformed_response'' True ''retry_with_response_repair'' (1/2) True ''warning'' text
      else if mentions text [''tool call'', ''function call'', ''arguments'', ''schema''] then
        error_class_of ''tool_call_invalid'' False ''repair_tool_call_payload'' 0 False ''medium'' text
      else error_class_of ''unknown'' True ''limited_retry_then_fallback'' (1/2) True ''medium'' text)"

definition classify_llm_provider_error :: "string \<Rightarrow> string \<Rightarrow> nat option \<Rightarrow> string \<Rightarrow> error_class" where
  "classify_llm_provider_error exception message status_code provider_response =
     (let raw = join '' '' (filter (\<lambda>x. x \<noteq> []) [message, exception, provider_response]);
          text = re_sub False KEY_RE (\<lambda>c. ''[REDACTED]'') (redact_secrets raw)
      in classify_text text (case status_code of Some c \<Rightarrow> Some c | None \<Rightarrow> status_in text))"

section \<open>Circuit breakers\<close>

record provider_breaker =
  pb_state :: string
  pb_failure_count :: int
  pb_last_failure_time :: pyfloat
  pb_success_count_half_open :: int
  pb_last_error :: string
  pb_failure_threshold :: int
  pb_recovery_timeout :: pyfloat
  pb_success_threshold :: int

record breaker_registry =
  rg_breakers :: "(string, provider_breaker) dict"
  rg_failure_threshold :: int
  rg_recovery_timeout :: pyfloat
  rg_success_threshold :: int

definition new_registry :: "int \<Rightarrow> pyfloat \<Rightarrow> int \<Rightarrow> breaker_registry" where
  "new_registry failures recovery successes =
     \<lparr>rg_breakers = [], rg_failure_threshold = failures, rg_recovery_timeout = recovery,
      rg_success_threshold = successes\<rparr>"

definition default_registry :: breaker_registry where
  "default_registry = new_registry 3 30 1"

definition fresh_provider_breaker :: "breaker_registry \<Rightarrow> provider_breaker" where
  "fresh_provider_breaker g =
     \<lparr>pb_state = ''closed'', pb_failure_count = 0, pb_last_failure_time = 0, pb_success_count_half_open = 0,
      pb_last_error = [], pb_failure_threshold = rg_failure_threshold g, pb_recovery_timeout = rg_recovery_timeout g,
      pb_success_threshold = rg_success_threshold g\<rparr>"

definition pb_success :: "provider_breaker \<Rightarrow> provider_breaker" where
  "pb_success b =
     (if pb_state b = ''half_open'' then
        let n = pb_success_count_half_open b + 1
        in if pb_success_threshold b \<le> n
           then b\<lparr>pb_state := ''closed'', pb_failure_count := 0, pb_success_count_half_open := 0\<rparr>
           else b\<lparr>pb_success_count_half_open := n\<rparr>
      else if pb_state b = ''closed'' then b\<lparr>pb_failure_count := 0\<rparr>
      else b)"

definition pb_failure :: "pyfloat \<Rightarrow> string \<Rightarrow> provider_breaker \<Rightarrow> provider_breaker" where
  "pb_failure now err b =
     (let b1 = b\<lparr>pb_failure_count := pb_failure_count b + 1, pb_last_failure_time := now, pb_last_error := err\<rparr>
      in if pb_state b1 = ''half_open'' then b1\<lparr>pb_state := ''open'', pb_success_count_half_open := 0\<rparr>
         else if pb_failure_threshold b1 \<le> pb_failure_count b1 then b1\<lparr>pb_state := ''open''\<rparr>
         else b1)"

definition pb_available :: "pyfloat \<Rightarrow> provider_breaker \<Rightarrow> provider_breaker \<times> bool" where
  "pb_available now b =
     (if pb_state b \<in> {''closed'', ''half_open''} then (b, True)
      else if pb_recovery_timeout b \<le> now - pb_last_failure_time b
           then (b\<lparr>pb_state := ''half_open'', pb_success_count_half_open := 0\<rparr>, True)
      else (b, False))"

record breaker_view =
  bv_state :: string
  bv_failure_count :: int
  bv_last_error :: string
  bv_available :: bool

text \<open>The view's state is taken before availability is asked, which may change it.\<close>

definition pb_to_dict :: "pyfloat \<Rightarrow> provider_breaker \<Rightarrow> provider_breaker \<times> breaker_view" where
  "pb_to_dict now b =
     (case pb_available now b of (b', ok) \<Rightarrow>
        (b', \<lparr>bv_state = pb_state b, bv_failure_count = pb_failure_count b, bv_last_error = pb_last_error b,
              bv_available = ok\<rparr>))"

definition rg_get :: "breaker_registry \<Rightarrow> string \<Rightarrow> breaker_registry \<times> provider_breaker" where
  "rg_get g name =
     (case dget (rg_breakers g) name of
        Some b \<Rightarrow> (g, b)
      | None \<Rightarrow> (g\<lparr>rg_breakers := dset (rg_breakers g) name (fresh_provider_breaker g)\<rparr>, fresh_provider_breaker g))"

definition rg_put :: "breaker_registry \<Rightarrow> string \<Rightarrow> provider_breaker \<Rightarrow> breaker_registry" where
  "rg_put g name b = g\<lparr>rg_breakers := dset (rg_breakers g) name b\<rparr>"

definition rg_available :: "pyfloat \<Rightarrow> breaker_registry \<Rightarrow> string \<Rightarrow> breaker_registry \<times> bool" where
  "rg_available now g name =
     (case rg_get g name of (g1, b) \<Rightarrow> (case pb_available now b of (b', ok) \<Rightarrow> (rg_put g1 name b', ok)))"

definition rg_success :: "breaker_registry \<Rightarrow> string \<Rightarrow> breaker_registry" where
  "rg_success g name = (case rg_get g name of (g1, b) \<Rightarrow> rg_put g1 name (pb_success b))"

definition rg_failure :: "pyfloat \<Rightarrow> breaker_registry \<Rightarrow> string \<Rightarrow> string \<Rightarrow> breaker_registry" where
  "rg_failure now g name err = (case rg_get g name of (g1, b) \<Rightarrow> rg_put g1 name (pb_failure now err b))"

definition rg_reset :: "breaker_registry \<Rightarrow> string \<Rightarrow> breaker_registry" where
  "rg_reset g name = (if name \<in> set (dkeys (rg_breakers g)) then rg_put g name (fresh_provider_breaker g) else g)"

definition rg_reset_all :: "breaker_registry \<Rightarrow> breaker_registry" where
  "rg_reset_all g = g\<lparr>rg_breakers := []\<rparr>"

definition rg_status :: "(string \<Rightarrow> pyfloat) \<Rightarrow> breaker_registry \<Rightarrow> breaker_registry \<times> (string, breaker_view) dict" where
  "rg_status now g =
     (g\<lparr>rg_breakers := map (\<lambda>(k, b). (k, fst (pb_to_dict (now k) b))) (rg_breakers g)\<rparr>,
      map (\<lambda>(k, b). (k, snd (pb_to_dict (now k) b))) (rg_breakers g))"

section \<open>Providers\<close>

record model_provider =
  mp_name :: string
  mp_base_url :: string
  mp_model :: string
  mp_api_key_env :: string
  mp_input_cost :: pyfloat
  mp_output_cost :: pyfloat
  mp_max_context :: nat
  mp_supports_json_mode :: bool
  mp_is_local :: bool
  mp_available :: bool

definition model_provider_of ::
    "string \<Rightarrow> string \<Rightarrow> string \<Rightarrow> string \<Rightarrow> pyfloat \<Rightarrow> pyfloat \<Rightarrow> nat \<Rightarrow> bool \<Rightarrow> bool \<Rightarrow> string \<times> model_provider" where
  "model_provider_of name url model key input_cost output_cost context json local =
     (name, \<lparr>mp_name = name, mp_base_url = url, mp_model = model, mp_api_key_env = key, mp_input_cost = input_cost,
        mp_output_cost = output_cost, mp_max_context = context, mp_supports_json_mode = json, mp_is_local = local,
        mp_available = True\<rparr>)"

text \<open>\<^verbatim>\<open>os.environ.get(k)\<close>, and the first of some settings that is not empty.\<close>

definition env_text :: "(string, string) dict \<Rightarrow> string \<Rightarrow> string" where
  "env_text env k = dget_or env k []"

fun first_text :: "string list \<Rightarrow> string" where
  "first_text [] = []"
| "first_text (s # ss) = (if s \<noteq> [] then s else first_text ss)"

definition build_default_providers ::
    "(string, string) dict \<Rightarrow> string \<Rightarrow> string \<Rightarrow> string \<Rightarrow> (string, model_provider) dict" where
  "build_default_providers env local_url local_model vast_model =
     [model_provider_of ''ollama'' local_url local_model [] 0 0 4096 False True,
      model_provider_of ''openai'' ''https://api.openai.com/v1''
        (first_text [env_text env ''IGRIS_EXECUTION_FALLBACK_MODEL'', env_text env ''OPENAI_CHAT_FALLBACK_MODEL'',
           ''gpt-4o-mini'']) ''OPENAI_API_KEY'' (15/100) (60/100) 128000 True False,
      model_provider_of ''openai_strong'' ''https://api.openai.com/v1''
        (first_text [env_text env ''IGRIS_EXECUTION_STRONG_MODEL'', ''gpt-4o'']) ''OPENAI_API_KEY'' (5/2) 10 128000 True False,
      model_provider_of ''deepseek'' ''https://api.deepseek.com/v1''
        (first_text [env_text env ''DEEPSEEK_MODEL'', ''deepseek-v4-flash'']) ''DEEPSEEK_API_KEY'' (14/100) (28/100)
        1000000 True False,
      model_provider_of ''deepseek_strong'' ''https://api.deepseek.com/v1''
        (first_text [env_text env ''DEEPSEEK_STRONG_MODEL'', ''deepseek-v4-pro'']) ''DEEPSEEK_API_KEY'' (435/1000)
        (87/100) 1000000 True False,
      model_provider_of ''anthropic'' ''https://api.anthropic.com/v1'' ''claude-sonnet-4-20250514'' ''ANTHROPIC_API_KEY''
        3 15 200000 True False,
      model_provider_of ''vastai_ollama'' [] vast_model [] 0 0 32768 False False]"

definition TASK_PROFILE_MAP :: "(string, string) dict" where
  "TASK_PROFILE_MAP =
     [(''chat'', ''cheap_cloud_reasoning''), (''classification'', ''cheap_cloud_reasoning''),
      (''synthesis'', ''cheap_cloud_reasoning''), (''code_reasoning'', ''cheap_cloud_reasoning''),
      (''code_generation'', ''cheap_cloud_reasoning''), (''patch_generation'', ''cheap_cloud_reasoning''),
      (''plan_generation'', ''cheap_cloud_reasoning''), (''semantic_repair'', ''endpoint_implementation''),
      (''endpoint_implementation'', ''endpoint_implementation''), (''stub_repair'', ''endpoint_implementation''),
      (''risk_review'', ''risk_reviewer''), (''architecture_review'', ''gpu_reasoning''),
      (''security_review'', ''gpu_reasoning''), (''hard_debugging'', ''gpu_reasoning''),
      (''embedding'', ''embedding_memory''), (''safety_check'', ''deterministic''),
      (''policy_check'', ''deterministic''), (''routing'', ''deterministic''),
      (''mini_execution'', ''mini_execution''), (''strong_execution'', ''strong_execution'')]"

definition PROVIDER_CHAINS :: "(string, string list) dict" where
  "PROVIDER_CHAINS =
     [(''local_light'', [''ollama'', ''deepseek'', ''openai'']), (''local_coder'', [''ollama'', ''deepseek'', ''openai'']),
      (''cheap_cloud_reasoning'', [''deepseek'', ''openai'', ''ollama'']),
      (''strong_cloud_reasoning'', [''deepseek_strong'', ''anthropic'', ''openai'']),
      (''endpoint_implementation'', [''deepseek'', ''openai'', ''anthropic'']),
      (''risk_reviewer'', [''deepseek'', ''openai'', ''ollama'']), (''embedding_memory'', [''ollama'', ''openai'']),
      (''mini_execution'', [''deepseek'', ''openai'']),
      (''strong_execution'', [''deepseek_strong'', ''openai_strong'', ''openai'']),
      (''gpu_reasoning'', [''vastai_ollama'', ''deepseek_strong'', ''anthropic'', ''openai_strong''])]"

definition get_provider_chain :: "string \<Rightarrow> string list" where
  "get_provider_chain profile = dget_or PROVIDER_CHAINS profile [''ollama'', ''openai'']"

section \<open>Calls\<close>

text \<open>A result; its time, its random identifier and what a log line says are left out.\<close>

record model_result =
  mr_text :: pyval
  mr_provider :: string
  mr_model :: string
  mr_profile :: string
  mr_fallback_used :: bool
  mr_fallback_reason :: string
  mr_input_tokens :: pyval
  mr_output_tokens :: pyval
  mr_estimated_cost :: pyfloat
  mr_success :: bool
  mr_error :: string
  mr_error_category :: string
  mr_error_retryable :: bool
  mr_error_severity :: string

definition new_model_result :: model_result where
  "new_model_result =
     \<lparr>mr_text = PStr [], mr_provider = [], mr_model = [], mr_profile = [], mr_fallback_used = False,
      mr_fallback_reason = [], mr_input_tokens = PInt 0, mr_output_tokens = PInt 0, mr_estimated_cost = 0,
      mr_success = False, mr_error = [], mr_error_category = [], mr_error_retryable = False, mr_error_severity = []\<rparr>"

type_synonym message = "(string, string) dict"

record model_request =
  mq_messages :: "message list"
  mq_system_prompt :: string
  mq_max_tokens :: int
  mq_temperature :: pyfloat
  mq_json_mode :: bool

text \<open>What goes over the wire, and what comes back: the text of a failure, a document, or the chunks that arrived
  in time.\<close>

record wire_request =
  wr_url :: string
  wr_key :: string
  wr_body :: pyval

datatype wire_answer = WireFailed string | WireDocument pyval | WireChunks "pyval list"

definition message_value :: "message \<Rightarrow> pyval" where
  "message_value m = PDict (map (\<lambda>(k, v). (k, PStr v)) m)"

definition chat_messages :: "model_request \<Rightarrow> pyval list" where
  "chat_messages q =
     (if mq_system_prompt q \<noteq> []
      then [PDict [(''role'', PStr ''system''), (''content'', PStr (mq_system_prompt q))]] else []) @
     map message_value (mq_messages q)"

definition base_url :: "model_provider \<Rightarrow> string" where
  "base_url p = rstrip_chars ''/'' (mp_base_url p)"

definition ollama_request :: "model_provider \<Rightarrow> model_request \<Rightarrow> wire_request" where
  "ollama_request p q =
     \<lparr>wr_url = base_url p @ ''/api/chat'', wr_key = [],
      wr_body = PDict [(''model'', PStr (mp_model p)), (''messages'', PList (chat_messages q)), (''stream'', PBool True)]\<rparr>"

definition openai_request :: "(string, string) dict \<Rightarrow> model_provider \<Rightarrow> model_request \<Rightarrow> wire_request" where
  "openai_request env p q =
     \<lparr>wr_url = base_url p @ ''/chat/completions'', wr_key = env_text env (mp_api_key_env p),
      wr_body = PDict ([(''model'', PStr (mp_model p)), (''messages'', PList (chat_messages q)),
          (''max_tokens'', PInt (mq_max_tokens q)), (''temperature'', PFloat (mq_temperature q))] @
        (if mq_json_mode q \<and> mp_supports_json_mode p
         then [(''response_format'', PDict [(''type'', PStr ''json_object'')])] else []))\<rparr>"

definition anthropic_messages :: "model_request \<Rightarrow> pyval list" where
  "anthropic_messages q =
     map (\<lambda>m. PDict [(''role'', PStr (dget_or m ''role'' ''user'')), (''content'', PStr (dget_or m ''content'' []))])
       (filter (\<lambda>m. dget_or m ''role'' ''user'' \<noteq> ''system'') (mq_messages q))"

definition anthropic_request :: "(string, string) dict \<Rightarrow> model_provider \<Rightarrow> model_request \<Rightarrow> wire_request" where
  "anthropic_request env p q =
     \<lparr>wr_url = base_url p @ ''/messages'', wr_key = env_text env (mp_api_key_env p),
      wr_body = PDict ([(''model'', PStr (mp_model p)), (''max_tokens'', PInt (mq_max_tokens q)),
          (''temperature'', PFloat (mq_temperature q)), (''messages'', PList (anthropic_messages q))] @
        (if mq_system_prompt q \<noteq> [] then [(''system'', PStr (mq_system_prompt q))] else []) @
        (if mq_json_mode q then [(''metadata'', PDict [(''response_format'', PStr ''json_object'')])] else []))\<rparr>"

text \<open>\<^verbatim>\<open>round(x, 6)\<close>, to the even neighbour in the middle.\<close>

definition half_even :: "pyfloat \<Rightarrow> int" where
  "half_even x =
     (let n = \<lfloor>x\<rfloor>; d = x - of_int n
      in if d < 1/2 \<or> d = 1/2 \<and> even n then n else n + 1)"

definition round6 :: "pyfloat \<Rightarrow> pyfloat" where
  "round6 x = of_int (half_even (x * 1000000)) / 1000000"

definition call_cost :: "model_provider \<Rightarrow> pyfloat \<Rightarrow> pyfloat \<Rightarrow> pyfloat" where
  "call_cost p input_tokens output_tokens =
     round6 (input_tokens / 1000000 * mp_input_cost p + output_tokens / 1000000 * mp_output_cost p)"

text \<open>The result of a metered call, when the usage is made of finite numbers; any other usage is an odd reply.\<close>

definition metered ::
    "string \<Rightarrow> model_provider \<Rightarrow> pyval \<Rightarrow> bool \<Rightarrow> pyval \<Rightarrow> string \<Rightarrow> string \<Rightarrow> string + model_result" where
  "metered odd_reply p text success usage in_key out_key =
     (case usage of
        PDict u \<Rightarrow>
          let i = dget_or u in_key (PInt 0); k = dget_or u out_key (PInt 0)
          in (case (py_number i, py_number k) of
               (Some a, Some b) \<Rightarrow> Inr (new_model_result
                 \<lparr>mr_text := text, mr_provider := mp_name p, mr_model := mp_model p, mr_success := success,
                  mr_input_tokens := i, mr_output_tokens := k, mr_estimated_cost := call_cost p a b\<rparr>)
             | _ \<Rightarrow> Inl odd_reply)
      | _ \<Rightarrow> Inl odd_reply)"

fun read_chunks :: "pyval list \<Rightarrow> string option" where
  "read_chunks [] = Some []"
| "read_chunks (PDict c # cs) =
     (case dget_or c ''message'' (PDict []) of
        PDict m \<Rightarrow>
          (case dget_or m ''content'' (PStr []) of
             PStr part \<Rightarrow>
               if truthy (dget_or c ''done'' PNone) then Some part
               else map_option (\<lambda>rest. part @ rest) (read_chunks cs)
           | v \<Rightarrow> if truthy v then None
               else if truthy (dget_or c ''done'' PNone) then Some [] else read_chunks cs)
      | _ \<Rightarrow> None)"
| "read_chunks (v # cs) = None"

definition ollama_result :: "string \<Rightarrow> model_provider \<Rightarrow> wire_answer \<Rightarrow> string + model_result" where
  "ollama_result odd_reply p answer =
     (case answer of
        WireFailed e \<Rightarrow> Inl (''Ollama call failed: '' @ e)
      | WireDocument v \<Rightarrow> Inl odd_reply
      | WireChunks cs \<Rightarrow>
          (case read_chunks cs of
             None \<Rightarrow> Inl odd_reply
           | Some text \<Rightarrow> Inr (new_model_result\<lparr>mr_text := PStr text, mr_provider := ''ollama'',
               mr_model := mp_model p, mr_success := (text \<noteq> [])\<rparr>)))"

definition openai_content :: "(string, pyval) dict \<Rightarrow> pyval option" where
  "openai_content data =
     (case dget_or data ''choices'' (PList []) of
        PList (PDict c # cs) \<Rightarrow>
          (case dget c ''message'' of
             Some (PDict m) \<Rightarrow> Some (py_or (dget_or m ''content'' PNone) (dget_or m ''reasoning_content'' (PStr [])))
           | _ \<Rightarrow> None)
      | v \<Rightarrow> if truthy v then None else Some (PStr []))"

definition openai_result :: "string \<Rightarrow> model_provider \<Rightarrow> wire_answer \<Rightarrow> string + model_result" where
  "openai_result odd_reply p answer =
     (case answer of
        WireFailed e \<Rightarrow> Inl (mp_name p @ '' call failed: '' @ e)
      | WireDocument (PDict data) \<Rightarrow>
          (case openai_content data of
             None \<Rightarrow> Inl odd_reply
           | Some text \<Rightarrow> metered odd_reply p text (truthy text) (dget_or data ''usage'' (PDict []))
               ''prompt_tokens'' ''completion_tokens'')
      | _ \<Rightarrow> Inl odd_reply)"

text \<open>The texts of the blocks that are texts.\<close>

definition text_blocks :: "pyval \<Rightarrow> pyval list option" where
  "text_blocks content =
     (case py_iter content of
        Inl e \<Rightarrow> None
      | Inr items \<Rightarrow> Some (List.map_filter (\<lambda>b. case b of
          PDict d \<Rightarrow> if dget_or d ''type'' PNone = PStr ''text'' then Some (dget_or d ''text'' (PStr [])) else None
        | _ \<Rightarrow> None) items))"

definition anthropic_result :: "string \<Rightarrow> model_provider \<Rightarrow> wire_answer \<Rightarrow> string + model_result" where
  "anthropic_result odd_reply p answer =
     (case answer of
        WireFailed e \<Rightarrow> Inl (mp_name p @ '' call failed: '' @ e)
      | WireDocument (PDict data) \<Rightarrow>
          (case text_blocks (dget_or data ''content'' (PList [])) of
             None \<Rightarrow> Inl odd_reply
           | Some parts \<Rightarrow>
               (case as_strings parts of
                  None \<Rightarrow> Inl odd_reply
                | Some texts \<Rightarrow> metered odd_reply p (PStr (concat texts)) (parts \<noteq> [])
                    (dget_or data ''usage'' (PDict [])) ''input_tokens'' ''output_tokens''))
      | _ \<Rightarrow> Inl odd_reply)"

text \<open>The request a provider is sent, or why none is, and what is made of the answer.\<close>

definition wire_of :: "(string, string) dict \<Rightarrow> model_provider \<Rightarrow> model_request \<Rightarrow> string + wire_request" where
  "wire_of env p q =
     (if mp_name p \<in> {''ollama'', ''vastai_ollama''} then Inr (ollama_request p q)
      else if env_text env (mp_api_key_env p) = [] then Inl (''No API key for '' @ mp_name p)
      else if mp_name p = ''anthropic'' then Inr (anthropic_request env p q)
      else Inr (openai_request env p q))"

definition result_of_answer :: "string \<Rightarrow> model_provider \<Rightarrow> wire_answer \<Rightarrow> string + model_result" where
  "result_of_answer odd_reply p answer =
     (if mp_name p \<in> {''ollama'', ''vastai_ollama''} then ollama_result odd_reply p answer
      else if mp_name p = ''anthropic'' then anthropic_result odd_reply p answer
      else openai_result odd_reply p answer)"

end
