(* ===== verification/Orchestrator.thy ===== *)
theory Orchestrator
  imports ModelCalls
begin

text \<open>
  \<^verbatim>\<open>model_orchestrator.py\<close>: a completion is asked of the providers of a profile's chain in order, each with
  retries as the error's class allows, behind its circuit breaker; the accounts are kept. What happens outside is a
  trace of events: a request sent to a provider of the chain, a pause, a look at the clock. The answers and the
  clock are functions of the trace so far. A machine rented in the background may lend its address to one provider.
\<close>

section \<open>State and surroundings\<close>

datatype model_event = Sent string wire_request | Slept pyfloat | ReadClock

record model_io =
  mo_env :: "(string, string) dict"
  mo_answer :: "model_event list \<Rightarrow> wire_request \<Rightarrow> wire_answer"
  mo_clock :: "model_event list \<Rightarrow> pyfloat"
  mo_vast_endpoint :: "string option"
  mo_odd_reply :: string

record orchestrator =
  og_providers :: "(string, model_provider) dict"
  og_breakers :: breaker_registry
  og_retry_max_attempts :: nat
  og_retry_base_delay :: pyfloat
  og_history :: "(string \<times> model_result) list"
  og_total_cost :: pyfloat
  og_call_count :: nat

definition new_orchestrator :: "(string, model_provider) dict \<Rightarrow> orchestrator" where
  "new_orchestrator providers =
     \<lparr>og_providers = providers, og_breakers = default_registry, og_retry_max_attempts = 2, og_retry_base_delay = 1/2,
      og_history = [], og_total_cost = 0, og_call_count = 0\<rparr>"

definition record_model_call :: "model_result \<Rightarrow> string \<Rightarrow> orchestrator \<Rightarrow> orchestrator" where
  "record_model_call r task_type og = og
     \<lparr>og_call_count := og_call_count og + 1, og_total_cost := og_total_cost og + mr_estimated_cost r,
      og_history := og_history og @ [(task_type, r)]\<rparr>"

text \<open>Whether a provider is configured; the rented machine's address is kept with its provider.\<close>

definition check_provider_available ::
    "model_io \<Rightarrow> model_provider \<Rightarrow> model_provider \<times> bool" where
  "check_provider_available io p =
     (if mp_name p = ''vastai_ollama'' then
        (case mo_vast_endpoint io of
           None \<Rightarrow> (p, False)
         | Some u \<Rightarrow> if u = [] then (p, False) else (p\<lparr>mp_base_url := u\<rparr>, True))
      else if mp_is_local p then (p, True)
      else if mp_api_key_env p \<noteq> [] \<and> env_text (mo_env io) (mp_api_key_env p) = [] then (p, False)
      else (p, True))"

section \<open>One provider\<close>

definition call_provider ::
    "model_io \<Rightarrow> string \<Rightarrow> model_provider \<Rightarrow> model_request \<Rightarrow> model_event list \<Rightarrow>
     model_event list \<times> (string + model_result)"
where
  "call_provider io name p q trace =
     (case wire_of (mo_env io) p q of
        Inl e \<Rightarrow> (trace, Inl e)
      | Inr w \<Rightarrow> (trace @ [Sent name w], result_of_answer (mo_odd_reply io) p (mo_answer io trace w)))"

function try_attempts ::
    "model_io \<Rightarrow> string \<Rightarrow> model_provider \<Rightarrow> model_request \<Rightarrow> nat \<Rightarrow> pyfloat \<Rightarrow> nat \<Rightarrow> model_event list \<Rightarrow>
     model_event list \<times> (error_class + model_result)"
where
  "try_attempts io name p q retries base attempt trace =
     (case call_provider io name p q trace of
        (trace1, Inr r) \<Rightarrow> (trace1, Inr r)
      | (trace1, Inl e) \<Rightarrow>
          let c = classify_llm_provider_error e e None []
          in if \<not> ec_retryable c \<or> retries \<le> attempt then (trace1, Inl c)
             else try_attempts io name p q retries base (attempt + 1)
               (trace1 @ [Slept (max (base * 2 ^ attempt) (ec_backoff_seconds c))]))"
  by pat_completeness auto
termination
  by (relation "measure (\<lambda>(io, name, p, q, retries, base, attempt, trace). retries - attempt)") auto

declare try_attempts.simps [simp del]

section \<open>The chain\<close>

text \<open>What the last failure left behind: its text, and the class of the last error that was classified.\<close>

record chain_memory =
  cm_last_error :: string
  cm_category :: string
  cm_retryable :: bool
  cm_severity :: string

definition no_memory :: chain_memory where
  "no_memory = \<lparr>cm_last_error = [], cm_category = ''unknown'', cm_retryable = False, cm_severity = ''medium''\<rparr>"

definition remember :: "error_class \<Rightarrow> chain_memory" where
  "remember c =
     \<lparr>cm_last_error = ec_reason c, cm_category = ec_category c, cm_retryable = ec_retryable c, cm_severity = ec_severity c\<rparr>"

text \<open>One provider of the chain: skipped with what is remembered, or asked, which ends the chain or does not.\<close>

datatype chain_stop = Skipped chain_memory | Ended "chain_memory + model_result"

definition visit ::
    "model_io \<Rightarrow> string \<Rightarrow> model_request \<Rightarrow> nat \<Rightarrow> string \<Rightarrow> chain_memory \<Rightarrow> orchestrator \<Rightarrow> model_event list \<Rightarrow>
     orchestrator \<times> model_event list \<times> chain_stop"
where
  "visit io profile q i name mem og trace =
     (case dget (og_providers og) name of
        None \<Rightarrow> (og, trace, Skipped mem)
      | Some p \<Rightarrow>
          if \<not> mp_available p then (og, trace, Skipped mem)
          else case check_provider_available io p of
            (p1, configured) \<Rightarrow>
              let og1 = og\<lparr>og_providers := dset (og_providers og) name p1\<rparr>
              in if \<not> configured then (og1, trace, Skipped mem)
                 else case rg_available (mo_clock io trace) (og_breakers og1) name of
                   (g, ready) \<Rightarrow>
                     let og2 = og1\<lparr>og_breakers := g\<rparr>; trace1 = trace @ [ReadClock]
                     in if \<not> ready then
                          (og2, trace1, Skipped
                            (mem\<lparr>cm_last_error := name @ '' circuit breaker open: '' @ pb_last_error (snd (rg_get g name))\<rparr>))
                        else case try_attempts io name p1 q (og_retry_max_attempts og) (og_retry_base_delay og) 0 trace1 of
                          (trace2, Inr r) \<Rightarrow>
                            (og2\<lparr>og_breakers := rg_success (og_breakers og2) name\<rparr>, trace2,
                             Ended (Inr (r\<lparr>mr_profile := profile, mr_fallback_used := (0 < i),
                                    mr_fallback_reason := (if 0 < i then
                                      (if cm_last_error mem \<noteq> [] then cm_last_error mem else ''primary unavailable'')
                                      else mr_fallback_reason r)\<rparr>)))
                        | (trace2, Inl c) \<Rightarrow>
                            let og3 = og2\<lparr>og_breakers := rg_failure (mo_clock io trace2) (og_breakers og2) name (ec_reason c)\<rparr>;
                                trace3 = trace2 @ [ReadClock]
                            in (og3, trace3,
                                if \<not> ec_provider_switch_allowed c then Ended (Inl (remember c)) else Skipped (remember c)))"

fun try_chain ::
    "model_io \<Rightarrow> string \<Rightarrow> model_request \<Rightarrow> nat \<Rightarrow> string list \<Rightarrow> chain_memory \<Rightarrow> orchestrator \<Rightarrow> model_event list \<Rightarrow>
     orchestrator \<times> model_event list \<times> (chain_memory + model_result)"
where
  "try_chain io profile q i [] mem og trace = (og, trace, Inl mem)"
| "try_chain io profile q i (name # names) mem og trace =
     (case visit io profile q i name mem og trace of
        (og1, trace1, Skipped mem1) \<Rightarrow> try_chain io profile q (i + 1) names mem1 og1 trace1
      | (og1, trace1, Ended r) \<Rightarrow> (og1, trace1, r))"

definition fallback_result :: "string \<Rightarrow> chain_memory \<Rightarrow> model_result" where
  "fallback_result profile mem = new_model_result
     \<lparr>mr_provider := ''deterministic_fallback'', mr_model := ''none'', mr_profile := profile, mr_fallback_used := True,
      mr_fallback_reason := (if cm_last_error mem \<noteq> [] then cm_last_error mem else ''no provider available''),
      mr_error := ''All providers unavailable'', mr_error_category := cm_category mem,
      mr_error_retryable := cm_retryable mem, mr_error_severity := cm_severity mem\<rparr>"

definition deterministic_result :: model_result where
  "deterministic_result = new_model_result
     \<lparr>mr_provider := ''deterministic'', mr_model := ''none'', mr_profile := ''deterministic'', mr_success := True\<rparr>"

definition profile_of :: "string \<Rightarrow> string \<Rightarrow> string" where
  "profile_of task_type preferred =
     (if preferred \<noteq> [] then preferred else dget_or TASK_PROFILE_MAP task_type ''local_light'')"

definition complete ::
    "model_io \<Rightarrow> string \<Rightarrow> string \<Rightarrow> model_request \<Rightarrow> orchestrator \<times> model_event list \<Rightarrow>
     (orchestrator \<times> model_event list) \<times> model_result"
where
  "complete io task_type preferred q st =
     (let profile = profile_of task_type preferred
      in if profile = ''deterministic'' then
           ((record_model_call deterministic_result task_type (fst st), snd st), deterministic_result)
         else case try_chain io profile q 0 (get_provider_chain profile) no_memory (fst st) (snd st) of
           (og, trace, Inr r) \<Rightarrow> ((record_model_call r task_type og, trace), r)
         | (og, trace, Inl mem) \<Rightarrow>
             let r = fallback_result profile mem in ((record_model_call r task_type og, trace), r))"

section \<open>Accounts\<close>

definition get_cost_summary :: "orchestrator \<Rightarrow> pyfloat \<times> nat \<times> nat" where
  "get_cost_summary og = (round6 (og_total_cost og), og_call_count og, length (og_history og))"

definition get_history :: "orchestrator \<Rightarrow> int \<Rightarrow> (string \<times> model_result) list" where
  "get_history og limit = rev (slice_from (- limit) (og_history og))"

definition list_providers :: "orchestrator \<Rightarrow> model_provider list" where
  "list_providers og = map snd (og_providers og)"

definition get_circuit_breaker_status ::
    "model_io \<Rightarrow> orchestrator \<times> model_event list \<Rightarrow> (orchestrator \<times> model_event list) \<times> (string, breaker_view) dict" where
  "get_circuit_breaker_status io st =
     (case rg_status (\<lambda>k. mo_clock io (snd st)) (og_breakers (fst st)) of
        (g, views) \<Rightarrow> (((fst st)\<lparr>og_breakers := g\<rparr>, snd st @ [ReadClock]), views))"

definition reset_circuit_breaker :: "string \<Rightarrow> orchestrator \<Rightarrow> orchestrator" where
  "reset_circuit_breaker name og =
     og\<lparr>og_breakers := (if name \<noteq> [] then rg_reset (og_breakers og) name else rg_reset_all (og_breakers og))\<rparr>"

end
