(* ===== verification/OrchestratorTheorems.thy ===== *)
theory OrchestratorTheorems
  imports Orchestrator
begin

text \<open>
  What the orchestrator of \<^verbatim>\<open>model_orchestrator.py\<close> promises: whom a completion asks and how often, where a key
  is sent, what an open breaker keeps from being asked, the accounts over any run of calls, the policy of retries;
  and a chain at work, with what it does on an empty reply and on a rejected key.
\<close>


section \<open>Events\<close>

fun sent_to :: "model_event \<Rightarrow> string option" where
  "sent_to (Sent n w) = Some n"
| "sent_to _ = None"

definition contacted :: "model_event list \<Rightarrow> string list" where
  "contacted es = List.map_filter sent_to es"

lemma contacted_simps [simp]:
  "contacted [] = []" "contacted (Sent n w # es) = n # contacted es"
  "contacted (Slept d # es) = contacted es" "contacted (ReadClock # es) = contacted es"
  "contacted (es @ fs) = contacted es @ contacted fs"
  by (simp_all add: contacted_def List.map_filter_def)

section \<open>Attempts\<close>

lemma call_provider_trace:
  "\<exists>es. fst (call_provider io name p q trace) = trace @ es \<and> contacted es \<in> {[], [name]}"
  by (cases "wire_of (mo_env io) p q") (auto simp: call_provider_def)

lemma try_attempts_trace:
  assumes "attempt \<le> retries"
  shows "\<exists>es. fst (try_attempts io name p q retries base attempt trace) = trace @ es \<and>
    set (contacted es) \<subseteq> {name} \<and> length (contacted es) \<le> retries + 1 - attempt"
  using assms
proof (induction io name p q retries base attempt trace rule: try_attempts.induct)
  case (1 io name p q retries base attempt trace)
  obtain es r where c: "call_provider io name p q trace = (trace @ es, r)" and es: "contacted es \<in> {[], [name]}"
    using call_provider_trace[of io name p q trace] by (metis prod.collapse)
  show ?case
  proof (cases "\<exists>e. r = Inl e \<and> ec_retryable (classify_llm_provider_error e e None []) \<and> attempt < retries")
    case False
    then have "fst (try_attempts io name p q retries base attempt trace) = trace @ es"
      by (subst try_attempts.simps) (auto simp: c Let_def not_less split: sum.splits)
    then show ?thesis using es 1(2) by (intro exI[of _ es]) auto
  next
    case True
    then obtain e where e: "r = Inl e" "ec_retryable (classify_llm_provider_error e e None [])" "attempt < retries"
      by blast
    let ?w = "Slept (max (base * 2 ^ attempt) (ec_backoff_seconds (classify_llm_provider_error e e None [])))"
    have "try_attempts io name p q retries base attempt trace =
        try_attempts io name p q retries base (attempt + 1) ((trace @ es) @ [?w])"
      using e by (subst try_attempts.simps) (simp add: c Let_def)
    moreover have "\<exists>fs. fst (try_attempts io name p q retries base (attempt + 1) ((trace @ es) @ [?w])) =
        ((trace @ es) @ [?w]) @ fs \<and> set (contacted fs) \<subseteq> {name} \<and> length (contacted fs) \<le> retries + 1 - (attempt + 1)"
      using 1(1)[OF c[symmetric] e(1) refl] e by simp
    ultimately obtain fs where "fst (try_attempts io name p q retries base attempt trace) = trace @ es @ [?w] @ fs"
      "set (contacted fs) \<subseteq> {name}" "length (contacted fs) \<le> retries + 1 - (attempt + 1)" by auto
    then show ?thesis using es e(3) by (intro exI[of _ "es @ [?w] @ fs"]) auto
  qed
qed

section \<open>The chain\<close>

text \<open>What an orchestrator keeps while a chain is tried: its retry policy, its accounts and the other breakers.\<close>

definition same_books :: "orchestrator \<Rightarrow> orchestrator \<Rightarrow> bool" where
  "same_books a b \<longleftrightarrow> og_retry_max_attempts a = og_retry_max_attempts b \<and> og_retry_base_delay a = og_retry_base_delay b \<and>
     og_history a = og_history b \<and> og_total_cost a = og_total_cost b \<and> og_call_count a = og_call_count b"

lemma same_books_refl [simp]: "same_books a a"
  by (simp add: same_books_def)

lemma same_books_trans: "same_books a b \<Longrightarrow> same_books b c \<Longrightarrow> same_books a c"
  by (simp add: same_books_def)

lemma same_books_updates [simp]:
  "same_books (og\<lparr>og_providers := x\<rparr>) og" "same_books (og\<lparr>og_breakers := g\<rparr>) og"
  "same_books (og\<lparr>og_providers := x, og_breakers := g\<rparr>) og"
  by (simp_all add: same_books_def)

lemma visit_trace:
  "case visit io profile q i name mem og trace of (og1, trace1, stop) \<Rightarrow>
     same_books og1 og \<and> (\<exists>es. trace1 = trace @ es \<and> set (contacted es) \<subseteq> {name} \<and>
       length (contacted es) \<le> og_retry_max_attempts og + 1)"
proof -
  { fix p and tr :: "model_event list"
    have "\<exists>es. fst (try_attempts io name p q (og_retry_max_attempts og) (og_retry_base_delay og) 0 tr) = tr @ es \<and>
        set (contacted es) \<subseteq> {name} \<and> length (contacted es) \<le> og_retry_max_attempts og + 1"
      using try_attempts_trace[of 0 "og_retry_max_attempts og" io name p q "og_retry_base_delay og" tr] by simp
    then have "\<exists>r es. try_attempts io name p q (og_retry_max_attempts og) (og_retry_base_delay og) 0 tr = (tr @ es, r) \<and>
        set (contacted es) \<subseteq> {name} \<and> length (contacted es) \<le> og_retry_max_attempts og + 1"
      by (metis prod.collapse) }
  note attempts = this
  show ?thesis
  proof (cases "dget (og_providers og) name")
    case (Some p)
    obtain p1 b where p1: "check_provider_available io p = (p1, b)" by fastforce
    obtain g ready where g: "rg_available (mo_clock io trace) (og_breakers og) name = (g, ready)" by fastforce
    obtain r es where a: "try_attempts io name p1 q (og_retry_max_attempts og) (og_retry_base_delay og) 0 (trace @ [ReadClock])
          = (trace @ [ReadClock] @ es, r)" "set (contacted es) \<subseteq> {name}" "length (contacted es) \<le> og_retry_max_attempts og + 1"
      using attempts[of p1 "trace @ [ReadClock]"] by auto
    have f: "\<exists>fs. trace @ gs = trace @ fs \<and> set (contacted fs) \<subseteq> {name} \<and> length (contacted fs) \<le> og_retry_max_attempts og + 1"
      if "contacted gs \<in> {[], contacted es}" for gs
      using that a(2,3) by (intro exI[of _ gs]) auto
    from a f[of "[ReadClock]"] f[of "[ReadClock] @ es"] f[of "[ReadClock] @ es @ [ReadClock]"] f[of "[]"] show ?thesis
      by (cases r) (simp_all add: visit_def Some p1 g Let_def a(1))
  qed (simp add: visit_def)
qed

text \<open>A chain is asked in its order when the providers asked are those of the chain, each some number of times in a row.\<close>

definition asks_in_order :: "nat \<Rightarrow> string list \<Rightarrow> string list \<Rightarrow> bool" where
  "asks_in_order most chain asked \<longleftrightarrow>
     (\<exists>times. length times = length chain \<and> (\<forall>k \<in> set times. k \<le> most) \<and> asked = concat (map2 replicate times chain))"

lemma asks_in_order_Cons:
  assumes "k \<le> most" "asks_in_order most chain asked"
  shows "asks_in_order most (name # chain) (replicate k name @ asked)"
proof -
  from assms(2) obtain times where "length times = length chain" "\<forall>k \<in> set times. k \<le> most"
    "asked = concat (map2 replicate times chain)" by (auto simp: asks_in_order_def)
  with assms(1) show ?thesis unfolding asks_in_order_def by (intro exI [of _ "k # times"]) simp
qed

lemma asks_nobody: "asks_in_order most chain []"
  unfolding asks_in_order_def
  by (intro exI [of _ "replicate (length chain) 0"]) (auto simp: map2_map_map zip_replicate1 concat_map_singleton)

lemma try_chain_trace:
  "case try_chain io profile q i names mem og trace of (og1, trace1, r) \<Rightarrow>
     same_books og1 og \<and> (\<exists>es. trace1 = trace @ es \<and> asks_in_order (og_retry_max_attempts og + 1) names (contacted es))"
proof (induction names arbitrary: i mem og trace)
  case Nil
  then show ?case by (simp add: asks_nobody)
next
  case (Cons name names)
  obtain og1 trace1 stop where v: "visit io profile q i name mem og trace = (og1, trace1, stop)"
    by (metis prod_cases3)
  from visit_trace[where io = io and profile = profile and q = q and i = i and name = name and mem = mem and og = og and trace = trace] v obtain es where
    es: "trace1 = trace @ es" "set (contacted es) \<subseteq> {name}" "length (contacted es) \<le> og_retry_max_attempts og + 1"
    and same: "same_books og1 og" by auto
  have rep: "contacted es = replicate (length (contacted es)) name"
    by (rule replicate_length_same [symmetric]) (use es(2) in auto)
  show ?case
  proof (cases stop)
    case (Skipped mem1)
    obtain og2 trace2 r where t: "try_chain io profile q (i + 1) names mem1 og1 trace1 = (og2, trace2, r)"
      by (metis prod_cases3)
    have "og_retry_max_attempts og1 = og_retry_max_attempts og" using same by (simp add: same_books_def)
    with Cons.IH[where i = "i + 1" and mem = mem1 and og = og1 and trace = trace1] t obtain fs where
      fs: "trace2 = trace1 @ fs" "asks_in_order (og_retry_max_attempts og + 1) names (contacted fs)"
        and same2: "same_books og2 og1" by auto
    have "asks_in_order (og_retry_max_attempts og + 1) (name # names) (contacted (es @ fs))"
      using asks_in_order_Cons [where name = name, OF es(3) fs(2)] rep by simp
    moreover have "trace2 = trace @ es @ fs" using es(1) fs(1) by simp
    ultimately show ?thesis using same_books_trans [OF same2 same] t v Skipped by auto
  next
    case (Ended r)
    have "asks_in_order (og_retry_max_attempts og + 1) (name # names) (contacted es)"
      using asks_in_order_Cons [where chain = names and name = name, OF es(3) asks_nobody] rep by simp
    then show ?thesis using es(1) same v Ended by auto
  qed
qed

section \<open>A completion\<close>

definition completion_chain :: "string \<Rightarrow> string list" where
  "completion_chain profile = (if profile = ''deterministic'' then [] else get_provider_chain profile)"

lemma same_accounts:
  assumes "same_books a b"
  shows "og_history a = og_history b" "og_total_cost a = og_total_cost b" "og_call_count a = og_call_count b"
    "og_retry_max_attempts a = og_retry_max_attempts b"
  using assms by (simp_all add: same_books_def)

lemma complete_effect:
  "case complete io task_type preferred q (og, trace) of ((og1, trace1), r) \<Rightarrow>
     \<exists>es. trace1 = trace @ es \<and>
       asks_in_order (og_retry_max_attempts og + 1) (completion_chain (profile_of task_type preferred)) (contacted es) \<and>
       og_retry_max_attempts og1 = og_retry_max_attempts og \<and> og_call_count og1 = og_call_count og + 1 \<and>
       og_history og1 = og_history og @ [(task_type, r)] \<and> og_total_cost og1 = og_total_cost og + mr_estimated_cost r"
proof (cases "profile_of task_type preferred = ''deterministic''")
  case True
  then show ?thesis by (simp add: complete_def completion_chain_def record_model_call_def asks_nobody)
next
  case False
  obtain og1 trace1 r where
    t: "try_chain io (profile_of task_type preferred) q 0 (get_provider_chain (profile_of task_type preferred)) no_memory
          og trace = (og1, trace1, r)" by (metis prod_cases3)
  with try_chain_trace[where io = io and profile = "profile_of task_type preferred" and q = q and i = 0 and mem = no_memory
      and names = "get_provider_chain (profile_of task_type preferred)" and og = og and trace = trace]
  obtain es where "same_books og1 og" "trace1 = trace @ es"
    "asks_in_order (og_retry_max_attempts og + 1) (get_provider_chain (profile_of task_type preferred)) (contacted es)"
    by auto
  then show ?thesis using False t
    by (cases r) (auto simp: complete_def completion_chain_def record_model_call_def Let_def same_accounts
        intro!: exI[of _ es])
qed

lemma endpoint_chain: "''ollama'' \<notin> set (completion_chain ''endpoint_implementation'')"
  by (simp add: completion_chain_def get_provider_chain_def PROVIDER_CHAINS_def dget_or_def)

section \<open>Breakers\<close>

definition breaker_ok :: "provider_breaker \<Rightarrow> bool" where
  "breaker_ok b \<longleftrightarrow> pb_state b \<in> {''closed'', ''open'', ''half_open''} \<and> 0 \<le> pb_failure_count b \<and>
     0 \<le> pb_success_count_half_open b \<and> 0 < pb_failure_threshold b \<and> 0 < pb_success_threshold b \<and>
     (pb_state b = ''closed'' \<longrightarrow> pb_failure_count b < pb_failure_threshold b) \<and>
     (pb_state b = ''half_open'' \<longrightarrow> pb_success_count_half_open b < pb_success_threshold b)"

definition registry_ok :: "breaker_registry \<Rightarrow> bool" where
  "registry_ok g \<longleftrightarrow> 0 < rg_failure_threshold g \<and> 0 < rg_success_threshold g \<and>
     list_all (\<lambda>(k, b). breaker_ok b) (rg_breakers g)"

lemma breaker_ok_success: "breaker_ok b \<Longrightarrow> breaker_ok (pb_success b)"
  by (auto simp: breaker_ok_def pb_success_def Let_def)

lemma breaker_ok_failure: "breaker_ok b \<Longrightarrow> breaker_ok (pb_failure now err b)"
  by (auto simp: breaker_ok_def pb_failure_def Let_def)

lemma breaker_ok_available: "breaker_ok b \<Longrightarrow> breaker_ok (fst (pb_available now b))"
  by (auto simp: breaker_ok_def pb_available_def)

lemma breaker_ok_fresh: "registry_ok g \<Longrightarrow> breaker_ok (fresh_provider_breaker g)"
  by (auto simp: breaker_ok_def registry_ok_def fresh_provider_breaker_def)

lemma list_all_dset: "list_all (\<lambda>(k, b). P b) m \<Longrightarrow> P b \<Longrightarrow> list_all (\<lambda>(k, b). P b) (dset m k b)"
  by (induction m) auto

lemma registry_ok_put: "registry_ok g \<Longrightarrow> breaker_ok b \<Longrightarrow> registry_ok (rg_put g name b)"
  by (simp add: registry_ok_def rg_put_def list_all_dset)

lemma registry_ok_get:
  assumes "registry_ok g" shows "registry_ok (fst (rg_get g name))" "breaker_ok (snd (rg_get g name))"
proof -
  have all: "list_all (\<lambda>(k, b). breaker_ok b) (rg_breakers g)" using assms by (simp add: registry_ok_def)
  show "registry_ok (fst (rg_get g name))"
    using assms list_all_dset[OF all breaker_ok_fresh[OF assms]]
    by (auto simp: rg_get_def registry_ok_def split: option.split)
  show "breaker_ok (snd (rg_get g name))"
    using all breaker_ok_fresh[OF assms]
    by (auto simp: rg_get_def list_all_iff split: option.split dest!: dget_Some_in)
qed

lemma registry_ok_ops:
  assumes "registry_ok g"
  shows "registry_ok (fst (rg_available now g name))" "registry_ok (rg_success g name)"
    "registry_ok (rg_failure now g name err)" "registry_ok (rg_reset g name)" "registry_ok (rg_reset_all g)"
    "registry_ok (fst (rg_status f g))"
proof -
  note get = registry_ok_get[OF assms, of name]
  show "registry_ok (fst (rg_available now g name))" "registry_ok (rg_success g name)" "registry_ok (rg_failure now g name err)"
    using get by (simp_all add: rg_available_def rg_success_def rg_failure_def split_beta registry_ok_put
        breaker_ok_available breaker_ok_success breaker_ok_failure)
  show "registry_ok (rg_reset g name)" "registry_ok (rg_reset_all g)"
    using assms by (simp_all add: rg_reset_def rg_reset_all_def registry_ok_put breaker_ok_fresh)
      (simp add: registry_ok_def)
  show "registry_ok (fst (rg_status f g))"
    using assms by (auto simp: registry_ok_def rg_status_def pb_to_dict_def list_all_iff split_beta
        intro!: breaker_ok_available)
qed

text \<open>What a visit does to the registry.\<close>

lemma visit_breakers:
  "\<exists>t err. og_breakers (fst (visit io profile q i name mem og trace)) \<in>
     (let g = fst (rg_available (mo_clock io trace) (og_breakers og) name)
      in {og_breakers og, g, rg_success g name, rg_failure t g name err})"
proof (cases "dget (og_providers og) name")
  case (Some p)
  obtain p1 b where p1: "check_provider_available io p = (p1, b)" by fastforce
  obtain g ready where g: "rg_available (mo_clock io trace) (og_breakers og) name = (g, ready)" by fastforce
  obtain tr r where a: "try_attempts io name p1 q (og_retry_max_attempts og) (og_retry_base_delay og) 0 (trace @ [ReadClock])
          = (tr, r)" by fastforce
  show ?thesis by (cases r) (auto simp: visit_def Some p1 g a Let_def)
qed (simp add: visit_def Let_def)

lemma visit_registry_ok:
  assumes "registry_ok (og_breakers og)" shows "registry_ok (og_breakers (fst (visit io profile q i name mem og trace)))"
proof -
  have g: "registry_ok (fst (rg_available (mo_clock io trace) (og_breakers og) name))" using assms by (rule registry_ok_ops)
  show ?thesis using visit_breakers[of io profile q i name mem og trace] assms g
    by (auto simp: Let_def registry_ok_ops)
qed

lemma try_chain_registry_ok:
  "registry_ok (og_breakers og) \<Longrightarrow> registry_ok (og_breakers (fst (try_chain io profile q i names mem og trace)))"
proof (induction names arbitrary: i mem og trace)
  case (Cons name names)
  from visit_registry_ok[OF Cons.prems, of io profile q i name mem trace] show ?case
    by (auto simp: Cons.IH split: prod.split chain_stop.split)
qed simp

text \<open>What is done to an orchestrator, one call after another.\<close>

datatype orchestrator_call =
    Complete string string model_request
  | AskStatus
  | Reset string

fun orchestrator_step ::
    "model_io \<Rightarrow> orchestrator \<times> model_event list \<Rightarrow> orchestrator_call \<Rightarrow> orchestrator \<times> model_event list" where
  "orchestrator_step io st (Complete task_type preferred q) = fst (complete io task_type preferred q st)"
| "orchestrator_step io st AskStatus = fst (get_circuit_breaker_status io st)"
| "orchestrator_step io st (Reset name) = (reset_circuit_breaker name (fst st), snd st)"

definition accounts_ok :: "orchestrator \<times> model_event list \<Rightarrow> bool" where
  "accounts_ok st \<longleftrightarrow> (let og = fst st in registry_ok (og_breakers og) \<and> og_call_count og = length (og_history og) \<and>
     og_total_cost og = sum_list (map (mr_estimated_cost \<circ> snd) (og_history og)))"

lemma accounts_ok_step:
  assumes "accounts_ok st" shows "accounts_ok (orchestrator_step io st c)"
proof (cases c)
  case (Complete task_type preferred q)
  obtain og trace where st: "st = (og, trace)" by fastforce
  obtain og1 trace1 r where c: "complete io task_type preferred q (og, trace) = ((og1, trace1), r)" by (metis prod.collapse)
  from complete_effect[where io = io and task_type = task_type and preferred = preferred and q = q and og = og and trace = trace] c
  have "og_call_count og1 = og_call_count og + 1" "og_history og1 = og_history og @ [(task_type, r)]"
    "og_total_cost og1 = og_total_cost og + mr_estimated_cost r" by auto
  moreover have "registry_ok (og_breakers og1)"
    using try_chain_registry_ok[of og io "profile_of task_type preferred" q 0
        "get_provider_chain (profile_of task_type preferred)" no_memory trace] assms c st
    by (auto simp: complete_def accounts_ok_def Let_def record_model_call_def split: if_splits prod.splits sum.splits)
  ultimately show ?thesis using assms by (simp add: Complete st c accounts_ok_def Let_def)
next
  case AskStatus
  then show ?thesis using assms registry_ok_ops(6)[of "og_breakers (fst st)" "\<lambda>k. mo_clock io (snd st)"]
    by (auto simp: accounts_ok_def get_circuit_breaker_status_def Let_def split: prod.split)
next
  case (Reset name)
  then show ?thesis using assms by (auto simp: accounts_ok_def reset_circuit_breaker_def Let_def registry_ok_ops)
qed

lemma accounts_ok_new: "accounts_ok (new_orchestrator providers, trace)"
  by (simp add: accounts_ok_def new_orchestrator_def registry_ok_def default_registry_def new_registry_def)

interpretation orchestrated: machine "orchestrator_step io" "\<lambda>st. \<exists>providers trace. st = (new_orchestrator providers, trace)"
    accounts_ok for io
  by unfold_locales (auto simp: accounts_ok_new accounts_ok_step)
section \<open>An open breaker\<close>

definition held_open :: "model_io \<Rightarrow> string \<Rightarrow> breaker_registry \<Rightarrow> bool" where
  "held_open io name g \<longleftrightarrow> (\<exists>b. dget (rg_breakers g) name = Some b \<and> pb_state b = ''open'' \<and>
     (\<forall>t. mo_clock io t - pb_last_failure_time b < pb_recovery_timeout b))"

lemma held_open_refuses: "held_open io name g \<Longrightarrow> rg_available (mo_clock io t) g name = (g, False)"
  by (auto simp: held_open_def rg_available_def rg_get_def pb_available_def rg_put_def dset_same not_le)

lemma rg_other:
  assumes "m \<noteq> n"
  shows "held_open io n (fst (rg_available t g m)) = held_open io n g" "held_open io n (rg_success g m) = held_open io n g"
    "held_open io n (rg_failure t g m err) = held_open io n g"
  using assms by (simp_all add: held_open_def rg_available_def rg_success_def rg_failure_def rg_get_def rg_put_def
      split_beta split: option.split)

lemma visit_held_open:
  assumes "held_open io n (og_breakers og)"
  shows "held_open io n (og_breakers (fst (visit io profile q i m mem og trace)))"
    and "count_list (contacted (fst (snd (visit io profile q i m mem og trace)))) n = count_list (contacted trace) n"
proof -
  have "held_open io n (og_breakers (fst (visit io profile q i m mem og trace))) \<and>
    count_list (contacted (fst (snd (visit io profile q i m mem og trace)))) n = count_list (contacted trace) n"
  proof (cases "m = n")
    case True
    then show ?thesis using assms held_open_refuses[OF assms]
      by (simp add: visit_def Let_def split_beta split: option.split)
  next
    case False
    obtain og1 trace1 stop where v: "visit io profile q i m mem og trace = (og1, trace1, stop)" by (metis prod_cases3)
    from visit_trace[where io = io and profile = profile and q = q and i = i and name = m and mem = mem and og = og
        and trace = trace] v obtain es where "trace1 = trace @ es" "set (contacted es) \<subseteq> {m}" by auto
    moreover from this False have "n \<notin> set (contacted es)" by auto
    ultimately show ?thesis using visit_breakers[of io profile q i m mem og trace] v False assms
      by (auto simp: Let_def rg_other)
  qed
  then show "held_open io n (og_breakers (fst (visit io profile q i m mem og trace)))"
    "count_list (contacted (fst (snd (visit io profile q i m mem og trace)))) n = count_list (contacted trace) n" by simp_all
qed

lemma try_chain_held_open:
  "held_open io n (og_breakers og) \<Longrightarrow>
   count_list (contacted (fst (snd (try_chain io profile q i names mem og trace)))) n = count_list (contacted trace) n"
proof (induction names arbitrary: i mem og trace)
  case (Cons m names)
  obtain og1 trace1 stop where v: "visit io profile q i m mem og trace = (og1, trace1, stop)" by (metis prod_cases3)
  with visit_held_open[OF Cons.prems, of profile q i m mem trace]
  have "held_open io n (og_breakers og1)" "count_list (contacted trace1) n = count_list (contacted trace) n" by simp_all
  with v Cons.IH[of og1] show ?case by (cases stop) simp_all
qed simp

section \<open>Keys\<close>

definition relay :: "model_provider \<Rightarrow> model_provider" where
  "relay p = (if mp_name p = ''vastai_ollama'' then p\<lparr>mp_base_url := []\<rparr> else p)"

definition provider_named :: "orchestrator \<Rightarrow> string \<Rightarrow> model_provider option" where
  "provider_named og name = map_option relay (dget (og_providers og) name)"

definition lawful :: "model_io \<Rightarrow> model_request \<Rightarrow> orchestrator \<Rightarrow> model_event \<Rightarrow> bool" where
  "lawful io q og e =
     (case e of Sent n w \<Rightarrow> \<exists>p. provider_named og n = Some (relay p) \<and> wire_of (mo_env io) p q = Inr w | _ \<Rightarrow> True)"

lemma relay_check: "relay (fst (check_provider_available io p)) = relay p"
  by (auto simp: relay_def check_provider_available_def split: option.split)

lemma call_provider_lawful:
  assumes "provider_named og name = Some (relay p)" and "\<forall>e \<in> set trace. lawful io q og e"
  shows "\<forall>e \<in> set (fst (call_provider io name p q trace)). lawful io q og e"
  using assms by (auto simp: call_provider_def lawful_def split: sum.split)

lemma try_attempts_lawful:
  "provider_named og name = Some (relay p) \<Longrightarrow> \<forall>e \<in> set trace. lawful io q og e \<Longrightarrow>
   \<forall>e \<in> set (fst (try_attempts io name p q retries base attempt trace)). lawful io q og e"
proof (induction io name p q retries base attempt trace rule: try_attempts.induct)
  case (1 io name p q retries base attempt trace)
  obtain trace1 r where c: "call_provider io name p q trace = (trace1, r)" by fastforce
  with call_provider_lawful[OF 1(2,3)] have l: "\<forall>e \<in> set trace1. lawful io q og e" by simp
  show ?case
  proof (cases "\<exists>e. r = Inl e \<and> ec_retryable (classify_llm_provider_error e e None []) \<and> attempt < retries")
    case False
    then have "fst (try_attempts io name p q retries base attempt trace) = trace1"
      by (subst try_attempts.simps) (auto simp: c Let_def not_less split: sum.splits)
    then show ?thesis using l by simp
  next
    case True
    then obtain e where e: "r = Inl e" "ec_retryable (classify_llm_provider_error e e None [])" "attempt < retries"
      by blast
    let ?w = "Slept (max (base * 2 ^ attempt) (ec_backoff_seconds (classify_llm_provider_error e e None [])))"
    have "try_attempts io name p q retries base attempt trace =
        try_attempts io name p q retries base (attempt + 1) (trace1 @ [?w])"
      using e by (subst try_attempts.simps) (simp add: c Let_def)
    moreover have "\<forall>e \<in> set (trace1 @ [?w]). lawful io q og e" using l by (auto simp: lawful_def)
    with e have "\<forall>e \<in> set (fst (try_attempts io name p q retries base (attempt + 1) (trace1 @ [?w]))). lawful io q og e"
      by (intro 1(1)[OF c[symmetric] e(1) refl _ 1(2)]) simp_all
    ultimately show ?thesis by (simp only:)
  qed
qed

lemma visit_lawful:
  assumes "\<forall>e \<in> set trace. lawful io q og e"
  shows "\<forall>e \<in> set (fst (snd (visit io profile q i name mem og trace))). lawful io q og e"
    and "provider_named (fst (visit io profile q i name mem og trace)) = provider_named og"
proof -
  have "(\<forall>e \<in> set (fst (snd (visit io profile q i name mem og trace))). lawful io q og e) \<and>
    provider_named (fst (visit io profile q i name mem og trace)) = provider_named og"
  proof (cases "dget (og_providers og) name")
    case (Some p)
    obtain p1 b where p1: "check_provider_available io p = (p1, b)" by fastforce
    have named: "provider_named og name = Some (relay p1)"
      using relay_check[of io p] p1 Some by (simp add: provider_named_def)
    obtain g ready where g: "rg_available (mo_clock io trace) (og_breakers og) name = (g, ready)" by fastforce
    obtain tr r where a: "try_attempts io name p1 q (og_retry_max_attempts og) (og_retry_base_delay og) 0 (trace @ [ReadClock])
          = (tr, r)" by fastforce
    have clock: "\<forall>e \<in> set (trace @ [ReadClock]). lawful io q og e" using assms by (auto simp: lawful_def)
    have tr: "\<forall>e \<in> set tr. lawful io q og e"
      using try_attempts_lawful[OF named clock] a by (metis fst_conv)
    have same: "provider_named (og\<lparr>og_providers := dset (og_providers og) name p1, og_breakers := g'\<rparr>) = provider_named og"
      "provider_named (og\<lparr>og_providers := dset (og_providers og) name p1\<rparr>) = provider_named og" for g'
      using named Some by (auto simp: provider_named_def)
    have "lawful io q og ReadClock" by (simp add: lawful_def)
    with tr clock same assms show ?thesis by (cases r) (simp_all add: visit_def Some p1 g a Let_def)
  qed (simp add: visit_def assms)
  then show "\<forall>e \<in> set (fst (snd (visit io profile q i name mem og trace))). lawful io q og e"
    "provider_named (fst (visit io profile q i name mem og trace)) = provider_named og" by simp_all
qed

lemma try_chain_lawful:
  "\<forall>e \<in> set trace. lawful io q og e \<Longrightarrow>
   \<forall>e \<in> set (fst (snd (try_chain io profile q i names mem og trace))). lawful io q og e"
proof (induction names arbitrary: i mem og trace)
  case (Cons m names)
  obtain og1 trace1 stop where v: "visit io profile q i m mem og trace = (og1, trace1, stop)" by (metis prod_cases3)
  with visit_lawful[OF Cons.prems, of profile i m mem]
  have l: "\<forall>e \<in> set trace1. lawful io q og e" "provider_named og1 = provider_named og" by simp_all
  then have "lawful io q og1 = lawful io q og" by (auto simp: lawful_def fun_eq_iff split: model_event.split)
  with v l Cons.IH[of trace1 og1] show ?case by (cases stop) simp_all
qed simp

lemma lawful_key:
  assumes "lawful io q og (Sent n w)" and "wr_key w \<noteq> []"
  shows "\<exists>p. dget (og_providers og) n = Some p \<and> wr_key w = env_text (mo_env io) (mp_api_key_env p) \<and>
    (\<exists>path. wr_url w = base_url p @ path)"
proof -
  from assms(1) obtain p p0 where p: "dget (og_providers og) n = Some p0" "relay p0 = relay p" "wire_of (mo_env io) p q = Inr w"
    by (auto simp: lawful_def provider_named_def)
  from p(3) assms(2) have n: "mp_name p \<notin> {''ollama'', ''vastai_ollama''}"
    by (auto simp: wire_of_def ollama_request_def)
  with p(2) have "p0 = p" by (auto simp: relay_def split: if_splits)
  with p n show ?thesis
    by (auto simp: wire_of_def ollama_request_def openai_request_def anthropic_request_def split: if_splits)
qed
section \<open>Properties\<close>


text \<open>C33. A provider's key is sent only to the address that provider is configured with.\<close>

theorem keys_go_home:
  assumes "complete io task_type preferred q (og, []) = ((og1, trace1), r)"
    and "Sent n w \<in> set trace1" and "wr_key w \<noteq> []"
  shows "\<exists>p path. dget (og_providers og) n = Some p \<and> wr_key w = env_text (mo_env io) (mp_api_key_env p) \<and>
    wr_url w = base_url p @ path"
proof -
  have "\<forall>e \<in> set trace1. lawful io q og e"
  proof (cases "profile_of task_type preferred = ''deterministic''")
    case False
    have "\<forall>e \<in> set (fst (snd (try_chain io (profile_of task_type preferred) q 0
        (get_provider_chain (profile_of task_type preferred)) no_memory og []))). lawful io q og e"
      by (rule try_chain_lawful) simp
    with False assms(1) show ?thesis by (auto simp: complete_def Let_def split: prod.splits sum.splits)
  qed (use assms(1) in \<open>simp add: complete_def\<close>)
  with assms(2,3) lawful_key[of io q og n w] show ?thesis by blast
qed

text \<open>A provider whose breaker is open and has not recovered is not asked.\<close>

theorem open_breaker_is_respected:
  assumes "complete io task_type preferred q (og, trace) = ((og1, trace1), r)" and "held_open io n (og_breakers og)"
  shows "count_list (contacted trace1) n = count_list (contacted trace) n"
proof (cases "profile_of task_type preferred = ''deterministic''")
  case False
  with assms(1) try_chain_held_open[OF assms(2), of "profile_of task_type preferred" q 0
      "get_provider_chain (profile_of task_type preferred)" no_memory trace]
  show ?thesis by (auto simp: complete_def Let_def split: prod.splits sum.splits)
qed (use assms(1) in \<open>simp add: complete_def\<close>)

text \<open>Over any run of calls the accounts agree with the history and every breaker is sound: a closed one is below its
  threshold of failures, a half-open one below its threshold of successes.\<close>

theorem orchestrator_accounts:
  "accounts_ok (run_events (orchestrator_step io) (new_orchestrator providers, trace) calls)"
  by (rule orchestrated.run_from_start) blast

section \<open>Errors\<close>

text \<open>An error is retried only when a pause goes with it, and an error that is retried may also be left to the next
  provider.\<close>

theorem retry_policy:
  "(if ec_retryable (classify_text text code) then 1/2 \<le> ec_backoff_seconds (classify_text text code) \<and>
      ec_provider_switch_allowed (classify_text text code)
    else ec_backoff_seconds (classify_text text code) = 0) \<and> length (ec_reason (classify_text text code)) \<le> 240"
  by (simp add: classify_text_def error_class_of_def)

lemma third_failure_opens:
  assumes "registry_ok g" "rg_failure_threshold g = 3"
  shows "pb_state (pb_failure t3 e3 (pb_failure t2 e2 (pb_failure t1 e1 (fresh_provider_breaker g)))) = ''open''"
    and "pb_state (pb_failure t2 e2 (pb_failure t1 e1 (fresh_provider_breaker g))) = ''closed''"
  using assms by (simp_all add: pb_failure_def fresh_provider_breaker_def Let_def)

section \<open>A chain at work\<close>

definition demo_env :: "(string, string) dict" where
  "demo_env = [(''DEEPSEEK_API_KEY'', ''dk''), (''OPENAI_API_KEY'', ''ok'')]"

definition demo_model_io :: "wire_answer \<Rightarrow> model_io" where
  "demo_model_io answer =
     \<lparr>mo_env = demo_env, mo_answer = (\<lambda>trace w. answer), mo_clock = (\<lambda>trace. 0), mo_vast_endpoint = None, mo_odd_reply = []\<rparr>"

definition demo_orchestrator :: orchestrator where
  "demo_orchestrator = new_orchestrator (build_default_providers demo_env ''http://localhost:11434'' ''phi4-mini'' ''r1'')"

definition demo_request :: model_request where
  "demo_request = \<lparr>mq_messages = [[(''role'', ''user''), (''content'', ''hi'')]], mq_system_prompt = [], mq_max_tokens = 100,
     mq_temperature = 0, mq_json_mode = False\<rparr>"

definition demo_document :: "string \<Rightarrow> wire_answer" where
  "demo_document text =
     WireDocument (PDict [(''choices'', PList [PDict [(''message'', PDict [(''content'', PStr text)])]])])"

definition demo_complete :: "wire_answer \<Rightarrow> (orchestrator \<times> model_event list) \<times> model_result" where
  "demo_complete answer = complete (demo_model_io answer) ''chat'' [] demo_request (demo_orchestrator, [])"

lemmas demo_model_defs =
  demo_complete_def demo_document_def demo_request_def demo_orchestrator_def demo_model_io_def demo_env_def

lemma demo_provider:
  "\<exists>p. dget (og_providers demo_orchestrator) ''deepseek'' = Some p \<and> mp_name p = ''deepseek'' \<and> mp_available p \<and>
     \<not> mp_is_local p \<and> mp_api_key_env p = ''DEEPSEEK_API_KEY'' \<and> base_url p = ''https://api.deepseek.com/v1''"
  by (simp add: demo_model_defs new_orchestrator_def build_default_providers_def model_provider_of_def base_url_def
      rstrip_chars_def)

lemma demo_breakers:
  "og_breakers demo_orchestrator = default_registry" "og_retry_max_attempts demo_orchestrator = 2"
  "og_call_count demo_orchestrator = 0"
  by (simp_all add: demo_orchestrator_def new_orchestrator_def)

lemmas demo_run_defs =
  complete_def profile_of_def TASK_PROFILE_MAP_def get_provider_chain_def PROVIDER_CHAINS_def visit_def
  check_provider_available_def env_text_def dget_or_def rg_available_def rg_get_def rg_put_def rg_success_def rg_failure_def
  default_registry_def new_registry_def fresh_provider_breaker_def pb_available_def pb_success_def pb_failure_def
  try_attempts.simps call_provider_def wire_of_def openai_request_def result_of_answer_def openai_result_def
  openai_content_def metered_def py_or_def new_model_result_def record_model_call_def

lemma demo_answer:
  "(case demo_complete (demo_document text) of ((og, trace), r) \<Rightarrow>
      contacted trace = [''deepseek''] \<and> mr_text r = PStr text \<and> mr_success r = (text \<noteq> []) \<and> mr_error r = [] \<and>
      og_call_count og = 1 \<and>
      map_option pb_failure_count (dget (rg_breakers (og_breakers og)) ''deepseek'') = Some 0 \<and>
      list_ex (\<lambda>e. case e of Sent n w \<Rightarrow> n = ''deepseek'' \<and> wr_key w = ''dk'' | _ \<Rightarrow> False) trace)"
proof -
  from demo_provider obtain p where p: "dget (og_providers demo_orchestrator) ''deepseek'' = Some p"
    "mp_name p = ''deepseek''" "mp_available p" "\<not> mp_is_local p" "mp_api_key_env p = ''DEEPSEEK_API_KEY''" by blast
  show ?thesis
    by (simp add: demo_complete_def demo_run_defs p demo_breakers demo_model_io_def demo_env_def demo_document_def Let_def)
qed

text \<open>An empty reply raises nothing: it ends the chain, and the breaker counts a success.\<close>

lemma empty_reply_ends_the_chain:
  "(case demo_complete (demo_document []) of ((og, trace), r) \<Rightarrow>
      contacted trace = [''deepseek''] \<and> \<not> mr_success r \<and> mr_error r = [] \<and>
      map_option pb_failure_count (dget (rg_breakers (og_breakers og)) ''deepseek'') = Some 0)"
  using demo_answer[of "[]"] by (simp add: split_beta)

text \<open>A rejected key of one provider stops the chain: the next provider, whose key may be good, is not asked.\<close>

lemma rejected_key_class:
  "(let e = ''deepseek call failed: HTTP Error 401: Unauthorized''; c = classify_llm_provider_error e e None []
    in ec_category c = ''auth_error'' \<and> \<not> ec_retryable c \<and> \<not> ec_provider_switch_allowed c)"
  by code_simp

lemma rejected_key_stops_the_chain:
  "(case demo_complete (WireFailed ''HTTP Error 401: Unauthorized'') of ((og, trace), r) \<Rightarrow>
      contacted trace = [''deepseek''] \<and> mr_error_category r = ''auth_error'' \<and>
      list_ex (\<lambda>e. case e of Sent n w \<Rightarrow> n = ''deepseek'' \<and> wr_key w = ''dk'' | _ \<Rightarrow> False) trace)"
proof -
  from demo_provider obtain p where p: "dget (og_providers demo_orchestrator) ''deepseek'' = Some p"
    "mp_name p = ''deepseek''" "mp_available p" "\<not> mp_is_local p" "mp_api_key_env p = ''DEEPSEEK_API_KEY''" by blast
  show ?thesis using rejected_key_class
    by (simp add: demo_complete_def demo_run_defs p demo_breakers demo_model_io_def demo_env_def demo_document_def Let_def
        fallback_result_def remember_def)
qed

text \<open>The first three digits of a message are its status: a reply cut at column 401 is taken for a rejected key.\<close>

lemma column_taken_for_status:
  "ec_category (classify_llm_provider_error ''Unterminated string starting at: line 1 column 401 (char 400)'' [] None []) =
     ''auth_error''"
  by code_simp

text \<open>To ask for the status of an open breaker whose time has passed is to let the next call through.\<close>

lemma status_half_opens:
  assumes "pb_state b = ''open''" "pb_recovery_timeout b \<le> now - pb_last_failure_time b"
  shows "pb_state (fst (pb_to_dict now b)) = ''half_open''" "bv_state (snd (pb_to_dict now b)) = ''open''"
    "bv_available (snd (pb_to_dict now b))"
  using assms by (simp_all add: pb_to_dict_def pb_available_def)

text \<open>A half-open breaker lets every caller through, not one probe.\<close>

lemma half_open_admits_all: "pb_state b = ''half_open'' \<Longrightarrow> pb_available now b = (b, True)"
  by (simp add: pb_available_def)

section \<open>Witnesses\<close>

lemma keys_go_home_witness:
  "\<exists>w path. Sent ''deepseek'' w \<in> set (snd (fst (demo_complete (demo_document ''hello'')))) \<and> wr_key w = ''dk'' \<and>
     wr_url w = ''https://api.deepseek.com/v1'' @ path"
proof -
  obtain og trace r where d: "demo_complete (demo_document ''hello'') = ((og, trace), r)" by (metis prod.collapse)
  from demo_answer[of "''hello''"] d
  have "list_ex (\<lambda>e. case e of Sent n w \<Rightarrow> n = ''deepseek'' \<and> wr_key w = ''dk'' | _ \<Rightarrow> False) trace" by simp
  then obtain e where e: "e \<in> set trace" "case e of Sent n w \<Rightarrow> n = ''deepseek'' \<and> wr_key w = ''dk'' | _ \<Rightarrow> False"
    unfolding list_ex_iff by blast
  then obtain w where w: "Sent ''deepseek'' w \<in> set trace" "wr_key w = ''dk''" by (cases e rule: model_event.exhaust) auto
  from keys_go_home[OF d[unfolded demo_complete_def] w(1)] w(2) obtain p path where
    "dget (og_providers demo_orchestrator) ''deepseek'' = Some p" "wr_url w = base_url p @ path" by auto
  moreover from demo_provider obtain p0 where "dget (og_providers demo_orchestrator) ''deepseek'' = Some p0"
    "base_url p0 = ''https://api.deepseek.com/v1''" by blast
  ultimately have "wr_url w = ''https://api.deepseek.com/v1'' @ path" by simp
  with w d show ?thesis by (intro exI conjI) simp_all
qed

definition tripped_orchestrator :: orchestrator where
  "tripped_orchestrator = demo_orchestrator\<lparr>og_breakers := rg_failure 0 (rg_failure 0 (rg_failure 0 default_registry ''deepseek'' ''e'')
     ''deepseek'' ''e'') ''deepseek'' ''e''\<rparr>"

lemma open_breaker_is_respected_witness:
  "count_list (contacted (snd (fst (complete (demo_model_io (demo_document ''hello'')) ''chat'' [] demo_request (tripped_orchestrator, []))))) 
     ''deepseek'' = 0"
proof -
  have h: "held_open (demo_model_io (demo_document ''hello'')) ''deepseek'' (og_breakers tripped_orchestrator)"
    by (simp add: held_open_def tripped_orchestrator_def demo_model_io_def rg_failure_def rg_get_def rg_put_def default_registry_def
        new_registry_def fresh_provider_breaker_def pb_failure_def Let_def)
  obtain og1 trace1 r where
    c: "complete (demo_model_io (demo_document ''hello'')) ''chat'' [] demo_request (tripped_orchestrator, []) = ((og1, trace1), r)"
    by (metis prod.collapse)
  from open_breaker_is_respected[OF c h] c show ?thesis by simp
qed

end
