(* ===== verification/Spec2Isabelle.thy ===== *)
theory Spec2Isabelle
  imports RiskTheorems Breaker RateLimit AuthGate Override A2A ParallelFiles Goap MissionTheorems
    Governor ToolSafety AuthRoutes BrainTheorems SelfMod CommitSafety LoopTheorems ContextBuild
    OrchestratorTheorems
begin

text \<open>
  A verification library for IGRIS_GPT, an agent runtime that plans missions, hands out their
  steps, decides which commands may run and keeps its state in JSON files. The library models the
  deterministic core of \<^verbatim>\<open>igris/core\<close>, \<^verbatim>\<open>igris/a2a\<close> and the authentication
  routes: what decides about commands and people, and what plans, orders and executes work.

  \<^bold>\<open>Theories and the code they model.\<close>

  \<^item> \<open>Prelude\<close>, \<open>PyStr\<close>, \<open>PyRegex\<close>, \<open>PyVal\<close>: the Python the sources use (dictionaries in
    insertion order, counters, slices, strings with \<^verbatim>\<open>shlex\<close> and \<^verbatim>\<open>pathlib\<close>,
    backtracking regular expressions, JSON values with Python's truth and equality) and the two
    shared interfaces: \<open>machine\<close>, a step function with an invariant, and \<open>keyed_store\<close>, a directory
    with a file per key.
  \<^item> \<open>Redaction\<close>: \<^verbatim>\<open>redaction.py\<close> and the text part of \<^verbatim>\<open>safety.py\<close>.
  \<^item> \<open>RiskParse\<close>, \<open>RiskPolicy\<close>, \<open>RiskEngine\<close>, \<open>RiskTheorems\<close>:
    \<^verbatim>\<open>command_risk_engine.py\<close>. A command is parsed and classified, reviewed by a model whose
    answer is a parameter, met with prechecks, host bounds and the environment's policy, decided,
    explained and logged; templates are rendered into commands.
  \<^item> \<open>Delegation\<close>, \<open>AuthGate\<close>, \<open>Override\<close>, \<open>RateLimit\<close>, \<open>Breaker\<close>:
    \<^verbatim>\<open>delegation_keys.py\<close>, \<^verbatim>\<open>authorization_gate.py\<close>, \<^verbatim>\<open>gate_override.py\<close>,
    \<^verbatim>\<open>user_rate_limiter.py\<close>, \<^verbatim>\<open>memory_circuit_breaker.py\<close>. The gate uses the keys through
    the locale \<open>key_verifier\<close>.
  \<^item> \<open>Window\<close>: counting events in a sliding window, shared by \<open>RateLimit\<close> and
    \<open>SafePolicy\<close>: \<^verbatim>\<open>safe_policy.py\<close> and \<^verbatim>\<open>layers/execution/safe_commands.py\<close>.
  \<^item> \<open>Approval\<close>: \<^verbatim>\<open>risk_classifier.py\<close>, and \<open>Rollback\<close>:
    \<^verbatim>\<open>rollback_manager.py\<close>, used by \<open>ToolRuntime\<close> and \<open>ToolSafety\<close>:
    \<^verbatim>\<open>tool_runtime.py\<close>, whose child processes are a parameter that may change the files.
  \<^item> \<open>Identity\<close>: \<^verbatim>\<open>identity_resolver.py\<close>, used by \<open>ActionGuard\<close>:
    \<^verbatim>\<open>action_guard.py\<close>, \<^verbatim>\<open>interlocutor_audit.py\<close>, \<^verbatim>\<open>authorization.py\<close> and the
    guard of \<^verbatim>\<open>agent_reasoning_loop.py\<close>.
  \<^item> \<open>Credentials\<close>, \<open>Sessions\<close>: \<^verbatim>\<open>interlocutor_auth.py\<close>, three stores of the same form,
    composed in \<open>AuthRoutes\<close>: \<^verbatim>\<open>api/routes/auth_routes.py\<close>.
  \<^item> \<open>Governor\<close>: \<^verbatim>\<open>teacher_governor.py\<close> and \<^verbatim>\<open>outcome_router.py\<close>.
  \<^item> \<open>A2A\<close>: \<^verbatim>\<open>a2a/task_store.py\<close>.
  \<^item> \<open>Parallel\<close>, \<open>ParallelFiles\<close>: \<^verbatim>\<open>parallel_task_runner.py\<close>; the coroutines of a wave are
    an inductive step relation over the locks they hold.
  \<^item> \<open>Goap\<close>: \<^verbatim>\<open>goap_planner.py\<close>.
  \<^item> \<open>Dedup\<close>: \<^verbatim>\<open>anti_loop.py\<close> and \<^verbatim>\<open>semantic_dedup.py\<close>, used by
    \<open>TaskEngine\<close>: \<^verbatim>\<open>task_engine.py\<close> with \<^verbatim>\<open>models/task.py\<close>, used by
    \<open>MissionPlanner\<close>: \<^verbatim>\<open>mission_planner.py\<close>, used by
    \<open>MissionControl\<close> and \<open>MissionTheorems\<close>: \<^verbatim>\<open>mission_controller.py\<close>.
  \<^item> \<open>PyText\<close> (searching, splitting and printing), \<open>BrainPlan\<close>, \<open>BrainRun\<close>,
    \<open>BrainTheorems\<close>: the pipeline under \<^verbatim>\<open>agent/mission\<close>, from understanding a request through its
    actions, their evidence and the two gates to the final response.
  \<^item> \<open>SelfMod\<close>: \<^verbatim>\<open>self_modification_gate.py\<close>; \<open>CommitSafety\<close>:
    \<^verbatim>\<open>commit_safety.py\<close> and \<^verbatim>\<open>acceptance_gate.py\<close>.
  \<^item> \<open>AgentAction\<close>: the actions a model may ask for, the roles and their contracts; \<open>MicroStep\<close>:
    \<^verbatim>\<open>micro_step_planner.py\<close>; \<open>EditTools\<close>, \<open>EditTheorems\<close>: the edits of
    \<^verbatim>\<open>agent_loop_edit_mixin.py\<close> over the tool runtime; \<open>CodeNav\<close>:
    \<^verbatim>\<open>code_navigation.py\<close>; \<open>Compactor\<close>: \<^verbatim>\<open>tool_output_compactor.py\<close> and
    \<^verbatim>\<open>tool_result_budget.py\<close>.
  \<^item> \<open>LoopState\<close>, \<open>LoopStep\<close>, \<open>LoopRun\<close>, \<open>LoopTheorems\<close>:
    \<^verbatim>\<open>agent_reasoning_loop.py\<close> with its checkpoint. A step runs the operations of the theories
    before; what it is given from outside, the model's reply, the system's answers, the signal to stop, is one
    record.
  \<^item> \<open>ContextWeights\<close>, \<open>ContextBuild\<close>: \<^verbatim>\<open>context_section_weighter.py\<close> and
    \<^verbatim>\<open>context_manager.py\<close>, what a model is shown of a run.
  \<^item> \<open>ModelCalls\<close>, \<open>Orchestrator\<close>, \<open>OrchestratorTheorems\<close>:
    \<^verbatim>\<open>llm_error_classifier.py\<close> and \<^verbatim>\<open>model_orchestrator.py\<close>. The services and the clock are
    functions of the trace of what was done so far.

  \<^bold>\<open>State.\<close> A component's state is a record with the code's fields, or, where the code reloads a
  file in every operation, the directory itself, a dictionary from key to record. An operation
  takes the state and returns the new one with its result; exceptions are the left side of a sum,
  a missing file or record is \<open>None\<close>. The clock, random codes, new ids, password hashes and the
  answers of a language model are arguments. Several operations in a row are \<open>run_events\<close> of a step
  function over a datatype of requests, and every such step function is an interpretation of
  \<open>machine\<close> whose invariant the safety properties use.

  \<^bold>\<open>What the lemmas show.\<close> For each component that every operation keeps its invariant
  (the step lemmas and the interpretation), what an operation does on every branch (the shape
  lemmas), and from these the properties: no command is allowed that the deterministic rules do not
  clear, the model's review only raises risk, the log is append-only; keys and codes are used once;
  the rate window holds, and the pruning limiter answers as one that remembers everything; the tools
  start only permitted commands and a file write can be undone; passwords cannot be guessed, a logout
  is final, and an account made over the web can do nothing sensitive; running tasks never share a file and waves end; plans can be executed; a
  restart of the task engine loses nothing; a mission step is not handed out twice and a mission
  whose steps succeed ends. Of the reasoning loop: a step touches files only behind all its guards, an edit
  changes one stretch of one file, a run is bounded in steps and failures, searches and reads stay in the
  project, and what a model is shown keeps its budgets. Some properties state what the code does against its intention; they are the
  findings of the manifest.

  \<^bold>\<open>Bounds.\<close> Recursion over fuel occurs in the waves of \<open>Parallel\<close>
  (one more than the number of tasks, since every wave but the last removes a task) and in the greedy
  search of \<open>Goap\<close> (the source's own bound on steps). Every other definition is total by
  structural recursion or a measure.

  \<^bold>\<open>Abstractions.\<close> Strings hold code points below 256. Floats are exact rationals. Locks of
  threads are left out where an operation holds one lock throughout. Log messages, telemetry and
  sentences for people are left out where nothing reads them, and reduced to the data they print
  otherwise.

  \<^bold>\<open>Not modelled.\<close> Everything whose behaviour is that of git, GitHub, an HTTP service, a model or
  SQLite: the gateways, the chat, voice and web layers, the memory retrieval, the supervisor's loops.
  Of the modelled files the manifest names the operations left out. The stores of decisions and lessons, the
  scoring of the memory and the observers of the mission brain are statistics that no modelled decision reads.
\<close>

end
